(* ===== verification/Prelude.thy ===== *)
theory Prelude
  imports Main "HOL-Library.Word" "HOL-Library.Sublist" "HOL-Library.Char_ord"
    "HOL-Library.List_Lexorder"
begin

text \<open>
  Shared vocabulary of the development: the two-valued results of Go functions that return
  \<open>(T, error)\<close>, fixed-size byte arrays \<open>[N]byte\<close>, and the list operations behind
  \<open>strings.Split\<close>, \<open>strings.Join\<close> and \<open>strings.Cut\<close>, with the lemmas on them that
  several components need. A Go \<open>string\<close> and a Go \<open>[]byte\<close> are both a list of bytes and
  are modelled by \<^typ>\<open>string\<close> (\<^typ>\<open>char\<close> is an 8-bit value).
\<close>

named_theorems go_defs \<open>unfolding equations of the small validators\<close>
named_theorems go_intro \<open>facts that establish well-formedness of constructed values\<close>

subsection \<open>Results\<close>

text \<open>A Go result \<open>(T, error)\<close>: \<open>Inl\<close> carries the error, \<open>Inr\<close> the value.\<close>

type_synonym ('e, 'a) result = "'e + 'a"

definition is_ok :: "('e, 'a) result \<Rightarrow> bool" where
  "is_ok r \<longleftrightarrow> (case r of Inl _ \<Rightarrow> False | Inr _ \<Rightarrow> True)"

definition bindE :: "('e, 'a) result \<Rightarrow> ('a \<Rightarrow> ('e, 'b) result) \<Rightarrow> ('e, 'b) result" where
  "bindE r k = (case r of Inl e \<Rightarrow> Inl e | Inr v \<Rightarrow> k v)"

definition map_error :: "'f \<Rightarrow> ('e, 'a) result \<Rightarrow> ('f, 'a) result" where
  "map_error f r = (case r of Inl _ \<Rightarrow> Inl f | Inr v \<Rightarrow> Inr v)"

lemma is_ok_simps [simp]: "is_ok (Inr v)" "\<not> is_ok (Inl e)"
  by (simp_all add: is_ok_def)

lemma is_ok_iff: "is_ok r \<longleftrightarrow> (\<exists>v. r = Inr v)"
  by (cases r) simp_all

lemma bindE_simps [simp]: "bindE (Inl e) k = Inl e" "bindE (Inr v) k = k v"
  by (simp_all add: bindE_def)

lemma bindE_Inr_iff: "bindE r k = Inr w \<longleftrightarrow> (\<exists>v. r = Inr v \<and> k v = Inr w)"
  by (cases r) simp_all

lemma map_error_simps [simp]: "map_error f (Inl e) = Inl f" "map_error f (Inr v) = Inr v"
  by (simp_all add: map_error_def)

lemma map_error_Inr_iff [simp]: "map_error f r = Inr v \<longleftrightarrow> r = Inr v"
  by (cases r) simp_all

lemma if_Inl_Inr_iff [simp]:
  "(if c then Inl e else r) = Inr v \<longleftrightarrow> \<not> c \<and> r = Inr v"
  by simp

subsection \<open>Fixed-size byte arrays\<close>

text \<open>
  \<open>[N]byte\<close> is the type of byte strings of length \<open>N\<close>. \<open>go_array\<close> is the idiom
  \<open>var a [N]byte; copy(a[:], bs)\<close>: at most \<open>N\<close> bytes are copied and the rest stays zero;
  \<open>go_array []\<close> is the zero value. Arrays are comparable with \<open>==\<close> in Go and ordered
  bytewise by PostgreSQL's \<open>uuid\<close> type.
\<close>

typedef (overloaded) 'n bytearray = "{bs :: string. length bs = LENGTH('n::len)}"
  morphisms array_bytes Abs_bytearray
  by (rule exI [of _ "replicate LENGTH('n) (CHR 0x00)"]) simp

setup_lifting type_definition_bytearray

lift_definition go_array :: "string \<Rightarrow> 'n::len bytearray" is
  "\<lambda>bs. take LENGTH('n) (bs @ replicate LENGTH('n) (CHR 0x00))"
  by simp

instantiation bytearray :: (len) equal
begin

definition equal_bytearray :: "'a bytearray \<Rightarrow> 'a bytearray \<Rightarrow> bool" where
  "equal_bytearray a b \<longleftrightarrow> array_bytes a = array_bytes b"

instance
  by standard (simp add: equal_bytearray_def array_bytes_inject)

end

instantiation bytearray :: (len) linorder
begin

definition less_eq_bytearray :: "'a bytearray \<Rightarrow> 'a bytearray \<Rightarrow> bool" where
  "less_eq_bytearray a b \<longleftrightarrow> array_bytes a \<le> array_bytes b"

definition less_bytearray :: "'a bytearray \<Rightarrow> 'a bytearray \<Rightarrow> bool" where
  "less_bytearray a b \<longleftrightarrow> array_bytes a < array_bytes b"

instance
  by standard
    (auto simp: less_eq_bytearray_def less_bytearray_def array_bytes_inject less_le)

end

lemma length_array_bytes [simp]: "length (array_bytes (a :: 'n::len bytearray)) = LENGTH('n)"
  using array_bytes [of a] by simp

lemma array_bytes_go_array [simp]:
  "length bs = LENGTH('n) \<Longrightarrow> array_bytes (go_array bs :: 'n::len bytearray) = bs"
  by (simp add: go_array.rep_eq)

lemma go_array_array_bytes [simp]: "go_array (array_bytes a) = a"
  by (simp add: array_bytes_inject [symmetric])

lemma go_array_inject:
  "length bs = LENGTH('n) \<Longrightarrow> length cs = LENGTH('n) \<Longrightarrow>
    (go_array bs = (go_array cs :: 'n::len bytearray)) \<longleftrightarrow> bs = cs"
  by (metis array_bytes_go_array)

subsection \<open>Byte strings\<close>

abbreviation code :: "char \<Rightarrow> nat" where
  "code c \<equiv> of_char c"

text \<open>\<open>strings.Split(s, sep)\<close> and \<open>strings.Join(parts, sep)\<close> for a one-byte separator.\<close>

fun split_on :: "'a \<Rightarrow> 'a list \<Rightarrow> 'a list list" where
  "split_on c [] = [[]]"
| "split_on c (x # xs) =
    (if x = c then [] # split_on c xs
     else (case split_on c xs of [] \<Rightarrow> [[x]] | y # ys \<Rightarrow> (x # y) # ys))"

fun join_with :: "'a \<Rightarrow> 'a list list \<Rightarrow> 'a list" where
  "join_with c [] = []"
| "join_with c [x] = x"
| "join_with c (x # y # ys) = x @ c # join_with c (y # ys)"

text \<open>\<open>strings.Cut(s, sep)\<close> for a one-byte separator: the parts around the first \<open>sep\<close>.\<close>

fun cut_on :: "'a \<Rightarrow> 'a list \<Rightarrow> 'a list \<times> 'a list \<times> bool" where
  "cut_on c [] = ([], [], False)"
| "cut_on c (x # xs) =
    (if x = c then ([], xs, True)
     else (case cut_on c xs of (a, b, found) \<Rightarrow> (x # a, b, found)))"

lemma split_on_not_Nil [simp]: "split_on c xs \<noteq> []"
  by (induction xs) (auto split: list.splits)

lemma split_on_Nil_neq [simp]: "[] \<noteq> split_on c xs"
  using split_on_not_Nil by metis

lemma join_with_Cons: "xs \<noteq> [] \<Longrightarrow> join_with c (x # xs) = x @ c # join_with c xs"
  by (cases xs) auto

lemma join_split [simp]: "join_with c (split_on c xs) = xs"
proof (induction xs)
  case (Cons x xs)
  obtain y ys where s: "split_on c xs = y # ys"
    by (cases "split_on c xs") auto
  with Cons.IH have j: "join_with c (y # ys) = xs" by simp
  show ?case
  proof (cases "x = c")
    case True
    with s j show ?thesis by simp
  next
    case False
    with s have "split_on c (x # xs) = (x # y) # ys" by simp
    moreover have "join_with c ((x # y) # ys) = x # join_with c (y # ys)"
      by (cases ys) auto
    ultimately show ?thesis using j by simp
  qed
qed simp

lemma join_with_snoc: "xs \<noteq> [] \<Longrightarrow> join_with c (xs @ [x]) = join_with c xs @ c # x"
  by (induction c xs rule: join_with.induct) auto

lemma split_on_no_sep: "c \<notin> set xs \<Longrightarrow> split_on c xs = [xs]"
  by (induction xs) auto

lemma split_on_append:
  "c \<notin> set xs \<Longrightarrow> split_on c (xs @ c # ys) = xs # split_on c ys"
  by (induction xs) auto

lemma split_join:
  "xss \<noteq> [] \<Longrightarrow> \<forall>xs \<in> set xss. c \<notin> set xs \<Longrightarrow> split_on c (join_with c xss) = xss"
  by (induction c xss rule: join_with.induct) (auto simp: split_on_no_sep split_on_append)

lemma split_on_parts_no_sep: "xs \<in> set (split_on c s) \<Longrightarrow> c \<notin> set xs"
  by (induction s arbitrary: xs) (auto split: if_splits list.splits)

lemma split_on_snoc:
  "c \<notin> set ys \<Longrightarrow> split_on c (xs @ c # ys) = split_on c xs @ [ys]"
proof (induction xs)
  case Nil
  then show ?case by (simp add: split_on_no_sep)
next
  case (Cons x xs)
  then show ?case
    by (cases "split_on c xs") auto
qed

lemma split_on_append_sep: "split_on c (xs @ c # ys) = split_on c xs @ split_on c ys"
proof (induction xs)
  case (Cons x xs)
  then show ?case by (cases "split_on c xs") auto
qed simp

lemma join_with_append:
  "xs \<noteq> [] \<Longrightarrow> ys \<noteq> [] \<Longrightarrow> join_with c (xs @ ys) = join_with c xs @ c # join_with c ys"
  by (induction c xs rule: join_with.induct) (auto simp: join_with_Cons)

text \<open>A string extends \<open>xs @ [c]\<close> exactly when its parts strictly extend those of \<open>xs\<close>.\<close>

lemma prefix_sep_iff:
  "prefix (xs @ [c]) zs \<longleftrightarrow> strict_prefix (split_on c xs) (split_on c zs)"
proof
  assume "prefix (xs @ [c]) zs"
  then obtain ys where "zs = xs @ c # ys" by (auto simp: prefix_def)
  then show "strict_prefix (split_on c xs) (split_on c zs)"
    by (simp add: split_on_append_sep strict_prefix_def)
next
  assume "strict_prefix (split_on c xs) (split_on c zs)"
  then obtain ys where ys: "split_on c zs = split_on c xs @ ys" "ys \<noteq> []"
    by (auto simp: strict_prefix_def prefix_def)
  then have "zs = xs @ c # join_with c ys"
    using join_split [of c zs] by (simp add: join_with_append)
  then show "prefix (xs @ [c]) zs" by (auto simp: prefix_def)
qed

lemma split_on_inject: "split_on c xs = split_on c ys \<longleftrightarrow> xs = ys"
  by (metis join_split)

lemma split_on_parts_subset: "xs \<in> set (split_on c s) \<Longrightarrow> set xs \<subseteq> set s"
  by (induction s arbitrary: xs) (auto split: if_splits list.splits, fastforce+)

lemma length_join_with:
  "length (join_with c xss) = sum_list (map length xss) + (length xss - 1)"
  by (induction c xss rule: join_with.induct) auto

lemma set_join_with: "set (join_with c xss) \<subseteq> insert c (\<Union> (set ` set xss))"
  by (induction c xss rule: join_with.induct) auto

lemma cut_on_found:
  "cut_on c xs = (a, b, True) \<longleftrightarrow> xs = a @ c # b \<and> c \<notin> set a"
proof (induction xs arbitrary: a)
  case (Cons x xs)
  then show ?case
    by (cases "cut_on c xs"; cases a) auto
qed auto

lemma cut_on_not_found:
  "cut_on c xs = (a, b, False) \<longleftrightarrow> a = xs \<and> b = [] \<and> c \<notin> set xs"
proof (induction xs arbitrary: a)
  case (Cons x xs)
  then show ?case
    by (cases "cut_on c xs"; cases a) auto
qed auto

subsection \<open>Lists\<close>

lemma list_all_set: "list_all P xs \<longleftrightarrow> (\<forall>x \<in> set xs. P x)"
  by (simp add: list_all_iff)

lemma find_Some_set: "find P xs = Some x \<Longrightarrow> x \<in> set xs \<and> P x"
  by (induction xs) (auto split: if_splits)

lemma take_Suc_last: "xs \<noteq> [] \<Longrightarrow> butlast xs @ [last xs] = xs"
  by simp

lemma last_in_take:
  "n < length xs \<Longrightarrow> last (take (Suc n) xs) = xs ! n"
  by (simp add: take_Suc_conv_app_nth)

end
