(* ===== verification/Go_Text.thy ===== *)
theory Go_Text
  imports Prelude
begin

text \<open>
  The parts of Go's text packages the repository uses: decoding a string into runes
  (\<open>for _, r := range s\<close>, \<open>utf8.ValidString\<close>, \<open>utf8.RuneCountInString\<close>),
  \<open>unicode.IsControl\<close>, \<open>strings.TrimSpace\<close>, \<open>strings.ToLower\<close> on ASCII,
  \<open>encoding/hex\<close>, and anchored regular expressions with a derivative matcher and its
  denotation as a set of strings.
\<close>

subsection \<open>UTF-8\<close>

definition cont :: "nat \<Rightarrow> nat \<Rightarrow> char \<Rightarrow> bool" where
  "cont lo hi c \<longleftrightarrow> lo \<le> code c \<and> code c \<le> hi"

text \<open>
  The first rune of a string and its width in bytes, \<open>None\<close> where \<open>utf8.DecodeRune\<close>
  reports \<open>(RuneError, 1)\<close> for an invalid encoding. The accept ranges of the second byte
  are those of the table in package \<open>unicode/utf8\<close> (no overlong forms, no surrogates, nothing
  above \<open>U+10FFFF\<close>).
\<close>

definition second_range :: "nat \<Rightarrow> nat \<times> nat" where
  "second_range b =
    (if b = 0xE0 then (0xA0, 0xBF) else if b = 0xED then (0x80, 0x9F)
     else if b = 0xF0 then (0x90, 0xBF) else if b = 0xF4 then (0x80, 0x8F) else (0x80, 0xBF))"

definition decode_rune :: "string \<Rightarrow> (nat \<times> nat) option" where
  "decode_rune s =
    (case s of [] \<Rightarrow> None
     | c0 # r0 \<Rightarrow>
       let b = code c0; lo = fst (second_range b); hi = snd (second_range b) in
       if b < 0x80 then Some (b, 1)
       else if 0xC2 \<le> b \<and> b \<le> 0xDF then
         (case r0 of c1 # _ \<Rightarrow>
            if cont lo hi c1 then Some ((b - 0xC0) * 64 + (code c1 - 0x80), 2) else None
          | _ \<Rightarrow> None)
       else if 0xE0 \<le> b \<and> b \<le> 0xEF then
         (case r0 of c1 # c2 # _ \<Rightarrow>
            if cont lo hi c1 \<and> cont 0x80 0xBF c2
            then Some ((b - 0xE0) * 4096 + (code c1 - 0x80) * 64 + (code c2 - 0x80), 3)
            else None
          | _ \<Rightarrow> None)
       else if 0xF0 \<le> b \<and> b \<le> 0xF4 then
         (case r0 of c1 # c2 # c3 # _ \<Rightarrow>
            if cont lo hi c1 \<and> cont 0x80 0xBF c2 \<and> cont 0x80 0xBF c3
            then Some ((b - 0xF0) * 262144 + (code c1 - 0x80) * 4096
                       + (code c2 - 0x80) * 64 + (code c3 - 0x80), 4)
            else None
          | _ \<Rightarrow> None)
       else None)"

lemma decode_rune_width:
  "decode_rune s = Some (r, w) \<Longrightarrow> 0 < w \<and> w \<le> length s"
  by (auto simp: decode_rune_def Let_def split: list.splits if_splits)

definition rune_error :: nat where
  "rune_error = 0xFFFD"

text \<open>The runes a \<open>range\<close> loop visits, each with the byte index it starts at.\<close>

function index_runes :: "nat \<Rightarrow> string \<Rightarrow> (nat \<times> nat) list" where
  "index_runes i s =
    (if s = [] then []
     else (case decode_rune s of
             None \<Rightarrow> (i, rune_error) # index_runes (i + 1) (tl s)
           | Some (r, w) \<Rightarrow> (i, r) # index_runes (i + w) (drop w s)))"
  by pat_completeness auto
termination
  by (relation "measure (\<lambda>(i, s). length s)") (auto dest: decode_rune_width)

declare index_runes.simps [simp del]

definition runes :: "string \<Rightarrow> nat list" where
  "runes s = map snd (index_runes 0 s)"

definition rune_count :: "string \<Rightarrow> nat" where
  "rune_count s = length (runes s)"

function utf8_valid :: "string \<Rightarrow> bool" where
  "utf8_valid s =
    (if s = [] then True
     else (case decode_rune s of None \<Rightarrow> False | Some (r, w) \<Rightarrow> utf8_valid (drop w s)))"
  by pat_completeness auto
termination
  by (relation "measure length") (auto dest: decode_rune_width)

declare utf8_valid.simps [simp del]

text \<open>\<open>unicode.IsControl\<close>: category Cc is the C0 and C1 blocks and DEL.\<close>

definition is_control :: "nat \<Rightarrow> bool" where
  "is_control r \<longleftrightarrow> r < 0x20 \<or> 0x7F \<le> r \<and> r < 0xA0"

text \<open>\<open>unicode.IsSpace\<close>: the White_Space property.\<close>

definition is_space :: "nat \<Rightarrow> bool" where
  "is_space r \<longleftrightarrow> 9 \<le> r \<and> r \<le> 13 \<or> r = 0x20 \<or> r = 0x85 \<or> r = 0xA0 \<or> r = 0x1680 \<or>
     0x2000 \<le> r \<and> r \<le> 0x200A \<or> r = 0x2028 \<or> r = 0x2029 \<or> r = 0x202F \<or> r = 0x205F \<or> r = 0x3000"

lemma index_runes_Nil [simp]: "index_runes i [] = []"
  by (simp add: index_runes.simps)

lemma utf8_valid_Nil [simp]: "utf8_valid []"
  by (simp add: utf8_valid.simps)

lemma decode_rune_ascii: "code c < 0x80 \<Longrightarrow> decode_rune (c # s) = Some (code c, 1)"
  by (simp add: decode_rune_def)

lemma index_runes_ascii [simp]:
  "code c < 0x80 \<Longrightarrow> index_runes i (c # s) = (i, code c) # index_runes (Suc i) s"
  by (simp add: index_runes.simps [of i "c # s"] decode_rune_ascii)

lemma utf8_valid_ascii_Cons [simp]: "code c < 0x80 \<Longrightarrow> utf8_valid (c # s) = utf8_valid s"
  by (simp add: utf8_valid.simps [of "c # s"] decode_rune_ascii)

lemma runes_Nil [simp]: "runes [] = []"
  by (simp add: runes_def)

lemma map_snd_index_runes: "map snd (index_runes i s) = runes s"
proof -
  have "map snd (index_runes i s) = map snd (index_runes j s)" for j
  proof (induction i s arbitrary: j rule: index_runes.induct)
    case (1 i s)
    show ?case
    proof (cases "decode_rune s")
      case None
      then show ?thesis
        using "1.IH"(1) [of "j + 1"] by (simp add: index_runes.simps [of _ s])
    next
      case (Some rw)
      then show ?thesis
        using "1.IH"(2) [of rw "fst rw" "snd rw" "j + snd rw"]
        by (cases rw) (simp add: index_runes.simps [of _ s])
    qed
  qed
  then show ?thesis by (simp add: runes_def)
qed

lemma runes_ascii_Cons [simp]: "code c < 0x80 \<Longrightarrow> runes (c # s) = code c # runes s"
  by (simp add: runes_def [of "c # s"] map_snd_index_runes)

lemma ascii_string_runes:
  "\<forall>c \<in> set s. code c < 0x80 \<Longrightarrow> runes s = map code s \<and> utf8_valid s"
  by (induction s) auto

text \<open>A rune below \<open>0x80\<close> only ever comes from the byte of that value.\<close>

lemma decode_rune_lt_0x80:
  assumes "decode_rune (c # s) = Some (r, w)" and "r < 0x80"
  shows "code c = r \<and> w = 1"
  using assms
  by (auto simp: decode_rune_def Let_def cont_def second_range_def split: list.splits if_splits)

lemma decode_rune_high:
  "0x80 \<le> code c \<Longrightarrow> decode_rune (c # s) = Some (r, w) \<Longrightarrow> 0x80 \<le> r"
  using decode_rune_lt_0x80 [of c s r w] by linarith

text \<open>
  The validators loop over runes but only admit ASCII ones; such a loop is the same as one over
  bytes. \<open>P\<close> sees the byte index and the rune.
\<close>

lemma index_runes_all_ascii:
  assumes "\<And>i r. P i r \<Longrightarrow> r < 0x80"
  shows "(\<forall>(i, r) \<in> set (index_runes k s). P i r) \<longleftrightarrow> (\<forall>i < length s. P (k + i) (code (s ! i)))"
proof (induction s arbitrary: k)
  case (Cons c s)
  show ?case
  proof (cases "code c < 0x80")
    case True
    with Cons [of "Suc k"] show ?thesis
      by (auto simp: less_Suc_eq_0_disj)
  next
    case False
    have "\<not> (\<forall>(i, r) \<in> set (index_runes k (c # s)). P i r)"
    proof (cases "decode_rune (c # s)")
      case None
      then show ?thesis
        using assms [of k rune_error]
        by (auto simp: index_runes.simps [of k "c # s"] rune_error_def)
    next
      case (Some rw)
      obtain r w where rw: "rw = (r, w)" by (cases rw)
      with Some False have "\<not> r < 0x80" using decode_rune_high [of c s r w] by auto
      with Some rw assms [of k r] show ?thesis
        by (auto simp: index_runes.simps [of k "c # s"])
    qed
    moreover have "\<not> P (k + 0) (code ((c # s) ! 0))"
      using False assms [of k "code c"] by auto
    ultimately show ?thesis by blast
  qed
qed simp

subsection \<open>Trimming and case\<close>

text \<open>\<open>utf8.DecodeLastRuneInString\<close>: the last rune and its width, \<open>(RuneError, 1)\<close> when the
  final bytes are not the end of a valid encoding.\<close>

fun rune_start :: "char \<Rightarrow> bool" where
  "rune_start c = (code c div 64 \<noteq> 2)"

fun last_rune_start :: "nat \<Rightarrow> string \<Rightarrow> nat \<Rightarrow> nat" where
  "last_rune_start 0 s start = start"
| "last_rune_start (Suc k) s start =
    (if start = 0 then 0
     else if rune_start (s ! (start - 1)) then start - 1 else last_rune_start k s (start - 1))"

definition decode_last_rune :: "string \<Rightarrow> nat \<times> nat" where
  "decode_last_rune s =
    (let n = length s; b = code (last s) in
     if s = [] then (rune_error, 0)
     else if b < 0x80 then (b, 1)
     else let start = (if rune_start (s ! (n - 1)) then n - 1 else last_rune_start 3 s (n - 1)) in
       (case decode_rune (drop start s) of
          Some (r, w) \<Rightarrow> if start + w = n then (r, w) else (rune_error, 1)
        | None \<Rightarrow> (rune_error, 1)))"

function trim_left_space :: "string \<Rightarrow> string" where
  "trim_left_space s =
    (case decode_rune s of
       Some (r, w) \<Rightarrow> if is_space r then trim_left_space (drop w s) else s
     | None \<Rightarrow> s)"
  by pat_completeness auto
termination
  by (relation "measure length") (auto dest: decode_rune_width)

function trim_right_space :: "string \<Rightarrow> string" where
  "trim_right_space s =
    (if s = [] then []
     else if is_space (fst (decode_last_rune s))
       then trim_right_space (take (length s - max 1 (snd (decode_last_rune s))) s) else s)"
  by pat_completeness auto
termination
  by (relation "measure length") auto

declare trim_left_space.simps [simp del] trim_right_space.simps [simp del]

definition trim_space :: "string \<Rightarrow> string" where
  "trim_space s = trim_right_space (trim_left_space s)"

lemma trim_left_space_id:
  "code c < 0x80 \<Longrightarrow> \<not> is_space (code c) \<Longrightarrow> trim_left_space (c # s) = c # s"
  by (simp add: trim_left_space.simps [of "c # s"] decode_rune_ascii)

lemma trim_right_space_id:
  assumes "s \<noteq> []" "code (last s) < 0x80" "\<not> is_space (code (last s))"
  shows "trim_right_space s = s"
proof -
  have "decode_last_rune s = (code (last s), 1)"
    using assms by (simp add: decode_last_rune_def Let_def)
  with assms show ?thesis
    by (simp add: trim_right_space.simps [of s])
qed

lemma trim_space_id:
  assumes "s \<noteq> []" "code (hd s) < 0x80" "\<not> is_space (code (hd s))"
    "code (last s) < 0x80" "\<not> is_space (code (last s))"
  shows "trim_space s = s"
proof -
  obtain c t where s: "s = c # t" using assms(1) by (cases s) auto
  with assms have "trim_left_space s = s" by (simp add: trim_left_space_id)
  with assms trim_right_space_id [of s] show ?thesis by (simp add: trim_space_def)
qed

text \<open>\<open>strings.ToLower\<close> on ASCII letters; other bytes are kept. The code applies it to values it
  only accepts when they are hexadecimal or ASCII.\<close>

definition to_lower_char :: "char \<Rightarrow> char" where
  "to_lower_char c = (if 65 \<le> code c \<and> code c \<le> 90 then char_of (code c + 32) else c)"

definition to_lower :: "string \<Rightarrow> string" where
  "to_lower s = map to_lower_char s"

subsection \<open>Character classes\<close>

definition is_digit :: "char \<Rightarrow> bool" where
  "is_digit c \<longleftrightarrow> 48 \<le> code c \<and> code c \<le> 57"

definition is_lower :: "char \<Rightarrow> bool" where
  "is_lower c \<longleftrightarrow> 97 \<le> code c \<and> code c \<le> 122"

definition is_upper :: "char \<Rightarrow> bool" where
  "is_upper c \<longleftrightarrow> 65 \<le> code c \<and> code c \<le> 90"

definition is_lower_alnum :: "char \<Rightarrow> bool" where
  "is_lower_alnum c \<longleftrightarrow> is_lower c \<or> is_digit c"

lemmas char_class_defs = is_digit_def is_lower_def is_upper_def is_lower_alnum_def

lemma is_lower_alnum_ascii: "is_lower_alnum c \<Longrightarrow> code c < 0x80"
  by (auto simp: char_class_defs)

lemma is_lower_alnum_not_space: "is_lower_alnum c \<Longrightarrow> \<not> is_space (code c)"
  by (auto simp: char_class_defs is_space_def)

lemma is_lower_alnum_not_slash [simp]: "\<not> is_lower_alnum (CHR ''/'')"
  by (simp add: char_class_defs)

subsection \<open>Hexadecimal\<close>

definition hex_digit :: "nat \<Rightarrow> char" where
  "hex_digit n = ''0123456789abcdef'' ! n"

text \<open>\<open>hex.EncodeToString\<close>.\<close>

fun hex_encode :: "string \<Rightarrow> string" where
  "hex_encode [] = []"
| "hex_encode (c # cs) = hex_digit (code c div 16) # hex_digit (code c mod 16) # hex_encode cs"

text \<open>\<open>hex.DecodeString\<close>: both letter cases are accepted, odd length and other bytes are errors.\<close>

definition hex_value :: "char \<Rightarrow> nat option" where
  "hex_value c =
    (if 48 \<le> code c \<and> code c \<le> 57 then Some (code c - 48)
     else if 97 \<le> code c \<and> code c \<le> 102 then Some (code c - 87)
     else if 65 \<le> code c \<and> code c \<le> 70 then Some (code c - 55) else None)"

fun hex_decode :: "string \<Rightarrow> string option" where
  "hex_decode [] = Some []"
| "hex_decode [c] = None"
| "hex_decode (c # d # cs) =
    (case (hex_value c, hex_value d, hex_decode cs) of
       (Some h, Some l, Some bs) \<Rightarrow> Some (char_of (h * 16 + l) # bs)
     | _ \<Rightarrow> None)"

lemma hex_digit_cases:
  "n < 16 \<Longrightarrow> hex_digit n = char_of (if n < 10 then 48 + n else 87 + n)"
proof -
  assume "n < 16"
  then have "n \<in> {0..<16}" by simp
  moreover have "\<forall>n \<in> {0..<16::nat}. hex_digit n = char_of (if n < 10 then 48 + n else 87 + n)"
    unfolding hex_digit_def by code_simp
  ultimately show ?thesis by blast
qed

lemma code_hex_digit:
  "n < 16 \<Longrightarrow> code (hex_digit n) = (if n < 10 then 48 + n else 87 + n)"
  by (simp add: hex_digit_cases of_char_of)

lemma hex_value_digit: "n < 16 \<Longrightarrow> hex_value (hex_digit n) = Some n"
  by (auto simp: hex_value_def code_hex_digit)

lemma length_hex_encode [simp]: "length (hex_encode bs) = 2 * length bs"
  by (induction bs) auto

lemma code_less_256 [simp]: "code c < 256"
  by (rule nat_of_char_less_256)

lemma hex_decode_encode [simp]: "hex_decode (hex_encode bs) = Some bs"
proof (induction bs)
  case (Cons c cs)
  have "code c div 16 < 16" using code_less_256 [of c] by (simp add: less_mult_imp_div_less)
  with Cons show ?case by (simp add: hex_value_digit)
qed simp

lemma hex_encode_inject: "hex_encode xs = hex_encode ys \<Longrightarrow> xs = ys"
  by (metis hex_decode_encode option.inject)

lemma hex_encode_append [simp]: "hex_encode (xs @ ys) = hex_encode xs @ hex_encode ys"
  by (induction xs) auto

lemma hex_decode_length: "hex_decode s = Some bs \<Longrightarrow> length s = 2 * length bs"
  by (induction s arbitrary: bs rule: hex_decode.induct) (auto split: option.splits)

definition lower_hex :: "char \<Rightarrow> bool" where
  "lower_hex c \<longleftrightarrow> is_digit c \<or> 97 \<le> code c \<and> code c \<le> 102"

lemma lower_hex_digit: "n < 16 \<Longrightarrow> lower_hex (hex_digit n)"
  by (simp add: lower_hex_def is_digit_def code_hex_digit)

lemma hex_encode_lower: "c \<in> set (hex_encode bs) \<Longrightarrow> lower_hex c"
proof (induction bs)
  case (Cons b bs)
  have "code b div 16 < 16" using code_less_256 [of b] by (simp add: less_mult_imp_div_less)
  with Cons show ?case by (auto simp: lower_hex_digit)
qed simp

lemma hex_value_not_upper:
  assumes "hex_value c = Some h" and "\<not> is_upper c"
  shows "h < 16 \<and> hex_digit h = c"
proof -
  have "h < 16 \<and> (if h < 10 then 48 + h else 87 + h) = code c"
    using assms by (auto simp: hex_value_def is_upper_def split: if_splits)
  then have h: "h < 16" and c: "code c = (if h < 10 then 48 + h else 87 + h)" by auto
  from h have "hex_digit h = char_of (code c)" unfolding c by (rule hex_digit_cases)
  with h show ?thesis by simp
qed

text \<open>On strings without capital letters decoding is the inverse of encoding.\<close>

lemma hex_encode_decode:
  "hex_decode s = Some bs \<Longrightarrow> \<forall>c \<in> set s. \<not> is_upper c \<Longrightarrow> hex_encode bs = s"
proof (induction s arbitrary: bs rule: hex_decode.induct)
  case (3 c d cs)
  from "3.prems"(1) obtain h l rest where
    h: "hex_value c = Some h" and l: "hex_value d = Some l" and r: "hex_decode cs = Some rest"
    and bs: "bs = char_of (h * 16 + l) # rest"
    by (auto split: option.splits)
  from h "3.prems"(2) have c: "h < 16" "hex_digit h = c"
    using hex_value_not_upper by auto
  from l "3.prems"(2) have d: "l < 16" "hex_digit l = d"
    using hex_value_not_upper by auto
  from c d have code: "code (char_of (h * 16 + l) :: char) = h * 16 + l"
    by (simp add: of_char_of)
  from 3 h l r have "hex_encode rest = cs" by simp
  with bs code c d show ?case by simp
qed auto

lemma to_lower_fixed_iff: "to_lower s = s \<longleftrightarrow> (\<forall>c \<in> set s. \<not> is_upper c)"
proof -
  have "to_lower_char c = c \<longleftrightarrow> \<not> is_upper c" for c
  proof -
    have "code (char_of (code c + 32) :: char) = code c + 32" if "code c \<le> 90"
      using that by (simp add: of_char_of)
    then have "(char_of (code c + 32) :: char) \<noteq> c" if "code c \<le> 90"
      using that by (metis add_eq_self_zero zero_neq_numeral)
    then show ?thesis by (auto simp: to_lower_char_def is_upper_def)
  qed
  then show ?thesis by (simp add: to_lower_def map_idI list_eq_iff_nth_eq all_set_conv_all_nth)
qed

end
