(* ===== verification/Go_Regexp.thy ===== *)
theory Go_Regexp
  imports Go_Text
begin

text \<open>
  Anchored regular expressions. Every pattern of the repository has the form \<open>^...$\<close> and is built
  from ASCII classes, so matching the runes of a string and matching its bytes agree (no byte of a
  multi-byte or invalid encoding is in an ASCII class). \<open>matches\<close> is an executable derivative
  matcher; \<open>lang\<close> is the language of an expression; \<open>matches_lang\<close> relates them, and the last
  lemmas give the languages of the shapes the patterns are made of.
\<close>

datatype rx = Zero | One | Cls "char \<Rightarrow> bool" | Seq rx rx | Alt rx rx | Star rx

inductive_set star :: "string set \<Rightarrow> string set" for A :: "string set" where
  star_Nil [intro!, simp]: "[] \<in> star A"
| star_append: "u \<in> A \<Longrightarrow> v \<in> star A \<Longrightarrow> u @ v \<in> star A"

fun lang :: "rx \<Rightarrow> string set" where
  "lang Zero = {}"
| "lang One = {[]}"
| "lang (Cls p) = {[c] | c. p c}"
| "lang (Seq r1 r2) = {u @ v | u v. u \<in> lang r1 \<and> v \<in> lang r2}"
| "lang (Alt r1 r2) = lang r1 \<union> lang r2"
| "lang (Star r) = star (lang r)"

fun nullable :: "rx \<Rightarrow> bool" where
  "nullable Zero = False"
| "nullable One = True"
| "nullable (Cls p) = False"
| "nullable (Seq r1 r2) = (nullable r1 \<and> nullable r2)"
| "nullable (Alt r1 r2) = (nullable r1 \<or> nullable r2)"
| "nullable (Star r) = True"

text \<open>Smart constructors keep the derivatives small.\<close>

fun seq_of :: "rx \<Rightarrow> rx \<Rightarrow> rx" where
  "seq_of Zero r = Zero"
| "seq_of One r = r"
| "seq_of q r = Seq q r"

fun alt_of :: "rx \<Rightarrow> rx \<Rightarrow> rx" where
  "alt_of Zero r = r"
| "alt_of q Zero = q"
| "alt_of q r = Alt q r"

fun deriv :: "char \<Rightarrow> rx \<Rightarrow> rx" where
  "deriv c Zero = Zero"
| "deriv c One = Zero"
| "deriv c (Cls p) = (if p c then One else Zero)"
| "deriv c (Seq r1 r2) =
    (if nullable r1 then alt_of (seq_of (deriv c r1) r2) (deriv c r2)
     else seq_of (deriv c r1) r2)"
| "deriv c (Alt r1 r2) = alt_of (deriv c r1) (deriv c r2)"
| "deriv c (Star r) = seq_of (deriv c r) (Star r)"

fun matches :: "rx \<Rightarrow> string \<Rightarrow> bool" where
  "matches r [] = nullable r"
| "matches r (c # s) = matches (deriv c r) s"

text \<open>Derived forms: \<open>x\<close>, \<open>(?:r)?\<close>, \<open>(?:r)+\<close>.\<close>

definition rx_char :: "char \<Rightarrow> rx" where
  "rx_char c = Cls (\<lambda>d. d = c)"

definition rx_opt :: "rx \<Rightarrow> rx" where
  "rx_opt r = Alt One r"

definition rx_plus :: "rx \<Rightarrow> rx" where
  "rx_plus r = Seq r (Star r)"

subsection \<open>The matcher decides the language\<close>

lemma lang_seq_of [simp]: "lang (seq_of q r) = lang (Seq q r)"
  by (cases q) auto

lemma lang_alt_of [simp]: "lang (alt_of q r) = lang (Alt q r)"
  by (cases q; cases r) auto

lemma nullable_lang: "nullable r \<longleftrightarrow> [] \<in> lang r"
  by (induction r) auto

lemma star_Cons:
  "c # s \<in> star A \<longleftrightarrow> (\<exists>u v. s = u @ v \<and> c # u \<in> A \<and> v \<in> star A)"
proof
  assume "c # s \<in> star A"
  then show "\<exists>u v. s = u @ v \<and> c # u \<in> A \<and> v \<in> star A"
    by (induction "c # s" arbitrary: c s rule: star.induct) (auto simp: append_eq_Cons_conv)
next
  assume "\<exists>u v. s = u @ v \<and> c # u \<in> A \<and> v \<in> star A"
  then obtain u v where "s = u @ v" "c # u \<in> A" "v \<in> star A" by blast
  then show "c # s \<in> star A" using star_append [of "c # u" A v] by simp
qed

lemma lang_deriv: "s \<in> lang (deriv c r) \<longleftrightarrow> c # s \<in> lang r"
proof (induction r arbitrary: s)
  case (Seq r1 r2)
  show ?case
  proof (cases "nullable r1")
    case True
    with Seq show ?thesis
      by (auto simp: nullable_lang Cons_eq_append_conv)
  next
    case False
    with Seq show ?thesis
      by (auto simp: nullable_lang Cons_eq_append_conv)
  qed
next
  case (Star r)
  then show ?case by (auto simp: star_Cons)
qed auto

theorem matches_lang: "matches r s \<longleftrightarrow> s \<in> lang r"
  by (induction s arbitrary: r) (simp_all add: nullable_lang lang_deriv)

subsection \<open>Languages of the common shapes\<close>

lemma star_Cls: "s \<in> star {[c] | c. p c} \<longleftrightarrow> (\<forall>c \<in> set s. p c)"
proof
  show "s \<in> star {[c] | c. p c} \<Longrightarrow> \<forall>c \<in> set s. p c"
    by (induction rule: star.induct) auto
next
  show "\<forall>c \<in> set s. p c \<Longrightarrow> s \<in> star {[c] | c. p c}"
  proof (induction s)
    case (Cons c s)
    then show ?case by (simp add: star_Cons)
  qed simp
qed

lemma lang_char [simp]: "lang (rx_char c) = {[c]}"
  by (simp add: rx_char_def)

lemma lang_opt [simp]: "lang (rx_opt r) = insert [] (lang r)"
  by (simp add: rx_opt_def)

lemma lang_Seq_Cls: "c # s \<in> lang (Seq (Cls p) r) \<longleftrightarrow> p c \<and> s \<in> lang r"
proof
  have "c # s = [c] @ s" by simp
  then show "p c \<and> s \<in> lang r \<Longrightarrow> c # s \<in> lang (Seq (Cls p) r)"
    unfolding lang.simps by blast
qed auto

lemma lang_Seq_snoc: "s @ [c] \<in> lang (Seq r (Cls p)) \<longleftrightarrow> s \<in> lang r \<and> p c"
proof
  show "s \<in> lang r \<and> p c \<Longrightarrow> s @ [c] \<in> lang (Seq r (Cls p))"
    unfolding lang.simps by blast
qed auto

lemma lang_plus_Cls: "s \<in> lang (rx_plus (Cls p)) \<longleftrightarrow> s \<noteq> [] \<and> (\<forall>c \<in> set s. p c)"
proof (cases s)
  case (Cons c t)
  then show ?thesis
    unfolding rx_plus_def by (simp add: lang_Seq_Cls star_Cls del: lang.simps(4))
qed (simp add: rx_plus_def)

text \<open>\<open>[p](?:[q]*[p])?\<close> with \<open>p \<subseteq> q\<close>: nonempty, all bytes in \<open>q\<close>, first and last in \<open>p\<close>.\<close>

definition rx_token :: "(char \<Rightarrow> bool) \<Rightarrow> (char \<Rightarrow> bool) \<Rightarrow> rx" where
  "rx_token p q = Seq (Cls p) (rx_opt (Seq (Star (Cls q)) (Cls p)))"

lemma lang_token:
  assumes "\<And>c. p c \<Longrightarrow> q c"
  shows "s \<in> lang (rx_token p q) \<longleftrightarrow>
    s \<noteq> [] \<and> p (hd s) \<and> p (last s) \<and> (\<forall>c \<in> set s. q c)"
proof (cases s)
  case (Cons c t)
  show ?thesis
  proof (cases t rule: rev_cases)
    case Nil
    with Cons show ?thesis using assms [of c] by (auto simp: rx_token_def)
  next
    case (snoc u d)
    with Cons show ?thesis
      using assms [of c] assms [of d]
      by (auto simp: rx_token_def star_Cls lang_Seq_Cls lang_Seq_snoc simp del: lang.simps(4))
  qed
qed (auto simp: rx_token_def)

lemma nullable_token [simp]: "\<not> nullable (rx_token p q)"
  by (simp add: rx_token_def)

text \<open>\<open>T(?:sep T)*\<close> where no word of \<open>T\<close> contains \<open>sep\<close>: every part between separators
  is a word of \<open>T\<close>.\<close>

lemma star_sep_split:
  assumes nosep: "\<And>u. u \<in> L \<Longrightarrow> c \<notin> set u"
  shows "s \<in> star {c # u | u. u \<in> L} \<longleftrightarrow>
    s = [] \<or> (\<exists>t. s = c # t \<and> (\<forall>x \<in> set (split_on c t). x \<in> L))"
proof (induction s rule: length_induct)
  case (1 s)
  show ?case
  proof (cases s)
    case (Cons d t)
    have step: "c # t \<in> star {c # u | u. u \<in> L} \<longleftrightarrow> (\<forall>x \<in> set (split_on c t). x \<in> L)"
      if "s = c # t" for t
    proof
      assume "c # t \<in> star {c # u | u. u \<in> L}"
      then obtain u v where uv: "t = u @ v" "u \<in> L" "v \<in> star {c # u | u. u \<in> L}"
        by (auto simp: star_Cons)
      have "length v < length s" using that uv(1) by simp
      with 1 uv(3) consider "v = []" | t' where "v = c # t'" "\<forall>x \<in> set (split_on c t'). x \<in> L"
        by blast
      then show "\<forall>x \<in> set (split_on c t). x \<in> L"
      proof cases
        case 1
        with uv nosep show ?thesis by (simp add: split_on_no_sep)
      next
        case 2
        with uv nosep show ?thesis by (simp add: split_on_append)
      qed
    next
      assume all: "\<forall>x \<in> set (split_on c t). x \<in> L"
      obtain u us where us: "split_on c t = u # us" by (cases "split_on c t") auto
      have u: "u \<in> L" using all us by simp
      show "c # t \<in> star {c # u | u. u \<in> L}"
      proof (cases us)
        case Nil
        have "t = u" using us Nil join_split [of c t] by simp
        with u show ?thesis using star_append [of "c # u" _ "[]"] by auto
      next
        case (Cons w ws)
        define t' where "t' = join_with c us"
        have t: "t = u @ c # t'" using us Cons join_split [of c t] by (simp add: t'_def join_with_Cons)
        have "split_on c t = u # split_on c t'" using t u nosep by (simp add: split_on_append)
        with us all have "\<forall>x \<in> set (split_on c t'). x \<in> L" by simp
        moreover have "length (c # t') < length s" using that t by simp
        ultimately have "c # t' \<in> star {c # u | u. u \<in> L}" using 1 by blast
        then show ?thesis using star_append [of "c # u" _ "c # t'"] u t by auto
      qed
    qed
    show ?thesis
    proof (cases "d = c")
      case True
      with step [of t] Cons show ?thesis by simp
    next
      case False
      with Cons show ?thesis by (auto simp: star_Cons)
    qed
  qed simp
qed

definition rx_sep_list :: "char \<Rightarrow> rx \<Rightarrow> rx" where
  "rx_sep_list c r = Seq r (Star (Seq (rx_char c) r))"

lemma lang_sep_list:
  assumes nosep: "\<And>u. u \<in> lang r \<Longrightarrow> c \<notin> set u"
  shows "s \<in> lang (rx_sep_list c r) \<longleftrightarrow> (\<forall>x \<in> set (split_on c s). x \<in> lang r)"
proof -
  have "s \<in> lang (rx_sep_list c r) \<longleftrightarrow> c # s \<in> star {c # u | u. u \<in> lang r}"
    by (auto simp: rx_sep_list_def star_Cons)
  also have "\<dots> \<longleftrightarrow> (\<forall>x \<in> set (split_on c s). x \<in> lang r)"
    using star_sep_split [of "lang r" c "c # s"] nosep by simp
  finally show ?thesis .
qed

lemma matches_token:
  assumes "\<And>c. p c \<Longrightarrow> q c"
  shows "matches (rx_token p q) s \<longleftrightarrow>
    s \<noteq> [] \<and> p (hd s) \<and> p (last s) \<and> (\<forall>c \<in> set s. q c)"
  using assms by (simp add: matches_lang lang_token)

lemma matches_sep_list:
  assumes "\<And>u. matches r u \<Longrightarrow> c \<notin> set u"
  shows "matches (rx_sep_list c r) s \<longleftrightarrow> (\<forall>x \<in> set (split_on c s). matches r x)"
  using assms by (simp add: matches_lang lang_sep_list)

end
