(* ===== verification/Sha256.thy ===== *)
theory Sha256
  imports Go_Text
begin

text \<open>
  The hash primitives of Go's standard library the repository calls, as executable
  functions on byte strings: \<open>sha256.Sum256\<close> (FIPS 180-4), \<open>hmac.New(sha256.New, key)\<close>
  (RFC 2104).
  No theorem of the development assumes collision resistance: where a digest or a tag binds data,
  the statement says exactly which equation of digests the code has checked.
\<close>

unbundle bit_operations_syntax

subsection \<open>SHA-256\<close>

type_synonym u32 = "32 word"

text \<open>
  The first 32 bits of the fractional parts of the square roots of the first 8 primes, and of the
  cube roots of the first 64.
\<close>

definition sha256_h0 :: "u32 list" where
  "sha256_h0 =
   [1779033703, 3144134277, 1013904242, 2773480762, 1359893119, 2600822924,
    528734635, 1541459225]"

definition sha256_k :: "u32 list" where
  "sha256_k =
   [1116352408, 1899447441, 3049323471, 3921009573, 961987163, 1508970993, 2453635748,
    2870763221, 3624381080, 310598401, 607225278, 1426881987, 1925078388, 2162078206,
    2614888103, 3248222580, 3835390401, 4022224774, 264347078, 604807628, 770255983,
    1249150122, 1555081692, 1996064986, 2554220882, 2821834349, 2952996808, 3210313671,
    3336571891, 3584528711, 113926993, 338241895, 666307205, 773529912, 1294757372,
    1396182291, 1695183700, 1986661051, 2177026350, 2456956037, 2730485921, 2820302411,
    3259730800, 3345764771, 3516065817, 3600352804, 4094571909, 275423344, 430227734,
    506948616, 659060556, 883997877, 958139571, 1322822218, 1537002063, 1747873779,
    1955562222, 2024104815, 2227730452, 2361852424, 2428436474, 2756734187, 3204031479,
    3329325298]"

definition rotr :: "nat \<Rightarrow> u32 \<Rightarrow> u32" where
  "rotr n x = drop_bit n x OR push_bit (32 - n) x"

text \<open>Big-endian conversions between bytes and words.\<close>

fun be_word :: "string \<Rightarrow> u32" where
  "be_word bs = foldl (\<lambda>w c. w * 256 + of_nat (code c)) 0 bs"

definition word_bytes :: "u32 \<Rightarrow> string" where
  "word_bytes w = map (\<lambda>i. char_of (unat (drop_bit (8 * i) w AND 255))) [3, 2, 1, 0]"

text \<open>The message followed by \<open>0x80\<close>, zeros up to 56 modulo 64, and the bit length in 8 bytes.\<close>

definition be64 :: "64 word \<Rightarrow> string" where
  "be64 w = map (\<lambda>i. char_of (unat (drop_bit (8 * i) w AND 255))) [7, 6, 5, 4, 3, 2, 1, 0]"

definition sha256_pad :: "string \<Rightarrow> string" where
  "sha256_pad m =
    (let n = length m in
     m @ CHR 0x80 # replicate ((119 - n mod 64) mod 64) (CHR 0x00) @ be64 (of_nat (8 * n)))"

text \<open>The message schedule, built by appending 48 words to the 16 words of a block.\<close>

definition schedule_next :: "u32 list \<Rightarrow> u32" where
  "schedule_next ws =
    (let n = length ws; w15 = ws ! (n - 15); w2 = ws ! (n - 2);
         s0 = rotr 7 w15 XOR rotr 18 w15 XOR drop_bit 3 w15;
         s1 = rotr 17 w2 XOR rotr 19 w2 XOR drop_bit 10 w2
     in ws ! (n - 16) + s0 + ws ! (n - 7) + s1)"

fun schedule_extend :: "nat \<Rightarrow> u32 list \<Rightarrow> u32 list" where
  "schedule_extend 0 ws = ws"
| "schedule_extend (Suc n) ws = schedule_extend n (ws @ [schedule_next ws])"

fun words_of :: "nat \<Rightarrow> string \<Rightarrow> u32 list" where
  "words_of 0 bs = []"
| "words_of (Suc n) bs = be_word (take 4 bs) # words_of n (drop 4 bs)"

fun sha256_round :: "u32 list \<Rightarrow> u32 \<times> u32 \<Rightarrow> u32 list" where
  "sha256_round [a, b, c, d, e, f, g, h] (k, w) =
    (let s1 = rotr 6 e XOR rotr 11 e XOR rotr 25 e;
         ch = (e AND f) XOR (NOT e AND g);
         t1 = h + s1 + ch + k + w;
         s0 = rotr 2 a XOR rotr 13 a XOR rotr 22 a;
         maj = (a AND b) XOR (a AND c) XOR (b AND c);
         t2 = s0 + maj
     in [t1 + t2, a, b, c, d + t1, e, f, g])"
| "sha256_round hs kw = hs"

definition sha256_block :: "u32 list \<Rightarrow> string \<Rightarrow> u32 list" where
  "sha256_block hs block =
    map2 (+) hs (foldl sha256_round hs (zip sha256_k (schedule_extend 48 (words_of 16 block))))"

function sha256_blocks :: "u32 list \<Rightarrow> string \<Rightarrow> u32 list" where
  "sha256_blocks hs m =
    (if m = [] then hs else sha256_blocks (sha256_block hs (take 64 m)) (drop 64 m))"
  by pat_completeness auto
termination
  by (relation "measure (\<lambda>(hs, m). length m)") auto

declare sha256_blocks.simps [simp del]

definition sha256_sum :: "string \<Rightarrow> string" where
  "sha256_sum m = concat (map word_bytes (sha256_blocks sha256_h0 (sha256_pad m)))"

lemma length_word_bytes [simp]: "length (word_bytes w) = 4"
  by (simp add: word_bytes_def)

lemma length_sha256_round [simp]: "length (sha256_round hs kw) = length hs"
  by (cases "(hs, kw)" rule: sha256_round.cases) (auto simp: Let_def)

lemma length_foldl_round [simp]: "length (foldl sha256_round hs kws) = length hs"
  by (induction kws arbitrary: hs) auto

lemma length_sha256_block [simp]: "length (sha256_block hs b) = length hs"
  by (simp add: sha256_block_def)

lemma length_sha256_blocks [simp]: "length (sha256_blocks hs m) = length hs"
proof (induction hs m rule: sha256_blocks.induct)
  case (1 hs m)
  then show ?case by (cases "m = []") (simp_all add: sha256_blocks.simps [of hs])
qed

lemma length_concat_map_word_bytes: "length (concat (map word_bytes ws)) = 4 * length ws"
  by (induction ws) auto

lemma length_sha256_sum [simp]: "length (sha256_sum m) = 32"
  unfolding sha256_sum_def length_concat_map_word_bytes by (simp add: sha256_h0_def)

subsection \<open>HMAC\<close>

definition xor_byte :: "nat \<Rightarrow> char \<Rightarrow> char" where
  "xor_byte n c = char_of (n XOR code c)"

definition hmac_sha256 :: "string \<Rightarrow> string \<Rightarrow> string" where
  "hmac_sha256 key m =
    (let k = (if length key > 64 then sha256_sum key else key);
         block = k @ replicate (64 - length k) (CHR 0x00)
     in sha256_sum (map (xor_byte 0x5c) block @ sha256_sum (map (xor_byte 0x36) block @ m)))"

lemma length_hmac_sha256 [simp]: "length (hmac_sha256 key m) = 32"
  by (simp add: hmac_sha256_def Let_def)

end
