(* ===== verification/Shared.thy ===== *)
theory Shared
  imports Go_Regexp Sha256
begin

text \<open>
  Package \<open>internal/domain/shared\<close>: the value objects every other package is built from.
  \<open>errors.go\<close> (typed errors), \<open>bounded.go\<close> (bounded text and reason codes),
  \<open>artifact_reference.go\<close>, \<open>digest.go\<close> and \<open>uuid.go\<close>. Each constructor returns \<open>Inr\<close> of
  the value or \<open>Inl\<close> of a constructor of \<open>shared_error\<close>, one per error the source returns.
\<close>

subsection \<open>Time\<close>

text \<open>
  An instant is the number of nanoseconds since January 1, year 1, 00:00:00 UTC, the zero
  \<open>time.Time\<close>; \<open>UTC()\<close> keeps the instant. A \<open>time.Duration\<close> is a number of nanoseconds.
\<close>

type_synonym Time = int
type_synonym Duration = int

abbreviation time_IsZero :: "Time \<Rightarrow> bool" where
  "time_IsZero t \<equiv> t = 0"

definition nanosecond_second :: int where
  "nanosecond_second = 1000000000"

definition unix_epoch_seconds :: int where
  "unix_epoch_seconds = 62135596800"

definition time_Unix :: "Time \<Rightarrow> int" where
  "time_Unix t = t div nanosecond_second - unix_epoch_seconds"

definition time_UnixMilli :: "Time \<Rightarrow> int" where
  "time_UnixMilli t = t div 1000000 - unix_epoch_seconds * 1000"

definition from_Unix :: "int \<Rightarrow> Time" where
  "from_Unix s = (s + unix_epoch_seconds) * nanosecond_second"

lemmas time_defs = nanosecond_second_def unix_epoch_seconds_def time_Unix_def time_UnixMilli_def
  from_Unix_def

abbreviation duration_hour :: Duration where
  "duration_hour \<equiv> 3600 * 1000000000"

abbreviation duration_minute :: Duration where
  "duration_minute \<equiv> 60 * 1000000000"

text \<open>\<open>int64\<close> addition wraps around.\<close>

definition int64_add :: "int \<Rightarrow> int \<Rightarrow> int" where
  "int64_add a b = (a + b + 2 ^ 63) mod 2 ^ 64 - 2 ^ 63"

lemma int64_add_small:
  "- (2 ^ 63) \<le> a + b \<Longrightarrow> a + b < 2 ^ 63 \<Longrightarrow> int64_add a b = a + b"
  by (simp add: int64_add_def)

subsection \<open>Errors of the package\<close>

text \<open>The two errors of the text validators \<open>optionalText\<close> and \<open>boundedSafeText\<close> of the packages.\<close>

datatype text_error = TextInvalidLengthOrEncoding | TextControlCharacter

datatype shared_error =
    BoundedInvalidMaximum | BoundedInvalidLengthOrEncoding | BoundedControlCharacter
  | ReasonInvalidLength | ReasonInvalidCharacter
  | ReferenceInvalidLength | ReferenceNamespaceAndNameRequired | ReferenceInvalidNameToken
  | ReferenceNamespaceTooLong
  | DigestExpectedCanonical | DigestUppercase | DigestInvalidValue | DigestUninitialized
  | UUIDTimeOutOfRange | UUIDRandomSource | UUIDInvalidCanonicalForm | UUIDInvalidHexadecimal
  | UUIDVersionRequired | UUIDNonCanonicalForm | UUIDUninitialized

subsection \<open>bounded.go\<close>

definition MaxBoundedStringBytes :: int where
  "MaxBoundedStringBytes = 4096"

datatype BoundedString = BoundedString (BoundedString_String: string)

definition has_control :: "string \<Rightarrow> bool" where
  "has_control value = list_ex is_control (runes value)"

definition NewBoundedString :: "string \<Rightarrow> int \<Rightarrow> (shared_error, BoundedString) result" where
  "NewBoundedString value maxBytes =
    (if maxBytes < 1 \<or> maxBytes > MaxBoundedStringBytes then Inl BoundedInvalidMaximum
     else if value = [] \<or> int (length value) > maxBytes \<or> \<not> utf8_valid value
       then Inl BoundedInvalidLengthOrEncoding
     else if has_control value then Inl BoundedControlCharacter
     else Inr (BoundedString value))"

datatype ReasonCode = ReasonCode (ReasonCode_String: string)

definition lower_alnum_rune :: "nat \<Rightarrow> bool" where
  "lower_alnum_rune r \<longleftrightarrow> 97 \<le> r \<and> r \<le> 122 \<or> 48 \<le> r \<and> r \<le> 57"

text \<open>The loop of \<open>NewReasonCode\<close>: the inner positions also admit dot, underscore and hyphen.\<close>

definition NewReasonCode :: "string \<Rightarrow> (shared_error, ReasonCode) result" where
  "NewReasonCode value =
    (if length value < 1 \<or> length value > 128 \<or> trim_space value \<noteq> value
       then Inl ReasonInvalidLength
     else if list_all
         (\<lambda>(index, character).
            lower_alnum_rune character \<or>
            (index > 0 \<and> index < length value - 1) \<and>
              (character = code (CHR ''.'') \<or> character = code (CHR ''_'') \<or> character = code (CHR ''-'')))
         (index_runes 0 value)
       then Inr (ReasonCode value)
     else Inl ReasonInvalidCharacter)"

subsection \<open>errors.go\<close>

type_synonym ErrorClass = string

abbreviation ErrorInvalid :: ErrorClass where "ErrorInvalid \<equiv> ''invalid''"
abbreviation ErrorNotFound :: ErrorClass where "ErrorNotFound \<equiv> ''not_found''"
abbreviation ErrorConflict :: ErrorClass where "ErrorConflict \<equiv> ''conflict''"
abbreviation ErrorUnauthorized :: ErrorClass where "ErrorUnauthorized \<equiv> ''unauthorized''"
abbreviation ErrorForbidden :: ErrorClass where "ErrorForbidden \<equiv> ''forbidden''"
abbreviation ErrorUnavailable :: ErrorClass where "ErrorUnavailable \<equiv> ''unavailable''"
abbreviation ErrorInternal :: ErrorClass where "ErrorInternal \<equiv> ''internal''"

text \<open>
  The errors that cross package boundaries: a \<open>*TypedError\<close> with its class and reason code, a
  plain \<open>error\<close> text, and \<open>Panicked\<close> for a call that panics instead of returning.
\<close>

datatype go_error = TypedError (typed_class: ErrorClass) (typed_code: ReasonCode)
  | PlainError string
  | Panicked

definition error_classes :: "ErrorClass list" where
  "error_classes = [ErrorInvalid, ErrorNotFound, ErrorConflict, ErrorUnauthorized, ErrorForbidden,
     ErrorUnavailable, ErrorInternal]"

definition NewTypedError :: "ErrorClass \<Rightarrow> ReasonCode \<Rightarrow> go_error" where
  "NewTypedError cls reason =
    (if cls \<notin> set error_classes then PlainError ''typed error: invalid class''
     else if ReasonCode_String reason = [] then PlainError ''typed error: reason code required''
     else TypedError cls reason)"

subsection \<open>artifact_reference.go\<close>

record ArtifactReference =
  ref_namespace :: string
  ref_name :: string

definition validNameToken :: "string \<Rightarrow> bool" where
  "validNameToken value =
    (if value = [] \<or> length value > 63 then False
     else list_all
       (\<lambda>(index, character).
          lower_alnum_rune character \<or>
          (index > 0 \<and> index < length value - 1) \<and> character = code (CHR ''-''))
       (index_runes 0 value))"

definition ParseArtifactReference :: "string \<Rightarrow> (shared_error, ArtifactReference) result" where
  "ParseArtifactReference value =
    (if length value < 3 \<or> length value > 319 then Inl ReferenceInvalidLength
     else let parts = split_on (CHR ''/'') value in
       if length parts < 2 then Inl ReferenceNamespaceAndNameRequired
       else if \<not> list_all validNameToken parts then Inl ReferenceInvalidNameToken
       else let namespace = join_with (CHR ''/'') (butlast parts) in
         if length namespace > 255 then Inl ReferenceNamespaceTooLong
         else Inr \<lparr>ref_namespace = namespace, ref_name = last parts\<rparr>)"

definition ArtifactReference_String :: "ArtifactReference \<Rightarrow> string" where
  "ArtifactReference_String reference =
    (if ref_namespace reference = [] \<or> ref_name reference = [] then []
     else ref_namespace reference @ ''/'' @ ref_name reference)"

subsection \<open>digest.go\<close>

type_synonym DigestAlgorithm = string

abbreviation SHA256 :: DigestAlgorithm where "SHA256 \<equiv> ''sha256''"

record Digest =
  digest_algorithm :: DigestAlgorithm
  digest_bytes :: "32 bytearray"

definition zero_Digest :: Digest where
  "zero_Digest = \<lparr>digest_algorithm = [], digest_bytes = go_array []\<rparr>"

definition SHA256Digest :: "string \<Rightarrow> Digest" where
  "SHA256Digest value = \<lparr>digest_algorithm = SHA256, digest_bytes = go_array (sha256_sum value)\<rparr>"

definition ParseDigest :: "string \<Rightarrow> (shared_error, Digest) result" where
  "ParseDigest value =
    (if length value \<noteq> 71 \<or> \<not> prefix ''sha256:'' value then Inl DigestExpectedCanonical
     else let hexValue = drop 7 value in
       if to_lower hexValue \<noteq> hexValue then Inl DigestUppercase
       else case hex_decode hexValue of
         None \<Rightarrow> Inl DigestInvalidValue
       | Some decoded \<Rightarrow>
           if length decoded \<noteq> 32 then Inl DigestInvalidValue
           else Inr \<lparr>digest_algorithm = SHA256, digest_bytes = go_array decoded\<rparr>)"

definition Digest_String :: "Digest \<Rightarrow> string" where
  "Digest_String digest =
    (if digest_algorithm digest \<noteq> SHA256 then []
     else ''sha256:'' @ hex_encode (array_bytes (digest_bytes digest)))"

definition Digest_MarshalText :: "Digest \<Rightarrow> (shared_error, string) result" where
  "Digest_MarshalText digest =
    (if digest_algorithm digest \<noteq> SHA256 then Inl DigestUninitialized
     else Inr (Digest_String digest))"

text \<open>\<open>UnmarshalText\<close> returns the new receiver; on an error the receiver keeps its value.\<close>

definition Digest_UnmarshalText :: "Digest \<Rightarrow> string \<Rightarrow> (shared_error option) \<times> Digest" where
  "Digest_UnmarshalText digest text =
    (case ParseDigest text of Inl e \<Rightarrow> (Some e, digest) | Inr parsed \<Rightarrow> (None, parsed))"

subsection \<open>uuid.go\<close>

type_synonym UUID = "16 bytearray"

definition UUID_String :: "UUID \<Rightarrow> string" where
  "UUID_String uid =
    (let b = array_bytes uid in
     hex_encode (take 4 b) @ ''-'' @ hex_encode (take 2 (drop 4 b)) @ ''-'' @
     hex_encode (take 2 (drop 6 b)) @ ''-'' @ hex_encode (take 2 (drop 8 b)) @ ''-'' @
     hex_encode (drop 10 b))"

text \<open>\<open>id[6]>>4 != 7 || id[8]>>6 != 2\<close>.\<close>

definition uuid_not_v7 :: "UUID \<Rightarrow> bool" where
  "uuid_not_v7 uid \<longleftrightarrow>
    code (array_bytes uid ! 6) div 16 \<noteq> 7 \<or> code (array_bytes uid ! 8) div 64 \<noteq> 2"

definition UUID_MarshalText :: "UUID \<Rightarrow> (shared_error, string) result" where
  "UUID_MarshalText uid =
    (if uuid_not_v7 uid then Inl UUIDUninitialized else Inr (UUID_String uid))"

text \<open>\<open>_, err := id.MarshalText(); err == nil\<close>, the validity test used throughout.\<close>

definition valid_uuid :: "UUID \<Rightarrow> bool" where
  "valid_uuid uid \<longleftrightarrow> is_ok (UUID_MarshalText uid)"

definition ParseUUID :: "string \<Rightarrow> (shared_error, UUID) result" where
  "ParseUUID value =
    (if length value \<noteq> 36 \<or> value ! 8 \<noteq> CHR ''-'' \<or> value ! 13 \<noteq> CHR ''-'' \<or>
        value ! 18 \<noteq> CHR ''-'' \<or> value ! 23 \<noteq> CHR ''-'' then Inl UUIDInvalidCanonicalForm
     else let compact = take 8 value @ take 4 (drop 9 value) @ take 4 (drop 14 value) @
                        take 4 (drop 19 value) @ drop 24 value in
       case hex_decode compact of
         None \<Rightarrow> Inl UUIDInvalidHexadecimal
       | Some decoded \<Rightarrow>
           let uid = go_array decoded in
           if uuid_not_v7 uid then Inl UUIDVersionRequired
           else if UUID_String uid \<noteq> value then Inl UUIDNonCanonicalForm
           else Inr uid)"

definition UUID_UnmarshalText :: "UUID \<Rightarrow> string \<Rightarrow> (shared_error option) \<times> UUID" where
  "UUID_UnmarshalText uid text =
    (case ParseUUID text of Inl e \<Rightarrow> (Some e, uid) | Inr parsed \<Rightarrow> (None, parsed))"

text \<open>
  The loop \<open>for index := 5; index >= 0; index--\<close> that stores the low byte and shifts right: \<open>n\<close>
  bytes are written in front of \<open>rest\<close>.
\<close>

fun put_millis :: "nat \<Rightarrow> int \<Rightarrow> string \<Rightarrow> string" where
  "put_millis 0 milliseconds rest = rest"
| "put_millis (Suc n) milliseconds rest =
    put_millis n (milliseconds div 256) (char_of (nat (milliseconds mod 256)) # rest)"

text \<open>
  \<open>UUIDGenerator.New\<close> with the clock reading and the bytes the random source can deliver;
  \<open>io.ReadFull\<close> fails when there are fewer than ten.
\<close>

definition UUIDGenerator_New :: "Time \<Rightarrow> string \<Rightarrow> (shared_error, UUID) result" where
  "UUIDGenerator_New now random =
    (let milliseconds = time_UnixMilli now in
     if milliseconds < 0 \<or> milliseconds > 2 ^ 48 - 1 then Inl UUIDTimeOutOfRange
     else if length random < 10 then Inl UUIDRandomSource
     else
       let filled = put_millis 6 milliseconds (take 10 random);
           b6 = char_of ((code (filled ! 6) AND 0x0f) OR 0x70);
           b8 = char_of ((code (filled ! 8) AND 0x3f) OR 0x80)
       in Inr (go_array (filled[6 := b6, 8 := b8])))"

section \<open>Correctness\<close>

subsection \<open>Token loops and regular expressions\<close>

text \<open>
  The hand-written loops over runes decide the same languages as the regular expressions other
  packages use for the same tokens.
\<close>

lemma lower_alnum_rune_code [simp]: "lower_alnum_rune (code c) \<longleftrightarrow> is_lower_alnum c"
  by (simp add: lower_alnum_rune_def char_class_defs)

lemma token_positions:
  assumes "s \<noteq> []"
  shows "(\<forall>i < length s. a (s ! i) \<or> (0 < i \<and> i < length s - 1) \<and> q (s ! i)) \<longleftrightarrow>
    a (hd s) \<and> a (last s) \<and> (\<forall>c \<in> set s. a c \<or> q c)"
    (is "?L \<longleftrightarrow> ?R")
proof
  assume L: ?L
  have "0 < length s" "length s - 1 < length s" using assms by simp_all
  with L have "a (s ! 0)" "a (s ! (length s - 1))" by blast+
  with L assms show ?R by (auto simp: hd_conv_nth last_conv_nth all_set_conv_all_nth)
next
  assume R: ?R
  show ?L
  proof (intro allI impI)
    fix i
    assume "i < length s"
    with R assms show "a (s ! i) \<or> (0 < i \<and> i < length s - 1) \<and> q (s ! i)"
      by (cases "i = 0"; cases "i = length s - 1")
        (auto simp: hd_conv_nth last_conv_nth all_set_conv_all_nth)
  qed
qed

lemma token_loop:
  assumes "s \<noteq> []" and "\<And>r. Q r \<Longrightarrow> r < 0x80"
  shows "list_all (\<lambda>(index, character).
      lower_alnum_rune character \<or> (index > 0 \<and> index < length s - 1) \<and> Q character)
      (index_runes 0 s) \<longleftrightarrow>
    matches (rx_token is_lower_alnum (\<lambda>c. is_lower_alnum c \<or> Q (code c))) s"
proof -
  let ?P = "\<lambda>i r. lower_alnum_rune r \<or> (i > 0 \<and> i < length s - 1) \<and> Q r"
  have ascii: "r < 0x80" if "?P i r" for i r
    using that assms(2) by (auto simp: lower_alnum_rune_def)
  have "list_all (\<lambda>(i, r). ?P i r) (index_runes 0 s) \<longleftrightarrow> (\<forall>i < length s. ?P i (code (s ! i)))"
    using index_runes_all_ascii [of ?P 0 s] ascii by (simp add: list_all_iff)
  also have "\<dots> \<longleftrightarrow> is_lower_alnum (hd s) \<and> is_lower_alnum (last s) \<and>
      (\<forall>c \<in> set s. is_lower_alnum c \<or> Q (code c))"
    using token_positions [of s is_lower_alnum "\<lambda>c. Q (code c)"] assms(1) by simp
  finally show ?thesis using assms(1) by (simp add: matches_token)
qed

text \<open>\<open>[a-z0-9](?:[a-z0-9-]*[a-z0-9])?\<close>, the DNS-label pattern of slugs, names and path segments.\<close>

definition rx_dns_token :: rx where
  "rx_dns_token = rx_token is_lower_alnum (\<lambda>c. is_lower_alnum c \<or> c = CHR ''-'')"

definition rx_reason_code :: rx where
  "rx_reason_code = rx_token is_lower_alnum
     (\<lambda>c. is_lower_alnum c \<or> c = CHR ''.'' \<or> c = CHR ''_'' \<or> c = CHR ''-'')"

lemma matches_dns_token:
  "matches rx_dns_token s \<longleftrightarrow> s \<noteq> [] \<and> is_lower_alnum (hd s) \<and> is_lower_alnum (last s) \<and>
    (\<forall>c \<in> set s. is_lower_alnum c \<or> c = CHR ''-'')"
  by (simp add: rx_dns_token_def matches_token)

lemma code_eq_iff: "code c = n \<longleftrightarrow> n < 256 \<and> c = char_of n"
  using nat_of_char_less_256 [of c] by (auto simp: of_char_of)

lemma code_minus [simp]: "code c = 45 \<longleftrightarrow> c = CHR ''-''"
  and code_dot [simp]: "code c = 46 \<longleftrightarrow> c = CHR ''.''"
  and code_underscore [simp]: "code c = 95 \<longleftrightarrow> c = CHR ''_''"
  by (simp_all add: code_eq_iff, code_simp+)

lemma validNameToken_regexp:
  "validNameToken value \<longleftrightarrow> length value \<le> 63 \<and> matches rx_dns_token value"
proof (cases "value = []")
  case False
  have "list_all (\<lambda>(index, character).
      lower_alnum_rune character \<or> (index > 0 \<and> index < length value - 1) \<and> character = 45)
      (index_runes 0 value) \<longleftrightarrow> matches rx_dns_token value"
    using token_loop [of "value" "\<lambda>r. r = 45"] False by (simp add: rx_dns_token_def)
  with False show ?thesis by (auto simp: validNameToken_def)
qed (simp add: validNameToken_def rx_dns_token_def)

lemma validNameToken_no_slash: "validNameToken value \<Longrightarrow> CHR ''/'' \<notin> set value"
  by (auto simp: validNameToken_regexp matches_dns_token)

lemma validNameToken_length: "validNameToken value \<Longrightarrow> 1 \<le> length value \<and> length value \<le> 63"
  by (cases "value") (auto simp: validNameToken_def split: if_splits)

subsection \<open>Reason codes\<close>

lemma NewReasonCode_iff:
  "NewReasonCode value = Inr r \<longleftrightarrow>
    r = ReasonCode value \<and> length value \<le> 128 \<and> matches rx_reason_code value"
proof (cases "value = []")
  case True
  then show ?thesis by (simp add: NewReasonCode_def rx_reason_code_def)
next
  case False
  have loop: "list_all (\<lambda>(index, character). lower_alnum_rune character \<or>
      (index > 0 \<and> index < length value - 1) \<and> (character = 46 \<or> character = 95 \<or> character = 45))
      (index_runes 0 value) \<longleftrightarrow> matches rx_reason_code value"
  proof -
    have "r < 0x80" if "r = 46 \<or> r = 95 \<or> r = 45" for r :: nat
      using that by auto
    from token_loop [of "value" "\<lambda>r. r = 46 \<or> r = 95 \<or> r = 45", OF False this] show ?thesis
      by (simp add: rx_reason_code_def)
  qed
  have trim: "trim_space value = value" if "matches rx_reason_code value"
    using that False
    by (intro trim_space_id)
      (auto simp: rx_reason_code_def matches_token is_lower_alnum_ascii is_lower_alnum_not_space)
  from loop trim False show ?thesis
    by (auto simp: NewReasonCode_def Suc_le_eq)
qed

lemma NewReasonCode_nonempty: "NewReasonCode value = Inr r \<Longrightarrow> ReasonCode_String r = value \<and> value \<noteq> []"
  by (auto simp: NewReasonCode_iff rx_reason_code_def matches_token)

text \<open>The reason codes written in the sources satisfy this test, which \<open>simp\<close> evaluates.\<close>

definition reason_literal :: "string \<Rightarrow> bool" where
  "reason_literal text \<longleftrightarrow> text \<noteq> [] \<and> length text \<le> 128 \<and>
    is_lower_alnum (hd text) \<and> is_lower_alnum (last text) \<and>
    list_all (\<lambda>c. is_lower_alnum c \<or> c = CHR ''.'' \<or> c = CHR ''_'' \<or> c = CHR ''-'') text"

lemma NewReasonCode_literal: "reason_literal text \<Longrightarrow> NewReasonCode text = Inr (ReasonCode text)"
  by (simp add: NewReasonCode_iff reason_literal_def rx_reason_code_def matches_token list_all_iff)

lemmas reason_literal_simps = reason_literal_def char_class_defs

subsection \<open>Bounded text\<close>

text \<open>
  What the packages' \<open>optionalText\<close> and \<open>boundedSafeText\<close> accept (the latter only when the text is
  not empty).
\<close>

definition text_ok :: "string \<Rightarrow> nat \<Rightarrow> bool" where
  "text_ok text maximum \<longleftrightarrow> length text \<le> maximum \<and> utf8_valid text \<and> \<not> has_control text"

lemma has_control_Nil [simp]: "\<not> has_control []"
  by (simp add: has_control_def runes_def)

lemma text_ok_Nil [simp]: "text_ok [] maximum"
  by (simp add: text_ok_def)

lemma NewBoundedString_iff:
  "NewBoundedString text maximum = Inr b \<longleftrightarrow>
    1 \<le> maximum \<and> maximum \<le> 4096 \<and> text \<noteq> [] \<and> text_ok text (nat maximum) \<and> b = BoundedString text"
  by (auto simp: NewBoundedString_def text_ok_def MaxBoundedStringBytes_def)

subsection \<open>Artifact references\<close>

lemma ParseArtifactReference_join:
  assumes ns: "CHR ''/'' \<notin> set name"
  shows "ParseArtifactReference (ns @ CHR ''/'' # name) = Inr r \<longleftrightarrow>
    r = \<lparr>ref_namespace = ns, ref_name = name\<rparr> \<and> list_all validNameToken (split_on (CHR ''/'') ns) \<and>
    validNameToken name \<and> length ns \<le> 255"
proof -
  have split: "split_on (CHR ''/'') (ns @ CHR ''/'' # name) = split_on (CHR ''/'') ns @ [name]"
    using ns by (rule split_on_snoc)
  have ns_nonempty: "ns \<noteq> []" if "list_all validNameToken (split_on (CHR ''/'') ns)"
    using that by (cases ns) (auto simp: validNameToken_def)
  have len: "3 \<le> length (ns @ CHR ''/'' # name)"
    if "list_all validNameToken (split_on (CHR ''/'') ns)" "validNameToken name"
    using ns_nonempty [OF that(1)] validNameToken_length [OF that(2)] by (cases ns) auto
  have len': "length (ns @ CHR ''/'' # name) \<le> 319" if "validNameToken name" "length ns \<le> 255"
    using validNameToken_length [OF that(1)] that(2) by simp
  have len2: "\<not> length (split_on (CHR ''/'') ns @ [name]) < 2"
    by (cases "split_on (CHR ''/'') ns") auto
  show ?thesis
    using len len' len2 unfolding ParseArtifactReference_def split Let_def
    by (auto simp: not_less not_le)
qed

lemma ParseArtifactReference_Inr:
  assumes "ParseArtifactReference value = Inr r"
  shows "value = ref_namespace r @ CHR ''/'' # ref_name r \<and>
    list_all validNameToken (split_on (CHR ''/'') (ref_namespace r)) \<and>
    validNameToken (ref_name r) \<and> length (ref_namespace r) \<le> 255"
proof -
  define parts where "parts = split_on (CHR ''/'') value"
  define ns where "ns = join_with (CHR ''/'') (butlast parts)"
  from assms have ok: "\<not> length parts < 2" "list_all validNameToken parts"
    and r: "r = \<lparr>ref_namespace = ns, ref_name = last parts\<rparr>"
    by (auto simp: ParseArtifactReference_def Let_def parts_def [symmetric] ns_def [symmetric]
        split: if_splits)
  have nonempty: "butlast parts \<noteq> []" using ok(1) by (cases parts) auto
  have noslash: "CHR ''/'' \<notin> set (last parts)"
    using split_on_parts_no_sep [of "last parts" "CHR ''/''" "value"]
    by (simp add: parts_def)
  have "value = join_with (CHR ''/'') (butlast parts @ [last parts])"
    by (simp add: parts_def)
  also have "\<dots> = ns @ CHR ''/'' # last parts"
    unfolding ns_def using nonempty by (rule join_with_snoc)
  finally have veq: "value = ns @ CHR ''/'' # last parts" .
  from assms [unfolded veq] show ?thesis
    unfolding ParseArtifactReference_join [OF noslash] by (simp add: veq)
qed

lemma ParseArtifactReference_iff:
  "ParseArtifactReference value = Inr r \<longleftrightarrow>
    value = ArtifactReference_String r \<and>
    list_all (\<lambda>s. length s \<le> 63 \<and> matches rx_dns_token s) (split_on (CHR ''/'') (ref_namespace r)) \<and>
    length (ref_name r) \<le> 63 \<and> matches rx_dns_token (ref_name r) \<and> length (ref_namespace r) \<le> 255"
  (is "?L \<longleftrightarrow> ?R")
proof
  assume ?L
  note parts = ParseArtifactReference_Inr [OF this]
  have "ref_name r \<noteq> []" using parts validNameToken_length by fastforce
  moreover have "ref_namespace r \<noteq> []"
  proof
    assume "ref_namespace r = []"
    with parts have "validNameToken []" by simp
    then show False using validNameToken_length by fastforce
  qed
  ultimately show ?R using parts
    by (simp add: ArtifactReference_String_def list_all_iff flip: validNameToken_regexp)
next
  assume ?R
  then have tokens: "validNameToken (ref_name r)" "list_all validNameToken (split_on (CHR ''/'') (ref_namespace r))"
    by (simp_all add: validNameToken_regexp list_all_iff)
  have "ref_name r \<noteq> []" "ref_namespace r \<noteq> []"
    using tokens validNameToken_length [of "ref_name r"] validNameToken_length [of "[]"] by auto
  then have shape: "value = ref_namespace r @ CHR ''/'' # ref_name r"
    using \<open>?R\<close> by (simp add: ArtifactReference_String_def)
  show ?L unfolding shape
    using ParseArtifactReference_join [OF validNameToken_no_slash [OF tokens(1)], of "ref_namespace r" r]
      tokens \<open>?R\<close> by simp
qed

subsection \<open>Digests\<close>

definition wf_digest :: "Digest \<Rightarrow> bool" where
  "wf_digest digest \<longleftrightarrow> digest_algorithm digest = SHA256"

lemma wf_digest_MarshalText: "is_ok (Digest_MarshalText digest) \<longleftrightarrow> wf_digest digest"
  by (simp add: Digest_MarshalText_def wf_digest_def)

lemma Digest_MarshalText_Inr: "Digest_MarshalText d = Inr text \<longleftrightarrow> wf_digest d \<and> text = Digest_String d"
  by (auto simp: Digest_MarshalText_def wf_digest_def)

lemma wf_SHA256Digest [simp]: "wf_digest (SHA256Digest value)"
  by (simp add: wf_digest_def SHA256Digest_def)

lemma Digest_String_inject:
  "wf_digest d \<Longrightarrow> wf_digest e \<Longrightarrow> Digest_String d = Digest_String e \<longleftrightarrow> d = e"
  by (auto simp: Digest_String_def wf_digest_def array_bytes_inject intro!: Digest.equality
      dest: hex_encode_inject)

lemma lower_hex_not_upper: "lower_hex c \<Longrightarrow> \<not> is_upper c"
  by (auto simp: lower_hex_def is_digit_def is_upper_def)

lemma ParseDigest_iff:
  "ParseDigest value = Inr d \<longleftrightarrow> wf_digest d \<and> value = Digest_String d"
proof
  assume parse: "ParseDigest value = Inr d"
  then obtain decoded where v: "value = ''sha256:'' @ drop 7 value"
    and lower: "to_lower (drop 7 value) = drop 7 value"
    and dec: "hex_decode (drop 7 value) = Some decoded" and len: "length decoded = 32"
    and d: "d = \<lparr>digest_algorithm = SHA256, digest_bytes = go_array decoded\<rparr>"
    by (auto simp: ParseDigest_def Let_def prefix_def split: if_splits option.splits)
  from dec lower have "hex_encode decoded = drop 7 value"
    using hex_encode_decode to_lower_fixed_iff by blast
  with v len d show "wf_digest d \<and> value = Digest_String d"
    by (simp add: wf_digest_def Digest_String_def)
next
  assume "wf_digest d \<and> value = Digest_String d"
  then have wf: "digest_algorithm d = SHA256"
    and v: "value = ''sha256:'' @ hex_encode (array_bytes (digest_bytes d))"
    by (simp_all add: wf_digest_def Digest_String_def)
  have "to_lower (hex_encode (array_bytes (digest_bytes d))) = hex_encode (array_bytes (digest_bytes d))"
    unfolding to_lower_fixed_iff using hex_encode_lower lower_hex_not_upper by blast
  with wf v show "ParseDigest value = Inr d"
    by (simp add: ParseDigest_def Let_def)
qed

subsection \<open>UUIDs\<close>

lemma valid_uuid_iff: "valid_uuid u \<longleftrightarrow> \<not> uuid_not_v7 u"
  by (simp add: valid_uuid_def UUID_MarshalText_def)

lemma UUID_String_parts:
  obtains a b c d e where "array_bytes u = a @ b @ c @ d @ e"
    and "length a = 4" "length b = 2" "length c = 2" "length d = 2" "length e = 6"
    and "UUID_String u = hex_encode a @ ''-'' @ hex_encode b @ ''-'' @ hex_encode c @ ''-'' @
           hex_encode d @ ''-'' @ hex_encode e"
proof
  let ?x = "array_bytes u"
  show "?x = take 4 ?x @ take 2 (drop 4 ?x) @ take 2 (drop 6 ?x) @ take 2 (drop 8 ?x) @ drop 10 ?x"
    using append_take_drop_id [of 4 ?x] append_take_drop_id [of 2 "drop 4 ?x"]
      append_take_drop_id [of 2 "drop 6 ?x"] append_take_drop_id [of 2 "drop 8 ?x"]
    by simp
qed (simp_all add: UUID_String_def Let_def)

lemma length_UUID_String [simp]: "length (UUID_String u) = 36"
  by (rule UUID_String_parts [of u]) simp

lemma ParseUUID_String:
  assumes "valid_uuid u"
  shows "ParseUUID (UUID_String u) = Inr u"
proof -
  obtain a b c d e where x: "array_bytes u = a @ b @ c @ d @ e"
    and l: "length a = 4" "length b = 2" "length c = 2" "length d = 2" "length e = 6"
    and s: "UUID_String u = hex_encode a @ ''-'' @ hex_encode b @ ''-'' @ hex_encode c @ ''-'' @
           hex_encode d @ ''-'' @ hex_encode e"
    by (rule UUID_String_parts)
  let ?v = "UUID_String u"
  have dashes: "?v ! 8 = CHR ''-''" "?v ! 13 = CHR ''-''" "?v ! 18 = CHR ''-''" "?v ! 23 = CHR ''-''"
    unfolding s by (simp_all add: nth_append l)
  have compact: "take 8 ?v @ take 4 (drop 9 ?v) @ take 4 (drop 14 ?v) @ take 4 (drop 19 ?v) @
      drop 24 ?v = hex_encode (array_bytes u)"
    unfolding s x by (simp add: l)
  show ?thesis
    unfolding ParseUUID_def Let_def compact using assms dashes
    by (simp add: valid_uuid_iff)
qed

lemma ParseUUID_iff: "ParseUUID value = Inr u \<longleftrightarrow> valid_uuid u \<and> value = UUID_String u"
proof
  assume "ParseUUID value = Inr u"
  then show "valid_uuid u \<and> value = UUID_String u"
    by (auto simp: ParseUUID_def Let_def valid_uuid_iff split: if_splits option.splits)
qed (auto simp: ParseUUID_String)

lemma UUID_String_inject: "UUID_String u = UUID_String v \<longleftrightarrow> u = v"
proof
  assume eq: "UUID_String u = UUID_String v"
  obtain a b c d e where x: "array_bytes u = a @ b @ c @ d @ e"
    and l: "length a = 4" "length b = 2" "length c = 2" "length d = 2" "length e = 6"
    and s: "UUID_String u = hex_encode a @ ''-'' @ hex_encode b @ ''-'' @ hex_encode c @ ''-'' @
           hex_encode d @ ''-'' @ hex_encode e"
    by (rule UUID_String_parts)
  obtain a' b' c' d' e' where x': "array_bytes v = a' @ b' @ c' @ d' @ e'"
    and l': "length a' = 4" "length b' = 2" "length c' = 2" "length d' = 2" "length e' = 6"
    and s': "UUID_String v = hex_encode a' @ ''-'' @ hex_encode b' @ ''-'' @ hex_encode c' @ ''-'' @
           hex_encode d' @ ''-'' @ hex_encode e'"
    by (rule UUID_String_parts)
  from eq l l' have "a = a'" "b = b'" "c = c'" "d = d'" "e = e'"
    unfolding s s' by (auto dest!: hex_encode_inject)
  with x x' show "u = v" by (simp add: array_bytes_inject [symmetric])
qed simp

subsection \<open>Generated identifiers\<close>

text \<open>The number a big-endian byte string denotes.\<close>

fun be_value :: "string \<Rightarrow> int" where
  "be_value [] = 0"
| "be_value (c # cs) = int (code c) * 256 ^ length cs + be_value cs"

lemma be_value_bounds: "0 \<le> be_value cs \<and> be_value cs < 256 ^ length cs"
proof (induction cs)
  case (Cons c cs)
  have "int (code c) + 1 \<le> 256" using code_less_256 [of c] by linarith
  then have "(int (code c) + 1) * 256 ^ length cs \<le> 256 * 256 ^ length cs"
    by (rule mult_right_mono) simp
  then have "int (code c) * 256 ^ length cs + 256 ^ length cs \<le> 256 * 256 ^ length cs"
    by (simp only: distrib_right mult_1)
  moreover have "0 \<le> int (code c) * 256 ^ length cs" by simp
  ultimately show ?case
    using Cons by (simp only: be_value.simps list.size power_Suc add_0_right add_Suc_right) linarith
qed simp

lemma be_value_less_imp_less:
  "length xs = length ys \<Longrightarrow> be_value xs < be_value ys \<Longrightarrow> xs < ys"
proof (induction xs ys rule: list_induct2)
  case (Cons x xs y ys)
  have "\<not> code y < code x"
  proof
    assume "code y < code x"
    then have "(int (code y) + 1) * 256 ^ length ys \<le> int (code x) * 256 ^ length ys"
      by (intro mult_right_mono) auto
    with Cons be_value_bounds [of xs] be_value_bounds [of ys] show False
      by (simp add: algebra_simps)
  qed
  then consider "code x < code y" | "code x = code y" by linarith
  then show ?case
  proof cases
    case 2
    with Cons show ?thesis by simp
  qed (simp add: less_char_def)
qed simp

lemma be_value_append: "be_value (xs @ ys) = be_value xs * 256 ^ length ys + be_value ys"
  by (induction xs) (simp_all add: algebra_simps power_add)

lemma put_millis_append: "put_millis n ms rest = put_millis n ms [] @ rest"
proof (induction n arbitrary: ms rest)
  case (Suc n)
  from Suc [of "ms div 256" "char_of (nat (ms mod 256)) # rest"]
    Suc [of "ms div 256" "[char_of (nat (ms mod 256))]"] show ?case by simp
qed simp

lemma length_put_millis [simp]: "length (put_millis n ms rest) = n + length rest"
  by (induction n arbitrary: ms rest) auto

lemma be_value_put_millis: "be_value (put_millis n ms []) = ms mod 256 ^ n"
proof (induction n arbitrary: ms)
  case (Suc n)
  let ?c = "char_of (nat (ms mod 256)) :: char"
  have c: "int (code ?c) = ms mod 256"
    by (simp add: of_char_of nat_mod_distrib)
  have "be_value (put_millis (Suc n) ms []) = (ms div 256) mod 256 ^ n * 256 + ms mod 256"
    using put_millis_append [of n "ms div 256" "[?c]"] Suc [of "ms div 256"] c
    by (simp add: be_value_append)
  also have "\<dots> = ms mod (256 * 256 ^ n)"
    by (simp add: mod_mult2_eq' mult.commute zmod_zmult2_eq)
  finally show ?case by simp
qed simp

lemma or_shifted_eq_plus:
  fixes m a :: nat
  assumes "m < 2 ^ k"
  shows "m OR push_bit k a = m + push_bit k a"
proof (rule disjunctive_add [symmetric])
  fix n
  show "\<not> bit m n \<or> \<not> bit (push_bit k a) n"
  proof (cases "k \<le> n")
    case True
    then have "m < 2 ^ n" using assms by (meson less_le_trans one_le_numeral power_increasing)
    then show ?thesis by (simp add: bit_iff_odd)
  qed (simp add: bit_push_bit_iff_nat)
qed

lemma UUIDGenerator_New_bytes:
  assumes "UUIDGenerator_New now random = Inr u"
  shows "take 6 (array_bytes u) = put_millis 6 (time_UnixMilli now) [] \<and>
    0 \<le> time_UnixMilli now \<and> time_UnixMilli now < 2 ^ 48 \<and> valid_uuid u"
proof -
  define filled where "filled = put_millis 6 (time_UnixMilli now) (take 10 random)"
  define b6 where "b6 = (char_of ((code (filled ! 6) AND 0x0f) OR 0x70) :: char)"
  define b8 where "b8 = (char_of ((code (filled ! 8) AND 0x3f) OR 0x80) :: char)"
  from assms have range: "0 \<le> time_UnixMilli now" "time_UnixMilli now < 2 ^ 48"
    and len: "10 \<le> length random"
    and u: "u = go_array (filled[6 := b6, 8 := b8])"
    by (auto simp: UUIDGenerator_New_def Let_def filled_def b6_def b8_def split: if_splits)
  have length: "length filled = 16" using len by (simp add: filled_def)
  have bytes: "array_bytes u = filled[6 := b6, 8 := b8]" using length u by simp
  have nibble: "((code c AND 0x0f) OR 0x70) mod 256 div 16 = 7"
    and crumb: "((code c AND 0x3f) OR 0x80) mod 256 div 64 = 2" for c
    using or_shifted_eq_plus [of "code c mod 16" 4 7] or_shifted_eq_plus [of "code c mod 64" 6 2]
      take_bit_eq_mask [of 4 "code c"] take_bit_eq_mask [of 6 "code c"]
    by (simp_all add: take_bit_eq_mod mask_eq_exp_minus_1)
  have "\<not> uuid_not_v7 u"
    unfolding uuid_not_v7_def bytes using length nibble crumb by (simp add: b6_def b8_def of_char_of)
  moreover have "take 6 (array_bytes u) = put_millis 6 (time_UnixMilli now) []"
    unfolding bytes filled_def using put_millis_append [of 6 "time_UnixMilli now" "take 10 random"]
    by simp
  ultimately show ?thesis using range by (simp add: valid_uuid_iff)
qed

lemma less_take_imp_less:
  fixes xs ys :: string
  shows "take n xs < take n ys \<Longrightarrow> n \<le> length xs \<Longrightarrow> n \<le> length ys \<Longrightarrow> xs < ys"
proof (induction n arbitrary: xs ys)
  case (Suc n)
  then show ?case by (cases xs; cases ys) auto
qed simp

lemma UUIDGenerator_New_less:
  assumes u: "UUIDGenerator_New now random = Inr u" and v: "UUIDGenerator_New later random' = Inr v"
    and less: "time_UnixMilli now < time_UnixMilli later"
  shows "u < v"
proof -
  note bu = UUIDGenerator_New_bytes [OF u] and bv = UUIDGenerator_New_bytes [OF v]
  have "be_value (take 6 (array_bytes u)) < be_value (take 6 (array_bytes v))"
    using bu bv less by (simp add: be_value_put_millis)
  then have "take 6 (array_bytes u) < take 6 (array_bytes v)"
    by (intro be_value_less_imp_less) simp_all
  then have "array_bytes u < array_bytes v" by (rule less_take_imp_less) simp_all
  then show ?thesis by (simp add: less_bytearray_def)
qed

end
