(* ===== verification/Lifecycle.thy ===== *)
theory Lifecycle
  imports Shared
begin

text \<open>
  The contract shared by the aggregates whose state history is append-only (\<open>publisher.Publisher\<close>
  and \<open>namespace.Delegation\<close>): a partial step function that increments a version counter, keeps the
  identity of the aggregate and its invariant, and never leaves a terminal state. The locale proves
  once what a whole history of steps does.
\<close>

fun run_steps :: "('s \<Rightarrow> 'e \<Rightarrow> 's option) \<Rightarrow> 's \<Rightarrow> 'e list \<Rightarrow> 's option" where
  "run_steps step s [] = Some s"
| "run_steps step s (e # es) =
    (case step s e of None \<Rightarrow> None | Some s' \<Rightarrow> run_steps step s' es)"

definition max_int64 :: int where
  "max_int64 = 2 ^ 63 - 1"

locale versioned_lifecycle =
  fixes step :: "'s \<Rightarrow> 'e \<Rightarrow> 's option"
    and version :: "'s \<Rightarrow> int"
    and identity :: "'s \<Rightarrow> 'k"
    and inv :: "'s \<Rightarrow> bool"
    and terminal :: "'s \<Rightarrow> bool"
  assumes step_version: "inv s \<Longrightarrow> version s < max_int64 \<Longrightarrow> step s e = Some s' \<Longrightarrow> version s' = version s + 1"
    and step_identity: "step s e = Some s' \<Longrightarrow> identity s' = identity s"
    and step_inv: "inv s \<Longrightarrow> version s < max_int64 \<Longrightarrow> step s e = Some s' \<Longrightarrow> inv s'"
    and terminal_stuck: "terminal s \<Longrightarrow> step s e = None"
begin

lemma run_version_inv:
  "inv s \<Longrightarrow> version s + int (length es) \<le> max_int64 \<Longrightarrow> run_steps step s es = Some s' \<Longrightarrow>
    version s' = version s + int (length es) \<and> inv s'"
proof (induction es arbitrary: s)
  case (Cons e es)
  from Cons.prems obtain t where t: "step s e = Some t" "run_steps step t es = Some s'"
    by (auto split: option.splits)
  from Cons.prems have bound: "version s < max_int64" by simp
  with Cons.prems t have "version t = version s + 1" "inv t"
    using step_version step_inv by blast+
  with Cons.IH [of t] Cons.prems t show ?case by simp
qed simp

lemma run_identity: "run_steps step s es = Some s' \<Longrightarrow> identity s' = identity s"
  by (induction es arbitrary: s) (auto split: option.splits dest: step_identity)

lemma run_terminal: "terminal s \<Longrightarrow> run_steps step s es = Some s' \<Longrightarrow> es = [] \<and> s' = s"
  by (cases es) (simp_all add: terminal_stuck)

lemma run_append:
  "run_steps step s (es @ fs) =
    (case run_steps step s es of None \<Rightarrow> None | Some t \<Rightarrow> run_steps step t fs)"
  by (induction es arbitrary: s) (auto split: option.splits)

lemma run_no_return_from_terminal:
  assumes "run_steps step s (es @ e # fs) = Some s'" and "run_steps step s es = Some t"
  shows "\<not> terminal t"
  using assms by (auto simp: run_append terminal_stuck split: option.splits)

end

end
