(* ===== verification/Publishers.thy ===== *)
theory Publishers
  imports Lifecycle
begin

text \<open>
  Package \<open>internal/domain/publisher\<close>: the Publisher aggregate, its validation and its
  administrative state machine.
\<close>

subsection \<open>Data\<close>

type_synonym PublisherState = string

abbreviation PublisherClaimed :: PublisherState where "PublisherClaimed \<equiv> ''claimed''"
abbreviation PublisherVerified :: PublisherState where "PublisherVerified \<equiv> ''verified''"
abbreviation PublisherSuspended :: PublisherState where "PublisherSuspended \<equiv> ''suspended''"
abbreviation PublisherRevoked :: PublisherState where "PublisherRevoked \<equiv> ''revoked''"

definition MaxSlugBytes :: nat where "MaxSlugBytes = 63"
definition MaxDisplayNameBytes :: nat where "MaxDisplayNameBytes = 256"
definition MaxDescriptionBytes :: nat where "MaxDescriptionBytes = 4096"
definition PublisherMaxListSize :: int where "PublisherMaxListSize = 200"

lemmas publisher_limits =
  MaxSlugBytes_def MaxDisplayNameBytes_def MaxDescriptionBytes_def PublisherMaxListSize_def

record Publisher =
  pub_tenantID :: UUID
  pub_id :: UUID
  pub_slug :: string
  pub_displayName :: string
  pub_description :: string
  pub_state :: PublisherState
  pub_version :: int
  pub_createdAt :: Time

record PublisherStateRecord =
  rec_PublisherID :: UUID
  rec_Version :: int
  rec_State :: PublisherState
  rec_Reason :: ReasonCode
  rec_Explanation :: string
  rec_RecordedAt :: Time

datatype publisher_error =
    PubTenantIDError | PubIDError | PubInvalidSlug
  | PubDisplayNameError text_error | PubDescriptionError text_error
  | PubInvalidStateVersionOrTime
  | ErrInvalidTransition | PubTransitionExplanationError text_error

subsection \<open>Operations\<close>

text \<open>\<open>slugPattern\<close>: \<open>^[a-z0-9](?:[a-z0-9-]*[a-z0-9])?$\<close>.\<close>

definition slugPattern :: rx where
  "slugPattern = rx_dns_token"

definition ValidateSlug :: "string \<Rightarrow> bool" where
  "ValidateSlug slug \<longleftrightarrow> \<not> (length slug > MaxSlugBytes \<or> \<not> matches slugPattern slug)"

definition publisher_optionalText :: "string \<Rightarrow> nat \<Rightarrow> (text_error, unit) result" where
  "publisher_optionalText text maximum =
    (if text = [] then Inr ()
     else if length text > maximum \<or> \<not> utf8_valid text then Inl TextInvalidLengthOrEncoding
     else if has_control text then Inl TextControlCharacter
     else Inr ())"

definition publisher_validState :: "PublisherState \<Rightarrow> bool" where
  "publisher_validState state \<longleftrightarrow>
    state \<in> {PublisherClaimed, PublisherVerified, PublisherSuspended, PublisherRevoked}"

definition publisher_restore ::
  "UUID \<Rightarrow> UUID \<Rightarrow> string \<Rightarrow> string \<Rightarrow> string \<Rightarrow> PublisherState \<Rightarrow> int \<Rightarrow> Time \<Rightarrow>
    (publisher_error, Publisher) result" where
  "publisher_restore tenantID uid slug displayName description state version createdAt =
    (if \<not> valid_uuid tenantID then Inl PubTenantIDError
     else if \<not> valid_uuid uid then Inl PubIDError
     else if \<not> ValidateSlug slug then Inl PubInvalidSlug
     else case publisher_optionalText displayName MaxDisplayNameBytes of
       Inl e \<Rightarrow> Inl (PubDisplayNameError e)
     | Inr _ \<Rightarrow>
       (case publisher_optionalText description MaxDescriptionBytes of
          Inl e \<Rightarrow> Inl (PubDescriptionError e)
        | Inr _ \<Rightarrow>
          (if \<not> publisher_validState state \<or> version < 1 \<or> time_IsZero createdAt
             then Inl PubInvalidStateVersionOrTime
           else Inr \<lparr>pub_tenantID = tenantID, pub_id = uid, pub_slug = slug,
                  pub_displayName = displayName, pub_description = description,
                  pub_state = state, pub_version = version, pub_createdAt = createdAt\<rparr>)))"

definition Publisher_New ::
  "UUID \<Rightarrow> UUID \<Rightarrow> string \<Rightarrow> string \<Rightarrow> string \<Rightarrow> Time \<Rightarrow> (publisher_error, Publisher) result" where
  "Publisher_New tenantID uid slug displayName description createdAt =
    publisher_restore tenantID uid slug displayName description PublisherClaimed 1 createdAt"

definition Publisher_Restore ::
  "UUID \<Rightarrow> UUID \<Rightarrow> string \<Rightarrow> string \<Rightarrow> string \<Rightarrow> PublisherState \<Rightarrow> int \<Rightarrow> Time \<Rightarrow>
    (publisher_error, Publisher) result" where
  "Publisher_Restore tenantID uid slug displayName description state version createdAt =
    publisher_restore tenantID uid slug displayName description state version createdAt"

definition transition_allowed :: "PublisherState \<Rightarrow> PublisherState \<Rightarrow> bool" where
  "transition_allowed from_state to \<longleftrightarrow>
    from_state = PublisherClaimed \<and>
      (to = PublisherVerified \<or> to = PublisherSuspended \<or> to = PublisherRevoked) \<or>
    from_state = PublisherVerified \<and> (to = PublisherSuspended \<or> to = PublisherRevoked) \<or>
    from_state = PublisherSuspended \<and> (to = PublisherVerified \<or> to = PublisherRevoked)"

definition Publisher_Transition ::
  "Publisher \<Rightarrow> PublisherState \<Rightarrow> ReasonCode \<Rightarrow> string \<Rightarrow> Time \<Rightarrow>
    (publisher_error, Publisher \<times> PublisherStateRecord) result" where
  "Publisher_Transition publisher to reason explanation at =
    (if \<not> transition_allowed (pub_state publisher) to \<or> ReasonCode_String reason = [] \<or>
        time_IsZero at then Inl ErrInvalidTransition
     else case publisher_optionalText explanation MaxDescriptionBytes of
       Inl e \<Rightarrow> Inl (PubTransitionExplanationError e)
     | Inr _ \<Rightarrow>
       (let next = publisher\<lparr>pub_state := to, pub_version := int64_add (pub_version publisher) 1\<rparr>
        in Inr (next,
             \<lparr>rec_PublisherID = pub_id next, rec_Version = pub_version next, rec_State = to,
              rec_Reason = reason, rec_Explanation = explanation, rec_RecordedAt = at\<rparr>)))"

subsection \<open>The invariant and its preservation\<close>

lemma publisher_optionalText_ok: "publisher_optionalText text maximum = Inr u \<longleftrightarrow> text_ok text maximum"
  by (auto simp: publisher_optionalText_def text_ok_def)

definition wf_publisher :: "Publisher \<Rightarrow> bool" where
  "wf_publisher p \<longleftrightarrow>
    valid_uuid (pub_tenantID p) \<and> valid_uuid (pub_id p) \<and>
    length (pub_slug p) \<le> 63 \<and> matches rx_dns_token (pub_slug p) \<and>
    text_ok (pub_displayName p) 256 \<and> text_ok (pub_description p) 4096 \<and>
    publisher_validState (pub_state p) \<and> 1 \<le> pub_version p \<and> pub_createdAt p \<noteq> 0"

text \<open>\<open>Restore\<close> accepts exactly the well-formed values and keeps every field.\<close>

lemma publisher_restore_Inr:
  "publisher_restore tenantID uid slug displayName description state version createdAt = Inr p \<longleftrightarrow>
    wf_publisher p \<and>
    p = \<lparr>pub_tenantID = tenantID, pub_id = uid, pub_slug = slug, pub_displayName = displayName,
         pub_description = description, pub_state = state, pub_version = version,
         pub_createdAt = createdAt\<rparr>"
proof -
  have [simp]: "\<not> (\<exists>e. publisher_optionalText t m = Inl e) \<longleftrightarrow> text_ok t m" for t m
    using publisher_optionalText_ok [of t m] by (cases "publisher_optionalText t m") auto
  show ?thesis
    using publisher_optionalText_ok [of displayName 256] publisher_optionalText_ok [of description 4096]
    by (cases "publisher_optionalText displayName 256"; cases "publisher_optionalText description 4096")
      (auto simp: publisher_restore_def wf_publisher_def ValidateSlug_def slugPattern_def publisher_limits)
qed

lemma Publisher_New_wf:
  "Publisher_New tenantID uid slug displayName description createdAt = Inr p \<Longrightarrow>
    wf_publisher p \<and> pub_state p = PublisherClaimed \<and> pub_version p = 1"
  by (auto simp: Publisher_New_def publisher_restore_Inr)

lemma Publisher_Transition_Inr:
  "Publisher_Transition p to reason explanation at = Inr (q, r) \<longleftrightarrow>
    transition_allowed (pub_state p) to \<and> ReasonCode_String reason \<noteq> [] \<and> at \<noteq> 0 \<and>
    text_ok explanation 4096 \<and>
    q = p\<lparr>pub_state := to, pub_version := int64_add (pub_version p) 1\<rparr> \<and>
    r = \<lparr>rec_PublisherID = pub_id p, rec_Version = pub_version q, rec_State = to,
         rec_Reason = reason, rec_Explanation = explanation, rec_RecordedAt = at\<rparr>"
  using publisher_optionalText_ok [of explanation 4096]
  by (cases "publisher_optionalText explanation 4096")
    (auto simp: Publisher_Transition_def Let_def publisher_limits)

lemma transition_allowed_valid:
  "transition_allowed s t \<Longrightarrow>
    publisher_validState s \<and> publisher_validState t \<and> s \<noteq> t \<and> s \<noteq> PublisherRevoked \<and> t \<noteq> PublisherClaimed"
  by (auto simp: transition_allowed_def publisher_validState_def)

lemma Publisher_Transition_wf:
  assumes "wf_publisher p" and "pub_version p < max_int64"
    and "Publisher_Transition p to reason explanation at = Inr (q, r)"
  shows "wf_publisher q \<and> pub_version q = pub_version p + 1"
proof -
  from assms(1,2) have "int64_add (pub_version p) 1 = pub_version p + 1"
    by (intro int64_add_small) (auto simp: wf_publisher_def max_int64_def)
  with assms show ?thesis
    by (auto simp: Publisher_Transition_Inr wf_publisher_def dest: transition_allowed_valid)
qed

subsection \<open>The state machine\<close>

text \<open>One administrative transition, its arguments as an event.\<close>

record PublisherEvent =
  ev_to :: PublisherState
  ev_reason :: ReasonCode
  ev_explanation :: string
  ev_at :: Time

definition publisher_step :: "Publisher \<Rightarrow> PublisherEvent \<Rightarrow> Publisher option" where
  "publisher_step p e =
    (case Publisher_Transition p (ev_to e) (ev_reason e) (ev_explanation e) (ev_at e) of
       Inl _ \<Rightarrow> None | Inr (q, _) \<Rightarrow> Some q)"

lemma publisher_step_Some:
  "publisher_step p e = Some q \<longleftrightarrow>
    (\<exists>r. Publisher_Transition p (ev_to e) (ev_reason e) (ev_explanation e) (ev_at e) = Inr (q, r))"
  by (auto simp: publisher_step_def split: sum.splits)

lemma publisher_step_frame:
  "publisher_step p e = Some q \<Longrightarrow>
    q = p\<lparr>pub_state := pub_state q, pub_version := pub_version q\<rparr> \<and>
    transition_allowed (pub_state p) (pub_state q)"
  by (auto simp: publisher_step_Some Publisher_Transition_Inr)

definition publisher_identity :: "Publisher \<Rightarrow> Publisher" where
  "publisher_identity p = p\<lparr>pub_state := [], pub_version := 0\<rparr>"

lemma publisher_step_identity:
  "publisher_step p e = Some q \<Longrightarrow> publisher_identity q = publisher_identity p"
  by (auto simp: publisher_step_Some Publisher_Transition_Inr publisher_identity_def)

lemma publisher_revoked_stuck: "pub_state p = PublisherRevoked \<Longrightarrow> publisher_step p e = None"
  by (simp add: publisher_step_def Publisher_Transition_def transition_allowed_def)

interpretation publisher_life: versioned_lifecycle publisher_step pub_version publisher_identity
  wf_publisher "\<lambda>p. pub_state p = PublisherRevoked"
proof unfold_locales
  fix s s' :: Publisher and e :: PublisherEvent
  assume "publisher_step s e = Some s'"
  then show "publisher_identity s' = publisher_identity s"
    by (rule publisher_step_identity)
next
  fix s s' :: Publisher and e :: PublisherEvent
  assume "wf_publisher s" "pub_version s < max_int64" "publisher_step s e = Some s'"
  then show "pub_version s' = pub_version s + 1" and "wf_publisher s'"
    using Publisher_Transition_wf publisher_step_Some by blast+
next
  fix s :: Publisher and e :: PublisherEvent
  assume "pub_state s = PublisherRevoked"
  then show "publisher_step s e = None"
    by (rule publisher_revoked_stuck)
qed

text \<open>After its first transition a Publisher is never \<open>claimed\<close> again.\<close>

lemma publisher_run_not_claimed:
  "run_steps publisher_step p es = Some q \<Longrightarrow> es \<noteq> [] \<or> pub_state p \<noteq> PublisherClaimed \<Longrightarrow>
    pub_state q \<noteq> PublisherClaimed"
proof (induction es arbitrary: p)
  case (Cons e es)
  then obtain t where t: "publisher_step p e = Some t" "run_steps publisher_step t es = Some q"
    by (auto split: option.splits)
  from t(1) have "pub_state t \<noteq> PublisherClaimed"
    using publisher_step_frame transition_allowed_valid by blast
  with Cons.IH t(2) show ?case by blast
qed simp

end
