(* ===== verification/Namespaces.thy ===== *)
theory Namespaces
  imports Lifecycle
begin

text \<open>
  Package \<open>internal/domain/namespace\<close>: tenant-local hierarchical namespaces, their path syntax and
  prefix order, and the append-only delegations of child prefixes.
\<close>

subsection \<open>Data\<close>

definition MaxPathBytes :: nat where "MaxPathBytes = 255"
definition NamespaceMaxListSize :: int where "NamespaceMaxListSize = 200"

type_synonym DelegationState = string

abbreviation DelegationActive :: DelegationState where "DelegationActive \<equiv> ''active''"
abbreviation DelegationRevoked :: DelegationState where "DelegationRevoked \<equiv> ''revoked''"

record Namespace =
  ns_tenantID :: UUID
  ns_id :: UUID
  ns_path :: string
  ns_ownerPublisherID :: UUID
  ns_createdAt :: Time

record Delegation =
  del_tenantID :: UUID
  del_id :: UUID
  del_namespaceID :: UUID
  del_publisherID :: UUID
  del_childPrefix :: string
  del_state :: DelegationState
  del_version :: int
  del_createdAt :: Time

datatype namespace_error =
    NsTenantIDError | NsIDError | NsOwnerPublisherIDError | NsInvalidPath | NsCreationTimeRequired
  | DelegationIdentifierRequired | DelegationInvalidPrefix | DelegationInvalidState
  | ErrInvalidDelegationTransition

subsection \<open>Operations\<close>

text \<open>\<open>pathPattern\<close>: one DNS label, then any number of labels after a slash.\<close>

definition pathPattern :: rx where
  "pathPattern = rx_sep_list (CHR ''/'') rx_dns_token"

definition ValidatePath :: "string \<Rightarrow> bool" where
  "ValidatePath path \<longleftrightarrow> \<not> (length path > MaxPathBytes \<or> \<not> matches pathPattern path)"

definition Namespace_New ::
  "UUID \<Rightarrow> UUID \<Rightarrow> string \<Rightarrow> UUID \<Rightarrow> Time \<Rightarrow> (namespace_error, Namespace) result" where
  "Namespace_New tenantID uid path ownerPublisherID createdAt =
    (if \<not> valid_uuid tenantID then Inl NsTenantIDError
     else if \<not> valid_uuid uid then Inl NsIDError
     else if \<not> valid_uuid ownerPublisherID then Inl NsOwnerPublisherIDError
     else if \<not> ValidatePath path then Inl NsInvalidPath
     else if time_IsZero createdAt then Inl NsCreationTimeRequired
     else Inr \<lparr>ns_tenantID = tenantID, ns_id = uid, ns_path = path,
            ns_ownerPublisherID = ownerPublisherID, ns_createdAt = createdAt\<rparr>)"

definition Namespace_Restore ::
  "UUID \<Rightarrow> UUID \<Rightarrow> string \<Rightarrow> UUID \<Rightarrow> Time \<Rightarrow> (namespace_error, Namespace) result" where
  "Namespace_Restore tenantID uid path ownerPublisherID createdAt =
    Namespace_New tenantID uid path ownerPublisherID createdAt"

definition IsStrictDescendant :: "string \<Rightarrow> string \<Rightarrow> bool" where
  "IsStrictDescendant parent candidate \<longleftrightarrow>
    ValidatePath parent \<and> ValidatePath candidate \<and> prefix (parent @ ''/'') candidate"

definition restoreDelegation ::
  "UUID \<Rightarrow> UUID \<Rightarrow> UUID \<Rightarrow> UUID \<Rightarrow> string \<Rightarrow> string \<Rightarrow> DelegationState \<Rightarrow> int \<Rightarrow> Time \<Rightarrow>
    (namespace_error, Delegation) result" where
  "restoreDelegation tenantID uid namespaceID publisherID namespacePath childPrefix state version createdAt =
    (if \<not> list_all valid_uuid [tenantID, uid, namespaceID, publisherID]
       then Inl DelegationIdentifierRequired
     else if \<not> ValidatePath childPrefix \<or>
         namespacePath \<noteq> [] \<and> \<not> IsStrictDescendant namespacePath childPrefix
       then Inl DelegationInvalidPrefix
     else if state = DelegationActive \<and> version \<noteq> 1 \<or> state = DelegationRevoked \<and> version \<noteq> 2 \<or>
         state \<noteq> DelegationActive \<and> state \<noteq> DelegationRevoked \<or> time_IsZero createdAt
       then Inl DelegationInvalidState
     else Inr \<lparr>del_tenantID = tenantID, del_id = uid, del_namespaceID = namespaceID,
            del_publisherID = publisherID, del_childPrefix = childPrefix, del_state = state,
            del_version = version, del_createdAt = createdAt\<rparr>)"

definition NewDelegation ::
  "UUID \<Rightarrow> UUID \<Rightarrow> UUID \<Rightarrow> string \<Rightarrow> UUID \<Rightarrow> string \<Rightarrow> Time \<Rightarrow>
    (namespace_error, Delegation) result" where
  "NewDelegation tenantID uid namespaceID namespacePath publisherID childPrefix createdAt =
    restoreDelegation tenantID uid namespaceID publisherID namespacePath childPrefix
      DelegationActive 1 createdAt"

definition RestoreDelegation ::
  "UUID \<Rightarrow> UUID \<Rightarrow> UUID \<Rightarrow> UUID \<Rightarrow> string \<Rightarrow> DelegationState \<Rightarrow> int \<Rightarrow> Time \<Rightarrow>
    (namespace_error, Delegation) result" where
  "RestoreDelegation tenantID uid namespaceID publisherID childPrefix state version createdAt =
    restoreDelegation tenantID uid namespaceID publisherID [] childPrefix state version createdAt"

definition Delegation_Revoke ::
  "Delegation \<Rightarrow> ReasonCode \<Rightarrow> string \<Rightarrow> Time \<Rightarrow> (namespace_error, Delegation) result" where
  "Delegation_Revoke delegation reason explanation at =
    (if del_state delegation \<noteq> DelegationActive \<or> ReasonCode_String reason = [] \<or> time_IsZero at \<or>
        at < del_createdAt delegation \<or> length explanation > 4096 \<or> \<not> utf8_valid explanation
       then Inl ErrInvalidDelegationTransition
     else if has_control explanation then Inl ErrInvalidDelegationTransition
     else Inr (delegation\<lparr>del_state := DelegationRevoked,
                 del_version := int64_add (del_version delegation) 1\<rparr>))"

subsection \<open>Path syntax\<close>

abbreviation segments :: "string \<Rightarrow> string list" where
  "segments path \<equiv> split_on (CHR ''/'') path"

lemma dns_token_no_slash: "matches rx_dns_token s \<Longrightarrow> CHR ''/'' \<notin> set s"
  by (auto simp: matches_dns_token)

lemma nullable_dns_token [simp]: "\<not> nullable rx_dns_token"
  by (simp add: rx_dns_token_def)

lemma ValidatePath_iff:
  "ValidatePath path \<longleftrightarrow>
    length path \<le> 255 \<and> (\<forall>segment \<in> set (segments path). matches rx_dns_token segment)"
  using matches_sep_list [of rx_dns_token "CHR ''/''" path, OF dns_token_no_slash]
  by (simp add: ValidatePath_def MaxPathBytes_def pathPattern_def not_less)

lemma ValidatePath_nonempty: "ValidatePath path \<Longrightarrow> path \<noteq> []"
  by (cases path) (simp_all add: ValidatePath_iff matches_dns_token)

text \<open>The path of a namespace of an artifact reference is a valid namespace path.\<close>

lemma reference_namespace_valid:
  "list_all validNameToken (segments path) \<Longrightarrow> length path \<le> 255 \<Longrightarrow> ValidatePath path"
  by (auto simp: ValidatePath_iff list_all_iff validNameToken_regexp)

subsection \<open>The prefix order\<close>

lemma IsStrictDescendant_iff:
  "IsStrictDescendant parent candidate \<longleftrightarrow>
    ValidatePath parent \<and> ValidatePath candidate \<and>
    strict_prefix (segments parent) (segments candidate)"
  by (simp add: IsStrictDescendant_def prefix_sep_iff)

lemma IsStrictDescendant_irrefl: "\<not> IsStrictDescendant p p"
  by (simp add: IsStrictDescendant_iff)

lemma IsStrictDescendant_trans:
  "IsStrictDescendant a b \<Longrightarrow> IsStrictDescendant b c \<Longrightarrow> IsStrictDescendant a c"
  using prefix_order.less_trans by (auto simp: IsStrictDescendant_iff)

lemma IsStrictDescendant_length: "IsStrictDescendant a b \<Longrightarrow> length a + 2 \<le> length b"
proof -
  assume desc: "IsStrictDescendant a b"
  then obtain t where b: "b = a @ CHR ''/'' # t"
    by (auto simp: IsStrictDescendant_def prefix_def)
  have "t \<noteq> []"
  proof
    assume "t = []"
    with b have "[] \<in> set (segments b)" by (simp add: split_on_snoc)
    with desc show False by (auto simp: IsStrictDescendant_def ValidatePath_iff matches_dns_token)
  qed
  with b show ?thesis by (cases t) auto
qed

text \<open>Any two ancestors-or-equals of one path are comparable: prefixes of it form a chain.\<close>

lemma ancestors_comparable:
  assumes "IsStrictDescendant a c \<or> a = c" and "IsStrictDescendant b c \<or> b = c"
  shows "a = b \<or> IsStrictDescendant a b \<or> IsStrictDescendant b a"
proof -
  from assms have "prefix (segments a) (segments c)" "prefix (segments b) (segments c)"
    by (auto simp: IsStrictDescendant_iff)
  then have "prefix (segments a) (segments b) \<or> prefix (segments b) (segments a)"
    using prefix_same_cases by blast
  moreover from assms have "a = b \<or> ValidatePath a \<and> ValidatePath b"
    by (auto simp: IsStrictDescendant_iff)
  ultimately show ?thesis
    by (auto simp: IsStrictDescendant_iff strict_prefix_def split_on_inject)
qed

subsection \<open>Well-formed values\<close>

definition wf_namespace :: "Namespace \<Rightarrow> bool" where
  "wf_namespace n \<longleftrightarrow>
    valid_uuid (ns_tenantID n) \<and> valid_uuid (ns_id n) \<and> valid_uuid (ns_ownerPublisherID n) \<and>
    ValidatePath (ns_path n) \<and> ns_createdAt n \<noteq> 0"

lemma Namespace_New_Inr:
  "Namespace_New tenantID uid path ownerPublisherID createdAt = Inr n \<longleftrightarrow>
    wf_namespace n \<and>
    n = \<lparr>ns_tenantID = tenantID, ns_id = uid, ns_path = path, ns_ownerPublisherID = ownerPublisherID,
         ns_createdAt = createdAt\<rparr>"
  by (auto simp: Namespace_New_def wf_namespace_def)

definition wf_delegation :: "Delegation \<Rightarrow> bool" where
  "wf_delegation d \<longleftrightarrow>
    valid_uuid (del_tenantID d) \<and> valid_uuid (del_id d) \<and> valid_uuid (del_namespaceID d) \<and>
    valid_uuid (del_publisherID d) \<and> ValidatePath (del_childPrefix d) \<and> del_createdAt d \<noteq> 0 \<and>
    (del_state d = DelegationActive \<and> del_version d = 1 \<or>
     del_state d = DelegationRevoked \<and> del_version d = 2)"

lemma RestoreDelegation_Inr:
  "RestoreDelegation tenantID uid namespaceID publisherID childPrefix state version createdAt = Inr d \<longleftrightarrow>
    wf_delegation d \<and>
    d = \<lparr>del_tenantID = tenantID, del_id = uid, del_namespaceID = namespaceID,
         del_publisherID = publisherID, del_childPrefix = childPrefix, del_state = state,
         del_version = version, del_createdAt = createdAt\<rparr>"
  by (auto simp: RestoreDelegation_def restoreDelegation_def wf_delegation_def)

lemma NewDelegation_Inr:
  assumes "namespacePath \<noteq> []"
  shows "NewDelegation tenantID uid namespaceID namespacePath publisherID childPrefix createdAt = Inr d \<longleftrightarrow>
    wf_delegation d \<and> IsStrictDescendant namespacePath childPrefix \<and>
    d = \<lparr>del_tenantID = tenantID, del_id = uid, del_namespaceID = namespaceID,
         del_publisherID = publisherID, del_childPrefix = childPrefix, del_state = DelegationActive,
         del_version = 1, del_createdAt = createdAt\<rparr>"
  using assms by (auto simp: NewDelegation_def restoreDelegation_def wf_delegation_def)

lemma Delegation_Revoke_Inr:
  "Delegation_Revoke d reason explanation at = Inr d' \<longleftrightarrow>
    del_state d = DelegationActive \<and> ReasonCode_String reason \<noteq> [] \<and> at \<noteq> 0 \<and>
    del_createdAt d \<le> at \<and> text_ok explanation 4096 \<and>
    d' = d\<lparr>del_state := DelegationRevoked, del_version := int64_add (del_version d) 1\<rparr>"
  by (auto simp: Delegation_Revoke_def text_ok_def)

subsection \<open>The delegation state machine\<close>

record RevocationEvent =
  rev_reason :: ReasonCode
  rev_explanation :: string
  rev_at :: Time

definition delegation_step :: "Delegation \<Rightarrow> RevocationEvent \<Rightarrow> Delegation option" where
  "delegation_step d e =
    (case Delegation_Revoke d (rev_reason e) (rev_explanation e) (rev_at e) of
       Inl _ \<Rightarrow> None | Inr d' \<Rightarrow> Some d')"

lemma delegation_step_Some:
  "delegation_step d e = Some d' \<longleftrightarrow>
    Delegation_Revoke d (rev_reason e) (rev_explanation e) (rev_at e) = Inr d'"
  by (auto simp: delegation_step_def split: sum.splits)

definition delegation_identity :: "Delegation \<Rightarrow> Delegation" where
  "delegation_identity d = d\<lparr>del_state := [], del_version := 0\<rparr>"

lemma delegation_step_wf:
  "wf_delegation d \<Longrightarrow> delegation_step d e = Some d' \<Longrightarrow>
    wf_delegation d' \<and> del_version d' = del_version d + 1 \<and> del_state d' = DelegationRevoked"
  by (auto simp: delegation_step_Some Delegation_Revoke_Inr wf_delegation_def int64_add_small)

interpretation delegation_life: versioned_lifecycle delegation_step del_version delegation_identity
  wf_delegation "\<lambda>d. del_state d = DelegationRevoked"
proof unfold_locales
  fix s s' :: Delegation and e :: RevocationEvent
  assume "delegation_step s e = Some s'"
  then show "delegation_identity s' = delegation_identity s"
    by (auto simp: delegation_step_Some Delegation_Revoke_Inr delegation_identity_def)
next
  fix s s' :: Delegation and e :: RevocationEvent
  assume "wf_delegation s" "delegation_step s e = Some s'"
  then show "del_version s' = del_version s + 1" and "wf_delegation s'"
    using delegation_step_wf by blast+
next
  fix s :: Delegation and e :: RevocationEvent
  assume "del_state s = DelegationRevoked"
  then show "delegation_step s e = None"
    by (simp add: delegation_step_def Delegation_Revoke_def)
qed

text \<open>A delegation is revoked at most once, whatever is attempted on it.\<close>

lemma delegation_run_length:
  assumes "wf_delegation d" and "run_steps delegation_step d es = Some d'"
  shows "length es \<le> 1"
proof (cases es)
  case (Cons e es')
  with assms(2) obtain t where t: "delegation_step d e = Some t" "run_steps delegation_step t es' = Some d'"
    by (auto split: option.splits)
  with assms(1) have "del_state t = DelegationRevoked" using delegation_step_wf by blast
  with t(2) have "es' = []" using delegation_life.run_terminal by blast
  with Cons show ?thesis by simp
qed simp

end
