(* ===== verification/Authorizer.thy ===== *)
theory Authorizer
  imports Shared
begin

text \<open>
  Administrative authorization: the roles, actions and grants of
  \<open>internal/ports/authorization\<close>, the identity of \<open>internal/ports/identity\<close> and the immutable role
  policy of \<open>internal/security/authorization.go\<close>.
\<close>

subsection \<open>Ports\<close>

type_synonym Role = string

abbreviation RolePublisherAdmin :: Role where "RolePublisherAdmin \<equiv> ''publisher-admin''"
abbreviation RoleNamespaceAdmin :: Role where "RoleNamespaceAdmin \<equiv> ''namespace-admin''"
abbreviation RolePublicationAdmin :: Role where "RolePublicationAdmin \<equiv> ''publication-admin''"
abbreviation RoleEvidenceProducerAdmin :: Role where
  "RoleEvidenceProducerAdmin \<equiv> ''evidence-producer-admin''"
abbreviation RoleReviewer :: Role where "RoleReviewer \<equiv> ''reviewer''"
abbreviation RoleCatalogAdmin :: Role where "RoleCatalogAdmin \<equiv> ''catalog-admin''"
abbreviation RolePolicyAdmin :: Role where "RolePolicyAdmin \<equiv> ''policy-admin''"
abbreviation RoleRevocationAdmin :: Role where "RoleRevocationAdmin \<equiv> ''revocation-admin''"
abbreviation RoleFederationAdmin :: Role where "RoleFederationAdmin \<equiv> ''federation-admin''"

type_synonym Action = string

abbreviation ActionManagePublishers :: Action where "ActionManagePublishers \<equiv> ''publisher.manage''"
abbreviation ActionManageNamespaces :: Action where "ActionManageNamespaces \<equiv> ''namespace.manage''"
abbreviation ActionPublish :: Action where "ActionPublish \<equiv> ''publication.publish''"
abbreviation ActionManageEvidenceProducers :: Action where
  "ActionManageEvidenceProducers \<equiv> ''evidence_producer.manage''"
abbreviation ActionReviewPromotion :: Action where "ActionReviewPromotion \<equiv> ''promotion.review''"
abbreviation ActionManageCatalogs :: Action where "ActionManageCatalogs \<equiv> ''catalog.manage''"
abbreviation ActionActivatePolicy :: Action where "ActionActivatePolicy \<equiv> ''policy.activate''"
abbreviation ActionManageRevocations :: Action where "ActionManageRevocations \<equiv> ''revocation.manage''"
abbreviation ActionManageFederation :: Action where "ActionManageFederation \<equiv> ''federation.manage''"

record Grant =
  grant_TenantID :: UUID
  grant_PrincipalID :: string
  grant_Role :: Role

record Identity =
  ident_TenantID :: UUID
  ident_PrincipalID :: string

subsection \<open>The policy\<close>

definition maximumPrincipalIDBytes :: nat where
  "maximumPrincipalIDBytes = 255"

definition actionsByRole :: "Role \<Rightarrow> Action list option" where
  "actionsByRole = map_of
    [(RolePublisherAdmin, [ActionManagePublishers]),
     (RoleNamespaceAdmin, [ActionManageNamespaces]),
     (RolePublicationAdmin, [ActionPublish]),
     (RoleEvidenceProducerAdmin, [ActionManageEvidenceProducers]),
     (RoleReviewer, [ActionReviewPromotion]),
     (RoleCatalogAdmin, [ActionManageCatalogs]),
     (RolePolicyAdmin, [ActionActivatePolicy]),
     (RoleRevocationAdmin, [ActionManageRevocations]),
     (RoleFederationAdmin, [ActionManageFederation])]"

type_synonym principalKey = "string \<times> string"

record Authorizer =
  rolesByPrincipal :: "principalKey \<Rightarrow> Role set option"

datatype principal_id_error = PrincipalIDLengthOrEncoding | PrincipalIDControlCharacter

definition validatePrincipalID :: "string \<Rightarrow> (principal_id_error, unit) result" where
  "validatePrincipalID principalID =
    (if principalID = [] \<or> length principalID > maximumPrincipalIDBytes \<or> \<not> utf8_valid principalID
       then Inl PrincipalIDLengthOrEncoding
     else if has_control principalID then Inl PrincipalIDControlCharacter
     else Inr ())"

datatype grant_error =
    GrantInvalidTenantID nat | GrantPrincipalID nat principal_id_error
  | GrantUnknownRole nat Role | GrantDuplicateRole nat

text \<open>The loop of \<open>NewAuthorizer\<close> with its running index and the map built so far.\<close>

fun add_grants ::
  "nat \<Rightarrow> Grant list \<Rightarrow> (principalKey \<Rightarrow> Role set option) \<Rightarrow>
    (grant_error, principalKey \<Rightarrow> Role set option) result" where
  "add_grants index [] roles = Inr roles"
| "add_grants index (grant # grants) roles =
    (if \<not> valid_uuid (grant_TenantID grant) then Inl (GrantInvalidTenantID index)
     else case validatePrincipalID (grant_PrincipalID grant) of
       Inl e \<Rightarrow> Inl (GrantPrincipalID index e)
     | Inr _ \<Rightarrow>
       (if actionsByRole (grant_Role grant) = None
          then Inl (GrantUnknownRole index (grant_Role grant))
        else
          let key = (UUID_String (grant_TenantID grant), grant_PrincipalID grant);
              existing = (case roles key of None \<Rightarrow> {} | Some granted \<Rightarrow> granted)
          in if grant_Role grant \<in> existing then Inl (GrantDuplicateRole index)
             else add_grants (Suc index) grants
                    (roles(key \<mapsto> insert (grant_Role grant) existing))))"

definition NewAuthorizer :: "Grant list \<Rightarrow> (grant_error, Authorizer) result" where
  "NewAuthorizer grants =
    (case add_grants 0 grants Map.empty of
       Inl e \<Rightarrow> Inl e
     | Inr roles \<Rightarrow> Inr \<lparr>rolesByPrincipal = roles\<rparr>)"

definition mustAuthorizationError :: "ErrorClass \<Rightarrow> string \<Rightarrow> go_error" where
  "mustAuthorizationError cls text =
    (case NewReasonCode text of Inl _ \<Rightarrow> Panicked | Inr reason \<Rightarrow> NewTypedError cls reason)"

definition errIdentityRequired :: go_error where
  "errIdentityRequired = mustAuthorizationError ErrorUnauthorized ''authorization.identity_required''"

definition errAuthorizationDenied :: go_error where
  "errAuthorizationDenied = mustAuthorizationError ErrorForbidden ''authorization.denied''"

text \<open>\<open>None\<close> is the nil error: the action is permitted.\<close>

definition Authorize :: "Authorizer \<Rightarrow> Identity \<Rightarrow> Action \<Rightarrow> go_error option" where
  "Authorize authorizer mapped action =
    (if \<not> valid_uuid (ident_TenantID mapped) \<or> \<not> is_ok (validatePrincipalID (ident_PrincipalID mapped))
       then Some errIdentityRequired
     else
       let roles = (case rolesByPrincipal authorizer
                      (UUID_String (ident_TenantID mapped), ident_PrincipalID mapped) of
                      None \<Rightarrow> {} | Some granted \<Rightarrow> granted)
       in if \<exists>role \<in> roles.
               (case actionsByRole role of None \<Rightarrow> False | Some actions \<Rightarrow> action \<in> set actions)
          then None else Some errAuthorizationDenied)"

subsection \<open>Correctness\<close>

lemma errIdentityRequired_typed:
  "errIdentityRequired = TypedError ErrorUnauthorized (ReasonCode ''authorization.identity_required'')"
  by (simp add: errIdentityRequired_def mustAuthorizationError_def NewReasonCode_literal
      reason_literal_simps NewTypedError_def error_classes_def)

lemma errAuthorizationDenied_typed:
  "errAuthorizationDenied = TypedError ErrorForbidden (ReasonCode ''authorization.denied'')"
  by (simp add: errAuthorizationDenied_def mustAuthorizationError_def NewReasonCode_literal
      reason_literal_simps NewTypedError_def error_classes_def)

lemma validatePrincipalID_ok:
  "validatePrincipalID principalID = Inr u \<longleftrightarrow> principalID \<noteq> [] \<and> text_ok principalID 255"
  by (auto simp: validatePrincipalID_def text_ok_def maximumPrincipalIDBytes_def)

definition grant_ok :: "Grant \<Rightarrow> bool" where
  "grant_ok grant \<longleftrightarrow> valid_uuid (grant_TenantID grant) \<and> grant_PrincipalID grant \<noteq> [] \<and>
    text_ok (grant_PrincipalID grant) 255 \<and> actionsByRole (grant_Role grant) \<noteq> None"

definition grant_key :: "Grant \<Rightarrow> principalKey" where
  "grant_key grant = (UUID_String (grant_TenantID grant), grant_PrincipalID grant)"

definition granted_roles :: "(principalKey \<Rightarrow> Role set option) \<Rightarrow> principalKey \<Rightarrow> Role set" where
  "granted_roles roles key = (case roles key of None \<Rightarrow> {} | Some granted \<Rightarrow> granted)"

lemma granted_roles_upd:
  "granted_roles (roles(key \<mapsto> v)) key' = (if key' = key then v else granted_roles roles key')"
  by (simp add: granted_roles_def)

lemma add_grants_Cons:
  "add_grants index (grant # grants) roles = Inr roles' \<longleftrightarrow>
    grant_ok grant \<and> grant_Role grant \<notin> granted_roles roles (grant_key grant) \<and>
    add_grants (Suc index) grants
      (roles(grant_key grant \<mapsto> insert (grant_Role grant) (granted_roles roles (grant_key grant)))) = Inr roles'"
  using validatePrincipalID_ok [of "grant_PrincipalID grant"]
  by (cases "validatePrincipalID (grant_PrincipalID grant)")
    (auto simp: Let_def grant_ok_def grant_key_def granted_roles_def)

declare add_grants.simps(2) [simp del]

text \<open>The whole construction: the validity of every grant, no repetition, and the resulting roles.\<close>

lemma grant_eq_iff: "g = (h :: Grant) \<longleftrightarrow> grant_key g = grant_key h \<and> grant_Role g = grant_Role h"
  by (cases g; cases h) (auto simp: grant_key_def UUID_String_inject)

lemma add_grants_roles:
  "add_grants index grants roles = Inr roles' \<Longrightarrow>
    granted_roles roles' key = granted_roles roles key \<union> {grant_Role g | g. g \<in> set grants \<and> grant_key g = key}"
  by (induction grants arbitrary: index roles)
    (auto simp: add_grants_Cons granted_roles_upd split: if_splits)

lemma add_grants_ok:
  "is_ok (add_grants index grants roles) \<longleftrightarrow>
    (\<forall>g \<in> set grants. grant_ok g \<and> grant_Role g \<notin> granted_roles roles (grant_key g)) \<and> distinct grants"
proof (induction grants arbitrary: index roles)
  case (Cons g grants)
  let ?roles = "roles(grant_key g \<mapsto> insert (grant_Role g) (granted_roles roles (grant_key g)))"
  have member: "g \<in> set grants \<longleftrightarrow>
      (\<exists>h \<in> set grants. grant_key h = grant_key g \<and> grant_Role h = grant_Role g)"
    using grant_eq_iff by metis
  have fresh: "grant_Role h \<notin> granted_roles ?roles (grant_key h) \<longleftrightarrow>
      grant_Role h \<notin> granted_roles roles (grant_key h) \<and>
      \<not> (grant_key h = grant_key g \<and> grant_Role h = grant_Role g)" for h
    by (auto simp: granted_roles_upd)
  have "is_ok (add_grants index (g # grants) roles) \<longleftrightarrow>
      grant_ok g \<and> grant_Role g \<notin> granted_roles roles (grant_key g) \<and>
      is_ok (add_grants (Suc index) grants ?roles)"
    unfolding is_ok_iff add_grants_Cons by blast
  also have "\<dots> \<longleftrightarrow> (\<forall>h \<in> set (g # grants). grant_ok h \<and> grant_Role h \<notin> granted_roles roles (grant_key h)) \<and>
      distinct (g # grants)"
    unfolding Cons fresh distinct.simps list.set ball_simps member by blast
  finally show ?case .
qed simp

lemma NewAuthorizer_ok:
  "is_ok (NewAuthorizer grants) \<longleftrightarrow> (\<forall>g \<in> set grants. grant_ok g) \<and> distinct grants"
  using add_grants_ok [of 0 grants Map.empty]
  by (auto simp: NewAuthorizer_def granted_roles_def is_ok_def split: sum.splits)

lemma Authorize_granted:
  "Authorize a mapped action = None \<longleftrightarrow>
    valid_uuid (ident_TenantID mapped) \<and> ident_PrincipalID mapped \<noteq> [] \<and>
    text_ok (ident_PrincipalID mapped) 255 \<and>
    (\<exists>role \<in> granted_roles (rolesByPrincipal a) (UUID_String (ident_TenantID mapped), ident_PrincipalID mapped).
      \<exists>actions. actionsByRole role = Some actions \<and> action \<in> set actions)"
  using validatePrincipalID_ok [of "ident_PrincipalID mapped"]
  by (auto simp: Authorize_def Let_def is_ok_iff granted_roles_def split: option.splits)

text \<open>Every action belongs to exactly one role, and unknown actions to none.\<close>

lemma map_of_concat_distinct:
  "map_of table r = Some xs \<Longrightarrow> x \<in> set xs \<Longrightarrow> map_of table r' = Some ys \<Longrightarrow> x \<in> set ys \<Longrightarrow>
    distinct (concat (map snd table)) \<Longrightarrow> r = r'"
proof (induction table)
  case (Cons entry table)
  have "x \<in> set (concat (map snd table))" if "map_of table k = Some zs" "x \<in> set zs" for k zs
    using map_of_SomeD [OF that(1)] that(2) by force
  with Cons show ?case by (cases entry) (auto split: if_splits)
qed simp

lemma actionsByRole_unique:
  "actionsByRole r = Some as \<Longrightarrow> a \<in> set as \<Longrightarrow> actionsByRole r' = Some bs \<Longrightarrow> a \<in> set bs \<Longrightarrow> r = r'"
  unfolding actionsByRole_def by (rule map_of_concat_distinct) (assumption+, simp)

end
