(* ===== verification/Idempotency.thy ===== *)
theory Idempotency
  imports Shared
begin

text \<open>
  Package \<open>internal/domain/idempotency\<close>: the record that binds a caller-owned key to the digest of
  one canonical request and to the result established for it.
\<close>

subsection \<open>Data\<close>

definition IdemMaxPrincipalBytes :: nat where "IdemMaxPrincipalBytes = 255"
definition IdemMaxKeyBytes :: nat where "IdemMaxKeyBytes = 255"
definition IdemMaxResourceIDBytes :: nat where "IdemMaxResourceIDBytes = 512"
definition MinimumRetention :: Duration where "MinimumRetention = 24 * duration_hour"

lemmas idempotency_limits =
  IdemMaxPrincipalBytes_def IdemMaxKeyBytes_def IdemMaxResourceIDBytes_def MinimumRetention_def

type_synonym IdempotencyState = string

abbreviation StatePending :: IdempotencyState where "StatePending \<equiv> ''pending''"
abbreviation StateCompleted :: IdempotencyState where "StateCompleted \<equiv> ''completed''"

record IdemResult =
  result_status :: nat
  result_resourceType :: ReasonCode
  result_resourceID :: string

text \<open>The pointers \<open>result\<close> and \<open>completedAt\<close> are optional values.\<close>

record IdemRecord =
  idem_tenantID :: UUID
  idem_id :: UUID
  idem_principal :: string
  idem_action :: ReasonCode
  idem_key :: string
  idem_digest :: Digest
  idem_state :: IdempotencyState
  idem_result :: "IdemResult option"
  idem_createdAt :: Time
  idem_completedAt :: "Time option"
  idem_expiresAt :: Time

datatype idempotency_error =
    IdemInvalidStatus | IdemIncompleteResource | IdemResourceType shared_error
  | IdemResourceID text_error
  | IdemPrincipal text_error | IdemActionRequired | IdemKey text_error
  | IdemIdentifierError | IdemDigestError | IdemInvalidRetention | IdemPendingWithResult
  | IdemCompletedWithoutResult | IdemInvalidState

subsection \<open>Operations\<close>

definition boundedSafeText :: "string \<Rightarrow> nat \<Rightarrow> (text_error, unit) result" where
  "boundedSafeText text maximum =
    (if text = [] \<or> length text > maximum \<or> \<not> utf8_valid text then Inl TextInvalidLengthOrEncoding
     else if has_control text then Inl TextControlCharacter
     else Inr ())"

text \<open>The zero \<open>shared.ReasonCode\<close> has an empty text.\<close>

definition NewResult :: "nat \<Rightarrow> string \<Rightarrow> string \<Rightarrow> (idempotency_error, IdemResult) result" where
  "NewResult status resourceType resourceID =
    (if status < 100 \<or> status > 599 then Inl IdemInvalidStatus
     else if (resourceType = []) \<noteq> (resourceID = []) then Inl IdemIncompleteResource
     else if resourceType \<noteq> [] then
       (case NewReasonCode resourceType of
          Inl e \<Rightarrow> Inl (IdemResourceType e)
        | Inr parsedType \<Rightarrow>
          (case boundedSafeText resourceID IdemMaxResourceIDBytes of
             Inl e \<Rightarrow> Inl (IdemResourceID e)
           | Inr _ \<Rightarrow> Inr \<lparr>result_status = status, result_resourceType = parsedType,
                        result_resourceID = resourceID\<rparr>))
     else Inr \<lparr>result_status = status, result_resourceType = ReasonCode [],
            result_resourceID = resourceID\<rparr>)"

definition ValidateOwnership :: "string \<Rightarrow> ReasonCode \<Rightarrow> string \<Rightarrow> (idempotency_error, unit) result" where
  "ValidateOwnership principalID action key =
    (case boundedSafeText principalID IdemMaxPrincipalBytes of
       Inl e \<Rightarrow> Inl (IdemPrincipal e)
     | Inr _ \<Rightarrow>
       (if ReasonCode_String action = [] then Inl IdemActionRequired
        else case boundedSafeText key IdemMaxKeyBytes of
          Inl e \<Rightarrow> Inl (IdemKey e)
        | Inr _ \<Rightarrow> Inr ()))"

text \<open>
  The state check that ends \<open>restore\<close>. \<open>result\<close> and \<open>completedAt\<close> are copied, so the record
  shares no memory with the caller.
\<close>

definition restore_state ::
  "IdempotencyState \<Rightarrow> IdemResult option \<Rightarrow> Time \<Rightarrow> Time option \<Rightarrow> (idempotency_error, unit) result" where
  "restore_state state res createdAt completedAt =
    (if state = StatePending then
       (if res \<noteq> None \<or> completedAt \<noteq> None then Inl IdemPendingWithResult else Inr ())
     else if state = StateCompleted then
       (case (res, completedAt) of
          (Some r, Some t) \<Rightarrow>
            (if result_status r < 100 \<or> t < createdAt then Inl IdemCompletedWithoutResult else Inr ())
        | _ \<Rightarrow> Inl IdemCompletedWithoutResult)
     else Inl IdemInvalidState)"

definition idempotency_restore ::
  "UUID \<Rightarrow> UUID \<Rightarrow> string \<Rightarrow> ReasonCode \<Rightarrow> string \<Rightarrow> Digest \<Rightarrow> IdempotencyState \<Rightarrow>
    IdemResult option \<Rightarrow> Time \<Rightarrow> Time option \<Rightarrow> Time \<Rightarrow> (idempotency_error, IdemRecord) result" where
  "idempotency_restore tenantID uid principalID action key digest state res createdAt completedAt expiresAt =
    (if \<not> valid_uuid tenantID \<or> \<not> valid_uuid uid then Inl IdemIdentifierError
     else case ValidateOwnership principalID action key of
       Inl e \<Rightarrow> Inl e
     | Inr _ \<Rightarrow>
       (if \<not> is_ok (Digest_MarshalText digest) then Inl IdemDigestError
        else if time_IsZero createdAt \<or> expiresAt < createdAt + MinimumRetention
          then Inl IdemInvalidRetention
        else case restore_state state res createdAt completedAt of
          Inl e \<Rightarrow> Inl e
        | Inr _ \<Rightarrow> Inr \<lparr>idem_tenantID = tenantID, idem_id = uid, idem_principal = principalID,
                     idem_action = action, idem_key = key, idem_digest = digest,
                     idem_state = state, idem_result = res, idem_createdAt = createdAt,
                     idem_completedAt = completedAt, idem_expiresAt = expiresAt\<rparr>))"

definition Idempotency_New ::
  "UUID \<Rightarrow> UUID \<Rightarrow> string \<Rightarrow> ReasonCode \<Rightarrow> string \<Rightarrow> Digest \<Rightarrow> Time \<Rightarrow> Time \<Rightarrow>
    (idempotency_error, IdemRecord) result" where
  "Idempotency_New tenantID uid principalID action key digest createdAt expiresAt =
    idempotency_restore tenantID uid principalID action key digest StatePending None createdAt None expiresAt"

definition Idempotency_Restore ::
  "UUID \<Rightarrow> UUID \<Rightarrow> string \<Rightarrow> ReasonCode \<Rightarrow> string \<Rightarrow> Digest \<Rightarrow> IdempotencyState \<Rightarrow>
    IdemResult option \<Rightarrow> Time \<Rightarrow> Time option \<Rightarrow> Time \<Rightarrow> (idempotency_error, IdemRecord) result" where
  "Idempotency_Restore tenantID uid principalID action key digest state res createdAt completedAt expiresAt =
    idempotency_restore tenantID uid principalID action key digest state res createdAt completedAt expiresAt"

text \<open>The accessors \<open>Result.ResourceType\<close> and \<open>Result.ResourceID\<close>: \<open>None\<close> for \<open>ok = false\<close>.\<close>

definition Result_ResourceType :: "IdemResult \<Rightarrow> ReasonCode option" where
  "Result_ResourceType r =
    (if ReasonCode_String (result_resourceType r) \<noteq> [] then Some (result_resourceType r) else None)"

definition Result_ResourceID :: "IdemResult \<Rightarrow> string option" where
  "Result_ResourceID r = (if result_resourceID r \<noteq> [] then Some (result_resourceID r) else None)"

subsection \<open>Correctness\<close>

lemma boundedSafeText_ok: "boundedSafeText text maximum = Inr u \<longleftrightarrow> text \<noteq> [] \<and> text_ok text maximum"
  by (auto simp: boundedSafeText_def text_ok_def)

definition wf_result :: "IdemResult \<Rightarrow> bool" where
  "wf_result r \<longleftrightarrow>
    100 \<le> result_status r \<and> result_status r \<le> 599 \<and>
    (ReasonCode_String (result_resourceType r) = [] \<and> result_resourceID r = [] \<or>
     matches rx_reason_code (ReasonCode_String (result_resourceType r)) \<and>
     length (ReasonCode_String (result_resourceType r)) \<le> 128 \<and>
     result_resourceID r \<noteq> [] \<and> text_ok (result_resourceID r) 512)"

lemma rx_reason_code_nonempty [simp]: "\<not> nullable rx_reason_code"
  by (simp add: rx_reason_code_def)

lemma NewResult_Inr:
  "NewResult status resourceType resourceID = Inr r \<longleftrightarrow>
    wf_result r \<and> result_status r = status \<and>
    ReasonCode_String (result_resourceType r) = resourceType \<and> result_resourceID r = resourceID"
proof (cases "resourceType = []")
  case True
  then show ?thesis by (cases r; cases "result_resourceType r") (auto simp: NewResult_def wf_result_def)
next
  case False
  have texts: "(\<exists>u. boundedSafeText resourceID 512 = Inr u) \<longleftrightarrow> resourceID \<noteq> [] \<and> text_ok resourceID 512"
    using boundedSafeText_ok by blast
  have code: "(\<exists>c. NewReasonCode resourceType = Inr c) \<longleftrightarrow>
      length resourceType \<le> 128 \<and> matches rx_reason_code resourceType"
    by (simp add: NewReasonCode_iff)
  from False show ?thesis
    using texts code NewReasonCode_iff [of resourceType]
    by (cases r; cases "result_resourceType r"; cases "boundedSafeText resourceID 512";
        cases "NewReasonCode resourceType")
      (auto simp: NewResult_def wf_result_def idempotency_limits)
qed

lemma ValidateOwnership_ok:
  "ValidateOwnership principalID action key = Inr u \<longleftrightarrow>
    principalID \<noteq> [] \<and> text_ok principalID 255 \<and> ReasonCode_String action \<noteq> [] \<and>
    key \<noteq> [] \<and> text_ok key 255"
  using boundedSafeText_ok [of principalID 255] boundedSafeText_ok [of key 255]
  by (cases "boundedSafeText principalID 255"; cases "boundedSafeText key 255")
    (auto simp: ValidateOwnership_def idempotency_limits)

definition wf_idem :: "IdemRecord \<Rightarrow> bool" where
  "wf_idem r \<longleftrightarrow>
    valid_uuid (idem_tenantID r) \<and> valid_uuid (idem_id r) \<and>
    idem_principal r \<noteq> [] \<and> text_ok (idem_principal r) 255 \<and>
    ReasonCode_String (idem_action r) \<noteq> [] \<and>
    idem_key r \<noteq> [] \<and> text_ok (idem_key r) 255 \<and>
    wf_digest (idem_digest r) \<and> idem_createdAt r \<noteq> 0 \<and>
    idem_createdAt r + 86400000000000 \<le> idem_expiresAt r \<and>
    (idem_state r = StatePending \<and> idem_result r = None \<and> idem_completedAt r = None \<or>
     idem_state r = StateCompleted \<and>
     (\<exists>res t. idem_result r = Some res \<and> idem_completedAt r = Some t \<and> 100 \<le> result_status res \<and>
        idem_createdAt r \<le> t))"

lemma restore_state_ok:
  "restore_state state res createdAt completedAt = Inr u \<longleftrightarrow>
    state = StatePending \<and> res = None \<and> completedAt = None \<or>
    state = StateCompleted \<and>
      (\<exists>r t. res = Some r \<and> completedAt = Some t \<and> 100 \<le> result_status r \<and> createdAt \<le> t)"
  by (cases res; cases completedAt) (auto simp: restore_state_def)

text \<open>\<open>Restore\<close> accepts exactly the well-formed records.\<close>

lemma Idempotency_Restore_Inr:
  "Idempotency_Restore tenantID uid principalID action key digest state res createdAt completedAt expiresAt
      = Inr r \<longleftrightarrow>
    wf_idem r \<and>
    r = \<lparr>idem_tenantID = tenantID, idem_id = uid, idem_principal = principalID, idem_action = action,
         idem_key = key, idem_digest = digest, idem_state = state, idem_result = res,
         idem_createdAt = createdAt, idem_completedAt = completedAt, idem_expiresAt = expiresAt\<rparr>"
proof -
  note ownership = ValidateOwnership_ok [of principalID action key]
  note state = restore_state_ok [of state res createdAt completedAt]
  show ?thesis
    using ownership state
    by (cases "ValidateOwnership principalID action key"; cases "restore_state state res createdAt completedAt")
      (auto simp: Idempotency_Restore_def idempotency_restore_def wf_idem_def wf_digest_MarshalText
        idempotency_limits)
qed

lemma Idempotency_New_Inr:
  "Idempotency_New tenantID uid principalID action key digest createdAt expiresAt = Inr r \<longleftrightarrow>
    wf_idem r \<and>
    r = \<lparr>idem_tenantID = tenantID, idem_id = uid, idem_principal = principalID, idem_action = action,
         idem_key = key, idem_digest = digest, idem_state = StatePending, idem_result = None,
         idem_createdAt = createdAt, idem_completedAt = None, idem_expiresAt = expiresAt\<rparr>"
  using Idempotency_Restore_Inr [of tenantID uid principalID action key digest StatePending None createdAt
      None expiresAt r]
  by (simp add: Idempotency_New_def Idempotency_Restore_def)

end
