(* ===== verification/Audit_Events.thy ===== *)
theory Audit_Events
  imports Idempotency
begin

text \<open>
  Package \<open>internal/domain/audit\<close>: the actor a request acts as and the append-only audit facts.
\<close>

subsection \<open>Data\<close>

definition MaxActorBytes :: nat where "MaxActorBytes = 255"
definition AuditMaxResourceIDBytes :: nat where "AuditMaxResourceIDBytes = 512"
definition MaxReferences :: nat where "MaxReferences = 32"
definition AuditMaxListSize :: int where "AuditMaxListSize = 200"

lemmas audit_limits = MaxActorBytes_def AuditMaxResourceIDBytes_def MaxReferences_def AuditMaxListSize_def

record Actor =
  actor_principalID :: string
  actor_requestID :: "UUID option"
  actor_traceID :: string

record AuditEvent =
  aud_tenantID :: UUID
  aud_id :: UUID
  aud_actorID :: string
  aud_action :: ReasonCode
  aud_resourceType :: ReasonCode
  aud_resourceID :: string
  aud_artifactDigest :: "Digest option"
  aud_decision :: "ReasonCode option"
  aud_reasonCodes :: "ReasonCode list"
  aud_evidenceIDs :: "UUID list"
  aud_policyDigests :: "Digest list"
  aud_occurredAt :: Time
  aud_requestID :: "UUID option"
  aud_traceID :: string

datatype audit_error =
    ActorPrincipalID text_error | ActorRequestID | ActorInvalidTraceID
  | AuditIdentifierError | AuditActorID text_error | AuditActionAndTypeRequired
  | AuditResourceID text_error | AuditArtifactDigest | AuditInvalidDecision
  | AuditTooManyReferences | AuditInvalidReasonCode | AuditEvidenceID | AuditPolicyDigest
  | AuditOccurrenceTimeRequired | AuditRequestID | AuditInvalidTraceID

subsection \<open>Operations\<close>

text \<open>\<open>traceIDPattern\<close>: \<open>^[0-9a-f]{32}$\<close>, thirty-two copies of the class.\<close>

definition traceIDPattern :: rx where
  "traceIDPattern = foldr Seq (replicate 32 (Cls lower_hex)) One"

text \<open>\<open>boundedSafeText\<close> of this package, the text of the one of \<open>idempotency\<close>.\<close>

definition audit_boundedSafeText :: "string \<Rightarrow> nat \<Rightarrow> (text_error, unit) result" where
  "audit_boundedSafeText text maximum =
    (if text = [] \<or> length text > maximum \<or> \<not> utf8_valid text then Inl TextInvalidLengthOrEncoding
     else if has_control text then Inl TextControlCharacter
     else Inr ())"

definition NewActor :: "string \<Rightarrow> UUID option \<Rightarrow> string \<Rightarrow> (audit_error, Actor) result" where
  "NewActor principalID requestID traceID =
    (case audit_boundedSafeText principalID MaxActorBytes of
       Inl e \<Rightarrow> Inl (ActorPrincipalID e)
     | Inr _ \<Rightarrow>
       (if (case requestID of None \<Rightarrow> False | Some u \<Rightarrow> \<not> valid_uuid u) then Inl ActorRequestID
        else if traceID \<noteq> [] \<and> \<not> matches traceIDPattern traceID then Inl ActorInvalidTraceID
        else Inr \<lparr>actor_principalID = principalID, actor_requestID = requestID, actor_traceID = traceID\<rparr>))"

text \<open>
  The actor carried by a request context; \<open>WithActor\<close> replaces it and \<open>ActorFromContext\<close> returns
  \<open>None\<close> for a missing actor or one without a principal.
\<close>

definition WithActor :: "Actor option \<Rightarrow> Actor \<Rightarrow> Actor option" where
  "WithActor ctx actor = Some actor"

definition ActorFromContext :: "Actor option \<Rightarrow> Actor option" where
  "ActorFromContext ctx =
    (case ctx of None \<Rightarrow> None | Some actor \<Rightarrow> if actor_principalID actor \<noteq> [] then Some actor else None)"

definition Audit_Restore ::
  "UUID \<Rightarrow> UUID \<Rightarrow> string \<Rightarrow> ReasonCode \<Rightarrow> ReasonCode \<Rightarrow> string \<Rightarrow> Digest option \<Rightarrow> ReasonCode option \<Rightarrow>
    ReasonCode list \<Rightarrow> UUID list \<Rightarrow> Digest list \<Rightarrow> Time \<Rightarrow> UUID option \<Rightarrow> string \<Rightarrow>
    (audit_error, AuditEvent) result" where
  "Audit_Restore tenantID uid actorID action resourceType resourceID artifactDigest decision reasonCodes
      evidenceIDs policyDigests occurredAt requestID traceID =
    (if \<not> valid_uuid tenantID \<or> \<not> valid_uuid uid then Inl AuditIdentifierError
     else case audit_boundedSafeText actorID MaxActorBytes of
       Inl e \<Rightarrow> Inl (AuditActorID e)
     | Inr _ \<Rightarrow>
       (if ReasonCode_String action = [] \<or> ReasonCode_String resourceType = []
          then Inl AuditActionAndTypeRequired
        else case audit_boundedSafeText resourceID AuditMaxResourceIDBytes of
          Inl e \<Rightarrow> Inl (AuditResourceID e)
        | Inr _ \<Rightarrow>
          (if (case artifactDigest of None \<Rightarrow> False | Some d \<Rightarrow> \<not> is_ok (Digest_MarshalText d))
             then Inl AuditArtifactDigest
           else if (case decision of None \<Rightarrow> False | Some c \<Rightarrow> ReasonCode_String c = [])
             then Inl AuditInvalidDecision
           else if length reasonCodes > MaxReferences \<or> length evidenceIDs > MaxReferences \<or>
               length policyDigests > MaxReferences then Inl AuditTooManyReferences
           else if \<not> list_all (\<lambda>c. ReasonCode_String c \<noteq> []) reasonCodes then Inl AuditInvalidReasonCode
           else if \<not> list_all valid_uuid evidenceIDs then Inl AuditEvidenceID
           else if \<not> list_all (\<lambda>d. is_ok (Digest_MarshalText d)) policyDigests then Inl AuditPolicyDigest
           else if time_IsZero occurredAt then Inl AuditOccurrenceTimeRequired
           else if (case requestID of None \<Rightarrow> False | Some u \<Rightarrow> \<not> valid_uuid u) then Inl AuditRequestID
           else if traceID \<noteq> [] \<and> \<not> matches traceIDPattern traceID then Inl AuditInvalidTraceID
           else Inr \<lparr>aud_tenantID = tenantID, aud_id = uid, aud_actorID = actorID, aud_action = action,
                  aud_resourceType = resourceType, aud_resourceID = resourceID,
                  aud_artifactDigest = artifactDigest, aud_decision = decision,
                  aud_reasonCodes = reasonCodes, aud_evidenceIDs = evidenceIDs,
                  aud_policyDigests = policyDigests, aud_occurredAt = occurredAt,
                  aud_requestID = requestID, aud_traceID = traceID\<rparr>)))"

subsection \<open>Correctness\<close>

lemma audit_boundedSafeText_ok:
  "audit_boundedSafeText text maximum = Inr u \<longleftrightarrow> text \<noteq> [] \<and> text_ok text maximum"
  by (auto simp: audit_boundedSafeText_def text_ok_def)

lemma lang_repeat:
  "s \<in> lang (foldr Seq (replicate n (Cls p)) One) \<longleftrightarrow> length s = n \<and> (\<forall>c \<in> set s. p c)"
proof (induction n arbitrary: s)
  case (Suc n)
  show ?case
  proof (cases s)
    case Nil
    then show ?thesis by simp
  next
    case (Cons c t)
    with Suc [of t] show ?thesis by (auto simp: lang_Seq_Cls simp del: lang.simps(4))
  qed
qed auto

lemma matches_traceID:
  "matches traceIDPattern s \<longleftrightarrow> length s = 32 \<and> (\<forall>c \<in> set s. lower_hex c)"
  by (simp only: matches_lang traceIDPattern_def lang_repeat)

definition trace_ok :: "string \<Rightarrow> bool" where
  "trace_ok traceID \<longleftrightarrow> traceID = [] \<or> length traceID = 32 \<and> (\<forall>c \<in> set traceID. lower_hex c)"

definition wf_actor :: "Actor \<Rightarrow> bool" where
  "wf_actor a \<longleftrightarrow> actor_principalID a \<noteq> [] \<and> text_ok (actor_principalID a) 255 \<and>
    (\<forall>u. actor_requestID a = Some u \<longrightarrow> valid_uuid u) \<and> trace_ok (actor_traceID a)"

lemma NewActor_Inr:
  "NewActor principalID requestID traceID = Inr a \<longleftrightarrow>
    wf_actor a \<and>
    a = \<lparr>actor_principalID = principalID, actor_requestID = requestID, actor_traceID = traceID\<rparr>"
  using audit_boundedSafeText_ok [of principalID 255]
  by (cases "audit_boundedSafeText principalID 255"; cases requestID)
    (auto simp: NewActor_def wf_actor_def trace_ok_def matches_traceID audit_limits)

lemma ActorFromContext_WithActor: "wf_actor a \<Longrightarrow> ActorFromContext (WithActor ctx a) = Some a"
  by (simp add: ActorFromContext_def WithActor_def wf_actor_def)

definition wf_audit :: "AuditEvent \<Rightarrow> bool" where
  "wf_audit e \<longleftrightarrow>
    valid_uuid (aud_tenantID e) \<and> valid_uuid (aud_id e) \<and>
    (aud_actorID e \<noteq> [] \<and> text_ok (aud_actorID e) 255) \<and>
    (ReasonCode_String (aud_action e) \<noteq> [] \<and> ReasonCode_String (aud_resourceType e) \<noteq> []) \<and>
    (aud_resourceID e \<noteq> [] \<and> text_ok (aud_resourceID e) 512) \<and>
    (\<forall>d. aud_artifactDigest e = Some d \<longrightarrow> wf_digest d) \<and>
    (\<forall>c. aud_decision e = Some c \<longrightarrow> ReasonCode_String c \<noteq> []) \<and>
    (length (aud_reasonCodes e) \<le> 32 \<and> length (aud_evidenceIDs e) \<le> 32 \<and>
     length (aud_policyDigests e) \<le> 32) \<and>
    (\<forall>c \<in> set (aud_reasonCodes e). ReasonCode_String c \<noteq> []) \<and>
    (\<forall>u \<in> set (aud_evidenceIDs e). valid_uuid u) \<and> (\<forall>d \<in> set (aud_policyDigests e). wf_digest d) \<and>
    aud_occurredAt e \<noteq> 0 \<and> (\<forall>u. aud_requestID e = Some u \<longrightarrow> valid_uuid u) \<and> trace_ok (aud_traceID e)"

lemma optional_check: "\<not> (case x of None \<Rightarrow> False | Some v \<Rightarrow> P v) \<longleftrightarrow> (\<forall>v. x = Some v \<longrightarrow> \<not> P v)"
  by (cases x) auto

lemma Audit_Restore_Inr:
  "Audit_Restore tenantID uid actorID action resourceType resourceID artifactDigest decision reasonCodes
      evidenceIDs policyDigests occurredAt requestID traceID = Inr e \<longleftrightarrow>
    wf_audit e \<and>
    e = \<lparr>aud_tenantID = tenantID, aud_id = uid, aud_actorID = actorID, aud_action = action,
         aud_resourceType = resourceType, aud_resourceID = resourceID,
         aud_artifactDigest = artifactDigest, aud_decision = decision,
         aud_reasonCodes = reasonCodes, aud_evidenceIDs = evidenceIDs,
         aud_policyDigests = policyDigests, aud_occurredAt = occurredAt,
         aud_requestID = requestID, aud_traceID = traceID\<rparr>"
proof -
  have actor: "(case audit_boundedSafeText t m of Inl x \<Rightarrow> Inl (f x) | Inr _ \<Rightarrow> r) = Inr v \<longleftrightarrow>
      (t \<noteq> [] \<and> text_ok t m) \<and> r = Inr v" for t m f and r :: "(audit_error, AuditEvent) result" and v
    using audit_boundedSafeText_ok [of t m] by (cases "audit_boundedSafeText t m") auto
  show ?thesis
    unfolding Audit_Restore_def wf_audit_def actor if_Inl_Inr_iff optional_check
      wf_digest_MarshalText matches_traceID trace_ok_def audit_limits
    by (simp only: list_all_iff) (auto simp: not_less)
qed

end
