(* ===== verification/Samples.thy ===== *)
theory Samples
  imports Publishers Namespaces Authorizer Audit_Events
begin

text \<open>
  Concrete inputs: version-7 identifiers, instants and actors at which the properties are applied.
\<close>

definition sample_uuid :: "nat \<Rightarrow> UUID" where
  "sample_uuid n =
    go_array (replicate 6 (CHR 0x00) @ [CHR 0x70, CHR 0x00, CHR 0x80] @ replicate 6 (CHR 0x00) @ [char_of n])"

lemma sample_uuid_bytes:
  "array_bytes (sample_uuid n) =
    replicate 6 (CHR 0x00) @ [CHR 0x70, CHR 0x00, CHR 0x80] @ replicate 6 (CHR 0x00) @ [char_of n]"
  unfolding sample_uuid_def by (rule array_bytes_go_array) simp

lemma valid_sample_uuid [simp]: "valid_uuid (sample_uuid n)"
  by (simp add: valid_uuid_iff uuid_not_v7_def sample_uuid_bytes nth_append)

lemma sample_uuid_inject [simp]: "m < 256 \<Longrightarrow> n < 256 \<Longrightarrow> sample_uuid m = sample_uuid n \<longleftrightarrow> m = n"
proof -
  assume mn: "m < 256" "n < 256"
  have "m = n" if "sample_uuid m = sample_uuid n"
  proof -
    from that have "array_bytes (sample_uuid m) = array_bytes (sample_uuid n)" by simp
    then have "(char_of m :: char) = char_of n" by (simp add: sample_uuid_bytes)
    then have "code (char_of m :: char) = code (char_of n :: char)" by simp
    with mn show ?thesis by (simp add: of_char_of)
  qed
  then show ?thesis by blast
qed

text \<open>2026-01-02T03:04:05.123456789Z.\<close>

definition sample_time :: Time where
  "sample_time = from_Unix 1767323045 + 123456789"

lemma sample_time_nonzero [simp]: "sample_time \<noteq> 0"
  by (simp add: sample_time_def time_defs)

definition sample_actor :: Actor where
  "sample_actor = \<lparr>actor_principalID = ''alice'', actor_requestID = None, actor_traceID = []\<rparr>"

lemma printable_ascii:
  "list_all (\<lambda>c. 0x20 \<le> code c \<and> code c < 0x7F) s \<Longrightarrow>
    utf8_valid s \<and> \<not> list_ex is_control (map snd (index_runes i s))"
  by (induction s arbitrary: i) (auto simp: index_runes.simps [of _ "[]"] is_control_def)

lemma text_ok_ascii:
  "list_all (\<lambda>c. 0x20 \<le> code c \<and> code c < 0x7F) s \<Longrightarrow> length s \<le> maximum \<Longrightarrow> text_ok s maximum"
  using printable_ascii [of s 0] by (simp add: text_ok_def has_control_def runes_def)

lemma wf_sample_actor [simp]: "wf_actor sample_actor"
  by (simp add: wf_actor_def sample_actor_def trace_ok_def text_ok_ascii)

lemma ValidatePath_literal:
  "length path \<le> 255 \<Longrightarrow> list_all (\<lambda>s. s \<noteq> [] \<and> list_all is_lower_alnum s) (segments path) \<Longrightarrow>
    ValidatePath path"
  unfolding ValidatePath_iff by (auto simp: list_all_iff matches_dns_token)

end
