(* ===== verification/Domain_Properties.thy ===== *)
theory Domain_Properties
  imports Samples
begin

text \<open>
  Properties of the domain packages: canonical text forms, identifier generation, authorization,
  the publisher and delegation lifecycles, namespace nesting and idempotency records. Each rests on
  the lemmas of its component.
\<close>

subsection \<open>Canonical text\<close>

text \<open>The text of an identifier is read back to it, and only that text is.\<close>

theorem uuid_text_roundtrip: "UUID_MarshalText u = Inr text \<longleftrightarrow> ParseUUID text = Inr u"
  by (auto simp: ParseUUID_iff UUID_MarshalText_def valid_uuid_iff)

text \<open>The text of a digest is read back to it, and only that text is.\<close>

theorem digest_text_roundtrip: "Digest_MarshalText d = Inr text \<longleftrightarrow> ParseDigest text = Inr d"
  by (simp add: ParseDigest_iff Digest_MarshalText_Inr)

text \<open>Exactly the printed references are accepted, with every namespace segment and the name a DNS
  token of at most 63 bytes and the namespace at most 255 bytes.\<close>

theorem artifact_reference_roundtrip:
  "ParseArtifactReference value = Inr r \<longleftrightarrow>
    value = ArtifactReference_String r \<and>
    list_all (\<lambda>s. length s \<le> 63 \<and> matches rx_dns_token s) (split_on (CHR ''/'') (ref_namespace r)) \<and>
    length (ref_name r) \<le> 63 \<and> matches rx_dns_token (ref_name r) \<and> length (ref_namespace r) \<le> 255"
  by (rule ParseArtifactReference_iff)

text \<open>A reason code is a text of at most 128 bytes of the language of the reason-code expression.\<close>

theorem reason_code_language:
  "NewReasonCode value = Inr r \<longleftrightarrow>
    r = ReasonCode value \<and> length value \<le> 128 \<and> matches rx_reason_code value"
  by (rule NewReasonCode_iff)

subsection \<open>Identifiers\<close>

text \<open>Identifiers generated at a later millisecond sort after those of an earlier one, whatever the
  random bytes, and both are valid version-7 identifiers.\<close>

theorem uuid_generation_ordered:
  assumes "UUIDGenerator_New now random = Inr u" and "UUIDGenerator_New later random' = Inr v"
    and "time_UnixMilli now < time_UnixMilli later"
  shows "valid_uuid u \<and> valid_uuid v \<and> u < v"
  using UUIDGenerator_New_less [OF assms] UUIDGenerator_New_bytes [OF assms(1)]
    UUIDGenerator_New_bytes [OF assms(2)] by simp

theorem uuid_generation_ordered_witness:
  "\<exists>u v. UUIDGenerator_New sample_time (replicate 10 (CHR 0xFF)) = Inr u \<and>
    UUIDGenerator_New (sample_time + 1000000) (replicate 10 (CHR 0x00)) = Inr v \<and>
    valid_uuid u \<and> valid_uuid v \<and> u < v"
proof -
  have "is_ok (UUIDGenerator_New sample_time (replicate 10 (CHR 0xFF)))"
    and "is_ok (UUIDGenerator_New (sample_time + 1000000) (replicate 10 (CHR 0x00)))"
    by (simp_all add: UUIDGenerator_New_def Let_def is_ok_def sample_time_def time_defs)
  then obtain u v where "UUIDGenerator_New sample_time (replicate 10 (CHR 0xFF)) = Inr u"
    and "UUIDGenerator_New (sample_time + 1000000) (replicate 10 (CHR 0x00)) = Inr v"
    by (auto simp: is_ok_def split: sum.splits)
  moreover have "time_UnixMilli sample_time < time_UnixMilli (sample_time + 1000000)"
    by (simp add: sample_time_def time_defs)
  ultimately show ?thesis using uuid_generation_ordered by blast
qed

subsection \<open>Authorization\<close>

text \<open>
  C24: an authorizer built from grants permits an action exactly when one of the grants names the
  tenant and principal and its role covers the action; everything else is denied.
\<close>

theorem authorize_exact:
  assumes "NewAuthorizer grants = Inr a"
  shows "Authorize a identity action = None \<longleftrightarrow>
    (\<exists>g \<in> set grants. grant_TenantID g = ident_TenantID identity \<and>
      grant_PrincipalID g = ident_PrincipalID identity \<and>
      (\<exists>actions. actionsByRole (grant_Role g) = Some actions \<and> action \<in> set actions))"
proof -
  from assms have ok: "g \<in> set grants \<Longrightarrow> grant_ok g" for g
    using NewAuthorizer_ok [of grants] by (simp add: is_ok_def)
  from assms have roles: "granted_roles (rolesByPrincipal a) key =
      {grant_Role g | g. g \<in> set grants \<and> grant_key g = key}" for key
    using add_grants_roles [of 0 grants Map.empty "rolesByPrincipal a" key]
    by (auto simp: NewAuthorizer_def granted_roles_def split: sum.splits)
  show ?thesis
    using ok unfolding Authorize_granted roles
    by (fastforce simp: grant_key_def UUID_String_inject grant_ok_def)
qed

theorem authorize_exact_witness:
  "\<exists>a. NewAuthorizer [\<lparr>grant_TenantID = sample_uuid 1, grant_PrincipalID = ''alice'', grant_Role = RoleReviewer\<rparr>] = Inr a \<and>
    Authorize a \<lparr>ident_TenantID = sample_uuid 1, ident_PrincipalID = ''alice''\<rparr> ActionReviewPromotion = None \<and>
    Authorize a \<lparr>ident_TenantID = sample_uuid 1, ident_PrincipalID = ''alice''\<rparr> ActionPublish = Some errAuthorizationDenied"
proof -
  let ?grants = "[\<lparr>grant_TenantID = sample_uuid 1, grant_PrincipalID = ''alice'', grant_Role = RoleReviewer\<rparr>]"
  have "is_ok (NewAuthorizer ?grants)"
    by (simp add: NewAuthorizer_ok grant_ok_def text_ok_ascii actionsByRole_def)
  then obtain a where a: "NewAuthorizer ?grants = Inr a" by (auto simp: is_ok_def split: sum.splits)
  have "Authorize a \<lparr>ident_TenantID = sample_uuid 1, ident_PrincipalID = ''alice''\<rparr> ActionPublish \<noteq> None"
    using authorize_exact [OF a] by (simp add: actionsByRole_def)
  then have "Authorize a \<lparr>ident_TenantID = sample_uuid 1, ident_PrincipalID = ''alice''\<rparr> ActionPublish =
      Some errAuthorizationDenied"
    by (auto simp: Authorize_def Let_def is_ok_iff validatePrincipalID_ok text_ok_ascii split: if_splits option.splits)
  then show ?thesis using a authorize_exact [OF a] by (simp add: actionsByRole_def)
qed

text \<open>The grants are accepted exactly when each is valid and none is repeated.\<close>

theorem authorizer_construction:
  "is_ok (NewAuthorizer grants) \<longleftrightarrow> list_all grant_ok grants \<and> distinct grants"
  by (simp add: NewAuthorizer_ok list_all_iff)

text \<open>No action is covered by two roles, so a grant of one role never implies another's actions.\<close>

theorem role_separation:
  assumes "actionsByRole r = Some as" and "a \<in> set as" and "actionsByRole r' = Some bs" and "a \<in> set bs"
  shows "r = r'"
  using actionsByRole_unique [OF assms] .

theorem role_separation_witness:
  "actionsByRole RoleReviewer = Some [ActionReviewPromotion] \<and> RoleReviewer = RoleReviewer"
  using role_separation [of RoleReviewer "[ActionReviewPromotion]" ActionReviewPromotion RoleReviewer
      "[ActionReviewPromotion]"]
  by (simp add: actionsByRole_def)

subsection \<open>Publishers\<close>

text \<open>
  C23: from a newly created publisher every sequence of accepted transitions keeps the publisher well
  formed and its identity fixed, counts its versions, never returns to claimed and never leaves
  revoked.
\<close>

theorem publisher_lifecycle:
  assumes "Publisher_New tenantID uid slug displayName description createdAt = Inr p"
    and "run_steps publisher_step p es = Some q" and "int (length es) < max_int64"
  shows "wf_publisher q \<and> pub_version q = 1 + int (length es) \<and>
    publisher_identity q = publisher_identity p \<and>
    (es \<noteq> [] \<longrightarrow> pub_state q \<noteq> PublisherClaimed) \<and>
    (pub_state q = PublisherRevoked \<longrightarrow> (\<forall>e. publisher_step q e = None))"
proof -
  from assms(1) have p: "wf_publisher p" "pub_version p = 1" using Publisher_New_wf by blast+
  with assms(2,3) publisher_life.run_version_inv [of p es q]
  have "wf_publisher q" "pub_version q = 1 + int (length es)" by simp_all
  with assms(2) show ?thesis
    using publisher_life.run_identity publisher_run_not_claimed publisher_life.terminal_stuck by blast
qed

theorem publisher_lifecycle_witness:
  "\<exists>p q. Publisher_New (sample_uuid 1) (sample_uuid 2) ''acme'' ''Acme'' [] sample_time = Inr p \<and>
    run_steps publisher_step p [\<lparr>ev_to = PublisherVerified, ev_reason = ReasonCode ''ok'', ev_explanation = [], ev_at = sample_time\<rparr>] = Some q \<and>
    pub_version q = 2"
proof -
  let ?e = "\<lparr>ev_to = PublisherVerified, ev_reason = ReasonCode ''ok'', ev_explanation = [], ev_at = sample_time\<rparr>"
  have "is_ok (Publisher_New (sample_uuid 1) (sample_uuid 2) ''acme'' ''Acme'' [] sample_time)"
    by (simp add: is_ok_iff Publisher_New_def publisher_restore_Inr wf_publisher_def publisher_limits
        text_ok_ascii matches_dns_token char_class_defs publisher_validState_def)
  then obtain p where p: "Publisher_New (sample_uuid 1) (sample_uuid 2) ''acme'' ''Acme'' [] sample_time = Inr p"
    by (auto simp: is_ok_def split: sum.splits)
  have "publisher_step p ?e \<noteq> None"
    using Publisher_New_wf [OF p]
    by (simp add: publisher_step_def Publisher_Transition_def transition_allowed_def publisher_optionalText_def Let_def split: sum.splits)
  then obtain q where q: "run_steps publisher_step p [?e] = Some q" by auto
  show ?thesis using p q publisher_lifecycle [OF p q] by (auto simp: max_int64_def)
qed

subsection \<open>Namespaces\<close>

text \<open>C32: descent is proper extension of the path by whole segments, between valid paths.\<close>

theorem descendant_is_segment_prefix:
  "IsStrictDescendant parent candidate \<longleftrightarrow>
    ValidatePath parent \<and> ValidatePath candidate \<and>
    (\<exists>d ds. segments candidate = segments parent @ d # ds)"
  unfolding IsStrictDescendant_iff strict_prefix_def
  by (metis append_self_conv list.distinct(1) neq_Nil_conv prefix_def)

text \<open>The ancestors of a path are ordered: of two, one is nested in the other.\<close>

theorem ancestors_form_a_chain:
  assumes "IsStrictDescendant a c" and "IsStrictDescendant b c"
  shows "a = b \<or> IsStrictDescendant a b \<or> IsStrictDescendant b a"
  using ancestors_comparable assms by blast

theorem ancestors_form_a_chain_witness:
  "IsStrictDescendant ''a'' ''a/b/c'' \<and> IsStrictDescendant ''a/b'' ''a/b/c'' \<and>
    (''a'' = ''a/b'' \<or> IsStrictDescendant ''a'' ''a/b'' \<or> IsStrictDescendant ''a/b'' ''a'')"
proof -
  have "IsStrictDescendant ''a'' ''a/b/c''" and "IsStrictDescendant ''a/b'' ''a/b/c''"
    by (simp_all add: IsStrictDescendant_iff ValidatePath_iff rx_dns_token_def rx_token_def rx_opt_def char_class_defs)
  then show ?thesis using ancestors_form_a_chain by blast
qed

text \<open>C33: a delegation is revoked at most once: no sequence of revocations is longer.\<close>

theorem delegation_revoked_once:
  assumes "NewDelegation tenantID uid namespaceID namespacePath publisherID childPrefix createdAt = Inr d"
    and "run_steps delegation_step d es = Some d'"
  shows "length es \<le> 1 \<and> wf_delegation d' \<and> del_version d' = 1 + int (length es)"
proof -
  from assms(1) have d: "wf_delegation d" "del_version d = 1"
    by (auto simp: NewDelegation_def restoreDelegation_def wf_delegation_def split: if_splits)
  with assms(2) have len: "length es \<le> 1" using delegation_run_length by blast
  with d assms(2) delegation_life.run_version_inv [of d es d'] show ?thesis by (simp add: max_int64_def)
qed

theorem delegation_revoked_once_witness:
  "\<exists>d d'. NewDelegation (sample_uuid 1) (sample_uuid 2) (sample_uuid 3) ''acme'' (sample_uuid 4) ''acme/tools'' sample_time = Inr d \<and>
    run_steps delegation_step d [\<lparr>rev_reason = ReasonCode ''ok'', rev_explanation = [], rev_at = sample_time\<rparr>] = Some d' \<and>
    del_version d' = 2"
proof -
  let ?e = "\<lparr>rev_reason = ReasonCode ''ok'', rev_explanation = [], rev_at = sample_time\<rparr>"
  have "is_ok (NewDelegation (sample_uuid 1) (sample_uuid 2) (sample_uuid 3) ''acme'' (sample_uuid 4) ''acme/tools'' sample_time)"
    by (simp add: is_ok_iff NewDelegation_Inr wf_delegation_def IsStrictDescendant_iff ValidatePath_iff
        rx_dns_token_def rx_token_def rx_opt_def char_class_defs)
  then obtain d where d: "NewDelegation (sample_uuid 1) (sample_uuid 2) (sample_uuid 3) ''acme'' (sample_uuid 4) ''acme/tools'' sample_time = Inr d"
    by (auto simp: is_ok_def split: sum.splits)
  have "delegation_step d ?e \<noteq> None"
    using d by (auto simp: delegation_step_def NewDelegation_Inr Delegation_Revoke_def)
  then obtain d' where d': "run_steps delegation_step d [?e] = Some d'" by auto
  show ?thesis using d d' delegation_revoked_once [OF d d'] by auto
qed

subsection \<open>Idempotency records\<close>

text \<open>A stored idempotency record is accepted exactly when it is well formed (the ownership and
  digest valid, kept for at least a day, and completed with a result exactly when its state says so),
  and nothing is changed on the way.\<close>

theorem idempotency_restore_exact:
  "Idempotency_Restore tenantID uid principalID action key digest state res createdAt completedAt expiresAt
      = Inr r \<longleftrightarrow>
    wf_idem r \<and>
    r = \<lparr>idem_tenantID = tenantID, idem_id = uid, idem_principal = principalID, idem_action = action,
         idem_key = key, idem_digest = digest, idem_state = state, idem_result = res,
         idem_createdAt = createdAt, idem_completedAt = completedAt, idem_expiresAt = expiresAt\<rparr>"
  by (rule Idempotency_Restore_Inr)

subsection \<open>Namespace paths and artifact references\<close>

text \<open>A namespace path may have segments of up to 255 bytes, a reference only of up to 63: there is
  an accepted path below which no artifact can be named.\<close>

theorem namespace_without_artifacts:
  "ValidatePath (replicate 64 (CHR ''a'')) \<and>
    (\<forall>name. \<not> is_ok (ParseArtifactReference (replicate 64 (CHR ''a'') @ CHR ''/'' # name)))"
proof -
  let ?path = "replicate 64 (CHR ''a'')"
  have segments: "segments ?path = [?path]" by (rule split_on_no_sep) simp
  have "ValidatePath ?path"
    by (simp add: ValidatePath_iff segments matches_dns_token char_class_defs)
  moreover have "\<not> validNameToken ?path" by (simp add: validNameToken_regexp)
  then have "\<not> list_all validNameToken (split_on (CHR ''/'') (?path @ CHR ''/'' # name))" for name
    by (simp add: split_on_append_sep segments)
  then have "\<not> is_ok (ParseArtifactReference (?path @ CHR ''/'' # name))" for name
    by (simp add: ParseArtifactReference_def is_ok_def Let_def)
  ultimately show ?thesis by blast
qed

end
