(* ===== verification/Database.thy ===== *)
theory Database
  imports Publishers Namespaces Audit_Events
begin

text \<open>
  The PostgreSQL boundary: the environment (driver faults, clocks, generated identifiers), the
  tables of \<open>migrations/*.sql\<close> the repositories use, statements, and the transactions of
  \<open>internal/adapters/postgres/transaction.go\<close>. The state is explicit: a computation maps a
  \<open>World\<close> to its result and the next \<open>World\<close>.
\<close>

subsection \<open>The environment\<close>

text \<open>
  An error of a driver call: a \<open>*pgconn.PgError\<close> with its SQLSTATE and constraint name, or another
  error (connection, protocol, cancellation).
\<close>

datatype sql_error = PgError string string | DriverError

text \<open>
  Code outside the repository: at its \<open>n\<close>-th interaction with the world a driver call fails as
  \<open>env_fault\<close> says, whatever the reason. \<open>env_store_time\<close> is the rounding of an instant stored in a
  \<open>timestamptz\<close> column; \<open>env_uuidv7\<close> and \<open>env_timestamp\<close> are PostgreSQL's \<open>uuidv7()\<close> and
  \<open>CURRENT_TIMESTAMP\<close>; \<open>env_add_days\<close> is \<open>timestamptz + INTERVAL 'n days'\<close>, which PostgreSQL computes
  in the session's time zone; \<open>env_space\<close> says which runes above ASCII the server's locale puts in
  \<open>[[:space:]]\<close>, and \<open>env_ilike pattern text\<close> is its \<open>text ILIKE pattern ESCAPE '\'\<close>; \<open>env_clock\<close> and \<open>env_identifier\<close> are the injected \<open>clock.Clock\<close> and
  \<open>IdentifierGenerator\<close> (\<open>None\<close> when it fails).
\<close>

record Env =
  env_fault :: "nat \<Rightarrow> sql_error option"
  env_store_time :: "Time \<Rightarrow> Time"
  env_uuidv7 :: "nat \<Rightarrow> UUID"
  env_timestamp :: "nat \<Rightarrow> Time"
  env_clock :: "nat \<Rightarrow> Time"
  env_identifier :: "nat \<Rightarrow> UUID option"
  env_add_days :: "int \<Rightarrow> Time \<Rightarrow> Time"
  env_space :: "nat \<Rightarrow> bool"
  env_ilike :: "string \<Rightarrow> string \<Rightarrow> bool"

text \<open>The request context: the tenant of the transaction it carries, and the audit actor.\<close>

record Ctx =
  ctx_tx :: "UUID option"
  ctx_actor :: "Actor option"

subsection \<open>Tables\<close>

record PublisherRow =
  prow_tenant :: UUID
  prow_id :: UUID
  prow_slug :: string
  prow_display_name :: "string option"
  prow_description :: "string option"
  prow_current_version :: int
  prow_created_at :: Time

record PublisherStateRow =
  psrow_tenant :: UUID
  psrow_publisher :: UUID
  psrow_version :: int
  psrow_state :: string
  psrow_reason :: "string option"
  psrow_explanation :: "string option"
  psrow_recorded_at :: Time

record NamespaceRow =
  nrow_tenant :: UUID
  nrow_id :: UUID
  nrow_path :: string
  nrow_owner :: UUID
  nrow_created_at :: Time

record DelegationRow =
  drow_tenant :: UUID
  drow_id :: UUID
  drow_namespace :: UUID
  drow_prefix :: string
  drow_publisher :: UUID
  drow_current_version :: int
  drow_revoked_at :: "Time option"
  drow_created_at :: Time

record DelegationStateRow =
  dsrow_tenant :: UUID
  dsrow_delegation :: UUID
  dsrow_prefix :: string
  dsrow_version :: int
  dsrow_state :: string
  dsrow_reason :: "string option"
  dsrow_explanation :: string
  dsrow_recorded_at :: Time

record IdempotencyRow =
  irow_tenant :: UUID
  irow_id :: UUID
  irow_principal :: string
  irow_action :: string
  irow_key :: string
  irow_digest :: string
  irow_state :: string
  irow_status :: "nat option"
  irow_resource_type :: "string option"
  irow_resource_id :: "string option"
  irow_created_at :: Time
  irow_completed_at :: "Time option"
  irow_expires_at :: Time

record AuditRow =
  arow_tenant :: UUID
  arow_id :: UUID
  arow_actor :: string
  arow_action :: string
  arow_resource_type :: string
  arow_resource_id :: string
  arow_artifact_digest :: "string option"
  arow_decision :: "string option"
  arow_reason_codes :: "string list"
  arow_evidence_ids :: "UUID list"
  arow_policy_digests :: "string list"
  arow_occurred_at :: Time
  arow_request_id :: "UUID option"
  arow_trace_id :: "string option"

record SequenceRow =
  srow_tenant :: UUID
  srow_next :: int

record OutboxRow =
  orow_tenant :: UUID
  orow_id :: UUID
  orow_sequence :: int
  orow_source :: string
  orow_type :: string
  orow_subject :: string
  orow_payload :: string
  orow_digest :: string
  orow_state :: string
  orow_attempts :: int
  orow_available_at :: Time
  orow_claim_token :: "UUID option"
  orow_claimed_by :: "string option"
  orow_claimed_at :: "Time option"
  orow_lease_expires_at :: "Time option"
  orow_last_error :: "string option"
  orow_delivered_at :: "Time option"
  orow_dead_lettered_at :: "Time option"
  orow_retain_until :: "Time option"
  orow_created_at :: Time

record ArtifactRow =
  atrow_tenant :: UUID
  atrow_id :: UUID
  atrow_namespace :: UUID
  atrow_name :: string
  atrow_kind :: string
  atrow_display_name :: "string option"
  atrow_description :: "string option"
  atrow_homepage :: "string option"
  atrow_repository :: "string option"
  atrow_labels :: "(string \<times> string) list"
  atrow_created_at :: Time

record VersionRow =
  vrow_tenant :: UUID
  vrow_id :: UUID
  vrow_artifact :: UUID
  vrow_publisher :: UUID
  vrow_semantic_version :: string
  vrow_digest :: string
  vrow_kind :: string
  vrow_class :: string
  vrow_delivery :: string
  vrow_lifecycle :: string
  vrow_registered_at :: Time

record SourceRow =
  sorow_tenant :: UUID
  sorow_version :: UUID
  sorow_kind :: string
  sorow_submitted :: "string option"
  sorow_resolved :: string
  sorow_digest :: string
  sorow_endpoint :: "string option"
  sorow_import_record :: "UUID option"
  sorow_delivery :: string

record DB =
  db_tenants :: "UUID list"
  db_publishers :: "PublisherRow list"
  db_publisher_states :: "PublisherStateRow list"
  db_namespaces :: "NamespaceRow list"
  db_delegations :: "DelegationRow list"
  db_delegation_states :: "DelegationStateRow list"
  db_idempotency :: "IdempotencyRow list"
  db_audit :: "AuditRow list"
  db_sequences :: "SequenceRow list"
  db_outbox :: "OutboxRow list"
  db_artifacts :: "ArtifactRow list"
  db_versions :: "VersionRow list"
  db_sources :: "SourceRow list"

definition empty_DB :: DB where
  "empty_DB = \<lparr>db_tenants = [], db_publishers = [], db_publisher_states = [], db_namespaces = [],
     db_delegations = [], db_delegation_states = [], db_idempotency = [], db_audit = [],
     db_sequences = [], db_outbox = [], db_artifacts = [],
     db_versions = [], db_sources = []\<rparr>"

text \<open>
  The database as the innermost open transaction sees it, the states a rollback of each open
  transaction or savepoint returns to (innermost first), and the interaction counter.
\<close>

record World =
  w_db :: DB
  w_saved :: "DB list"
  w_tick :: nat

subsection \<open>Computations\<close>

type_synonym 'a io = "World \<Rightarrow> (go_error, 'a) result \<times> World"

definition io_return :: "'a \<Rightarrow> 'a io" where
  "io_return v = (\<lambda>w. (Inr v, w))"

definition io_fail :: "go_error \<Rightarrow> 'a io" where
  "io_fail e = (\<lambda>w. (Inl e, w))"

definition io_bind :: "'a io \<Rightarrow> ('a \<Rightarrow> 'b io) \<Rightarrow> 'b io" where
  "io_bind m k = (\<lambda>w. case m w of (Inl e, w') \<Rightarrow> (Inl e, w') | (Inr v, w') \<Rightarrow> k v w')"

definition io_lift :: "go_error \<Rightarrow> ('e, 'a) result \<Rightarrow> 'a io" where
  "io_lift e r = (case r of Inl _ \<Rightarrow> io_fail e | Inr v \<Rightarrow> io_return v)"

definition io_tick :: "World \<Rightarrow> World" where
  "io_tick w = w\<lparr>w_tick := Suc (w_tick w)\<rparr>"

text \<open>The injected ports: \<open>clock.Now()\<close> and \<open>ids.New()\<close>.\<close>

definition clock_Now :: "Env \<Rightarrow> Time io" where
  "clock_Now env = (\<lambda>w. (Inr (env_clock env (w_tick w)), io_tick w))"

definition ids_New :: "Env \<Rightarrow> go_error \<Rightarrow> UUID io" where
  "ids_New env unavailable = (\<lambda>w.
    (case env_identifier env (w_tick w) of None \<Rightarrow> Inl unavailable | Some u \<Rightarrow> Inr u, io_tick w))"

text \<open>
  A statement sent through the current transaction: it fails when the environment says so or when
  the statement itself does, and otherwise updates the database and returns a value. \<open>on_error\<close>
  is the error the caller returns for a driver error.
\<close>

definition io_exec ::
  "Env \<Rightarrow> (sql_error \<Rightarrow> go_error) \<Rightarrow> (DB \<Rightarrow> (sql_error, 'a \<times> DB) result) \<Rightarrow> 'a io" where
  "io_exec env on_error statement = (\<lambda>w.
    (case env_fault env (w_tick w) of
       Some e \<Rightarrow> (Inl (on_error e), io_tick w)
     | None \<Rightarrow>
       (case statement (w_db w) of
          Inl e \<Rightarrow> (Inl (on_error e), io_tick w)
        | Inr (v, db) \<Rightarrow> (Inr v, (io_tick w)\<lparr>w_db := db\<rparr>))))"

definition io_query :: "Env \<Rightarrow> go_error \<Rightarrow> (DB \<Rightarrow> 'a) \<Rightarrow> 'a io" where
  "io_query env unavailable q = io_exec env (\<lambda>_. unavailable) (\<lambda>db. Inr (q db, db))"

subsection \<open>Transactions\<close>

text \<open>\<open>Begin\<close> opens a transaction, or a savepoint inside one.\<close>

definition tx_begin :: "Env \<Rightarrow> go_error \<Rightarrow> unit io" where
  "tx_begin env unavailable = (\<lambda>w.
    (case env_fault env (w_tick w) of
       Some _ \<Rightarrow> (Inl unavailable, io_tick w)
     | None \<Rightarrow> (Inr (), (io_tick w)\<lparr>w_saved := w_db w # w_saved w\<rparr>)))"

definition tx_commit :: "Env \<Rightarrow> go_error \<Rightarrow> unit io" where
  "tx_commit env unavailable = (\<lambda>w.
    (case env_fault env (w_tick w) of
       Some _ \<Rightarrow> (Inl unavailable, io_tick w)
     | None \<Rightarrow> (Inr (), (io_tick w)\<lparr>w_saved := tl (w_saved w)\<rparr>)))"

text \<open>\<open>rollback\<close> ignores the driver's answer: the server discards the transaction in any case.\<close>

definition tx_rollback :: "World \<Rightarrow> World" where
  "tx_rollback w = (io_tick w)\<lparr>w_db := hd (w_saved w), w_saved := tl (w_saved w)\<rparr>"

definition typed_repo :: "ErrorClass \<Rightarrow> string \<Rightarrow> go_error" where
  "typed_repo cls text =
    (let reason = (case NewReasonCode text of Inl _ \<Rightarrow> ReasonCode [] | Inr r \<Rightarrow> r)
     in NewTypedError cls reason)"

definition transactionError :: "ErrorClass \<Rightarrow> string \<Rightarrow> go_error" where
  "transactionError cls text =
    (let reason = (case NewReasonCode text of Inl _ \<Rightarrow> ReasonCode [] | Inr r \<Rightarrow> r)
     in NewTypedError cls reason)"

definition transactionUnavailable :: go_error where
  "transactionUnavailable = transactionError ErrorUnavailable ''transaction.persistence_unavailable''"

text \<open>\<open>SELECT set_config('thinkpixelmp.tenant_id', $1, true)\<close> right after \<open>Begin\<close>.\<close>

definition set_tenant :: "Env \<Rightarrow> unit io" where
  "set_tenant env = io_query env transactionUnavailable (\<lambda>_. ())"

definition BeginRepositoryTransaction :: "Env \<Rightarrow> Ctx \<Rightarrow> UUID \<Rightarrow> unit io" where
  "BeginRepositoryTransaction env ctx tenantID =
    (if \<not> valid_uuid tenantID then io_fail (transactionError ErrorInvalid ''transaction.invalid_request'')
     else case ctx_tx ctx of
       Some current \<Rightarrow>
         (if current \<noteq> tenantID
            then io_fail (transactionError ErrorInvalid ''transaction.tenant_mismatch'')
          else tx_begin env transactionUnavailable)
     | None \<Rightarrow>
         io_bind (tx_begin env transactionUnavailable) (\<lambda>_ w.
           (case set_tenant env w of
              (Inl e, w') \<Rightarrow> (Inl e, tx_rollback w')
            | (Inr _, w') \<Rightarrow> (Inr (), w'))))"

text \<open>
  \<open>CurrentTransaction\<close>: the transaction the context carries, or an error; used by the writes that
  never open their own.
\<close>

definition CurrentTransaction :: "Ctx \<Rightarrow> UUID \<Rightarrow> unit io" where
  "CurrentTransaction ctx tenantID =
    (if \<not> valid_uuid tenantID then io_fail (transactionError ErrorInvalid ''transaction.invalid_request'')
     else case ctx_tx ctx of
       None \<Rightarrow> io_fail (transactionError ErrorInvalid ''transaction.required'')
     | Some current \<Rightarrow>
         (if current \<noteq> tenantID
            then io_fail (transactionError ErrorInvalid ''transaction.tenant_mismatch'')
          else io_return ()))"

text \<open>
  The body of a transaction with \<open>defer rollback(tx)\<close>: an error of the operation or of the commit
  rolls back.
\<close>

definition commit_or_rollback :: "Env \<Rightarrow> go_error \<Rightarrow> 'a io \<Rightarrow> 'a io" where
  "commit_or_rollback env unavailable operation = (\<lambda>w.
    (case operation w of
       (Inl e, w') \<Rightarrow> (Inl e, tx_rollback w')
     | (Inr v, w') \<Rightarrow>
       (case tx_commit env unavailable w' of
          (Inl e, w'') \<Rightarrow> (Inl e, tx_rollback w'')
        | (Inr _, w'') \<Rightarrow> (Inr v, w''))))"

definition withinNested :: "Env \<Rightarrow> Ctx \<Rightarrow> (Ctx \<Rightarrow> 'a io) \<Rightarrow> 'a io" where
  "withinNested env ctx operation =
    io_bind (tx_begin env transactionUnavailable) (\<lambda>_.
      commit_or_rollback env transactionUnavailable (operation ctx))"

definition WithinTransaction :: "Env \<Rightarrow> Ctx \<Rightarrow> UUID \<Rightarrow> (Ctx \<Rightarrow> 'a io) \<Rightarrow> 'a io" where
  "WithinTransaction env ctx tenantID operation =
    (if \<not> valid_uuid tenantID then io_fail (transactionError ErrorInvalid ''transaction.invalid_request'')
     else case ctx_tx ctx of
       Some current \<Rightarrow>
         (if current \<noteq> tenantID
            then io_fail (transactionError ErrorInvalid ''transaction.tenant_mismatch'')
          else withinNested env ctx operation)
     | None \<Rightarrow>
         io_bind (tx_begin env transactionUnavailable) (\<lambda>_.
           commit_or_rollback env transactionUnavailable
             (io_bind (set_tenant env) (\<lambda>_. operation (ctx\<lparr>ctx_tx := Some tenantID\<rparr>)))))"

text \<open>
  The shape every repository operation has: its own tenant check (\<open>begin\<close>), \<open>defer rollback(tx)\<close>,
  the statements, \<open>tx.Commit\<close>.
\<close>

definition repository_tx ::
  "Env \<Rightarrow> Ctx \<Rightarrow> UUID \<Rightarrow> go_error \<Rightarrow> go_error \<Rightarrow> 'a io \<Rightarrow> 'a io" where
  "repository_tx env ctx tenantID invalid_tenant unavailable statements =
    (if \<not> valid_uuid tenantID then io_fail invalid_tenant
     else io_bind (BeginRepositoryTransaction env ctx tenantID) (\<lambda>_.
       commit_or_rollback env unavailable statements))"

subsection \<open>SQL vocabulary\<close>

text \<open>\<open>NULLIF(x, '')\<close>, \<open>COALESCE(x, '')\<close>, and the exceptions of constraints and triggers.\<close>

definition nullif :: "string \<Rightarrow> string option" where
  "nullif text = (if text = [] then None else Some text)"

definition coalesce :: "string option \<Rightarrow> string" where
  "coalesce v = (case v of None \<Rightarrow> [] | Some text \<Rightarrow> text)"

abbreviation unique_violation :: "string \<Rightarrow> sql_error" where
  "unique_violation name \<equiv> PgError ''23505'' name"

abbreviation foreign_key_violation :: "string \<Rightarrow> sql_error" where
  "foreign_key_violation name \<equiv> PgError ''23503'' name"

abbreviation check_violation :: "string \<Rightarrow> sql_error" where
  "check_violation name \<equiv> PgError ''23514'' name"

abbreviation raise_exception :: sql_error where
  "raise_exception \<equiv> PgError ''P0001'' []"

text \<open>\<open>uniqueViolation(err)\<close>.\<close>

definition uniqueViolation :: "sql_error \<Rightarrow> bool" where
  "uniqueViolation e = (case e of PgError state _ \<Rightarrow> state = ''23505'' | DriverError \<Rightarrow> False)"

text \<open>\<open>QueryRow\<close> reads the first row; \<open>None\<close> is \<open>pgx.ErrNoRows\<close>.\<close>

definition first_row :: "'r list \<Rightarrow> 'r option" where
  "first_row rows = (case rows of [] \<Rightarrow> None | r # _ \<Rightarrow> Some r)"

text \<open>\<open>AND id > $2 ORDER BY id LIMIT n\<close>, the comparison only when \<open>after\<close> is given.\<close>

definition page_after :: "('r \<Rightarrow> UUID) \<Rightarrow> UUID option \<Rightarrow> nat \<Rightarrow> 'r list \<Rightarrow> 'r list" where
  "page_after key after n rows =
    take n (sort_key key
      (filter (\<lambda>r. case after of None \<Rightarrow> True | Some position \<Rightarrow> position < key r) rows))"

text \<open>\<open>for rows.Next() { scan }\<close>: the scanned rows, or the first error.\<close>

fun scan_all :: "('r \<Rightarrow> ('e, 'a) result) \<Rightarrow> 'r list \<Rightarrow> ('e, 'a list) result" where
  "scan_all scan [] = Inr []"
| "scan_all scan (r # rs) =
    (case scan r of
       Inl e \<Rightarrow> Inl e
     | Inr v \<Rightarrow> (case scan_all scan rs of Inl e \<Rightarrow> Inl e | Inr vs \<Rightarrow> Inr (v # vs)))"

text \<open>\<open>scan(tx.QueryRow(...))\<close> with its two errors.\<close>

definition query_one ::
  "Env \<Rightarrow> go_error \<Rightarrow> go_error \<Rightarrow> ('r \<Rightarrow> ('e, 'a) result) \<Rightarrow> (DB \<Rightarrow> 'r list) \<Rightarrow> 'a io" where
  "query_one env not_found unavailable scan q =
    io_bind (io_query env unavailable (\<lambda>db. first_row (q db))) (\<lambda>row.
      case row of None \<Rightarrow> io_fail not_found | Some r \<Rightarrow> io_lift unavailable (scan r))"

definition query_all ::
  "Env \<Rightarrow> go_error \<Rightarrow> ('r \<Rightarrow> ('e, 'a) result) \<Rightarrow> (DB \<Rightarrow> 'r list) \<Rightarrow> 'a list io" where
  "query_all env unavailable scan q =
    io_bind (io_query env unavailable q) (\<lambda>rows. io_lift unavailable (scan_all scan rows))"

subsection \<open>Laws\<close>

lemma io_bind_Inr:
  "io_bind m k w = (Inr v, w') \<longleftrightarrow> (\<exists>u w1. m w = (Inr u, w1) \<and> k u w1 = (Inr v, w'))"
  by (auto simp: io_bind_def split: prod.splits sum.splits)

lemma io_bind_Inl:
  "io_bind m k w = (Inl e, w') \<longleftrightarrow>
    m w = (Inl e, w') \<or> (\<exists>u w1. m w = (Inr u, w1) \<and> k u w1 = (Inl e, w'))"
  by (auto simp: io_bind_def split: prod.splits sum.splits)

text \<open>An early return.\<close>

lemma io_guard_Inr: "(if c then io_fail e else m) w = (Inr r, w') \<longleftrightarrow> \<not> c \<and> m w = (Inr r, w')"
  by (auto simp: io_fail_def)

lemma io_return_bind [simp]: "io_bind (io_return v) k = k v"
  by (simp add: io_bind_def io_return_def)

lemma io_fail_bind [simp]: "io_bind (io_fail e) k = io_fail e"
  by (simp add: io_bind_def io_fail_def)

lemma io_bind_assoc: "io_bind (io_bind m k) h = io_bind m (\<lambda>v. io_bind (k v) h)"
  by (auto simp: io_bind_def fun_eq_iff split: prod.splits sum.splits)

text \<open>
  A computation is balanced when it leaves the open transactions as they were; it is atomic when,
  in addition, an error leaves the database as it was; it only reads when it never changes it.
\<close>

definition balanced :: "'a io \<Rightarrow> bool" where
  "balanced m \<longleftrightarrow> (\<forall>w. w_saved (snd (m w)) = w_saved w)"

definition atomic :: "'a io \<Rightarrow> bool" where
  "atomic m \<longleftrightarrow> balanced m \<and> (\<forall>w e w'. m w = (Inl e, w') \<longrightarrow> w_db w' = w_db w)"

definition reads :: "'a io \<Rightarrow> bool" where
  "reads m \<longleftrightarrow> (\<forall>w. w_saved (snd (m w)) = w_saved w \<and> w_db (snd (m w)) = w_db w)"

named_theorems io_laws \<open>balanced, atomic and reading computations\<close>

lemma balancedD: "balanced m \<Longrightarrow> m w = (r, w') \<Longrightarrow> w_saved w' = w_saved w"
  by (metis balanced_def snd_conv)

lemma atomicD: "atomic m \<Longrightarrow> m w = (Inl e, w') \<Longrightarrow> w_db w' = w_db w \<and> w_saved w' = w_saved w"
  by (metis atomic_def balancedD)

lemma readsD: "reads m \<Longrightarrow> m w = (r, w') \<Longrightarrow> w_db w' = w_db w \<and> w_saved w' = w_saved w"
  by (metis reads_def snd_conv)

lemma atomic_balanced [io_laws]: "atomic m \<Longrightarrow> balanced m"
  by (simp add: atomic_def)

lemma reads_atomic: "reads m \<Longrightarrow> atomic m"
  by (auto simp: atomic_def balanced_def reads_def) (metis snd_conv)

lemma balanced_return [io_laws]: "balanced (io_return v)"
  and balanced_fail [io_laws]: "balanced (io_fail e)"
  and balanced_exec [io_laws]: "balanced (io_exec env err statement)"
  and balanced_clock [io_laws]: "balanced (clock_Now env)"
  and balanced_ids [io_laws]: "balanced (ids_New env u)"
  by (auto simp: balanced_def io_return_def io_fail_def io_exec_def io_tick_def clock_Now_def ids_New_def
      split: option.splits sum.splits)

lemma balanced_query [io_laws]: "balanced (io_query env u q)"
  by (simp add: io_query_def balanced_exec)

lemma balanced_bind [io_laws]: "balanced m \<Longrightarrow> (\<And>v. balanced (k v)) \<Longrightarrow> balanced (io_bind m k)"
  unfolding balanced_def io_bind_def by (auto split: prod.splits sum.splits) (metis snd_conv)+

lemma balanced_lift [io_laws]: "balanced (io_lift e r)"
  by (cases r) (simp_all add: io_lift_def io_laws)

lemma reads_return [io_laws]: "reads (io_return v)"
  and reads_fail [io_laws]: "reads (io_fail e)"
  and reads_clock [io_laws]: "reads (clock_Now env)"
  and reads_ids [io_laws]: "reads (ids_New env u)"
  and reads_query [io_laws]: "reads (io_query env u q)"
  by (auto simp: reads_def io_return_def io_fail_def io_query_def io_exec_def io_tick_def clock_Now_def
      ids_New_def split: option.splits)

lemma reads_set_tenant [io_laws]: "reads (set_tenant env)"
  by (simp add: set_tenant_def io_laws)

lemma reads_lift [io_laws]: "reads (io_lift e r)"
  by (cases r) (simp_all add: io_lift_def io_laws)

lemma reads_bind [io_laws]: "reads m \<Longrightarrow> (\<And>v. reads (k v)) \<Longrightarrow> reads (io_bind m k)"
  unfolding reads_def io_bind_def by (auto split: prod.splits sum.splits) (metis snd_conv)+

lemma atomic_reads_bind: "reads m \<Longrightarrow> (\<And>v. atomic (k v)) \<Longrightarrow> atomic (io_bind m k)"
  unfolding atomic_def
proof (intro conjI allI impI)
  assume m: "reads m" and k: "\<And>v. balanced (k v) \<and> (\<forall>w e w'. k v w = (Inl e, w') \<longrightarrow> w_db w' = w_db w)"
  from m have "balanced m" by (simp add: reads_atomic atomic_balanced)
  with k show "balanced (io_bind m k)" by (simp add: balanced_bind)
  fix w e w'
  assume "io_bind m k w = (Inl e, w')"
  with m k show "w_db w' = w_db w" by (auto simp: io_bind_Inl dest: readsD)
qed

lemma tx_commit_cases:
  "tx_commit env u w = (r, w') \<Longrightarrow>
    w_db w' = w_db w \<and> (case r of Inl e \<Rightarrow> e = u \<and> w_saved w' = w_saved w | Inr _ \<Rightarrow> w_saved w' = tl (w_saved w))"
  by (auto simp: tx_commit_def io_tick_def split: option.splits)

lemma tx_begin_cases:
  "tx_begin env u w = (r, w') \<Longrightarrow>
    w_db w' = w_db w \<and> (case r of Inl e \<Rightarrow> e = u \<and> w_saved w' = w_saved w | Inr _ \<Rightarrow> w_saved w' = w_db w # w_saved w)"
  by (auto simp: tx_begin_def io_tick_def split: option.splits)

lemma tx_rollback_simps [simp]:
  "w_db (tx_rollback w) = hd (w_saved w)" "w_saved (tx_rollback w) = tl (w_saved w)"
  by (simp_all add: tx_rollback_def)

lemma io_tick_simps [simp]: "w_db (io_tick w) = w_db w" "w_saved (io_tick w) = w_saved w"
  by (simp_all add: io_tick_def)

text \<open>The operation ran to its result between the begin and the commit, or the transaction is undone.\<close>

lemma commit_or_rollback_Inr:
  "commit_or_rollback env u operation w = (Inr v, w') \<longleftrightarrow>
    (\<exists>w1. operation w = (Inr v, w1) \<and> tx_commit env u w1 = (Inr (), w'))"
  by (auto simp: commit_or_rollback_def split: prod.splits sum.splits)

lemma commit_or_rollback_Inl:
  assumes "balanced operation" and "commit_or_rollback env u operation w = (Inl e, w')"
  shows "w_db w' = hd (w_saved w) \<and> w_saved w' = tl (w_saved w)"
  using assms(2)
  by (auto simp: commit_or_rollback_def split: prod.splits sum.splits
      dest!: balancedD [OF assms(1)] tx_commit_cases)

lemma begin_repository_cases:
  assumes "BeginRepositoryTransaction env ctx t w = (r, w')"
  shows "w_db w' = w_db w \<and> (case r of Inl _ \<Rightarrow> w_saved w' = w_saved w | Inr _ \<Rightarrow> w_saved w' = w_db w # w_saved w)"
proof -
  have tenant: "w_db w2 = w_db w1 \<and> w_saved w2 = w_saved w1" if "set_tenant env w1 = (r2, w2)" for w1 r2 w2
    using readsD [OF reads_set_tenant that] .
  have opened: "w_db w1 = w_db w \<and> w_saved w1 = w_db w # w_saved w"
    if "tx_begin env transactionUnavailable w = (Inr x, w1)" for x w1
    using tx_begin_cases [OF that] by simp
  have refused: "w_db w1 = w_db w \<and> w_saved w1 = w_saved w"
    if "tx_begin env transactionUnavailable w = (Inl e, w1)" for e w1
    using tx_begin_cases [OF that] by simp
  from assms show ?thesis
    by (auto simp: BeginRepositoryTransaction_def io_fail_def io_bind_def
        split: if_splits option.splits prod.splits sum.splits
        dest!: opened refused tenant)
qed

text \<open>Every repository operation is atomic: whatever fails, the database is as it was.\<close>

lemma repository_tx_atomic [io_laws]:
  assumes "balanced statements"
  shows "atomic (repository_tx env ctx t e u statements)"
proof -
  have "(\<forall>err. r = Inl err \<longrightarrow> w_db w' = w_db w) \<and> w_saved w' = w_saved w"
    if run: "repository_tx env ctx t e u statements w = (r, w')" for w r w'
  proof (cases "valid_uuid t")
    case False
    with run show ?thesis by (auto simp: repository_tx_def io_fail_def)
  next
    case True
    obtain b w1 where b: "BeginRepositoryTransaction env ctx t w = (b, w1)" by force
    show ?thesis
    proof (cases b)
      case (Inl err)
      with b run True begin_repository_cases [OF b] show ?thesis
        by (auto simp: repository_tx_def io_bind_def)
    next
      case (Inr x)
      with b have w1: "w_saved w1 = w_db w # w_saved w" using begin_repository_cases [OF b] by simp
      from b Inr run True have c: "commit_or_rollback env u statements w1 = (r, w')"
        by (simp add: repository_tx_def io_bind_def)
      show ?thesis
      proof (cases r)
        case (Inl err)
        with c w1 commit_or_rollback_Inl [OF assms] show ?thesis by fastforce
      next
        case (Inr v)
        with c obtain w2 where "statements w1 = (Inr v, w2)" "tx_commit env u w2 = (Inr (), w')"
          by (auto simp: commit_or_rollback_Inr)
        with w1 have "w_saved w' = w_saved w"
          using balancedD [OF assms] tx_commit_cases by fastforce
        with Inr show ?thesis by simp
      qed
    qed
  qed
  then show ?thesis unfolding atomic_def balanced_def by (metis prod.collapse)
qed

text \<open>What a successful run did: the statements ran on the database, and it is kept.\<close>

lemma repository_tx_Inr:
  assumes "balanced statements" and "repository_tx env ctx t e u statements w = (Inr v, w')"
  shows "valid_uuid t \<and> (ctx_tx ctx = None \<or> ctx_tx ctx = Some t) \<and> w_saved w' = w_saved w \<and>
    (\<exists>w1 w2. w_db w1 = w_db w \<and> statements w1 = (Inr v, w2) \<and> w_db w' = w_db w2)"
proof -
  from assms(2) obtain w1 where t: "valid_uuid t"
    and b: "BeginRepositoryTransaction env ctx t w = (Inr (), w1)"
    and c: "commit_or_rollback env u statements w1 = (Inr v, w')"
    by (auto simp: repository_tx_def io_fail_def io_bind_Inr split: if_splits)
  from b have w1: "w_db w1 = w_db w" "w_saved w1 = w_db w # w_saved w"
    using begin_repository_cases [OF b] by simp_all
  from b have "ctx_tx ctx = None \<or> ctx_tx ctx = Some t"
    by (auto simp: BeginRepositoryTransaction_def io_fail_def split: if_splits option.splits)
  moreover from c obtain w2 where w2: "statements w1 = (Inr v, w2)" "tx_commit env u w2 = (Inr (), w')"
    by (auto simp: commit_or_rollback_Inr)
  moreover from w2 w1 have "w_saved w' = w_saved w" "w_db w' = w_db w2"
    using balancedD [OF assms(1)] tx_commit_cases by fastforce+
  ultimately show ?thesis using t w1 by blast
qed

lemma repository_tx_reads:
  assumes "reads statements"
  shows "reads (repository_tx env ctx t e u statements)"
proof -
  note balanced = atomic_balanced [OF reads_atomic [OF assms]]
  have "w_db w' = w_db w" if run: "repository_tx env ctx t e u statements w = (r, w')" for w r w'
  proof (cases r)
    case (Inl err)
    with run repository_tx_atomic [OF balanced] show ?thesis by (auto simp: atomic_def)
  next
    case (Inr v)
    with run repository_tx_Inr [OF balanced] obtain w1 w2
      where "w_db w1 = w_db w" "statements w1 = (Inr v, w2)" "w_db w' = w_db w2" by blast
    with readsD [OF assms] show ?thesis by metis
  qed
  moreover have "atomic (repository_tx env ctx t e u statements)"
    using balanced by (rule repository_tx_atomic)
  ultimately show ?thesis unfolding reads_def by (metis atomic_balanced balanced_def prod.collapse)
qed

text \<open>The same for the transactions the application opens.\<close>

lemma WithinTransaction_Inr:
  assumes "\<And>c. balanced (operation c)" and "WithinTransaction env ctx t operation w = (Inr v, w')"
  shows "valid_uuid t \<and> w_saved w' = w_saved w \<and>
    (\<exists>w1 w2. w_db w1 = w_db w \<and> operation (ctx\<lparr>ctx_tx := Some t\<rparr>) w1 = (Inr v, w2) \<and> w_db w' = w_db w2)"
proof -
  let ?ctx = "ctx\<lparr>ctx_tx := Some t\<rparr>"
  from assms(2) have t: "valid_uuid t"
    by (auto simp: WithinTransaction_def io_fail_def split: if_splits)
  have "\<exists>w1 w2. tx_begin env transactionUnavailable w = (Inr (), w1) \<and>
      (\<exists>w3. w_db w3 = w_db w1 \<and> w_saved w3 = w_saved w1 \<and> operation ?ctx w3 = (Inr v, w2)) \<and>
      tx_commit env transactionUnavailable w2 = (Inr (), w')"
  proof (cases "ctx_tx ctx")
    case None
    with assms(2) t obtain w1 w3 w2 where "tx_begin env transactionUnavailable w = (Inr (), w1)"
      "set_tenant env w1 = (Inr (), w3)" "operation ?ctx w3 = (Inr v, w2)"
      "tx_commit env transactionUnavailable w2 = (Inr (), w')"
      by (auto simp: WithinTransaction_def io_bind_Inr commit_or_rollback_Inr)
    moreover from this(2) have "w_db w3 = w_db w1 \<and> w_saved w3 = w_saved w1"
      by (rule readsD [OF reads_set_tenant])
    ultimately show ?thesis by blast
  next
    case (Some current)
    with assms(2) t have current: "current = t"
      by (auto simp: WithinTransaction_def io_fail_def split: if_splits)
    with Some have ctx: "ctx\<lparr>ctx_tx := Some t\<rparr> = ctx" by (cases ctx) simp
    from assms(2) t Some current show ?thesis unfolding ctx
      by (auto simp: WithinTransaction_def withinNested_def io_bind_Inr commit_or_rollback_Inr)
  qed
  then obtain w1 w2 w3 where w1: "tx_begin env transactionUnavailable w = (Inr (), w1)"
    and w3: "w_db w3 = w_db w1" "w_saved w3 = w_saved w1" "operation ?ctx w3 = (Inr v, w2)"
    and w2: "tx_commit env transactionUnavailable w2 = (Inr (), w')" by blast
  have "w_db w3 = w_db w" "w_saved w3 = w_db w # w_saved w" using tx_begin_cases [OF w1] w3 by simp_all
  moreover have "w_saved w2 = w_saved w3" using balancedD [OF assms(1) w3(3)] .
  ultimately show ?thesis using tx_commit_cases [OF w2] w3(3) t by auto
qed

lemma WithinTransaction_atomic [io_laws]:
  assumes "\<And>c. balanced (operation c)"
  shows "atomic (WithinTransaction env ctx t operation)"
proof -
  have inner: "w_db w' = hd (w_saved w) \<and> w_saved w' = tl (w_saved w)"
    if "balanced m" "commit_or_rollback env u m w = (Inl e, w')"
    for m :: "'a io" and w u e w'
    using commit_or_rollback_Inl [OF that] .
  have opened: "w_db w1 = w_db w \<and> w_saved w1 = w_db w # w_saved w"
    if "tx_begin env transactionUnavailable w = (Inr x, w1)" for x w w1
    using tx_begin_cases [OF that] by simp
  have refused: "w_db w1 = w_db w \<and> w_saved w1 = w_saved w"
    if "tx_begin env transactionUnavailable w = (Inl e, w1)" for e w w1
    using tx_begin_cases [OF that] by simp
  have bal: "balanced (io_bind (set_tenant env) (\<lambda>_. operation c))" for c
    by (rule balanced_bind [OF reads_atomic [OF reads_set_tenant, THEN atomic_balanced] assms])
  have "w_db w' = w_db w \<and> w_saved w' = w_saved w"
    if "WithinTransaction env ctx t operation w = (Inl e, w')" for w e w'
    using that
    by (auto simp: WithinTransaction_def withinNested_def io_fail_def io_bind_Inl
        split: if_splits option.splits
        dest!: refused opened inner [OF bal] inner [OF assms])
  moreover have "w_saved w' = w_saved w" if "WithinTransaction env ctx t operation w = (Inr v, w')" for w v w'
    using WithinTransaction_Inr [OF assms that] by blast
  ultimately have "w_saved (snd (WithinTransaction env ctx t operation w)) = w_saved w" for w
    by (cases "WithinTransaction env ctx t operation w"; cases "fst (WithinTransaction env ctx t operation w)")
      auto
  with \<open>\<And>w e w'. WithinTransaction env ctx t operation w = (Inl e, w') \<Longrightarrow> _\<close> show ?thesis
    by (auto simp: atomic_def balanced_def)
qed

subsection \<open>Queries\<close>

lemma reads_query_one [io_laws]: "reads (query_one env nf u scan q)"
  unfolding query_one_def by (intro reads_bind reads_query) (auto simp: io_laws split: option.splits)

lemma reads_query_all [io_laws]: "reads (query_all env u scan q)"
  unfolding query_all_def by (intro reads_bind reads_query reads_lift)

lemma reads_balanced [io_laws]: "reads m \<Longrightarrow> balanced m"
  by (simp add: reads_atomic atomic_balanced)

lemma io_query_Inr: "io_query env u q w = (Inr v, w') \<Longrightarrow> v = q (w_db w) \<and> w_db w' = w_db w"
  by (auto simp: io_query_def io_exec_def split: option.splits sum.splits)

lemma io_exec_Inr:
  "io_exec env err st w = (Inr v, w') \<Longrightarrow> st (w_db w) = Inr (v, w_db w')"
  by (auto simp: io_exec_def split: option.splits sum.splits)

lemma io_exec_Inl:
  "io_exec env err st w = (Inl e, w') \<Longrightarrow>
    w_db w' = w_db w \<and> (\<exists>x. e = err x \<and> (env_fault env (w_tick w) = Some x \<or> st (w_db w) = Inl x))"
  by (auto simp: io_exec_def split: option.splits sum.splits)

lemma io_lift_Inr: "io_lift e r w = (Inr v, w') \<longleftrightarrow> r = Inr v \<and> w' = w"
  by (cases r) (auto simp: io_lift_def io_fail_def io_return_def)

lemma io_lift_Inl: "io_lift e r w = (Inl x, w') \<longleftrightarrow> (\<exists>y. r = Inl y) \<and> x = e \<and> w' = w"
  by (cases r) (auto simp: io_lift_def io_fail_def io_return_def)

lemma query_one_Inr:
  "query_one env nf u scan q w = (Inr v, w') \<Longrightarrow>
    \<exists>r rs. q (w_db w) = r # rs \<and> scan r = Inr v \<and> w_db w' = w_db w"
  by (auto simp: query_one_def io_bind_Inr first_row_def io_lift_Inr io_fail_def
      split: option.splits list.splits dest!: io_query_Inr)

lemma query_all_Inr:
  "query_all env u scan q w = (Inr vs, w') \<Longrightarrow> scan_all scan (q (w_db w)) = Inr vs \<and> w_db w' = w_db w"
  by (auto simp: query_all_def io_bind_Inr io_lift_Inr dest!: io_query_Inr)

lemma scan_all_Inr: "scan_all scan rs = Inr vs \<longleftrightarrow> list_all2 (\<lambda>r v. scan r = Inr v) rs vs"
proof (induction rs arbitrary: vs)
  case (Cons r rs)
  show ?case by (auto simp: list_all2_Cons1 Cons [symmetric] split: sum.splits)
qed auto

lemma set_page_after:
  "set (page_after key after n rows) \<subseteq> {r \<in> set rows. \<forall>position. after = Some position \<longrightarrow> position < key r}"
  by (auto simp: page_after_def dest!: in_set_takeD)

lemma sorted_page_after: "sorted (map key (page_after key after n rows))"
  by (simp add: page_after_def take_map [symmetric] sorted_wrt_take)

lemma length_page_after: "length (page_after key after n rows) \<le> n"
  by (simp add: page_after_def)

lemma nullif_coalesce [simp]: "coalesce (nullif text) = text"
  by (simp add: nullif_def coalesce_def)

lemma typed_repo_literal:
  "reason_literal text \<Longrightarrow> cls \<in> set error_classes \<Longrightarrow> typed_repo cls text = TypedError cls (ReasonCode text)"
  by (auto simp: typed_repo_def NewReasonCode_literal NewTypedError_def reason_literal_def)

end
