(* ===== verification/Audit_Repository.thy ===== *)
theory Audit_Repository
  imports Database
begin

text \<open>
  \<open>internal/adapters/postgres/audit\<close>: the audit facts written inside the mutations' transactions, and
  their reads. The table is \<open>migrations/000011_audit_events.sql\<close>.
\<close>

subsection \<open>Statements\<close>

abbreviation ActionPublisherCreated :: string where "ActionPublisherCreated \<equiv> ''publisher.created''"
abbreviation ActionPublisherStateChanged :: string where
  "ActionPublisherStateChanged \<equiv> ''publisher.state_changed''"
abbreviation ActionNamespaceCreated :: string where "ActionNamespaceCreated \<equiv> ''namespace.created''"
abbreviation ActionNamespaceDelegated :: string where
  "ActionNamespaceDelegated \<equiv> ''namespace.delegated''"
abbreviation ActionNamespaceDelegationRevoked :: string where
  "ActionNamespaceDelegationRevoked \<equiv> ''namespace.delegation_revoked''"

abbreviation ActionArtifactCreated :: string where "ActionArtifactCreated \<equiv> ''artifact.created''"
abbreviation ActionArtifactVersionRegistered :: string where
  "ActionArtifactVersionRegistered \<equiv> ''artifact_version.registered''"
abbreviation ActionArtifactSourceCreated :: string where
  "ActionArtifactSourceCreated \<equiv> ''artifact_source.created''"

record RecordParams =
  par_TenantID :: UUID
  par_Action :: string
  par_ResourceType :: string
  par_ResourceID :: string
  par_ArtifactDigest :: "Digest option"
  par_ArtifactVersionID :: "UUID option"
  par_Decision :: "ReasonCode option"
  par_ReasonCodes :: "ReasonCode list"
  par_EvidenceIDs :: "UUID list"
  par_PolicyDigests :: "Digest list"

text \<open>The parameters of a mutation that names only the resource it changed.\<close>

definition resource_params :: "UUID \<Rightarrow> string \<Rightarrow> string \<Rightarrow> string \<Rightarrow> RecordParams" where
  "resource_params tenantID action resourceType resourceID =
    \<lparr>par_TenantID = tenantID, par_Action = action, par_ResourceType = resourceType,
     par_ResourceID = resourceID, par_ArtifactDigest = None, par_ArtifactVersionID = None,
     par_Decision = None, par_ReasonCodes = [], par_EvidenceIDs = [], par_PolicyDigests = []\<rparr>"

definition decision_params ::
  "UUID \<Rightarrow> string \<Rightarrow> string \<Rightarrow> string \<Rightarrow> ReasonCode \<Rightarrow> ReasonCode list \<Rightarrow> RecordParams" where
  "decision_params tenantID action resourceType resourceID decision reasons =
    (resource_params tenantID action resourceType resourceID)
      \<lparr>par_Decision := Some decision, par_ReasonCodes := reasons\<rparr>"

definition audit_unavailable :: go_error where
  "audit_unavailable = typed_repo ErrorUnavailable ''audit.persistence_unavailable''"

text \<open>
  The row of \<open>INSERT INTO public.audit_events\<close>, with the defaults \<open>uuidv7()\<close> and
  \<open>CURRENT_TIMESTAMP\<close> of the columns the statement leaves out.
\<close>

definition audit_row :: "UUID \<Rightarrow> Time \<Rightarrow> Actor \<Rightarrow> RecordParams \<Rightarrow> string option \<Rightarrow> AuditRow" where
  "audit_row uid now actor params digest =
    \<lparr>arow_tenant = par_TenantID params, arow_id = uid, arow_actor = actor_principalID actor,
     arow_action = par_Action params, arow_resource_type = par_ResourceType params,
     arow_resource_id = par_ResourceID params, arow_artifact_digest = digest,
     arow_decision = map_option ReasonCode_String (par_Decision params),
     arow_reason_codes = map ReasonCode_String (par_ReasonCodes params),
     arow_evidence_ids = par_EvidenceIDs params,
     arow_policy_digests = map Digest_String (par_PolicyDigests params),
     arow_occurred_at = now, arow_request_id = actor_requestID actor,
     arow_trace_id = nullif (actor_traceID actor)\<rparr>"

definition insert_audit_row :: "AuditRow \<Rightarrow> DB \<Rightarrow> (sql_error, DB) result" where
  "insert_audit_row row db =
    (if \<exists>r \<in> set (db_audit db). arow_tenant r = arow_tenant row \<and> arow_id r = arow_id row
       then Inl (unique_violation ''audit_events_pkey'')
     else if arow_tenant row \<notin> set (db_tenants db)
       then Inl (foreign_key_violation ''audit_events_tenant_id_fkey'')
     else Inr (db\<lparr>db_audit := db_audit db @ [row]\<rparr>))"

text \<open>
  The two statements: one row, or one row per artifact version found (its digest filling in a
  missing one). The number of rows is the command's \<open>RowsAffected\<close>.
\<close>

definition insert_audit ::
  "UUID \<Rightarrow> Time \<Rightarrow> Actor \<Rightarrow> RecordParams \<Rightarrow> DB \<Rightarrow> (sql_error, nat \<times> DB) result" where
  "insert_audit uid now actor params db =
    (let digest = map_option Digest_String (par_ArtifactDigest params) in
     case par_ArtifactVersionID params of
       None \<Rightarrow>
         (case insert_audit_row (audit_row uid now actor params digest) db of
            Inl e \<Rightarrow> Inl e | Inr db' \<Rightarrow> Inr (1, db'))
     | Some version \<Rightarrow>
         (case find (\<lambda>v. vrow_tenant v = par_TenantID params \<and> vrow_id v = version)
                 (db_versions db) of
            None \<Rightarrow> Inr (0, db)
          | Some v \<Rightarrow>
              let digest' = (case digest of None \<Rightarrow> Some (vrow_digest v) | Some d \<Rightarrow> Some d) in
              (case insert_audit_row (audit_row uid now actor params digest') db of
                 Inl e \<Rightarrow> Inl e | Inr db' \<Rightarrow> Inr (1, db'))))"

subsection \<open>Operations\<close>

definition Audit_Record :: "Env \<Rightarrow> Ctx \<Rightarrow> RecordParams \<Rightarrow> unit io" where
  "Audit_Record env ctx params =
    (case ActorFromContext (ctx_actor ctx) of
       None \<Rightarrow> io_fail (typed_repo ErrorUnauthorized ''audit.actor_required'')
     | Some actor \<Rightarrow> (\<lambda>w.
         io_bind
           (io_exec env (\<lambda>_. audit_unavailable)
             (insert_audit (env_uuidv7 env (w_tick w)) (env_timestamp env (w_tick w)) actor params))
           (\<lambda>rows. if rows \<noteq> 1 then io_fail audit_unavailable else io_return ()) w))"

definition scan_uuid :: "UUID \<Rightarrow> (unit, UUID) result" where
  "scan_uuid column = map_error () (ParseUUID (UUID_String column))"

definition scan_reason :: "string \<Rightarrow> (unit, ReasonCode) result" where
  "scan_reason column = map_error () (NewReasonCode column)"

definition scan_digest :: "string \<Rightarrow> (unit, Digest) result" where
  "scan_digest column = map_error () (ParseDigest column)"

text \<open>A nullable column scanned into a pointer and parsed when present.\<close>

definition scan_option :: "('c \<Rightarrow> (unit, 'a) result) \<Rightarrow> 'c option \<Rightarrow> (unit, 'a option) result" where
  "scan_option parse column =
    (case column of
       None \<Rightarrow> Inr None
     | Some v \<Rightarrow> (case parse v of Inl e \<Rightarrow> Inl e | Inr x \<Rightarrow> Inr (Some x)))"

definition audit_scan :: "AuditRow \<Rightarrow> (unit, AuditEvent) result" where
  "audit_scan row =
    bindE (scan_uuid (arow_tenant row)) (\<lambda>tenantID.
    bindE (scan_uuid (arow_id row)) (\<lambda>eventID.
    bindE (scan_reason (arow_action row)) (\<lambda>action.
    bindE (scan_reason (arow_resource_type row)) (\<lambda>resourceType.
    bindE (scan_option scan_digest (arow_artifact_digest row)) (\<lambda>digest.
    bindE (scan_option scan_reason (arow_decision row)) (\<lambda>decision.
    bindE (scan_all scan_reason (arow_reason_codes row)) (\<lambda>reasons.
    bindE (scan_all scan_uuid (arow_evidence_ids row)) (\<lambda>evidence.
    bindE (scan_all scan_digest (arow_policy_digests row)) (\<lambda>policies.
    bindE (scan_option scan_uuid (arow_request_id row)) (\<lambda>request.
    map_error () (Audit_Restore tenantID eventID (arow_actor row) action resourceType
      (arow_resource_id row) digest decision reasons evidence policies (arow_occurred_at row)
      request (coalesce (arow_trace_id row)))))))))))))"

definition audit_invalid_tenant :: go_error where
  "audit_invalid_tenant = typed_repo ErrorInvalid ''audit.invalid_tenant''"

definition AuditRepository_Get :: "Env \<Rightarrow> Ctx \<Rightarrow> UUID \<Rightarrow> UUID \<Rightarrow> AuditEvent io" where
  "AuditRepository_Get env ctx tenantID eventID =
    (if \<not> valid_uuid eventID then io_fail (typed_repo ErrorInvalid ''audit.invalid_id'')
     else repository_tx env ctx tenantID audit_invalid_tenant audit_unavailable
       (query_one env (typed_repo ErrorNotFound ''audit.not_found'') audit_unavailable audit_scan
         (\<lambda>db. filter (\<lambda>r. arow_tenant r = tenantID \<and> arow_id r = eventID) (db_audit db))))"

definition AuditRepository_List :: "Env \<Rightarrow> Ctx \<Rightarrow> UUID \<Rightarrow> UUID option \<Rightarrow> int \<Rightarrow> AuditEvent list io" where
  "AuditRepository_List env ctx tenantID after limit =
    (if limit < 1 \<or> limit > AuditMaxListSize \<or>
        (case after of None \<Rightarrow> False | Some position \<Rightarrow> \<not> valid_uuid position)
       then io_fail (typed_repo ErrorInvalid ''audit.invalid_page'')
     else repository_tx env ctx tenantID audit_invalid_tenant audit_unavailable
       (query_all env audit_unavailable audit_scan
         (\<lambda>db. page_after arow_id after (nat limit)
            (filter (\<lambda>r. arow_tenant r = tenantID) (db_audit db)))))"

subsection \<open>Correctness\<close>

lemma balanced_Audit_Record [io_laws]: "balanced (Audit_Record env ctx params)"
proof -
  have "w_saved (snd (io_bind (io_exec env e st) (\<lambda>rows. if rows \<noteq> (1::nat) then io_fail x else io_return ()) w))
      = w_saved w" for e st x w
    using balanced_bind [OF balanced_exec, of "\<lambda>rows. if rows \<noteq> (1::nat) then io_fail x else io_return ()"]
    by (auto simp: balanced_def io_fail_def io_return_def)
  then show ?thesis
    by (auto simp: Audit_Record_def balanced_def io_fail_def split: option.splits)
qed

text \<open>
  A recorded fact names the actor of the context and the parameters, and the record changes no
  other table.
\<close>

lemma Audit_Record_Inr:
  assumes "Audit_Record env ctx params w = (Inr u, w')"
  shows "\<exists>actor row. ActorFromContext (ctx_actor ctx) = Some actor \<and>
    w_db w' = (w_db w)\<lparr>db_audit := db_audit (w_db w) @ [row]\<rparr> \<and>
    arow_tenant row = par_TenantID params \<and> arow_actor row = actor_principalID actor \<and>
    arow_action row = par_Action params \<and> arow_resource_type row = par_ResourceType params \<and>
    arow_resource_id row = par_ResourceID params \<and>
    arow_decision row = map_option ReasonCode_String (par_Decision params) \<and>
    arow_reason_codes row = map ReasonCode_String (par_ReasonCodes params) \<and>
    par_TenantID params \<in> set (db_tenants (w_db w))"
proof -
  from assms obtain actor where actor: "ActorFromContext (ctx_actor ctx) = Some actor"
    by (auto simp: Audit_Record_def io_fail_def split: option.splits)
  with assms obtain w1 where
    ex: "io_exec env (\<lambda>_. audit_unavailable)
      (insert_audit (env_uuidv7 env (w_tick w)) (env_timestamp env (w_tick w)) actor params) w = (Inr 1, w1)"
    and w': "w' = w1"
    by (auto simp: Audit_Record_def io_bind_Inr io_fail_def io_return_def split: if_splits)
  from io_exec_Inr [OF ex] obtain digest where
    "insert_audit_row (audit_row (env_uuidv7 env (w_tick w)) (env_timestamp env (w_tick w)) actor params digest)
      (w_db w) = Inr (w_db w1)"
    by (auto simp: insert_audit_def Let_def split: option.splits sum.splits)
  then have db: "w_db w1 = (w_db w)\<lparr>db_audit := db_audit (w_db w) @
      [audit_row (env_uuidv7 env (w_tick w)) (env_timestamp env (w_tick w)) actor params digest]\<rparr>"
    and tenant: "par_TenantID params \<in> set (db_tenants (w_db w))"
    by (auto simp: insert_audit_row_def audit_row_def split: if_splits)
  show ?thesis
    unfolding w' db using actor tenant
    by (intro exI [of _ actor] exI
        [of _ "audit_row (env_uuidv7 env (w_tick w)) (env_timestamp env (w_tick w)) actor params digest"])
      (simp add: audit_row_def)
qed

lemma reads_AuditRepository_Get [io_laws]: "reads (AuditRepository_Get env ctx t e)"
  by (simp add: AuditRepository_Get_def repository_tx_reads io_laws)

lemma reads_AuditRepository_List [io_laws]: "reads (AuditRepository_List env ctx t after n)"
  by (simp add: AuditRepository_List_def repository_tx_reads io_laws)

lemma scan_uuid_valid: "scan_uuid u = Inr v \<longleftrightarrow> valid_uuid u \<and> v = u"
  by (auto simp: scan_uuid_def ParseUUID_iff UUID_String_inject)

lemma scan_reason_Inr: "scan_reason s = Inr r \<longleftrightarrow> NewReasonCode s = Inr r"
  by (simp add: scan_reason_def)

lemma scan_digest_Inr: "scan_digest s = Inr d \<longleftrightarrow> wf_digest d \<and> s = Digest_String d"
  by (simp add: scan_digest_def ParseDigest_iff)

end
