(* ===== verification/Publisher_Repository.thy ===== *)
theory Publisher_Repository
  imports Audit_Repository
begin

text \<open>
  \<open>internal/adapters/postgres/publisher\<close>: the Publisher aggregate on the tables and triggers of
  \<open>migrations/000002_publishers.sql\<close>.
\<close>

subsection \<open>Statements\<close>

definition publisher_conflict :: go_error where
  "publisher_conflict = typed_repo ErrorConflict ''publisher.conflict''"

definition publisher_unavailable :: go_error where
  "publisher_unavailable = typed_repo ErrorUnavailable ''publisher.persistence_unavailable''"

definition publisher_invalid_tenant :: go_error where
  "publisher_invalid_tenant = typed_repo ErrorInvalid ''publisher.invalid_tenant''"

definition publisher_not_found :: go_error where
  "publisher_not_found = typed_repo ErrorNotFound ''publisher.not_found''"

definition publisher_stale :: go_error where
  "publisher_stale = typed_repo ErrorConflict ''publisher.stale_state_version''"

definition insert_publisher :: "PublisherRow \<Rightarrow> DB \<Rightarrow> (sql_error, unit \<times> DB) result" where
  "insert_publisher row db =
    (if \<exists>r \<in> set (db_publishers db). prow_tenant r = prow_tenant row \<and> prow_id r = prow_id row
       then Inl (unique_violation ''publishers_pkey'')
     else if \<exists>r \<in> set (db_publishers db). prow_tenant r = prow_tenant row \<and> prow_slug r = prow_slug row
       then Inl (unique_violation ''publishers_tenant_id_slug_key'')
     else if prow_tenant row \<notin> set (db_tenants db)
       then Inl (foreign_key_violation ''publishers_tenant_id_fkey'')
     else Inr ((), db\<lparr>db_publishers := db_publishers db @ [row]\<rparr>))"

text \<open>The transition table of the trigger \<open>enforce_publisher_state_record\<close>.\<close>

definition sql_publisher_transition :: "string \<Rightarrow> string \<Rightarrow> bool" where
  "sql_publisher_transition previous new \<longleftrightarrow>
    previous = ''claimed'' \<and> new \<in> {''verified'', ''suspended'', ''revoked''} \<or>
    previous = ''verified'' \<and> new \<in> {''suspended'', ''revoked''} \<or>
    previous = ''suspended'' \<and> new \<in> {''verified'', ''revoked''}"

definition enforce_publisher_state_record :: "PublisherStateRow \<Rightarrow> DB \<Rightarrow> bool" where
  "enforce_publisher_state_record row db \<longleftrightarrow>
    (if psrow_version row = 1 then
       psrow_state row = ''claimed'' \<and> psrow_reason row = None \<and> psrow_explanation row = None
     else psrow_reason row \<noteq> None \<and>
       (case find (\<lambda>s. psrow_tenant s = psrow_tenant row \<and> psrow_publisher s = psrow_publisher row \<and>
                     psrow_version s = psrow_version row - 1) (db_publisher_states db) of
          None \<Rightarrow> False
        | Some s \<Rightarrow> sql_publisher_transition (psrow_state s) (psrow_state row)))"

definition insert_publisher_state :: "PublisherStateRow \<Rightarrow> DB \<Rightarrow> (sql_error, unit \<times> DB) result" where
  "insert_publisher_state row db =
    (if \<not> enforce_publisher_state_record row db then Inl raise_exception
     else if psrow_version row \<le> 0 then Inl (check_violation ''publisher_state_records_version_check'')
     else if \<exists>s \<in> set (db_publisher_states db). psrow_tenant s = psrow_tenant row \<and>
         psrow_publisher s = psrow_publisher row \<and> psrow_version s = psrow_version row
       then Inl (unique_violation ''publisher_state_records_pkey'')
     else if \<not> (\<exists>r \<in> set (db_publishers db). prow_tenant r = psrow_tenant row \<and> prow_id r = psrow_publisher row)
       then Inl (foreign_key_violation ''publisher_state_records_tenant_id_publisher_id_fkey'')
     else Inr ((), db\<lparr>db_publisher_states := db_publisher_states db @ [row]\<rparr>))"

text \<open>
  \<open>UPDATE public.publishers SET current_state_version = version ... AND current_state_version =
  expected\<close>, with the trigger \<open>enforce_publisher_update\<close>; the number of rows is returned.
\<close>

definition publisher_matches :: "UUID \<Rightarrow> UUID \<Rightarrow> int \<Rightarrow> PublisherRow \<Rightarrow> bool" where
  "publisher_matches tenantID publisherID expected r \<longleftrightarrow>
    prow_tenant r = tenantID \<and> prow_id r = publisherID \<and> prow_current_version r = expected"

definition update_publisher_version ::
  "UUID \<Rightarrow> UUID \<Rightarrow> int \<Rightarrow> int \<Rightarrow> DB \<Rightarrow> (sql_error, nat \<times> DB) result" where
  "update_publisher_version tenantID publisherID version expected db =
    (let matched = filter (publisher_matches tenantID publisherID expected) (db_publishers db) in
     if matched \<noteq> [] \<and> version \<noteq> expected + 1 then Inl raise_exception
     else Inr (length matched,
       db\<lparr>db_publishers := map (\<lambda>r. if publisher_matches tenantID publisherID expected r
            then r\<lparr>prow_current_version := version\<rparr> else r) (db_publishers db)\<rparr>))"

text \<open>\<open>publisherSelect\<close>: each publisher joined with the record of its current state.\<close>

definition state_of_publisher :: "PublisherRow \<Rightarrow> PublisherStateRow \<Rightarrow> bool" where
  "state_of_publisher p s \<longleftrightarrow>
    psrow_tenant s = prow_tenant p \<and> psrow_publisher s = prow_id p \<and>
    psrow_version s = prow_current_version p"

definition publisherSelect :: "(PublisherRow \<Rightarrow> bool) \<Rightarrow> DB \<Rightarrow> (PublisherRow \<times> PublisherStateRow) list" where
  "publisherSelect predicate db =
    concat (map (\<lambda>p. map (Pair p) (filter (state_of_publisher p) (db_publisher_states db)))
      (filter predicate (db_publishers db)))"

subsection \<open>Operations\<close>

definition publisher_scan :: "PublisherRow \<times> PublisherStateRow \<Rightarrow> (unit, Publisher) result" where
  "publisher_scan row =
    (case row of (p, s) \<Rightarrow>
      bindE (scan_uuid (prow_tenant p)) (\<lambda>tenantID.
      bindE (scan_uuid (prow_id p)) (\<lambda>publisherID.
      map_error () (Publisher_Restore tenantID publisherID (prow_slug p) (coalesce (prow_display_name p))
        (coalesce (prow_description p)) (psrow_state s) (psrow_version s) (prow_created_at p)))))"

definition publisher_row :: "Env \<Rightarrow> Publisher \<Rightarrow> PublisherRow" where
  "publisher_row env p =
    \<lparr>prow_tenant = pub_tenantID p, prow_id = pub_id p, prow_slug = pub_slug p,
     prow_display_name = nullif (pub_displayName p), prow_description = nullif (pub_description p),
     prow_current_version = 1, prow_created_at = env_store_time env (pub_createdAt p)\<rparr>"

definition initial_state_row :: "Env \<Rightarrow> Publisher \<Rightarrow> PublisherStateRow" where
  "initial_state_row env p =
    \<lparr>psrow_tenant = pub_tenantID p, psrow_publisher = pub_id p, psrow_version = 1,
     psrow_state = ''claimed'', psrow_reason = None, psrow_explanation = None,
     psrow_recorded_at = env_store_time env (pub_createdAt p)\<rparr>"

definition publisher_create_error :: "sql_error \<Rightarrow> go_error" where
  "publisher_create_error e = (if uniqueViolation e then publisher_conflict else publisher_unavailable)"

definition PublisherRepository_Create :: "Env \<Rightarrow> Ctx \<Rightarrow> Publisher \<Rightarrow> unit io" where
  "PublisherRepository_Create env ctx p =
    repository_tx env ctx (pub_tenantID p) publisher_invalid_tenant publisher_unavailable
      (io_bind (io_exec env publisher_create_error (insert_publisher (publisher_row env p))) (\<lambda>_.
       io_bind (io_exec env publisher_create_error (insert_publisher_state (initial_state_row env p))) (\<lambda>_.
       Audit_Record env ctx
         (resource_params (pub_tenantID p) ActionPublisherCreated ''publisher'' (UUID_String (pub_id p))))))"

definition publisher_get :: "Env \<Rightarrow> Ctx \<Rightarrow> UUID \<Rightarrow> (PublisherRow \<Rightarrow> bool) \<Rightarrow> Publisher io" where
  "publisher_get env ctx tenantID predicate =
    repository_tx env ctx tenantID publisher_invalid_tenant publisher_unavailable
      (query_one env publisher_not_found publisher_unavailable publisher_scan
        (publisherSelect (\<lambda>p. prow_tenant p = tenantID \<and> predicate p)))"

definition PublisherRepository_Get :: "Env \<Rightarrow> Ctx \<Rightarrow> UUID \<Rightarrow> UUID \<Rightarrow> Publisher io" where
  "PublisherRepository_Get env ctx tenantID publisherID =
    (if \<not> valid_uuid publisherID then io_fail (typed_repo ErrorInvalid ''publisher.invalid_id'')
     else publisher_get env ctx tenantID (\<lambda>p. prow_id p = publisherID))"

definition PublisherRepository_GetBySlug :: "Env \<Rightarrow> Ctx \<Rightarrow> UUID \<Rightarrow> string \<Rightarrow> Publisher io" where
  "PublisherRepository_GetBySlug env ctx tenantID slug =
    (if \<not> ValidateSlug slug then io_fail (typed_repo ErrorInvalid ''publisher.invalid_slug'')
     else publisher_get env ctx tenantID (\<lambda>p. prow_slug p = slug))"

definition PublisherRepository_List ::
  "Env \<Rightarrow> Ctx \<Rightarrow> UUID \<Rightarrow> UUID option \<Rightarrow> int \<Rightarrow> Publisher list io" where
  "PublisherRepository_List env ctx tenantID after limit =
    (if limit < 1 \<or> limit > PublisherMaxListSize + 1
       then io_fail (typed_repo ErrorInvalid ''publisher.invalid_page_size'')
     else if (case after of None \<Rightarrow> False | Some position \<Rightarrow> \<not> valid_uuid position)
       then io_fail (typed_repo ErrorInvalid ''publisher.invalid_cursor'')
     else repository_tx env ctx tenantID publisher_invalid_tenant publisher_unavailable
       (query_all env publisher_unavailable publisher_scan
         (\<lambda>db. page_after (\<lambda>row. prow_id (fst row)) after (nat limit)
            (publisherSelect (\<lambda>p. prow_tenant p = tenantID) db))))"

definition publisher_change_error :: "sql_error \<Rightarrow> go_error" where
  "publisher_change_error e = (if uniqueViolation e then publisher_stale else publisher_unavailable)"

definition transition_row :: "Env \<Rightarrow> UUID \<Rightarrow> UUID \<Rightarrow> PublisherStateRecord \<Rightarrow> PublisherStateRow" where
  "transition_row env tenantID publisherID r =
    \<lparr>psrow_tenant = tenantID, psrow_publisher = publisherID, psrow_version = rec_Version r,
     psrow_state = rec_State r, psrow_reason = Some (ReasonCode_String (rec_Reason r)),
     psrow_explanation = nullif (rec_Explanation r),
     psrow_recorded_at = env_store_time env (rec_RecordedAt r)\<rparr>"

text \<open>\<open>decision, _ := shared.NewReasonCode(string(state))\<close>: the zero code on an error.\<close>

definition decision_code :: "string \<Rightarrow> ReasonCode" where
  "decision_code text = (case NewReasonCode text of Inl _ \<Rightarrow> ReasonCode [] | Inr r \<Rightarrow> r)"

definition PublisherRepository_ChangeState ::
  "Env \<Rightarrow> Ctx \<Rightarrow> UUID \<Rightarrow> UUID \<Rightarrow> int \<Rightarrow> PublisherState \<Rightarrow> ReasonCode \<Rightarrow> string \<Rightarrow> Time \<Rightarrow> Publisher io" where
  "PublisherRepository_ChangeState env ctx tenantID publisherID expectedVersion state reason explanation at =
    (if \<not> valid_uuid publisherID then io_fail (typed_repo ErrorInvalid ''publisher.invalid_id'')
     else if expectedVersion < 1 then io_fail (typed_repo ErrorInvalid ''publisher.invalid_state_version'')
     else repository_tx env ctx tenantID publisher_invalid_tenant publisher_unavailable
      (io_bind (query_one env publisher_not_found publisher_unavailable publisher_scan
          (publisherSelect (\<lambda>p. prow_tenant p = tenantID \<and> prow_id p = publisherID))) (\<lambda>current.
       if pub_version current \<noteq> expectedVersion then io_fail publisher_stale
       else case Publisher_Transition current state reason explanation at of
         Inl e \<Rightarrow>
           io_fail (if e = ErrInvalidTransition
             then typed_repo ErrorConflict ''publisher.invalid_transition''
             else typed_repo ErrorInvalid ''publisher.invalid_transition_metadata'')
       | Inr (next, record) \<Rightarrow>
         io_bind (io_exec env publisher_change_error
           (insert_publisher_state (transition_row env tenantID publisherID record))) (\<lambda>_.
         io_bind (io_exec env publisher_change_error
           (update_publisher_version tenantID publisherID (rec_Version record) expectedVersion)) (\<lambda>affected.
         if affected \<noteq> 1 then io_fail publisher_stale
         else io_bind (Audit_Record env ctx
             (decision_params tenantID ActionPublisherStateChanged ''publisher'' (UUID_String publisherID)
               (decision_code state) [reason])) (\<lambda>_.
           io_return next))))))"

subsection \<open>The abstract store\<close>

text \<open>The Publisher a tenant can read under an identifier, and the operations' effect on it.\<close>

definition publisher_rows :: "UUID \<Rightarrow> UUID \<Rightarrow> DB \<Rightarrow> (PublisherRow \<times> PublisherStateRow) list" where
  "publisher_rows t u db = publisherSelect (\<lambda>p. prow_tenant p = t \<and> prow_id p = u) db"

definition publisher_store :: "DB \<Rightarrow> UUID \<Rightarrow> UUID \<Rightarrow> Publisher option" where
  "publisher_store db t u =
    (case publisher_rows t u db of
       [] \<Rightarrow> None
     | row # _ \<Rightarrow> (case publisher_scan row of Inl _ \<Rightarrow> None | Inr p \<Rightarrow> Some p))"

lemma sql_publisher_transition_allowed: "sql_publisher_transition s t = transition_allowed s t"
  by (auto simp: sql_publisher_transition_def transition_allowed_def)

lemma publisher_scan_Inr:
  "publisher_scan (p, s) = Inr v \<longleftrightarrow>
    wf_publisher v \<and>
    v = \<lparr>pub_tenantID = prow_tenant p, pub_id = prow_id p, pub_slug = prow_slug p,
         pub_displayName = coalesce (prow_display_name p), pub_description = coalesce (prow_description p),
         pub_state = psrow_state s, pub_version = psrow_version s, pub_createdAt = prow_created_at p\<rparr>"
  by (auto simp: publisher_scan_def bindE_Inr_iff scan_uuid_valid Publisher_Restore_def
      publisher_restore_Inr wf_publisher_def)

lemma reads_publisher_get [io_laws]: "reads (publisher_get env ctx t q)"
  by (simp add: publisher_get_def repository_tx_reads io_laws)

lemma reads_PublisherRepository_Get [io_laws]: "reads (PublisherRepository_Get env ctx t u)"
  by (simp add: PublisherRepository_Get_def io_laws)

lemma reads_PublisherRepository_GetBySlug [io_laws]: "reads (PublisherRepository_GetBySlug env ctx t s)"
  by (simp add: PublisherRepository_GetBySlug_def io_laws)

lemma reads_PublisherRepository_List [io_laws]: "reads (PublisherRepository_List env ctx t a n)"
  by (simp add: PublisherRepository_List_def repository_tx_reads io_laws)

lemma balanced_publisher_create: 
  "balanced (io_bind (io_exec env e1 s1) (\<lambda>_. io_bind (io_exec env e2 s2) (\<lambda>_. Audit_Record env ctx ps)))"
  by (intro io_laws)

lemma atomic_PublisherRepository_Create [io_laws]: "atomic (PublisherRepository_Create env ctx p)"
  unfolding PublisherRepository_Create_def by (intro repository_tx_atomic balanced_publisher_create)

lemma atomic_PublisherRepository_ChangeState [io_laws]:
  "atomic (PublisherRepository_ChangeState env ctx t u v s r e a)"
proof -
  have fail: "atomic (io_fail x)" for x by (intro reads_atomic io_laws)
  show ?thesis
    unfolding PublisherRepository_ChangeState_def
    by (auto intro!: fail repository_tx_atomic balanced_bind reads_balanced [OF reads_query_one]
        simp: io_laws split: sum.splits prod.splits)
qed

text \<open>
  The invariant of the two tables: identifiers and slugs are unique in their tenant, versions are
  unique per Publisher and lie between 1 and the current one, the current one exists, and every
  recorded state follows from the recorded state before it.
\<close>

definition prow_key :: "PublisherRow \<Rightarrow> UUID \<times> UUID" where
  "prow_key p = (prow_tenant p, prow_id p)"

definition psrow_key :: "PublisherStateRow \<Rightarrow> UUID \<times> UUID" where
  "psrow_key s = (psrow_tenant s, psrow_publisher s)"

definition publisher_history_step :: "PublisherStateRow list \<Rightarrow> PublisherStateRow \<Rightarrow> bool" where
  "publisher_history_step states s \<longleftrightarrow>
    (if psrow_version s = 1 then psrow_state s = PublisherClaimed
     else \<exists>r \<in> set states. psrow_key r = psrow_key s \<and> psrow_version r = psrow_version s - 1 \<and>
       transition_allowed (psrow_state r) (psrow_state s))"

definition publisher_tables_inv :: "DB \<Rightarrow> bool" where
  "publisher_tables_inv db \<longleftrightarrow>
    distinct (map prow_key (db_publishers db)) \<and>
    distinct (map (\<lambda>p. (prow_tenant p, prow_slug p)) (db_publishers db)) \<and>
    distinct (map (\<lambda>s. (psrow_key s, psrow_version s)) (db_publisher_states db)) \<and>
    (\<forall>s \<in> set (db_publisher_states db). 1 \<le> psrow_version s \<and>
      publisher_history_step (db_publisher_states db) s \<and>
      (\<exists>p \<in> set (db_publishers db). prow_key p = psrow_key s \<and> psrow_version s \<le> prow_current_version p)) \<and>
    (\<forall>p \<in> set (db_publishers db). \<exists>s \<in> set (db_publisher_states db). state_of_publisher p s)"

lemma publisher_tables_inv_empty: "publisher_tables_inv empty_DB"
  by (simp add: publisher_tables_inv_def empty_DB_def)

lemma publisher_history_step_append:
  "publisher_history_step states s \<Longrightarrow> publisher_history_step (states @ later) s"
  by (auto simp: publisher_history_step_def split: if_splits)

text \<open>What a successful \<open>Create\<close> did.\<close>

lemma PublisherRepository_Create_Inr:
  assumes "PublisherRepository_Create env ctx p w = (Inr u, w')"
  shows "valid_uuid (pub_tenantID p) \<and>
    (\<forall>r \<in> set (db_publishers (w_db w)). prow_key r \<noteq> (pub_tenantID p, pub_id p) \<and>
      (prow_tenant r, prow_slug r) \<noteq> (pub_tenantID p, pub_slug p)) \<and>
    (\<forall>s \<in> set (db_publisher_states (w_db w)). (psrow_key s, psrow_version s) \<noteq> ((pub_tenantID p, pub_id p), 1)) \<and>
    (\<exists>actor fact. ActorFromContext (ctx_actor ctx) = Some actor \<and>
      arow_tenant fact = pub_tenantID p \<and> arow_actor fact = actor_principalID actor \<and>
      arow_action fact = ActionPublisherCreated \<and> arow_resource_id fact = UUID_String (pub_id p) \<and>
      w_db w' = (w_db w)\<lparr>
        db_publishers := db_publishers (w_db w) @ [publisher_row env p],
        db_publisher_states := db_publisher_states (w_db w) @ [initial_state_row env p],
        db_audit := db_audit (w_db w) @ [fact]\<rparr>)"
proof -
  from repository_tx_Inr [OF balanced_publisher_create assms [unfolded PublisherRepository_Create_def]]
  obtain w1 w2 where t: "valid_uuid (pub_tenantID p)" and w1: "w_db w1 = w_db w" and w': "w_db w' = w_db w2"
    and run: "io_bind (io_exec env publisher_create_error (insert_publisher (publisher_row env p))) (\<lambda>_.
       io_bind (io_exec env publisher_create_error (insert_publisher_state (initial_state_row env p))) (\<lambda>_.
       Audit_Record env ctx
         (resource_params (pub_tenantID p) ActionPublisherCreated ''publisher'' (UUID_String (pub_id p))))) w1
      = (Inr u, w2)" by blast
  from run obtain w3 w4 where
    i1: "io_exec env publisher_create_error (insert_publisher (publisher_row env p)) w1 = (Inr (), w3)"
    and i2: "io_exec env publisher_create_error (insert_publisher_state (initial_state_row env p)) w3 = (Inr (), w4)"
    and a: "Audit_Record env ctx
         (resource_params (pub_tenantID p) ActionPublisherCreated ''publisher'' (UUID_String (pub_id p))) w4 = (Inr u, w2)"
    by (auto simp: io_bind_Inr)
  from io_exec_Inr [OF i1] w1 have db3: "w_db w3 = (w_db w)\<lparr>db_publishers := db_publishers (w_db w) @ [publisher_row env p]\<rparr>"
    and fresh: "\<forall>r \<in> set (db_publishers (w_db w)). prow_key r \<noteq> (pub_tenantID p, pub_id p) \<and>
      (prow_tenant r, prow_slug r) \<noteq> (pub_tenantID p, pub_slug p)"
    by (auto simp: insert_publisher_def publisher_row_def prow_key_def split: if_splits)
  from io_exec_Inr [OF i2] have db4: "w_db w4 = (w_db w3)\<lparr>db_publisher_states := db_publisher_states (w_db w3) @ [initial_state_row env p]\<rparr>"
    and fresh2: "\<forall>s \<in> set (db_publisher_states (w_db w3)). (psrow_key s, psrow_version s) \<noteq> ((pub_tenantID p, pub_id p), 1)"
    by (auto simp: insert_publisher_state_def initial_state_row_def psrow_key_def split: if_splits)
  from Audit_Record_Inr [OF a] obtain actor fact where
    act: "ActorFromContext (ctx_actor ctx) = Some actor" "arow_tenant fact = pub_tenantID p"
      "arow_actor fact = actor_principalID actor" "arow_action fact = ActionPublisherCreated"
      "arow_resource_id fact = UUID_String (pub_id p)"
    and db2: "w_db w2 = (w_db w4)\<lparr>db_audit := db_audit (w_db w4) @ [fact]\<rparr>"
    by (auto simp: resource_params_def)
  have "w_db w' = (w_db w)\<lparr>
        db_publishers := db_publishers (w_db w) @ [publisher_row env p],
        db_publisher_states := db_publisher_states (w_db w) @ [initial_state_row env p],
        db_audit := db_audit (w_db w) @ [fact]\<rparr>"
    by (simp add: w' db2 db4 db3)
  with t fresh fresh2 act show ?thesis by (auto simp: db3)
qed

lemma distinct_map_append:
  "distinct (map f (xs @ [x])) \<longleftrightarrow> distinct (map f xs) \<and> (\<forall>y \<in> set xs. f y \<noteq> f x)"
  by (simp add: image_iff) metis

lemma publisher_tables_inv_Create:
  assumes inv: "publisher_tables_inv (w_db w)"
    and run: "PublisherRepository_Create env ctx p w = (Inr u, w')"
  shows "publisher_tables_inv (w_db w')"
proof -
  let ?p = "publisher_row env p" and ?s = "initial_state_row env p"
  from PublisherRepository_Create_Inr [OF run] obtain fact where
    fresh: "\<forall>r \<in> set (db_publishers (w_db w)). prow_key r \<noteq> prow_key ?p \<and>
      (prow_tenant r, prow_slug r) \<noteq> (prow_tenant ?p, prow_slug ?p)"
    and fresh2: "\<forall>s \<in> set (db_publisher_states (w_db w)). (psrow_key s, psrow_version s) \<noteq> (psrow_key ?s, psrow_version ?s)"
    and db: "w_db w' = (w_db w)\<lparr>
        db_publishers := db_publishers (w_db w) @ [?p],
        db_publisher_states := db_publisher_states (w_db w) @ [?s],
        db_audit := db_audit (w_db w) @ [fact]\<rparr>"
    by (auto simp: publisher_row_def initial_state_row_def prow_key_def psrow_key_def)
  have new: "prow_key ?p = psrow_key ?s" "psrow_version ?s = 1" "prow_current_version ?p = 1"
    "publisher_history_step (db_publisher_states (w_db w) @ [?s]) ?s" "state_of_publisher ?p ?s"
    by (simp_all add: publisher_row_def initial_state_row_def prow_key_def psrow_key_def
        publisher_history_step_def state_of_publisher_def)
  show ?thesis
    using inv fresh fresh2 new unfolding publisher_tables_inv_def db
    by (simp add: distinct_map_append del: map_append distinct_append)
      (blast intro: publisher_history_step_append)
qed

text \<open>What a successful \<open>ChangeState\<close> did.\<close>

definition set_version :: "UUID \<Rightarrow> UUID \<Rightarrow> int \<Rightarrow> int \<Rightarrow> PublisherRow \<Rightarrow> PublisherRow" where
  "set_version t u expected new r =
    (if publisher_matches t u expected r then r\<lparr>prow_current_version := new\<rparr> else r)"

lemma PublisherRepository_ChangeState_Inr:
  assumes "PublisherRepository_ChangeState env ctx t u v state reason explanation at w = (Inr next, w')"
  shows "\<exists>current rc. publisher_store (w_db w) t u = Some current \<and> pub_version current = v \<and>
    Publisher_Transition current state reason explanation at = Inr (next, rc) \<and>
    (let row = transition_row env t u rc in
      enforce_publisher_state_record row (w_db w) \<and> 1 \<le> psrow_version row \<and>
      (\<forall>s \<in> set (db_publisher_states (w_db w)). (psrow_key s, psrow_version s) \<noteq> ((t, u), psrow_version row)) \<and>
      rec_Version rc = v + 1 \<and>
      length (filter (publisher_matches t u v) (db_publishers (w_db w))) = 1 \<and>
      (\<exists>actor fact. ActorFromContext (ctx_actor ctx) = Some actor \<and>
        arow_tenant fact = t \<and> arow_actor fact = actor_principalID actor \<and>
        arow_action fact = ActionPublisherStateChanged \<and> arow_resource_id fact = UUID_String u \<and>
        w_db w' = (w_db w)\<lparr>
          db_publishers := map (set_version t u v (rec_Version rc)) (db_publishers (w_db w)),
          db_publisher_states := db_publisher_states (w_db w) @ [row],
          db_audit := db_audit (w_db w) @ [fact]\<rparr>))"
proof -
  let ?q = "query_one env publisher_not_found publisher_unavailable publisher_scan
          (publisherSelect (\<lambda>p. prow_tenant p = t \<and> prow_id p = u))"
  let ?audit = "Audit_Record env ctx (decision_params t ActionPublisherStateChanged ''publisher''
    (UUID_String u) (decision_code state) [reason])"
  let ?written = "\<lambda>next rc. io_bind (io_exec env publisher_change_error
           (insert_publisher_state (transition_row env t u rc))) (\<lambda>_.
         io_bind (io_exec env publisher_change_error
           (update_publisher_version t u (rec_Version rc) v)) (\<lambda>affected.
         if affected \<noteq> 1 then io_fail publisher_stale else io_bind ?audit (\<lambda>_. io_return next)))"
  let ?body = "io_bind ?q (\<lambda>current. if pub_version current \<noteq> v then io_fail publisher_stale
       else case Publisher_Transition current state reason explanation at of
         Inl e \<Rightarrow> io_fail (if e = ErrInvalidTransition
             then typed_repo ErrorConflict ''publisher.invalid_transition''
             else typed_repo ErrorInvalid ''publisher.invalid_transition_metadata'')
       | Inr (next, rc) \<Rightarrow> ?written next rc)"
  have balanced: "balanced ?body"
    by (auto intro!: balanced_bind reads_balanced [OF reads_query_one] simp: io_laws
        split: sum.splits prod.splits)
  from assms have "repository_tx env ctx t publisher_invalid_tenant publisher_unavailable ?body w = (Inr next, w')"
    by (simp add: PublisherRepository_ChangeState_def io_fail_def split: if_splits)
  from repository_tx_Inr [OF balanced this] obtain w1 w2
    where w1: "w_db w1 = w_db w" and w': "w_db w' = w_db w2" and run: "?body w1 = (Inr next, w2)" by blast
  from run obtain current w3 rc where q: "?q w1 = (Inr current, w3)"
    and version: "pub_version current = v"
    and tr: "Publisher_Transition current state reason explanation at = Inr (next, rc)"
    and writes: "?written next rc w3 = (Inr next, w2)"
    by (auto simp: io_bind_Inr [of ?q] io_fail_def io_return_def io_bind_Inr split: if_splits sum.splits)
  from query_one_Inr [OF q] w1 have w3: "w_db w3 = w_db w"
    and store: "publisher_store (w_db w) t u = Some current"
    by (auto simp: publisher_store_def publisher_rows_def)
  from writes obtain w4 w5 w6 where
    i: "io_exec env publisher_change_error (insert_publisher_state (transition_row env t u rc)) w3 = (Inr (), w4)"
    and up: "io_exec env publisher_change_error (update_publisher_version t u (rec_Version rc) v) w4 = (Inr 1, w5)"
    and a: "?audit w5 = (Inr (), w6)" and w2: "w2 = w6"
    by (auto simp: io_bind_Inr io_fail_def io_return_def split: if_splits)
  let ?row = "transition_row env t u rc"
  from io_exec_Inr [OF i] have db4: "w_db w4 = (w_db w)\<lparr>db_publisher_states := db_publisher_states (w_db w) @ [?row]\<rparr>"
    and trigger: "enforce_publisher_state_record ?row (w_db w)" and pos: "1 \<le> psrow_version ?row"
    and fresh: "\<forall>s \<in> set (db_publisher_states (w_db w)). (psrow_key s, psrow_version s) \<noteq> ((t, u), psrow_version ?row)"
    by (auto simp: insert_publisher_state_def w3 psrow_key_def split: if_splits)
      (auto simp: transition_row_def)
  from io_exec_Inr [OF up] have one: "length (filter (publisher_matches t u v) (db_publishers (w_db w))) = 1"
    and next_version: "rec_Version rc = v + 1"
    and db5: "w_db w5 = (w_db w4)\<lparr>db_publishers := map (set_version t u v (rec_Version rc)) (db_publishers (w_db w))\<rparr>"
    by (auto simp: update_publisher_version_def Let_def db4 set_version_def [abs_def] split: if_splits)
  from Audit_Record_Inr [OF a] obtain actor fact where
    act: "ActorFromContext (ctx_actor ctx) = Some actor" "arow_tenant fact = t"
      "arow_actor fact = actor_principalID actor" "arow_action fact = ActionPublisherStateChanged"
      "arow_resource_id fact = UUID_String u"
    and db6: "w_db w6 = (w_db w5)\<lparr>db_audit := db_audit (w_db w5) @ [fact]\<rparr>"
    by (auto simp: resource_params_def decision_params_def)
  have "w_db w' = (w_db w)\<lparr>
          db_publishers := map (set_version t u v (rec_Version rc)) (db_publishers (w_db w)),
          db_publisher_states := db_publisher_states (w_db w) @ [?row],
          db_audit := db_audit (w_db w) @ [fact]\<rparr>"
    by (simp add: w' w2 db6 db5 db4)
  with store version tr trigger pos fresh next_version one act show ?thesis
    unfolding Let_def by blast
qed

lemma set_version_simps [simp]:
  "prow_key (set_version t u v n r) = prow_key r"
  "prow_slug (set_version t u v n r) = prow_slug r"
  "prow_tenant (set_version t u v n r) = prow_tenant r"
  "prow_id (set_version t u v n r) = prow_id r"
  by (simp_all add: set_version_def prow_key_def)

lemma state_of_publisher_iff:
  "state_of_publisher p s \<longleftrightarrow> psrow_key s = prow_key p \<and> psrow_version s = prow_current_version p"
  by (auto simp: state_of_publisher_def psrow_key_def prow_key_def)

lemma publisher_matches_iff:
  "publisher_matches t u v r \<longleftrightarrow> prow_key r = (t, u) \<and> prow_current_version r = v"
  by (auto simp: publisher_matches_def prow_key_def)

lemma publisher_tables_inv_ChangeState:
  assumes inv: "publisher_tables_inv (w_db w)"
    and run: "PublisherRepository_ChangeState env ctx t u v state reason explanation at w = (Inr next, w')"
  shows "publisher_tables_inv (w_db w')"
proof -
  let ?P = "db_publishers (w_db w)" and ?S = "db_publisher_states (w_db w)"
  from PublisherRepository_ChangeState_Inr [OF run] obtain rc row fact where
    row: "row = transition_row env t u rc" and rv: "rec_Version rc = v + 1"
    and trigger: "enforce_publisher_state_record row (w_db w)" and pos: "1 \<le> psrow_version row"
    and fresh: "\<forall>s \<in> set ?S. (psrow_key s, psrow_version s) \<noteq> ((t, u), psrow_version row)"
    and one: "length (filter (publisher_matches t u v) ?P) = 1"
    and db: "w_db w' = (w_db w)\<lparr>
          db_publishers := map (set_version t u v (v + 1)) ?P,
          db_publisher_states := ?S @ [row], db_audit := db_audit (w_db w) @ [fact]\<rparr>"
    by (auto simp: Let_def)
  have key: "psrow_key row = (t, u)" "psrow_version row = v + 1"
    using row rv by (simp_all add: transition_row_def psrow_key_def)
  from one obtain p0 where p0: "p0 \<in> set ?P" "prow_key p0 = (t, u)" "prow_current_version p0 = v"
  proof -
    from one obtain p where "filter (publisher_matches t u v) ?P = [p]"
      by (auto simp: length_Suc_conv)
    then have "p \<in> set (filter (publisher_matches t u v) ?P)" by simp
    then show thesis by (auto simp: publisher_matches_iff intro: that)
  qed
  from inv p0 have "1 \<le> v"
    unfolding publisher_tables_inv_def state_of_publisher_iff by metis
  with trigger key obtain r where "r \<in> set ?S" "psrow_key r = (t, u)" "psrow_version r = v"
    "transition_allowed (psrow_state r) (psrow_state row)"
    by (auto simp: enforce_publisher_state_record_def sql_publisher_transition_allowed psrow_key_def
        split: option.splits dest!: find_Some_set)
  with key \<open>1 \<le> v\<close> have step: "publisher_history_step (?S @ [row]) row"
    by (auto simp: publisher_history_step_def)
  have grown: "prow_current_version p \<le> prow_current_version (set_version t u v (v + 1) p)" for p
    by (auto simp: set_version_def publisher_matches_iff)
  have bound: "\<exists>p \<in> set (map (set_version t u v (v + 1)) ?P). prow_key p = psrow_key s \<and>
      psrow_version s \<le> prow_current_version p" if "s \<in> set ?S" for s
  proof -
    from inv that obtain p where p: "p \<in> set ?P" "prow_key p = psrow_key s"
      "psrow_version s \<le> prow_current_version p"
      unfolding publisher_tables_inv_def by blast
    then have "psrow_version s \<le> prow_current_version (set_version t u v (v + 1) p)"
      using grown [of p] by linarith
    with p show ?thesis by auto
  qed
  have bound_row: "\<exists>p \<in> set (map (set_version t u v (v + 1)) ?P). prow_key p = psrow_key row \<and>
      psrow_version row \<le> prow_current_version p"
  proof (rule bexI [of _ "set_version t u v (v + 1) p0"])
    have "prow_current_version (set_version t u v (v + 1) p0) = v + 1"
      using p0 by (simp add: set_version_def publisher_matches_iff)
    with p0 key show "prow_key (set_version t u v (v + 1) p0) = psrow_key row \<and>
        psrow_version row \<le> prow_current_version (set_version t u v (v + 1) p0)" by simp
    from p0 show "set_version t u v (v + 1) p0 \<in> set (map (set_version t u v (v + 1)) ?P)" by simp
  qed
  have current: "\<exists>s \<in> set (?S @ [row]). state_of_publisher (set_version t u v (v + 1) p) s"
    if "p \<in> set ?P" for p
    using inv that key unfolding publisher_tables_inv_def state_of_publisher_iff
    by (cases "publisher_matches t u v p") (auto simp: set_version_def publisher_matches_iff prow_key_def)
  show ?thesis
    using inv fresh key step bound bound_row current pos unfolding publisher_tables_inv_def db
    by (simp add: distinct_map_append o_def del: map_append distinct_append)
      (blast intro: publisher_history_step_append)
qed

text \<open>Reads return the stored Publishers.\<close>

lemma publisher_store_wf:
  assumes "publisher_store db t u = Some p"
  shows "wf_publisher p \<and> pub_tenantID p = t \<and> pub_id p = u"
proof -
  from assms obtain r rs where rows: "publisher_rows t u db = r # rs" and scan: "publisher_scan r = Inr p"
    by (auto simp: publisher_store_def split: list.splits sum.splits)
  have "r \<in> set (publisher_rows t u db)" by (simp add: rows)
  then have "prow_tenant (fst r) = t \<and> prow_id (fst r) = u"
    by (auto simp: publisher_rows_def publisherSelect_def)
  with scan show ?thesis by (cases r) (auto simp: publisher_scan_Inr)
qed

lemma PublisherRepository_Get_Inr:
  assumes "PublisherRepository_Get env ctx t u w = (Inr p, w')"
  shows "publisher_store (w_db w) t u = Some p \<and> wf_publisher p \<and> pub_tenantID p = t \<and> pub_id p = u"
proof -
  from assms obtain w1 w2 where "w_db w1 = w_db w"
    and q: "query_one env publisher_not_found publisher_unavailable publisher_scan
      (publisherSelect (\<lambda>r. prow_tenant r = t \<and> prow_id r = u)) w1 = (Inr p, w2)"
    by (auto simp: PublisherRepository_Get_def publisher_get_def io_fail_def split: if_splits
        dest!: repository_tx_Inr [OF reads_balanced [OF reads_query_one]])
  with query_one_Inr [OF q] obtain r rs where sel: "publisher_rows t u (w_db w) = r # rs"
    and scan: "publisher_scan r = Inr p"
    by (auto simp: publisher_rows_def)
  then have "publisher_store (w_db w) t u = Some p" by (simp add: publisher_store_def)
  with publisher_store_wf show ?thesis by blast
qed

text \<open>The effect of \<open>Create\<close> on the store: one new entry, with the stored creation time.\<close>

lemma publisher_rows_append:
  assumes "\<forall>s \<in> set S. psrow_key s \<noteq> prow_key p" and "\<forall>r \<in> set P. prow_key r \<noteq> prow_key p"
    and "state_of_publisher p s"
  shows "publisher_rows t u (db\<lparr>db_publishers := P @ [p], db_publisher_states := S @ [s], db_audit := A\<rparr>) =
    (if (t, u) = prow_key p then [(p, s)]
     else publisher_rows t u (db\<lparr>db_publishers := P, db_publisher_states := S\<rparr>))"
proof -
  have none: "filter (\<lambda>r. prow_tenant r = t \<and> prow_id r = u) P = []" if "(t, u) = prow_key p"
    using that assms(2) by (auto simp: filter_empty_conv prow_key_def)
  have old: "filter (state_of_publisher p) S = []"
    using assms(1) by (auto simp: filter_empty_conv state_of_publisher_iff)
  have other: "filter (state_of_publisher r) (S @ [s]) = filter (state_of_publisher r) S"
    if "r \<in> set P" for r
    using assms(2,3) that by (auto simp: state_of_publisher_iff)
  have cong: "map (\<lambda>r. map (Pair r) (filter (state_of_publisher r) (S @ [s])))
        (filter (\<lambda>r. prow_tenant r = t \<and> prow_id r = u) P) =
      map (\<lambda>r. map (Pair r) (filter (state_of_publisher r) S))
        (filter (\<lambda>r. prow_tenant r = t \<and> prow_id r = u) P)"
    using other by (intro map_cong) auto
  have split: "publisher_rows t u (db\<lparr>db_publishers := P @ [p], db_publisher_states := S @ [s], db_audit := A\<rparr>) =
      concat (map (\<lambda>r. map (Pair r) (filter (state_of_publisher r) (S @ [s])))
        (filter (\<lambda>r. prow_tenant r = t \<and> prow_id r = u) P)) @
      concat (map (\<lambda>r. map (Pair r) (filter (state_of_publisher r) (S @ [s])))
        (filter (\<lambda>r. prow_tenant r = t \<and> prow_id r = u) [p]))"
    by (simp add: publisher_rows_def publisherSelect_def)
  show ?thesis
    unfolding split cong using none old assms(3)
    by (auto simp: publisher_rows_def publisherSelect_def prow_key_def)
qed

lemma publisher_store_Create:
  assumes inv: "publisher_tables_inv (w_db w)" and wf: "wf_publisher p"
    and state: "pub_state p = PublisherClaimed" "pub_version p = 1"
    and stored: "env_store_time env (pub_createdAt p) \<noteq> 0"
    and run: "PublisherRepository_Create env ctx p w = (Inr x, w')"
  shows "publisher_store (w_db w') t u =
    (if t = pub_tenantID p \<and> u = pub_id p
     then Some (p\<lparr>pub_createdAt := env_store_time env (pub_createdAt p)\<rparr>)
     else publisher_store (w_db w) t u)"
proof -
  let ?p = "publisher_row env p" and ?s = "initial_state_row env p"
  from PublisherRepository_Create_Inr [OF run] obtain fact where
    fresh: "\<forall>r \<in> set (db_publishers (w_db w)). prow_key r \<noteq> prow_key ?p"
    and db: "w_db w' = (w_db w)\<lparr>
        db_publishers := db_publishers (w_db w) @ [?p],
        db_publisher_states := db_publisher_states (w_db w) @ [?s],
        db_audit := db_audit (w_db w) @ [fact]\<rparr>"
    by (auto simp: publisher_row_def prow_key_def)
  have nostate: "\<forall>s \<in> set (db_publisher_states (w_db w)). psrow_key s \<noteq> prow_key ?p"
    using inv fresh unfolding publisher_tables_inv_def by metis
  have current: "state_of_publisher ?p ?s"
    by (simp add: state_of_publisher_def publisher_row_def initial_state_row_def)
  have scan: "publisher_scan (?p, ?s) = Inr (p\<lparr>pub_createdAt := env_store_time env (pub_createdAt p)\<rparr>)"
    using wf state stored
    by (auto simp: publisher_scan_Inr wf_publisher_def publisher_row_def initial_state_row_def)
  show ?thesis
    unfolding publisher_store_def db publisher_rows_append [OF nostate fresh current]
    using scan by (simp add: prow_key_def publisher_row_def)
qed

end
