(* ===== verification/Namespace_Repository.thy ===== *)
theory Namespace_Repository
  imports Publisher_Repository
begin

text \<open>
  \<open>internal/adapters/postgres/namespace\<close>: namespaces, delegations and the resolution of the Publisher
  that controls a path, on the tables and triggers of \<open>migrations/000003_namespaces.sql\<close> and
  \<open>migrations/000014_namespace_delegations.sql\<close>.
\<close>

subsection \<open>Statements\<close>

definition namespace_unavailable :: go_error where
  "namespace_unavailable = typed_repo ErrorUnavailable ''namespace.persistence_unavailable''"

definition namespace_invalid_tenant :: go_error where
  "namespace_invalid_tenant = typed_repo ErrorInvalid ''namespace.invalid_tenant''"

definition namespace_not_found :: go_error where
  "namespace_not_found = typed_repo ErrorNotFound ''namespace.not_found''"

definition delegation_not_found :: go_error where
  "delegation_not_found = typed_repo ErrorNotFound ''namespace.delegation_not_found''"

definition stale_delegation :: go_error where
  "stale_delegation = typed_repo ErrorConflict ''namespace.stale_delegation_version''"

definition not_authorized :: go_error where
  "not_authorized = typed_repo ErrorForbidden ''namespace.publication_not_authorized''"

text \<open>
  \<open>child LIKE parent || '/%'\<close>: paths consist of \<open>[a-z0-9/-]\<close>, so no character of the pattern but
  the last one is a wildcard.
\<close>

definition like_child :: "string \<Rightarrow> string \<Rightarrow> bool" where
  "like_child parent child \<longleftrightarrow> prefix (parent @ ''/'') child"

text \<open>The current state of a tenant's Publisher, as the joins of the triggers and queries read it.\<close>

definition current_states :: "UUID \<Rightarrow> UUID \<Rightarrow> DB \<Rightarrow> string list" where
  "current_states t u db = map (\<lambda>row. psrow_state (snd row)) (publisher_rows t u db)"

definition verified_publisher :: "UUID \<Rightarrow> UUID \<Rightarrow> DB \<Rightarrow> bool" where
  "verified_publisher t u db \<longleftrightarrow> list_ex (\<lambda>s. s = ''verified'') (current_states t u db)"

definition insert_namespace :: "NamespaceRow \<Rightarrow> DB \<Rightarrow> (sql_error, unit \<times> DB) result" where
  "insert_namespace row db =
    (if \<exists>d \<in> set (db_delegations db). drow_tenant d = nrow_tenant row \<and>
         drow_prefix d = nrow_path row \<and> drow_revoked_at d = None
       then Inl (unique_violation ''namespaces_delegation_collision'')
     else if \<not> verified_publisher (nrow_tenant row) (nrow_owner row) db
       then Inl (check_violation ''namespaces_verified_owner_check'')
     else if \<exists>n \<in> set (db_namespaces db). nrow_tenant n = nrow_tenant row \<and> nrow_id n = nrow_id row
       then Inl (unique_violation ''namespaces_pkey'')
     else if \<exists>n \<in> set (db_namespaces db). nrow_tenant n = nrow_tenant row \<and> nrow_path n = nrow_path row
       then Inl (unique_violation ''namespaces_tenant_id_path_key'')
     else Inr ((), db\<lparr>db_namespaces := db_namespaces db @ [row]\<rparr>))"

text \<open>The trigger \<open>enforce_namespace_delegation\<close>: the error it raises, if any.\<close>

definition enforce_namespace_delegation :: "DelegationRow \<Rightarrow> DB \<Rightarrow> sql_error option" where
  "enforce_namespace_delegation row db =
    (case find (\<lambda>n. nrow_tenant n = drow_tenant row \<and> nrow_id n = drow_namespace row) (db_namespaces db) of
       None \<Rightarrow> Some (check_violation ''namespace_delegations_strict_child_check'')
     | Some root \<Rightarrow>
       (if \<not> like_child (nrow_path root) (drow_prefix row)
          then Some (check_violation ''namespace_delegations_strict_child_check'')
        else if \<exists>n \<in> set (db_namespaces db). nrow_tenant n = drow_tenant row \<and> nrow_path n = drow_prefix row
          then Some (unique_violation ''namespace_delegations_namespace_collision'')
        else if \<exists>d \<in> set (db_delegations db). drow_tenant d = drow_tenant row \<and>
            drow_namespace d = drow_namespace row \<and> drow_revoked_at d = None \<and>
            \<not> like_child (drow_prefix d) (drow_prefix row) \<and> \<not> like_child (drow_prefix row) (drow_prefix d)
          then Some (check_violation ''namespace_delegations_ambiguous_sibling_check'')
        else if \<not> verified_publisher (drow_tenant row) (drow_publisher row) db
          then Some (check_violation ''namespace_delegations_verified_publisher_check'')
        else None))"

definition insert_delegation :: "DelegationRow \<Rightarrow> DB \<Rightarrow> (sql_error, unit \<times> DB) result" where
  "insert_delegation row db =
    (case enforce_namespace_delegation row db of
       Some e \<Rightarrow> Inl e
     | None \<Rightarrow>
       (if \<exists>d \<in> set (db_delegations db). drow_tenant d = drow_tenant row \<and> drow_id d = drow_id row
          then Inl (unique_violation ''namespace_delegations_pkey'')
        else if \<exists>d \<in> set (db_delegations db). drow_tenant d = drow_tenant row \<and>
            drow_prefix d = drow_prefix row \<and> drow_revoked_at d = None
          then Inl (unique_violation ''namespace_delegations_active_prefix_key'')
        else Inr ((), db\<lparr>db_delegations := db_delegations db @ [row]\<rparr>)))"

definition insert_delegation_state :: "DelegationStateRow \<Rightarrow> DB \<Rightarrow> (sql_error, unit \<times> DB) result" where
  "insert_delegation_state row db =
    (if \<not> (dsrow_version row = 1 \<and> dsrow_state row = ''active'' \<and> dsrow_reason row = None \<and>
             dsrow_explanation row = [] \<or>
           dsrow_version row = 2 \<and> dsrow_state row = ''revoked'' \<and> dsrow_reason row \<noteq> None)
       then Inl (check_violation ''namespace_delegation_state_records_check'')
     else if \<exists>s \<in> set (db_delegation_states db). dsrow_tenant s = dsrow_tenant row \<and>
         dsrow_delegation s = dsrow_delegation row \<and> dsrow_version s = dsrow_version row
       then Inl (unique_violation ''namespace_delegation_state_records_pkey'')
     else if \<not> (\<exists>d \<in> set (db_delegations db). drow_tenant d = dsrow_tenant row \<and>
         drow_id d = dsrow_delegation row \<and> drow_prefix d = dsrow_prefix row)
       then Inl (foreign_key_violation ''namespace_delegation_state_records_fkey'')
     else Inr ((), db\<lparr>db_delegation_states := db_delegation_states db @ [row]\<rparr>))"

text \<open>
  \<open>UPDATE public.namespace_delegations SET current_state_version, revoked_at\<close> with the mutation
  guard and the check \<open>revoked_at >= created_at\<close>.
\<close>

definition delegation_matches :: "UUID \<Rightarrow> UUID \<Rightarrow> int \<Rightarrow> DelegationRow \<Rightarrow> bool" where
  "delegation_matches t u expected d \<longleftrightarrow>
    drow_tenant d = t \<and> drow_id d = u \<and> drow_current_version d = expected"

definition revoke_row :: "UUID \<Rightarrow> UUID \<Rightarrow> int \<Rightarrow> int \<Rightarrow> Time \<Rightarrow> DelegationRow \<Rightarrow> DelegationRow" where
  "revoke_row t u version expected at d =
    (if delegation_matches t u expected d
     then d\<lparr>drow_current_version := version, drow_revoked_at := Some at\<rparr> else d)"

definition update_delegation ::
  "UUID \<Rightarrow> UUID \<Rightarrow> int \<Rightarrow> int \<Rightarrow> Time \<Rightarrow> DB \<Rightarrow> (sql_error, nat \<times> DB) result" where
  "update_delegation t u version expected at db =
    (let matched = filter (delegation_matches t u expected) (db_delegations db) in
     if \<exists>d \<in> set matched. drow_current_version d \<noteq> 1 \<or> version \<noteq> 2 \<or> drow_revoked_at d \<noteq> None
       then Inl raise_exception
     else if \<exists>d \<in> set matched. at < drow_created_at d
       then Inl (check_violation ''namespace_delegations_check'')
     else Inr (length matched,
       db\<lparr>db_delegations := map (revoke_row t u version expected at) (db_delegations db)\<rparr>))"

subsection \<open>Namespaces\<close>

definition namespace_scan :: "NamespaceRow \<Rightarrow> (unit, Namespace) result" where
  "namespace_scan row =
    bindE (scan_uuid (nrow_tenant row)) (\<lambda>tenantID.
    bindE (scan_uuid (nrow_id row)) (\<lambda>namespaceID.
    bindE (scan_uuid (nrow_owner row)) (\<lambda>ownerID.
    map_error () (Namespace_Restore tenantID namespaceID (nrow_path row) ownerID (nrow_created_at row)))))"

definition namespace_row :: "Env \<Rightarrow> Namespace \<Rightarrow> NamespaceRow" where
  "namespace_row env n =
    \<lparr>nrow_tenant = ns_tenantID n, nrow_id = ns_id n, nrow_path = ns_path n,
     nrow_owner = ns_ownerPublisherID n, nrow_created_at = env_store_time env (ns_createdAt n)\<rparr>"

definition invalidOwner :: "sql_error \<Rightarrow> bool" where
  "invalidOwner e =
    (case e of
       PgError state name \<Rightarrow>
         state = ''23503'' \<or> state = ''23514'' \<and> name = ''namespaces_verified_owner_check''
     | DriverError \<Rightarrow> False)"

definition namespace_create_error :: "sql_error \<Rightarrow> go_error" where
  "namespace_create_error e =
    (if uniqueViolation e then typed_repo ErrorConflict ''namespace.conflict''
     else if invalidOwner e then typed_repo ErrorConflict ''namespace.owner_not_verified''
     else namespace_unavailable)"

definition NamespaceRepository_Create :: "Env \<Rightarrow> Ctx \<Rightarrow> Namespace \<Rightarrow> unit io" where
  "NamespaceRepository_Create env ctx n =
    repository_tx env ctx (ns_tenantID n) namespace_invalid_tenant namespace_unavailable
      (io_bind (io_exec env namespace_create_error (insert_namespace (namespace_row env n))) (\<lambda>_.
       Audit_Record env ctx
         (resource_params (ns_tenantID n) ActionNamespaceCreated ''namespace'' (UUID_String (ns_id n)))))"

definition namespace_get :: "Env \<Rightarrow> Ctx \<Rightarrow> UUID \<Rightarrow> (NamespaceRow \<Rightarrow> bool) \<Rightarrow> Namespace io" where
  "namespace_get env ctx tenantID predicate =
    repository_tx env ctx tenantID namespace_invalid_tenant namespace_unavailable
      (query_one env namespace_not_found namespace_unavailable namespace_scan
        (\<lambda>db. filter (\<lambda>r. nrow_tenant r = tenantID \<and> predicate r) (db_namespaces db)))"

definition NamespaceRepository_Get :: "Env \<Rightarrow> Ctx \<Rightarrow> UUID \<Rightarrow> UUID \<Rightarrow> Namespace io" where
  "NamespaceRepository_Get env ctx tenantID namespaceID =
    (if \<not> valid_uuid namespaceID then io_fail (typed_repo ErrorInvalid ''namespace.invalid_id'')
     else namespace_get env ctx tenantID (\<lambda>r. nrow_id r = namespaceID))"

definition NamespaceRepository_GetByPath :: "Env \<Rightarrow> Ctx \<Rightarrow> UUID \<Rightarrow> string \<Rightarrow> Namespace io" where
  "NamespaceRepository_GetByPath env ctx tenantID path =
    (if \<not> ValidatePath path then io_fail (typed_repo ErrorInvalid ''namespace.invalid_path'')
     else namespace_get env ctx tenantID (\<lambda>r. nrow_path r = path))"

definition NamespaceRepository_List ::
  "Env \<Rightarrow> Ctx \<Rightarrow> UUID \<Rightarrow> UUID option \<Rightarrow> int \<Rightarrow> Namespace list io" where
  "NamespaceRepository_List env ctx tenantID after limit =
    (if limit < 1 \<or> limit > NamespaceMaxListSize + 1
       then io_fail (typed_repo ErrorInvalid ''namespace.invalid_page_size'')
     else if (case after of None \<Rightarrow> False | Some position \<Rightarrow> \<not> valid_uuid position)
       then io_fail (typed_repo ErrorInvalid ''namespace.invalid_cursor'')
     else repository_tx env ctx tenantID namespace_invalid_tenant namespace_unavailable
       (query_all env namespace_unavailable namespace_scan
         (\<lambda>db. page_after nrow_id after (nat limit)
            (filter (\<lambda>r. nrow_tenant r = tenantID) (db_namespaces db)))))"

subsection \<open>Delegations\<close>

definition state_of_delegation :: "DelegationRow \<Rightarrow> DelegationStateRow \<Rightarrow> bool" where
  "state_of_delegation d s \<longleftrightarrow>
    dsrow_tenant s = drow_tenant d \<and> dsrow_delegation s = drow_id d \<and>
    dsrow_version s = drow_current_version d"

definition delegationSelect :: "UUID \<Rightarrow> UUID \<Rightarrow> DB \<Rightarrow> (DelegationRow \<times> DelegationStateRow) list" where
  "delegationSelect t u db =
    concat (map (\<lambda>d. map (Pair d) (filter (state_of_delegation d) (db_delegation_states db)))
      (filter (\<lambda>d. drow_tenant d = t \<and> drow_id d = u) (db_delegations db)))"

definition scanDelegation :: "DelegationRow \<times> DelegationStateRow \<Rightarrow> (unit, Delegation) result" where
  "scanDelegation row =
    (case row of (d, s) \<Rightarrow>
      bindE (scan_uuid (drow_tenant d)) (\<lambda>tenantID.
      bindE (scan_uuid (drow_id d)) (\<lambda>uid.
      bindE (scan_uuid (drow_namespace d)) (\<lambda>namespaceID.
      bindE (scan_uuid (drow_publisher d)) (\<lambda>publisherID.
      map_error () (RestoreDelegation tenantID uid namespaceID publisherID (drow_prefix d)
        (dsrow_state s) (drow_current_version d) (drow_created_at d)))))))"

definition delegationWriteError :: "sql_error \<Rightarrow> go_error" where
  "delegationWriteError e =
    (case e of
       PgError state _ \<Rightarrow>
         (if state = ''23505'' then typed_repo ErrorConflict ''namespace.delegation_conflict''
          else if state = ''23503'' \<or> state = ''23514''
            then typed_repo ErrorConflict ''namespace.invalid_delegation''
          else namespace_unavailable)
     | DriverError \<Rightarrow> namespace_unavailable)"

definition delegation_row :: "Env \<Rightarrow> Delegation \<Rightarrow> DelegationRow" where
  "delegation_row env d =
    \<lparr>drow_tenant = del_tenantID d, drow_id = del_id d, drow_namespace = del_namespaceID d,
     drow_prefix = del_childPrefix d, drow_publisher = del_publisherID d, drow_current_version = 1,
     drow_revoked_at = None, drow_created_at = env_store_time env (del_createdAt d)\<rparr>"

definition active_state_row :: "Env \<Rightarrow> Delegation \<Rightarrow> DelegationStateRow" where
  "active_state_row env d =
    \<lparr>dsrow_tenant = del_tenantID d, dsrow_delegation = del_id d, dsrow_prefix = del_childPrefix d,
     dsrow_version = 1, dsrow_state = ''active'', dsrow_reason = None, dsrow_explanation = [],
     dsrow_recorded_at = env_store_time env (del_createdAt d)\<rparr>"

definition DelegationRepository_Create :: "Env \<Rightarrow> Ctx \<Rightarrow> Delegation \<Rightarrow> unit io" where
  "DelegationRepository_Create env ctx d =
    repository_tx env ctx (del_tenantID d) namespace_invalid_tenant namespace_unavailable
      (io_bind (io_exec env delegationWriteError (insert_delegation (delegation_row env d))) (\<lambda>_.
       io_bind (io_exec env (\<lambda>_. namespace_unavailable)
         (insert_delegation_state (active_state_row env d))) (\<lambda>_.
       Audit_Record env ctx
         (resource_params (del_tenantID d) ActionNamespaceDelegated ''namespace_delegation''
           (UUID_String (del_id d))))))"

definition DelegationRepository_Get :: "Env \<Rightarrow> Ctx \<Rightarrow> UUID \<Rightarrow> UUID \<Rightarrow> Delegation io" where
  "DelegationRepository_Get env ctx tenantID delegationID =
    (if \<not> valid_uuid delegationID then io_fail (typed_repo ErrorInvalid ''namespace.invalid_delegation_id'')
     else repository_tx env ctx tenantID namespace_invalid_tenant namespace_unavailable
       (query_one env delegation_not_found namespace_unavailable scanDelegation
         (delegationSelect tenantID delegationID)))"

definition revoked_state_row ::
  "Env \<Rightarrow> UUID \<Rightarrow> UUID \<Rightarrow> string \<Rightarrow> int \<Rightarrow> ReasonCode \<Rightarrow> string \<Rightarrow> Time \<Rightarrow> DelegationStateRow" where
  "revoked_state_row env t u childPrefix version reason explanation at =
    \<lparr>dsrow_tenant = t, dsrow_delegation = u, dsrow_prefix = childPrefix, dsrow_version = version,
     dsrow_state = ''revoked'', dsrow_reason = Some (ReasonCode_String reason),
     dsrow_explanation = explanation, dsrow_recorded_at = env_store_time env at\<rparr>"

definition DelegationRepository_Revoke ::
  "Env \<Rightarrow> Ctx \<Rightarrow> UUID \<Rightarrow> UUID \<Rightarrow> int \<Rightarrow> ReasonCode \<Rightarrow> string \<Rightarrow> Time \<Rightarrow> Delegation io" where
  "DelegationRepository_Revoke env ctx tenantID delegationID expectedVersion reason explanation at =
    (if \<not> valid_uuid delegationID \<or> expectedVersion < 1 \<or> ReasonCode_String reason = [] \<or> time_IsZero at
       then io_fail (typed_repo ErrorInvalid ''namespace.invalid_delegation_revocation'')
     else repository_tx env ctx tenantID namespace_invalid_tenant namespace_unavailable
      (io_bind (query_one env delegation_not_found namespace_unavailable scanDelegation
          (delegationSelect tenantID delegationID)) (\<lambda>current.
       if del_version current \<noteq> expectedVersion then io_fail stale_delegation
       else case Delegation_Revoke current reason explanation at of
         Inl _ \<Rightarrow> io_fail (typed_repo ErrorConflict ''namespace.invalid_delegation_transition'')
       | Inr updated \<Rightarrow>
         io_bind (io_exec env (\<lambda>_. namespace_unavailable)
           (insert_delegation_state (revoked_state_row env tenantID delegationID (del_childPrefix current)
             (del_version updated) reason explanation at))) (\<lambda>_.
         io_bind (io_exec env (\<lambda>_. namespace_unavailable)
           (update_delegation tenantID delegationID (del_version updated) expectedVersion
             (env_store_time env at))) (\<lambda>affected.
         if affected \<noteq> 1 then io_fail stale_delegation
         else io_bind (Audit_Record env ctx
             (decision_params tenantID ActionNamespaceDelegationRevoked ''namespace_delegation''
               (UUID_String delegationID) (decision_code ''revoked'') [reason])) (\<lambda>_.
           io_return updated))))))"

subsection \<open>Ownership\<close>

text \<open>
  The query of \<open>ResolveOwner\<close>: \<open>candidates\<close> are the namespaces and the active delegations whose path
  or prefix covers the path, with their Publisher's current state; \<open>controlling\<close> is the longest.
\<close>

definition covers :: "string \<Rightarrow> string \<Rightarrow> bool" where
  "covers prefix_path path \<longleftrightarrow> path = prefix_path \<or> like_child prefix_path path"

definition candidates :: "UUID \<Rightarrow> string \<Rightarrow> DB \<Rightarrow> (string \<times> UUID \<times> string) list" where
  "candidates t path db =
    concat (map (\<lambda>n. map (\<lambda>s. (nrow_path n, nrow_owner n, s)) (current_states t (nrow_owner n) db))
      (filter (\<lambda>n. nrow_tenant n = t \<and> covers (nrow_path n) path) (db_namespaces db))) @
    concat (map (\<lambda>d. map (\<lambda>s. (drow_prefix d, drow_publisher d, s)) (current_states t (drow_publisher d) db))
      (filter (\<lambda>d. drow_tenant d = t \<and> drow_revoked_at d = None \<and> covers (drow_prefix d) path)
        (db_delegations db)))"

definition controlling :: "UUID \<Rightarrow> string \<Rightarrow> DB \<Rightarrow> (UUID \<times> string) list" where
  "controlling t path db =
    map snd (take 1 (sort_key (\<lambda>c. - int (length (fst c))) (candidates t path db)))"

definition resolve_query :: "UUID \<Rightarrow> string \<Rightarrow> DB \<Rightarrow> UUID list" where
  "resolve_query t path db = map fst (filter (\<lambda>c. snd c = ''verified'') (controlling t path db))"

definition DelegationRepository_ResolveOwner :: "Env \<Rightarrow> Ctx \<Rightarrow> UUID \<Rightarrow> string \<Rightarrow> UUID io" where
  "DelegationRepository_ResolveOwner env ctx tenantID path =
    (if \<not> ValidatePath path then io_fail (typed_repo ErrorInvalid ''namespace.invalid_path'')
     else io_bind
       (repository_tx env ctx tenantID namespace_invalid_tenant namespace_unavailable
         (query_one env not_authorized namespace_unavailable (\<lambda>owner. Inr owner :: (unit, UUID) result)
           (resolve_query tenantID path)))
       (\<lambda>owner. io_lift namespace_unavailable (ParseUUID (UUID_String owner))))"

subsection \<open>Atomicity\<close>

lemma reads_namespace_get [io_laws]: "reads (namespace_get env ctx t q)"
  by (simp add: namespace_get_def repository_tx_reads io_laws)

lemma reads_NamespaceRepository_Get [io_laws]: "reads (NamespaceRepository_Get env ctx t u)"
  by (simp add: NamespaceRepository_Get_def io_laws)

lemma reads_NamespaceRepository_GetByPath [io_laws]: "reads (NamespaceRepository_GetByPath env ctx t p)"
  by (simp add: NamespaceRepository_GetByPath_def io_laws)

lemma reads_NamespaceRepository_List [io_laws]: "reads (NamespaceRepository_List env ctx t a n)"
  by (simp add: NamespaceRepository_List_def repository_tx_reads io_laws)

lemma reads_DelegationRepository_Get [io_laws]: "reads (DelegationRepository_Get env ctx t u)"
  by (simp add: DelegationRepository_Get_def repository_tx_reads io_laws)

lemma reads_DelegationRepository_ResolveOwner [io_laws]: "reads (DelegationRepository_ResolveOwner env ctx t p)"
  by (simp add: DelegationRepository_ResolveOwner_def repository_tx_reads io_laws)

lemma balanced_namespace_create:
  "balanced (io_bind (io_exec env e st) (\<lambda>_. Audit_Record env ctx ps))"
  by (intro io_laws)

lemma atomic_NamespaceRepository_Create [io_laws]: "atomic (NamespaceRepository_Create env ctx n)"
  unfolding NamespaceRepository_Create_def by (intro repository_tx_atomic balanced_namespace_create)

lemma atomic_DelegationRepository_Create [io_laws]: "atomic (DelegationRepository_Create env ctx d)"
  unfolding DelegationRepository_Create_def by (intro repository_tx_atomic balanced_publisher_create)

lemma atomic_DelegationRepository_Revoke [io_laws]: "atomic (DelegationRepository_Revoke env ctx t u v r e a)"
proof -
  have fail: "atomic (io_fail x)" for x by (intro reads_atomic io_laws)
  show ?thesis
    unfolding DelegationRepository_Revoke_def
    by (auto intro!: fail repository_tx_atomic balanced_bind reads_balanced [OF reads_query_one]
        simp: io_laws split: sum.splits)
qed

subsection \<open>The invariant of the ownership tables\<close>

abbreviation active_delegation :: "DelegationRow \<Rightarrow> bool" where
  "active_delegation d \<equiv> drow_revoked_at d = None"

definition nrow_place :: "NamespaceRow \<Rightarrow> UUID \<times> string" where
  "nrow_place n = (nrow_tenant n, nrow_path n)"

definition drow_place :: "DelegationRow \<Rightarrow> UUID \<times> string" where
  "drow_place d = (drow_tenant d, drow_prefix d)"

definition nrow_key :: "NamespaceRow \<Rightarrow> UUID \<times> UUID" where
  "nrow_key n = (nrow_tenant n, nrow_id n)"

definition drow_key :: "DelegationRow \<Rightarrow> UUID \<times> UUID" where
  "drow_key d = (drow_tenant d, drow_id d)"

definition nested :: "DelegationRow \<Rightarrow> DelegationRow \<Rightarrow> bool" where
  "nested d e \<longleftrightarrow> drow_tenant d = drow_tenant e \<and> drow_namespace d = drow_namespace e \<longrightarrow>
    like_child (drow_prefix d) (drow_prefix e) \<or> like_child (drow_prefix e) (drow_prefix d)"

text \<open>
  Every path has at most one namespace and at most one active delegation, never both; a delegation
  lies strictly below its namespace; the active delegations of one namespace form a chain.
\<close>

definition ownership_inv :: "DB \<Rightarrow> bool" where
  "ownership_inv db \<longleftrightarrow>
    distinct (map nrow_key (db_namespaces db)) \<and> distinct (map nrow_place (db_namespaces db)) \<and>
    distinct (map drow_key (db_delegations db)) \<and>
    distinct (map drow_place (filter active_delegation (db_delegations db))) \<and>
    (\<forall>n \<in> set (db_namespaces db). \<forall>d \<in> set (filter active_delegation (db_delegations db)).
      nrow_place n \<noteq> drow_place d) \<and>
    (\<forall>d \<in> set (db_delegations db). \<exists>n \<in> set (db_namespaces db).
      nrow_key n = (drow_tenant d, drow_namespace d) \<and> like_child (nrow_path n) (drow_prefix d)) \<and>
    (\<forall>d \<in> set (filter active_delegation (db_delegations db)).
      \<forall>e \<in> set (filter active_delegation (db_delegations db)). drow_key d = drow_key e \<or> nested d e)"

lemma ownership_inv_empty: "ownership_inv empty_DB"
  by (simp add: ownership_inv_def empty_DB_def)

lemma ownership_inv_insert_namespace:
  assumes inv: "ownership_inv db" and ins: "insert_namespace row db = Inr (u, db')"
  shows "ownership_inv db'"
proof -
  from ins have db': "db' = db\<lparr>db_namespaces := db_namespaces db @ [row]\<rparr>"
    and fresh: "\<forall>n \<in> set (db_namespaces db). nrow_key n \<noteq> nrow_key row \<and> nrow_place n \<noteq> nrow_place row"
    and free: "\<forall>d \<in> set (filter active_delegation (db_delegations db)). nrow_place row \<noteq> drow_place d"
    by (auto simp: insert_namespace_def nrow_key_def nrow_place_def drow_place_def split: if_splits)
  show ?thesis
    using inv fresh free unfolding ownership_inv_def db'
    by (simp add: distinct_map_append del: map_append distinct_append)
qed

lemma ownership_inv_insert_delegation:
  assumes inv: "ownership_inv db" and ins: "insert_delegation row db = Inr (u, db')"
    and active: "active_delegation row"
  shows "ownership_inv db'"
proof -
  from ins have ok: "enforce_namespace_delegation row db = None"
    and db': "db' = db\<lparr>db_delegations := db_delegations db @ [row]\<rparr>"
    and fresh: "\<forall>d \<in> set (db_delegations db). drow_key d \<noteq> drow_key row"
    and place: "\<forall>d \<in> set (filter active_delegation (db_delegations db)). drow_place d \<noteq> drow_place row"
    by (auto simp: insert_delegation_def drow_key_def drow_place_def split: option.splits if_splits)
  from ok obtain root where "root \<in> set (db_namespaces db)" "nrow_key root = (drow_tenant row, drow_namespace row)"
    "like_child (nrow_path root) (drow_prefix row)"
    by (auto simp: enforce_namespace_delegation_def nrow_key_def split: option.splits if_splits
        dest!: find_Some_set)
  then have root: "\<exists>n \<in> set (db_namespaces db). nrow_key n = (drow_tenant row, drow_namespace row) \<and>
      like_child (nrow_path n) (drow_prefix row)" by blast
  from ok have collision: "\<forall>n \<in> set (db_namespaces db). nrow_place n \<noteq> drow_place row"
    and siblings: "\<forall>d \<in> set (filter active_delegation (db_delegations db)). nested d row \<and> nested row d"
    by (auto simp: enforce_namespace_delegation_def nrow_place_def drow_place_def nested_def
        split: option.splits if_splits)
  have "filter active_delegation (db_delegations db @ [row]) = filter active_delegation (db_delegations db) @ [row]"
    using active by simp
  with inv fresh place root collision siblings show ?thesis unfolding ownership_inv_def db'
    by (simp add: distinct_map_append del: map_append distinct_append)
qed

lemma revoke_row_simps [simp]:
  "drow_key (revoke_row t u v e a d) = drow_key d"
  "drow_place (revoke_row t u v e a d) = drow_place d"
  "drow_tenant (revoke_row t u v e a d) = drow_tenant d"
  "drow_namespace (revoke_row t u v e a d) = drow_namespace d"
  "drow_prefix (revoke_row t u v e a d) = drow_prefix d"
  by (simp_all add: revoke_row_def drow_key_def drow_place_def)

lemma active_revoke_row:
  "active_delegation (revoke_row t u v e a d) \<longleftrightarrow> active_delegation d \<and> \<not> delegation_matches t u e d"
  by (simp add: revoke_row_def)

lemma active_after_revoke:
  "filter active_delegation (map (revoke_row t u v e a) ds) =
    filter (\<lambda>d. \<not> delegation_matches t u e d) (filter active_delegation ds)"
  by (induction ds) (auto simp: revoke_row_def)

lemma ownership_inv_revoke:
  assumes inv: "ownership_inv db" and up: "update_delegation t u v e a db = Inr (n, db')"
  shows "ownership_inv db'"
proof -
  from up have db': "db' = db\<lparr>db_delegations := map (revoke_row t u v e a) (db_delegations db)\<rparr>"
    by (auto simp: update_delegation_def Let_def split: if_splits)
  have keys: "map drow_key (map (revoke_row t u v e a) (db_delegations db)) = map drow_key (db_delegations db)"
    by simp
  have upd: "db_delegations db' = map (revoke_row t u v e a) (db_delegations db)"
    and ns: "db_namespaces db' = db_namespaces db" by (simp_all add: db')
  have places: "distinct (map drow_place (filter (\<lambda>d. \<not> delegation_matches t u e d)
      (filter active_delegation (db_delegations db))))"
    using inv unfolding ownership_inv_def by (simp only: distinct_map_filter)
  have below: "\<forall>d \<in> set (map (revoke_row t u v e a) (db_delegations db)). \<exists>n \<in> set (db_namespaces db).
      nrow_key n = (drow_tenant d, drow_namespace d) \<and> like_child (nrow_path n) (drow_prefix d)"
    using inv unfolding ownership_inv_def by simp
  show ?thesis
    using inv places below unfolding ownership_inv_def upd ns keys active_after_revoke
    by (simp only: set_filter mem_Collect_eq) blast
qed

text \<open>The invariant is kept by every operation of the repository, whatever the environment does.\<close>

lemma ownership_inv_cong:
  "db_namespaces db' = db_namespaces db \<Longrightarrow> db_delegations db' = db_delegations db \<Longrightarrow>
    ownership_inv db' = ownership_inv db"
  by (simp only: ownership_inv_def)

lemma audit_ownership_inv:
  "Audit_Record env ctx ps w = (Inr u, w') \<Longrightarrow> ownership_inv (w_db w') = ownership_inv (w_db w)"
  by (drule Audit_Record_Inr, rule ownership_inv_cong) auto

lemma state_insert_ownership_inv:
  "insert_delegation_state row db = Inr (u, db') \<Longrightarrow> ownership_inv db' = ownership_inv db"
  by (rule ownership_inv_cong) (auto simp: insert_delegation_state_def split: if_splits)

lemma ownership_inv_Create:
  assumes inv: "ownership_inv (w_db w)"
    and run: "NamespaceRepository_Create env ctx n w = (Inr u, w')"
  shows "ownership_inv (w_db w')"
proof -
  from repository_tx_Inr [OF balanced_namespace_create run [unfolded NamespaceRepository_Create_def]]
  obtain w1 w2 w3 where w1: "w_db w1 = w_db w" and w': "w_db w' = w_db w2"
    and i: "io_exec env namespace_create_error (insert_namespace (namespace_row env n)) w1 = (Inr (), w3)"
    and a: "Audit_Record env ctx
         (resource_params (ns_tenantID n) ActionNamespaceCreated ''namespace'' (UUID_String (ns_id n))) w3 = (Inr u, w2)"
    by (auto simp: io_bind_Inr)
  from ownership_inv_insert_namespace [OF inv [folded w1] io_exec_Inr [OF i]] audit_ownership_inv [OF a] w'
  show ?thesis by simp
qed

lemma ownership_inv_CreateDelegation:
  assumes inv: "ownership_inv (w_db w)"
    and run: "DelegationRepository_Create env ctx d w = (Inr u, w')"
  shows "ownership_inv (w_db w')"
proof -
  from repository_tx_Inr [OF balanced_publisher_create run [unfolded DelegationRepository_Create_def]]
  obtain w1 w2 w3 w4 where w1: "w_db w1 = w_db w" and w': "w_db w' = w_db w2"
    and i: "io_exec env delegationWriteError (insert_delegation (delegation_row env d)) w1 = (Inr (), w3)"
    and s: "io_exec env (\<lambda>_. namespace_unavailable)
         (insert_delegation_state (active_state_row env d)) w3 = (Inr (), w4)"
    and a: "Audit_Record env ctx
         (resource_params (del_tenantID d) ActionNamespaceDelegated ''namespace_delegation''
           (UUID_String (del_id d))) w4 = (Inr u, w2)"
    by (auto simp: io_bind_Inr)
  have "active_delegation (delegation_row env d)" by (simp add: delegation_row_def)
  from ownership_inv_insert_delegation [OF inv [folded w1] io_exec_Inr [OF i] this]
    state_insert_ownership_inv [OF io_exec_Inr [OF s]] audit_ownership_inv [OF a] w'
  show ?thesis by simp
qed

lemma DelegationRepository_Revoke_Inr:
  assumes "DelegationRepository_Revoke env ctx t u v reason explanation at w = (Inr d, w')"
  shows "\<exists>current row rs db1 db2 fact.
    delegationSelect t u (w_db w) = row # rs \<and> scanDelegation row = Inr current \<and>
    del_version current = v \<and> Delegation_Revoke current reason explanation at = Inr d \<and>
    insert_delegation_state (revoked_state_row env t u (del_childPrefix current) (del_version d) reason explanation at)
      (w_db w) = Inr ((), db1) \<and>
    update_delegation t u (del_version d) v (env_store_time env at) db1 = Inr (1, db2) \<and>
    w_db w' = db2\<lparr>db_audit := db_audit db2 @ [fact]\<rparr>"
proof -
  let ?q = "query_one env delegation_not_found namespace_unavailable scanDelegation (delegationSelect t u)"
  let ?audit = "Audit_Record env ctx (decision_params t ActionNamespaceDelegationRevoked ''namespace_delegation''
               (UUID_String u) (decision_code ''revoked'') [reason])"
  let ?writes = "\<lambda>current updated. io_bind (io_exec env (\<lambda>_. namespace_unavailable)
           (insert_delegation_state (revoked_state_row env t u (del_childPrefix current)
             (del_version updated) reason explanation at))) (\<lambda>_.
         io_bind (io_exec env (\<lambda>_. namespace_unavailable)
           (update_delegation t u (del_version updated) v (env_store_time env at))) (\<lambda>affected.
         if affected \<noteq> 1 then io_fail stale_delegation else io_bind ?audit (\<lambda>_. io_return updated)))"
  let ?body = "io_bind ?q (\<lambda>current. if del_version current \<noteq> v then io_fail stale_delegation
       else case Delegation_Revoke current reason explanation at of
         Inl _ \<Rightarrow> io_fail (typed_repo ErrorConflict ''namespace.invalid_delegation_transition'')
       | Inr updated \<Rightarrow> ?writes current updated)"
  have balanced: "balanced ?body"
    by (auto intro!: balanced_bind reads_balanced [OF reads_query_one] simp: io_laws split: sum.splits)
  from assms have "repository_tx env ctx t namespace_invalid_tenant namespace_unavailable ?body w = (Inr d, w')"
    unfolding DelegationRepository_Revoke_def io_guard_Inr by blast
  from repository_tx_Inr [OF balanced this] obtain w1 w2
    where w1: "w_db w1 = w_db w" and w': "w_db w' = w_db w2" and run: "?body w1 = (Inr d, w2)" by blast
  from run obtain current w3 where q: "?q w1 = (Inr current, w3)" and version: "del_version current = v"
    and tr: "Delegation_Revoke current reason explanation at = Inr d"
    and writes: "?writes current d w3 = (Inr d, w2)"
    by (auto simp: io_bind_Inr [of ?q] io_fail_def io_return_def io_bind_Inr split: if_splits sum.splits)
  from query_one_Inr [OF q] w1 obtain row rs where w3: "w_db w3 = w_db w"
    and sel: "delegationSelect t u (w_db w) = row # rs" "scanDelegation row = Inr current" by auto
  from writes obtain w4 w5 w6 where
    i: "io_exec env (\<lambda>_. namespace_unavailable) (insert_delegation_state (revoked_state_row env t u
       (del_childPrefix current) (del_version d) reason explanation at)) w3 = (Inr (), w4)"
    and up: "io_exec env (\<lambda>_. namespace_unavailable)
       (update_delegation t u (del_version d) v (env_store_time env at)) w4 = (Inr 1, w5)"
    and a: "?audit w5 = (Inr (), w6)" and w2: "w2 = w6"
    by (auto simp: io_bind_Inr io_fail_def io_return_def split: if_splits)
  from Audit_Record_Inr [OF a] obtain fact where
    "w_db w6 = (w_db w5)\<lparr>db_audit := db_audit (w_db w5) @ [fact]\<rparr>" by blast
  with sel version tr io_exec_Inr [OF i] io_exec_Inr [OF up] show ?thesis
    unfolding w' w2 w3 by blast
qed

lemma ownership_inv_RevokeDelegation:
  assumes inv: "ownership_inv (w_db w)"
    and run: "DelegationRepository_Revoke env ctx t u v reason explanation at w = (Inr d, w')"
  shows "ownership_inv (w_db w')"
proof -
  from DelegationRepository_Revoke_Inr [OF run] obtain row db1 v' a db2 fact
    where s: "insert_delegation_state row (w_db w) = Inr ((), db1)"
      and up: "update_delegation t u v' v a db1 = Inr (1, db2)"
      and w': "w_db w' = db2\<lparr>db_audit := db_audit db2 @ [fact]\<rparr>" by blast
  from state_insert_ownership_inv [OF s] inv have "ownership_inv db1" by simp
  then have "ownership_inv db2" using up by (rule ownership_inv_revoke)
  moreover have "ownership_inv (w_db w') = ownership_inv db2"
    by (rule ownership_inv_cong) (simp_all add: w')
  ultimately show ?thesis by simp
qed

subsection \<open>Resolution of the controlling Publisher\<close>

text \<open>For valid paths the cover relation is the prefix order of \<open>namespace.IsStrictDescendant\<close>.\<close>

lemma covers_IsStrictDescendant:
  "ValidatePath a \<Longrightarrow> ValidatePath path \<Longrightarrow> covers a path \<longleftrightarrow> a = path \<or> IsStrictDescendant a path"
  by (auto simp: covers_def like_child_def IsStrictDescendant_def)

lemma covers_prefix: "covers a path \<Longrightarrow> prefix a path"
  unfolding covers_def like_child_def using append_prefixD by blast

lemma covers_same_length: "covers a path \<Longrightarrow> covers b path \<Longrightarrow> length a = length b \<Longrightarrow> a = b"
  using prefix_length_prefix [of a path b] prefix_length_prefix [of b path a]
  by (metis covers_prefix order_refl prefix_order.antisym)

lemma mem_current_states:
  "s \<in> set (current_states t u db) \<longleftrightarrow>
    (\<exists>p \<in> set (db_publishers db). \<exists>r \<in> set (db_publisher_states db).
      prow_key p = (t, u) \<and> state_of_publisher p r \<and> s = psrow_state r)"
  by (force simp: current_states_def publisher_rows_def publisherSelect_def prow_key_def)

lemma distinct_map_eq: "distinct (map f xs) \<Longrightarrow> x \<in> set xs \<Longrightarrow> y \<in> set xs \<Longrightarrow> f x = f y \<Longrightarrow> x = y"
  by (simp add: distinct_map inj_on_def)

lemma current_states_unique:
  assumes inv: "publisher_tables_inv db"
    and "s \<in> set (current_states t u db)" and "s' \<in> set (current_states t u db)"
  shows "s = s'"
proof -
  from assms(2,3) obtain p p' r r' where
    p: "p \<in> set (db_publishers db)" "prow_key p = (t, u)" "r \<in> set (db_publisher_states db)"
      "state_of_publisher p r" "s = psrow_state r"
    and p': "p' \<in> set (db_publishers db)" "prow_key p' = (t, u)" "r' \<in> set (db_publisher_states db)"
      "state_of_publisher p' r'" "s' = psrow_state r'"
    by (auto simp: mem_current_states)
  from inv have d1: "distinct (map prow_key (db_publishers db))"
    and d2: "distinct (map (\<lambda>s. (psrow_key s, psrow_version s)) (db_publisher_states db))"
    unfolding publisher_tables_inv_def by blast+
  have "p = p'" using distinct_map_eq [OF d1 p(1) p'(1)] p(2) p'(2) by simp
  with p p' have "r = r'" using distinct_map_eq [OF d2 p(3) p'(3)] by (simp add: state_of_publisher_iff)
  with p p' show ?thesis by simp
qed

lemma mem_candidates:
  "(q, u, s) \<in> set (candidates t path db) \<longleftrightarrow>
    covers q path \<and> s \<in> set (current_states t u db) \<and>
    ((\<exists>n \<in> set (db_namespaces db). nrow_place n = (t, q) \<and> nrow_owner n = u) \<or>
     (\<exists>d \<in> set (filter active_delegation (db_delegations db)). drow_place d = (t, q) \<and> drow_publisher d = u))"
  by (auto simp: candidates_def nrow_place_def drow_place_def)

text \<open>Two candidates of one path with prefixes of one length are the same candidate.\<close>

lemma candidates_unique:
  assumes inv: "publisher_tables_inv db" "ownership_inv db"
    and c: "(q, u, s) \<in> set (candidates t path db)" and c': "(q', u', s') \<in> set (candidates t path db)"
    and len: "length q = length q'"
  shows "q = q' \<and> u = u' \<and> s = s'"
proof -
  from c c' len have q: "q = q'" using covers_same_length by (auto simp: mem_candidates)
  let ?N = "db_namespaces db" and ?D = "filter active_delegation (db_delegations db)"
  from inv(2) have d1: "distinct (map nrow_place ?N)" and d2: "distinct (map drow_place ?D)"
    and cross: "\<forall>n \<in> set ?N. \<forall>d \<in> set ?D. nrow_place n \<noteq> drow_place d"
    unfolding ownership_inv_def by blast+
  from c obtain who where who: "(\<exists>n \<in> set ?N. nrow_place n = (t, q) \<and> nrow_owner n = u \<and> who = Inl n) \<or>
     (\<exists>d \<in> set ?D. drow_place d = (t, q) \<and> drow_publisher d = u \<and> who = Inr d)"
    unfolding mem_candidates by blast
  from c' obtain who' where who': "(\<exists>n \<in> set ?N. nrow_place n = (t, q) \<and> nrow_owner n = u' \<and> who' = Inl n) \<or>
     (\<exists>d \<in> set ?D. drow_place d = (t, q) \<and> drow_publisher d = u' \<and> who' = Inr d)"
    unfolding mem_candidates q by blast
  have "who = who'"
    using who who' distinct_map_eq [OF d1] distinct_map_eq [OF d2] cross by (elim disjE bexE) (metis, metis, metis, metis)
  with who who' have "u = u'" by auto
  moreover from c c' \<open>u = u'\<close> inv(1) have "s = s'"
    using current_states_unique by (auto simp: mem_candidates)
  ultimately show ?thesis using q by simp
qed

lemma sort_key_hd_max:
  fixes xs :: "(string \<times> 'a) list"
  assumes "sort_key (\<lambda>c. - int (length (fst c))) xs = y # ys"
  shows "y \<in> set xs \<and> (\<forall>x \<in> set xs. length (fst x) \<le> length (fst y))"
proof -
  let ?f = "\<lambda>c :: string \<times> 'a. - int (length (fst c))"
  have set: "set xs = insert y (set ys)" using assms set_sort [of ?f xs] by simp
  have "sorted (map ?f (y # ys))" using assms sorted_sort_key [of ?f xs] by simp
  then have "\<forall>x \<in> set ys. length (fst x) \<le> length (fst y)" by simp
  with set show ?thesis by auto
qed

text \<open>The controlling grant of a path: the longest one that covers it.\<close>

definition controls :: "DB \<Rightarrow> UUID \<Rightarrow> string \<Rightarrow> string \<Rightarrow> UUID \<Rightarrow> string \<Rightarrow> bool" where
  "controls db t path q u s \<longleftrightarrow>
    (q, u, s) \<in> set (candidates t path db) \<and>
    (\<forall>c \<in> set (candidates t path db). c = (q, u, s) \<or> length (fst c) < length q)"

lemma controls_unique:
  assumes "controls db t path q u s" and "controls db t path q' u' s'"
  shows "q = q' \<and> u = u' \<and> s = s'"
proof -
  from assms have mem: "(q, u, s) \<in> set (candidates t path db)" "(q', u', s') \<in> set (candidates t path db)"
    and all: "\<forall>c \<in> set (candidates t path db). c = (q, u, s) \<or> length (fst c) < length q"
      "\<forall>c \<in> set (candidates t path db). c = (q', u', s') \<or> length (fst c) < length q'"
    by (simp_all add: controls_def)
  from bspec [OF all(1) mem(2)] bspec [OF all(2) mem(1)] show ?thesis by auto
qed

lemma longest_controls:
  assumes inv: "publisher_tables_inv db" "ownership_inv db"
    and mem: "(q, u, s) \<in> set (candidates t path db)"
    and longest: "\<And>c. c \<in> set (candidates t path db) \<Longrightarrow> length (fst c) \<le> length q"
  shows "controls db t path q u s"
proof -
  have "c = (q, u, s) \<or> length (fst c) < length q" if c: "c \<in> set (candidates t path db)" for c
  proof (cases c)
    case (fields q' u' s')
    from longest [OF c] fields have "length q' \<le> length q" by simp
    moreover have "(q', u', s') = (q, u, s)" if "length q' = length q"
      using candidates_unique [OF inv c [unfolded fields] mem that] by simp
    ultimately show ?thesis by (auto simp: fields le_less)
  qed
  with mem show ?thesis by (simp add: controls_def)
qed

lemma controlling_controls:
  assumes inv: "publisher_tables_inv db" "ownership_inv db"
  shows "(u, s) \<in> set (controlling t path db) \<longleftrightarrow> (\<exists>q. controls db t path q u s)"
proof (cases "sort_key (\<lambda>c. - int (length (fst c))) (candidates t path db)")
  case Nil
  have "candidates t path db = []" using arg_cong [OF Nil, of length] by simp
  then show ?thesis by (simp add: controlling_def controls_def)
next
  case (Cons y ys)
  obtain q0 u0 s0 where y: "y = (q0, u0, s0)" by (cases y)
  have lists: "controlling t path db = [(u0, s0)]" by (simp add: controlling_def Cons y)
  from sort_key_hd_max [OF Cons] have mem: "(q0, u0, s0) \<in> set (candidates t path db)"
    and longest: "\<And>c. c \<in> set (candidates t path db) \<Longrightarrow> length (fst c) \<le> length q0"
    by (simp_all add: y)
  note top = longest_controls [OF inv mem longest]
  show ?thesis
  proof
    assume "(u, s) \<in> set (controlling t path db)"
    with top show "\<exists>q. controls db t path q u s" unfolding lists by simp blast
  next
    assume "\<exists>q. controls db t path q u s"
    then obtain q where "controls db t path q u s" ..
    from controls_unique [OF top this] show "(u, s) \<in> set (controlling t path db)"
      unfolding lists by simp
  qed
qed

lemma ResolveOwner_Inr:
  assumes inv: "publisher_tables_inv (w_db w)" "ownership_inv (w_db w)"
    and run: "DelegationRepository_ResolveOwner env ctx t path w = (Inr u, w')"
  shows "ValidatePath path \<and> (\<exists>q. controls (w_db w) t path q u ''verified'')"
proof -
  let ?q = "query_one env not_authorized namespace_unavailable (\<lambda>owner. Inr owner :: (unit, UUID) result)
           (resolve_query t path)"
  from run have valid: "ValidatePath path"
    and "io_bind (repository_tx env ctx t namespace_invalid_tenant namespace_unavailable ?q)
       (\<lambda>owner. io_lift namespace_unavailable (ParseUUID (UUID_String owner))) w = (Inr u, w')"
    unfolding DelegationRepository_ResolveOwner_def io_guard_Inr by simp_all
  then obtain owner w1 where tx: "repository_tx env ctx t namespace_invalid_tenant namespace_unavailable ?q w = (Inr owner, w1)"
    and "ParseUUID (UUID_String owner) = Inr u"
    by (auto simp: io_bind_Inr io_lift_Inr)
  then have u: "u = owner" by (simp add: ParseUUID_iff UUID_String_inject)
  from repository_tx_Inr [OF reads_balanced [OF reads_query_one] tx] obtain w2 w3
    where w2: "w_db w2 = w_db w" and q: "?q w2 = (Inr owner, w3)" by blast
  from query_one_Inr [OF q] w2 u have "u \<in> set (resolve_query t path (w_db w))" by auto
  then have "(u, ''verified'') \<in> set (controlling t path (w_db w))" by (auto simp: resolve_query_def)
  with valid show ?thesis unfolding controlling_controls [OF inv] by blast
qed

end
