(* ===== verification/Idempotency_Repository.thy ===== *)
theory Idempotency_Repository
  imports Audit_Repository
begin

text \<open>
  \<open>internal/adapters/postgres/idempotency\<close>: the idempotency records on the table and trigger of
  \<open>migrations/000012_idempotency_records.sql\<close>.
\<close>

subsection \<open>Statements\<close>

definition idempotency_unavailable :: go_error where
  "idempotency_unavailable = typed_repo ErrorUnavailable ''idempotency.persistence_unavailable''"

definition idempotency_invalid_tenant :: go_error where
  "idempotency_invalid_tenant = typed_repo ErrorInvalid ''idempotency.invalid_tenant''"

definition request_mismatch :: go_error where
  "request_mismatch = typed_repo ErrorConflict ''idempotency.request_mismatch''"

definition result_mismatch :: go_error where
  "result_mismatch = typed_repo ErrorConflict ''idempotency.result_mismatch''"

definition idempotency_not_found :: go_error where
  "idempotency_not_found = typed_repo ErrorNotFound ''idempotency.not_found''"

text \<open>\<open>ownershipWhere\<close>.\<close>

definition owned :: "UUID \<Rightarrow> string \<Rightarrow> string \<Rightarrow> string \<Rightarrow> IdempotencyRow \<Rightarrow> bool" where
  "owned t principalID action key r \<longleftrightarrow>
    irow_tenant r = t \<and> irow_principal r = principalID \<and> irow_action r = action \<and> irow_key r = key"

definition idempotency_row :: "Env \<Rightarrow> IdemRecord \<Rightarrow> IdempotencyRow" where
  "idempotency_row env r =
    \<lparr>irow_tenant = idem_tenantID r, irow_id = idem_id r, irow_principal = idem_principal r,
     irow_action = ReasonCode_String (idem_action r), irow_key = idem_key r,
     irow_digest = Digest_String (idem_digest r), irow_state = ''pending'', irow_status = None,
     irow_resource_type = None, irow_resource_id = None,
     irow_created_at = env_store_time env (idem_createdAt r), irow_completed_at = None,
     irow_expires_at = env_store_time env (idem_expiresAt r)\<rparr>"

text \<open>
  \<open>INSERT ... ON CONFLICT (tenant_id, principal_id, action, idempotency_key) DO NOTHING\<close>, with the
  number of rows inserted.
\<close>

definition insert_idempotency :: "IdempotencyRow \<Rightarrow> DB \<Rightarrow> (sql_error, nat \<times> DB) result" where
  "insert_idempotency row db =
    (if irow_expires_at row < irow_created_at row + MinimumRetention
       then Inl (check_violation ''idempotency_records_check'')
     else if \<exists>r \<in> set (db_idempotency db).
         owned (irow_tenant row) (irow_principal row) (irow_action row) (irow_key row) r
       then Inr (0, db)
     else if \<exists>r \<in> set (db_idempotency db). irow_tenant r = irow_tenant row \<and> irow_id r = irow_id row
       then Inl (unique_violation ''idempotency_records_pkey'')
     else if irow_tenant row \<notin> set (db_tenants db)
       then Inl (foreign_key_violation ''idempotency_records_tenant_id_fkey'')
     else Inr (1, db\<lparr>db_idempotency := db_idempotency db @ [row]\<rparr>))"

definition pending_request :: "UUID \<Rightarrow> string \<Rightarrow> string \<Rightarrow> string \<Rightarrow> string \<Rightarrow> IdempotencyRow \<Rightarrow> bool" where
  "pending_request t principalID action key digest r \<longleftrightarrow>
    owned t principalID action key r \<and> irow_digest r = digest \<and> irow_state r = ''pending''"

text \<open>The \<open>SET\<close> clause of \<open>Complete\<close>.\<close>

definition complete_row :: "nat \<Rightarrow> string option \<Rightarrow> string option \<Rightarrow> Time \<Rightarrow> IdempotencyRow \<Rightarrow> IdempotencyRow" where
  "complete_row status resourceType resourceID completedAt r =
    r\<lparr>irow_state := ''completed'', irow_status := Some status, irow_resource_type := resourceType,
      irow_resource_id := resourceID, irow_completed_at := Some completedAt\<rparr>"

text \<open>
  \<open>UPDATE ... WHERE ... AND state = 'pending' RETURNING\<close> the updated rows, with the check
  \<open>completed_at >= created_at\<close>; the trigger only admits this transition.
\<close>

definition update_idempotency ::
  "(IdempotencyRow \<Rightarrow> bool) \<Rightarrow> (IdempotencyRow \<Rightarrow> IdempotencyRow) \<Rightarrow> DB \<Rightarrow>
    (sql_error, IdempotencyRow list \<times> DB) result" where
  "update_idempotency matched set_row db =
    (let updated = map set_row (filter matched (db_idempotency db)) in
     if \<exists>r \<in> set updated. case irow_completed_at r of None \<Rightarrow> True | Some t \<Rightarrow> t < irow_created_at r
       then Inl (check_violation ''idempotency_records_check'')
     else Inr (updated,
       db\<lparr>db_idempotency := map (\<lambda>r. if matched r then set_row r else r) (db_idempotency db)\<rparr>))"

subsection \<open>Operations\<close>

text \<open>The result columns scanned into \<open>*Result\<close>.\<close>

definition scan_result :: "IdempotencyRow \<Rightarrow> (unit, IdemResult option) result" where
  "scan_result row =
    (case irow_status row of
       None \<Rightarrow> Inr None
     | Some status \<Rightarrow>
       (case NewResult status (coalesce (irow_resource_type row)) (coalesce (irow_resource_id row)) of
          Inl _ \<Rightarrow> Inl () | Inr r \<Rightarrow> Inr (Some r)))"

definition idempotency_scan :: "IdempotencyRow \<Rightarrow> (unit, IdemRecord) result" where
  "idempotency_scan row =
    bindE (scan_uuid (irow_tenant row)) (\<lambda>tenantID.
    bindE (scan_uuid (irow_id row)) (\<lambda>uid.
    bindE (scan_reason (irow_action row)) (\<lambda>action.
    bindE (scan_digest (irow_digest row)) (\<lambda>digest.
    bindE (scan_result row) (\<lambda>res.
    map_error () (Idempotency_Restore tenantID uid (irow_principal row) action (irow_key row) digest
      (irow_state row) res (irow_created_at row) (irow_completed_at row) (irow_expires_at row)))))))"

definition owned_rows :: "UUID \<Rightarrow> string \<Rightarrow> ReasonCode \<Rightarrow> string \<Rightarrow> DB \<Rightarrow> IdempotencyRow list" where
  "owned_rows t principalID action key db =
    filter (owned t principalID (ReasonCode_String action) key) (db_idempotency db)"

definition idempotency_get :: "Env \<Rightarrow> UUID \<Rightarrow> string \<Rightarrow> ReasonCode \<Rightarrow> string \<Rightarrow> IdemRecord io" where
  "idempotency_get env tenantID principalID action key =
    query_one env idempotency_not_found idempotency_unavailable idempotency_scan
      (owned_rows tenantID principalID action key)"

text \<open>In \<open>Acquire\<close> a missing row is an unavailable store: the statement just wrote or found it.\<close>

definition IdempotencyRepository_Acquire :: "Env \<Rightarrow> Ctx \<Rightarrow> IdemRecord \<Rightarrow> (IdemRecord \<times> bool) io" where
  "IdempotencyRepository_Acquire env ctx rc =
    repository_tx env ctx (idem_tenantID rc) idempotency_invalid_tenant idempotency_unavailable
      (io_bind (io_exec env (\<lambda>_. idempotency_unavailable) (insert_idempotency (idempotency_row env rc)))
        (\<lambda>affected.
       io_bind (query_one env idempotency_unavailable idempotency_unavailable idempotency_scan
           (owned_rows (idem_tenantID rc) (idem_principal rc) (idem_action rc) (idem_key rc)))
        (\<lambda>stored.
       if idem_digest stored \<noteq> idem_digest rc then io_fail request_mismatch
       else io_return (stored, affected = 1))))"

definition IdempotencyRepository_Get ::
  "Env \<Rightarrow> Ctx \<Rightarrow> UUID \<Rightarrow> string \<Rightarrow> ReasonCode \<Rightarrow> string \<Rightarrow> IdemRecord io" where
  "IdempotencyRepository_Get env ctx tenantID principalID action key =
    (if \<not> is_ok (ValidateOwnership principalID action key)
       then io_fail (typed_repo ErrorInvalid ''idempotency.invalid_ownership'')
     else repository_tx env ctx tenantID idempotency_invalid_tenant idempotency_unavailable
       (idempotency_get env tenantID principalID action key))"

definition sameResult :: "IdemResult \<Rightarrow> IdemResult \<Rightarrow> bool" where
  "sameResult left right \<longleftrightarrow>
    result_status left = result_status right \<and>
    Result_ResourceType left = Result_ResourceType right \<and> Result_ResourceID left = Result_ResourceID right"

definition IdempotencyRepository_Complete ::
  "Env \<Rightarrow> Ctx \<Rightarrow> UUID \<Rightarrow> string \<Rightarrow> ReasonCode \<Rightarrow> string \<Rightarrow> Digest \<Rightarrow> IdemResult \<Rightarrow> Time \<Rightarrow> IdemRecord io" where
  "IdempotencyRepository_Complete env ctx tenantID principalID action key requestDigest res completedAt =
    (if \<not> is_ok (ValidateOwnership principalID action key) \<or> Digest_String requestDigest = [] \<or>
        time_IsZero completedAt \<or> result_status res < 100
       then io_fail (typed_repo ErrorInvalid ''idempotency.invalid_completion'')
     else repository_tx env ctx tenantID idempotency_invalid_tenant idempotency_unavailable
      (io_bind (io_exec env (\<lambda>_. idempotency_unavailable)
          (update_idempotency
            (pending_request tenantID principalID (ReasonCode_String action) key (Digest_String requestDigest))
            (complete_row (result_status res)
              (map_option ReasonCode_String (Result_ResourceType res))
              (if Result_ResourceType res = None then None else Some (result_resourceID res))
              (env_store_time env completedAt)))) (\<lambda>rows.
       case first_row rows of
         Some row \<Rightarrow> io_lift idempotency_unavailable (idempotency_scan row)
       | None \<Rightarrow>
         io_bind (idempotency_get env tenantID principalID action key) (\<lambda>established.
         if idem_digest established \<noteq> requestDigest then io_fail request_mismatch
         else case idem_result established of
           None \<Rightarrow> io_fail result_mismatch
         | Some r \<Rightarrow> if \<not> sameResult r res then io_fail result_mismatch else io_return established))))"

subsection \<open>Correctness\<close>

lemma reads_idempotency_get [io_laws]: "reads (idempotency_get env t p a k)"
  by (simp add: idempotency_get_def io_laws)

lemma reads_IdempotencyRepository_Get [io_laws]: "reads (IdempotencyRepository_Get env ctx t p a k)"
  by (simp add: IdempotencyRepository_Get_def repository_tx_reads io_laws)

lemma atomic_io_fail [io_laws]: "atomic (io_fail e)"
  by (intro reads_atomic io_laws)

lemma atomic_IdempotencyRepository_Acquire [io_laws]: "atomic (IdempotencyRepository_Acquire env ctx rc)"
  unfolding IdempotencyRepository_Acquire_def
  by (auto intro!: repository_tx_atomic balanced_bind reads_balanced [OF reads_query_one] simp: io_laws)

lemma balanced_established:
  "balanced (io_bind (idempotency_get env t p a k) (\<lambda>established.
         if idem_digest established \<noteq> d then io_fail e1
         else case idem_result established of
           None \<Rightarrow> io_fail e2
         | Some r \<Rightarrow> if \<not> sameResult r res then io_fail e3 else io_return established))"
  by (auto intro!: balanced_bind reads_balanced [OF reads_idempotency_get] simp: io_laws
      split: option.splits)

lemma atomic_IdempotencyRepository_Complete [io_laws]:
  "atomic (IdempotencyRepository_Complete env ctx t p a k d r c)"
  unfolding IdempotencyRepository_Complete_def
  by (auto intro!: atomic_io_fail repository_tx_atomic balanced_bind balanced_exec balanced_lift
      balanced_established split: option.splits)

text \<open>The record a caller's key is bound to.\<close>

definition idem_store :: "DB \<Rightarrow> UUID \<Rightarrow> string \<Rightarrow> ReasonCode \<Rightarrow> string \<Rightarrow> IdemRecord option" where
  "idem_store db t principalID action key =
    (case owned_rows t principalID action key db of
       [] \<Rightarrow> None
     | row # _ \<Rightarrow> (case idempotency_scan row of Inl _ \<Rightarrow> None | Inr r \<Rightarrow> Some r))"

definition idempotency_inv :: "DB \<Rightarrow> bool" where
  "idempotency_inv db \<longleftrightarrow>
    distinct (map (\<lambda>r. (irow_tenant r, irow_principal r, irow_action r, irow_key r)) (db_idempotency db))"

lemma idempotency_inv_empty: "idempotency_inv empty_DB"
  by (simp add: idempotency_inv_def empty_DB_def)

lemma distinct_filter_le_1:
  "distinct (map f xs) \<Longrightarrow> filter (\<lambda>x. f x = k) xs = [] \<or> (\<exists>x. filter (\<lambda>x. f x = k) xs = [x])"
proof (induction xs)
  case (Cons x xs)
  show ?case
  proof (cases "f x = k")
    case True
    with Cons.prems have "filter (\<lambda>x. f x = k) xs = []"
      by (auto simp: filter_empty_conv) (metis imageI)
    with True show ?thesis by simp
  qed (use Cons in auto)
qed simp

lemma owned_rows_unique:
  "idempotency_inv db \<Longrightarrow> owned_rows t p a k db = [] \<or> (\<exists>r. owned_rows t p a k db = [r])"
  using distinct_filter_le_1 [of "\<lambda>r. (irow_tenant r, irow_principal r, irow_action r, irow_key r)"
      "db_idempotency db" "(t, p, ReasonCode_String a, k)"]
  by (simp add: idempotency_inv_def owned_rows_def owned_def [abs_def])

text \<open>
  \<open>Acquire\<close> either claims a free key, and then the key is bound to the pending record, or returns
  the record the key is bound to without changing anything; in both cases for the same request.
\<close>

lemma IdempotencyRepository_Acquire_Inr:
  assumes "IdempotencyRepository_Acquire env ctx rc w = (Inr (stored, created), w')"
  shows "idem_digest stored = idem_digest rc \<and>
    idem_store (w_db w') (idem_tenantID rc) (idem_principal rc) (idem_action rc) (idem_key rc) = Some stored \<and>
    (if created then
       owned_rows (idem_tenantID rc) (idem_principal rc) (idem_action rc) (idem_key rc) (w_db w) = [] \<and>
       w_db w' = (w_db w)\<lparr>db_idempotency := db_idempotency (w_db w) @ [idempotency_row env rc]\<rparr>
     else w_db w' = w_db w)"
proof -
  let ?q = "query_one env idempotency_unavailable idempotency_unavailable idempotency_scan
           (owned_rows (idem_tenantID rc) (idem_principal rc) (idem_action rc) (idem_key rc))"
  let ?i = "io_exec env (\<lambda>_. idempotency_unavailable) (insert_idempotency (idempotency_row env rc))"
  have balanced: "balanced (io_bind ?i (\<lambda>affected. io_bind ?q (\<lambda>stored.
       if idem_digest stored \<noteq> idem_digest rc then io_fail request_mismatch
       else io_return (stored, affected = (1::nat)))))"
    by (auto intro!: balanced_bind reads_balanced [OF reads_query_one] simp: io_laws)
  from repository_tx_Inr [OF balanced assms [unfolded IdempotencyRepository_Acquire_def]]
  obtain w1 w2 w3 w4 affected where w1: "w_db w1 = w_db w" and w': "w_db w' = w_db w2"
    and i: "?i w1 = (Inr affected, w3)" and q: "?q w3 = (Inr stored, w4)"
    and same: "idem_digest stored = idem_digest rc" and c: "created = (affected = 1)" and w2: "w2 = w4"
    by (auto simp: io_bind_Inr io_fail_def io_return_def split: if_splits)
  from query_one_Inr [OF q] have w4: "w_db w4 = w_db w3"
    and store: "idem_store (w_db w3) (idem_tenantID rc) (idem_principal rc) (idem_action rc) (idem_key rc) = Some stored"
    by (auto simp: idem_store_def)
  from io_exec_Inr [OF i] w1 have "if affected = 1 then
       owned_rows (idem_tenantID rc) (idem_principal rc) (idem_action rc) (idem_key rc) (w_db w) = [] \<and>
       w_db w3 = (w_db w)\<lparr>db_idempotency := db_idempotency (w_db w) @ [idempotency_row env rc]\<rparr>
     else w_db w3 = w_db w"
    by (auto simp: insert_idempotency_def idempotency_row_def owned_rows_def filter_empty_conv split: if_splits)
  with same store c show ?thesis unfolding w' w2 w4 by simp
qed

lemma idempotency_inv_Acquire:
  assumes "idempotency_inv (w_db w)"
    and "IdempotencyRepository_Acquire env ctx rc w = (Inr (stored, created), w')"
  shows "idempotency_inv (w_db w')"
  using IdempotencyRepository_Acquire_Inr [OF assms(2)] assms(1)
  by (cases created)
    (auto simp: idempotency_inv_def owned_rows_def filter_empty_conv owned_def idempotency_row_def)

subsection \<open>Completion\<close>

lemma complete_row_ownership [simp]:
  "owned t p a k (complete_row st ty rid c r) = owned t p a k r"
  by (simp add: owned_def complete_row_def)

lemma idempotency_scan_Inr:
  "idempotency_scan row = Inr r \<longleftrightarrow>
    (\<exists>action digest res. NewReasonCode (irow_action row) = Inr action \<and> wf_digest digest \<and>
      irow_digest row = Digest_String digest \<and> scan_result row = Inr res \<and>
      valid_uuid (irow_tenant row) \<and> valid_uuid (irow_id row) \<and> wf_idem r \<and>
      r = \<lparr>idem_tenantID = irow_tenant row, idem_id = irow_id row, idem_principal = irow_principal row,
           idem_action = action, idem_key = irow_key row, idem_digest = digest, idem_state = irow_state row,
           idem_result = res, idem_createdAt = irow_created_at row, idem_completedAt = irow_completed_at row,
           idem_expiresAt = irow_expires_at row\<rparr>)"
  by (auto simp: idempotency_scan_def bindE_Inr_iff scan_uuid_valid scan_reason_Inr scan_digest_Inr
      Idempotency_Restore_Inr)

lemma scan_result_wf: "scan_result row = Inr (Some r) \<Longrightarrow> wf_result r"
  by (auto simp: scan_result_def NewResult_Inr split: option.splits sum.splits)

lemma IdemResult_eq:
  "wf_result r \<Longrightarrow> wf_result q \<Longrightarrow> sameResult r q \<longleftrightarrow> r = q"
  by (cases r; cases q; cases "result_resourceType r"; cases "result_resourceType q")
    (auto simp: sameResult_def wf_result_def Result_ResourceType_def Result_ResourceID_def split: if_splits)

lemma scan_result_complete_row:
  assumes "wf_result res"
  shows "scan_result (complete_row (result_status res) (map_option ReasonCode_String (Result_ResourceType res))
      (if Result_ResourceType res = None then None else Some (result_resourceID res)) c row) = Inr (Some res)"
proof -
  have "NewResult (result_status res) (ReasonCode_String (result_resourceType res)) (result_resourceID res) = Inr res"
    using assms by (simp add: NewResult_Inr)
  moreover have "result_resourceID res = []" if "ReasonCode_String (result_resourceType res) = []"
    using assms that by (auto simp: wf_result_def)
  ultimately show ?thesis
    by (auto simp: scan_result_def complete_row_def Result_ResourceType_def coalesce_def)
qed

lemma idem_store_frame:
  assumes "\<And>r. r \<in> set rows \<Longrightarrow> m r \<Longrightarrow> \<not> owned t p (ReasonCode_String a) k r"
    and "\<And>r. owned t p (ReasonCode_String a) k (f r) = owned t p (ReasonCode_String a) k r"
  shows "filter (owned t p (ReasonCode_String a) k) (map (\<lambda>r. if m r then f r else r) rows) =
    filter (owned t p (ReasonCode_String a) k) rows"
  using assms(1) by (induction rows) (auto simp: assms(2))

text \<open>
  \<open>Complete\<close> binds the key to the given result, and returns an error when the key already has
  another one or belongs to another request.
\<close>

lemma IdempotencyRepository_Complete_Inr:
  assumes inv: "idempotency_inv (w_db w)" and res: "wf_result res"
    and run: "IdempotencyRepository_Complete env ctx t p a k d res c w = (Inr r, w')"
  shows "idem_store (w_db w') t p a k = Some r \<and> idem_digest r = d \<and> idem_result r = Some res \<and>
    idem_state r = StateCompleted \<and> idempotency_inv (w_db w') \<and>
    (\<exists>rows. w_db w' = (w_db w)\<lparr>db_idempotency := rows\<rparr>) \<and>
    (\<forall>t' p' a' k'. (t', p', ReasonCode_String a', k') \<noteq> (t, p, ReasonCode_String a, k) \<longrightarrow>
      idem_store (w_db w') t' p' a' k' = idem_store (w_db w) t' p' a' k')"
proof -
  let ?m = "pending_request t p (ReasonCode_String a) k (Digest_String d)"
  let ?f = "complete_row (result_status res) (map_option ReasonCode_String (Result_ResourceType res))
      (if Result_ResourceType res = None then None else Some (result_resourceID res)) (env_store_time env c)"
  let ?u = "io_exec env (\<lambda>_. idempotency_unavailable) (update_idempotency ?m ?f)"
  let ?est = "io_bind (idempotency_get env t p a k) (\<lambda>established.
         if idem_digest established \<noteq> d then io_fail request_mismatch
         else case idem_result established of
           None \<Rightarrow> io_fail result_mismatch
         | Some r \<Rightarrow> if \<not> sameResult r res then io_fail result_mismatch else io_return established)"
  let ?body = "io_bind ?u (\<lambda>rows. case first_row rows of
         Some row \<Rightarrow> io_lift idempotency_unavailable (idempotency_scan row) | None \<Rightarrow> ?est)"
  have balanced: "balanced ?body"
    by (auto intro!: balanced_bind balanced_exec balanced_lift balanced_established split: option.splits)
  from run have tx: "repository_tx env ctx t idempotency_invalid_tenant idempotency_unavailable ?body w = (Inr r, w')"
    and nonzero: "Digest_String d \<noteq> []"
    unfolding IdempotencyRepository_Complete_def io_guard_Inr by blast+
  from nonzero have wf_d: "wf_digest d"
    by (auto simp: Digest_String_def wf_digest_def split: if_splits)
  from repository_tx_Inr [OF balanced tx] obtain w1 w2
    where w1: "w_db w1 = w_db w" and w': "w_db w' = w_db w2" and body: "?body w1 = (Inr r, w2)" by blast
  from body obtain rows w3 where u: "?u w1 = (Inr rows, w3)"
    and rest: "(case first_row rows of
         Some row \<Rightarrow> io_lift idempotency_unavailable (idempotency_scan row) | None \<Rightarrow> ?est) w3 = (Inr r, w2)"
    by (auto simp: io_bind_Inr [of ?u])
  let ?rows = "map (\<lambda>r. if ?m r then ?f r else r) (db_idempotency (w_db w))"
  from io_exec_Inr [OF u] w1 have updated: "rows = map ?f (filter ?m (db_idempotency (w_db w)))"
    and db3: "w_db w3 = (w_db w)\<lparr>db_idempotency := ?rows\<rparr>"
    by (auto simp: update_idempotency_def Let_def split: if_splits)
  have upd: "db_idempotency ((w_db w)\<lparr>db_idempotency := X\<rparr>) = X" for X by simp
  have db2: "w_db w2 = w_db w3"
  proof (cases "first_row rows")
    case None
    with rest show ?thesis
      by (auto simp: io_bind_Inr io_fail_def io_return_def split: if_splits option.splits
          dest: readsD [OF reads_idempotency_get])
  qed (use rest in \<open>auto simp: io_lift_Inr\<close>)
  have inv': "idempotency_inv (w_db w')"
  proof -
    have keys: "map (\<lambda>r. (irow_tenant r, irow_principal r, irow_action r, irow_key r)) ?rows =
        map (\<lambda>r. (irow_tenant r, irow_principal r, irow_action r, irow_key r)) (db_idempotency (w_db w))"
      by (simp add: complete_row_def)
    show ?thesis using inv unfolding idempotency_inv_def w' db2 db3 upd keys .
  qed
  have other: "idem_store (w_db w') t' p' a' k' = idem_store (w_db w) t' p' a' k'"
    if "(t', p', ReasonCode_String a', k') \<noteq> (t, p, ReasonCode_String a, k)" for t' p' a' k'
  proof -
    have "owned_rows t' p' a' k' (w_db w') = owned_rows t' p' a' k' (w_db w)"
      unfolding w' db2 db3 owned_rows_def using that
      by (simp only: upd) (rule idem_store_frame, auto simp: pending_request_def owned_def complete_row_def)
    then show ?thesis by (simp add: idem_store_def)
  qed
  have own: "idem_store (w_db w') t p a k = Some r \<and> idem_digest r = d \<and> idem_result r = Some res \<and>
      idem_state r = StateCompleted"
  proof (cases "filter ?m (db_idempotency (w_db w))")
    case Nil
    with updated rest have est: "?est w3 = (Inr r, w2)" by (simp add: first_row_def)
    then obtain q where get: "idempotency_get env t p a k w3 = (Inr r, w2)" and d: "idem_digest r = d"
      and q: "idem_result r = Some q" "sameResult q res"
      by (auto simp: io_bind_Inr io_fail_def io_return_def split: if_splits option.splits)
    from query_one_Inr [OF get [unfolded idempotency_get_def]] obtain row rs
      where row: "owned_rows t p a k (w_db w3) = row # rs" "idempotency_scan row = Inr r" by blast
    then have "wf_result q" using q(1) by (auto simp: idempotency_scan_Inr dest: scan_result_wf)
    with res q have "idem_result r = Some res" by (simp add: IdemResult_eq)
    moreover from row q have "idem_state r = StateCompleted"
      by (auto simp: idempotency_scan_Inr wf_idem_def)
    moreover from row have "idem_store (w_db w') t p a k = Some r"
      by (simp add: idem_store_def w' db2)
    ultimately show ?thesis using d by blast
  next
    case (Cons row more_rows)
    from Cons have "row \<in> set (filter ?m (db_idempotency (w_db w)))" by simp
    then have row: "row \<in> set (db_idempotency (w_db w))" "?m row" by auto
    then have "row \<in> set (owned_rows t p a k (w_db w))" by (simp add: owned_rows_def pending_request_def)
    with owned_rows_unique [OF inv, of t p a k] have one: "owned_rows t p a k (w_db w) = [row]" by auto
    have same: "owned t p (ReasonCode_String a) k \<circ> (\<lambda>r. if ?m r then ?f r else r) = owned t p (ReasonCode_String a) k"
      by (auto simp: fun_eq_iff)
    have rows3: "owned_rows t p a k (w_db w3) = [?f row]"
      unfolding db3 owned_rows_def upd filter_map same using one row by (simp add: owned_rows_def)
    from updated Cons rest have scan: "idempotency_scan (?f row) = Inr r"
      by (simp add: first_row_def io_lift_Inr)
    then have "idem_store (w_db w') t p a k = Some r"
      by (simp add: idem_store_def w' db2 rows3)
    moreover from scan have "idem_result r = Some res"
      unfolding idempotency_scan_Inr scan_result_complete_row [OF res] by auto
    moreover from scan have "idem_state r = StateCompleted"
      by (auto simp: idempotency_scan_Inr complete_row_def)
    moreover from scan row have "Digest_String (idem_digest r) = Digest_String d" "wf_digest (idem_digest r)"
      by (auto simp: idempotency_scan_Inr pending_request_def) (simp_all add: complete_row_def)
    ultimately show ?thesis using wf_d by (simp add: Digest_String_inject)
  qed
  show ?thesis using own inv' other by (auto simp: w' db2 db3)
qed

end
