(* ===== verification/Sample_Store.thy ===== *)
theory Sample_Store
  imports Samples Namespace_Repository Idempotency_Repository
begin

text \<open>
  A concrete store and environment at which the properties of the repositories are applied: one
  tenant with a verified and a claimed Publisher, a root namespace of the first and an active
  delegation of a part of it to the second, and a driver without faults.
\<close>

definition sample_env :: Env where
  "sample_env = \<lparr>env_fault = (\<lambda>_. None), env_store_time = (\<lambda>t. t - t mod 1000),
     env_uuidv7 = (\<lambda>n. sample_uuid (100 + n)), env_timestamp = (\<lambda>_. sample_time),
     env_clock = (\<lambda>_. sample_time), env_identifier = (\<lambda>n. Some (sample_uuid (200 + n))),
     env_add_days = (\<lambda>n t. t + n * 86400000000000), env_space = (\<lambda>_. False),
     env_ilike = (\<lambda>pattern text. pattern = ''%'' @ text @ ''%'')\<rparr>"

lemma sample_env_simps [simp]:
  "env_fault sample_env n = None" "env_store_time sample_env t = t - t mod 1000"
  "env_uuidv7 sample_env n = sample_uuid (100 + n)" "env_timestamp sample_env n = sample_time"
  "env_clock sample_env n = sample_time" "env_identifier sample_env n = Some (sample_uuid (200 + n))"
  "env_add_days sample_env d t = t + d * 86400000000000" "env_space sample_env r = False"
  by (simp_all add: sample_env_def)

definition sample_ctx :: Ctx where
  "sample_ctx = \<lparr>ctx_tx = None, ctx_actor = Some sample_actor\<rparr>"

lemma sample_ctx_simps [simp]:
  "ctx_tx sample_ctx = None" "ctx_actor sample_ctx = Some sample_actor"
  "ActorFromContext (Some sample_actor) = Some sample_actor"
  by (simp_all add: sample_ctx_def ActorFromContext_def sample_actor_def)

definition sample_publisher :: Publisher where
  "sample_publisher = \<lparr>pub_tenantID = sample_uuid 9, pub_id = sample_uuid 2, pub_slug = ''acme'',
     pub_displayName = ''Acme'', pub_description = [], pub_state = PublisherClaimed, pub_version = 1,
     pub_createdAt = sample_time\<rparr>"

lemma wf_sample_publisher [simp]: "wf_publisher sample_publisher"
  by (simp add: wf_publisher_def sample_publisher_def publisher_validState_def text_ok_ascii
      rx_dns_token_def rx_token_def rx_opt_def char_class_defs)

definition tenant_db :: DB where
  "tenant_db = empty_DB\<lparr>db_tenants := [sample_uuid 9]\<rparr>"

lemma tenant_db_fields [simp]:
  "db_tenants tenant_db = [sample_uuid 9]" "db_publishers tenant_db = []" "db_publisher_states tenant_db = []"
  "db_namespaces tenant_db = []" "db_delegations tenant_db = []" "db_delegation_states tenant_db = []"
  "db_idempotency tenant_db = []" "db_audit tenant_db = []" "db_sequences tenant_db = []"
  "db_outbox tenant_db = []" "db_artifacts tenant_db = []" "db_versions tenant_db = []" "db_sources tenant_db = []"
  by (simp_all add: tenant_db_def empty_DB_def)

definition fresh_world :: "DB \<Rightarrow> World" where
  "fresh_world db = \<lparr>w_db = db, w_saved = [], w_tick = 0\<rparr>"

lemma fresh_world_simps [simp]:
  "w_db (fresh_world db) = db" "w_saved (fresh_world db) = []" "w_tick (fresh_world db) = 0"
  by (simp_all add: fresh_world_def)

text \<open>Unfolding a run of a repository operation against the sample environment.\<close>

lemmas run_simps =
  repository_tx_def BeginRepositoryTransaction_def commit_or_rollback_def set_tenant_def io_query_def
  io_exec_def io_bind_def io_return_def io_fail_def io_lift_def tx_begin_def tx_commit_def
  Audit_Record_def insert_audit_def insert_audit_row_def audit_row_def resource_params_def Let_def

lemma sample_publisher_created:
  "\<exists>w'. PublisherRepository_Create sample_env sample_ctx sample_publisher (fresh_world tenant_db) = (Inr (), w')"
  by (simp add: PublisherRepository_Create_def run_simps sample_publisher_def insert_publisher_def
      insert_publisher_state_def publisher_row_def initial_state_row_def 
      enforce_publisher_state_record_def)

text \<open>The populated store.\<close>

definition sample_prow :: "nat \<Rightarrow> string \<Rightarrow> PublisherRow" where
  "sample_prow n slug = \<lparr>prow_tenant = sample_uuid 9, prow_id = sample_uuid n, prow_slug = slug,
     prow_display_name = None, prow_description = None, prow_current_version = 2,
     prow_created_at = sample_time\<rparr>"

definition sample_psrow :: "nat \<Rightarrow> int \<Rightarrow> string \<Rightarrow> PublisherStateRow" where
  "sample_psrow n version state = \<lparr>psrow_tenant = sample_uuid 9, psrow_publisher = sample_uuid n,
     psrow_version = version, psrow_state = state, psrow_reason = None, psrow_explanation = None,
     psrow_recorded_at = sample_time\<rparr>"

lemma sample_row_fields [simp]:
  "prow_tenant (sample_prow n slug) = sample_uuid 9" "prow_id (sample_prow n slug) = sample_uuid n"
  "prow_slug (sample_prow n slug) = slug" "prow_current_version (sample_prow n slug) = 2"
  "psrow_tenant (sample_psrow n v st) = sample_uuid 9" "psrow_publisher (sample_psrow n v st) = sample_uuid n"
  "psrow_version (sample_psrow n v st) = v" "psrow_state (sample_psrow n v st) = st"
  by (simp_all add: sample_prow_def sample_psrow_def)

definition sample_db :: DB where
  "sample_db = tenant_db\<lparr>
     db_publishers := [sample_prow 2 ''acme'', sample_prow 3 ''tools''],
     db_publisher_states := [sample_psrow 2 1 PublisherClaimed, sample_psrow 2 2 PublisherVerified,
       sample_psrow 3 1 PublisherClaimed, sample_psrow 3 2 PublisherVerified],
     db_namespaces := [\<lparr>nrow_tenant = sample_uuid 9, nrow_id = sample_uuid 10, nrow_path = ''acme'',
       nrow_owner = sample_uuid 2, nrow_created_at = sample_time\<rparr>],
     db_delegations := [\<lparr>drow_tenant = sample_uuid 9, drow_id = sample_uuid 20,
       drow_namespace = sample_uuid 10, drow_prefix = ''acme/tools'', drow_publisher = sample_uuid 3,
       drow_current_version = 1, drow_revoked_at = None, drow_created_at = sample_time\<rparr>]\<rparr>"

lemma sample_db_fields [simp]:
  "db_tenants sample_db = [sample_uuid 9]"
  "db_publishers sample_db = [sample_prow 2 ''acme'', sample_prow 3 ''tools'']"
  "db_publisher_states sample_db = [sample_psrow 2 1 PublisherClaimed, sample_psrow 2 2 PublisherVerified,
    sample_psrow 3 1 PublisherClaimed, sample_psrow 3 2 PublisherVerified]"
  "db_delegation_states sample_db = []" "db_idempotency sample_db = []" "db_audit sample_db = []"
  "db_sequences sample_db = []" "db_outbox sample_db = []" "db_artifacts sample_db = []" "db_versions sample_db = []" "db_sources sample_db = []"
  by (simp_all add: sample_db_def)

lemmas sample_db_simps = sample_db_def sample_prow_def sample_psrow_def

lemma sample_db_publisher_inv: "publisher_tables_inv sample_db"
  by (simp add: publisher_tables_inv_def sample_db_simps prow_key_def psrow_key_def state_of_publisher_def
      publisher_history_step_def transition_allowed_def)

lemma sample_db_ownership_inv: "ownership_inv sample_db"
  by (simp add: ownership_inv_def sample_db_simps nrow_key_def nrow_place_def drow_key_def drow_place_def
      like_child_def)

lemma sample_db_idempotency_inv: "idempotency_inv sample_db"
  by (simp add: idempotency_inv_def sample_db_simps)

lemma sample_resolve_query: "resolve_query (sample_uuid 9) ''acme/tools/hammer'' sample_db = [sample_uuid 3]"
  by (simp add: resolve_query_def controlling_def candidates_def covers_def like_child_def
      current_states_def publisher_rows_def publisherSelect_def state_of_publisher_def sample_db_simps)

lemma sample_resolve:
  "\<exists>w'. DelegationRepository_ResolveOwner sample_env sample_ctx (sample_uuid 9) ''acme/tools/hammer''
    (fresh_world sample_db) = (Inr (sample_uuid 3), w')"
proof -
  have "ValidatePath ''acme/tools/hammer''" by (rule ValidatePath_literal) (simp_all add: char_class_defs)
  then show ?thesis
    by (simp add: DelegationRepository_ResolveOwner_def run_simps query_one_def first_row_def
        sample_resolve_query ParseUUID_String)
qed

lemma sample_create_fault:
  "\<exists>e w'. PublisherRepository_Create (sample_env\<lparr>env_fault := \<lambda>n. if n = 3 then Some DriverError else None\<rparr>)
    sample_ctx sample_publisher (fresh_world tenant_db) = (Inl e, w')"
  by (simp add: PublisherRepository_Create_def run_simps sample_publisher_def insert_publisher_def
      insert_publisher_state_def publisher_row_def initial_state_row_def 
      enforce_publisher_state_record_def tx_rollback_def io_tick_def fresh_world_def)

lemma sample_publisher_row:
  "publisherSelect (\<lambda>p. prow_tenant p = sample_uuid 9 \<and> prow_id p = sample_uuid 2) sample_db =
    [(sample_prow 2 ''acme'', sample_psrow 2 2 PublisherVerified)]"
  by (simp add: publisherSelect_def state_of_publisher_def sample_db_simps)

lemma sample_publisher_scan:
  "publisher_scan (sample_prow 2 ''acme'', sample_psrow 2 2 PublisherVerified) =
    Inr (sample_publisher\<lparr>pub_displayName := [], pub_state := PublisherVerified, pub_version := 2\<rparr>)"
  by (simp add: publisher_scan_Inr wf_publisher_def sample_publisher_def sample_prow_def sample_psrow_def
      publisher_validState_def coalesce_def rx_dns_token_def rx_token_def rx_opt_def char_class_defs)

lemma sample_change:
  "\<exists>p w'. PublisherRepository_ChangeState sample_env sample_ctx (sample_uuid 9) (sample_uuid 2) 2
      PublisherSuspended (ReasonCode ''review'') [] sample_time (fresh_world sample_db) = (Inr p, w')"
  by (simp add: PublisherRepository_ChangeState_def run_simps query_one_def first_row_def
      sample_publisher_row sample_publisher_scan Publisher_Transition_def transition_allowed_def
      publisher_optionalText_def insert_publisher_state_def transition_row_def update_publisher_version_def
      publisher_matches_def sample_publisher_def enforce_publisher_state_record_def
      sql_publisher_transition_def int64_add_def decision_params_def)

text \<open>A pending request and the row it is stored as.\<close>

definition sample_request :: IdemRecord where
  "sample_request = \<lparr>idem_tenantID = sample_uuid 9, idem_id = sample_uuid 30, idem_principal = ''alice'',
     idem_action = ReasonCode ''publisher.create'', idem_key = ''k1'',
     idem_digest = \<lparr>digest_algorithm = SHA256, digest_bytes = go_array []\<rparr>, idem_state = StatePending,
     idem_result = None, idem_createdAt = from_Unix 1767323045, idem_completedAt = None,
     idem_expiresAt = from_Unix 1767323045 + 86400000000000\<rparr>"

lemma sample_request_fields:
  "idem_tenantID sample_request = sample_uuid 9" "idem_principal sample_request = ''alice''"
  "idem_action sample_request = ReasonCode ''publisher.create''" "idem_key sample_request = ''k1''"
  by (simp_all add: sample_request_def)

lemma wf_sample_request [simp]: "wf_idem sample_request"
  by (simp add: wf_idem_def sample_request_def text_ok_ascii wf_digest_def time_defs)

lemma sample_request_scan: "idempotency_scan (idempotency_row sample_env sample_request) = Inr sample_request"
proof -
  have "NewReasonCode ''publisher.create'' = Inr (ReasonCode ''publisher.create'')"
    by (rule NewReasonCode_literal) (simp add: reason_literal_simps)
  moreover have "wf_digest (idem_digest sample_request)" by (simp add: wf_digest_def sample_request_def)
  ultimately show ?thesis
    using wf_sample_request
    by (simp add: idempotency_scan_Inr idempotency_row_def scan_result_def)
      (simp add: sample_request_def time_defs)
qed

lemma sample_acquire:
  "\<exists>w'. IdempotencyRepository_Acquire sample_env sample_ctx sample_request (fresh_world tenant_db) =
    (Inr (sample_request, True), w')"
proof -
  have fields: "idem_tenantID sample_request = sample_uuid 9"
      "irow_tenant (idempotency_row sample_env sample_request) = sample_uuid 9"
      "irow_created_at (idempotency_row sample_env sample_request) + MinimumRetention \<le>
        irow_expires_at (idempotency_row sample_env sample_request)"
      "owned (sample_uuid 9) (idem_principal sample_request) (ReasonCode_String (idem_action sample_request))
        (idem_key sample_request) (idempotency_row sample_env sample_request)"
    by (simp_all add: sample_request_def idempotency_row_def owned_def MinimumRetention_def time_defs)
  then show ?thesis
    by (simp add: IdempotencyRepository_Acquire_def run_simps insert_idempotency_def query_one_def
        first_row_def owned_rows_def sample_request_scan)
qed

text \<open>The store after it, and the completion of the request.\<close>

definition requested_db :: DB where
  "requested_db = tenant_db\<lparr>db_idempotency := [idempotency_row sample_env sample_request]\<rparr>"

definition sample_result :: IdemResult where
  "sample_result = \<lparr>result_status = 201, result_resourceType = ReasonCode ''publisher'', result_resourceID = ''p1''\<rparr>"

lemma wf_sample_result [simp]: "wf_result sample_result"
  by (simp add: wf_result_def sample_result_def text_ok_ascii) (use NewReasonCode_iff [of "''publisher''"]
    NewReasonCode_literal [of "''publisher''"] in \<open>auto simp: reason_literal_simps\<close>)

definition completed_request :: IdemRecord where
  "completed_request = sample_request\<lparr>idem_state := StateCompleted, idem_result := Some sample_result,
     idem_completedAt := Some (from_Unix 1767323045)\<rparr>"

lemma sample_completed_scan:
  "idempotency_scan (complete_row 201 (Some ''publisher'') (Some ''p1'') (from_Unix 1767323045)
      (idempotency_row sample_env sample_request)) = Inr completed_request"
proof -
  have "NewReasonCode ''publisher.create'' = Inr (ReasonCode ''publisher.create'')"
    by (rule NewReasonCode_literal) (simp add: reason_literal_simps)
  moreover have "wf_digest (idem_digest sample_request)" by (simp add: wf_digest_def sample_request_def)
  moreover have "scan_result (complete_row 201 (Some ''publisher'') (Some ''p1'') (from_Unix 1767323045)
      (idempotency_row sample_env sample_request)) = Inr (Some sample_result)"
    using scan_result_complete_row [OF wf_sample_result] by (simp add: sample_result_def Result_ResourceType_def)
  moreover have "wf_idem completed_request"
    using wf_sample_request by (simp add: wf_idem_def completed_request_def sample_result_def) (simp add: sample_request_def)
  ultimately show ?thesis
    by (simp add: idempotency_scan_Inr) (simp add: idempotency_row_def completed_request_def complete_row_def
      sample_request_def time_defs)
qed

lemma sample_complete:
  "\<exists>w'. IdempotencyRepository_Complete sample_env sample_ctx (sample_uuid 9) ''alice''
      (ReasonCode ''publisher.create'') ''k1'' (idem_digest sample_request) sample_result (from_Unix 1767323045)
      (fresh_world requested_db) = (Inr completed_request, w')"
proof -
  let ?row = "idempotency_row sample_env sample_request"
  have fields: "pending_request (sample_uuid 9) ''alice'' ''publisher.create'' ''k1''
        (Digest_String (idem_digest sample_request)) ?row"
      "irow_created_at ?row = from_Unix 1767323045"
    by (simp_all add: sample_request_def idempotency_row_def pending_request_def owned_def time_defs)
  have completion: "from_Unix 1767323045 - from_Unix 1767323045 mod 1000 = from_Unix 1767323045"
      "from_Unix 1767323045 \<noteq> 0"
    by (simp_all add: time_defs)
  have result: "result_status sample_result = 201" "result_resourceID sample_result = ''p1''"
      "Result_ResourceType sample_result = Some (ReasonCode ''publisher'')"
    by (simp_all add: sample_result_def Result_ResourceType_def)
  have updated: "update_idempotency (pending_request (sample_uuid 9) ''alice'' ''publisher.create'' ''k1''
        (Digest_String (idem_digest sample_request)))
      (complete_row 201 (Some ''publisher'') (Some ''p1'') (from_Unix 1767323045)) requested_db =
      Inr ([complete_row 201 (Some ''publisher'') (Some ''p1'') (from_Unix 1767323045) ?row],
        tenant_db\<lparr>db_idempotency := [complete_row 201 (Some ''publisher'') (Some ''p1'') (from_Unix 1767323045) ?row]\<rparr>)"
    using fields by (simp add: update_idempotency_def requested_db_def complete_row_def Let_def)
  have ownership: "is_ok (ValidateOwnership ''alice'' (ReasonCode ''publisher.create'') ''k1'')"
    by (simp add: is_ok_iff ValidateOwnership_ok text_ok_ascii)
  have digest: "Digest_String (idem_digest sample_request) \<noteq> []"
    by (simp add: Digest_String_def sample_request_def)
  show ?thesis
    using completion result updated ownership digest sample_completed_scan
    by (simp add: IdempotencyRepository_Complete_def run_simps first_row_def)
qed

end
