(* ===== verification/Store_Properties.thy ===== *)
theory Store_Properties
  imports Sample_Store
begin

text \<open>
  Properties of the PostgreSQL repositories: refinement of the abstract stores, the invariants of the
  tables, ownership resolution, and the atomicity of every operation under driver faults.
\<close>

subsection \<open>Publishers\<close>

text \<open>
  C26: creating a Publisher refines the insertion into the tenant's store: exactly that key is bound,
  to the Publisher with its creation time as the column keeps it, and every other key is unchanged.
\<close>

theorem publisher_create_refines:
  assumes "publisher_tables_inv (w_db w)" and "wf_publisher p"
    and "pub_state p = PublisherClaimed" and "pub_version p = 1"
    and "env_store_time env (pub_createdAt p) \<noteq> 0"
    and "PublisherRepository_Create env ctx p w = (Inr x, w')"
  shows "publisher_store (w_db w') t u =
    (if t = pub_tenantID p \<and> u = pub_id p
     then Some (p\<lparr>pub_createdAt := env_store_time env (pub_createdAt p)\<rparr>)
     else publisher_store (w_db w) t u)"
  using assms by (rule publisher_store_Create)

theorem publisher_create_refines_witness:
  "\<exists>w'. PublisherRepository_Create sample_env sample_ctx sample_publisher (fresh_world tenant_db) = (Inr (), w') \<and>
    publisher_store (w_db w') (sample_uuid 9) (sample_uuid 2) =
      Some (sample_publisher\<lparr>pub_createdAt := sample_time - 789\<rparr>)"
proof -
  obtain w' where run: "PublisherRepository_Create sample_env sample_ctx sample_publisher (fresh_world tenant_db) = (Inr (), w')"
    using sample_publisher_created by blast
  have micros: "sample_time - sample_time mod 1000 = sample_time - 789" "sample_time \<noteq> 789"
    by (simp_all add: sample_time_def time_defs)
  have "publisher_store (w_db w') (sample_uuid 9) (sample_uuid 2) =
      Some (sample_publisher\<lparr>pub_createdAt := sample_time - 789\<rparr>)"
    using publisher_create_refines [OF _ wf_sample_publisher _ _ _ run, of "sample_uuid 9" "sample_uuid 2"] micros
    by (simp add: sample_publisher_def publisher_tables_inv_def)
  with run show ?thesis by blast
qed

text \<open>A state change is compare-and-swap: it succeeds only on the version the caller expected, only
  along an allowed transition, and with an audit fact by the caller in the same step.\<close>

theorem publisher_change_compare_and_swap:
  assumes "PublisherRepository_ChangeState env ctx t u v state reason explanation at w = (Inr new, w')"
  shows "\<exists>current. publisher_store (w_db w) t u = Some current \<and> pub_version current = v \<and>
    transition_allowed (pub_state current) state \<and> pub_state new = state \<and> pub_version new = v + 1 \<and>
    publisher_identity new = publisher_identity current \<and>
    (\<exists>actor fact. ActorFromContext (ctx_actor ctx) = Some actor \<and>
      db_audit (w_db w') = db_audit (w_db w) @ [fact] \<and> arow_actor fact = actor_principalID actor \<and>
      arow_action fact = ActionPublisherStateChanged \<and> arow_resource_id fact = UUID_String u)"
  using PublisherRepository_ChangeState_Inr [OF assms]
  by (fastforce simp: Publisher_Transition_Inr publisher_identity_def Let_def)

theorem publisher_change_compare_and_swap_witness:
  "\<exists>new w'. PublisherRepository_ChangeState sample_env sample_ctx (sample_uuid 9) (sample_uuid 2) 2
      PublisherSuspended (ReasonCode ''review'') [] sample_time (fresh_world sample_db) = (Inr new, w') \<and>
    pub_state new = PublisherSuspended \<and> pub_version new = 3"
proof -
  obtain new w' where run: "PublisherRepository_ChangeState sample_env sample_ctx (sample_uuid 9) (sample_uuid 2) 2
      PublisherSuspended (ReasonCode ''review'') [] sample_time (fresh_world sample_db) = (Inr new, w')"
    using sample_change by blast
  with publisher_change_compare_and_swap [OF run] show ?thesis by auto
qed

subsection \<open>Ownership\<close>

text \<open>
  C8: the owner resolved for a path is the verified Publisher of the longest namespace or active
  delegation that covers the path; every other grant covering it is strictly shorter.
\<close>

theorem resolve_owner_longest:
  assumes "publisher_tables_inv (w_db w)" and "ownership_inv (w_db w)"
    and "DelegationRepository_ResolveOwner env ctx t path w = (Inr u, w')"
  shows "ValidatePath path \<and> (\<exists>q. (q, u, ''verified'') \<in> set (candidates t path (w_db w)) \<and>
    list_all (\<lambda>c. c = (q, u, ''verified'') \<or> length (fst c) < length q) (candidates t path (w_db w)))"
  using ResolveOwner_Inr [OF assms] by (simp add: controls_def list_all_iff)

theorem resolve_owner_longest_witness:
  "\<exists>w'. DelegationRepository_ResolveOwner sample_env sample_ctx (sample_uuid 9) ''acme/tools/hammer''
      (fresh_world sample_db) = (Inr (sample_uuid 3), w') \<and> ValidatePath ''acme/tools/hammer''"
proof -
  obtain w' where run: "DelegationRepository_ResolveOwner sample_env sample_ctx (sample_uuid 9) ''acme/tools/hammer''
      (fresh_world sample_db) = (Inr (sample_uuid 3), w')"
    using sample_resolve by blast
  have "publisher_tables_inv (w_db (fresh_world sample_db))" "ownership_inv (w_db (fresh_world sample_db))"
    by (simp_all add: sample_db_publisher_inv sample_db_ownership_inv)
  with run resolve_owner_longest [OF _ _ run] show ?thesis by blast
qed

subsection \<open>Idempotency\<close>

text \<open>
  C14: acquiring a key either creates the caller's record, when no record had the key, or returns the
  one already bound to it and changes nothing; either way the request digests agree.
\<close>

theorem acquire_once:
  assumes "IdempotencyRepository_Acquire env ctx rc w = (Inr (stored, created), w')"
  shows "idem_digest stored = idem_digest rc \<and>
    idem_store (w_db w') (idem_tenantID rc) (idem_principal rc) (idem_action rc) (idem_key rc) = Some stored \<and>
    (if created then
       owned_rows (idem_tenantID rc) (idem_principal rc) (idem_action rc) (idem_key rc) (w_db w) = [] \<and>
       w_db w' = (w_db w)\<lparr>db_idempotency := db_idempotency (w_db w) @ [idempotency_row env rc]\<rparr>
     else w_db w' = w_db w)"
  using assms by (rule IdempotencyRepository_Acquire_Inr)

theorem acquire_once_witness:
  "\<exists>w'. IdempotencyRepository_Acquire sample_env sample_ctx sample_request (fresh_world tenant_db) =
      (Inr (sample_request, True), w') \<and>
    idem_store (w_db w') (sample_uuid 9) ''alice'' (ReasonCode ''publisher.create'') ''k1'' = Some sample_request"
proof -
  obtain w' where run: "IdempotencyRepository_Acquire sample_env sample_ctx sample_request (fresh_world tenant_db) =
      (Inr (sample_request, True), w')"
    using sample_acquire by blast
  with acquire_once [OF run, unfolded sample_request_fields] show ?thesis by blast
qed

text \<open>Completing a request binds its key to the result for good, keeps one record per key and
  leaves every other key as it was.\<close>

theorem complete_binds_result:
  assumes "idempotency_inv (w_db w)" and "wf_result res"
    and "IdempotencyRepository_Complete env ctx t p a k d res c w = (Inr r, w')"
  shows "idem_store (w_db w') t p a k = Some r \<and> idem_digest r = d \<and> idem_result r = Some res \<and>
    idem_state r = StateCompleted \<and> idempotency_inv (w_db w') \<and>
    (\<forall>t' p' a' k'. (t', p', ReasonCode_String a', k') = (t, p, ReasonCode_String a, k) \<or>
      idem_store (w_db w') t' p' a' k' = idem_store (w_db w) t' p' a' k')"
  using IdempotencyRepository_Complete_Inr [OF assms] by blast

theorem complete_binds_result_witness:
  "\<exists>w'. IdempotencyRepository_Complete sample_env sample_ctx (sample_uuid 9) ''alice''
      (ReasonCode ''publisher.create'') ''k1'' (idem_digest sample_request) sample_result (from_Unix 1767323045)
      (fresh_world requested_db) = (Inr completed_request, w') \<and>
    idem_store (w_db w') (sample_uuid 9) ''alice'' (ReasonCode ''publisher.create'') ''k1'' = Some completed_request"
proof -
  obtain w' where run: "IdempotencyRepository_Complete sample_env sample_ctx (sample_uuid 9) ''alice''
      (ReasonCode ''publisher.create'') ''k1'' (idem_digest sample_request) sample_result (from_Unix 1767323045)
      (fresh_world requested_db) = (Inr completed_request, w')"
    using sample_complete by blast
  have "idempotency_inv (w_db (fresh_world requested_db))" by (simp add: idempotency_inv_def requested_db_def)
  from complete_binds_result [OF this wf_sample_result run] run show ?thesis by blast
qed

subsection \<open>Atomicity\<close>

text \<open>Whatever fails, at whatever interaction with the server, a failed write leaves the database
  and the enclosing transactions as they were.\<close>

theorem failed_write_leaves_no_trace:
  assumes "PublisherRepository_Create env ctx p w = (Inl e, w') \<or>
      NamespaceRepository_Create env ctx n w = (Inl e, w') \<or>
      DelegationRepository_Create env ctx d w = (Inl e, w')"
  shows "w_db w' = w_db w \<and> w_saved w' = w_saved w"
  using assms by (auto dest: atomicD [rotated] intro: io_laws)

theorem failed_write_leaves_no_trace_witness:
  "\<exists>e w'. PublisherRepository_Create (sample_env\<lparr>env_fault := \<lambda>n. if n = 3 then Some DriverError else None\<rparr>)
      sample_ctx sample_publisher (fresh_world tenant_db) = (Inl e, w') \<and> w_db w' = tenant_db"
proof -
  let ?env = "sample_env\<lparr>env_fault := \<lambda>n. if n = 3 then Some DriverError else None\<rparr>"
  obtain e w' where run: "PublisherRepository_Create ?env sample_ctx sample_publisher (fresh_world tenant_db) = (Inl e, w')"
    using sample_create_fault by blast
  then show ?thesis using failed_write_leaves_no_trace [OF disjI1 [OF run]] by auto
qed

end
