(* ===== verification/Publication.thy ===== *)
theory Publication
  imports Authorizer Idempotency_Repository
begin

text \<open>
  What the services of \<open>internal/app/publication\<close> share: the errors, the audit context of an
  authenticated principal, and the shape of an idempotent command. The locale states what a service
  relies on in \<open>idempotency.Repository\<close>; its lemmas say what an idempotent command does the first time
  a key is used and every time after, and the interpretation rests them on the repository's model.
\<close>

subsection \<open>Shared operations\<close>

definition mustReasonCode :: "string \<Rightarrow> ReasonCode option" where
  "mustReasonCode text = (case NewReasonCode text of Inl _ \<Rightarrow> None | Inr reason \<Rightarrow> Some reason)"

text \<open>\<open>typed\<close> panics on an invalid literal, before the error is built.\<close>

definition typed_service :: "ErrorClass \<Rightarrow> string \<Rightarrow> go_error" where
  "typed_service cls text =
    (case mustReasonCode text of None \<Rightarrow> Panicked | Some reason \<Rightarrow> NewTypedError cls reason)"

definition validateIdentity :: "Identity \<Rightarrow> (go_error, unit) result" where
  "validateIdentity actor =
    (if \<not> valid_uuid (ident_TenantID actor) \<or> ident_PrincipalID actor = []
       then Inl (typed_service ErrorUnauthorized ''authorization.identity_required'')
     else Inr ())"

definition authenticatedAuditContext :: "Ctx \<Rightarrow> Identity \<Rightarrow> (go_error, Ctx) result" where
  "authenticatedAuditContext ctx actor =
    (let (requestID, traceID) =
       (case ActorFromContext (ctx_actor ctx) of
          None \<Rightarrow> (None, [])
        | Some correlation \<Rightarrow> (actor_requestID correlation, actor_traceID correlation)) in
     case NewActor (ident_PrincipalID actor) requestID traceID of
       Inl _ \<Rightarrow> Inl (typed_service ErrorUnauthorized ''authorization.identity_required'')
     | Inr verified \<Rightarrow> Inr (ctx\<lparr>ctx_actor := WithActor (ctx_actor ctx) verified\<rparr>))"

text \<open>\<open>http.StatusCreated\<close>, \<open>http.StatusOK\<close>.\<close>

definition StatusCreated :: nat where "StatusCreated = 201"
definition StatusOK :: nat where "StatusOK = 200"

text \<open>
  The check every replay starts with: the record is completed, with the status and the resource type
  of this command, and names a resource; the answer is the identifier of that resource.
\<close>

definition established_resource ::
  "go_error \<Rightarrow> nat \<Rightarrow> ReasonCode \<Rightarrow> IdemRecord \<Rightarrow> (go_error, UUID) result" where
  "established_resource unreadable status resourceType rc =
    (case idem_result rc of
       None \<Rightarrow> Inl (typed_service ErrorConflict ''idempotency.in_progress'')
     | Some established \<Rightarrow>
       (if result_status established \<noteq> status \<or> Result_ResourceType established \<noteq> Some resourceType \<or>
           Result_ResourceID established = None
          then Inl (typed_service ErrorConflict ''idempotency.result_mismatch'')
        else case ParseUUID (the (Result_ResourceID established)) of
          Inl _ \<Rightarrow> Inl unreadable
        | Inr identifier \<Rightarrow> Inr identifier))"

lemma typed_service_literal:
  "reason_literal text \<Longrightarrow> cls \<in> set error_classes \<Longrightarrow> typed_service cls text = TypedError cls (ReasonCode text)"
  by (simp add: typed_service_def mustReasonCode_def NewReasonCode_literal NewTypedError_def)
    (use NewReasonCode_literal NewReasonCode_nonempty in \<open>fastforce\<close>)

lemma authenticatedAuditContext_Inr:
  "authenticatedAuditContext ctx actor = Inr ctx' \<Longrightarrow>
    ctx_tx ctx' = ctx_tx ctx \<and>
    (\<exists>a. ctx_actor ctx' = Some a \<and> wf_actor a \<and> actor_principalID a = ident_PrincipalID actor)"
  by (auto simp: authenticatedAuditContext_def WithActor_def NewActor_Inr Let_def
      split: sum.splits option.splits prod.splits)

lemma established_resource_Inr:
  "established_resource e status resourceType rc = Inr u \<longleftrightarrow>
    (\<exists>res. idem_result rc = Some res \<and> result_status res = status \<and>
      Result_ResourceType res = Some resourceType \<and> Result_ResourceID res = Some (UUID_String u) \<and> valid_uuid u)"
  by (auto simp: established_resource_def ParseUUID_iff ParseUUID_String UUID_String_inject
      split: option.splits sum.splits)

subsection \<open>Idempotent commands\<close>

lemma io_bind_sum:
  "io_bind (case x of Inl a \<Rightarrow> f a | Inr b \<Rightarrow> g b) k = (case x of Inl a \<Rightarrow> io_bind (f a) k | Inr b \<Rightarrow> io_bind (g b) k)"
  by (cases x) simp_all

lemma io_lift_bind: "io_bind (io_lift e x) k = (case x of Inl _ \<Rightarrow> io_fail e | Inr v \<Rightarrow> k v)"
  by (cases x) (simp_all add: io_lift_def)

text \<open>
  The transaction every command runs: the instant and the record identifier, the claim of the key,
  the replay of an established result or the command itself, and the completion of the key. The
  services below are equal to instances of it.
\<close>

definition idempotent_command ::
  "(Env \<Rightarrow> Ctx \<Rightarrow> IdemRecord \<Rightarrow> (IdemRecord \<times> bool) io) \<Rightarrow>
   (Env \<Rightarrow> Ctx \<Rightarrow> UUID \<Rightarrow> string \<Rightarrow> ReasonCode \<Rightarrow> string \<Rightarrow> Digest \<Rightarrow> IdemResult \<Rightarrow> Time \<Rightarrow> IdemRecord io) \<Rightarrow>
   Env \<Rightarrow> Ctx \<Rightarrow> Identity \<Rightarrow> ReasonCode \<Rightarrow> string \<Rightarrow> Digest \<Rightarrow> go_error \<Rightarrow> go_error \<Rightarrow>
   (Ctx \<Rightarrow> IdemRecord \<Rightarrow> 'a io) \<Rightarrow> (Ctx \<Rightarrow> Time \<Rightarrow> ('a \<times> IdemResult) io) \<Rightarrow> 'a io" where
  "idempotent_command acquire complete env ctx actor action key digest no_identifier invalid replay body =
    WithinTransaction env ctx (ident_TenantID actor) (\<lambda>tx.
      io_bind (clock_Now env) (\<lambda>now.
      io_bind (ids_New env no_identifier) (\<lambda>recordID.
      io_bind (io_lift invalid (Idempotency_New (ident_TenantID actor) recordID (ident_PrincipalID actor)
        action key digest now (now + MinimumRetention))) (\<lambda>rc.
      io_bind (acquire env tx rc) (\<lambda>(stored, created).
      if \<not> created then replay tx stored
      else io_bind (body tx now) (\<lambda>(v, established).
        io_bind (complete env tx (ident_TenantID actor) (ident_PrincipalID actor) action key digest established now) (\<lambda>_.
        io_return v)))))))"

text \<open>Everything a command leaves alone when it only touches idempotency records.\<close>

definition other_tables :: "DB \<Rightarrow> DB" where
  "other_tables db = db\<lparr>db_idempotency := []\<rparr>"

locale idempotency_store =
  fixes acquire :: "Env \<Rightarrow> Ctx \<Rightarrow> IdemRecord \<Rightarrow> (IdemRecord \<times> bool) io"
    and complete :: "Env \<Rightarrow> Ctx \<Rightarrow> UUID \<Rightarrow> string \<Rightarrow> ReasonCode \<Rightarrow> string \<Rightarrow> Digest \<Rightarrow> IdemResult \<Rightarrow> Time \<Rightarrow> IdemRecord io"
    and store :: "DB \<Rightarrow> UUID \<Rightarrow> string \<Rightarrow> ReasonCode \<Rightarrow> string \<Rightarrow> IdemRecord option"
    and inv :: "DB \<Rightarrow> bool"
  assumes acquire_atomic: "atomic (acquire env ctx rc)"
    and complete_atomic: "atomic (complete env ctx t p a k d res now)"
    and acquire_found: "acquire env ctx rc w = (Inr (stored, False), w') \<Longrightarrow> w_db w' = w_db w \<and>
      store (w_db w) (idem_tenantID rc) (idem_principal rc) (idem_action rc) (idem_key rc) = Some stored \<and>
      idem_digest stored = idem_digest rc"
    and acquire_created: "acquire env ctx rc w = (Inr (stored, True), w') \<Longrightarrow>
      store (w_db w) (idem_tenantID rc) (idem_principal rc) (idem_action rc) (idem_key rc) = None \<and>
      other_tables (w_db w') = other_tables (w_db w) \<and> (inv (w_db w) \<longrightarrow> inv (w_db w'))"
    and complete_binds: "inv (w_db w) \<Longrightarrow> wf_result res \<Longrightarrow> complete env ctx t p a k d res now w = (Inr rc, w') \<Longrightarrow>
      inv (w_db w') \<and> other_tables (w_db w') = other_tables (w_db w) \<and>
      store (w_db w') t p a k = Some rc \<and> idem_digest rc = d \<and> idem_result rc = Some res"
    and inv_local: "db_idempotency db = db_idempotency db' \<Longrightarrow> inv db = inv db'"
begin

lemma command_atomic:
  assumes "\<And>tx stored. balanced (replay tx stored)" and "\<And>tx now. balanced (body tx now)"
  shows "atomic (idempotent_command acquire complete env ctx actor action key digest e1 e2 replay body)"
  unfolding idempotent_command_def
  by (intro WithinTransaction_atomic balanced_bind balanced_clock balanced_ids balanced_lift)
    (auto intro!: balanced_bind balanced_return assms atomic_balanced [OF acquire_atomic]
      atomic_balanced [OF complete_atomic])

text \<open>Every successful run either replays the record the key is bound to, or is the first.\<close>

lemma command_cases:
  assumes bal: "\<And>tx stored. reads (replay tx stored)" "\<And>tx now. balanced (body tx now)"
    and run: "idempotent_command acquire complete env ctx actor action key digest e1 e2 replay body w = (Inr v, w')"
  obtains (replayed) stored w1 w2 where
      "store (w_db w) (ident_TenantID actor) (ident_PrincipalID actor) action key = Some stored"
      "idem_digest stored = digest" "w_db w1 = w_db w" "w_db w' = w_db w"
      "replay (ctx\<lparr>ctx_tx := Some (ident_TenantID actor)\<rparr>) stored w1 = (Inr v, w2)"
  | (first) now established rc w1 w2 w3 w4 where
      "store (w_db w) (ident_TenantID actor) (ident_PrincipalID actor) action key = None"
      "other_tables (w_db w1) = other_tables (w_db w)" "inv (w_db w) \<longrightarrow> inv (w_db w1)"
      "body (ctx\<lparr>ctx_tx := Some (ident_TenantID actor)\<rparr>) now w1 = (Inr (v, established), w2)"
      "complete env (ctx\<lparr>ctx_tx := Some (ident_TenantID actor)\<rparr>) (ident_TenantID actor) (ident_PrincipalID actor)
        action key digest established now w3 = (Inr rc, w4)"
      "w_db w3 = w_db w2" "w_db w' = w_db w4" "now \<noteq> 0"
proof -
  let ?tx = "ctx\<lparr>ctx_tx := Some (ident_TenantID actor)\<rparr>"
  let ?op = "\<lambda>tx. io_bind (clock_Now env) (\<lambda>now.
      io_bind (ids_New env e1) (\<lambda>recordID.
      io_bind (io_lift e2 (Idempotency_New (ident_TenantID actor) recordID (ident_PrincipalID actor)
        action key digest now (now + MinimumRetention))) (\<lambda>rc.
      io_bind (acquire env tx rc) (\<lambda>(stored, created).
      if \<not> created then replay tx stored
      else io_bind (body tx now) (\<lambda>(v, established).
        io_bind (complete env tx (ident_TenantID actor) (ident_PrincipalID actor) action key digest established now) (\<lambda>_.
        io_return v))))))"
  have "balanced (?op tx)" for tx
    by (intro balanced_bind balanced_clock balanced_ids balanced_lift)
      (auto intro!: balanced_bind balanced_return bal reads_balanced [OF bal(1)]
        atomic_balanced [OF acquire_atomic] atomic_balanced [OF complete_atomic])
  from WithinTransaction_Inr [OF this run [unfolded idempotent_command_def]]
  obtain wa wb where wa: "w_db wa = w_db w" and op: "?op ?tx wa = (Inr v, wb)" and wb: "w_db w' = w_db wb"
    by blast
  from op obtain now recordID rc stored created wc wd we wf where
    clock: "clock_Now env wa = (Inr now, wc)" and ids: "ids_New env e1 wc = (Inr recordID, wd)"
    and new: "Idempotency_New (ident_TenantID actor) recordID (ident_PrincipalID actor) action key digest now
      (now + MinimumRetention) = Inr rc"
    and acq: "acquire env ?tx rc wd = (Inr (stored, created), we)"
    and cont: "(if \<not> created then replay ?tx stored
      else io_bind (body ?tx now) (\<lambda>(v, established).
        io_bind (complete env ?tx (ident_TenantID actor) (ident_PrincipalID actor) action key digest established now) (\<lambda>_.
        io_return v))) we = (Inr v, wb)"
    by (auto simp: io_bind_Inr io_lift_Inr split: prod.splits)
  have wd: "w_db wd = w_db w"
    using readsD [OF reads_clock clock] readsD [OF reads_ids ids] wa by simp
  from new have rc: "idem_tenantID rc = ident_TenantID actor" "idem_principal rc = ident_PrincipalID actor"
    "idem_action rc = action" "idem_key rc = key" "idem_digest rc = digest" "now \<noteq> 0"
    by (auto simp: Idempotency_New_Inr wf_idem_def)
  show thesis
  proof (cases created)
    case True
    with cont obtain established rc' wf wg where body: "body ?tx now we = (Inr (v, established), wf)"
      and comp: "complete env ?tx (ident_TenantID actor) (ident_PrincipalID actor) action key digest established now wf
        = (Inr rc', wg)" and "w_db wb = w_db wg"
      by (auto simp: io_bind_Inr io_return_def split: prod.splits)
    moreover from acq True have "acquire env ?tx rc wd = (Inr (stored, True), we)" by simp
    note acquire_created [OF this]
    ultimately show thesis using rc wd wb by (intro first [OF _ _ _ body comp]) auto
  next
    case False
    with acquire_found [of env ?tx rc wd stored we] acq rc wd cont wb
    have found: "store (w_db w) (ident_TenantID actor) (ident_PrincipalID actor) action key = Some stored"
      "idem_digest stored = digest" "w_db we = w_db w" and rep: "replay ?tx stored we = (Inr v, wb)" by auto
    then show thesis using readsD [OF bal(1) rep] wb by (intro replayed [OF found _ rep]) auto
  qed
qed

end

text \<open>The repository provides this contract.\<close>

lemma idempotency_inv_local:
  "db_idempotency db = db_idempotency db' \<Longrightarrow> idempotency_inv db = idempotency_inv db'"
  by (simp add: idempotency_inv_def)

interpretation idem: idempotency_store IdempotencyRepository_Acquire IdempotencyRepository_Complete
  idem_store idempotency_inv
proof unfold_locales
  fix env ctx rc w stored w'
  assume run: "IdempotencyRepository_Acquire env ctx rc w = (Inr (stored, False), w')"
  from IdempotencyRepository_Acquire_Inr [OF run]
  show "w_db w' = w_db w \<and>
      idem_store (w_db w) (idem_tenantID rc) (idem_principal rc) (idem_action rc) (idem_key rc) = Some stored \<and>
      idem_digest stored = idem_digest rc"
    by auto
next
  fix env ctx rc w stored w'
  assume run: "IdempotencyRepository_Acquire env ctx rc w = (Inr (stored, True), w')"
  from IdempotencyRepository_Acquire_Inr [OF run] idempotency_inv_Acquire [OF _ run]
  show "idem_store (w_db w) (idem_tenantID rc) (idem_principal rc) (idem_action rc) (idem_key rc) = None \<and>
      other_tables (w_db w') = other_tables (w_db w) \<and> (idempotency_inv (w_db w) \<longrightarrow> idempotency_inv (w_db w'))"
    by (simp add: idem_store_def other_tables_def)
next
  fix w res env ctx t p a k d now rc w'
  assume "idempotency_inv (w_db w)" "wf_result res"
    and "IdempotencyRepository_Complete env ctx t p a k d res now w = (Inr rc, w')"
  from IdempotencyRepository_Complete_Inr [OF this]
  show "idempotency_inv (w_db w') \<and> other_tables (w_db w') = other_tables (w_db w) \<and>
      idem_store (w_db w') t p a k = Some rc \<and> idem_digest rc = d \<and> idem_result rc = Some res"
    by (auto simp: other_tables_def)
qed (auto intro: io_laws simp: idempotency_inv_def)

end
