(* ===== verification/Resource_Commands.thy ===== *)
theory Resource_Commands
  imports Publication
begin

text \<open>
  The commands of \<open>internal/app/publication\<close> that create one resource: the shape of the body that runs
  inside \<open>idempotent_command\<close>, the replay of an established resource, and what a successful command
  did, whichever resource it creates. Also the position a list cursor stands for.
\<close>

subsection \<open>Creation and replay\<close>

text \<open>
  The body of a creating command: a fresh identifier, the domain constructor, the repository's
  \<open>Create\<close>, and the result the idempotency key is bound to.
\<close>

definition resource_body ::
  "Env \<Rightarrow> go_error \<Rightarrow> go_error \<Rightarrow> go_error \<Rightarrow> ReasonCode \<Rightarrow> (UUID \<Rightarrow> ('e, 'a) result) \<Rightarrow> ('a \<Rightarrow> UUID) \<Rightarrow>
   ('a \<Rightarrow> unit io) \<Rightarrow> ('a \<times> IdemResult) io" where
  "resource_body env no_identifier invalid no_result resourceType construct ident store =
    io_bind (ids_New env no_identifier) (\<lambda>uid.
    case construct uid of
      Inl _ \<Rightarrow> io_fail invalid
    | Inr r \<Rightarrow>
      io_bind (store r) (\<lambda>_.
      case NewResult StatusCreated (ReasonCode_String resourceType) (UUID_String (ident r)) of
        Inl _ \<Rightarrow> io_fail no_result
      | Inr established \<Rightarrow> io_return (r, established)))"

definition replay_resource ::
  "go_error \<Rightarrow> nat \<Rightarrow> ReasonCode \<Rightarrow> (UUID \<Rightarrow> 'a io) \<Rightarrow> IdemRecord \<Rightarrow> 'a io" where
  "replay_resource unreadable status resourceType get rc =
    (case established_resource unreadable status resourceType rc of
       Inl e \<Rightarrow> io_fail e
     | Inr uid \<Rightarrow> get uid)"

text \<open>The record is completed with this status and names this resource.\<close>

definition establishes :: "nat \<Rightarrow> ReasonCode \<Rightarrow> UUID \<Rightarrow> IdemRecord \<Rightarrow> bool" where
  "establishes status resourceType u rc \<longleftrightarrow>
    (\<exists>res. idem_result rc = Some res \<and> result_status res = status \<and>
      Result_ResourceType res = Some resourceType \<and> Result_ResourceID res = Some (UUID_String u) \<and> valid_uuid u)"

lemma establishes_unique: "establishes s rt u rc \<Longrightarrow> establishes s' rt' u' rc \<Longrightarrow> u = u' \<and> s = s' \<and> rt = rt'"
  by (auto simp: establishes_def UUID_String_inject)

lemma established_resource_iff: "established_resource e status rt rc = Inr u \<longleftrightarrow> establishes status rt u rc"
  by (simp add: established_resource_Inr establishes_def)

lemma reads_replay_resource [io_laws]:
  "(\<And>u. reads (get u)) \<Longrightarrow> reads (replay_resource e status rt get rc)"
  unfolding replay_resource_def by (auto intro: io_laws split: sum.splits)

lemma replay_resource_Inr:
  "replay_resource e status rt get rc w = (Inr v, w') \<longleftrightarrow> (\<exists>u. establishes status rt u rc \<and> get u w = (Inr v, w'))"
proof (cases "established_resource e status rt rc")
  case (Inl a)
  with established_resource_iff [of e status rt rc] show ?thesis by (auto simp: replay_resource_def io_fail_def)
next
  case (Inr u)
  with established_resource_iff [of e status rt rc] show ?thesis
    unfolding replay_resource_def by (simp, metis)
qed

lemma NewResult_establishes:
  assumes "NewResult status (ReasonCode_String rt) (UUID_String u) = Inr res" and "rt \<noteq> ReasonCode []"
  shows "wf_result res \<and> result_status res = status \<and> Result_ResourceType res = Some rt \<and>
    Result_ResourceID res = Some (UUID_String u)"
proof -
  have "UUID_String u \<noteq> []" using length_UUID_String [of u] by (metis list.size(3) zero_neq_numeral)
  with assms show ?thesis
    by (cases rt) (auto simp: NewResult_Inr Result_ResourceType_def Result_ResourceID_def intro: ReasonCode.expand)
qed

lemma balanced_resource_body [io_laws]:
  "(\<And>r. balanced (store r)) \<Longrightarrow> balanced (resource_body env e1 e2 e3 rt construct ident store)"
  unfolding resource_body_def
  by (auto intro!: balanced_bind balanced_ids balanced_fail balanced_return split: sum.splits)

text \<open>What a successful body did.\<close>

lemma resource_body_Inr:
  assumes run: "resource_body env e1 e2 e3 rt construct ident store w = (Inr (r, established), w')"
  obtains uid wa wb where "construct uid = Inr r" "w_db wa = w_db w"
    "store r wa = (Inr (), wb)" "w_db wb = w_db w'"
    "NewResult StatusCreated (ReasonCode_String rt) (UUID_String (ident r)) = Inr established"
proof -
  from run obtain uid wa where ids: "ids_New env e1 w = (Inr uid, wa)"
    and rest: "(case construct uid of Inl _ \<Rightarrow> io_fail e2
      | Inr r \<Rightarrow> io_bind (store r) (\<lambda>_.
        case NewResult StatusCreated (ReasonCode_String rt) (UUID_String (ident r)) of
          Inl _ \<Rightarrow> io_fail e3 | Inr established \<Rightarrow> io_return (r, established))) wa = (Inr (r, established), w')"
    unfolding resource_body_def io_bind_Inr by blast
  from rest obtain r' wb where "construct uid = Inr r'" "store r' wa = (Inr (), wb)"
    and "(case NewResult StatusCreated (ReasonCode_String rt) (UUID_String (ident r')) of
          Inl _ \<Rightarrow> io_fail e3 | Inr established \<Rightarrow> io_return (r', established)) wb = (Inr (r, established), w')"
    by (cases "construct uid") (auto simp: io_bind_Inr io_fail_def)
  with readsD [OF reads_ids ids] that show thesis
    by (auto simp: io_return_def io_fail_def split: sum.splits)
qed

subsection \<open>Commands\<close>

lemma other_tables_fields:
  "other_tables db = other_tables db' \<longleftrightarrow>
    db_tenants db = db_tenants db' \<and> db_publishers db = db_publishers db' \<and>
    db_publisher_states db = db_publisher_states db' \<and> db_namespaces db = db_namespaces db' \<and>
    db_delegations db = db_delegations db' \<and> db_delegation_states db = db_delegation_states db' \<and>
    db_audit db = db_audit db' \<and> db_sequences db = db_sequences db' \<and> db_outbox db = db_outbox db' \<and>
    db_artifacts db = db_artifacts db' \<and> db_versions db = db_versions db' \<and> db_sources db = db_sources db'"
  by (cases db; cases db') (auto simp: other_tables_def)

text \<open>The command a service runs, on the repository's model.\<close>

abbreviation idem_command ::
  "Env \<Rightarrow> Ctx \<Rightarrow> Identity \<Rightarrow> ReasonCode \<Rightarrow> string \<Rightarrow> Digest \<Rightarrow> go_error \<Rightarrow> go_error \<Rightarrow>
   (Ctx \<Rightarrow> IdemRecord \<Rightarrow> 'a io) \<Rightarrow> (Ctx \<Rightarrow> Time \<Rightarrow> ('a \<times> IdemResult) io) \<Rightarrow> 'a io" where
  "idem_command \<equiv> idempotent_command IdempotencyRepository_Acquire IdempotencyRepository_Complete"

abbreviation idem_bound :: "DB \<Rightarrow> Identity \<Rightarrow> ReasonCode \<Rightarrow> string \<Rightarrow> IdemRecord option" where
  "idem_bound db actor \<equiv> idem_store db (ident_TenantID actor) (ident_PrincipalID actor)"

text \<open>The context of the statements inside the command's transaction.\<close>

abbreviation within :: "Ctx \<Rightarrow> Identity \<Rightarrow> Ctx" where
  "within ctx actor \<equiv> ctx\<lparr>ctx_tx := Some (ident_TenantID actor)\<rparr>"

lemma command_replayed:
  assumes reads: "\<And>tx u. reads (get tx u)" and bal: "\<And>tx now. balanced (body tx now)"
    and run: "idem_command env ctx actor action key digest e1 e2
      (\<lambda>tx. replay_resource e3 status rt (get tx)) body w = (Inr v, w')"
    and bound: "idem_bound (w_db w) actor action key = Some rc"
  shows "w_db w' = w_db w \<and> idem_digest rc = digest \<and>
    (\<exists>u w1 w2. establishes status rt u rc \<and> w_db w1 = w_db w \<and> get (within ctx actor) u w1 = (Inr v, w2))"
proof (rule idem.command_cases [OF _ bal run])
  show "reads (replay_resource e3 status rt (get tx) stored)" for tx stored by (intro io_laws reads)
next
  fix stored w1 w2
  assume "idem_bound (w_db w) actor action key = Some stored" "idem_digest stored = digest"
    "w_db w1 = w_db w" "w_db w' = w_db w"
    "replay_resource e3 status rt (get (within ctx actor)) stored w1 = (Inr v, w2)"
  with bound show ?thesis by (auto simp: replay_resource_Inr)
qed (use bound in simp)

lemma command_first:
  assumes reads: "\<And>tx u. reads (get tx u)" and bal: "\<And>tx now. balanced (body tx now)"
    and run: "idem_command env ctx actor action key digest e1 e2
      (\<lambda>tx. replay_resource e3 status rt (get tx)) body w = (Inr v, w')"
    and free: "idem_bound (w_db w) actor action key = None"
    and inv: "idempotency_inv (w_db w)"
    and local: "\<And>now established wa wb. other_tables (w_db wa) = other_tables (w_db w) \<Longrightarrow>
      body (within ctx actor) now wa = (Inr (v, established), wb) \<Longrightarrow>
      db_idempotency (w_db wb) = db_idempotency (w_db wa) \<and> wf_result established"
  obtains now established rc w1 w2 where
    "other_tables (w_db w1) = other_tables (w_db w)"
    "body (within ctx actor) now w1 = (Inr (v, established), w2)"
    "other_tables (w_db w') = other_tables (w_db w2)"
    "idem_bound (w_db w') actor action key = Some rc" "idem_digest rc = digest"
    "idem_result rc = Some established" "idempotency_inv (w_db w')" "now \<noteq> 0"
proof (rule idem.command_cases [OF _ bal run])
  show "reads (replay_resource e3 status rt (get tx) stored)" for tx stored by (intro io_laws reads)
next
  fix now established rc w1 w2 w3 w4
  assume w1: "other_tables (w_db w1) = other_tables (w_db w)" "idempotency_inv (w_db w) \<longrightarrow> idempotency_inv (w_db w1)"
    and body: "body (within ctx actor) now w1 = (Inr (v, established), w2)"
    and comp: "IdempotencyRepository_Complete env (within ctx actor) (ident_TenantID actor) (ident_PrincipalID actor)
      action key digest established now w3 = (Inr rc, w4)"
    and w: "w_db w3 = w_db w2" "w_db w' = w_db w4" and now: "now \<noteq> 0"
  from local [OF w1(1) body] w have same: "db_idempotency (w_db w3) = db_idempotency (w_db w1)"
    and res: "wf_result established" by simp_all
  from idempotency_inv_local [OF same] w1 inv have inv3: "idempotency_inv (w_db w3)" by simp
  from idem.complete_binds [OF inv3 res comp] w
  have "other_tables (w_db w') = other_tables (w_db w2)" "idem_bound (w_db w') actor action key = Some rc"
    "idem_digest rc = digest" "idem_result rc = Some established" "idempotency_inv (w_db w')" by simp_all
  with w1(1) body now show thesis by (intro that)
qed (use free in simp)

text \<open>The first use of a key by a command that creates one resource.\<close>

lemma resource_command_first:
  assumes reads: "\<And>tx u. reads (get tx u)" and bal: "\<And>tx now. balanced (body tx now)"
    and run: "idem_command env ctx actor action key digest e1 e2
      (\<lambda>tx. replay_resource e3 StatusCreated rt (get tx)) body w = (Inr v, w')"
    and free: "idem_bound (w_db w) actor action key = None"
    and inv: "idempotency_inv (w_db w)" and rt: "rt \<noteq> ReasonCode []"
    and body: "\<And>now established wa wb. body (within ctx actor) now wa = (Inr (v, established), wb) \<Longrightarrow>
      \<exists>wc. w_db wc = w_db wa \<and> resource_body env f1 f2 f3 rt (construct now) ident (store (within ctx actor)) wc =
        (Inr (v, established), wb)"
    and local: "\<And>wa wb. store (within ctx actor) v wa = (Inr (), wb) \<Longrightarrow> db_idempotency (w_db wb) = db_idempotency (w_db wa)"
    and valid: "\<And>u now. construct now u = Inr v \<Longrightarrow> valid_uuid (ident v)"
  obtains now uid rc w1 w2 where "construct now uid = Inr v" "now \<noteq> 0"
    "other_tables (w_db w1) = other_tables (w_db w)" "store (within ctx actor) v w1 = (Inr (), w2)"
    "other_tables (w_db w') = other_tables (w_db w2)"
    "idem_bound (w_db w') actor action key = Some rc" "idem_digest rc = digest"
    "establishes StatusCreated rt (ident v) rc" "idempotency_inv (w_db w')"
proof -
  have inner: "\<exists>uid wc wd. construct now uid = Inr v \<and> w_db wc = w_db wa \<and>
      store (within ctx actor) v wc = (Inr (), wd) \<and> w_db wd = w_db wb \<and>
      NewResult StatusCreated (ReasonCode_String rt) (UUID_String (ident v)) = Inr established"
    if b: "body (within ctx actor) now wa = (Inr (v, established), wb)" for now established wa wb
  proof -
    from body [OF b] obtain wc where wc: "w_db wc = w_db wa"
      and r: "resource_body env f1 f2 f3 rt (construct now) ident (store (within ctx actor)) wc = (Inr (v, established), wb)"
      by blast
    from r show ?thesis by (rule resource_body_Inr) (use wc in auto)
  qed
  show thesis
  proof (rule command_first [OF reads bal run free inv])
    show "db_idempotency (w_db wb) = db_idempotency (w_db wa) \<and> wf_result established"
      if b: "body (within ctx actor) now wa = (Inr (v, established), wb)" for now established wa wb
    proof -
      from inner [OF b] obtain wc wd where "w_db wc = w_db wa" "w_db wd = w_db wb"
        and st: "store (within ctx actor) v wc = (Inr (), wd)"
        and "NewResult StatusCreated (ReasonCode_String rt) (UUID_String (ident v)) = Inr established" by blast
      with NewResult_establishes [OF _ rt] local [OF st] show ?thesis by simp
    qed
  next
    fix now established rc w1 w2
    assume b: "body (within ctx actor) now w1 = (Inr (v, established), w2)"
      and w: "other_tables (w_db w1) = other_tables (w_db w)" "other_tables (w_db w') = other_tables (w_db w2)"
      and rc: "idem_bound (w_db w') actor action key = Some rc" "idem_digest rc = digest"
        "idem_result rc = Some established" "idempotency_inv (w_db w')" "now \<noteq> 0"
    from inner [OF b] obtain uid wc wd where i: "construct now uid = Inr v" "w_db wc = w_db w1"
      "store (within ctx actor) v wc = (Inr (), wd)" "w_db wd = w_db w2"
      and est: "NewResult StatusCreated (ReasonCode_String rt) (UUID_String (ident v)) = Inr established" by blast
    from NewResult_establishes [OF est rt] rc(3) valid [OF i(1)]
    have "establishes StatusCreated rt (ident v) rc" by (simp add: establishes_def)
    with i w rc show thesis by (intro that [of now uid wc wd rc]) simp_all
  qed
qed

end
