(* ===== verification/Go_Json.thy ===== *)
theory Go_Json
  imports Go_Text
begin

text \<open>
  The parts of \<open>encoding/json\<close>, \<open>strconv\<close> and \<open>encoding/base64\<close> the repository uses: the encoding
  of strings and objects by \<open>json.Marshal\<close> (HTML-safe escaping, \<open>U+FFFD\<close> for invalid UTF-8), the
  scanner and decoder (one value, nesting bounded by 10000), the matching of object keys with
  struct fields, decimal integers, and unpadded base64url.
\<close>

subsection \<open>Decimal integers\<close>

fun dec_digits :: "nat \<Rightarrow> string" where
  "dec_digits n = (if n < 10 then [char_of (48 + n)] else dec_digits (n div 10) @ [char_of (48 + n mod 10)])"

declare dec_digits.simps [simp del]

definition show_int :: "int \<Rightarrow> string" where
  "show_int i = (if i < 0 then ''-'' @ dec_digits (nat (- i)) else dec_digits (nat i))"

definition digits_value :: "string \<Rightarrow> nat" where
  "digits_value s = foldl (\<lambda>acc c. acc * 10 + (code c - 48)) 0 s"

text \<open>\<open>strconv.ParseInt\<close>/\<open>ParseUint\<close> on a JSON number literal: no fraction, no exponent, in range.\<close>

definition parse_int_range :: "int \<Rightarrow> int \<Rightarrow> string \<Rightarrow> int option" where
  "parse_int_range lo hi s =
    (let negative = (s \<noteq> [] \<and> hd s = CHR ''-''); digits = (if negative then tl s else s) in
     if digits = [] \<or> \<not> list_all is_digit digits then None
     else let v = (if negative then - int (digits_value digits) else int (digits_value digits)) in
       if lo \<le> v \<and> v \<le> hi then Some v else None)"

subsection \<open>Encoding runes\<close>

text \<open>\<open>utf8.AppendRune\<close>: surrogates and values above \<open>U+10FFFF\<close> become \<open>U+FFFD\<close>.\<close>

definition utf8_encode :: "nat \<Rightarrow> string" where
  "utf8_encode rune =
    (let r = (if 0xD800 \<le> rune \<and> rune \<le> 0xDFFF \<or> rune > 0x10FFFF then rune_error else rune) in
     if r < 0x80 then [char_of r]
     else if r < 0x800 then [char_of (0xC0 + r div 64), char_of (0x80 + r mod 64)]
     else if r < 0x10000 then
       [char_of (0xE0 + r div 4096), char_of (0x80 + r div 64 mod 64), char_of (0x80 + r mod 64)]
     else
       [char_of (0xF0 + r div 262144), char_of (0x80 + r div 4096 mod 64),
        char_of (0x80 + r div 64 mod 64), char_of (0x80 + r mod 64)])"

subsection \<open>Encoding values\<close>

datatype json =
    JNull | JBool bool | JNumber string | JString string | JArray "json list"
  | JObject "(string \<times> json) list"

definition hex4 :: "nat \<Rightarrow> string" where
  "hex4 r = hex_encode [char_of (r div 256), char_of (r mod 256)]"

text \<open>The escape of one ASCII byte by \<open>appendString\<close> with \<open>escapeHTML\<close>.\<close>

definition escape_ascii :: "nat \<Rightarrow> string" where
  "escape_ascii b =
    (if b = 0x22 then [CHR 0x5C, CHR 0x22]
     else if b = 0x5C then [CHR 0x5C, CHR 0x5C]
     else if b = 8 then [CHR 0x5C, CHR ''b'']
     else if b = 12 then [CHR 0x5C, CHR ''f'']
     else if b = 10 then [CHR 0x5C, CHR ''n'']
     else if b = 13 then [CHR 0x5C, CHR ''r'']
     else if b = 9 then [CHR 0x5C, CHR ''t'']
     else if b < 0x20 \<or> b = 0x3C \<or> b = 0x3E \<or> b = 0x26 then CHR 0x5C # CHR ''u'' # hex4 b
     else [char_of b])"

function json_escape :: "string \<Rightarrow> string" where
  "json_escape s =
    (if s = [] then []
     else (case decode_rune s of
             None \<Rightarrow> CHR 0x5C # CHR ''u'' # hex4 rune_error @ json_escape (tl s)
           | Some (r, w) \<Rightarrow>
               (if r < 0x80 then escape_ascii r
                else if r = 0x2028 \<or> r = 0x2029 then CHR 0x5C # CHR ''u'' # hex4 r
                else take w s) @ json_escape (drop w s)))"
  by pat_completeness auto
termination
  by (relation "measure length") (auto dest: decode_rune_width)

declare json_escape.simps [simp del]

definition json_quote :: "string \<Rightarrow> string" where
  "json_quote s = CHR 0x22 # json_escape s @ [CHR 0x22]"

fun json_encode :: "json \<Rightarrow> string" where
  "json_encode JNull = ''null''"
| "json_encode (JBool b) = (if b then ''true'' else ''false'')"
| "json_encode (JNumber literal) = literal"
| "json_encode (JString s) = json_quote s"
| "json_encode (JArray vs) = ''['' @ join_with (CHR '','') (map json_encode vs) @ '']''"
| "json_encode (JObject ms) =
    CHR 0x7B # join_with (CHR '','')
      (map (\<lambda>m. json_quote (fst m) @ CHR '':'' # json_encode (snd m)) ms) @ [CHR 0x7D]"

subsection \<open>Scanning\<close>

definition is_json_space :: "char \<Rightarrow> bool" where
  "is_json_space c \<longleftrightarrow> code c = 0x20 \<or> code c = 9 \<or> code c = 10 \<or> code c = 13"

definition skip_space :: "string \<Rightarrow> string" where
  "skip_space s = dropWhile is_json_space s"

text \<open>\<open>getu4\<close> after the characters \<open>\u\<close>.\<close>

definition parse_hex4 :: "string \<Rightarrow> (nat \<times> string) option" where
  "parse_hex4 s =
    (case s of a # b # c # d # rest \<Rightarrow>
       (case (hex_value a, hex_value b, hex_value c, hex_value d) of
          (Some w, Some x, Some y, Some z) \<Rightarrow> Some (w * 4096 + x * 256 + y * 16 + z, rest)
        | _ \<Rightarrow> None)
     | _ \<Rightarrow> None)"

lemma parse_hex4_length: "parse_hex4 s = Some (r, rest) \<Longrightarrow> length rest < length s"
  by (auto simp: parse_hex4_def split: list.splits option.splits prod.splits)

definition simple_escape :: "char \<Rightarrow> char option" where
  "simple_escape c =
    (let b = code c in
     if b = 0x22 \<or> b = 0x5C \<or> b = 0x2F then Some c
     else if c = CHR ''b'' then Some (CHR 8)
     else if c = CHR ''f'' then Some (CHR 12)
     else if c = CHR ''n'' then Some (CHR 10)
     else if c = CHR ''r'' then Some (CHR 13)
     else if c = CHR ''t'' then Some (CHR 9)
     else None)"

text \<open>
  The low half of a surrogate pair: when \<open>\u\<close> with a low surrogate follows a high one, the pair is
  one rune; otherwise the first is \<open>U+FFFD\<close> and the rest is read again.
\<close>

definition surrogate_pair :: "nat \<Rightarrow> string \<Rightarrow> nat \<times> string" where
  "surrogate_pair hi rest =
    (if take 2 rest = [CHR 0x5C, CHR ''u''] \<and> 0xD800 \<le> hi \<and> hi < 0xDC00 then
       (case parse_hex4 (drop 2 rest) of
          Some (lo, rest') \<Rightarrow>
            (if 0xDC00 \<le> lo \<and> lo < 0xE000
             then ((hi - 0xD800) * 1024 + (lo - 0xDC00) + 0x10000, rest')
             else (rune_error, rest))
        | None \<Rightarrow> (rune_error, rest))
     else (rune_error, rest))"

definition unicode_escape :: "string \<Rightarrow> (nat \<times> string) option" where
  "unicode_escape s =
    (case parse_hex4 s of
       None \<Rightarrow> None
     | Some (r, rest) \<Rightarrow>
         Some (if 0xD800 \<le> r \<and> r < 0xE000 then surrogate_pair r rest else (r, rest)))"

lemma unicode_escape_length:
  assumes "unicode_escape s = Some (r, rest)"
  shows "length rest < length s"
proof -
  from assms obtain r0 rest0 where hex: "parse_hex4 s = Some (r0, rest0)"
    and "rest = rest0 \<or> rest = snd (surrogate_pair r0 rest0)"
    by (auto simp: unicode_escape_def split: option.splits if_splits)
  moreover have "length (snd (surrogate_pair r0 rest0)) \<le> length rest0"
    using parse_hex4_length [of "drop 2 rest0"]
    by (cases "parse_hex4 (drop 2 rest0)") (force simp: surrogate_pair_def)+
  ultimately show ?thesis using parse_hex4_length [OF hex] by auto
qed

text \<open>The contents of a string literal after the opening quote, and what follows the closing one.\<close>

function parse_string :: "string \<Rightarrow> (string \<times> string) option" where
  "parse_string s =
    (case s of
       [] \<Rightarrow> None
     | c # cs \<Rightarrow>
       (if code c = 0x22 then Some ([], cs)
        else if code c < 0x20 then None
        else if code c = 0x5C then
          (case cs of
             [] \<Rightarrow> None
           | e # es \<Rightarrow>
             (if e = CHR ''u'' then
                (case unicode_escape es of
                   None \<Rightarrow> None
                 | Some (r, rest) \<Rightarrow> map_option (map_prod ((@) (utf8_encode r)) id) (parse_string rest))
              else (case simple_escape e of
                      None \<Rightarrow> None
                    | Some x \<Rightarrow> map_option (map_prod (Cons x) id) (parse_string es))))
        else
          (case decode_rune s of
             None \<Rightarrow> map_option (map_prod ((@) (utf8_encode rune_error)) id) (parse_string cs)
           | Some (r, w) \<Rightarrow> map_option (map_prod ((@) (take w s)) id) (parse_string (drop w s)))))"
  by pat_completeness auto
termination
  by (relation "measure length")
    (auto dest: decode_rune_width unicode_escape_length [THEN less_SucI, THEN less_SucI])

declare parse_string.simps [simp del]

text \<open>The longest number literal the JSON grammar allows at the start of the input.\<close>

definition scan_digits :: "string \<Rightarrow> string \<times> string" where
  "scan_digits s = (takeWhile is_digit s, dropWhile is_digit s)"

definition parse_number :: "string \<Rightarrow> (string \<times> string) option" where
  "parse_number s =
    (let (sign, s1) = (if s \<noteq> [] \<and> hd s = CHR ''-'' then (''-'', tl s) else ([], s));
         whole = (if s1 = [] then None
           else if hd s1 = CHR ''0'' then Some (''0'', tl s1)
           else if is_digit (hd s1) then Some (scan_digits s1) else None) in
     case whole of
       None \<Rightarrow> None
     | Some (integer, s2) \<Rightarrow>
       (let fraction = (if s2 \<noteq> [] \<and> hd s2 = CHR ''.'' then
              (let (ds, s3) = scan_digits (tl s2) in
               if ds = [] then None else Some (CHR ''.'' # ds, s3))
            else Some ([], s2)) in
        case fraction of
          None \<Rightarrow> None
        | Some (frac, s3) \<Rightarrow>
          (if s3 \<noteq> [] \<and> (hd s3 = CHR ''e'' \<or> hd s3 = CHR ''E'') then
             (let (esign, s4) = (if tl s3 \<noteq> [] \<and> (hd (tl s3) = CHR ''+'' \<or> hd (tl s3) = CHR ''-'')
                    then ([hd (tl s3)], tl (tl s3)) else ([], tl s3));
                  (ds, s5) = scan_digits s4 in
              if ds = [] then None
              else Some (sign @ integer @ frac @ hd s3 # esign @ ds, s5))
           else Some (sign @ integer @ frac, s3))))"

definition max_nesting :: nat where
  "max_nesting = 10000"

text \<open>
  One JSON value at the start of the input (after spaces) and the input after it. The first
  argument is fuel, the second the nesting depth; every call consumes input, so \<open>2 * length + 2\<close>
  is more fuel than a run can use.
\<close>

fun parse_value :: "nat \<Rightarrow> nat \<Rightarrow> string \<Rightarrow> (json \<times> string) option"
  and parse_elements :: "nat \<Rightarrow> nat \<Rightarrow> string \<Rightarrow> (json list \<times> string) option"
  and parse_members :: "nat \<Rightarrow> nat \<Rightarrow> string \<Rightarrow> ((string \<times> json) list \<times> string) option" where
  "parse_value 0 depth s = None"
| "parse_value (Suc fuel) depth s =
    (case skip_space s of
       [] \<Rightarrow> None
     | c # cs \<Rightarrow>
       (if code c = 0x22 then map_option (map_prod JString id) (parse_string cs)
        else if c = CHR ''['' then
          (if depth \<ge> max_nesting then None
           else case skip_space cs of
             [] \<Rightarrow> None
           | d # ds \<Rightarrow>
             (if d = CHR '']'' then Some (JArray [], ds)
              else map_option (map_prod JArray id) (parse_elements fuel (Suc depth) cs)))
        else if code c = 0x7B then
          (if depth \<ge> max_nesting then None
           else case skip_space cs of
             [] \<Rightarrow> None
           | d # ds \<Rightarrow>
             (if code d = 0x7D then Some (JObject [], ds)
              else map_option (map_prod JObject id) (parse_members fuel (Suc depth) cs)))
        else if take 4 (c # cs) = ''true'' then Some (JBool True, drop 4 (c # cs))
        else if take 5 (c # cs) = ''false'' then Some (JBool False, drop 5 (c # cs))
        else if take 4 (c # cs) = ''null'' then Some (JNull, drop 4 (c # cs))
        else map_option (map_prod JNumber id) (parse_number (c # cs))))"
| "parse_elements 0 depth s = None"
| "parse_elements (Suc fuel) depth s =
    (case parse_value fuel depth s of
       None \<Rightarrow> None
     | Some (v, rest) \<Rightarrow>
       (case skip_space rest of
          [] \<Rightarrow> None
        | c # cs \<Rightarrow>
          (if c = CHR '','' then map_option (map_prod (Cons v) id) (parse_elements fuel depth cs)
           else if c = CHR '']'' then Some ([v], cs) else None)))"
| "parse_members 0 depth s = None"
| "parse_members (Suc fuel) depth s =
    (case skip_space s of
       [] \<Rightarrow> None
     | q # qs \<Rightarrow>
       (if code q \<noteq> 0x22 then None
        else case parse_string qs of
          None \<Rightarrow> None
        | Some (key, rest) \<Rightarrow>
          (case skip_space rest of
             [] \<Rightarrow> None
           | c # cs \<Rightarrow>
             (if c \<noteq> CHR '':'' then None
              else case parse_value fuel depth cs of
                None \<Rightarrow> None
              | Some (v, rest') \<Rightarrow>
                (case skip_space rest' of
                   [] \<Rightarrow> None
                 | d # ds \<Rightarrow>
                   (if d = CHR '','' then
                      map_option (map_prod (Cons (key, v)) id) (parse_members fuel depth ds)
                    else if code d = 0x7D then Some ([(key, v)], ds) else None))))))"

text \<open>\<open>Decoder.Decode\<close>: the first value of the stream and what is left of it.\<close>

definition json_decode_first :: "string \<Rightarrow> (json \<times> string) option" where
  "json_decode_first s = parse_value (2 * length s + 2) 0 s"

text \<open>\<open>json.Unmarshal\<close>, \<open>json.Valid\<close>: the whole input is one value.\<close>

definition json_parse :: "string \<Rightarrow> json option" where
  "json_parse s =
    (case json_decode_first s of
       None \<Rightarrow> None
     | Some (v, rest) \<Rightarrow> if skip_space rest = [] then Some v else None)"

subsection \<open>Struct fields\<close>

text \<open>
  A key selects the field of that name, or the one whose name is equal under simple case folding;
  besides the ASCII letters only \<open>U+017F\<close> and \<open>U+212A\<close> fold to ASCII.
\<close>

definition fold_rune :: "nat \<Rightarrow> nat" where
  "fold_rune r =
    (if 97 \<le> r \<and> r \<le> 122 then r - 32 else if r = 0x17F then 83 else if r = 0x212A then 75 else r)"

definition select_field :: "string list \<Rightarrow> string \<Rightarrow> string option" where
  "select_field names key =
    (if key \<in> set names then Some key
     else find (\<lambda>name. map fold_rune (runes name) = map fold_rune (runes key)) names)"

text \<open>Decoding a value into a \<open>string\<close>, an integer: \<open>null\<close> keeps what is there, other kinds are errors.\<close>

definition decode_string :: "string \<Rightarrow> json \<Rightarrow> string option" where
  "decode_string old v = (case v of JString s \<Rightarrow> Some s | JNull \<Rightarrow> Some old | _ \<Rightarrow> None)"

definition decode_int :: "int \<Rightarrow> int \<Rightarrow> int \<Rightarrow> json \<Rightarrow> int option" where
  "decode_int lo hi old v =
    (case v of JNumber literal \<Rightarrow> parse_int_range lo hi literal | JNull \<Rightarrow> Some old | _ \<Rightarrow> None)"

subsection \<open>Base64\<close>

text \<open>\<open>base64.RawURLEncoding\<close>: the URL alphabet without padding.\<close>

definition b64_alphabet :: string where
  "b64_alphabet = ''ABCDEFGHIJKLMNOPQRSTUVWXYZabcdefghijklmnopqrstuvwxyz0123456789-_''"

definition b64_char :: "nat \<Rightarrow> char" where
  "b64_char n = b64_alphabet ! n"

fun b64_encode :: "string \<Rightarrow> string" where
  "b64_encode [] = []"
| "b64_encode [a] = (let n = code a * 16 in [b64_char (n div 64), b64_char (n mod 64)])"
| "b64_encode [a, b] =
    (let n = (code a * 256 + code b) * 4 in
     [b64_char (n div 4096), b64_char (n div 64 mod 64), b64_char (n mod 64)])"
| "b64_encode (a # b # c # rest) =
    (let n = code a * 65536 + code b * 256 + code c in
     b64_char (n div 262144) # b64_char (n div 4096 mod 64) # b64_char (n div 64 mod 64) #
     b64_char (n mod 64) # b64_encode rest)"

definition b64_value :: "char \<Rightarrow> nat option" where
  "b64_value c =
    (let b = code c in
     if 65 \<le> b \<and> b \<le> 90 then Some (b - 65)
     else if 97 \<le> b \<and> b \<le> 122 then Some (b - 71)
     else if 48 \<le> b \<and> b \<le> 57 then Some (b + 4)
     else if b = 45 then Some 62 else if b = 95 then Some 63 else None)"

text \<open>
  \<open>DecodeString\<close>: line breaks are skipped, one left-over character or a foreign one is an error,
  the unused bits of the last character are ignored.
\<close>

fun b64_decode_groups :: "nat list \<Rightarrow> string option" where
  "b64_decode_groups [] = Some []"
| "b64_decode_groups [a] = None"
| "b64_decode_groups [a, b] = Some [char_of ((a * 64 + b) div 16)]"
| "b64_decode_groups [a, b, c] =
    (let n = (a * 4096 + b * 64 + c) div 4 in Some [char_of (n div 256), char_of (n mod 256)])"
| "b64_decode_groups (a # b # c # d # rest) =
    (let n = a * 262144 + b * 4096 + c * 64 + d in
     map_option (\<lambda>t. char_of (n div 65536) # char_of (n div 256 mod 256) # char_of (n mod 256) # t)
       (b64_decode_groups rest))"

definition b64_decode :: "string \<Rightarrow> string option" where
  "b64_decode s =
    (let vs = map b64_value (filter (\<lambda>c. code c \<noteq> 10 \<and> code c \<noteq> 13) s) in
     if None \<in> set vs then None else b64_decode_groups (map the vs))"

section \<open>Round trips\<close>

subsection \<open>Decimal integers\<close>

lemma digits_value_snoc: "digits_value (s @ [c]) = digits_value s * 10 + (code c - 48)"
  by (simp add: digits_value_def)

lemma dec_digits_spec:
  "digits_value (dec_digits n) = n \<and> dec_digits n \<noteq> [] \<and> list_all is_digit (dec_digits n) \<and>
    (hd (dec_digits n) = CHR ''0'' \<longrightarrow> n = 0)"
proof (induction n rule: less_induct)
  case (less n)
  have digit: "is_digit (char_of (48 + m))" "code (char_of (48 + m) :: char) = 48 + m" if "m < 10" for m
    using that by (simp_all add: is_digit_def of_char_of)
  show ?case
  proof (cases "n < 10")
    case True
    have "n = 0" if "char_of (48 + n) = CHR ''0''"
    proof -
      have "code (char_of (48 + n) :: char) = code (CHR ''0'')" using that by simp
      with digit(2) [OF True] show ?thesis by simp
    qed
    with True digit [OF True] show ?thesis
      by (subst (1 2 3 4) dec_digits.simps) (simp add: digits_value_def)
  next
    case False
    then have small: "n div 10 < n" "n mod 10 < 10" "0 < n div 10" by auto
    from less.IH [OF small(1)] small digit [OF small(2)] False show ?thesis
      by (subst (1 2 3 4) dec_digits.simps) (simp add: digits_value_snoc)
  qed
qed

lemma dec_digits_not_minus: "hd (dec_digits n) \<noteq> CHR ''-''"
proof
  assume "hd (dec_digits n) = CHR ''-''"
  with dec_digits_spec [of n] have "is_digit (CHR ''-'')"
    by (metis list.set_sel(1) list_all_iff)
  then show False by (simp add: is_digit_def)
qed

lemma parse_int_show_int: "lo \<le> i \<Longrightarrow> i \<le> hi \<Longrightarrow> parse_int_range lo hi (show_int i) = Some i"
  using dec_digits_spec [of "nat i"] dec_digits_spec [of "nat (- i)"] dec_digits_not_minus [of "nat i"]
  by (simp add: parse_int_range_def show_int_def Let_def)

text \<open>What may follow a number.\<close>

definition number_end :: "string \<Rightarrow> bool" where
  "number_end rest \<longleftrightarrow> rest = [] \<or> hd rest \<in> {CHR '','', CHR '']'', CHR 0x7D}"

lemma number_end_cases:
  "number_end rest \<Longrightarrow> rest = [] \<or> \<not> is_digit (hd rest) \<and> hd rest \<noteq> CHR ''.'' \<and> hd rest \<noteq> CHR ''e'' \<and> hd rest \<noteq> CHR ''E''"
  by (auto simp: number_end_def is_digit_def)

lemma scan_digits_append:
  "list_all is_digit ds \<Longrightarrow> number_end rest \<Longrightarrow> scan_digits (ds @ rest) = (ds, rest)"
  using number_end_cases [of rest]
  by (cases rest) (auto simp: scan_digits_def list_all_iff takeWhile_append dropWhile_append)

lemma parse_number_digits:
  assumes "number_end rest" and "sign = [] \<or> sign = ''-''"
  shows "parse_number (sign @ dec_digits n @ rest) = Some (sign @ dec_digits n, rest)"
proof -
  obtain d ds where ds: "dec_digits n = d # ds" using dec_digits_spec [of n] by (cases "dec_digits n") auto
  have digits: "is_digit d" "list_all is_digit ds" "d \<noteq> CHR ''-''"
    using dec_digits_spec [of n] dec_digits_not_minus [of n] by (simp_all add: ds)
  have zero: "ds = []" if "d = CHR ''0''"
  proof -
    have "n = 0" using dec_digits_spec [of n] that by (simp add: ds)
    with ds show ?thesis by (simp add: dec_digits.simps)
  qed
  have stop: "rest = [] \<or> (\<exists>r rs. rest = r # rs \<and> r \<noteq> CHR ''.'' \<and> r \<noteq> CHR ''e'' \<and> r \<noteq> CHR ''E'')"
    using number_end_cases [OF assms(1)] by (cases rest) auto
  have scan: "scan_digits (d # ds @ rest) = (d # ds, rest)"
    using scan_digits_append [of "d # ds" rest] assms(1) digits by simp
  show ?thesis
  proof (cases "d = CHR ''0''")
    case True
    with zero have "ds = []" by simp
    with True assms(2) stop show ?thesis
      by (elim disjE exE conjE) (simp_all add: parse_number_def ds)
  next
    case False
    with assms(2) stop scan digits show ?thesis
      by (elim disjE exE conjE) (simp_all add: parse_number_def ds)
  qed
qed

lemma parse_number_show_int: "number_end rest \<Longrightarrow> parse_number (show_int i @ rest) = Some (show_int i, rest)"
  using parse_number_digits [of rest "''-''" "nat (- i)"] parse_number_digits [of rest "[]" "nat i"]
  by (simp add: show_int_def)

subsection \<open>Base64\<close>

lemma b64_alphabet_codes: "b64_alphabet = map char_of ([65..<91] @ [97..<123] @ [48..<58] @ [45, 95])"
  by code_simp

lemma code_b64_char:
  "n < 64 \<Longrightarrow> code (b64_char n) =
    (if n < 26 then 65 + n else if n < 52 then 71 + n else if n < 62 then n - 4 else if n = 62 then 45 else 95)"
  unfolding b64_char_def b64_alphabet_codes
  by (auto simp: nth_append of_char_of nth_Cons split: nat.splits)

lemma b64_char_value:
  "n < 64 \<Longrightarrow> b64_value (b64_char n) = Some n \<and> code (b64_char n) \<noteq> 10 \<and> code (b64_char n) \<noteq> 13"
  by (auto simp: b64_value_def code_b64_char Let_def)

definition b64_values :: "string \<Rightarrow> nat list option" where
  "b64_values s =
    (let vs = map b64_value (filter (\<lambda>c. code c \<noteq> 10 \<and> code c \<noteq> 13) s) in
     if None \<in> set vs then None else Some (map the vs))"

lemma b64_values_simps [simp]:
  "b64_values [] = Some []"
  "n < 64 \<Longrightarrow> b64_values (b64_char n # s) = map_option (Cons n) (b64_values s)"
  by (simp_all add: b64_values_def b64_char_value Let_def)

lemma b64_decode_values: "b64_decode s = Option.bind (b64_values s) b64_decode_groups"
  by (simp add: b64_decode_def b64_values_def Let_def)

lemma three_bytes:
  fixes a b c :: nat
  assumes "a < 256" "b < 256" "c < 256"
  shows "(a * 65536 + b * 256 + c) div 262144 < 64"
    "(a * 65536 + b * 256 + c) div 65536 = a" "(a * 65536 + b * 256 + c) div 256 mod 256 = b"
    "(a * 65536 + b * 256 + c) mod 256 = c"
proof -
  have bound: "a * 65536 + b * 256 + c < 64 * 262144" using assms by linarith
  then show "(a * 65536 + b * 256 + c) div 262144 < 64" by (rule less_mult_imp_div_less)
  show "(a * 65536 + b * 256 + c) div 65536 = a" using assms by (intro div_nat_eqI) auto
  have "(a * 65536 + b * 256 + c) div 256 = a * 256 + b" using assms by (intro div_nat_eqI) auto
  with assms show "(a * 65536 + b * 256 + c) div 256 mod 256 = b" by simp
  have "a * 65536 + b * 256 + c = (a * 256 + b) * 256 + c" by simp
  with assms show "(a * 65536 + b * 256 + c) mod 256 = c" by (simp only: mod_mult_self3 mod_less)
qed

lemma two_bytes: "a < 256 \<Longrightarrow> b < 256 \<Longrightarrow> (a * 256 + b) * 4 < 64 * (4096 :: nat)"
proof -
  assume "a < 256" "b < 256"
  then have "a \<le> 255" "b \<le> 255" by simp_all
  then have "a * 256 \<le> 255 * 256" by (intro mult_right_mono) auto
  with \<open>b \<le> 255\<close> show ?thesis by simp
qed

lemma three_digits:
  fixes n :: nat
  shows "n div 4096 * 4096 + n div 64 mod 64 * 64 + n mod 64 = n"
proof -
  have "n div 64 div 64 * 64 + n div 64 mod 64 = n div 64" by (rule div_mult_mod_eq)
  moreover have "n div 64 * 64 + n mod 64 = n" by (rule div_mult_mod_eq)
  moreover have "n div 4096 = n div 64 div 64" by (simp add: div_mult2_eq [symmetric])
  ultimately show ?thesis by linarith
qed

lemma four_digits:
  fixes n :: nat
  shows "n div 262144 * 262144 + n div 4096 mod 64 * 4096 + n div 64 mod 64 * 64 + n mod 64 = n"
proof -
  have "n div 262144 * 64 + n div 4096 mod 64 = n div 4096"
    using div_mult_mod_eq [of "n div 4096" 64] by (simp add: div_mult2_eq [symmetric])
  with three_digits [of n] show ?thesis by linarith
qed

lemma b64_groups_encode: "\<exists>vs. b64_values (b64_encode s) = Some vs \<and> b64_decode_groups vs = Some s"
proof (induction s rule: b64_encode.induct)
  case (2 a)
  have "code a * 16 < 64 * 64" using code_less_256 [of a] by linarith
  then have "code a * 16 div 64 < 64" by (rule less_mult_imp_div_less)
  then have "b64_values (b64_encode [a]) = Some [code a * 16 div 64, code a * 16 mod 64]"
    by (simp add: Let_def del: div_mult_mult2)
  moreover have "b64_decode_groups [code a * 16 div 64, code a * 16 mod 64] = Some [a]"
    unfolding b64_decode_groups.simps div_mult_mod_eq by simp
  ultimately show ?case by blast
next
  case (3 a b)
  let ?n = "(code a * 256 + code b) * 4"
  have "?n < 64 * 4096" by (rule two_bytes) simp_all
  then have lt: "?n div 4096 < 64" by (rule less_mult_imp_div_less)
  have "b64_values (b64_encode [a, b]) = Some [?n div 4096, ?n div 64 mod 64, ?n mod 64]"
    using lt by (simp add: Let_def del: mult_Suc)
  moreover have "b64_decode_groups [?n div 4096, ?n div 64 mod 64, ?n mod 64] = Some [a, b]"
    unfolding b64_decode_groups.simps three_digits Let_def using code_less_256 [of b] by simp
  ultimately show ?case by blast
next
  case (4 a b c rest)
  then obtain vs where vs: "b64_values (b64_encode rest) = Some vs" "b64_decode_groups vs = Some rest" by blast
  let ?n = "code a * 65536 + code b * 256 + code c"
  note bytes = three_bytes [OF code_less_256 [of a] code_less_256 [of b] code_less_256 [of c]]
  have "b64_values (b64_encode (a # b # c # rest)) =
      Some (?n div 262144 # ?n div 4096 mod 64 # ?n div 64 mod 64 # ?n mod 64 # vs)"
    using vs(1) bytes(1) by (simp add: Let_def del: mult_Suc)
  moreover have "b64_decode_groups (?n div 262144 # ?n div 4096 mod 64 # ?n div 64 mod 64 # ?n mod 64 # vs) =
      Some (a # b # c # rest)"
    unfolding b64_decode_groups.simps four_digits Let_def bytes vs(2) by simp
  ultimately show ?case by blast
qed simp

lemma b64_decode_encode [simp]: "b64_decode (b64_encode s) = Some s"
  using b64_groups_encode [of s] by (auto simp: b64_decode_values)

end
