(* ===== verification/Json_Roundtrip.thy ===== *)
theory Json_Roundtrip
  imports Go_Json
begin

text \<open>
  The decoder inverts the encoder: every JSON value built from valid UTF-8 strings, decimal
  integers and a bounded nesting is read back from its encoding.
\<close>

subsection \<open>Strings\<close>

lemma parse_hex4_hex4: "r < 65536 \<Longrightarrow> parse_hex4 (hex4 r @ rest) = Some (r, rest)"
proof -
  assume r: "r < 65536"
  have lt: "r div 256 < 256" "r div 256 div 16 < 16" "r mod 256 div 16 < 16"
    using r by (simp_all add: less_mult_imp_div_less)
  have hi: "r div 256 div 16 * 16 + r div 256 mod 16 = r div 256"
    and lo: "r mod 256 div 16 * 16 + r mod 256 mod 16 = r mod 256"
    and all: "r div 256 * 256 + r mod 256 = r" by (rule div_mult_mod_eq)+
  have codes: "code (char_of (r div 256) :: char) = r div 256" "code (char_of (r mod 256) :: char) = r mod 256"
    using lt by (simp_all add: of_char_of)
  have "r div 256 div 16 * 4096 + r div 256 mod 16 * 256 + r mod 256 div 16 * 16 + r mod 256 mod 16 = r"
    using hi lo all by linarith
  then show ?thesis
    using lt by (simp only: hex4_def hex_encode.simps codes append.simps parse_hex4_def list.case
        hex_value_digit option.case prod.case mod_less_divisor zero_less_numeral)
qed

lemma unicode_escape_hex4:
  "r < 65536 \<Longrightarrow> \<not> (0xD800 \<le> r \<and> r < 0xE000) \<Longrightarrow> unicode_escape (hex4 r @ rest) = Some (r, rest)"
  by (auto simp: unicode_escape_def parse_hex4_hex4)

lemma code_eq_char: "code c = n \<Longrightarrow> c = char_of n"
  by auto

lemma code_inject: "code c = code d \<Longrightarrow> c = d"
  by simp

lemma code_escapes:
  "code c = 0x22 \<Longrightarrow> c = CHR 0x22" "code c = 0x5C \<Longrightarrow> c = CHR 0x5C" "code c = 8 \<Longrightarrow> c = CHR 0x08"
  "code c = 12 \<Longrightarrow> c = CHR 0x0C" "code c = 10 \<Longrightarrow> c = CHR 0x0A" "code c = 13 \<Longrightarrow> c = CHR 0x0D"
  "code c = 9 \<Longrightarrow> c = CHR 0x09"
  by (rule code_inject, simp)+

lemma parse_string_ascii:
  assumes "code c < 0x80"
  shows "parse_string (escape_ascii (code c) @ rest) = map_option (map_prod (Cons c) id) (parse_string rest)"
proof -
  have cons: "(@) [c] = (#) c" by (simp add: fun_eq_iff)
  have esc: "parse_string (CHR 0x5C # e # rest) = map_option (map_prod (Cons x) id) (parse_string rest)"
    if "simple_escape e = Some x" "e \<noteq> CHR ''u''" for e x
    using that by (subst parse_string.simps) simp
  have uni: "parse_string (CHR 0x5C # CHR ''u'' # hex4 (code c) @ rest) = map_option (map_prod (Cons c) id) (parse_string rest)"
    using assms unicode_escape_hex4 [of "code c" rest] cons
    by (subst parse_string.simps) (simp add: utf8_encode_def Let_def comp_def)
  have plain: "parse_string (c # rest) = map_option (map_prod (Cons c) id) (parse_string rest)"
    if "code c \<ge> 0x20" "code c \<noteq> 0x22" "code c \<noteq> 0x5C"
    using that assms cons by (subst parse_string.simps) (simp add: decode_rune_ascii)
  consider "code c = 0x22" | "code c = 0x5C" | "code c = 8" | "code c = 12" | "code c = 10" | "code c = 13"
    | "code c = 9" | "code c \<notin> {0x22, 0x5C, 8, 12, 10, 13, 9}" by blast
  then show ?thesis
  proof cases
    case 8
    then show ?thesis using uni plain by (auto simp: escape_ascii_def)
  qed (auto simp: escape_ascii_def simple_escape_def dest!: code_escapes intro!: esc)
qed

lemma decode_rune_take:
  assumes "decode_rune s = Some (r, w)"
  shows "decode_rune (take w s @ t) = Some (r, w)"
proof (cases s)
  case (Cons c u)
  have two: "decode_rune (c # v) = (case v of c1 # _ \<Rightarrow>
      if cont (fst (second_range (code c))) (snd (second_range (code c))) c1
      then Some ((code c - 0xC0) * 64 + (code c1 - 0x80), 2) else None | _ \<Rightarrow> None)"
    if "0xC2 \<le> code c \<and> code c \<le> 0xDF" for v
    using that by (simp add: decode_rune_def Let_def)
  have three: "decode_rune (c # v) = (case v of c1 # c2 # _ \<Rightarrow>
      if cont (fst (second_range (code c))) (snd (second_range (code c))) c1 \<and> cont 0x80 0xBF c2
      then Some ((code c - 0xE0) * 4096 + (code c1 - 0x80) * 64 + (code c2 - 0x80), 3) else None | _ \<Rightarrow> None)"
    if "0xE0 \<le> code c \<and> code c \<le> 0xEF" for v
    using that by (simp add: decode_rune_def Let_def)
  have four: "decode_rune (c # v) = (case v of c1 # c2 # c3 # _ \<Rightarrow>
      if cont (fst (second_range (code c))) (snd (second_range (code c))) c1 \<and> cont 0x80 0xBF c2 \<and> cont 0x80 0xBF c3
      then Some ((code c - 0xF0) * 262144 + (code c1 - 0x80) * 4096 + (code c2 - 0x80) * 64 + (code c3 - 0x80), 4)
      else None | _ \<Rightarrow> None)"
    if "0xF0 \<le> code c \<and> code c \<le> 0xF4" for v
    using that by (simp add: decode_rune_def Let_def)
  consider "code c < 0x80" | "0xC2 \<le> code c \<and> code c \<le> 0xDF" | "0xE0 \<le> code c \<and> code c \<le> 0xEF"
    | "0xF0 \<le> code c \<and> code c \<le> 0xF4" | "\<not> code c < 0x80" "\<not> (0xC2 \<le> code c \<and> code c \<le> 0xDF)"
      "\<not> (0xE0 \<le> code c \<and> code c \<le> 0xEF)" "\<not> (0xF0 \<le> code c \<and> code c \<le> 0xF4)" by blast
  then show ?thesis
  proof cases
    case 1
    with assms Cons show ?thesis by (auto simp: decode_rune_ascii)
  next
    case 2
    with assms Cons show ?thesis by (auto simp add: two simp del: One_nat_def split: list.splits if_split_asm)
  next
    case 3
    with assms Cons show ?thesis by (auto simp add: three split: list.splits if_split_asm)
  next
    case 4
    with assms Cons show ?thesis by (auto simp add: four split: list.splits if_split_asm)
  next
    case 5
    with assms Cons show ?thesis by (simp add: decode_rune_def Let_def)
  qed
qed (use assms in \<open>simp add: decode_rune_def\<close>)

lemma decode_rune_first: "decode_rune (c # s) = Some (r, w) \<Longrightarrow> 0x80 \<le> r \<Longrightarrow> 0x80 \<le> code c"
  by (auto simp: decode_rune_def Let_def split: list.splits if_splits)

lemma decode_rune_ascii_iff: "decode_rune (c # s) = Some (r, w) \<Longrightarrow> r < 0x80 \<Longrightarrow> code c = r \<and> w = 1"
  by (auto simp: decode_rune_def Let_def cont_def second_range_def split: list.splits if_splits)

text \<open>The two line separators are escaped; their encoding is what the decoder writes for the escape.\<close>

lemma decode_rune_separator:
  assumes "decode_rune s = Some (r, w)" and "r = 0x2028 \<or> r = 0x2029"
  shows "take w s = utf8_encode r"
proof -
  from assms obtain a b c t where s: "s = a # b # c # t" and w: "w = 3"
    and r: "r = (code a - 0xE0) * 4096 + (code b - 0x80) * 64 + (code c - 0x80)"
    and a: "0xE0 \<le> code a" "code a \<le> 0xEF" and b: "0x80 \<le> code b" "code b \<le> 0xBF"
    and c: "0x80 \<le> code c" "code c \<le> 0xBF"
    by (auto simp: decode_rune_def Let_def cont_def second_range_def split: list.splits if_splits)
  define x y z where "x = code a - 0xE0" and "y = code b - 0x80" and "z = code c - 0x80"
  have yz: "y < 64" "z < 64" using b c by (auto simp: y_def z_def)
  have sum: "x * 4096 + y * 64 + z = r" using r by (simp add: x_def y_def z_def)
  from sum yz assms(2) have x: "x = 2" by auto
  with sum assms(2) have rest: "y * 64 + z = r - 0x2000" by auto
  with assms(2) have "y = 0" by (cases y) auto
  with rest have "z = r - 0x2000" by simp
  note \<open>x = 2\<close> \<open>y = 0\<close> \<open>z = r - 0x2000\<close>
  then have "code a = 0xE2" "code b = 0x80" "code c = 0x80 + (r - 0x2000)"
    using a b c by (auto simp: x_def y_def z_def)
  then have "a = char_of (0xE2 :: nat)" "b = char_of (0x80 :: nat)" "c = char_of (0x80 + (r - 0x2000))"
    using code_eq_char by blast+
  with s w assms(2) show ?thesis by (auto simp: utf8_encode_def Let_def)
qed

lemma parse_string_json_escape:
  "utf8_valid s \<Longrightarrow> parse_string (json_escape s @ CHR 0x22 # rest) = Some (s, rest)"
proof (induction s rule: length_induct)
  case (1 s)
  show ?case
  proof (cases s)
    case Nil
    then show ?thesis by (subst json_escape.simps) (simp add: parse_string.simps)
  next
    case (Cons c cs)
    with 1(2) obtain r w where dec: "decode_rune s = Some (r, w)" and valid: "utf8_valid (drop w s)"
      by (subst (asm) utf8_valid.simps) (auto split: option.splits)
    have width: "0 < w" "w \<le> length s" using decode_rune_width [OF dec] by simp_all
    then have IH: "parse_string (json_escape (drop w s) @ CHR 0x22 # rest) = Some (drop w s, rest)"
      using 1(1) valid Cons by simp
    let ?tail = "json_escape (drop w s) @ CHR 0x22 # rest"
    have esc: "json_escape s = (if r < 0x80 then escape_ascii r
        else if r = 0x2028 \<or> r = 0x2029 then CHR 0x5C # CHR ''u'' # hex4 r else take w s) @ json_escape (drop w s)"
      using Cons dec by (subst json_escape.simps) simp
    consider "r < 0x80" | "r = 0x2028 \<or> r = 0x2029" | "0x80 \<le> r" "r \<noteq> 0x2028" "r \<noteq> 0x2029" by linarith
    then show ?thesis
    proof cases
      case 1
      with dec Cons have "code c = r" "w = 1" using decode_rune_ascii_iff by blast+
      with 1 Cons IH esc parse_string_ascii [of c ?tail] show ?thesis by auto
    next
      case 2
      have "unicode_escape (hex4 r @ ?tail) = Some (r, ?tail)" using 2 by (intro unicode_escape_hex4) auto
      moreover have "json_escape s @ CHR 0x22 # rest = CHR 0x5C # CHR ''u'' # hex4 r @ ?tail"
        using 2 esc by auto
      ultimately have "parse_string (json_escape s @ CHR 0x22 # rest) = Some (utf8_encode r @ drop w s, rest)"
        using IH by (subst parse_string.simps) simp
      also have "utf8_encode r @ drop w s = s"
        using decode_rune_separator [OF dec 2] by (metis append_take_drop_id)
      finally show ?thesis .
    next
      case 3
      have hi: "0x80 \<le> code c" using decode_rune_first dec 3(1) Cons by blast
      obtain w' where w': "w = Suc w'" using width by (cases w) auto
      have whole: "json_escape s @ CHR 0x22 # rest = take w s @ ?tail" using 3 esc by auto
      have first: "take w s @ ?tail = c # take w' cs @ ?tail" using Cons w' by simp
      have "decode_rune (c # take w' cs @ ?tail) = Some (r, w)"
        using decode_rune_take [OF dec, of ?tail] first by simp
      moreover have "take w (c # take w' cs @ ?tail) = take w s" "drop w (c # take w' cs @ ?tail) = ?tail"
        using width Cons w' by auto
      ultimately have "parse_string (take w s @ ?tail) = Some (take w s @ drop w s, rest)"
        using hi IH unfolding first by (subst parse_string.simps) simp
      with whole show ?thesis by simp
    qed
  qed
qed

subsection \<open>Values\<close>

text \<open>
  Values the encoder is given by this repository: decimal integers as numbers, valid UTF-8 strings
  and keys.
\<close>

fun json_ok :: "json \<Rightarrow> bool" where
  "json_ok JNull = True"
| "json_ok (JBool b) = True"
| "json_ok (JNumber literal) = (\<exists>i. literal = show_int i)"
| "json_ok (JString s) = utf8_valid s"
| "json_ok (JArray vs) = list_all json_ok vs"
| "json_ok (JObject ms) = list_all (\<lambda>m. utf8_valid (fst m) \<and> json_ok (snd m)) ms"

fun nesting :: "json \<Rightarrow> nat" where
  "nesting (JArray vs) = Suc (foldr (\<lambda>v. max (nesting v)) vs 0)"
| "nesting (JObject ms) = Suc (foldr (\<lambda>m. max (nesting (snd m))) ms 0)"
| "nesting v = 0"

fun need :: "json \<Rightarrow> nat" where
  "need (JArray vs) = Suc (foldr (\<lambda>v n. Suc (max (need v) n)) vs 0)"
| "need (JObject ms) = Suc (foldr (\<lambda>m n. Suc (max (need (snd m)) n)) ms 0)"
| "need v = 1"

definition encode_member :: "string \<times> json \<Rightarrow> string" where
  "encode_member m = json_quote (fst m) @ CHR '':'' # json_encode (snd m)"

lemma json_encode_object:
  "json_encode (JObject ms) = CHR 0x7B # join_with (CHR '','') (map encode_member ms) @ [CHR 0x7D]"
  by (simp add: encode_member_def [abs_def])

lemma show_int_first: "\<exists>c cs. show_int i = c # cs \<and> (is_digit c \<or> c = CHR ''-'')"
proof -
  obtain c cs where "dec_digits (nat i) = c # cs" "is_digit c"
    using dec_digits_spec [of "nat i"] by (cases "dec_digits (nat i)") auto
  then show ?thesis by (simp add: show_int_def)
qed

lemma skip_space_first: "\<not> is_json_space c \<Longrightarrow> skip_space (c # s) = c # s"
  by (simp add: skip_space_def)

lemma not_space [simp]:
  "\<not> is_json_space (CHR 0x22)" "\<not> is_json_space (CHR 0x7B)" "\<not> is_json_space (CHR 0x7D)"
  "\<not> is_json_space (CHR ''['')" "\<not> is_json_space (CHR '']'')" "\<not> is_json_space (CHR '','')"
  "\<not> is_json_space (CHR '':'')" "\<not> is_json_space (CHR ''n'')" "\<not> is_json_space (CHR ''t'')"
  "\<not> is_json_space (CHR ''f'')" "\<not> is_json_space (CHR ''-'')" "is_digit c \<Longrightarrow> \<not> is_json_space c"
  by (auto simp: is_json_space_def is_digit_def)

text \<open>The first character of an encoding.\<close>

lemma json_encode_first:
  "json_ok v \<Longrightarrow> \<exists>c cs. json_encode v = c # cs \<and> \<not> is_json_space c \<and> c \<noteq> CHR '']'' \<and> c \<noteq> CHR 0x7D"
proof (cases v)
  case (JNumber literal)
  assume "json_ok v"
  then obtain i where i: "literal = show_int i" using JNumber by auto
  obtain c cs where c: "show_int i = c # cs" "is_digit c \<or> c = CHR ''-''" using show_int_first by blast
  have "c \<noteq> CHR '']'' \<and> c \<noteq> CHR 0x7D" using c(2) by (auto simp: is_digit_def)
  with c i JNumber show ?thesis by auto
qed (auto simp: json_quote_def)

lemma parse_value_number:
  assumes "number_end rest"
  shows "parse_value (Suc fuel) depth (show_int i @ rest) = Some (JNumber (show_int i), rest)"
proof -
  obtain c cs where c: "show_int i = c # cs" "is_digit c \<or> c = CHR ''-''" using show_int_first by blast
  have "parse_number (c # cs @ rest) = Some (c # cs, rest)"
    using parse_number_show_int [OF assms, of i] c(1) by simp
  moreover have "\<not> is_json_space c" "code c \<noteq> 0x22" "c \<noteq> CHR ''[''" "code c \<noteq> 0x7B"
    "c \<noteq> CHR ''t''" "c \<noteq> CHR ''f''" "c \<noteq> CHR ''n''"
    using c(2) by (auto simp: is_digit_def)
  ultimately show ?thesis using c(1) by (simp add: skip_space_first)
qed

lemma parse_value_string:
  "utf8_valid s \<Longrightarrow> parse_value (Suc fuel) depth (json_quote s @ rest) = Some (JString s, rest)"
  using parse_string_json_escape [of s rest] by (simp add: json_quote_def skip_space_first)

lemma number_end_Cons [simp]:
  "number_end []" "number_end (CHR '','' # s)" "number_end (CHR '']'' # s)" "number_end (CHR 0x7D # s)"
  by (simp_all add: number_end_def)

text \<open>
  \<open>reads_back v\<close>: with fuel and depth enough, the parser reads \<open>v\<close> from its encoding and stops there.
\<close>

definition reads_back :: "json \<Rightarrow> bool" where
  "reads_back v \<longleftrightarrow> (\<forall>fuel depth rest. need v \<le> fuel \<longrightarrow> depth + nesting v \<le> max_nesting \<longrightarrow> number_end rest \<longrightarrow>
    parse_value fuel depth (json_encode v @ rest) = Some (v, rest))"

lemma reads_backD:
  "reads_back v \<Longrightarrow> need v \<le> fuel \<Longrightarrow> depth + nesting v \<le> max_nesting \<Longrightarrow> number_end rest \<Longrightarrow>
    parse_value fuel depth (json_encode v @ rest) = Some (v, rest)"
  by (simp add: reads_back_def)

lemma parse_elements_join:
  assumes "vs \<noteq> []" and "\<And>v. v \<in> set vs \<Longrightarrow> reads_back v"
    and "foldr (\<lambda>v n. Suc (max (need v) n)) vs 0 \<le> fuel"
    and "depth + foldr (\<lambda>v. max (nesting v)) vs 0 \<le> max_nesting"
  shows "parse_elements fuel depth (join_with (CHR '','') (map json_encode vs) @ CHR '']'' # rest) = Some (vs, rest)"
  using assms
proof (induction vs arbitrary: fuel)
  case (Cons v vs)
  obtain fuel' where fuel: "fuel = Suc fuel'" using Cons.prems(3) by (cases fuel) auto
  have v: "reads_back v" "need v \<le> fuel'" "depth + nesting v \<le> max_nesting"
    using Cons.prems fuel by auto
  show ?case
  proof (cases "vs = []")
    case True
    then show ?thesis
      using reads_backD [OF v, of "CHR '']'' # rest"] by (simp add: fuel skip_space_first)
  next
    case False
    have IH: "parse_elements fuel' depth (join_with (CHR '','') (map json_encode vs) @ CHR '']'' # rest) = Some (vs, rest)"
      using Cons.prems fuel False by (intro Cons.IH) auto
    show ?thesis
      using reads_backD [OF v, of "CHR '','' # join_with (CHR '','') (map json_encode vs) @ CHR '']'' # rest"] IH False
      by (simp add: fuel skip_space_first join_with_Cons)
  qed
qed simp

lemma parse_members_join:
  assumes "ms \<noteq> []" and "\<And>m. m \<in> set ms \<Longrightarrow> utf8_valid (fst m) \<and> json_ok (snd m) \<and> reads_back (snd m)"
    and "foldr (\<lambda>m n. Suc (max (need (snd m)) n)) ms 0 \<le> fuel"
    and "depth + foldr (\<lambda>m. max (nesting (snd m))) ms 0 \<le> max_nesting"
  shows "parse_members fuel depth (join_with (CHR '','') (map encode_member ms) @ CHR 0x7D # rest) = Some (ms, rest)"
  using assms
proof (induction ms arbitrary: fuel)
  case (Cons m ms)
  obtain k v where m: "m = (k, v)" by (cases m)
  obtain fuel' where fuel: "fuel = Suc fuel'" using Cons.prems(3) by (cases fuel) auto
  have v: "reads_back v" "need v \<le> fuel'" "depth + nesting v \<le> max_nesting" and k: "utf8_valid k"
    using Cons.prems(2) [of m] Cons.prems(3,4) fuel m by auto
  have key: "parse_string (json_escape k @ CHR 0x22 # s) = Some (k, s)" for s
    using k by (rule parse_string_json_escape)
  have em: "encode_member (k, v) = CHR 0x22 # json_escape k @ CHR 0x22 # CHR '':'' # json_encode v"
    by (simp add: encode_member_def json_quote_def)
  show ?case
  proof (cases "ms = []")
    case True
    then show ?thesis
      using reads_backD [OF v, of "CHR 0x7D # rest"]
      by (simp add: fuel em skip_space_first key m)
  next
    case False
    have IH: "parse_members fuel' depth (join_with (CHR '','') (map encode_member ms) @ CHR 0x7D # rest) = Some (ms, rest)"
      using Cons.prems fuel False by (intro Cons.IH) auto
    show ?thesis
      using reads_backD [OF v, of "CHR '','' # join_with (CHR '','') (map encode_member ms) @ CHR 0x7D # rest"] IH False
      by (simp add: fuel em skip_space_first key join_with_Cons m)
  qed
qed simp

lemma join_first:
  assumes "vs \<noteq> []" "list_all json_ok vs"
  shows "\<exists>c cs. join_with (CHR '','') (map json_encode vs) = c # cs \<and> \<not> is_json_space c \<and> c \<noteq> CHR '']''"
proof (cases vs)
  case (Cons v us)
  with assms obtain c cs where "json_encode v = c # cs" "\<not> is_json_space c" "c \<noteq> CHR '']''"
    using json_encode_first [of v] by auto
  with Cons show ?thesis by (cases us) (auto simp: join_with_Cons)
qed (use assms in simp)

lemma join_member_first:
  "ms \<noteq> [] \<Longrightarrow> \<exists>cs. join_with (CHR '','') (map encode_member ms) = CHR 0x22 # cs"
  by (cases ms; cases "tl ms") (auto simp: encode_member_def json_quote_def join_with_Cons)

lemma json_ok_reads_back: "json_ok v \<Longrightarrow> reads_back v"
proof (induction v)
  case (JArray vs)
  show ?case unfolding reads_back_def
  proof (intro allI impI)
    fix fuel depth rest
    assume need: "need (JArray vs) \<le> fuel" and depth: "depth + nesting (JArray vs) \<le> max_nesting"
    then obtain fuel' where fuel: "fuel = Suc fuel'" by (cases fuel) auto
    show "parse_value fuel depth (json_encode (JArray vs) @ rest) = Some (JArray vs, rest)"
    proof (cases "vs = []")
      case False
      have "parse_elements fuel' (Suc depth) (join_with (CHR '','') (map json_encode vs) @ CHR '']'' # rest) = Some (vs, rest)"
        using JArray need depth fuel False by (intro parse_elements_join) (auto simp: list_all_iff)
      moreover obtain c cs where "join_with (CHR '','') (map json_encode vs) = c # cs" "\<not> is_json_space c" "c \<noteq> CHR '']''"
        using join_first [OF False] JArray.prems by auto
      ultimately show ?thesis using depth by (simp add: fuel skip_space_first)
    qed (use depth in \<open>simp add: fuel skip_space_first\<close>)
  qed
next
  case (JObject ms)
  show ?case unfolding reads_back_def
  proof (intro allI impI)
    fix fuel depth rest
    assume need: "need (JObject ms) \<le> fuel" and depth: "depth + nesting (JObject ms) \<le> max_nesting"
    then obtain fuel' where fuel: "fuel = Suc fuel'" by (cases fuel) auto
    show "parse_value fuel depth (json_encode (JObject ms) @ rest) = Some (JObject ms, rest)"
    proof (cases "ms = []")
      case False
      have "parse_members fuel' (Suc depth) (join_with (CHR '','') (map encode_member ms) @ CHR 0x7D # rest) = Some (ms, rest)"
        using JObject need depth fuel False by (intro parse_members_join) (auto simp: list_all_iff)
      moreover obtain cs where "join_with (CHR '','') (map encode_member ms) = CHR 0x22 # cs"
        using join_member_first False by blast
      ultimately show ?thesis using depth unfolding json_encode_object by (simp add: fuel skip_space_first)
    qed (use depth in \<open>simp add: fuel skip_space_first\<close>)
  qed
next
  case JNull
  then show ?case by (auto simp: reads_back_def skip_space_first Suc_le_eq gr0_conv_Suc)
next
  case (JBool b)
  then show ?case by (auto simp: reads_back_def skip_space_first Suc_le_eq gr0_conv_Suc)
next
  case (JNumber literal)
  then show ?case by (auto simp: reads_back_def Suc_le_eq gr0_conv_Suc parse_value_number simp del: parse_value.simps)
next
  case (JString s)
  then show ?case by (auto simp: reads_back_def Suc_le_eq gr0_conv_Suc parse_value_string simp del: parse_value.simps)
qed

text \<open>The fuel the decoder provides is enough.\<close>

lemma need_elements:
  "(\<And>v. v \<in> set vs \<Longrightarrow> need v \<le> length (json_encode v)) \<Longrightarrow>
    foldr (\<lambda>v n. Suc (max (need v) n)) vs 0 \<le> Suc (length (join_with (CHR '','') (map json_encode vs)))"
proof (induction vs)
  case (Cons v vs)
  have "need v \<le> length (json_encode v)" using Cons.prems by simp
  moreover have "foldr (\<lambda>v n. Suc (max (need v) n)) vs 0 \<le> Suc (length (join_with (CHR '','') (map json_encode vs)))"
    using Cons by simp
  ultimately show ?case by (cases "vs = []") (simp_all add: join_with_Cons)
qed simp

lemma need_members:
  "(\<And>m. m \<in> set ms \<Longrightarrow> need (snd m) \<le> length (json_encode (snd m))) \<Longrightarrow>
    foldr (\<lambda>m n. Suc (max (need (snd m)) n)) ms 0 \<le> Suc (length (join_with (CHR '','') (map encode_member ms)))"
proof (induction ms)
  case (Cons m ms)
  have "need (snd m) \<le> length (json_encode (snd m))" using Cons.prems by simp
  moreover have "foldr (\<lambda>m n. Suc (max (need (snd m)) n)) ms 0 \<le> Suc (length (join_with (CHR '','') (map encode_member ms)))"
    using Cons by simp
  moreover have "length (json_encode (snd m)) \<le> length (encode_member m)" by (simp add: encode_member_def)
  ultimately show ?case by (cases "ms = []") (simp_all add: join_with_Cons)
qed simp

lemma need_le_length: "json_ok v \<Longrightarrow> need v \<le> length (json_encode v)"
proof (induction v)
  case (JArray vs)
  then show ?case using need_elements [of vs] by (auto simp: list_all_iff)
next
  case (JObject ms)
  then have "need (JObject ms) \<le> Suc (Suc (length (join_with (CHR '','') (map encode_member ms))))"
    using need_members [of ms] by (fastforce simp: list_all_iff)
  then show ?case unfolding json_encode_object by simp
next
  case (JNumber literal)
  then obtain i where "literal = show_int i" by auto
  with show_int_first [of i] show ?case by auto
qed (auto simp: json_quote_def)

theorem json_decode_encode:
  assumes "json_ok v" and "nesting v \<le> max_nesting" and "number_end rest"
  shows "json_decode_first (json_encode v @ rest) = Some (v, rest)"
  unfolding json_decode_first_def
  using json_ok_reads_back [OF assms(1)] need_le_length [OF assms(1)] assms(2,3)
  by (intro reads_backD) auto

corollary json_parse_encode:
  assumes "json_ok v" and "nesting v \<le> max_nesting"
  shows "json_parse (json_encode v) = Some v"
  using json_decode_encode [OF assms, of "[]"] by (simp add: json_parse_def skip_space_def)

corollary json_encode_inject:
  assumes "json_ok v" "nesting v \<le> max_nesting" "json_ok v'" "nesting v' \<le> max_nesting"
  shows "json_encode v = json_encode v' \<longleftrightarrow> v = v'"
  using json_parse_encode [OF assms(1,2)] json_parse_encode [OF assms(3,4)] by (metis option.inject)

end
