(* ===== verification/Cursors.thy ===== *)
theory Cursors
  imports Shared Json_Roundtrip
begin

text \<open>
  \<open>internal/domain/shared/cursor.go\<close>: opaque pagination cursors, authenticated with HMAC-SHA-256 and
  bound to tenant, endpoint, query and page size. The clock of the codec is the argument \<open>now\<close>.
\<close>

subsection \<open>Data\<close>

definition MaxCursorBytes :: nat where "MaxCursorBytes = 4096"

record CursorScope =
  scope_TenantID :: UUID
  scope_Endpoint :: string
  scope_QueryDigest :: Digest
  scope_PageSize :: int

record Cursor =
  cur_Position :: string
  cur_ExpiresAt :: Time

record cursorPayload =
  pay_Version :: int
  pay_Tenant :: string
  pay_Endpoint :: string
  pay_Query :: string
  pay_PageSize :: int
  pay_Position :: string
  pay_Expires :: int

datatype cursor_error =
    CursorShortKey | CursorTenant | CursorInvalidEndpoint | CursorQueryDigestRequired
  | CursorInvalidPageSize | CursorInvalidPositionOrExpiry | CursorTooLarge | CursorInvalidSize
  | CursorInvalidForm | CursorInvalidEncoding | CursorAuthenticationFailed | CursorInvalidPayload
  | CursorScopeMismatch | CursorExpiredOrInvalid

record CursorCodec =
  codec_key :: string

subsection \<open>Operations\<close>

definition NewCursorCodec :: "string \<Rightarrow> (cursor_error, CursorCodec) result" where
  "NewCursorCodec key = (if length key < 32 then Inl CursorShortKey else Inr \<lparr>codec_key = key\<rparr>)"

definition validateCursorScope :: "CursorScope \<Rightarrow> (cursor_error, unit) result" where
  "validateCursorScope scope =
    (if \<not> valid_uuid (scope_TenantID scope) then Inl CursorTenant
     else if scope_Endpoint scope = [] \<or> length (scope_Endpoint scope) > 256 \<or>
         hd (scope_Endpoint scope) \<noteq> CHR ''/'' \<or>
         list_ex (\<lambda>c. c \<in> {CHR ''?'', CHR ''#'', CHR 0x0D, CHR 0x0A}) (scope_Endpoint scope)
       then Inl CursorInvalidEndpoint
     else if digest_algorithm (scope_QueryDigest scope) \<noteq> SHA256 then Inl CursorQueryDigestRequired
     else if scope_PageSize scope < 1 \<or> scope_PageSize scope > 200 then Inl CursorInvalidPageSize
     else Inr ())"

definition sign :: "CursorCodec \<Rightarrow> string \<Rightarrow> string" where
  "sign codec payload = hmac_sha256 (codec_key codec) payload"

definition queryBinding :: "CursorCodec \<Rightarrow> Digest \<Rightarrow> string" where
  "queryBinding codec digest =
    b64_encode (hmac_sha256 (codec_key codec)
      (''thinkpixelmp.cursor.query.v1'' @ [CHR 0x00] @ Digest_String digest))"

text \<open>\<open>json.Marshal(payload)\<close>.\<close>

definition payload_json :: "cursorPayload \<Rightarrow> json" where
  "payload_json p = JObject
    [(''v'', JNumber (show_int (pay_Version p))), (''t'', JString (pay_Tenant p)),
     (''e'', JString (pay_Endpoint p)), (''q'', JString (pay_Query p)),
     (''s'', JNumber (show_int (pay_PageSize p))), (''p'', JString (pay_Position p)),
     (''x'', JNumber (show_int (pay_Expires p)))]"

definition Cursor_Encode :: "CursorCodec \<Rightarrow> Time \<Rightarrow> CursorScope \<Rightarrow> Cursor \<Rightarrow> (cursor_error, string) result" where
  "Cursor_Encode codec now scope cursor =
    (case validateCursorScope scope of
       Inl e \<Rightarrow> Inl e
     | Inr _ \<Rightarrow>
       (if \<not> is_ok (NewBoundedString (cur_Position cursor) 1024) \<or> \<not> cur_ExpiresAt cursor > now
          then Inl CursorInvalidPositionOrExpiry
        else
          let payload = \<lparr>pay_Version = 1, pay_Tenant = UUID_String (scope_TenantID scope),
                pay_Endpoint = scope_Endpoint scope, pay_Query = queryBinding codec (scope_QueryDigest scope),
                pay_PageSize = scope_PageSize scope, pay_Position = cur_Position cursor,
                pay_Expires = time_Unix (cur_ExpiresAt cursor)\<rparr>;
              encoded = json_encode (payload_json payload);
              text = b64_encode encoded @ ''.'' @ b64_encode (sign codec encoded)
          in if length text > MaxCursorBytes then Inl CursorTooLarge else Inr text))"

text \<open>\<open>decoder.Decode(&payload)\<close> with \<open>DisallowUnknownFields\<close>: members are stored in order.\<close>

definition zero_payload :: cursorPayload where
  "zero_payload = \<lparr>pay_Version = 0, pay_Tenant = [], pay_Endpoint = [], pay_Query = [], pay_PageSize = 0,
     pay_Position = [], pay_Expires = 0\<rparr>"

definition decode_int64 :: "int \<Rightarrow> json \<Rightarrow> int option" where
  "decode_int64 = decode_int (- (2 ^ 63)) (2 ^ 63 - 1)"

definition store_field :: "string \<times> json \<Rightarrow> cursorPayload \<Rightarrow> cursorPayload option" where
  "store_field m p =
    (case select_field [''v'', ''t'', ''e'', ''q'', ''s'', ''p'', ''x''] (fst m) of
       None \<Rightarrow> None
     | Some name \<Rightarrow>
       (if name = ''v'' then map_option (\<lambda>i. p\<lparr>pay_Version := i\<rparr>) (decode_int64 (pay_Version p) (snd m))
        else if name = ''t'' then map_option (\<lambda>s. p\<lparr>pay_Tenant := s\<rparr>) (decode_string (pay_Tenant p) (snd m))
        else if name = ''e'' then map_option (\<lambda>s. p\<lparr>pay_Endpoint := s\<rparr>) (decode_string (pay_Endpoint p) (snd m))
        else if name = ''q'' then map_option (\<lambda>s. p\<lparr>pay_Query := s\<rparr>) (decode_string (pay_Query p) (snd m))
        else if name = ''s'' then map_option (\<lambda>i. p\<lparr>pay_PageSize := i\<rparr>) (decode_int64 (pay_PageSize p) (snd m))
        else if name = ''p'' then map_option (\<lambda>s. p\<lparr>pay_Position := s\<rparr>) (decode_string (pay_Position p) (snd m))
        else map_option (\<lambda>i. p\<lparr>pay_Expires := i\<rparr>) (decode_int64 (pay_Expires p) (snd m))))"

fun store_fields :: "(string \<times> json) list \<Rightarrow> cursorPayload \<Rightarrow> cursorPayload option" where
  "store_fields [] p = Some p"
| "store_fields (m # ms) p = (case store_field m p of None \<Rightarrow> None | Some q \<Rightarrow> store_fields ms q)"

definition decode_payload :: "string \<Rightarrow> cursorPayload option" where
  "decode_payload bytes =
    (case json_decode_first bytes of
       None \<Rightarrow> None
     | Some (v, rest) \<Rightarrow>
       (if skip_space rest \<noteq> [] then None
        else case v of
          JObject ms \<Rightarrow> store_fields ms zero_payload
        | JNull \<Rightarrow> Some zero_payload
        | _ \<Rightarrow> None))"

text \<open>\<open>time.Unix(s, 0)\<close>: the seconds are kept in an \<open>int64\<close> counted from year 1.\<close>

definition time_from_unix :: "int \<Rightarrow> Time" where
  "time_from_unix s = int64_add s unix_epoch_seconds * nanosecond_second"

definition Cursor_Decode :: "CursorCodec \<Rightarrow> Time \<Rightarrow> string \<Rightarrow> CursorScope \<Rightarrow> (cursor_error, Cursor) result" where
  "Cursor_Decode codec now encoded expected =
    (case validateCursorScope expected of
       Inl e \<Rightarrow> Inl e
     | Inr _ \<Rightarrow>
       (if length encoded < 1 \<or> length encoded > MaxCursorBytes then Inl CursorInvalidSize
        else case split_on (CHR ''.'') encoded of
          [left, right] \<Rightarrow>
            (case b64_decode left of
               None \<Rightarrow> Inl CursorInvalidEncoding
             | Some payloadBytes \<Rightarrow>
               (case b64_decode right of
                  None \<Rightarrow> Inl CursorAuthenticationFailed
                | Some signature \<Rightarrow>
                  (if signature \<noteq> sign codec payloadBytes then Inl CursorAuthenticationFailed
                   else case decode_payload payloadBytes of
                     None \<Rightarrow> Inl CursorInvalidPayload
                   | Some payload \<Rightarrow>
                     (if pay_Version payload \<noteq> 1 \<or>
                         pay_Tenant payload \<noteq> UUID_String (scope_TenantID expected) \<or>
                         pay_Endpoint payload \<noteq> scope_Endpoint expected \<or>
                         pay_Query payload \<noteq> queryBinding codec (scope_QueryDigest expected) \<or>
                         pay_PageSize payload \<noteq> scope_PageSize expected then Inl CursorScopeMismatch
                      else let expires = time_from_unix (pay_Expires payload) in
                        if \<not> is_ok (NewBoundedString (pay_Position payload) 1024) \<or> \<not> expires > now
                          then Inl CursorExpiredOrInvalid
                        else Inr \<lparr>cur_Position = pay_Position payload, cur_ExpiresAt = expires\<rparr>))))
        | _ \<Rightarrow> Inl CursorInvalidForm))"

subsection \<open>Round trip\<close>

lemma utf8_valid_ascii: "list_all (\<lambda>c. code c < 0x80) s \<Longrightarrow> utf8_valid s"
  by (induction s) auto

lemma b64_encode_chars: "c \<in> set (b64_encode s) \<Longrightarrow> code c < 0x80 \<and> c \<noteq> CHR ''.''"
proof -
  assume c: "c \<in> set (b64_encode s)"
  obtain vs where "b64_values (b64_encode s) = Some vs" using b64_groups_encode by blast
  then have "None \<notin> b64_value ` (set (b64_encode s) \<inter> {c. code c \<noteq> 10 \<and> code c \<noteq> 13})"
    by (auto simp: b64_values_def Let_def split: if_splits)
  with c have "code c = 10 \<or> code c = 13 \<or> b64_value c \<noteq> None" by (metis (mono_tags, lifting) IntI imageI mem_Collect_eq)
  then show ?thesis by (auto simp: b64_value_def Let_def split: if_splits)
qed

lemma utf8_valid_b64 [simp]: "utf8_valid (b64_encode s)"
  by (rule utf8_valid_ascii) (simp add: list_all_iff b64_encode_chars)

lemma utf8_valid_UUID_String [simp]: "utf8_valid (UUID_String u)"
proof (rule utf8_valid_ascii)
  have "list_all (\<lambda>c. code c < 0x80) (hex_encode s)" for s
    by (auto simp: list_all_iff lower_hex_def is_digit_def dest!: hex_encode_lower)
  then show "list_all (\<lambda>c. code c < 0x80) (UUID_String u)"
    by (simp add: UUID_String_def Let_def)
qed

lemma payload_json_ok:
  assumes "utf8_valid (pay_Tenant p)" "utf8_valid (pay_Endpoint p)" "utf8_valid (pay_Query p)"
    "utf8_valid (pay_Position p)"
  shows "json_ok (payload_json p) \<and> nesting (payload_json p) \<le> max_nesting"
  using assms by (auto simp: payload_json_def max_nesting_def)

lemma decode_payload_encode:
  assumes "utf8_valid (pay_Tenant p)" "utf8_valid (pay_Endpoint p)" "utf8_valid (pay_Query p)"
    "utf8_valid (pay_Position p)"
    and "- (2 ^ 63) \<le> pay_Version p" "pay_Version p < 2 ^ 63"
    and "- (2 ^ 63) \<le> pay_PageSize p" "pay_PageSize p < 2 ^ 63"
    and "- (2 ^ 63) \<le> pay_Expires p" "pay_Expires p < 2 ^ 63"
  shows "decode_payload (json_encode (payload_json p)) = Some p"
proof -
  have "json_decode_first (json_encode (payload_json p)) = Some (payload_json p, [])"
    using json_decode_encode [of "payload_json p" "[]"] payload_json_ok assms by simp
  then show ?thesis
    using assms
    by (simp add: decode_payload_def skip_space_def payload_json_def store_field_def select_field_def
        decode_int64_def decode_int_def decode_string_def parse_int_show_int zero_payload_def)
qed

definition cursor_payload :: "CursorCodec \<Rightarrow> CursorScope \<Rightarrow> Cursor \<Rightarrow> cursorPayload" where
  "cursor_payload codec scope cursor = \<lparr>pay_Version = 1, pay_Tenant = UUID_String (scope_TenantID scope),
     pay_Endpoint = scope_Endpoint scope, pay_Query = queryBinding codec (scope_QueryDigest scope),
     pay_PageSize = scope_PageSize scope, pay_Position = cur_Position cursor,
     pay_Expires = time_Unix (cur_ExpiresAt cursor)\<rparr>"

definition cursor_text :: "CursorCodec \<Rightarrow> cursorPayload \<Rightarrow> string" where
  "cursor_text codec p =
    b64_encode (json_encode (payload_json p)) @ ''.'' @ b64_encode (sign codec (json_encode (payload_json p)))"

lemma Cursor_Encode_Inr:
  "Cursor_Encode codec now scope cursor = Inr t \<longleftrightarrow>
    validateCursorScope scope = Inr () \<and> is_ok (NewBoundedString (cur_Position cursor) 1024) \<and>
    now < cur_ExpiresAt cursor \<and> t = cursor_text codec (cursor_payload codec scope cursor) \<and>
    length t \<le> MaxCursorBytes"
  by (auto simp: Cursor_Encode_def cursor_text_def cursor_payload_def Let_def split: sum.splits)

lemma cursor_text_parts:
  "split_on (CHR ''.'') (cursor_text codec p) =
    [b64_encode (json_encode (payload_json p)), b64_encode (sign codec (json_encode (payload_json p)))]"
proof -
  have "CHR ''.'' \<notin> set (b64_encode s)" for s using b64_encode_chars by blast
  then show ?thesis by (simp add: cursor_text_def split_on_append split_on_no_sep)
qed

text \<open>What \<open>Decode\<close> does with an authenticated payload.\<close>

definition accept_payload :: "CursorCodec \<Rightarrow> Time \<Rightarrow> CursorScope \<Rightarrow> cursorPayload \<Rightarrow> (cursor_error, Cursor) result" where
  "accept_payload codec now expected payload =
    (if payload \<noteq> cursor_payload codec expected \<lparr>cur_Position = pay_Position payload, cur_ExpiresAt = 0\<rparr>
          \<lparr>pay_Expires := pay_Expires payload\<rparr> then Inl CursorScopeMismatch
     else let expires = time_from_unix (pay_Expires payload) in
       if \<not> is_ok (NewBoundedString (pay_Position payload) 1024) \<or> \<not> expires > now then Inl CursorExpiredOrInvalid
       else Inr \<lparr>cur_Position = pay_Position payload, cur_ExpiresAt = expires\<rparr>)"

lemma payload_scope_iff:
  "payload = (cursor_payload codec expected \<lparr>cur_Position = pay_Position payload, cur_ExpiresAt = 0\<rparr>)
      \<lparr>pay_Expires := pay_Expires payload\<rparr> \<longleftrightarrow>
    pay_Version payload = 1 \<and> pay_Tenant payload = UUID_String (scope_TenantID expected) \<and>
    pay_Endpoint payload = scope_Endpoint expected \<and>
    pay_Query payload = queryBinding codec (scope_QueryDigest expected) \<and>
    pay_PageSize payload = scope_PageSize expected"
  by (cases payload) (auto simp: cursor_payload_def)

lemma Cursor_Decode_text:
  assumes "validateCursorScope expected = Inr ()" and "length (cursor_text codec p) \<le> MaxCursorBytes"
    and "decode_payload (json_encode (payload_json p)) = Some p"
  shows "Cursor_Decode codec now (cursor_text codec p) expected = accept_payload codec now expected p"
proof -
  have "cursor_text codec p \<noteq> []" by (simp add: cursor_text_def)
  with assms show ?thesis
    unfolding Cursor_Decode_def accept_payload_def payload_scope_iff cursor_text_parts by simp
qed

text \<open>The payload an encoded cursor carries is read back.\<close>

lemma encoded_payload:
  assumes enc: "Cursor_Encode codec now scope cursor = Inr t" and utf8: "utf8_valid (scope_Endpoint scope)"
    and range: "- (2 ^ 63) \<le> time_Unix (cur_ExpiresAt cursor)" "time_Unix (cur_ExpiresAt cursor) < 2 ^ 63"
  shows "decode_payload (json_encode (payload_json (cursor_payload codec scope cursor))) =
    Some (cursor_payload codec scope cursor)"
proof (rule decode_payload_encode)
  from enc have scope: "validateCursorScope scope = Inr ()"
    and pos: "is_ok (NewBoundedString (cur_Position cursor) 1024)"
    by (simp_all add: Cursor_Encode_Inr)
  from scope have size: "1 \<le> scope_PageSize scope" "scope_PageSize scope \<le> 200"
    by (auto simp: validateCursorScope_def split: if_splits)
  let ?p = "cursor_payload codec scope cursor"
  show "utf8_valid (pay_Tenant ?p)" "utf8_valid (pay_Endpoint ?p)" "utf8_valid (pay_Query ?p)"
    "- (2 ^ 63) \<le> pay_Version ?p" "pay_Version ?p < 2 ^ 63"
    "- (2 ^ 63) \<le> pay_PageSize ?p" "pay_PageSize ?p < 2 ^ 63"
    "- (2 ^ 63) \<le> pay_Expires ?p" "pay_Expires ?p < 2 ^ 63"
    using utf8 size range by (simp_all add: cursor_payload_def queryBinding_def)
  show "utf8_valid (pay_Position ?p)"
    using pos by (auto simp: cursor_payload_def is_ok_iff NewBoundedString_iff text_ok_def)
qed

lemma time_from_unix_id:
  "- (2 ^ 63) \<le> s + unix_epoch_seconds \<Longrightarrow> s + unix_epoch_seconds < 2 ^ 63 \<Longrightarrow> time_from_unix s = from_Unix s"
  by (simp add: time_from_unix_def from_Unix_def int64_add_small)

lemma Cursor_Decode_Encode:
  assumes enc: "Cursor_Encode codec now scope cursor = Inr t" and utf8: "utf8_valid (scope_Endpoint scope)"
    and range: "- (2 ^ 63) \<le> time_Unix (cur_ExpiresAt cursor)"
      "time_Unix (cur_ExpiresAt cursor) + unix_epoch_seconds < 2 ^ 63"
    and fresh: "later < from_Unix (time_Unix (cur_ExpiresAt cursor))"
  shows "Cursor_Decode codec later t scope =
    Inr (cursor\<lparr>cur_ExpiresAt := from_Unix (time_Unix (cur_ExpiresAt cursor))\<rparr>)"
proof -
  let ?p = "cursor_payload codec scope cursor"
  have upper: "time_Unix (cur_ExpiresAt cursor) < 2 ^ 63" using range(2) by (simp add: unix_epoch_seconds_def)
  from enc have t: "t = cursor_text codec ?p" "length (cursor_text codec ?p) \<le> MaxCursorBytes"
    and scope: "validateCursorScope scope = Inr ()" and pos: "is_ok (NewBoundedString (cur_Position cursor) 1024)"
    by (auto simp: Cursor_Encode_Inr)
  have "Cursor_Decode codec later t scope = accept_payload codec later scope ?p"
    unfolding t(1) using scope t(2) encoded_payload [OF enc utf8 range(1) upper] by (rule Cursor_Decode_text)
  also have "\<dots> = Inr (cursor\<lparr>cur_ExpiresAt := from_Unix (time_Unix (cur_ExpiresAt cursor))\<rparr>)"
    using pos fresh range unfolding accept_payload_def payload_scope_iff
    by (simp add: cursor_payload_def Let_def time_from_unix_id unix_epoch_seconds_def)
  finally show ?thesis .
qed

text \<open>A cursor issued for one scope is accepted for another only if the bound values agree.\<close>

lemma Cursor_Decode_bound:
  assumes enc: "Cursor_Encode codec now scope cursor = Inr t" and utf8: "utf8_valid (scope_Endpoint scope)"
    and range: "- (2 ^ 63) \<le> time_Unix (cur_ExpiresAt cursor)" "time_Unix (cur_ExpiresAt cursor) < 2 ^ 63"
    and dec: "Cursor_Decode codec later t expected = Inr c"
  shows "scope_TenantID expected = scope_TenantID scope \<and> scope_Endpoint expected = scope_Endpoint scope \<and>
    scope_PageSize expected = scope_PageSize scope \<and>
    queryBinding codec (scope_QueryDigest expected) = queryBinding codec (scope_QueryDigest scope) \<and>
    cur_Position c = cur_Position cursor"
proof -
  let ?p = "cursor_payload codec scope cursor"
  from enc have t: "t = cursor_text codec ?p" "length (cursor_text codec ?p) \<le> MaxCursorBytes"
    by (auto simp: Cursor_Encode_Inr)
  from dec have "validateCursorScope expected = Inr ()"
    by (auto simp: Cursor_Decode_def split: sum.splits)
  from Cursor_Decode_text [OF this t(2) encoded_payload [OF enc utf8 range]] dec t(1)
  have "accept_payload codec later expected ?p = Inr c" by simp
  then show ?thesis unfolding accept_payload_def payload_scope_iff
    by (auto simp: cursor_payload_def Let_def UUID_String_inject split: if_splits)
qed

text \<open>Whatever is accepted was authenticated with the codec's key and has not expired.\<close>

lemma Cursor_Decode_authentic:
  assumes "Cursor_Decode codec now t expected = Inr c"
  shows "\<exists>left right payload p. t = left @ CHR ''.'' # right \<and> b64_decode left = Some payload \<and>
    b64_decode right = Some (sign codec payload) \<and> decode_payload payload = Some p \<and>
    pay_Tenant p = UUID_String (scope_TenantID expected) \<and> pay_Endpoint p = scope_Endpoint expected \<and>
    pay_PageSize p = scope_PageSize expected \<and> cur_Position c = pay_Position p \<and> now < cur_ExpiresAt c"
proof -
  from assms obtain left right where parts: "split_on (CHR ''.'') t = [left, right]"
    by (auto simp: Cursor_Decode_def split: sum.splits if_splits list.splits)
  have t: "t = left @ CHR ''.'' # right" using join_split [of "CHR ''.''" t] by (simp add: parts)
  have "\<exists>payload p. b64_decode left = Some payload \<and> b64_decode right = Some (sign codec payload) \<and>
      decode_payload payload = Some p \<and> pay_Tenant p = UUID_String (scope_TenantID expected) \<and>
      pay_Endpoint p = scope_Endpoint expected \<and> pay_PageSize p = scope_PageSize expected \<and>
      cur_Position c = pay_Position p \<and> now < cur_ExpiresAt c"
    using assms parts by (auto simp: Cursor_Decode_def Let_def split: sum.splits if_splits option.splits)
  with t show ?thesis by blast
qed

end
