(* ===== verification/Publisher_Service.thy ===== *)
theory Publisher_Service
  imports Resource_Commands Publisher_Repository Cursors
begin

text \<open>
  \<open>internal/app/publication/publisher.go\<close>: the authenticated, tenant-scoped Publisher use cases over
  the repositories.
\<close>

subsection \<open>Constants\<close>

definition DefaultPublisherPageSize :: int where "DefaultPublisherPageSize = 50"
definition MaxPublisherPageSize :: int where "MaxPublisherPageSize = 200"
definition publisherCursorLifetime :: Duration where "publisherCursorLifetime = 15 * duration_minute"

definition createPublisherAction :: ReasonCode where
  "createPublisherAction = ReasonCode ''publisher.create''"

definition publisherResourceType :: ReasonCode where
  "publisherResourceType = ReasonCode ''publisher''"

definition publisherQueryDigest :: Digest where
  "publisherQueryDigest = SHA256Digest (json_encode (JObject [(''sort'', JString ''publisher_id'')]))"

subsection \<open>Commands\<close>

record CreatePublisher =
  cp_Slug :: string
  cp_DisplayName :: string
  cp_Description :: string

text \<open>\<open>json.Marshal(command)\<close>; the optional members are omitted when empty.\<close>

definition omitempty :: "string \<Rightarrow> string \<Rightarrow> (string \<times> json) list" where
  "omitempty name text = (if text = [] then [] else [(name, JString text)])"

definition create_publisher_json :: "CreatePublisher \<Rightarrow> json" where
  "create_publisher_json c = JObject ((''slug'', JString (cp_Slug c)) #
     omitempty ''display_name'' (cp_DisplayName c) @ omitempty ''description'' (cp_Description c))"

definition create_publisher_digest :: "CreatePublisher \<Rightarrow> Digest" where
  "create_publisher_digest c = SHA256Digest (json_encode (create_publisher_json c))"

subsection \<open>Operations\<close>

definition PublisherService_replay :: "Env \<Rightarrow> Ctx \<Rightarrow> UUID \<Rightarrow> IdemRecord \<Rightarrow> Publisher io" where
  "PublisherService_replay env ctx tenantID rc =
    (case established_resource (typed_service ErrorInternal ''publisher.result_unavailable'')
        StatusCreated publisherResourceType rc of
       Inl e \<Rightarrow> io_fail e
     | Inr identifier \<Rightarrow> PublisherRepository_Get env ctx tenantID identifier)"

definition PublisherService_Create ::
  "Env \<Rightarrow> Authorizer \<Rightarrow> Ctx \<Rightarrow> Identity \<Rightarrow> string \<Rightarrow> CreatePublisher \<Rightarrow> Publisher io" where
  "PublisherService_Create env authorizer ctx0 actor key command =
    (case Authorize authorizer actor ActionManagePublishers of
       Some e \<Rightarrow> io_fail e
     | None \<Rightarrow>
     (case authenticatedAuditContext ctx0 actor of
        Inl e \<Rightarrow> io_fail e
      | Inr ctx \<Rightarrow>
      (let digest = create_publisher_digest command in
       if \<not> is_ok (ValidateOwnership (ident_PrincipalID actor) createPublisherAction key)
         then io_fail (typed_service ErrorInvalid ''publisher.invalid_idempotency_key'')
       else WithinTransaction env ctx (ident_TenantID actor) (\<lambda>tx.
         io_bind (clock_Now env) (\<lambda>now.
         io_bind (ids_New env (typed_service ErrorInternal ''publisher.identifier_unavailable'')) (\<lambda>recordID.
         case Idempotency_New (ident_TenantID actor) recordID (ident_PrincipalID actor) createPublisherAction
             key digest now (now + MinimumRetention) of
           Inl _ \<Rightarrow> io_fail (typed_service ErrorInvalid ''publisher.invalid_request'')
         | Inr rc \<Rightarrow>
           io_bind (IdempotencyRepository_Acquire env tx rc) (\<lambda>(stored, created).
           if \<not> created then PublisherService_replay env tx (ident_TenantID actor) stored
           else
             io_bind (ids_New env (typed_service ErrorInternal ''publisher.identifier_unavailable'')) (\<lambda>publisherID.
             case Publisher_New (ident_TenantID actor) publisherID (cp_Slug command) (cp_DisplayName command)
                 (cp_Description command) now of
               Inl _ \<Rightarrow> io_fail (typed_service ErrorInvalid ''publisher.invalid_request'')
             | Inr result \<Rightarrow>
               io_bind (PublisherRepository_Create env tx result) (\<lambda>_.
               case NewResult StatusCreated (ReasonCode_String publisherResourceType) (UUID_String (pub_id result)) of
                 Inl _ \<Rightarrow> io_fail (typed_service ErrorInternal ''publisher.result_unavailable'')
               | Inr established \<Rightarrow>
                 io_bind (IdempotencyRepository_Complete env tx (ident_TenantID actor) (ident_PrincipalID actor)
                     createPublisherAction key digest established now) (\<lambda>_.
                 io_return result))))))))))"

definition PublisherService_Get :: "Env \<Rightarrow> Ctx \<Rightarrow> Identity \<Rightarrow> UUID \<Rightarrow> Publisher io" where
  "PublisherService_Get env ctx actor publisherID =
    (case validateIdentity actor of
       Inl e \<Rightarrow> io_fail e
     | Inr _ \<Rightarrow> PublisherRepository_Get env ctx (ident_TenantID actor) publisherID)"

record PublisherPage =
  pp_Items :: "Publisher list"
  pp_NextCursor :: string

text \<open>The position an encoded cursor stands for; the codec reads the clock.\<close>

definition decode_position ::
  "Env \<Rightarrow> CursorCodec \<Rightarrow> go_error \<Rightarrow> CursorScope \<Rightarrow> string \<Rightarrow> UUID option io" where
  "decode_position env codec invalid scope encodedCursor =
    (if encodedCursor = [] then io_return None
     else io_bind (clock_Now env) (\<lambda>now.
       io_bind (io_lift invalid (Cursor_Decode codec now encodedCursor scope)) (\<lambda>cursor.
       io_bind (io_lift invalid (ParseUUID (cur_Position cursor))) (\<lambda>position.
       io_return (Some position)))))"

definition PublisherService_List ::
  "Env \<Rightarrow> CursorCodec \<Rightarrow> Ctx \<Rightarrow> Identity \<Rightarrow> int \<Rightarrow> string \<Rightarrow> PublisherPage io" where
  "PublisherService_List env codec ctx actor pageSize encodedCursor =
    (case validateIdentity actor of
       Inl e \<Rightarrow> io_fail e
     | Inr _ \<Rightarrow>
     (if pageSize < 1 \<or> pageSize > MaxPublisherPageSize
        then io_fail (typed_service ErrorInvalid ''publisher.invalid_page_size'')
      else
        let scope = \<lparr>scope_TenantID = ident_TenantID actor, scope_Endpoint = ''/v1/publishers'',
              scope_QueryDigest = publisherQueryDigest, scope_PageSize = pageSize\<rparr> in
        io_bind (decode_position env codec (typed_service ErrorInvalid ''publisher.invalid_cursor'') scope encodedCursor) (\<lambda>after.
        io_bind (PublisherRepository_List env ctx (ident_TenantID actor) after (pageSize + 1)) (\<lambda>values.
        if int (length values) > pageSize then
          (let items = take (nat pageSize) values in
           io_bind (clock_Now env) (\<lambda>issued.
           io_bind (clock_Now env) (\<lambda>now.
           io_bind (io_lift (typed_service ErrorInternal ''publisher.cursor_unavailable'')
             (Cursor_Encode codec now scope
               \<lparr>cur_Position = UUID_String (pub_id (last items)), cur_ExpiresAt = issued + publisherCursorLifetime\<rparr>)) (\<lambda>next_cursor.
           io_return \<lparr>pp_Items = items, pp_NextCursor = next_cursor\<rparr>))))
        else io_return \<lparr>pp_Items = values, pp_NextCursor = []\<rparr>))))"

subsection \<open>Creation\<close>

text \<open>The command is an instance of the shared shape.\<close>

abbreviation create_publisher_command ::
  "Env \<Rightarrow> Ctx \<Rightarrow> Identity \<Rightarrow> string \<Rightarrow> CreatePublisher \<Rightarrow> Publisher io" where
  "create_publisher_command env ctx actor key command \<equiv>
    idem_command env ctx actor createPublisherAction key (create_publisher_digest command)
      (typed_service ErrorInternal ''publisher.identifier_unavailable'')
      (typed_service ErrorInvalid ''publisher.invalid_request'')
      (\<lambda>tx. replay_resource (typed_service ErrorInternal ''publisher.result_unavailable'') StatusCreated
        publisherResourceType (PublisherRepository_Get env tx (ident_TenantID actor)))
      (\<lambda>tx now. resource_body env (typed_service ErrorInternal ''publisher.identifier_unavailable'')
        (typed_service ErrorInvalid ''publisher.invalid_request'')
        (typed_service ErrorInternal ''publisher.result_unavailable'') publisherResourceType
        (\<lambda>uid. Publisher_New (ident_TenantID actor) uid (cp_Slug command) (cp_DisplayName command)
          (cp_Description command) now)
        pub_id (PublisherRepository_Create env tx))"

lemma PublisherService_Create_command:
  assumes "Authorize authorizer actor ActionManagePublishers = None"
    and "authenticatedAuditContext ctx0 actor = Inr ctx"
    and "is_ok (ValidateOwnership (ident_PrincipalID actor) createPublisherAction key)"
  shows "PublisherService_Create env authorizer ctx0 actor key command =
    create_publisher_command env ctx actor key command"
  using assms
  by (simp add: PublisherService_Create_def PublisherService_replay_def replay_resource_def
      idempotent_command_def resource_body_def io_bind_assoc io_bind_sum io_lift_bind Let_def
      cong: sum.case_cong if_cong)

lemma PublisherService_Create_Inr:
  assumes "PublisherService_Create env authorizer ctx0 actor key command w = (Inr p, w')"
  obtains ctx where "Authorize authorizer actor ActionManagePublishers = None"
    "authenticatedAuditContext ctx0 actor = Inr ctx"
    "create_publisher_command env ctx actor key command w = (Inr p, w')"
proof -
  from assms obtain ctx where a: "Authorize authorizer actor ActionManagePublishers = None"
    and c: "authenticatedAuditContext ctx0 actor = Inr ctx"
    and o: "is_ok (ValidateOwnership (ident_PrincipalID actor) createPublisherAction key)"
    by (auto simp: PublisherService_Create_def Let_def io_fail_def split: option.splits sum.splits if_splits)
  with assms that show ?thesis unfolding PublisherService_Create_command [OF a c o] by blast
qed

lemma balanced_PublisherRepository_Create [io_laws]: "balanced (PublisherRepository_Create env ctx p)"
  by (rule atomic_balanced [OF atomic_PublisherRepository_Create])

lemma atomic_PublisherService_Create [io_laws]: "atomic (PublisherService_Create env authorizer ctx0 actor key command)"
proof -
  have "atomic (create_publisher_command env ctx actor key command)" for ctx
    by (intro idem.command_atomic reads_balanced reads_replay_resource io_laws)
  then show ?thesis
    by (cases "Authorize authorizer actor ActionManagePublishers"; cases "authenticatedAuditContext ctx0 actor";
        cases "is_ok (ValidateOwnership (ident_PrincipalID actor) createPublisherAction key)")
      (simp_all add: PublisherService_Create_command,
       auto simp: PublisherService_Create_def Let_def intro: io_laws)
qed

lemma publisher_store_cong:
  "db_publishers db = db_publishers db' \<Longrightarrow> db_publisher_states db = db_publisher_states db' \<Longrightarrow>
    publisher_store db t u = publisher_store db' t u"
  by (simp add: publisher_store_def publisher_rows_def publisherSelect_def)

lemma publisher_tables_inv_cong:
  "db_publishers db = db_publishers db' \<Longrightarrow> db_publisher_states db = db_publisher_states db' \<Longrightarrow>
    publisher_tables_inv db = publisher_tables_inv db'"
  by (simp add: publisher_tables_inv_def)

text \<open>What a successful call did: a replay, or the first use of the key.\<close>

lemma PublisherService_Create_replayed:
  assumes run: "PublisherService_Create env authorizer ctx0 actor key command w = (Inr p, w')"
    and bound: "idem_bound (w_db w) actor createPublisherAction key = Some rc"
  shows "w_db w' = w_db w \<and> idem_digest rc = create_publisher_digest command \<and>
    (\<exists>u. establishes StatusCreated publisherResourceType u rc \<and>
      publisher_store (w_db w) (ident_TenantID actor) u = Some p)"
proof -
  from run obtain ctx where cmd: "create_publisher_command env ctx actor key command w = (Inr p, w')"
    by (rule PublisherService_Create_Inr)
  from command_replayed [OF _ _ cmd bound] obtain u w1 w2 where same: "w_db w' = w_db w"
    "idem_digest rc = create_publisher_digest command" "establishes StatusCreated publisherResourceType u rc"
    "w_db w1 = w_db w"
    and get: "PublisherRepository_Get env (within ctx actor) (ident_TenantID actor) u w1 = (Inr p, w2)"
    by (auto simp: io_laws)
  from PublisherRepository_Get_Inr [OF get] same show ?thesis by auto
qed

lemma PublisherService_Create_first:
  assumes run: "PublisherService_Create env authorizer ctx0 actor key command w = (Inr p, w')"
    and free: "idem_bound (w_db w) actor createPublisherAction key = None"
    and inv: "idempotency_inv (w_db w)"
  obtains now uid rc ctx w1 w2 where
    "Publisher_New (ident_TenantID actor) uid (cp_Slug command) (cp_DisplayName command) (cp_Description command) now = Inr p"
    "PublisherRepository_Create env ctx p w1 = (Inr (), w2)"
    "actor_principalID (the (ctx_actor ctx)) = ident_PrincipalID actor"
    "other_tables (w_db w1) = other_tables (w_db w)" "other_tables (w_db w') = other_tables (w_db w2)"
    "idem_bound (w_db w') actor createPublisherAction key = Some rc" "idem_digest rc = create_publisher_digest command"
    "establishes StatusCreated publisherResourceType (pub_id p) rc" "idempotency_inv (w_db w')"
proof -
  from run obtain ctx where ctx: "authenticatedAuditContext ctx0 actor = Inr ctx"
    and cmd: "create_publisher_command env ctx actor key command w = (Inr p, w')"
    by (rule PublisherService_Create_Inr)
  show thesis
  proof (rule resource_command_first [OF _ _ cmd free inv])
    fix now uid rc w1 w2
    assume a: "Publisher_New (ident_TenantID actor) uid (cp_Slug command) (cp_DisplayName command) (cp_Description command) now = Inr p"
      "PublisherRepository_Create env (within ctx actor) p w1 = (Inr (), w2)"
      "other_tables (w_db w1) = other_tables (w_db w)" "other_tables (w_db w') = other_tables (w_db w2)"
      "idem_bound (w_db w') actor createPublisherAction key = Some rc" "idem_digest rc = create_publisher_digest command"
      "establishes StatusCreated publisherResourceType (pub_id p) rc" "idempotency_inv (w_db w')"
    show thesis by (rule that [OF a(1,2) _ a(3-)]) (use authenticatedAuditContext_Inr [OF ctx] in auto)
  next
    show "db_idempotency (w_db wb) = db_idempotency (w_db wa)"
      if "PublisherRepository_Create env (within ctx actor) p wa = (Inr (), wb)" for wa wb
      using PublisherRepository_Create_Inr [OF that] by auto
    show "valid_uuid (pub_id p)"
      if "Publisher_New (ident_TenantID actor) u (cp_Slug command) (cp_DisplayName command) (cp_Description command) now = Inr p"
      for u now
      using that by (auto dest!: Publisher_New_wf simp: wf_publisher_def)
    show "publisherResourceType \<noteq> ReasonCode []" by (simp add: publisherResourceType_def)
  qed (auto intro!: reads_balanced io_laws)
qed

end
