(* ===== verification/Progress.thy ===== *)
theory Progress
  imports Publisher_Service Sample_Store
begin

text \<open>
  Total correctness: when a computation returns a value, rather than what is true if it does. A small
  calculus of weakest preconditions over the database for the computations of \<open>Database\<close>, under an
  environment that answers, and what it gives for the repositories and for creating a Publisher.
\<close>

subsection \<open>The calculus\<close>

text \<open>The computation returns a value, and the postcondition holds of it and the database.\<close>

definition completes :: "'a io \<Rightarrow> World \<Rightarrow> ('a \<Rightarrow> DB \<Rightarrow> bool) \<Rightarrow> bool" where
  "completes m w Q \<longleftrightarrow> (\<exists>v w'. m w = (Inr v, w') \<and> Q v (w_db w'))"

lemma completesE: "completes m w Q \<Longrightarrow> (\<And>v w'. m w = (Inr v, w') \<Longrightarrow> Q v (w_db w') \<Longrightarrow> R) \<Longrightarrow> R"
  by (auto simp: completes_def)

lemma completes_return: "Q v (w_db w) \<Longrightarrow> completes (io_return v) w Q"
  by (simp add: completes_def io_return_def)

lemma completes_bind:
  "completes m w (\<lambda>v db. \<forall>w'. w_db w' = db \<longrightarrow> completes (k v) w' Q) \<Longrightarrow> completes (io_bind m k) w Q"
  by (fastforce simp: completes_def io_bind_def)

lemma completes_lift: "r = Inr v \<Longrightarrow> Q v (w_db w) \<Longrightarrow> completes (io_lift e r) w Q"
  by (simp add: io_lift_def completes_return)

lemma completes_weaken: "completes m w P \<Longrightarrow> (\<And>v db. P v db \<Longrightarrow> Q v db) \<Longrightarrow> completes m w Q"
  by (auto simp: completes_def)

text \<open>The driver answers every call.\<close>

definition faultless :: "Env \<Rightarrow> bool" where
  "faultless env \<longleftrightarrow> (\<forall>n. env_fault env n = None)"

lemma completes_clock: "(\<And>n. Q (env_clock env n) (w_db w)) \<Longrightarrow> completes (clock_Now env) w Q"
  by (simp add: completes_def clock_Now_def)

lemma completes_ids:
  "(\<And>n. \<exists>u. env_identifier env n = Some u \<and> Q u (w_db w)) \<Longrightarrow> completes (ids_New env e) w Q"
proof -
  assume "\<And>n. \<exists>u. env_identifier env n = Some u \<and> Q u (w_db w)"
  from this [of "w_tick w"] show ?thesis by (auto simp: completes_def ids_New_def)
qed

lemma completes_exec:
  "faultless env \<Longrightarrow> statement (w_db w) = Inr (v, db) \<Longrightarrow> Q v db \<Longrightarrow> completes (io_exec env err statement) w Q"
  by (simp add: completes_def faultless_def io_exec_def)

lemma completes_query: "faultless env \<Longrightarrow> Q (q (w_db w)) (w_db w) \<Longrightarrow> completes (io_query env e q) w Q"
  by (simp add: io_query_def completes_exec)

lemma completes_query_one:
  "faultless env \<Longrightarrow> q (w_db w) = row # rows \<Longrightarrow> scan row = Inr v \<Longrightarrow> Q v (w_db w) \<Longrightarrow>
    completes (query_one env nf u scan q) w Q"
  unfolding query_one_def
  by (intro completes_bind completes_query) (auto simp: first_row_def intro: completes_lift)

lemma completes_commit:
  "faultless env \<Longrightarrow> completes operation w Q \<Longrightarrow> completes (commit_or_rollback env u operation) w Q"
  by (auto simp: completes_def faultless_def commit_or_rollback_def tx_commit_def)

lemma completes_begin: "faultless env \<Longrightarrow> Q () (w_db w) \<Longrightarrow> completes (tx_begin env u) w Q"
  by (simp add: completes_def faultless_def tx_begin_def)

lemma completes_begin_repository:
  assumes "faultless env" "valid_uuid t" "ctx_tx ctx = None \<or> ctx_tx ctx = Some t" "Q () (w_db w)"
  shows "completes (BeginRepositoryTransaction env ctx t) w Q"
proof (cases "ctx_tx ctx")
  case None
  with assms show ?thesis
    by (simp add: BeginRepositoryTransaction_def completes_def io_bind_def tx_begin_def set_tenant_def
        io_query_def io_exec_def faultless_def)
next
  case (Some current)
  with assms show ?thesis
    using completes_begin [of env Q w] by (simp add: BeginRepositoryTransaction_def)
qed

lemma completes_repository_tx:
  assumes "faultless env" "valid_uuid t" "ctx_tx ctx = None \<or> ctx_tx ctx = Some t"
    and "\<And>w'. w_db w' = w_db w \<Longrightarrow> completes statements w' Q"
  shows "completes (repository_tx env ctx t e u statements) w Q"
  unfolding repository_tx_def using assms
  by (auto intro!: completes_bind completes_begin_repository completes_commit)

lemma completes_WithinTransaction:
  assumes "faultless env" "valid_uuid t" "ctx_tx ctx = None \<or> ctx_tx ctx = Some t"
    and "\<And>w'. w_db w' = w_db w \<Longrightarrow> completes (operation (ctx\<lparr>ctx_tx := Some t\<rparr>)) w' Q"
  shows "completes (WithinTransaction env ctx t operation) w Q"
proof (cases "ctx_tx ctx")
  case None
  with assms show ?thesis
    by (auto simp: WithinTransaction_def set_tenant_def
        intro!: completes_bind completes_begin completes_commit completes_query)
next
  case (Some current)
  with assms(3) have "ctx\<lparr>ctx_tx := Some t\<rparr> = ctx" by simp
  with Some assms show ?thesis
    by (auto simp: WithinTransaction_def withinNested_def intro!: completes_bind completes_begin completes_commit)
qed

subsection \<open>Repositories\<close>

text \<open>The environment serves a tenant: it answers, and what it generates is valid and unused there.\<close>

definition serves :: "Env \<Rightarrow> UUID \<Rightarrow> DB \<Rightarrow> bool" where
  "serves env t db \<longleftrightarrow> faultless env \<and> valid_uuid t \<and> t \<in> set (db_tenants db) \<and>
    (\<forall>n. \<exists>u. env_identifier env n = Some u \<and> valid_uuid u \<and>
      (\<forall>r \<in> set (db_idempotency db). (irow_tenant r, irow_id r) \<noteq> (t, u)) \<and>
      (\<forall>r \<in> set (db_publishers db). (prow_tenant r, prow_id r) \<noteq> (t, u))) \<and>
    (\<forall>n. \<forall>r \<in> set (db_audit db). (arow_tenant r, arow_id r) \<noteq> (t, env_uuidv7 env n)) \<and>
    (\<forall>n. env_clock env n \<noteq> 0 \<and> env_store_time env (env_clock env n) \<noteq> 0 \<and>
      env_store_time env (env_clock env n) + MinimumRetention \<le>
        env_store_time env (env_clock env n + MinimumRetention))"

lemma params_simps [simp]:
  "par_TenantID (resource_params t action rt rid) = t" "par_ArtifactVersionID (resource_params t action rt rid) = None"
  "par_TenantID (decision_params t action rt rid decision reasons) = t"
  "par_ArtifactVersionID (decision_params t action rt rid decision reasons) = None"
  by (simp_all add: resource_params_def decision_params_def)

lemma completes_Audit_Record:
  assumes "faultless env" "ActorFromContext (ctx_actor ctx) = Some actor" "par_TenantID params \<in> set (db_tenants (w_db w))"
    and "\<And>n. \<forall>r \<in> set (db_audit (w_db w)). (arow_tenant r, arow_id r) \<noteq> (par_TenantID params, env_uuidv7 env n)"
    and "par_ArtifactVersionID params = None"
    and "\<And>fact. Q () ((w_db w)\<lparr>db_audit := db_audit (w_db w) @ [fact]\<rparr>)"
  shows "completes (Audit_Record env ctx params) w Q"
proof -
  let ?digest = "map_option Digest_String (par_ArtifactDigest params)"
  let ?row = "audit_row (env_uuidv7 env (w_tick w)) (env_timestamp env (w_tick w)) actor params ?digest"
  have row: "arow_tenant ?row = par_TenantID params" "arow_id ?row = env_uuidv7 env (w_tick w)"
    by (simp_all add: audit_row_def)
  then have "insert_audit_row ?row (w_db w) = Inr ((w_db w)\<lparr>db_audit := db_audit (w_db w) @ [?row]\<rparr>)"
    using assms(3) assms(4) [of "w_tick w"] by (auto simp: insert_audit_row_def)
  then have st: "insert_audit (env_uuidv7 env (w_tick w)) (env_timestamp env (w_tick w)) actor params (w_db w) =
      Inr (1, (w_db w)\<lparr>db_audit := db_audit (w_db w) @ [?row]\<rparr>)"
    using assms(5) by (simp add: insert_audit_def Let_def)
  show ?thesis
    unfolding Audit_Record_def assms(2) option.case completes_def
    using assms(1,6) st by (simp add: io_bind_def io_exec_def faultless_def io_return_def)
qed

lemma completes_PublisherRepository_Create:
  assumes env: "faultless env" "valid_uuid (pub_tenantID p)" "pub_tenantID p \<in> set (db_tenants (w_db w))"
      "\<And>n. \<forall>r \<in> set (db_audit (w_db w)). (arow_tenant r, arow_id r) \<noteq> (pub_tenantID p, env_uuidv7 env n)"
    and tx: "ctx_tx ctx = None \<or> ctx_tx ctx = Some (pub_tenantID p)"
    and actor: "ActorFromContext (ctx_actor ctx) = Some actor"
    and inv: "publisher_tables_inv (w_db w)"
    and fresh: "\<forall>r \<in> set (db_publishers (w_db w)). (prow_tenant r, prow_id r) \<noteq> (pub_tenantID p, pub_id p)"
    and free: "\<forall>r \<in> set (db_publishers (w_db w)). (prow_tenant r, prow_slug r) \<noteq> (pub_tenantID p, pub_slug p)"
    and Q: "\<And>db. db_idempotency db = db_idempotency (w_db w) \<Longrightarrow> Q () db"
  shows "completes (PublisherRepository_Create env ctx p) w Q"
proof -
  let ?db1 = "(w_db w)\<lparr>db_publishers := db_publishers (w_db w) @ [publisher_row env p]\<rparr>"
  let ?db2 = "?db1\<lparr>db_publisher_states := db_publisher_states (w_db w) @ [initial_state_row env p]\<rparr>"
  have key: "prow_tenant (publisher_row env p) = pub_tenantID p" "prow_id (publisher_row env p) = pub_id p"
    "prow_slug (publisher_row env p) = pub_slug p"
    and skey: "psrow_tenant (initial_state_row env p) = pub_tenantID p" "psrow_publisher (initial_state_row env p) = pub_id p"
    "psrow_version (initial_state_row env p) = 1"
    by (simp_all add: publisher_row_def initial_state_row_def)
  have unused: "\<not> (psrow_tenant s = pub_tenantID p \<and> psrow_publisher s = pub_id p)"
    if "s \<in> set (db_publisher_states (w_db w))" for s
    using inv fresh that unfolding publisher_tables_inv_def prow_key_def psrow_key_def by fastforce
  have "insert_publisher (publisher_row env p) (w_db w) = Inr ((), ?db1)"
    using env fresh free unfolding insert_publisher_def key by auto
  moreover have "enforce_publisher_state_record (initial_state_row env p) ?db1"
    by (simp add: enforce_publisher_state_record_def initial_state_row_def)
  then have "insert_publisher_state (initial_state_row env p) ?db1 = Inr ((), ?db2)"
    using unused unfolding insert_publisher_state_def skey by (auto simp: key)
  moreover have "completes (Audit_Record env ctx (resource_params (pub_tenantID p) ActionPublisherCreated ''publisher''
      (UUID_String (pub_id p)))) w' Q" if "w_db w' = ?db2" for w'
    by (rule completes_Audit_Record [OF _ actor]) (use env that Q in auto)
  ultimately show ?thesis
    using env
    unfolding PublisherRepository_Create_def
    by (intro completes_repository_tx completes_bind tx) (auto intro!: completes_exec completes_bind)
qed

text \<open>The row of a new request reads back as the request, with its instants as the columns keep them.\<close>

definition stored_request :: "Env \<Rightarrow> IdemRecord \<Rightarrow> IdemRecord" where
  "stored_request env rc = rc\<lparr>idem_createdAt := env_store_time env (idem_createdAt rc),
     idem_expiresAt := env_store_time env (idem_expiresAt rc)\<rparr>"

lemma idempotency_row_scan:
  assumes "wf_idem rc" "idem_state rc = StatePending" "NewReasonCode (ReasonCode_String (idem_action rc)) = Inr (idem_action rc)"
    and "env_store_time env (idem_createdAt rc) \<noteq> 0"
    and "env_store_time env (idem_createdAt rc) + MinimumRetention \<le> env_store_time env (idem_expiresAt rc)"
  shows "idempotency_scan (idempotency_row env rc) = Inr (stored_request env rc)"
proof -
  have "wf_idem (stored_request env rc)"
    using assms by (simp add: wf_idem_def stored_request_def MinimumRetention_def time_defs)
  then show ?thesis
    using assms(1-3)
    by (auto simp: idempotency_scan_Inr idempotency_row_def stored_request_def scan_result_def wf_idem_def)
qed

lemma completes_Acquire:
  assumes env: "faultless env" "idem_tenantID rc \<in> set (db_tenants (w_db w))"
    and tx: "ctx_tx ctx = None \<or> ctx_tx ctx = Some (idem_tenantID rc)"
    and wf: "wf_idem rc" "idem_state rc = StatePending" "NewReasonCode (ReasonCode_String (idem_action rc)) = Inr (idem_action rc)"
    and stored: "env_store_time env (idem_createdAt rc) \<noteq> 0"
      "env_store_time env (idem_createdAt rc) + MinimumRetention \<le> env_store_time env (idem_expiresAt rc)"
    and free: "owned_rows (idem_tenantID rc) (idem_principal rc) (idem_action rc) (idem_key rc) (w_db w) = []"
    and fresh: "\<forall>r \<in> set (db_idempotency (w_db w)). (irow_tenant r, irow_id r) \<noteq> (idem_tenantID rc, idem_id rc)"
    and Q: "Q (stored_request env rc, True)
      ((w_db w)\<lparr>db_idempotency := db_idempotency (w_db w) @ [idempotency_row env rc]\<rparr>)"
  shows "completes (IdempotencyRepository_Acquire env ctx rc) w Q"
proof -
  let ?row = "idempotency_row env rc"
  let ?db = "(w_db w)\<lparr>db_idempotency := db_idempotency (w_db w) @ [?row]\<rparr>"
  have key: "irow_tenant ?row = idem_tenantID rc" "irow_principal ?row = idem_principal rc"
    "irow_action ?row = ReasonCode_String (idem_action rc)" "irow_key ?row = idem_key rc" "irow_id ?row = idem_id rc"
    "irow_created_at ?row = env_store_time env (idem_createdAt rc)" "irow_expires_at ?row = env_store_time env (idem_expiresAt rc)"
    by (simp_all add: idempotency_row_def)
  have "insert_idempotency ?row (w_db w) = Inr (1, ?db)"
    using env stored free fresh unfolding insert_idempotency_def key
    by (auto simp: owned_rows_def filter_empty_conv)
  moreover have "owned_rows (idem_tenantID rc) (idem_principal rc) (idem_action rc) (idem_key rc) ?db = [?row]"
    using free by (simp add: owned_rows_def owned_def key)
  moreover have "valid_uuid (idem_tenantID rc)" using wf by (simp add: wf_idem_def)
  ultimately show ?thesis
    using env(1) idempotency_row_scan [OF wf stored] Q unfolding IdempotencyRepository_Acquire_def
    by (intro completes_repository_tx completes_bind tx)
      (auto intro!: completes_exec completes_bind completes_query_one completes_return simp: stored_request_def)
qed

lemma completes_Complete:
  assumes env: "faultless env" "valid_uuid t"
    and tx: "ctx_tx ctx = None \<or> ctx_tx ctx = Some t"
    and rows: "owned_rows t p a k (w_db w) = [idempotency_row env rc]"
    and rc: "idem_tenantID rc = t" "idem_principal rc = p" "idem_action rc = a" "idem_key rc = k" "idem_digest rc = d"
    and wf: "wf_idem rc" "NewReasonCode (ReasonCode_String a) = Inr a" "wf_result res"
    and stored: "env_store_time env (idem_createdAt rc) \<noteq> 0" "env_store_time env (idem_createdAt rc) \<le> env_store_time env c"
      "env_store_time env (idem_createdAt rc) + MinimumRetention \<le> env_store_time env (idem_expiresAt rc)"
    and c: "c \<noteq> 0" and Q: "\<And>r db. Q r db"
  shows "completes (IdempotencyRepository_Complete env ctx t p a k d res c) w Q"
proof -
  let ?row = "idempotency_row env rc"
  let ?rt = "map_option ReasonCode_String (Result_ResourceType res)"
  let ?rid = "if Result_ResourceType res = None then None else Some (result_resourceID res)"
  let ?m = "pending_request t p (ReasonCode_String a) k (Digest_String d)"
  let ?f = "complete_row (result_status res) ?rt ?rid (env_store_time env c)"
  have m: "filter ?m (db_idempotency (w_db w)) = [?row]"
  proof -
    have "filter ?m (db_idempotency (w_db w)) =
        filter (\<lambda>r. irow_digest r = Digest_String d \<and> irow_state r = ''pending'') (owned_rows t p a k (w_db w))"
      by (auto simp: owned_rows_def pending_request_def intro!: filter_cong)
    then show ?thesis by (simp add: rows) (simp add: idempotency_row_def rc)
  qed
  let ?r = "rc\<lparr>idem_createdAt := env_store_time env (idem_createdAt rc),
     idem_expiresAt := env_store_time env (idem_expiresAt rc), idem_state := StateCompleted,
     idem_result := Some res, idem_completedAt := Some (env_store_time env c)\<rparr>"
  have "wf_idem ?r"
    using wf stored by (simp add: wf_idem_def wf_result_def MinimumRetention_def time_defs)
  then have scan: "idempotency_scan (?f ?row) = Inr ?r"
    using scan_result_complete_row [OF wf(3), of "env_store_time env c" ?row] wf(1,2)
    unfolding idempotency_scan_Inr
    by (intro exI [of _ a] exI [of _ d] exI [of _ "Some res"] conjI)
      (simp_all add: idempotency_row_def complete_row_def wf_idem_def rc)
  have upd: "update_idempotency ?m ?f (w_db w) = Inr ([?f ?row],
      (w_db w)\<lparr>db_idempotency := map (\<lambda>r. if ?m r then ?f r else r) (db_idempotency (w_db w))\<rparr>)"
    using stored by (simp add: update_idempotency_def m Let_def) (simp add: complete_row_def idempotency_row_def)
  have guard: "\<not> (\<not> is_ok (ValidateOwnership p a k) \<or> Digest_String d = [] \<or> time_IsZero c \<or> result_status res < 100)"
    using wf rc c by (auto simp: is_ok_iff ValidateOwnership_ok wf_idem_def wf_result_def Digest_String_def wf_digest_def)
  show ?thesis
    unfolding IdempotencyRepository_Complete_def if_not_P [OF guard]
    by (rule completes_repository_tx [OF env tx], rule completes_bind, rule completes_exec [OF env(1)])
      (simp only: upd, simp only: first_row_def list.case option.case, blast intro: completes_lift scan Q)
qed

subsection \<open>Creating a Publisher\<close>

lemma createPublisherAction_reason:
  "NewReasonCode (ReasonCode_String createPublisherAction) = Inr createPublisherAction"
  unfolding createPublisherAction_def ReasonCode.sel by (rule NewReasonCode_literal) (simp add: reason_literal_simps)

lemma resource_result:
  assumes rt: "NewReasonCode (ReasonCode_String rt) = Inr rt" and status: "100 \<le> status" "status \<le> 599"
  obtains res where "NewResult status (ReasonCode_String rt) (UUID_String u) = Inr res" "wf_result res"
proof -
  have "UUID_String u \<noteq> []" by (metis length_UUID_String list.size(3) zero_neq_numeral)
  moreover have "list_all (\<lambda>c. 0x20 \<le> code c \<and> code c < 0x7F) (hex_encode bs)" for bs
    by (auto simp: list_all_iff lower_hex_def is_digit_def dest!: hex_encode_lower)
  then have "text_ok (UUID_String u) 512"
    by (intro text_ok_ascii) (simp_all add: UUID_String_def Let_def)
  ultimately have "wf_result \<lparr>result_status = status, result_resourceType = rt, result_resourceID = UUID_String u\<rparr>"
    using rt status by (auto simp: wf_result_def NewReasonCode_iff)
  then show thesis by (intro that) (simp_all add: NewResult_Inr)
qed

lemma publisherResourceType_reason:
  "NewReasonCode (ReasonCode_String publisherResourceType) = Inr publisherResourceType"
  unfolding publisherResourceType_def ReasonCode.sel by (rule NewReasonCode_literal) (simp add: reason_literal_simps)

text \<open>
  A first request that is well formed and authorised, for a slug nobody has, is carried out: every
  check of the service, the repositories, the constraints and the triggers lets it through.
\<close>

lemma completes_publisher_body:
  assumes env: "serves env (ident_TenantID actor) db"
    and actor: "ActorFromContext (ctx_actor tx) = Some a" and tx: "ctx_tx tx = Some (ident_TenantID actor)"
    and inv: "publisher_tables_inv db"
    and free: "\<forall>r \<in> set (db_publishers db). (prow_tenant r, prow_slug r) \<noteq> (ident_TenantID actor, cp_Slug command)"
    and valid: "ValidateSlug (cp_Slug command)" "text_ok (cp_DisplayName command) 256" "text_ok (cp_Description command) 4096"
    and now: "now \<noteq> 0" and w: "other_tables (w_db w) = other_tables db"
    and Q: "\<And>p res db'. pub_slug p = cp_Slug command \<Longrightarrow> pub_createdAt p = now \<Longrightarrow> wf_result res \<Longrightarrow> db_idempotency db' = db_idempotency (w_db w) \<Longrightarrow>
      Q (p, res) db'"
  shows "completes (resource_body env e1 e2 e3 publisherResourceType
        (\<lambda>uid. Publisher_New (ident_TenantID actor) uid (cp_Slug command) (cp_DisplayName command)
          (cp_Description command) now)
        pub_id (PublisherRepository_Create env tx)) w Q"
  unfolding resource_body_def
proof (rule completes_bind, rule completes_ids)
  fix n
  from env obtain u where u: "env_identifier env n = Some u" "valid_uuid u" "valid_uuid (ident_TenantID actor)"
    and fresh: "\<forall>r \<in> set (db_publishers db). (prow_tenant r, prow_id r) \<noteq> (ident_TenantID actor, u)"
    unfolding serves_def by blast
  let ?p = "\<lparr>pub_tenantID = ident_TenantID actor, pub_id = u, pub_slug = cp_Slug command,
    pub_displayName = cp_DisplayName command, pub_description = cp_Description command,
    pub_state = PublisherClaimed, pub_version = 1, pub_createdAt = now\<rparr>"
  have new: "Publisher_New (ident_TenantID actor) u (cp_Slug command) (cp_DisplayName command) (cp_Description command) now = Inr ?p"
    using valid u now
    by (simp add: Publisher_New_def publisher_restore_Inr wf_publisher_def ValidateSlug_def slugPattern_def publisher_limits
        publisher_validState_def)
  obtain res where res: "NewResult StatusCreated (ReasonCode_String publisherResourceType) (UUID_String u) = Inr res" "wf_result res"
    by (rule resource_result [OF publisherResourceType_reason, of StatusCreated u]) (simp_all add: StatusCreated_def)
  note t = w [unfolded other_tables_fields]
  have "completes (PublisherRepository_Create env tx ?p) w'
      (\<lambda>_ db'. \<forall>w'. w_db w' = db' \<longrightarrow> completes (io_return (?p, res)) w' Q)" if w': "w_db w' = w_db w" for w'
    by (rule completes_PublisherRepository_Create [OF _ _ _ _ _ actor])
      (use env u fresh free inv tx t w' publisher_tables_inv_cong [of "w_db w" db] Q [OF _ _ res(2)] in
        \<open>auto simp: serves_def intro: completes_return\<close>)
  with u(1) new res(1) show "\<exists>u. env_identifier env n = Some u \<and> (\<forall>w'. w_db w' = w_db w \<longrightarrow>
      completes (case Publisher_New (ident_TenantID actor) u (cp_Slug command) (cp_DisplayName command)
          (cp_Description command) now of
        Inl _ \<Rightarrow> io_fail e2
      | Inr r \<Rightarrow> io_bind (PublisherRepository_Create env tx r) (\<lambda>_.
          case NewResult StatusCreated (ReasonCode_String publisherResourceType) (UUID_String (pub_id r)) of
            Inl _ \<Rightarrow> io_fail e3 | Inr established \<Rightarrow> io_return (r, established))) w' Q)"
    by (auto intro!: completes_bind)
qed

lemma completes_command:
  fixes w :: World
  assumes env: "serves env (ident_TenantID actor) (w_db w)"
    and tx: "ctx_tx ctx = None \<or> ctx_tx ctx = Some (ident_TenantID actor)"
    and action: "NewReasonCode (ReasonCode_String action) = Inr action" and digest: "wf_digest digest"
    and key: "is_ok (ValidateOwnership (ident_PrincipalID actor) action key)"
      "owned_rows (ident_TenantID actor) (ident_PrincipalID actor) action key (w_db w) = []"
    and body: "\<And>n now w1. now = env_clock env n \<Longrightarrow> now \<noteq> 0 \<Longrightarrow> other_tables (w_db w1) = other_tables (w_db w) \<Longrightarrow>
      completes (body (within ctx actor) now) w1
        (\<lambda>v db. db_idempotency db = db_idempotency (w_db w1) \<and> wf_result (snd v) \<and> P (fst v))"
  shows "completes (idem_command env ctx actor action key digest e1 e2 replay body) w (\<lambda>v _. P v)"
  unfolding idempotent_command_def
proof (rule completes_WithinTransaction [OF _ _ tx])
  let ?t = "ident_TenantID actor" and ?tx = "within ctx actor" and ?p = "ident_PrincipalID actor"
  show fl: "faultless env" and t: "valid_uuid ?t" using env by (simp_all add: serves_def)
  let ?finish = "\<lambda>now (v, established).
    io_bind (IdempotencyRepository_Complete env ?tx ?t ?p action key digest established now) (\<lambda>_. io_return v)"
  let ?run = "\<lambda>now (stored, created). if \<not> created then replay ?tx stored else io_bind (body ?tx now) (?finish now)"
  let ?acquire = "\<lambda>now u. io_bind (io_lift e2 (Idempotency_New ?t u ?p action key digest now (now + MinimumRetention)))
    (\<lambda>rc. io_bind (IdempotencyRepository_Acquire env ?tx rc) (?run now))"
  fix w1 :: World assume w1: "w_db w1 = w_db w"
  have acquire: "completes (?acquire now u) w2 (\<lambda>v _. P v)"
    if now: "now = env_clock env n" and clock: "now \<noteq> 0" "env_store_time env now \<noteq> 0"
        "env_store_time env now + MinimumRetention \<le> env_store_time env (now + MinimumRetention)"
      and u: "valid_uuid u" "\<forall>r \<in> set (db_idempotency (w_db w)). (irow_tenant r, irow_id r) \<noteq> (?t, u)"
      and w2: "w_db w2 = w_db w" for n now u w2
  proof -
    let ?rc = "\<lparr>idem_tenantID = ?t, idem_id = u, idem_principal = ?p, idem_action = action, idem_key = key,
      idem_digest = digest, idem_state = StatePending, idem_result = None, idem_createdAt = now,
      idem_completedAt = None, idem_expiresAt = now + MinimumRetention\<rparr>"
    let ?r = "idempotency_row env ?rc"
    have wf: "wf_idem ?rc"
      using key(1) u t clock digest by (auto simp: is_ok_iff ValidateOwnership_ok wf_idem_def MinimumRetention_def time_defs)
    have owned: "owned_rows ?t ?p action key db = [?r]" if "db_idempotency db = db_idempotency (w_db w) @ [?r]" for db
      using key(2) that by (simp add: owned_rows_def) (simp add: owned_def idempotency_row_def)
    have finish: "completes (?finish now v) w4 (\<lambda>v _. P v)"
      if "P (fst v)" "wf_result (snd v)" "db_idempotency (w_db w4) = db_idempotency (w_db w) @ [?r]" for v w4
    proof (cases v)
      case (Pair x established)
      have "completes (IdempotencyRepository_Complete env ?tx ?t ?p action key digest established now) w4
          (\<lambda>_ db. \<forall>w'. w_db w' = db \<longrightarrow> completes (io_return x) w' (\<lambda>v _. P v))"
        by (rule completes_Complete [where rc = ?rc, OF fl t _ owned])
          (use wf action that clock Pair in \<open>auto intro: completes_return\<close>)
      then show ?thesis unfolding Pair by (auto intro: completes_bind)
    qed
    have run: "completes (?run now (stored, True)) w3 (\<lambda>v _. P v)"
      if "w_db w3 = (w_db w)\<lparr>db_idempotency := db_idempotency (w_db w) @ [?r]\<rparr>" for stored w3
    proof -
      from that have "other_tables (w_db w3) = other_tables (w_db w)" by (simp add: other_tables_def)
      from body [OF now clock(1) this] have "completes (io_bind (body ?tx now) (?finish now)) w3 (\<lambda>v _. P v)"
        by (intro completes_bind, elim completes_weaken) (use finish that in auto)
      then show ?thesis by simp
    qed
    have "completes (IdempotencyRepository_Acquire env ?tx ?rc) w5 (\<lambda>v db. \<forall>w'. w_db w' = db \<longrightarrow> completes (?run now v) w' (\<lambda>v _. P v))"
      if "w_db w5 = w_db w" for w5
      by (rule completes_Acquire [OF fl])
        (use that env wf action clock key(2) u(2) run in \<open>auto simp: serves_def\<close>)
    then show ?thesis
      using w2 wf by (intro completes_bind completes_lift [of _ ?rc]) (auto simp: Idempotency_New_Inr intro: completes_bind)
  qed
  show "completes (io_bind (clock_Now env) (\<lambda>now. io_bind (ids_New env e1) (?acquire now))) w1 (\<lambda>v _. P v)"
  proof (rule completes_bind, rule completes_clock, intro allI impI, rule completes_bind, rule completes_ids)
    fix n m and w2 :: World assume "w_db w2 = w_db w1"
    with env w1 acquire [OF refl, of n]
    show "\<exists>u. env_identifier env m = Some u \<and>
        (\<forall>w'. w_db w' = w_db w2 \<longrightarrow> completes (?acquire (env_clock env n) u) w' (\<lambda>v _. P v))"
      unfolding serves_def by metis
  qed
qed

lemma PublisherService_Create_completes:
  assumes env: "serves env (ident_TenantID actor) (w_db w)"
    and permitted: "Authorize authorizer actor ActionManagePublishers = None"
      "authenticatedAuditContext ctx0 actor = Inr ctx" "ctx_tx ctx0 = None \<or> ctx_tx ctx0 = Some (ident_TenantID actor)"
    and key: "is_ok (ValidateOwnership (ident_PrincipalID actor) createPublisherAction key)"
      "owned_rows (ident_TenantID actor) (ident_PrincipalID actor) createPublisherAction key (w_db w) = []"
    and inv: "publisher_tables_inv (w_db w)"
    and free: "\<forall>r \<in> set (db_publishers (w_db w)). (prow_tenant r, prow_slug r) \<noteq> (ident_TenantID actor, cp_Slug command)"
    and valid: "ValidateSlug (cp_Slug command)" "text_ok (cp_DisplayName command) 256" "text_ok (cp_Description command) 4096"
  shows "completes (PublisherService_Create env authorizer ctx0 actor key command) w
    (\<lambda>p _. pub_slug p = cp_Slug command \<and> (\<exists>n. pub_createdAt p = env_clock env n))"
proof -
  obtain a where a: "ctx_tx ctx = ctx_tx ctx0" "ActorFromContext (ctx_actor (within ctx actor)) = Some a"
    using authenticatedAuditContext_Inr [OF permitted(2)] by (auto simp: ActorFromContext_def wf_actor_def)
  show ?thesis
    unfolding PublisherService_Create_command [OF permitted(1,2) key(1)]
    by (rule completes_command [OF env _ createPublisherAction_reason _ key], rule_tac [3] completes_publisher_body [OF env a(2) _ inv free valid])
      (use a permitted(3) in \<open>auto simp: create_publisher_digest_def\<close>)
qed

end
