(* ===== verification/Go_URL.thy ===== *)
theory Go_URL
  imports Go_Text
begin

text \<open>
  Package \<open>net/url\<close>: \<open>Parse\<close>, \<open>ParseRequestURI\<close> and \<open>URL.String\<close>, with the escaping modes they use.
  An IP literal in brackets is checked as \<open>netip.ParseAddr\<close> does.
\<close>

subsection \<open>Escaping\<close>

datatype encoding = EncodePath | EncodeUserPassword | EncodeFragment | EncodeHost | EncodeZone

definition alnum :: "char \<Rightarrow> bool" where
  "alnum c \<longleftrightarrow> is_lower c \<or> is_upper c \<or> is_digit c"

definition shouldEscape :: "encoding \<Rightarrow> char \<Rightarrow> bool" where
  "shouldEscape mode c \<longleftrightarrow>
    (if alnum c then False
     else if mode \<in> {EncodeHost, EncodeZone} \<and> c \<in> set (''!$&()*+,;=:[]<>'' @ [CHR 0x27, CHR 0x22]) then False
     else if c \<in> set ''-_.~'' then False
     else if c \<in> set ''$&+,/:;=?@'' \<and> mode \<in> {EncodePath, EncodeUserPassword, EncodeFragment} then
       (case mode of
          EncodePath \<Rightarrow> c = CHR ''?''
        | EncodeUserPassword \<Rightarrow> c \<in> set ''@/?:''
        | _ \<Rightarrow> False)
     else if mode = EncodeFragment \<and> c \<in> set ''!()*'' then False
     else True)"

text \<open>\<open>unescape\<close>: the decoded text, or nothing for a malformed or disallowed escape.\<close>

fun unescape :: "encoding \<Rightarrow> string \<Rightarrow> string option" where
  "unescape mode [] = Some []"
| "unescape mode (c # s) =
    (if c = CHR ''%'' then
       (case s of
          a # b # rest \<Rightarrow>
            (case (hex_value a, hex_value b) of
               (Some x, Some y) \<Rightarrow>
                 (if mode = EncodeHost \<and> x < 8 \<and> \<not> (a = CHR ''2'' \<and> b = CHR ''5'') then None
                  else if mode = EncodeZone \<and> \<not> (a = CHR ''2'' \<and> b = CHR ''5'') \<and>
                      x * 16 + y \<noteq> 32 \<and> shouldEscape EncodeHost (char_of (x * 16 + y)) then None
                  else map_option (Cons (char_of (x * 16 + y))) (unescape mode rest))
             | _ \<Rightarrow> None)
        | _ \<Rightarrow> None)
     else if mode \<in> {EncodeHost, EncodeZone} \<and> code c < 0x80 \<and> shouldEscape mode c then None
     else map_option (Cons c) (unescape mode s))"

definition upper_hex :: "nat \<Rightarrow> char" where
  "upper_hex n = (if n < 10 then char_of (48 + n) else char_of (55 + n))"

definition url_escape :: "encoding \<Rightarrow> string \<Rightarrow> string" where
  "url_escape mode s =
    concat (map (\<lambda>c. if shouldEscape mode c
      then [CHR ''%'', upper_hex (code c div 16), upper_hex (code c mod 16)] else [c]) s)"

definition validEncoded :: "encoding \<Rightarrow> string \<Rightarrow> bool" where
  "validEncoded mode s \<longleftrightarrow>
    list_all (\<lambda>c. c \<in> set (''!$&()*+,;=:@[]%'' @ [CHR 0x27]) \<or> \<not> shouldEscape mode c) s"

subsection \<open>IP literals\<close>

text \<open>\<open>netip.ParseAddr\<close> restricted to addresses with a colon: 16-bit groups, one \<open>::\<close>, a dotted tail, a zone.\<close>

definition hex_group :: "string \<Rightarrow> bool" where
  "hex_group g \<longleftrightarrow> g \<noteq> [] \<and> length g \<le> 4 \<and> list_all (\<lambda>c. hex_value c \<noteq> None) g"

definition ipv4_field :: "string \<Rightarrow> bool" where
  "ipv4_field f \<longleftrightarrow> f \<noteq> [] \<and> length f \<le> 3 \<and> list_all is_digit f \<and> (length f = 1 \<or> hd f \<noteq> CHR ''0'') \<and>
    foldl (\<lambda>acc c. acc * 10 + (code c - 48)) 0 f \<le> 255"

definition ipv4_text :: "string \<Rightarrow> bool" where
  "ipv4_text s \<longleftrightarrow> length (split_on (CHR ''.'') s) = 4 \<and> list_all ipv4_field (split_on (CHR ''.'') s)"

text \<open>The number of 16-bit groups a list of fields stands for, when they are well formed.\<close>

fun group_count :: "bool \<Rightarrow> string list \<Rightarrow> nat option" where
  "group_count last_part [] = Some 0"
| "group_count last_part [g] =
    (if hex_group g then Some 1 else if last_part \<and> ipv4_text g then Some 2 else None)"
| "group_count last_part (g # gs) = (if hex_group g then map_option Suc (group_count last_part gs) else None)"

definition fields_of :: "string \<Rightarrow> string list" where
  "fields_of s = (if s = [] then [] else split_on (CHR '':'') s)"

text \<open>The text around the first \<open>::\<close>.\<close>

fun cut_ellipsis :: "string \<Rightarrow> (string \<times> string) option" where
  "cut_ellipsis (a # b # s) =
    (if a = CHR '':'' \<and> b = CHR '':'' then Some ([], s)
     else map_option (\<lambda>(l, r). (a # l, r)) (cut_ellipsis (b # s)))"
| "cut_ellipsis s = None"

definition ipv6_text :: "string \<Rightarrow> bool" where
  "ipv6_text s \<longleftrightarrow>
    (case cut_ellipsis s of
       None \<Rightarrow> group_count True (fields_of s) = Some 8
     | Some (l, r) \<Rightarrow>
       (case (group_count False (fields_of l), group_count True (fields_of r)) of
          (Some m, Some n) \<Rightarrow> m + n \<le> 7
        | _ \<Rightarrow> False))"

definition ip_literal :: "string \<Rightarrow> bool" where
  "ip_literal s \<longleftrightarrow>
    (case cut_on (CHR ''%'') s of (address, zone, found) \<Rightarrow> ipv6_text address \<and> (found \<longrightarrow> zone \<noteq> []))"

subsection \<open>Parsing\<close>

record URL =
  url_Scheme :: string
  url_Opaque :: string
  url_User :: "(string \<times> string option) option"
  url_Host :: string
  url_Path :: string
  url_RawPath :: string
  url_OmitHost :: bool
  url_ForceQuery :: bool
  url_RawQuery :: string
  url_Fragment :: string
  url_RawFragment :: string

definition empty_URL :: URL where
  "empty_URL = \<lparr>url_Scheme = [], url_Opaque = [], url_User = None, url_Host = [], url_Path = [], url_RawPath = [],
     url_OmitHost = False, url_ForceQuery = False, url_RawQuery = [], url_Fragment = [], url_RawFragment = []\<rparr>"

text \<open>\<open>getScheme\<close>: the scheme and the rest; no scheme when another character comes first.\<close>

fun scan_scheme :: "nat \<Rightarrow> string \<Rightarrow> (string \<times> string) option option" where
  "scan_scheme i [] = Some None"
| "scan_scheme i (c # s) =
    (if is_lower c \<or> is_upper c \<or> i > 0 \<and> (is_digit c \<or> c \<in> set ''+-.'')
       then map_option (map_option (\<lambda>(l, r). (c # l, r))) (scan_scheme (Suc i) s)
     else if c = CHR '':'' then (if i = 0 then None else Some (Some ([], s)))
     else Some None)"

definition getScheme :: "string \<Rightarrow> (string \<times> string) option" where
  "getScheme rawURL =
    (case scan_scheme 0 rawURL of None \<Rightarrow> None | Some None \<Rightarrow> Some ([], rawURL) | Some (Some parts) \<Rightarrow> Some parts)"

definition cut_last :: "char \<Rightarrow> string \<Rightarrow> (string \<times> string) option" where
  "cut_last c s =
    (case cut_on c (rev s) of (r, l, found) \<Rightarrow> if found then Some (rev l, rev r) else None)"

definition validOptionalPort :: "string \<Rightarrow> bool" where
  "validOptionalPort port \<longleftrightarrow> port = [] \<or> hd port = CHR '':'' \<and> list_all is_digit (tl port)"

definition cut_zone :: "string \<Rightarrow> (string \<times> string) option" where
  "cut_zone s =
    (case find (\<lambda>i. take 3 (drop i s) = ''%25'') [0..<length s] of
       None \<Rightarrow> None | Some i \<Rightarrow> Some (take i s, drop i s))"

definition bracket_host :: "string \<Rightarrow> string \<Rightarrow> string option" where
  "bracket_host hostname colonPort =
    (if \<not> validOptionalPort colonPort then None
     else
       (let name = (case cut_zone hostname of
              None \<Rightarrow> unescape EncodeHost hostname
            | Some (l, r) \<Rightarrow>
              (case (unescape EncodeHost l, unescape EncodeZone r) of
                 (Some a, Some b) \<Rightarrow> Some (a @ b) | _ \<Rightarrow> None)) in
        case (name, unescape EncodeHost colonPort) of
          (Some n, Some p) \<Rightarrow> (if ip_literal n then Some (''['' @ n @ '']'' @ p) else None)
        | _ \<Rightarrow> None))"

definition parseHost :: "string \<Rightarrow> string \<Rightarrow> string option" where
  "parseHost scheme host =
    (case cut_last (CHR ''['') host of
       Some (front, inner) \<Rightarrow>
         (case cut_last (CHR '']'') inner of
            None \<Rightarrow> None
          | Some (hostname, colonPort) \<Rightarrow> if front \<noteq> [] then None else bracket_host hostname colonPort)
     | None \<Rightarrow>
         (let colon = (if scheme \<in> {''postgresql'', ''postgres''} then map_option snd (cut_last (CHR '':'') host)
              else (case cut_on (CHR '':'') host of (_, r, found) \<Rightarrow> if found then Some r else None)) in
          case colon of
            None \<Rightarrow> unescape EncodeHost host
          | Some port \<Rightarrow> (if list_all is_digit port then unescape EncodeHost host else None)))"

definition validUserinfo :: "string \<Rightarrow> bool" where
  "validUserinfo s \<longleftrightarrow> list_all (\<lambda>c. alnum c \<or> c \<in> set (''-._:~!$&()*+,;=%@'' @ [CHR 0x27])) s"

definition parseAuthority ::
  "string \<Rightarrow> string \<Rightarrow> ((string \<times> string option) option \<times> string) option" where
  "parseAuthority scheme authority =
    (case cut_last (CHR ''@'') authority of
       None \<Rightarrow> map_option (Pair None) (parseHost scheme authority)
     | Some (userinfo, rest) \<Rightarrow>
       (case parseHost scheme rest of
          None \<Rightarrow> None
        | Some host \<Rightarrow>
          (if \<not> validUserinfo userinfo then None
           else case cut_on (CHR '':'') userinfo of (name, password, found) \<Rightarrow>
             (if \<not> found then map_option (\<lambda>u. (Some (u, None), host)) (unescape EncodeUserPassword userinfo)
              else case (unescape EncodeUserPassword name, unescape EncodeUserPassword password) of
                (Some u, Some p) \<Rightarrow> Some (Some (u, Some p), host)
              | _ \<Rightarrow> None))))"

definition setPath :: "string \<Rightarrow> URL \<Rightarrow> URL option" where
  "setPath p u =
    (case unescape EncodePath p of
       None \<Rightarrow> None
     | Some path \<Rightarrow>
       Some (u\<lparr>url_Path := path, url_RawPath := (if p = url_escape EncodePath path then [] else p)\<rparr>))"

definition setFragment :: "string \<Rightarrow> URL \<Rightarrow> URL option" where
  "setFragment f u =
    (case unescape EncodeFragment f of
       None \<Rightarrow> None
     | Some frag \<Rightarrow>
       Some (u\<lparr>url_Fragment := frag, url_RawFragment := (if f = url_escape EncodeFragment frag then [] else f)\<rparr>))"

text \<open>The query is cut off; a lone trailing question mark is remembered.\<close>

definition split_query :: "string \<Rightarrow> string \<times> bool \<times> string" where
  "split_query rest =
    (if rest \<noteq> [] \<and> last rest = CHR ''?'' \<and> length (filter (\<lambda>c. c = CHR ''?'') rest) = 1
       then (butlast rest, True, [])
     else (case cut_on (CHR ''?'') rest of (path, query, _) \<Rightarrow> (path, False, query)))"

definition url_parse :: "string \<Rightarrow> bool \<Rightarrow> URL option" where
  "url_parse rawURL viaRequest =
    (if list_ex (\<lambda>c. code c < 0x20 \<or> code c = 0x7F) rawURL then None
     else if rawURL = [] \<and> viaRequest then None
     else if rawURL = ''*'' then Some (empty_URL\<lparr>url_Path := ''*''\<rparr>)
     else case getScheme rawURL of
       None \<Rightarrow> None
     | Some (scheme0, rest0) \<Rightarrow>
       (let scheme = to_lower scheme0 in
        case split_query rest0 of (rest, force, query) \<Rightarrow>
        (let u = empty_URL\<lparr>url_Scheme := scheme, url_ForceQuery := force, url_RawQuery := query\<rparr> in
         if \<not> prefix ''/'' rest \<and> scheme \<noteq> [] then Some (u\<lparr>url_Opaque := rest\<rparr>)
         else if \<not> prefix ''/'' rest \<and> viaRequest then None
         else if \<not> prefix ''/'' rest \<and> CHR '':'' \<in> set (fst (cut_on (CHR ''/'') rest)) then None
         else if (scheme \<noteq> [] \<or> \<not> viaRequest \<and> \<not> prefix ''///'' rest) \<and> prefix ''//'' rest then
           (case cut_on (CHR ''/'') (drop 2 rest) of (authority, path, found) \<Rightarrow>
            (case parseAuthority scheme authority of
               None \<Rightarrow> None
             | Some (user, host) \<Rightarrow>
               setPath (if found then CHR ''/'' # path else []) (u\<lparr>url_User := user, url_Host := host\<rparr>)))
         else setPath rest (u\<lparr>url_OmitHost := (scheme \<noteq> [] \<and> prefix ''/'' rest)\<rparr>))))"

definition ParseRequestURI :: "string \<Rightarrow> URL option" where
  "ParseRequestURI rawURL = url_parse rawURL True"

definition Parse :: "string \<Rightarrow> URL option" where
  "Parse rawURL =
    (case cut_on (CHR ''#'') rawURL of (text, frag, _) \<Rightarrow>
     (case url_parse text False of
        None \<Rightarrow> None
      | Some u \<Rightarrow> if frag = [] then Some u else setFragment frag u))"

subsection \<open>Printing\<close>

definition EscapedPath :: "URL \<Rightarrow> string" where
  "EscapedPath u =
    (if url_RawPath u \<noteq> [] \<and> validEncoded EncodePath (url_RawPath u) \<and>
        unescape EncodePath (url_RawPath u) = Some (url_Path u) then url_RawPath u
     else if url_Path u = ''*'' then ''*'' else url_escape EncodePath (url_Path u))"

definition EscapedFragment :: "URL \<Rightarrow> string" where
  "EscapedFragment u =
    (if url_RawFragment u \<noteq> [] \<and> validEncoded EncodeFragment (url_RawFragment u) \<and>
        unescape EncodeFragment (url_RawFragment u) = Some (url_Fragment u) then url_RawFragment u
     else url_escape EncodeFragment (url_Fragment u))"

definition Userinfo_String :: "string \<times> string option \<Rightarrow> string" where
  "Userinfo_String ui =
    (url_escape EncodeUserPassword (fst ui) @
     (case snd ui of None \<Rightarrow> [] | Some p \<Rightarrow> CHR '':'' # url_escape EncodeUserPassword p))"

definition url_authority :: "URL \<Rightarrow> string" where
  "url_authority u =
    (if url_Scheme u = [] \<and> url_Host u = [] \<and> url_User u = None then []
     else if url_OmitHost u \<and> url_Host u = [] \<and> url_User u = None then []
     else (if url_Host u \<noteq> [] \<or> url_Path u \<noteq> [] \<or> url_User u \<noteq> None then ''//'' else []) @
       (case url_User u of None \<Rightarrow> [] | Some ui \<Rightarrow> Userinfo_String ui @ ''@'') @
       url_escape EncodeHost (url_Host u))"

definition URL_String :: "URL \<Rightarrow> string" where
  "URL_String u =
    (let front = (if url_Scheme u = [] then [] else url_Scheme u @ '':'') in
     (if url_Opaque u \<noteq> [] then front @ url_Opaque u
      else
        (let before = front @ url_authority u; path = EscapedPath u;
             slash = (if path \<noteq> [] \<and> hd path \<noteq> CHR ''/'' \<and> url_Host u \<noteq> [] then ''/'' else []);
             dot = (if before @ slash = [] \<and> CHR '':'' \<in> set (fst (cut_on (CHR ''/'') path)) then ''./'' else []) in
         before @ slash @ dot @ path)) @
     (if url_ForceQuery u \<or> url_RawQuery u \<noteq> [] then CHR ''?'' # url_RawQuery u else []) @
     (if url_Fragment u \<noteq> [] then CHR ''#'' # EscapedFragment u else []))"

end
