(* ===== verification/Artifacts.thy ===== *)
theory Artifacts
  imports Shared Go_URL
begin

text \<open>
  Package \<open>internal/domain/artifact\<close>: the tenant-scoped logical identity of an artifact and the limits
  of its metadata.
\<close>

subsection \<open>Constants\<close>

definition ArtifactMaxNameBytes :: nat where "ArtifactMaxNameBytes = 63"
definition ArtifactMaxDisplayNameBytes :: nat where "ArtifactMaxDisplayNameBytes = 256"
definition ArtifactMaxDescriptionBytes :: nat where "ArtifactMaxDescriptionBytes = 4096"
definition MaxURIBytes :: nat where "MaxURIBytes = 2048"
definition MaxLabels :: nat where "MaxLabels = 64"
definition MaxLabelKeyBytes :: nat where "MaxLabelKeyBytes = 128"
definition MaxLabelValueBytes :: nat where "MaxLabelValueBytes = 512"
definition ArtifactMaxListSize :: int where "ArtifactMaxListSize = 200"

lemmas artifact_limits = ArtifactMaxNameBytes_def ArtifactMaxDisplayNameBytes_def ArtifactMaxDescriptionBytes_def
  MaxURIBytes_def MaxLabels_def MaxLabelKeyBytes_def MaxLabelValueBytes_def

type_synonym ArtifactKind = string

abbreviation KindSkill :: ArtifactKind where "KindSkill \<equiv> ''skill''"
abbreviation KindAgentRuntime :: ArtifactKind where "KindAgentRuntime \<equiv> ''agent-runtime''"
abbreviation KindMCPServer :: ArtifactKind where "KindMCPServer \<equiv> ''mcp-server''"
abbreviation KindRemoteAgent :: ArtifactKind where "KindRemoteAgent \<equiv> ''remote-agent''"
abbreviation KindBundle :: ArtifactKind where "KindBundle \<equiv> ''bundle''"

text \<open>\<open>^[a-z0-9](?:[a-z0-9-]*[a-z0-9])?$\<close> and \<open>^[a-z0-9](?:[a-z0-9._/-]*[a-z0-9])?$\<close>.\<close>

definition namePattern :: rx where
  "namePattern = rx_dns_token"

definition labelKeyPattern :: rx where
  "labelKeyPattern = rx_token is_lower_alnum
    (\<lambda>c. is_lower_alnum c \<or> c = CHR ''.'' \<or> c = CHR ''_'' \<or> c = CHR ''/'' \<or> c = CHR ''-'')"

subsection \<open>Data\<close>

text \<open>A \<open>map[string]string\<close>: an association list without duplicate keys.\<close>

type_synonym Labels = "(string \<times> string) list"

record Artifact =
  art_tenantID :: UUID
  art_id :: UUID
  art_namespaceID :: UUID
  art_identity :: ArtifactReference
  art_kind :: ArtifactKind
  art_displayName :: string
  art_description :: string
  art_homepage :: string
  art_repository :: string
  art_labels :: Labels
  art_createdAt :: Time

datatype uri_error = URIInvalidLengthOrEncoding | URIAbsoluteRequired

datatype labels_error = TooManyLabels | InvalidLabel

datatype artifact_error =
    ArtIdentifier | ArtInvalidName | ArtInvalidNamespacePath | ArtInvalidKind | ArtDisplayName text_error
  | ArtDescription text_error | ArtHomepage uri_error | ArtRepository uri_error | ArtLabels labels_error
  | ArtCreationTimeRequired

subsection \<open>Validation\<close>

definition ValidateName :: "string \<Rightarrow> bool" where
  "ValidateName name \<longleftrightarrow> \<not> (length name > ArtifactMaxNameBytes \<or> \<not> matches namePattern name)"

definition validKind :: "ArtifactKind \<Rightarrow> bool" where
  "validKind kind \<longleftrightarrow> kind \<in> {KindSkill, KindAgentRuntime, KindMCPServer, KindRemoteAgent, KindBundle}"

definition artifact_optionalText :: "string \<Rightarrow> nat \<Rightarrow> (text_error, unit) result" where
  "artifact_optionalText text maximum =
    (if text = [] then Inr ()
     else if length text > maximum \<or> \<not> utf8_valid text then Inl TextInvalidLengthOrEncoding
     else if has_control text then Inl TextControlCharacter
     else Inr ())"

definition optionalURI :: "string \<Rightarrow> (uri_error, unit) result" where
  "optionalURI uri =
    (if uri = [] then Inr ()
     else if length uri > MaxURIBytes \<or> \<not> utf8_valid uri then Inl URIInvalidLengthOrEncoding
     else case ParseRequestURI uri of
       None \<Rightarrow> Inl URIAbsoluteRequired
     | Some parsed \<Rightarrow> if url_Scheme parsed = [] then Inl URIAbsoluteRequired else Inr ())"

definition label_ok :: "string \<times> string \<Rightarrow> bool" where
  "label_ok label \<longleftrightarrow>
    \<not> (length (fst label) > MaxLabelKeyBytes \<or> \<not> matches labelKeyPattern (fst label) \<or>
       length (snd label) > MaxLabelValueBytes \<or> \<not> utf8_valid (snd label))"

definition validatedLabels :: "Labels \<Rightarrow> (labels_error, Labels) result" where
  "validatedLabels labels =
    (if length labels > MaxLabels then Inl TooManyLabels
     else if \<not> list_all label_ok labels then Inl InvalidLabel
     else Inr labels)"

definition artifact_restore ::
  "UUID \<Rightarrow> UUID \<Rightarrow> UUID \<Rightarrow> string \<Rightarrow> string \<Rightarrow> ArtifactKind \<Rightarrow> string \<Rightarrow> string \<Rightarrow> string \<Rightarrow> string \<Rightarrow> Labels \<Rightarrow>
   Time \<Rightarrow> (artifact_error, Artifact) result" where
  "artifact_restore tenantID uid namespaceID namespacePath name kind displayName description homepage repository
     labels createdAt =
    (if \<not> list_all valid_uuid [tenantID, uid, namespaceID] then Inl ArtIdentifier
     else if \<not> ValidateName name then Inl ArtInvalidName
     else case ParseArtifactReference (namespacePath @ ''/'' @ name) of
       Inl _ \<Rightarrow> Inl ArtInvalidNamespacePath
     | Inr identity \<Rightarrow>
       (if ref_namespace identity \<noteq> namespacePath then Inl ArtInvalidNamespacePath
        else if \<not> validKind kind then Inl ArtInvalidKind
        else case artifact_optionalText displayName ArtifactMaxDisplayNameBytes of
          Inl e \<Rightarrow> Inl (ArtDisplayName e)
        | Inr _ \<Rightarrow>
        (case artifact_optionalText description ArtifactMaxDescriptionBytes of
          Inl e \<Rightarrow> Inl (ArtDescription e)
        | Inr _ \<Rightarrow>
        (case optionalURI homepage of
          Inl e \<Rightarrow> Inl (ArtHomepage e)
        | Inr _ \<Rightarrow>
        (case optionalURI repository of
          Inl e \<Rightarrow> Inl (ArtRepository e)
        | Inr _ \<Rightarrow>
        (case validatedLabels labels of
          Inl e \<Rightarrow> Inl (ArtLabels e)
        | Inr validated \<Rightarrow>
          (if time_IsZero createdAt then Inl ArtCreationTimeRequired
           else Inr \<lparr>art_tenantID = tenantID, art_id = uid, art_namespaceID = namespaceID, art_identity = identity,
             art_kind = kind, art_displayName = displayName, art_description = description, art_homepage = homepage,
             art_repository = repository, art_labels = validated, art_createdAt = createdAt\<rparr>)))))))"

definition Artifact_New ::
  "UUID \<Rightarrow> UUID \<Rightarrow> UUID \<Rightarrow> string \<Rightarrow> string \<Rightarrow> ArtifactKind \<Rightarrow> string \<Rightarrow> string \<Rightarrow> string \<Rightarrow> string \<Rightarrow> Labels \<Rightarrow>
   Time \<Rightarrow> (artifact_error, Artifact) result" where
  "Artifact_New = artifact_restore"

definition Artifact_Restore ::
  "UUID \<Rightarrow> UUID \<Rightarrow> UUID \<Rightarrow> string \<Rightarrow> string \<Rightarrow> ArtifactKind \<Rightarrow> string \<Rightarrow> string \<Rightarrow> string \<Rightarrow> string \<Rightarrow> Labels \<Rightarrow>
   Time \<Rightarrow> (artifact_error, Artifact) result" where
  "Artifact_Restore = artifact_restore"

definition Artifact_Name :: "Artifact \<Rightarrow> string" where
  "Artifact_Name artifact = ref_name (art_identity artifact)"

subsection \<open>Exactness\<close>

definition uri_ok :: "string \<Rightarrow> bool" where
  "uri_ok uri \<longleftrightarrow> is_ok (optionalURI uri)"

definition wf_artifact :: "Artifact \<Rightarrow> bool" where
  "wf_artifact a \<longleftrightarrow>
    valid_uuid (art_tenantID a) \<and> valid_uuid (art_id a) \<and> valid_uuid (art_namespaceID a) \<and>
    ParseArtifactReference (ref_namespace (art_identity a) @ ''/'' @ Artifact_Name a) = Inr (art_identity a) \<and>
    validKind (art_kind a) \<and> text_ok (art_displayName a) 256 \<and> text_ok (art_description a) 4096 \<and>
    uri_ok (art_homepage a) \<and> uri_ok (art_repository a) \<and>
    length (art_labels a) \<le> 64 \<and> list_all label_ok (art_labels a) \<and> art_createdAt a \<noteq> 0"

lemma ValidateName_validNameToken: "ValidateName name \<longleftrightarrow> validNameToken name"
  by (auto simp: ValidateName_def namePattern_def validNameToken_regexp artifact_limits)

lemma artifact_optionalText_Inr: "artifact_optionalText s n = Inr u \<longleftrightarrow> text_ok s n"
  by (auto simp: artifact_optionalText_def text_ok_def)

lemma optionalURI_Inr: "optionalURI s = Inr u \<longleftrightarrow> uri_ok s"
  by (cases "optionalURI s") (simp_all add: uri_ok_def)

lemma validatedLabels_Inr:
  "validatedLabels labels = Inr l \<longleftrightarrow> length labels \<le> 64 \<and> list_all label_ok labels \<and> l = labels"
  by (auto simp: validatedLabels_def artifact_limits)

text \<open>Reading the validator backwards: a step of the chain succeeded.\<close>

lemma case_Inl_Inr: "(case x of Inl e \<Rightarrow> Inl (f e) | Inr v \<Rightarrow> k v) = Inr r \<longleftrightarrow> (\<exists>v. x = Inr v \<and> k v = Inr r)"
  by (cases x) simp_all

lemma guard_Inr: "(if c then Inl e else k) = Inr r \<longleftrightarrow> \<not> c \<and> k = Inr r"
  by simp

lemma artifact_restore_Inr:
  "artifact_restore tenantID uid namespaceID namespacePath name kind displayName description homepage repository
     labels createdAt = Inr a \<longleftrightarrow>
    wf_artifact a \<and>
    a = \<lparr>art_tenantID = tenantID, art_id = uid, art_namespaceID = namespaceID,
      art_identity = \<lparr>ref_namespace = namespacePath, ref_name = name\<rparr>, art_kind = kind, art_displayName = displayName,
      art_description = description, art_homepage = homepage, art_repository = repository, art_labels = labels,
      art_createdAt = createdAt\<rparr>"
proof (cases "ValidateName name")
  case True
  then have "CHR ''/'' \<notin> set name" using validNameToken_no_slash by (simp add: ValidateName_validNameToken)
  note join = ParseArtifactReference_join [OF this]
  define identity where "identity = \<lparr>ref_namespace = namespacePath, ref_name = name\<rparr>"
  define known where "known \<longleftrightarrow> ParseArtifactReference (namespacePath @ ''/'' @ name) = Inr identity"
  have ref: "(\<exists>v. ParseArtifactReference (namespacePath @ ''/'' @ name) = Inr v \<and> k v) \<longleftrightarrow> known \<and> k identity" for k
    using join [of namespacePath] by (auto simp: known_def identity_def)
  have fields: "ref_namespace identity = namespacePath" "ref_name identity = name" by (simp_all add: identity_def)
  show ?thesis
    unfolding artifact_restore_def guard_Inr case_Inl_Inr artifact_optionalText_Inr optionalURI_Inr validatedLabels_Inr ref
      identity_def [symmetric]
    using True by (cases a) (auto simp: wf_artifact_def Artifact_Name_def artifact_limits fields known_def)
next
  case False
  have "ParseArtifactReference (namespacePath @ ''/'' @ name) \<noteq> Inr \<lparr>ref_namespace = namespacePath, ref_name = name\<rparr>"
    using False ParseArtifactReference_Inr [of "namespacePath @ ''/'' @ name"] by (auto simp: ValidateName_validNameToken)
  with False show ?thesis by (auto simp: artifact_restore_def wf_artifact_def Artifact_Name_def)
qed

end
