(* ===== verification/Artifact_Versions.thy ===== *)
theory Artifact_Versions
  imports Artifacts Go_Json
begin

text \<open>
  Package \<open>internal/domain/artifactversion\<close>: what is registered under an artifact. The language of
  \<open>semanticVersionPattern\<close> is the one of Semantic Versioning: three canonical decimal numbers, pre-release
  and build identifiers.
\<close>

subsection \<open>Versions\<close>

definition MaxSemanticVersionBytes :: nat where "MaxSemanticVersionBytes = 255"
definition VersionMaxListSize :: int where "VersionMaxListSize = 200"

type_synonym ArtifactClass = string

abbreviation ClassInstructional :: ArtifactClass where "ClassInstructional \<equiv> ''instructional''"
abbreviation ClassExecutableLocal :: ArtifactClass where "ClassExecutableLocal \<equiv> ''executable-local''"
abbreviation ClassRemoteService :: ArtifactClass where "ClassRemoteService \<equiv> ''remote-service''"
abbreviation ClassComposite :: ArtifactClass where "ClassComposite \<equiv> ''composite''"

type_synonym DeliveryModel = string

abbreviation DeliveryOCI :: DeliveryModel where "DeliveryOCI \<equiv> ''oci''"
abbreviation DeliveryRemote :: DeliveryModel where "DeliveryRemote \<equiv> ''remote''"
abbreviation DeliveryImportedSource :: DeliveryModel where "DeliveryImportedSource \<equiv> ''imported-source''"

type_synonym VersionLifecycle = string

abbreviation LifecycleActive :: VersionLifecycle where "LifecycleActive \<equiv> ''active''"
abbreviation LifecycleDeprecated :: VersionLifecycle where "LifecycleDeprecated \<equiv> ''deprecated''"
abbreviation LifecycleQuarantined :: VersionLifecycle where "LifecycleQuarantined \<equiv> ''quarantined''"
abbreviation LifecycleRevoked :: VersionLifecycle where "LifecycleRevoked \<equiv> ''revoked''"

definition rx_number :: rx where
  "rx_number = Alt (rx_char (CHR ''0'')) (Seq (Cls (\<lambda>c. is_digit c \<and> c \<noteq> CHR ''0'')) (Star (Cls is_digit)))"

definition is_ident :: "char \<Rightarrow> bool" where
  "is_ident c \<longleftrightarrow> is_digit c \<or> is_upper c \<or> is_lower c \<or> c = CHR ''-''"

definition rx_prerelease :: rx where
  "rx_prerelease = Alt rx_number
    (Seq (Star (Cls is_ident)) (Seq (Cls (\<lambda>c. is_ident c \<and> \<not> is_digit c)) (Star (Cls is_ident))))"

definition semanticVersionPattern :: rx where
  "semanticVersionPattern =
    Seq rx_number (Seq (rx_char (CHR ''.'')) (Seq rx_number (Seq (rx_char (CHR ''.'')) (Seq rx_number
      (Seq (rx_opt (Seq (rx_char (CHR ''-'')) (rx_sep_list (CHR ''.'') rx_prerelease)))
           (rx_opt (Seq (rx_char (CHR ''+'')) (rx_sep_list (CHR ''.'') (rx_plus (Cls is_ident))))))))))"

type_synonym SemanticVersion = string

definition ParseSemanticVersion :: "string \<Rightarrow> SemanticVersion option" where
  "ParseSemanticVersion text =
    (if length text < 5 \<or> length text > MaxSemanticVersionBytes \<or> \<not> matches semanticVersionPattern text then None
     else Some text)"

record ArtifactVersion =
  ver_tenantID :: UUID
  ver_id :: UUID
  ver_artifactID :: UUID
  ver_publisherID :: UUID
  ver_version :: SemanticVersion
  ver_digest :: Digest
  ver_kind :: ArtifactKind
  ver_class :: ArtifactClass
  ver_delivery :: DeliveryModel
  ver_lifecycle :: VersionLifecycle
  ver_registeredAt :: Time

datatype version_error =
    VersionIdentifier | VersionInvalidSemanticVersion | VersionDigest | VersionInvalidCombination
  | VersionInvalidLifecycle | VersionRegistrationTimeRequired

definition validKindClass :: "ArtifactKind \<Rightarrow> ArtifactClass \<Rightarrow> bool" where
  "validKindClass kind cls \<longleftrightarrow>
    (if kind = KindSkill then cls = ClassInstructional \<or> cls = ClassExecutableLocal
     else if kind = KindAgentRuntime then cls = ClassExecutableLocal
     else if kind = KindMCPServer then cls = ClassExecutableLocal \<or> cls = ClassRemoteService
     else if kind = KindRemoteAgent then cls = ClassRemoteService
     else if kind = KindBundle then cls = ClassComposite
     else False)"

definition validCombination :: "ArtifactKind \<Rightarrow> ArtifactClass \<Rightarrow> DeliveryModel \<Rightarrow> bool" where
  "validCombination kind cls delivery \<longleftrightarrow>
    (if delivery = DeliveryImportedSource then validKindClass kind cls
     else if kind = KindSkill then (cls = ClassInstructional \<or> cls = ClassExecutableLocal) \<and> delivery = DeliveryOCI
     else if kind = KindAgentRuntime then cls = ClassExecutableLocal \<and> delivery = DeliveryOCI
     else if kind = KindMCPServer then
       cls = ClassExecutableLocal \<and> delivery = DeliveryOCI \<or> cls = ClassRemoteService \<and> delivery = DeliveryRemote
     else if kind = KindRemoteAgent then cls = ClassRemoteService \<and> delivery = DeliveryOCI
     else if kind = KindBundle then cls = ClassComposite \<and> delivery = DeliveryOCI
     else False)"

definition validLifecycle :: "VersionLifecycle \<Rightarrow> bool" where
  "validLifecycle lifecycle \<longleftrightarrow>
    lifecycle \<in> {LifecycleActive, LifecycleDeprecated, LifecycleQuarantined, LifecycleRevoked}"

definition version_restore ::
  "UUID \<Rightarrow> UUID \<Rightarrow> UUID \<Rightarrow> UUID \<Rightarrow> SemanticVersion \<Rightarrow> Digest \<Rightarrow> ArtifactKind \<Rightarrow> ArtifactClass \<Rightarrow> DeliveryModel \<Rightarrow>
   VersionLifecycle \<Rightarrow> Time \<Rightarrow> (version_error, ArtifactVersion) result" where
  "version_restore tenantID uid artifactID publisherID version digest kind cls delivery lifecycle registeredAt =
    (if \<not> list_all valid_uuid [tenantID, uid, artifactID, publisherID] then Inl VersionIdentifier
     else case ParseSemanticVersion version of
       None \<Rightarrow> Inl VersionInvalidSemanticVersion
     | Some parsedVersion \<Rightarrow>
       (if \<not> is_ok (Digest_MarshalText digest) then Inl VersionDigest
        else if \<not> validCombination kind cls delivery then Inl VersionInvalidCombination
        else if \<not> validLifecycle lifecycle then Inl VersionInvalidLifecycle
        else if time_IsZero registeredAt then Inl VersionRegistrationTimeRequired
        else Inr \<lparr>ver_tenantID = tenantID, ver_id = uid, ver_artifactID = artifactID, ver_publisherID = publisherID,
          ver_version = parsedVersion, ver_digest = digest, ver_kind = kind, ver_class = cls, ver_delivery = delivery,
          ver_lifecycle = lifecycle, ver_registeredAt = registeredAt\<rparr>))"

definition Version_New ::
  "UUID \<Rightarrow> UUID \<Rightarrow> UUID \<Rightarrow> UUID \<Rightarrow> SemanticVersion \<Rightarrow> Digest \<Rightarrow> ArtifactKind \<Rightarrow> ArtifactClass \<Rightarrow> DeliveryModel \<Rightarrow>
   Time \<Rightarrow> (version_error, ArtifactVersion) result" where
  "Version_New tenantID uid artifactID publisherID version digest kind cls delivery registeredAt =
    version_restore tenantID uid artifactID publisherID version digest kind cls delivery LifecycleActive registeredAt"

definition Version_Restore ::
  "UUID \<Rightarrow> UUID \<Rightarrow> UUID \<Rightarrow> UUID \<Rightarrow> SemanticVersion \<Rightarrow> Digest \<Rightarrow> ArtifactKind \<Rightarrow> ArtifactClass \<Rightarrow> DeliveryModel \<Rightarrow>
   VersionLifecycle \<Rightarrow> Time \<Rightarrow> (version_error, ArtifactVersion) result" where
  "Version_Restore = version_restore"

definition wf_version :: "ArtifactVersion \<Rightarrow> bool" where
  "wf_version v \<longleftrightarrow>
    valid_uuid (ver_tenantID v) \<and> valid_uuid (ver_id v) \<and> valid_uuid (ver_artifactID v) \<and> valid_uuid (ver_publisherID v) \<and>
    ParseSemanticVersion (ver_version v) = Some (ver_version v) \<and> wf_digest (ver_digest v) \<and>
    validCombination (ver_kind v) (ver_class v) (ver_delivery v) \<and> validLifecycle (ver_lifecycle v) \<and> ver_registeredAt v \<noteq> 0"

lemma ParseSemanticVersion_Some: "ParseSemanticVersion s = Some v \<Longrightarrow> v = s \<and> ParseSemanticVersion s = Some s"
  by (simp add: ParseSemanticVersion_def split: if_splits)

lemma version_restore_Inr:
  "version_restore tenantID uid artifactID publisherID version digest kind cls delivery lifecycle registeredAt = Inr v \<longleftrightarrow>
    wf_version v \<and>
    v = \<lparr>ver_tenantID = tenantID, ver_id = uid, ver_artifactID = artifactID, ver_publisherID = publisherID,
      ver_version = version, ver_digest = digest, ver_kind = kind, ver_class = cls, ver_delivery = delivery,
      ver_lifecycle = lifecycle, ver_registeredAt = registeredAt\<rparr>"
proof (cases "ParseSemanticVersion version")
  case (Some p)
  with ParseSemanticVersion_Some have "ParseSemanticVersion version = Some version" by blast
  then show ?thesis by (auto simp: version_restore_def wf_version_def wf_digest_MarshalText)
qed (auto simp: version_restore_def wf_version_def)

text \<open>A kind, a class and a delivery model fit together only if the kind has the class.\<close>

lemma validCombination_class: "validCombination kind cls delivery \<Longrightarrow> validKindClass kind cls"
  by (auto simp: validCombination_def validKindClass_def split: if_splits)

lemma validKindClass_kind: "validKindClass kind cls \<Longrightarrow> validKind kind"
  by (simp add: validKindClass_def validKind_def split: if_splits)

subsection \<open>The language of semantic versions\<close>

lemma dec_digits_0 [simp]: "dec_digits 0 = ''0''"
proof -
  have "char_of (48 :: nat) = CHR ''0''" using char_of_char [where ?'a = nat, of "CHR ''0''"] by simp
  then show ?thesis by (simp add: dec_digits.simps)
qed

text \<open>The canonical decimal of a number is the only one without a leading zero.\<close>

lemma dec_digits_value:
  assumes "list_all is_digit t" "is_digit c" "c \<noteq> CHR ''0''"
  shows "dec_digits (digits_value (c # t)) = c # t"
  using assms(1)
proof (induction t rule: rev_induct)
  case Nil
  have "digits_value [c] < 10" "char_of (48 + digits_value [c]) = c"
    using assms(2) by (auto simp: digits_value_def is_digit_def)
  then show ?case by (subst dec_digits.simps) simp
next
  case (snoc d t)
  have d: "code d - 48 < 10" "char_of (48 + (code d - 48)) = d" using snoc.prems by (auto simp: is_digit_def)
  have v: "digits_value (c # t @ [d]) = digits_value (c # t) * 10 + (code d - 48)" by (simp add: digits_value_def)
  have pos: "0 < digits_value (c # t)"
  proof (rule ccontr)
    assume "\<not> 0 < digits_value (c # t)"
    then have "dec_digits (digits_value (c # t)) = ''0''" by simp
    with snoc assms(3) show False by simp
  qed
  with d v have "(digits_value (c # t @ [d])) div 10 = digits_value (c # t)" "digits_value (c # t @ [d]) mod 10 = code d - 48"
    "\<not> digits_value (c # t @ [d]) < 10" by simp_all
  with snoc d show ?case by (subst dec_digits.simps) simp
qed

lemma lang_number: "s \<in> lang rx_number \<longleftrightarrow> (\<exists>n. s = dec_digits n)"
proof
  assume "s \<in> lang rx_number"
  then consider "s = ''0''" | c t where "s = c # t" "is_digit c" "c \<noteq> CHR ''0''" "list_all is_digit t"
    by (auto simp: rx_number_def star_Cls list_all_iff)
  then show "\<exists>n. s = dec_digits n"
  proof cases
    case 1
    then have "s = dec_digits 0" by simp
    then show ?thesis ..
  next
    case 2
    from dec_digits_value [OF 2(4,2,3)] 2(1) show ?thesis by metis
  qed
next
  assume "\<exists>n. s = dec_digits n"
  then obtain n where s: "s = dec_digits n" ..
  from dec_digits_spec [of n] obtain c t where ct: "s = c # t" by (cases s) (auto simp: s)
  with dec_digits_spec [of n] have ds: "is_digit c" "list_all is_digit t" and zero: "c = CHR ''0'' \<Longrightarrow> n = 0"
    unfolding s by auto
  show "s \<in> lang rx_number"
  proof (cases "c = CHR ''0''")
    case True
    then have "s = ''0''" using zero s by simp
    then show ?thesis by (simp add: rx_number_def)
  next
    case False
    with ct ds show ?thesis
      by (simp add: rx_number_def star_Cls list_all_iff lang_Seq_Cls del: lang.simps(4))
  qed
qed

lemma ident_no_dot: "is_ident c \<Longrightarrow> c \<noteq> CHR ''.''"
  by (auto simp: is_ident_def is_digit_def is_upper_def is_lower_def)

lemma lang_prerelease:
  "s \<in> lang rx_prerelease \<longleftrightarrow> (\<exists>n. s = dec_digits n) \<or> list_all is_ident s \<and> \<not> list_all is_digit s"
proof -
  have "s \<in> lang (Seq (Star (Cls is_ident)) (Seq (Cls (\<lambda>c. is_ident c \<and> \<not> is_digit c)) (Star (Cls is_ident)))) \<longleftrightarrow>
    list_all is_ident s \<and> \<not> list_all is_digit s"
  proof
    assume "s \<in> lang (Seq (Star (Cls is_ident)) (Seq (Cls (\<lambda>c. is_ident c \<and> \<not> is_digit c)) (Star (Cls is_ident))))"
    then show "list_all is_ident s \<and> \<not> list_all is_digit s" by (auto simp: star_Cls list_all_iff)
  next
    assume r: "list_all is_ident s \<and> \<not> list_all is_digit s"
    then obtain c where "c \<in> set s" "\<not> is_digit c" by (auto simp: list_all_iff)
    then obtain u v where s: "s = u @ c # v" by (metis split_list)
    have "c # v \<in> lang (Seq (Cls (\<lambda>c. is_ident c \<and> \<not> is_digit c)) (Star (Cls is_ident)))"
      using r \<open>\<not> is_digit c\<close> unfolding s by (simp add: lang_Seq_Cls star_Cls list_all_iff del: lang.simps(4))
    moreover have "u \<in> lang (Star (Cls is_ident))" using r s by (simp add: star_Cls list_all_iff)
    ultimately show "s \<in> lang (Seq (Star (Cls is_ident)) (Seq (Cls (\<lambda>c. is_ident c \<and> \<not> is_digit c)) (Star (Cls is_ident))))"
      unfolding s lang.simps(4) [of "Star (Cls is_ident)"] by blast
  qed
  then show ?thesis unfolding rx_prerelease_def using lang_number by (simp only: lang.simps(5)) blast
qed

lemma lang_prerelease_no_dot: "s \<in> lang rx_prerelease \<Longrightarrow> CHR ''.'' \<notin> set s"
  using dec_digits_spec by (fastforce simp: lang_prerelease list_all_iff is_digit_def dest: ident_no_dot)

text \<open>A version, printed.\<close>

record SemVer =
  sv_major :: nat
  sv_minor :: nat
  sv_patch :: nat
  sv_prerelease :: "string list"
  sv_build :: "string list"

definition tag_text :: "char \<Rightarrow> string list \<Rightarrow> string" where
  "tag_text c parts = (if parts = [] then [] else c # join_with (CHR ''.'') parts)"

definition semver_text :: "SemVer \<Rightarrow> string" where
  "semver_text v = dec_digits (sv_major v) @ ''.'' @ dec_digits (sv_minor v) @ ''.'' @ dec_digits (sv_patch v) @
    tag_text (CHR ''-'') (sv_prerelease v) @ tag_text (CHR ''+'') (sv_build v)"

definition prerelease_ok :: "string \<Rightarrow> bool" where
  "prerelease_ok p \<longleftrightarrow>
    (if list_all is_digit p then p \<noteq> [] \<and> (length p = 1 \<or> hd p \<noteq> CHR ''0'') else list_all is_ident p)"

definition build_ok :: "string \<Rightarrow> bool" where
  "build_ok p \<longleftrightarrow> p \<noteq> [] \<and> list_all is_ident p"

definition wf_semver :: "SemVer \<Rightarrow> bool" where
  "wf_semver v \<longleftrightarrow> list_all prerelease_ok (sv_prerelease v) \<and> list_all build_ok (sv_build v)"

lemma lang_prerelease_ok: "s \<in> lang rx_prerelease \<longleftrightarrow> prerelease_ok s"
proof (cases "list_all is_digit s")
  case True
  have "(\<exists>n. s = dec_digits n) \<longleftrightarrow> s \<noteq> [] \<and> (length s = 1 \<or> hd s \<noteq> CHR ''0'')"
  proof
    assume "\<exists>n. s = dec_digits n"
    then obtain n where s: "s = dec_digits n" ..
    from dec_digits_spec [of n] show "s \<noteq> [] \<and> (length s = 1 \<or> hd s \<noteq> CHR ''0'')" by (cases "n = 0") (auto simp: s)
  next
    assume ok: "s \<noteq> [] \<and> (length s = 1 \<or> hd s \<noteq> CHR ''0'')"
    then obtain c t where s: "s = c # t" by (cases s) auto
    show "\<exists>n. s = dec_digits n"
    proof (cases "c = CHR ''0''")
      case True
      with ok s have "s = dec_digits 0" by simp
      then show ?thesis ..
    next
      case False
      with dec_digits_value [of t c] \<open>list_all is_digit s\<close> s have "s = dec_digits (digits_value s)" by simp
      then show ?thesis ..
    qed
  qed
  with True show ?thesis by (simp add: lang_prerelease prerelease_ok_def)
next
  case False
  then have "\<nexists>n. s = dec_digits n" using dec_digits_spec by blast
  with False show ?thesis by (simp add: lang_prerelease prerelease_ok_def)
qed

lemma lang_tag:
  assumes parts: "\<And>p. p \<in> lang r \<longleftrightarrow> ok p" and nodot: "\<And>p. ok p \<Longrightarrow> CHR ''.'' \<notin> set p"
  shows "s \<in> lang (rx_opt (Seq (rx_char c) (rx_sep_list (CHR ''.'') r))) \<longleftrightarrow>
    (\<exists>ps. s = tag_text c ps \<and> list_all ok ps)"
proof -
  have seq: "t \<in> lang (rx_sep_list (CHR ''.'') r) \<longleftrightarrow> (\<exists>ps. ps \<noteq> [] \<and> t = join_with (CHR ''.'') ps \<and> list_all ok ps)" for t
  proof -
    have "t \<in> lang (rx_sep_list (CHR ''.'') r) \<longleftrightarrow> list_all ok (split_on (CHR ''.'') t)"
      using lang_sep_list [of r "CHR ''.''" t] nodot parts by (auto simp: list_all_iff)
    also have "\<dots> \<longleftrightarrow> (\<exists>ps. ps \<noteq> [] \<and> t = join_with (CHR ''.'') ps \<and> list_all ok ps)"
    proof
      assume "list_all ok (split_on (CHR ''.'') t)"
      then show "\<exists>ps. ps \<noteq> [] \<and> t = join_with (CHR ''.'') ps \<and> list_all ok ps"
        by (intro exI [of _ "split_on (CHR ''.'') t"]) simp
    next
      assume "\<exists>ps. ps \<noteq> [] \<and> t = join_with (CHR ''.'') ps \<and> list_all ok ps"
      then obtain ps where ps: "ps \<noteq> []" "t = join_with (CHR ''.'') ps" "list_all ok ps" by blast
      with nodot split_join [of ps "CHR ''.''"] show "list_all ok (split_on (CHR ''.'') t)" by (auto simp: list_all_iff)
    qed
    finally show ?thesis .
  qed
  show ?thesis
  proof
    assume "s \<in> lang (rx_opt (Seq (rx_char c) (rx_sep_list (CHR ''.'') r)))"
    then consider "s = []" | t where "s = c # t" "t \<in> lang (rx_sep_list (CHR ''.'') r)"
      by (auto simp: rx_char_def)
    then show "\<exists>ps. s = tag_text c ps \<and> list_all ok ps"
    proof cases
      case 1
      then show ?thesis by (intro exI [of _ "[]"]) (simp add: tag_text_def)
    next
      case 2
      then show ?thesis unfolding seq by (auto simp: tag_text_def)
    qed
  next
    assume "\<exists>ps. s = tag_text c ps \<and> list_all ok ps"
    then obtain ps where ps: "s = tag_text c ps" "list_all ok ps" by blast
    show "s \<in> lang (rx_opt (Seq (rx_char c) (rx_sep_list (CHR ''.'') r)))"
    proof (cases "ps = []")
      case False
      with ps have "s = c # join_with (CHR ''.'') ps" by (simp add: tag_text_def)
      moreover have "join_with (CHR ''.'') ps \<in> lang (rx_sep_list (CHR ''.'') r)" unfolding seq using ps False by blast
      ultimately show ?thesis by (simp add: rx_char_def lang_Seq_Cls del: lang.simps(4))
    qed (use ps in \<open>simp add: tag_text_def\<close>)
  qed
qed

lemma mem_Seq: "s \<in> lang (Seq r q) \<longleftrightarrow> (\<exists>u v. s = u @ v \<and> u \<in> lang r \<and> v \<in> lang q)"
  by auto

lemma mem_number_dot:
  "s \<in> lang (Seq rx_number (Seq (rx_char (CHR ''.'')) r)) \<longleftrightarrow> (\<exists>n v. s = dec_digits n @ ''.'' @ v \<and> v \<in> lang r)"
  unfolding mem_Seq lang_number lang_char by blast

lemma mem_number_tags:
  "s \<in> lang (Seq rx_number (Seq p q)) \<longleftrightarrow> (\<exists>n u v. s = dec_digits n @ u @ v \<and> u \<in> lang p \<and> v \<in> lang q)"
  unfolding mem_Seq lang_number by blast

text \<open>The pattern accepts exactly the printed versions.\<close>

lemma semanticVersionPattern_language:
  "matches semanticVersionPattern s \<longleftrightarrow> (\<exists>v. wf_semver v \<and> s = semver_text v)"
proof -
  have nodot: "CHR ''.'' \<notin> set p" if "list_all is_ident p" for p using that ident_no_dot by (auto simp: list_all_iff)
  have pre: "t \<in> lang (rx_opt (Seq (rx_char (CHR ''-'')) (rx_sep_list (CHR ''.'') rx_prerelease))) \<longleftrightarrow>
      (\<exists>ps. t = tag_text (CHR ''-'') ps \<and> list_all prerelease_ok ps)" for t
    by (rule lang_tag) (use lang_prerelease_ok lang_prerelease_no_dot in blast)+
  have bld: "t \<in> lang (rx_opt (Seq (rx_char (CHR ''+'')) (rx_sep_list (CHR ''.'') (rx_plus (Cls is_ident))))) \<longleftrightarrow>
      (\<exists>ps. t = tag_text (CHR ''+'') ps \<and> list_all build_ok ps)" for t
    by (rule lang_tag) (use nodot in \<open>auto simp: lang_plus_Cls build_ok_def list_all_iff\<close>)
  have "s \<in> lang semanticVersionPattern \<longleftrightarrow> (\<exists>a b c pre build. list_all prerelease_ok pre \<and> list_all build_ok build \<and>
      s = dec_digits a @ ''.'' @ dec_digits b @ ''.'' @ dec_digits c @ tag_text (CHR ''-'') pre @ tag_text (CHR ''+'') build)"
    unfolding semanticVersionPattern_def mem_number_dot unfolding mem_number_tags pre bld by blast
  also have "\<dots> \<longleftrightarrow> (\<exists>v. wf_semver v \<and> s = semver_text v)"
  proof
    assume "\<exists>a b c pre build. list_all prerelease_ok pre \<and> list_all build_ok build \<and>
      s = dec_digits a @ ''.'' @ dec_digits b @ ''.'' @ dec_digits c @ tag_text (CHR ''-'') pre @ tag_text (CHR ''+'') build"
    then obtain a b c pre build where "list_all prerelease_ok pre" "list_all build_ok build"
      "s = dec_digits a @ ''.'' @ dec_digits b @ ''.'' @ dec_digits c @ tag_text (CHR ''-'') pre @ tag_text (CHR ''+'') build"
      by blast
    then show "\<exists>v. wf_semver v \<and> s = semver_text v"
      by (intro exI [of _ "\<lparr>sv_major = a, sv_minor = b, sv_patch = c, sv_prerelease = pre, sv_build = build\<rparr>"])
        (simp add: wf_semver_def semver_text_def)
  qed (unfold wf_semver_def semver_text_def, blast)
  finally show ?thesis by (simp add: matches_lang)
qed

end
