(* ===== verification/Artifact_Sources.thy ===== *)
theory Artifact_Sources
  imports Artifacts
begin

text \<open>
  Package \<open>internal/domain/artifactsource\<close>: where the content of a version came from, as it was
  submitted and as it was resolved.
\<close>

definition MaxReferenceBytes :: nat where "MaxReferenceBytes = 2048"

type_synonym SourceKind = string

abbreviation SourceOCI :: SourceKind where "SourceOCI \<equiv> ''oci''"
abbreviation SourceRemote :: SourceKind where "SourceRemote \<equiv> ''remote''"
abbreviation SourceImportRecord :: SourceKind where "SourceImportRecord \<equiv> ''import-record''"

text \<open>\<open>importRecordID\<close> and \<open>hasImportRecord\<close> are one optional field.\<close>

record ArtifactSource =
  src_tenantID :: UUID
  src_artifactVersionID :: UUID
  src_kind :: SourceKind
  src_submittedReference :: string
  src_resolvedReference :: string
  src_resolvedDigest :: Digest
  src_endpoint :: string
  src_importRecordID :: "UUID option"

datatype source_error =
    SourceIdentifier | SourceDigest | SourceResolvedReference | SourceImportRecordIdentifier
  | SourceSubmittedReference | SourceUnboundDigest | SourceInvalidOCI | SourceDescriptorReference
  | SourceEndpoint | SourceInvalidRemote | SourceInvalidImportRecord | SourceInvalidKind

definition requiredReference :: "string \<Rightarrow> bool" where
  "requiredReference reference \<longleftrightarrow>
    \<not> (length reference < 1 \<or> length reference > MaxReferenceBytes \<or> \<not> utf8_valid reference \<or>
       trim_space reference \<noteq> reference) \<and>
    list_all (\<lambda>character. \<not> (character < 0x20 \<or> character = 0x7F)) (runes reference)"

definition httpsEndpoint :: "string \<Rightarrow> bool" where
  "httpsEndpoint endpoint \<longleftrightarrow>
    requiredReference endpoint \<and>
    (case ParseRequestURI endpoint of
       None \<Rightarrow> False
     | Some parsed \<Rightarrow> \<not> (url_Scheme parsed \<noteq> ''https'' \<or> url_Host parsed = [] \<or> url_User parsed \<noteq> None))"

definition source_restore ::
  "UUID \<Rightarrow> UUID \<Rightarrow> SourceKind \<Rightarrow> string \<Rightarrow> string \<Rightarrow> Digest \<Rightarrow> string \<Rightarrow> UUID option \<Rightarrow>
   (source_error, ArtifactSource) result" where
  "source_restore tenantID versionID kind submittedReference resolvedReference resolvedDigest endpoint importRecordID =
    (let restored = \<lparr>src_tenantID = tenantID, src_artifactVersionID = versionID, src_kind = kind,
           src_submittedReference = submittedReference, src_resolvedReference = resolvedReference,
           src_resolvedDigest = resolvedDigest, src_endpoint = endpoint, src_importRecordID = importRecordID\<rparr> in
     if \<not> list_all valid_uuid [tenantID, versionID] then Inl SourceIdentifier
     else if \<not> is_ok (Digest_MarshalText resolvedDigest) then Inl SourceDigest
     else if \<not> requiredReference resolvedReference then Inl SourceResolvedReference
     else if (case importRecordID of None \<Rightarrow> False | Some uid \<Rightarrow> \<not> valid_uuid uid) then Inl SourceImportRecordIdentifier
     else if kind = SourceOCI then
       (if \<not> requiredReference submittedReference then Inl SourceSubmittedReference
        else if \<not> suffix (''@'' @ Digest_String resolvedDigest) resolvedReference then Inl SourceUnboundDigest
        else if endpoint \<noteq> [] \<or> importRecordID \<noteq> None then Inl SourceInvalidOCI
        else Inr restored)
     else if kind = SourceRemote then
       (if \<not> requiredReference submittedReference then Inl SourceDescriptorReference
        else if \<not> httpsEndpoint endpoint then Inl SourceEndpoint
        else if importRecordID \<noteq> None then Inl SourceInvalidRemote
        else Inr restored)
     else if kind = SourceImportRecord then
       (if submittedReference \<noteq> [] \<or> endpoint \<noteq> [] \<or> importRecordID = None then Inl SourceInvalidImportRecord
        else Inr restored)
     else Inl SourceInvalidKind)"

definition NewOCI :: "UUID \<Rightarrow> UUID \<Rightarrow> string \<Rightarrow> string \<Rightarrow> Digest \<Rightarrow> (source_error, ArtifactSource) result" where
  "NewOCI tenantID versionID submittedReference resolvedReference resolvedDigest =
    source_restore tenantID versionID SourceOCI submittedReference resolvedReference resolvedDigest [] None"

definition NewRemote :: "UUID \<Rightarrow> UUID \<Rightarrow> string \<Rightarrow> string \<Rightarrow> Digest \<Rightarrow> string \<Rightarrow> (source_error, ArtifactSource) result" where
  "NewRemote tenantID versionID descriptorReference resolvedReference resolvedDigest endpoint =
    source_restore tenantID versionID SourceRemote descriptorReference resolvedReference resolvedDigest endpoint None"

definition NewImportRecord :: "UUID \<Rightarrow> UUID \<Rightarrow> UUID \<Rightarrow> string \<Rightarrow> Digest \<Rightarrow> (source_error, ArtifactSource) result" where
  "NewImportRecord tenantID versionID importRecordID resolvedReference resolvedDigest =
    source_restore tenantID versionID SourceImportRecord [] resolvedReference resolvedDigest [] (Some importRecordID)"

definition Source_Restore ::
  "UUID \<Rightarrow> UUID \<Rightarrow> SourceKind \<Rightarrow> string \<Rightarrow> string \<Rightarrow> Digest \<Rightarrow> string \<Rightarrow> UUID option \<Rightarrow>
   (source_error, ArtifactSource) result" where
  "Source_Restore = source_restore"

subsection \<open>Exactness\<close>

definition source_metadata_ok :: "ArtifactSource \<Rightarrow> bool" where
  "source_metadata_ok s \<longleftrightarrow>
    (if src_kind s = SourceOCI then
       requiredReference (src_submittedReference s) \<and> src_endpoint s = [] \<and> src_importRecordID s = None \<and>
       suffix (''@'' @ Digest_String (src_resolvedDigest s)) (src_resolvedReference s)
     else if src_kind s = SourceRemote then
       requiredReference (src_submittedReference s) \<and> httpsEndpoint (src_endpoint s) \<and> src_importRecordID s = None
     else src_kind s = SourceImportRecord \<and> src_submittedReference s = [] \<and> src_endpoint s = [] \<and>
       src_importRecordID s \<noteq> None)"

definition wf_source :: "ArtifactSource \<Rightarrow> bool" where
  "wf_source s \<longleftrightarrow>
    valid_uuid (src_tenantID s) \<and> valid_uuid (src_artifactVersionID s) \<and> wf_digest (src_resolvedDigest s) \<and>
    requiredReference (src_resolvedReference s) \<and> pred_option valid_uuid (src_importRecordID s) \<and> source_metadata_ok s"

lemma source_restore_Inr:
  "source_restore tenantID versionID kind submittedReference resolvedReference resolvedDigest endpoint importRecordID = Inr s \<longleftrightarrow>
    wf_source s \<and>
    s = \<lparr>src_tenantID = tenantID, src_artifactVersionID = versionID, src_kind = kind,
      src_submittedReference = submittedReference, src_resolvedReference = resolvedReference,
      src_resolvedDigest = resolvedDigest, src_endpoint = endpoint, src_importRecordID = importRecordID\<rparr>"
proof -
  define restored where "restored = \<lparr>src_tenantID = tenantID, src_artifactVersionID = versionID, src_kind = kind,
      src_submittedReference = submittedReference, src_resolvedReference = resolvedReference,
      src_resolvedDigest = resolvedDigest, src_endpoint = endpoint, src_importRecordID = importRecordID\<rparr>"
  have fields: "src_tenantID restored = tenantID" "src_artifactVersionID restored = versionID" "src_kind restored = kind"
    "src_submittedReference restored = submittedReference" "src_resolvedReference restored = resolvedReference"
    "src_resolvedDigest restored = resolvedDigest" "src_endpoint restored = endpoint"
    "src_importRecordID restored = importRecordID"
    by (simp_all add: restored_def)
  have import_ok: "(case importRecordID of None \<Rightarrow> False | Some uid \<Rightarrow> \<not> valid_uuid uid) \<longleftrightarrow> \<not> pred_option valid_uuid importRecordID"
    by (cases importRecordID) simp_all
  have "source_restore tenantID versionID kind submittedReference resolvedReference resolvedDigest endpoint importRecordID =
      Inr s \<longleftrightarrow> wf_source restored \<and> s = restored"
    unfolding source_restore_def Let_def restored_def [symmetric] import_ok guard_Inr wf_source_def source_metadata_ok_def
      fields wf_digest_MarshalText
    by (cases "kind = SourceOCI"; cases "kind = SourceRemote"; cases "kind = SourceImportRecord"; simp; blast)
  then show ?thesis unfolding restored_def by blast
qed

end
