(* ===== verification/Artifact_Repository.thy ===== *)
theory Artifact_Repository
  imports Artifact_Versions Artifact_Sources Namespace_Repository
begin

text \<open>
  \<open>internal/adapters/postgres/artifact\<close>, \<open>artifactversion\<close> and \<open>artifactsource\<close> on the tables of
  \<open>migrations/000004\<close>, \<open>000005\<close> and \<open>000007\<close>. The column checks that the domain's validation implies are
  not repeated; the ones it does not imply (white space in a URI, a NUL in a label, the spelling of a
  scheme) are. Stored labels are the decoded \<open>jsonb\<close> object.
\<close>

subsection \<open>Errors\<close>

definition artifact_unavailable :: go_error where
  "artifact_unavailable = typed_repo ErrorUnavailable ''artifact.persistence_unavailable''"

definition artifact_invalid_tenant :: go_error where
  "artifact_invalid_tenant = typed_repo ErrorInvalid ''artifact.invalid_tenant''"

definition artifact_not_found :: go_error where
  "artifact_not_found = typed_repo ErrorNotFound ''artifact.not_found''"

definition version_unavailable :: go_error where
  "version_unavailable = typed_repo ErrorUnavailable ''artifact_version.persistence_unavailable''"

definition version_invalid_tenant :: go_error where
  "version_invalid_tenant = typed_repo ErrorInvalid ''artifact_version.invalid_tenant''"

definition version_not_found :: go_error where
  "version_not_found = typed_repo ErrorNotFound ''artifact_version.not_found''"

definition source_unavailable :: go_error where
  "source_unavailable = typed_repo ErrorUnavailable ''artifact_source.persistence_unavailable''"

definition source_invalid_tenant :: go_error where
  "source_invalid_tenant = typed_repo ErrorInvalid ''artifact_source.invalid_tenant''"

definition conflict_or :: "string \<Rightarrow> go_error \<Rightarrow> sql_error \<Rightarrow> go_error" where
  "conflict_or conflict unavailable e =
    (if uniqueViolation e then typed_repo ErrorConflict conflict else unavailable)"

subsection \<open>Artifacts\<close>

text \<open>\<open>[[:space:]]\<close> of the server.\<close>

definition pg_space :: "Env \<Rightarrow> nat \<Rightarrow> bool" where
  "pg_space env r \<longleftrightarrow> (if r < 0x80 then 9 \<le> r \<and> r \<le> 13 \<or> r = 32 else env_space env r)"

definition unspaced :: "Env \<Rightarrow> string option \<Rightarrow> bool" where
  "unspaced env v \<longleftrightarrow> (case v of None \<Rightarrow> True | Some text \<Rightarrow> list_all (\<lambda>r. \<not> pg_space env r) (runes text))"

definition artifact_row :: "Env \<Rightarrow> Artifact \<Rightarrow> ArtifactRow" where
  "artifact_row env a =
    \<lparr>atrow_tenant = art_tenantID a, atrow_id = art_id a, atrow_namespace = art_namespaceID a,
     atrow_name = Artifact_Name a, atrow_kind = art_kind a, atrow_display_name = nullif (art_displayName a),
     atrow_description = nullif (art_description a), atrow_homepage = nullif (art_homepage a),
     atrow_repository = nullif (art_repository a), atrow_labels = art_labels a,
     atrow_created_at = env_store_time env (art_createdAt a)\<rparr>"

text \<open>
  \<open>INSERT \<dots> SELECT \<dots> FROM public.namespaces\<close>: the number of rows. A NUL is no character of \<open>jsonb\<close>, an
  error of the parameter, whatever rows the query finds.
\<close>

definition insert_artifact :: "Env \<Rightarrow> string \<Rightarrow> ArtifactRow \<Rightarrow> DB \<Rightarrow> (sql_error, nat \<times> DB) result" where
  "insert_artifact env path row db =
    (if list_ex (\<lambda>label. list_ex (\<lambda>c. code c = 0) (snd label)) (atrow_labels row) then Inl (PgError ''22P05'' [])
     else if \<not> list_ex (\<lambda>n. nrow_tenant n = atrow_tenant row \<and> nrow_id n = atrow_namespace row \<and> nrow_path n = path)
         (db_namespaces db) then Inr (0, db)
     else if \<not> unspaced env (atrow_homepage row) then Inl (check_violation ''artifacts_homepage_check'')
     else if \<not> unspaced env (atrow_repository row) then Inl (check_violation ''artifacts_repository_check'')
     else if list_ex (\<lambda>a. atrow_tenant a = atrow_tenant row \<and> atrow_id a = atrow_id row) (db_artifacts db)
       then Inl (unique_violation ''artifacts_pkey'')
     else if list_ex (\<lambda>a. atrow_tenant a = atrow_tenant row \<and> atrow_namespace a = atrow_namespace row \<and>
         atrow_name a = atrow_name row) (db_artifacts db)
       then Inl (unique_violation ''artifacts_tenant_id_namespace_id_name_key'')
     else Inr (1, db\<lparr>db_artifacts := db_artifacts db @ [row]\<rparr>))"

definition artifactSelect :: "(ArtifactRow \<Rightarrow> string \<Rightarrow> bool) \<Rightarrow> DB \<Rightarrow> (ArtifactRow \<times> string) list" where
  "artifactSelect predicate db =
    filter (\<lambda>(a, path). predicate a path)
      (concat (map (\<lambda>a. map (\<lambda>n. (a, nrow_path n))
          (filter (\<lambda>n. nrow_tenant n = atrow_tenant a \<and> nrow_id n = atrow_namespace a) (db_namespaces db)))
        (db_artifacts db)))"

definition artifact_scan :: "ArtifactRow \<times> string \<Rightarrow> (unit, Artifact) result" where
  "artifact_scan row =
    (case row of (a, path) \<Rightarrow>
      bindE (scan_uuid (atrow_tenant a)) (\<lambda>tenantID.
      bindE (scan_uuid (atrow_id a)) (\<lambda>artifactID.
      bindE (scan_uuid (atrow_namespace a)) (\<lambda>namespaceID.
      map_error () (Artifact_Restore tenantID artifactID namespaceID path (atrow_name a) (atrow_kind a)
        (coalesce (atrow_display_name a)) (coalesce (atrow_description a)) (coalesce (atrow_homepage a))
        (coalesce (atrow_repository a)) (atrow_labels a) (atrow_created_at a))))))"

definition ArtifactRepository_Create :: "Env \<Rightarrow> Ctx \<Rightarrow> Artifact \<Rightarrow> unit io" where
  "ArtifactRepository_Create env ctx a =
    repository_tx env ctx (art_tenantID a) artifact_invalid_tenant artifact_unavailable
      (io_bind (io_exec env (conflict_or ''artifact.conflict'' artifact_unavailable)
          (insert_artifact env (ref_namespace (art_identity a)) (artifact_row env a))) (\<lambda>affected.
       if affected \<noteq> 1 then io_fail (typed_repo ErrorNotFound ''artifact.namespace_not_found'')
       else Audit_Record env ctx
         (resource_params (art_tenantID a) ActionArtifactCreated ''artifact'' (UUID_String (art_id a)))))"

definition artifact_get :: "Env \<Rightarrow> Ctx \<Rightarrow> UUID \<Rightarrow> (ArtifactRow \<Rightarrow> string \<Rightarrow> bool) \<Rightarrow> Artifact io" where
  "artifact_get env ctx tenantID predicate =
    repository_tx env ctx tenantID artifact_invalid_tenant artifact_unavailable
      (query_one env artifact_not_found artifact_unavailable artifact_scan
        (artifactSelect (\<lambda>a path. atrow_tenant a = tenantID \<and> predicate a path)))"

definition ArtifactRepository_Get :: "Env \<Rightarrow> Ctx \<Rightarrow> UUID \<Rightarrow> UUID \<Rightarrow> Artifact io" where
  "ArtifactRepository_Get env ctx tenantID artifactID =
    (if \<not> valid_uuid artifactID then io_fail (typed_repo ErrorInvalid ''artifact.invalid_id'')
     else artifact_get env ctx tenantID (\<lambda>a _. atrow_id a = artifactID))"

definition ArtifactRepository_GetByIdentity :: "Env \<Rightarrow> Ctx \<Rightarrow> UUID \<Rightarrow> ArtifactReference \<Rightarrow> Artifact io" where
  "ArtifactRepository_GetByIdentity env ctx tenantID identity =
    (if ArtifactReference_String identity = [] then io_fail (typed_repo ErrorInvalid ''artifact.invalid_identity'')
     else artifact_get env ctx tenantID (\<lambda>a path. path = ref_namespace identity \<and> atrow_name a = ref_name identity))"

definition replace_char :: "char \<Rightarrow> string \<Rightarrow> string \<Rightarrow> string" where
  "replace_char c r s = concat (map (\<lambda>d. if d = c then r else [d]) s)"

definition escapeLike :: "string \<Rightarrow> string" where
  "escapeLike text =
    replace_char (CHR ''_'') (CHR 0x5C # ''_'') (replace_char (CHR 0x25) [CHR 0x5C, CHR 0x25]
      (replace_char (CHR 0x5C) [CHR 0x5C, CHR 0x5C] text))"

definition artifact_matches :: "Env \<Rightarrow> string \<Rightarrow> ArtifactRow \<Rightarrow> string \<Rightarrow> bool" where
  "artifact_matches env query a path \<longleftrightarrow>
    (let pattern = CHR 0x25 # query @ [CHR 0x25] in
     query = [] \<or> env_ilike env pattern path \<or> env_ilike env pattern (atrow_name a) \<or>
     env_ilike env pattern (coalesce (atrow_display_name a)))"

definition ArtifactRepository_List ::
  "Env \<Rightarrow> Ctx \<Rightarrow> UUID \<Rightarrow> string \<Rightarrow> UUID option \<Rightarrow> int \<Rightarrow> Artifact list io" where
  "ArtifactRepository_List env ctx tenantID queryText after limit =
    (if limit < 1 \<or> limit > ArtifactMaxListSize then io_fail (typed_repo ErrorInvalid ''artifact.invalid_page_size'')
     else if (case after of None \<Rightarrow> False | Some position \<Rightarrow> \<not> valid_uuid position)
       then io_fail (typed_repo ErrorInvalid ''artifact.invalid_cursor'')
     else repository_tx env ctx tenantID artifact_invalid_tenant artifact_unavailable
       (query_all env artifact_unavailable artifact_scan
         (\<lambda>db. page_after (\<lambda>row. atrow_id (fst row)) after (nat limit)
            (artifactSelect (\<lambda>a path. atrow_tenant a = tenantID \<and> artifact_matches env (escapeLike queryText) a path) db))))"

subsection \<open>Versions\<close>

definition version_row :: "Env \<Rightarrow> ArtifactVersion \<Rightarrow> VersionRow" where
  "version_row env v =
    \<lparr>vrow_tenant = ver_tenantID v, vrow_id = ver_id v, vrow_artifact = ver_artifactID v, vrow_publisher = ver_publisherID v,
     vrow_semantic_version = ver_version v, vrow_digest = Digest_String (ver_digest v), vrow_kind = ver_kind v,
     vrow_class = ver_class v, vrow_delivery = ver_delivery v, vrow_lifecycle = ver_lifecycle v,
     vrow_registered_at = env_store_time env (ver_registeredAt v)\<rparr>"

definition insert_version :: "VersionRow \<Rightarrow> DB \<Rightarrow> (sql_error, nat \<times> DB) result" where
  "insert_version row db =
    (if \<not> list_ex (\<lambda>a. atrow_tenant a = vrow_tenant row \<and> atrow_id a = vrow_artifact row \<and> atrow_kind a = vrow_kind row)
         (db_artifacts db) \<or>
        \<not> list_ex (\<lambda>p. prow_tenant p = vrow_tenant row \<and> prow_id p = vrow_publisher row) (db_publishers db)
       then Inr (0, db)
     else if list_ex (\<lambda>v. vrow_tenant v = vrow_tenant row \<and> vrow_id v = vrow_id row) (db_versions db)
       then Inl (unique_violation ''artifact_versions_pkey'')
     else if list_ex (\<lambda>v. vrow_tenant v = vrow_tenant row \<and> vrow_artifact v = vrow_artifact row \<and>
         vrow_semantic_version v = vrow_semantic_version row) (db_versions db)
       then Inl (unique_violation ''artifact_versions_tenant_id_artifact_id_semantic_version_key'')
     else if list_ex (\<lambda>v. vrow_tenant v = vrow_tenant row \<and> vrow_digest v = vrow_digest row) (db_versions db)
       then Inl (unique_violation ''artifact_versions_tenant_id_resolved_digest_key'')
     else Inr (1, db\<lparr>db_versions := db_versions db @ [row]\<rparr>))"

definition version_scan :: "VersionRow \<Rightarrow> (unit, ArtifactVersion) result" where
  "version_scan row =
    bindE (scan_uuid (vrow_tenant row)) (\<lambda>tenantID.
    bindE (scan_uuid (vrow_id row)) (\<lambda>versionID.
    bindE (scan_uuid (vrow_artifact row)) (\<lambda>artifactID.
    bindE (scan_uuid (vrow_publisher row)) (\<lambda>publisherID.
    (case ParseSemanticVersion (vrow_semantic_version row) of
       None \<Rightarrow> Inl ()
     | Some semanticVersion \<Rightarrow>
       bindE (scan_digest (vrow_digest row)) (\<lambda>contentDigest.
       map_error () (Version_Restore tenantID versionID artifactID publisherID semanticVersion contentDigest
         (vrow_kind row) (vrow_class row) (vrow_delivery row) (vrow_lifecycle row) (vrow_registered_at row))))))))"

definition VersionRepository_Create :: "Env \<Rightarrow> Ctx \<Rightarrow> ArtifactVersion \<Rightarrow> unit io" where
  "VersionRepository_Create env ctx v =
    (if ver_lifecycle v \<noteq> LifecycleActive then io_fail (typed_repo ErrorInvalid ''artifact_version.invalid_lifecycle'')
     else repository_tx env ctx (ver_tenantID v) version_invalid_tenant version_unavailable
      (io_bind (io_exec env (conflict_or ''artifact_version.conflict'' version_unavailable)
          (insert_version (version_row env v))) (\<lambda>affected.
       if affected \<noteq> 1 then io_fail (typed_repo ErrorNotFound ''artifact_version.artifact_or_publisher_not_found'')
       else Audit_Record env ctx
         ((resource_params (ver_tenantID v) ActionArtifactVersionRegistered ''artifact_version'' (UUID_String (ver_id v)))
           \<lparr>par_ArtifactDigest := Some (ver_digest v)\<rparr>))))"

definition version_get :: "Env \<Rightarrow> Ctx \<Rightarrow> UUID \<Rightarrow> (VersionRow \<Rightarrow> bool) \<Rightarrow> ArtifactVersion io" where
  "version_get env ctx tenantID predicate =
    repository_tx env ctx tenantID version_invalid_tenant version_unavailable
      (query_one env version_not_found version_unavailable version_scan
        (\<lambda>db. filter (\<lambda>r. vrow_tenant r = tenantID \<and> predicate r) (db_versions db)))"

definition VersionRepository_Get :: "Env \<Rightarrow> Ctx \<Rightarrow> UUID \<Rightarrow> UUID \<Rightarrow> ArtifactVersion io" where
  "VersionRepository_Get env ctx tenantID versionID =
    (if \<not> valid_uuid versionID then io_fail (typed_repo ErrorInvalid ''artifact_version.invalid_id'')
     else version_get env ctx tenantID (\<lambda>r. vrow_id r = versionID))"

definition VersionRepository_GetByDigest :: "Env \<Rightarrow> Ctx \<Rightarrow> UUID \<Rightarrow> Digest \<Rightarrow> ArtifactVersion io" where
  "VersionRepository_GetByDigest env ctx tenantID digest =
    (if \<not> is_ok (Digest_MarshalText digest) then io_fail (typed_repo ErrorInvalid ''artifact_version.invalid_digest'')
     else version_get env ctx tenantID (\<lambda>r. vrow_digest r = Digest_String digest))"

definition VersionRepository_GetBySemanticVersion ::
  "Env \<Rightarrow> Ctx \<Rightarrow> UUID \<Rightarrow> UUID \<Rightarrow> SemanticVersion \<Rightarrow> ArtifactVersion io" where
  "VersionRepository_GetBySemanticVersion env ctx tenantID artifactID semanticVersion =
    (if \<not> valid_uuid artifactID then io_fail (typed_repo ErrorInvalid ''artifact_version.invalid_artifact_id'')
     else if ParseSemanticVersion semanticVersion = None
       then io_fail (typed_repo ErrorInvalid ''artifact_version.invalid_semantic_version'')
     else version_get env ctx tenantID (\<lambda>r. vrow_artifact r = artifactID \<and> vrow_semantic_version r = semanticVersion))"

definition VersionRepository_List ::
  "Env \<Rightarrow> Ctx \<Rightarrow> UUID \<Rightarrow> UUID \<Rightarrow> UUID option \<Rightarrow> int \<Rightarrow> ArtifactVersion list io" where
  "VersionRepository_List env ctx tenantID artifactID after limit =
    (if \<not> valid_uuid artifactID then io_fail (typed_repo ErrorInvalid ''artifact_version.invalid_artifact_id'')
     else if limit < 1 \<or> limit > VersionMaxListSize
       then io_fail (typed_repo ErrorInvalid ''artifact_version.invalid_page_size'')
     else if (case after of None \<Rightarrow> False | Some position \<Rightarrow> \<not> valid_uuid position)
       then io_fail (typed_repo ErrorInvalid ''artifact_version.invalid_cursor'')
     else repository_tx env ctx tenantID version_invalid_tenant version_unavailable
       (query_all env version_unavailable version_scan
         (\<lambda>db. page_after vrow_id after (nat limit)
            (filter (\<lambda>r. vrow_tenant r = tenantID \<and> vrow_artifact r = artifactID) (db_versions db)))))"

subsection \<open>Sources\<close>

text \<open>\<open>endpoint ~ '^https://[^[:space:]]+$'\<close>.\<close>

definition endpoint_check :: "Env \<Rightarrow> string option \<Rightarrow> bool" where
  "endpoint_check env v \<longleftrightarrow>
    (case v of
       None \<Rightarrow> True
     | Some text \<Rightarrow> prefix ''https://'' text \<and> drop 8 text \<noteq> [] \<and> unspaced env (Some (drop 8 text)))"

definition source_row :: "ArtifactSource \<Rightarrow> DeliveryModel \<Rightarrow> SourceRow" where
  "source_row s delivery =
    \<lparr>sorow_tenant = src_tenantID s, sorow_version = src_artifactVersionID s, sorow_kind = src_kind s,
     sorow_submitted = nullif (src_submittedReference s), sorow_resolved = src_resolvedReference s,
     sorow_digest = Digest_String (src_resolvedDigest s), sorow_endpoint = nullif (src_endpoint s),
     sorow_import_record = src_importRecordID s, sorow_delivery = delivery\<rparr>"

definition kind_delivery :: "SourceKind \<Rightarrow> DeliveryModel \<Rightarrow> bool" where
  "kind_delivery kind delivery \<longleftrightarrow>
    kind = ''oci'' \<and> delivery = ''oci'' \<or> kind = ''remote'' \<and> delivery = ''remote'' \<or>
    kind = ''import-record'' \<and> delivery = ''imported-source''"

definition insert_source :: "Env \<Rightarrow> ArtifactSource \<Rightarrow> DB \<Rightarrow> (sql_error, nat \<times> DB) result" where
  "insert_source env s db =
    (case filter (\<lambda>v. vrow_tenant v = src_tenantID s \<and> vrow_id v = src_artifactVersionID s \<and>
          vrow_digest v = Digest_String (src_resolvedDigest s) \<and> kind_delivery (src_kind s) (vrow_delivery v))
        (db_versions db) of
       [] \<Rightarrow> Inr (0, db)
     | v # _ \<Rightarrow>
       (if \<not> endpoint_check env (nullif (src_endpoint s)) then Inl (check_violation ''artifact_sources_endpoint_check'')
        else if list_ex (\<lambda>r. sorow_tenant r = src_tenantID s \<and> sorow_version r = src_artifactVersionID s) (db_sources db)
          then Inl (unique_violation ''artifact_sources_pkey'')
        else Inr (1, db\<lparr>db_sources := db_sources db @ [source_row s (vrow_delivery v)]\<rparr>)))"

definition source_scan :: "SourceRow \<Rightarrow> (unit, ArtifactSource) result" where
  "source_scan row =
    bindE (scan_uuid (sorow_tenant row)) (\<lambda>tenantID.
    bindE (scan_uuid (sorow_version row)) (\<lambda>versionID.
    bindE (scan_digest (sorow_digest row)) (\<lambda>resolvedDigest.
    bindE (scan_option scan_uuid (sorow_import_record row)) (\<lambda>importRecordID.
    map_error () (Source_Restore tenantID versionID (sorow_kind row) (coalesce (sorow_submitted row)) (sorow_resolved row)
      resolvedDigest (coalesce (sorow_endpoint row)) importRecordID)))))"

definition SourceRepository_Create :: "Env \<Rightarrow> Ctx \<Rightarrow> ArtifactSource \<Rightarrow> unit io" where
  "SourceRepository_Create env ctx s =
    repository_tx env ctx (src_tenantID s) source_invalid_tenant source_unavailable
      (io_bind (io_exec env (conflict_or ''artifact_source.conflict'' source_unavailable) (insert_source env s)) (\<lambda>affected.
       if affected \<noteq> 1 then io_fail (typed_repo ErrorNotFound ''artifact_source.artifact_version_not_found'')
       else Audit_Record env ctx
         ((resource_params (src_tenantID s) ActionArtifactSourceCreated ''artifact_source''
             (UUID_String (src_artifactVersionID s)))\<lparr>par_ArtifactDigest := Some (src_resolvedDigest s)\<rparr>)))"

definition SourceRepository_Get :: "Env \<Rightarrow> Ctx \<Rightarrow> UUID \<Rightarrow> UUID \<Rightarrow> ArtifactSource io" where
  "SourceRepository_Get env ctx tenantID versionID =
    (if \<not> valid_uuid versionID then io_fail (typed_repo ErrorInvalid ''artifact_source.invalid_artifact_version_id'')
     else repository_tx env ctx tenantID source_invalid_tenant source_unavailable
       (query_one env (typed_repo ErrorNotFound ''artifact_source.not_found'') source_unavailable source_scan
         (\<lambda>db. filter (\<lambda>r. sorow_tenant r = tenantID \<and> sorow_version r = versionID) (db_sources db))))"

subsection \<open>Atomicity\<close>

text \<open>The three \<open>Create\<close> operations share a shape: one insert, its row count, the audit fact.\<close>

definition audited_insert ::
  "Env \<Rightarrow> Ctx \<Rightarrow> (sql_error \<Rightarrow> go_error) \<Rightarrow> (DB \<Rightarrow> (sql_error, nat \<times> DB) result) \<Rightarrow> go_error \<Rightarrow> RecordParams \<Rightarrow> unit io" where
  "audited_insert env ctx err ins missing params =
    io_bind (io_exec env err ins) (\<lambda>affected.
      if affected \<noteq> 1 then io_fail missing else Audit_Record env ctx params)"

lemma balanced_audited_insert [io_laws]: "balanced (audited_insert env ctx err ins nf params)"
  unfolding audited_insert_def by (auto intro!: balanced_bind simp: io_laws)

lemma audited_insert_Inr:
  assumes "repository_tx env ctx t e u (audited_insert env ctx err ins nf params) w = (Inr v, w')"
  obtains db fact actor where "valid_uuid t" "ins (w_db w) = Inr (1, db)"
    "ActorFromContext (ctx_actor ctx) = Some actor"
    "w_db w' = db\<lparr>db_audit := db_audit db @ [fact]\<rparr>"
    "arow_tenant fact = par_TenantID params" "arow_actor fact = actor_principalID actor"
    "arow_action fact = par_Action params" "arow_resource_id fact = par_ResourceID params"
proof -
  from repository_tx_Inr [OF balanced_audited_insert assms] obtain w1 w2 where t: "valid_uuid t"
    and w1: "w_db w1 = w_db w" and run: "audited_insert env ctx err ins nf params w1 = (Inr v, w2)"
    and w': "w_db w' = w_db w2" by blast
  from run obtain w3 where i: "io_exec env err ins w1 = (Inr 1, w3)" and a: "Audit_Record env ctx params w3 = (Inr v, w2)"
    by (auto simp: audited_insert_def io_bind_Inr io_guard_Inr)
  from io_exec_Inr [OF i] Audit_Record_Inr [OF a] t w1 w' show thesis by (auto intro: that)
qed

lemmas repository_inserts =
  ArtifactRepository_Create_def [folded audited_insert_def]
  VersionRepository_Create_def [folded audited_insert_def]
  SourceRepository_Create_def [folded audited_insert_def]

lemma atomic_ArtifactRepository_Create [io_laws]: "atomic (ArtifactRepository_Create env ctx a)"
  and atomic_VersionRepository_Create [io_laws]: "atomic (VersionRepository_Create env ctx v)"
  and atomic_SourceRepository_Create [io_laws]: "atomic (SourceRepository_Create env ctx s)"
  unfolding repository_inserts
  by (auto intro!: repository_tx_atomic balanced_audited_insert reads_atomic [OF reads_fail])

lemma reads_artifact_get [io_laws]: "reads (artifact_get env ctx t q)"
  by (simp add: artifact_get_def repository_tx_reads io_laws)

lemma reads_version_get [io_laws]: "reads (version_get env ctx t q)"
  by (simp add: version_get_def repository_tx_reads io_laws)

lemma reads_ArtifactRepository [io_laws]:
  "reads (ArtifactRepository_Get env ctx t u)"
  "reads (ArtifactRepository_GetByIdentity env ctx t i)"
  "reads (ArtifactRepository_List env ctx t q after n)"
  by (simp_all add: ArtifactRepository_Get_def ArtifactRepository_GetByIdentity_def ArtifactRepository_List_def
      repository_tx_reads io_laws)

lemma reads_VersionRepository [io_laws]:
  "reads (VersionRepository_Get env ctx t u)"
  "reads (VersionRepository_GetByDigest env ctx t d)"
  "reads (VersionRepository_GetBySemanticVersion env ctx t u s)"
  "reads (VersionRepository_List env ctx t u after n)"
  by (simp_all add: VersionRepository_Get_def VersionRepository_GetByDigest_def
      VersionRepository_GetBySemanticVersion_def VersionRepository_List_def repository_tx_reads io_laws)

lemma reads_SourceRepository_Get [io_laws]: "reads (SourceRepository_Get env ctx t u)"
  by (simp add: SourceRepository_Get_def repository_tx_reads io_laws)

subsection \<open>The invariant of the catalog tables\<close>

text \<open>
  Identifiers are unique in their tenant; so are an artifact's name in its namespace, a semantic version
  of an artifact and a content digest. A version has the kind of its artifact, and a source the digest
  and the delivery model of its version.
\<close>

definition described_by :: "SourceRow \<Rightarrow> VersionRow \<Rightarrow> bool" where
  "described_by s v \<longleftrightarrow>
    vrow_tenant v = sorow_tenant s \<and> vrow_id v = sorow_version s \<and> vrow_digest v = sorow_digest s \<and>
    vrow_delivery v = sorow_delivery s \<and> kind_delivery (sorow_kind s) (sorow_delivery s)"

definition version_of :: "VersionRow \<Rightarrow> ArtifactRow \<Rightarrow> bool" where
  "version_of v a \<longleftrightarrow> atrow_tenant a = vrow_tenant v \<and> atrow_id a = vrow_artifact v \<and> atrow_kind a = vrow_kind v"

definition catalog_inv :: "DB \<Rightarrow> bool" where
  "catalog_inv db \<longleftrightarrow>
    distinct (map (\<lambda>a. (atrow_tenant a, atrow_id a)) (db_artifacts db)) \<and>
    distinct (map (\<lambda>a. (atrow_tenant a, atrow_namespace a, atrow_name a)) (db_artifacts db)) \<and>
    distinct (map (\<lambda>v. (vrow_tenant v, vrow_id v)) (db_versions db)) \<and>
    distinct (map (\<lambda>v. (vrow_tenant v, vrow_artifact v, vrow_semantic_version v)) (db_versions db)) \<and>
    distinct (map (\<lambda>v. (vrow_tenant v, vrow_digest v)) (db_versions db)) \<and>
    distinct (map (\<lambda>s. (sorow_tenant s, sorow_version s)) (db_sources db)) \<and>
    list_all (\<lambda>v. list_ex (version_of v) (db_artifacts db)) (db_versions db) \<and>
    list_all (\<lambda>s. list_ex (described_by s) (db_versions db)) (db_sources db)"

lemma catalog_inv_empty: "catalog_inv empty_DB"
  by (simp add: catalog_inv_def empty_DB_def)

lemma catalog_inv_cong:
  "db_artifacts db = db_artifacts db' \<Longrightarrow> db_versions db = db_versions db' \<Longrightarrow> db_sources db = db_sources db' \<Longrightarrow>
    catalog_inv db = catalog_inv db'"
  by (simp add: catalog_inv_def)

lemma list_all_ex_append:
  "list_all (\<lambda>x. list_ex (P x) ys) xs \<Longrightarrow> list_all (\<lambda>x. list_ex (P x) (ys @ zs)) xs"
  by (auto simp: list_all_iff)

lemma insert_artifact_Inr:
  "insert_artifact env path row db = Inr (1, db') \<Longrightarrow>
    db' = db\<lparr>db_artifacts := db_artifacts db @ [row]\<rparr> \<and>
    list_ex (\<lambda>n. nrow_tenant n = atrow_tenant row \<and> nrow_id n = atrow_namespace row \<and> nrow_path n = path)
      (db_namespaces db) \<and>
    list_all (\<lambda>a. (atrow_tenant a, atrow_id a) \<noteq> (atrow_tenant row, atrow_id row) \<and>
      (atrow_tenant a, atrow_namespace a, atrow_name a) \<noteq> (atrow_tenant row, atrow_namespace row, atrow_name row))
      (db_artifacts db)"
  by (auto simp: insert_artifact_def list_all_iff list_ex_iff split: if_splits)

lemma insert_version_Inr:
  "insert_version row db = Inr (1, db') \<Longrightarrow>
    db' = db\<lparr>db_versions := db_versions db @ [row]\<rparr> \<and> list_ex (version_of row) (db_artifacts db) \<and>
    list_all (\<lambda>v. (vrow_tenant v, vrow_id v) \<noteq> (vrow_tenant row, vrow_id row) \<and>
      (vrow_tenant v, vrow_artifact v, vrow_semantic_version v) \<noteq>
        (vrow_tenant row, vrow_artifact row, vrow_semantic_version row) \<and>
      (vrow_tenant v, vrow_digest v) \<noteq> (vrow_tenant row, vrow_digest row)) (db_versions db)"
  by (auto simp: insert_version_def version_of_def list_all_iff list_ex_iff split: if_splits)

lemma insert_source_Inr:
  assumes "insert_source env s db = Inr (1, db')"
  obtains v where "v \<in> set (db_versions db)" "described_by (source_row s (vrow_delivery v)) v"
    "db' = db\<lparr>db_sources := db_sources db @ [source_row s (vrow_delivery v)]\<rparr>"
    "list_all (\<lambda>r. (sorow_tenant r, sorow_version r) \<noteq> (src_tenantID s, src_artifactVersionID s)) (db_sources db)"
proof -
  from assms obtain v rest where f: "filter (\<lambda>v. vrow_tenant v = src_tenantID s \<and> vrow_id v = src_artifactVersionID s \<and>
          vrow_digest v = Digest_String (src_resolvedDigest s) \<and> kind_delivery (src_kind s) (vrow_delivery v))
        (db_versions db) = v # rest"
    and r: "db' = db\<lparr>db_sources := db_sources db @ [source_row s (vrow_delivery v)]\<rparr>"
      "\<not> list_ex (\<lambda>r. sorow_tenant r = src_tenantID s \<and> sorow_version r = src_artifactVersionID s) (db_sources db)"
    by (auto simp: insert_source_def split: list.splits if_splits)
  from f have "v \<in> set (filter (\<lambda>v. vrow_tenant v = src_tenantID s \<and> vrow_id v = src_artifactVersionID s \<and>
          vrow_digest v = Digest_String (src_resolvedDigest s) \<and> kind_delivery (src_kind s) (vrow_delivery v))
        (db_versions db))" by simp
  with r show thesis
    by (intro that [of v]) (auto simp: described_by_def source_row_def list_all_iff list_ex_iff)
qed

lemma catalog_inv_insert_artifact:
  assumes inv: "catalog_inv db" and ins: "insert_artifact env path row db = Inr (1, db')"
  shows "catalog_inv db'"
  using inv insert_artifact_Inr [OF ins] unfolding catalog_inv_def
  by (auto simp: distinct_map_append list_all_ex_append list_all_iff simp del: map_append distinct_append)

lemma catalog_inv_insert_version:
  assumes inv: "catalog_inv db" and ins: "insert_version row db = Inr (1, db')"
  shows "catalog_inv db'"
  using inv insert_version_Inr [OF ins] unfolding catalog_inv_def
  by (auto simp: distinct_map_append list_all_ex_append list_all_iff simp del: map_append distinct_append)

lemma catalog_inv_insert_source:
  assumes inv: "catalog_inv db" and ins: "insert_source env s db = Inr (1, db')"
  shows "catalog_inv db'"
proof -
  from ins obtain v where v: "v \<in> set (db_versions db)" "described_by (source_row s (vrow_delivery v)) v"
    and db': "db' = db\<lparr>db_sources := db_sources db @ [source_row s (vrow_delivery v)]\<rparr>"
    and fresh: "list_all (\<lambda>r. (sorow_tenant r, sorow_version r) \<noteq> (src_tenantID s, src_artifactVersionID s)) (db_sources db)"
    by (rule insert_source_Inr)
  from v have "list_ex (described_by (source_row s (vrow_delivery v))) (db_versions db)" by (auto simp: list_ex_iff)
  moreover have "(sorow_tenant (source_row s d), sorow_version (source_row s d)) = (src_tenantID s, src_artifactVersionID s)" for d
    by (simp add: source_row_def)
  ultimately show ?thesis
    using inv fresh unfolding catalog_inv_def db'
    by (simp add: distinct_map_append list_all_iff del: map_append distinct_append)
qed

text \<open>What a successful \<open>Create\<close> did.\<close>

lemma ArtifactRepository_Create_Inr:
  assumes "ArtifactRepository_Create env ctx a w = (Inr u, w')"
  obtains db fact actor where
    "insert_artifact env (ref_namespace (art_identity a)) (artifact_row env a) (w_db w) = Inr (1, db)"
    "ActorFromContext (ctx_actor ctx) = Some actor" "w_db w' = db\<lparr>db_audit := db_audit db @ [fact]\<rparr>"
    "arow_tenant fact = art_tenantID a" "arow_actor fact = actor_principalID actor"
    "arow_action fact = ActionArtifactCreated" "arow_resource_id fact = UUID_String (art_id a)"
  using assms unfolding repository_inserts by (elim audited_insert_Inr) (auto simp: resource_params_def intro: that)

lemma VersionRepository_Create_Inr:
  assumes "VersionRepository_Create env ctx v w = (Inr u, w')"
  obtains db fact actor where
    "ver_lifecycle v = LifecycleActive" "insert_version (version_row env v) (w_db w) = Inr (1, db)"
    "ActorFromContext (ctx_actor ctx) = Some actor" "w_db w' = db\<lparr>db_audit := db_audit db @ [fact]\<rparr>"
    "arow_tenant fact = ver_tenantID v" "arow_actor fact = actor_principalID actor"
    "arow_action fact = ActionArtifactVersionRegistered" "arow_resource_id fact = UUID_String (ver_id v)"
  using assms unfolding repository_inserts io_guard_Inr
  by (elim conjE audited_insert_Inr) (auto simp: resource_params_def intro: that)

lemma SourceRepository_Create_Inr:
  assumes "SourceRepository_Create env ctx s w = (Inr u, w')"
  obtains db fact actor where
    "insert_source env s (w_db w) = Inr (1, db)"
    "ActorFromContext (ctx_actor ctx) = Some actor" "w_db w' = db\<lparr>db_audit := db_audit db @ [fact]\<rparr>"
    "arow_tenant fact = src_tenantID s" "arow_actor fact = actor_principalID actor"
    "arow_action fact = ActionArtifactSourceCreated" "arow_resource_id fact = UUID_String (src_artifactVersionID s)"
  using assms unfolding repository_inserts by (elim audited_insert_Inr) (auto simp: resource_params_def intro: that)

lemma catalog_inv_audit: "catalog_inv (db\<lparr>db_audit := facts\<rparr>) = catalog_inv db"
  by (rule catalog_inv_cong) simp_all

lemma catalog_inv_Create:
  assumes inv: "catalog_inv (w_db w)"
  shows "ArtifactRepository_Create env ctx a w = (Inr u, w') \<Longrightarrow> catalog_inv (w_db w')"
    and "VersionRepository_Create env ctx v w = (Inr u, w') \<Longrightarrow> catalog_inv (w_db w')"
    and "SourceRepository_Create env ctx s w = (Inr u, w') \<Longrightarrow> catalog_inv (w_db w')"
  by (auto simp: catalog_inv_audit simp del: One_nat_def elim!: ArtifactRepository_Create_Inr VersionRepository_Create_Inr
      SourceRepository_Create_Inr intro: catalog_inv_insert_artifact [OF inv] catalog_inv_insert_version [OF inv]
      catalog_inv_insert_source [OF inv])

subsection \<open>The stores\<close>

text \<open>The value the first of the rows stands for.\<close>

definition first_scanned :: "('r \<Rightarrow> (unit, 'a) result) \<Rightarrow> 'r list \<Rightarrow> 'a option" where
  "first_scanned scan rows =
    (case rows of [] \<Rightarrow> None | row # _ \<Rightarrow> (case scan row of Inl _ \<Rightarrow> None | Inr v \<Rightarrow> Some v))"

definition artifact_store :: "DB \<Rightarrow> UUID \<Rightarrow> UUID \<Rightarrow> Artifact option" where
  "artifact_store db t u = first_scanned artifact_scan (artifactSelect (\<lambda>a _. atrow_tenant a = t \<and> atrow_id a = u) db)"

definition version_store :: "DB \<Rightarrow> UUID \<Rightarrow> UUID \<Rightarrow> ArtifactVersion option" where
  "version_store db t u = first_scanned version_scan (filter (\<lambda>r. vrow_tenant r = t \<and> vrow_id r = u) (db_versions db))"

definition source_store :: "DB \<Rightarrow> UUID \<Rightarrow> UUID \<Rightarrow> ArtifactSource option" where
  "source_store db t u = first_scanned source_scan (filter (\<lambda>r. sorow_tenant r = t \<and> sorow_version r = u) (db_sources db))"

lemma tx_query_one_Inr:
  assumes "repository_tx env ctx t e u (query_one env nf un scan q) w = (Inr v, w')"
  shows "w_db w' = w_db w \<and> first_scanned scan (q (w_db w)) = Some v \<and> (\<exists>r \<in> set (q (w_db w)). scan r = Inr v)"
proof -
  from repository_tx_Inr [OF reads_balanced [OF reads_query_one] assms] obtain w1 w2 where "w_db w1 = w_db w"
    "query_one env nf un scan q w1 = (Inr v, w2)" "w_db w' = w_db w2" by blast
  with query_one_Inr [OF this(2)] show ?thesis by (auto simp: first_scanned_def)
qed

lemma artifact_scan_Inr:
  "artifact_scan (r, path) = Inr a \<longleftrightarrow>
    wf_artifact a \<and>
    a = \<lparr>art_tenantID = atrow_tenant r, art_id = atrow_id r, art_namespaceID = atrow_namespace r,
      art_identity = \<lparr>ref_namespace = path, ref_name = atrow_name r\<rparr>, art_kind = atrow_kind r,
      art_displayName = coalesce (atrow_display_name r), art_description = coalesce (atrow_description r),
      art_homepage = coalesce (atrow_homepage r), art_repository = coalesce (atrow_repository r),
      art_labels = atrow_labels r, art_createdAt = atrow_created_at r\<rparr>"
  by (auto simp: artifact_scan_def bindE_Inr_iff scan_uuid_valid Artifact_Restore_def artifact_restore_Inr wf_artifact_def)

lemma version_scan_Inr:
  "version_scan r = Inr v \<longleftrightarrow>
    wf_version v \<and> vrow_digest r = Digest_String (ver_digest v) \<and>
    v = \<lparr>ver_tenantID = vrow_tenant r, ver_id = vrow_id r, ver_artifactID = vrow_artifact r,
      ver_publisherID = vrow_publisher r, ver_version = vrow_semantic_version r, ver_digest = ver_digest v,
      ver_kind = vrow_kind r, ver_class = vrow_class r, ver_delivery = vrow_delivery r,
      ver_lifecycle = vrow_lifecycle r, ver_registeredAt = vrow_registered_at r\<rparr>"
proof (cases "ParseSemanticVersion (vrow_semantic_version r)")
  case (Some s)
  with ParseSemanticVersion_Some have "ParseSemanticVersion (vrow_semantic_version r) = Some (vrow_semantic_version r)"
    by blast
  then show ?thesis
    by (cases v) (auto simp: version_scan_def bindE_Inr_iff scan_uuid_valid scan_digest_Inr Version_Restore_def
      version_restore_Inr wf_version_def)
qed (cases v, auto simp: version_scan_def bindE_Inr_iff wf_version_def)

lemma scan_option_uuid: "scan_option scan_uuid c = Inr u \<longleftrightarrow> u = c \<and> pred_option valid_uuid c"
proof (cases c)
  case (Some x)
  have "scan_uuid x = Inr y \<longleftrightarrow> y = x \<and> valid_uuid x" for y by (auto simp: scan_uuid_valid)
  with Some show ?thesis by (cases "scan_uuid x") (auto simp: scan_option_def)
qed (auto simp: scan_option_def)

lemma source_scan_Inr:
  "source_scan r = Inr s \<longleftrightarrow>
    wf_source s \<and> sorow_digest r = Digest_String (src_resolvedDigest s) \<and>
    s = \<lparr>src_tenantID = sorow_tenant r, src_artifactVersionID = sorow_version r, src_kind = sorow_kind r,
      src_submittedReference = coalesce (sorow_submitted r), src_resolvedReference = sorow_resolved r,
      src_resolvedDigest = src_resolvedDigest s, src_endpoint = coalesce (sorow_endpoint r),
      src_importRecordID = sorow_import_record r\<rparr>"
  by (cases s) (auto simp: source_scan_def bindE_Inr_iff scan_uuid_valid scan_digest_Inr scan_option_uuid
      Source_Restore_def source_restore_Inr wf_source_def)

lemma ArtifactRepository_Get_Inr:
  assumes "ArtifactRepository_Get env ctx t u w = (Inr a, w')"
  shows "artifact_store (w_db w) t u = Some a \<and> wf_artifact a \<and> art_tenantID a = t \<and> art_id a = u"
proof -
  from assms have run: "repository_tx env ctx t artifact_invalid_tenant artifact_unavailable
      (query_one env artifact_not_found artifact_unavailable artifact_scan
        (artifactSelect (\<lambda>a path. atrow_tenant a = t \<and> atrow_id a = u))) w = (Inr a, w')"
    by (simp add: ArtifactRepository_Get_def io_guard_Inr artifact_get_def)
  from tx_query_one_Inr [OF run] obtain r path where
    "artifact_store (w_db w) t u = Some a" "atrow_tenant r = t" "atrow_id r = u" "artifact_scan (r, path) = Inr a"
    by (auto simp: artifact_store_def artifactSelect_def)
  then show ?thesis by (auto simp: artifact_scan_Inr)
qed

lemma VersionRepository_Get_Inr:
  assumes "VersionRepository_Get env ctx t u w = (Inr v, w')"
  shows "version_store (w_db w) t u = Some v \<and> wf_version v \<and> ver_tenantID v = t \<and> ver_id v = u"
proof -
  from assms have run: "repository_tx env ctx t version_invalid_tenant version_unavailable
      (query_one env version_not_found version_unavailable version_scan
        (\<lambda>db. filter (\<lambda>r. vrow_tenant r = t \<and> vrow_id r = u) (db_versions db))) w = (Inr v, w')"
    by (simp add: VersionRepository_Get_def io_guard_Inr version_get_def)
  from tx_query_one_Inr [OF run] obtain r where
    "version_store (w_db w) t u = Some v" "vrow_tenant r = t" "vrow_id r = u" "version_scan r = Inr v"
    by (auto simp: version_store_def)
  then show ?thesis by (cases v) (auto simp: version_scan_Inr)
qed

lemma SourceRepository_Get_Inr:
  assumes "SourceRepository_Get env ctx t u w = (Inr s, w')"
  shows "source_store (w_db w) t u = Some s \<and> wf_source s \<and> src_tenantID s = t \<and> src_artifactVersionID s = u"
proof -
  from assms have run: "repository_tx env ctx t source_invalid_tenant source_unavailable
      (query_one env (typed_repo ErrorNotFound ''artifact_source.not_found'') source_unavailable source_scan
        (\<lambda>db. filter (\<lambda>r. sorow_tenant r = t \<and> sorow_version r = u) (db_sources db))) w = (Inr s, w')"
    by (simp add: SourceRepository_Get_def io_guard_Inr)
  from tx_query_one_Inr [OF run] obtain r where
    "source_store (w_db w) t u = Some s" "sorow_tenant r = t" "sorow_version r = u" "source_scan r = Inr s"
    by (auto simp: source_store_def)
  then show ?thesis by (cases s) (auto simp: source_scan_Inr)
qed

text \<open>What was inserted is what is read, with the time as the server stores it.\<close>

lemma filter_append_fresh:
  "list_all (\<lambda>r. \<not> P r) rows \<Longrightarrow> P row \<Longrightarrow> filter P (rows @ [row]) = [row]"
  by (simp add: list_all_iff)

lemma first_scanned_single [simp]: "scan row = Inr v \<Longrightarrow> first_scanned scan [row] = Some v"
  by (simp add: first_scanned_def)

lemma distinct_all_same: "distinct xs \<Longrightarrow> list_all (\<lambda>m. m = n) xs \<Longrightarrow> n \<in> set xs \<Longrightarrow> xs = [n]"
proof (cases xs)
  case (Cons y ys)
  assume "distinct xs" "list_all (\<lambda>m. m = n) xs"
  with Cons show ?thesis by (cases ys) auto
qed simp

lemma version_stored:
  assumes ins: "insert_version (version_row env v) db = Inr (1, db')" and wf: "wf_version v"
    and time: "env_store_time env (ver_registeredAt v) \<noteq> 0"
  shows "version_store db' (ver_tenantID v) (ver_id v) =
    Some (v\<lparr>ver_registeredAt := env_store_time env (ver_registeredAt v)\<rparr>)"
proof -
  let ?P = "\<lambda>r. vrow_tenant r = ver_tenantID v \<and> vrow_id r = ver_id v"
  from insert_version_Inr [OF ins] have db': "db_versions db' = db_versions db @ [version_row env v]"
    and fresh: "list_all (\<lambda>r. \<not> ?P r) (db_versions db)" by (auto simp: version_row_def list_all_iff)
  from fresh have "filter ?P (db_versions db') = [version_row env v]"
    unfolding db' by (rule filter_append_fresh) (simp add: version_row_def)
  moreover have "version_scan (version_row env v) = Inr (v\<lparr>ver_registeredAt := env_store_time env (ver_registeredAt v)\<rparr>)"
    using wf time by (cases v) (auto simp: version_scan_Inr version_row_def wf_version_def)
  ultimately show ?thesis by (simp add: version_store_def)
qed

lemma source_stored:
  assumes ins: "insert_source env s db = Inr (1, db')" and wf: "wf_source s"
  shows "source_store db' (src_tenantID s) (src_artifactVersionID s) = Some s"
proof -
  let ?P = "\<lambda>r. sorow_tenant r = src_tenantID s \<and> sorow_version r = src_artifactVersionID s"
  from ins obtain v :: VersionRow where v: "db' = db\<lparr>db_sources := db_sources db @ [source_row s (vrow_delivery v)]\<rparr>"
    and fresh: "list_all (\<lambda>r. (sorow_tenant r, sorow_version r) \<noteq> (src_tenantID s, src_artifactVersionID s)) (db_sources db)"
    by (rule insert_source_Inr)
  from v have db': "db_sources db' = db_sources db @ [source_row s (vrow_delivery v)]" by simp
  from fresh have "list_all (\<lambda>r. \<not> ?P r) (db_sources db)" by (simp add: list_all_iff)
  then have "filter ?P (db_sources db') = [source_row s (vrow_delivery v)]"
    unfolding db' by (rule filter_append_fresh) (simp add: source_row_def)
  moreover have "source_scan (source_row s d) = Inr s" for d
    using wf by (cases s) (auto simp: source_scan_Inr source_row_def)
  ultimately show ?thesis by (simp add: source_store_def)
qed

lemma artifactSelect_append:
  "artifactSelect q (db\<lparr>db_artifacts := db_artifacts db @ [row]\<rparr>) =
    artifactSelect q db @ filter (\<lambda>(a, path). q a path) (map (\<lambda>n. (row, nrow_path n))
      (filter (\<lambda>n. nrow_tenant n = atrow_tenant row \<and> nrow_id n = atrow_namespace row) (db_namespaces db)))"
  by (simp add: artifactSelect_def)

lemma artifact_stored:
  assumes ins: "insert_artifact env (ref_namespace (art_identity a)) (artifact_row env a) db = Inr (1, db')"
    and wf: "wf_artifact a" and time: "env_store_time env (art_createdAt a) \<noteq> 0"
    and unique: "distinct (map nrow_key (db_namespaces db))"
  shows "artifact_store db' (art_tenantID a) (art_id a) =
    Some (a\<lparr>art_createdAt := env_store_time env (art_createdAt a)\<rparr>)"
proof -
  let ?row = "artifact_row env a" and ?path = "ref_namespace (art_identity a)"
  let ?N = "\<lambda>n. nrow_tenant n = art_tenantID a \<and> nrow_id n = art_namespaceID a"
  let ?Q = "\<lambda>r _. atrow_tenant r = art_tenantID a \<and> atrow_id r = art_id a"
  from insert_artifact_Inr [OF ins] obtain n where db': "db' = db\<lparr>db_artifacts := db_artifacts db @ [?row]\<rparr>"
    and n: "n \<in> set (db_namespaces db)" "?N n" "nrow_path n = ?path"
    and fresh: "list_all (\<lambda>r. \<not> (atrow_tenant r = art_tenantID a \<and> atrow_id r = art_id a)) (db_artifacts db)"
    by (auto simp: artifact_row_def list_ex_iff list_all_iff)
  have "m = n" if "m \<in> set (filter ?N (db_namespaces db))" for m
    using that n distinct_map_eq [OF unique, of m n] by (auto simp: nrow_key_def)
  then have same: "list_all (\<lambda>m. m = n) (filter ?N (db_namespaces db))" unfolding list_all_iff by blast
  from unique have "distinct (filter ?N (db_namespaces db))" by (intro distinct_filter) (simp add: distinct_map)
  then have one: "filter ?N (db_namespaces db) = [n]" using same by (rule distinct_all_same) (use n in simp)
  have "artifactSelect ?Q db = []"
    using fresh by (auto simp: artifactSelect_def list_all_iff filter_empty_conv)
  then have "artifactSelect ?Q db' = [(?row, ?path)]"
    unfolding db' artifactSelect_append using one n by (simp add: artifact_row_def)
  moreover have "artifact_scan (?row, ?path) = Inr (a\<lparr>art_createdAt := env_store_time env (art_createdAt a)\<rparr>)"
    using wf time by (cases a) (auto simp: artifact_scan_Inr artifact_row_def Artifact_Name_def wf_artifact_def)
  ultimately show ?thesis by (simp add: artifact_store_def)
qed

end
