(* ===== verification/Namespace_Service.thy ===== *)
theory Namespace_Service
  imports Publisher_Service Namespace_Repository
begin

text \<open>
  \<open>internal/app/publication/namespace.go\<close>: the authenticated, tenant-scoped Namespace use cases over
  the repositories.
\<close>

subsection \<open>Constants\<close>

definition DefaultNamespacePageSize :: int where "DefaultNamespacePageSize = 50"
definition MaxNamespacePageSize :: int where "MaxNamespacePageSize = 200"
definition namespaceCursorLifetime :: Duration where "namespaceCursorLifetime = 15 * duration_minute"

definition createNamespaceAction :: ReasonCode where
  "createNamespaceAction = ReasonCode ''namespace.create''"

definition namespaceResourceType :: ReasonCode where
  "namespaceResourceType = ReasonCode ''namespace''"

definition namespaceQueryDigest :: Digest where
  "namespaceQueryDigest = SHA256Digest (json_encode (JObject [(''sort'', JString ''namespace_id'')]))"

subsection \<open>Operations\<close>

record CreateNamespace =
  cn_Path :: string
  cn_OwnerPublisherID :: UUID

definition create_namespace_json :: "CreateNamespace \<Rightarrow> json" where
  "create_namespace_json c = JObject [(''path'', JString (cn_Path c)),
     (''owner_publisher_id'', JString (UUID_String (cn_OwnerPublisherID c)))]"

definition create_namespace_digest :: "CreateNamespace \<Rightarrow> Digest" where
  "create_namespace_digest c = SHA256Digest (json_encode (create_namespace_json c))"

definition replayNamespace :: "Env \<Rightarrow> Ctx \<Rightarrow> UUID \<Rightarrow> IdemRecord \<Rightarrow> Namespace io" where
  "replayNamespace env ctx tenantID rc =
    (case established_resource (typed_service ErrorInternal ''namespace.result_unavailable'')
        StatusCreated namespaceResourceType rc of
       Inl e \<Rightarrow> io_fail e
     | Inr uid \<Rightarrow> NamespaceRepository_Get env ctx tenantID uid)"

definition NamespaceService_Create ::
  "Env \<Rightarrow> Authorizer \<Rightarrow> Ctx \<Rightarrow> Identity \<Rightarrow> string \<Rightarrow> CreateNamespace \<Rightarrow> Namespace io" where
  "NamespaceService_Create env authorizer ctx0 actor key command =
    (case Authorize authorizer actor ActionManageNamespaces of
       Some e \<Rightarrow> io_fail e
     | None \<Rightarrow>
     (case authenticatedAuditContext ctx0 actor of
        Inl e \<Rightarrow> io_fail e
      | Inr ctx \<Rightarrow>
      (if \<not> ValidatePath (cn_Path command)
         then io_fail (typed_service ErrorInvalid ''namespace.invalid_request'')
       else if \<not> valid_uuid (cn_OwnerPublisherID command)
         then io_fail (typed_service ErrorInvalid ''namespace.invalid_request'')
       else
       (let digest = create_namespace_digest command in
       if \<not> is_ok (ValidateOwnership (ident_PrincipalID actor) createNamespaceAction key)
         then io_fail (typed_service ErrorInvalid ''namespace.invalid_idempotency_key'')
       else WithinTransaction env ctx (ident_TenantID actor) (\<lambda>tx.
         io_bind (clock_Now env) (\<lambda>now.
         io_bind (ids_New env (typed_service ErrorInternal ''namespace.identifier_unavailable'')) (\<lambda>recordID.
         case Idempotency_New (ident_TenantID actor) recordID (ident_PrincipalID actor) createNamespaceAction
             key digest now (now + MinimumRetention) of
           Inl _ \<Rightarrow> io_fail (typed_service ErrorInvalid ''namespace.invalid_request'')
         | Inr rc \<Rightarrow>
           io_bind (IdempotencyRepository_Acquire env tx rc) (\<lambda>(stored, created).
           if \<not> created then replayNamespace env tx (ident_TenantID actor) stored
           else
             io_bind (ids_New env (typed_service ErrorInternal ''namespace.identifier_unavailable'')) (\<lambda>namespaceID.
             case Namespace_New (ident_TenantID actor) namespaceID (cn_Path command)
                 (cn_OwnerPublisherID command) now of
               Inl _ \<Rightarrow> io_fail (typed_service ErrorInvalid ''namespace.invalid_request'')
             | Inr result \<Rightarrow>
               io_bind (NamespaceRepository_Create env tx result) (\<lambda>_.
               case NewResult StatusCreated (ReasonCode_String namespaceResourceType) (UUID_String (ns_id result)) of
                 Inl _ \<Rightarrow> io_fail (typed_service ErrorInternal ''namespace.result_unavailable'')
               | Inr established \<Rightarrow>
                 io_bind (IdempotencyRepository_Complete env tx (ident_TenantID actor) (ident_PrincipalID actor)
                     createNamespaceAction key digest established now) (\<lambda>_.
                 io_return result)))))))))))"

definition NamespaceService_Get :: "Env \<Rightarrow> Ctx \<Rightarrow> Identity \<Rightarrow> UUID \<Rightarrow> Namespace io" where
  "NamespaceService_Get env ctx actor namespaceID =
    (case validateIdentity actor of
       Inl e \<Rightarrow> io_fail e
     | Inr _ \<Rightarrow> NamespaceRepository_Get env ctx (ident_TenantID actor) namespaceID)"

record NamespacePage =
  np_Items :: "Namespace list"
  np_NextCursor :: string

definition NamespaceService_List ::
  "Env \<Rightarrow> CursorCodec \<Rightarrow> Ctx \<Rightarrow> Identity \<Rightarrow> int \<Rightarrow> string \<Rightarrow> NamespacePage io" where
  "NamespaceService_List env codec ctx actor pageSize encodedCursor =
    (case validateIdentity actor of
       Inl e \<Rightarrow> io_fail e
     | Inr _ \<Rightarrow>
     (if pageSize < 1 \<or> pageSize > MaxNamespacePageSize
        then io_fail (typed_service ErrorInvalid ''namespace.invalid_page_size'')
      else
        let scope = \<lparr>scope_TenantID = ident_TenantID actor, scope_Endpoint = ''/v1/namespaces'',
              scope_QueryDigest = namespaceQueryDigest, scope_PageSize = pageSize\<rparr> in
        io_bind (decode_position env codec (typed_service ErrorInvalid ''namespace.invalid_cursor'') scope encodedCursor) (\<lambda>after.
        io_bind (NamespaceRepository_List env ctx (ident_TenantID actor) after (pageSize + 1)) (\<lambda>values.
        if int (length values) > pageSize then
          (let items = take (nat pageSize) values in
           io_bind (clock_Now env) (\<lambda>issued.
           io_bind (clock_Now env) (\<lambda>now.
           io_bind (io_lift (typed_service ErrorInternal ''namespace.cursor_unavailable'')
             (Cursor_Encode codec now scope
               \<lparr>cur_Position = UUID_String (ns_id (last items)), cur_ExpiresAt = issued + namespaceCursorLifetime\<rparr>)) (\<lambda>next_cursor.
           io_return \<lparr>np_Items = items, np_NextCursor = next_cursor\<rparr>))))
        else io_return \<lparr>np_Items = values, np_NextCursor = []\<rparr>))))"

subsection \<open>Creation\<close>

abbreviation create_namespace_command ::
  "Env \<Rightarrow> Ctx \<Rightarrow> Identity \<Rightarrow> string \<Rightarrow> CreateNamespace \<Rightarrow> Namespace io" where
  "create_namespace_command env ctx actor key command \<equiv>
    idem_command env ctx actor createNamespaceAction key (create_namespace_digest command)
      (typed_service ErrorInternal ''namespace.identifier_unavailable'')
      (typed_service ErrorInvalid ''namespace.invalid_request'')
      (\<lambda>tx. replay_resource (typed_service ErrorInternal ''namespace.result_unavailable'') StatusCreated
        namespaceResourceType (NamespaceRepository_Get env tx (ident_TenantID actor)))
      (\<lambda>tx now. resource_body env (typed_service ErrorInternal ''namespace.identifier_unavailable'')
        (typed_service ErrorInvalid ''namespace.invalid_request'')
        (typed_service ErrorInternal ''namespace.result_unavailable'') namespaceResourceType
        (\<lambda>uid. Namespace_New (ident_TenantID actor) uid (cn_Path command) (cn_OwnerPublisherID command) now)
        ns_id (NamespaceRepository_Create env tx))"

lemma NamespaceService_Create_command:
  assumes "Authorize authorizer actor ActionManageNamespaces = None"
    and "authenticatedAuditContext ctx0 actor = Inr ctx"
    and "ValidatePath (cn_Path command)" and "valid_uuid (cn_OwnerPublisherID command)"
    and "is_ok (ValidateOwnership (ident_PrincipalID actor) createNamespaceAction key)"
  shows "NamespaceService_Create env authorizer ctx0 actor key command =
    create_namespace_command env ctx actor key command"
  using assms
  by (simp add: NamespaceService_Create_def replayNamespace_def replay_resource_def
      idempotent_command_def resource_body_def io_bind_assoc io_bind_sum io_lift_bind Let_def
      cong: sum.case_cong if_cong)

lemma NamespaceService_Create_Inr:
  assumes "NamespaceService_Create env authorizer ctx0 actor key command w = (Inr n, w')"
  obtains ctx where "Authorize authorizer actor ActionManageNamespaces = None"
    "authenticatedAuditContext ctx0 actor = Inr ctx"
    "create_namespace_command env ctx actor key command w = (Inr n, w')"
proof -
  from assms obtain ctx where a: "Authorize authorizer actor ActionManageNamespaces = None"
    and c: "authenticatedAuditContext ctx0 actor = Inr ctx"
    and p: "ValidatePath (cn_Path command)" "valid_uuid (cn_OwnerPublisherID command)"
    and o: "is_ok (ValidateOwnership (ident_PrincipalID actor) createNamespaceAction key)"
    by (auto simp: NamespaceService_Create_def Let_def io_fail_def split: option.splits sum.splits if_splits)
  with assms that show ?thesis unfolding NamespaceService_Create_command [OF a c p o] by blast
qed

lemma balanced_NamespaceRepository_Create [io_laws]: "balanced (NamespaceRepository_Create env ctx n)"
  by (rule atomic_balanced [OF atomic_NamespaceRepository_Create])

lemma atomic_NamespaceService_Create [io_laws]: "atomic (NamespaceService_Create env authorizer ctx0 actor key command)"
proof -
  have "atomic (create_namespace_command env ctx actor key command)" for ctx
    by (intro idem.command_atomic reads_balanced reads_replay_resource io_laws)
  then show ?thesis
    by (cases "Authorize authorizer actor ActionManageNamespaces"; cases "authenticatedAuditContext ctx0 actor";
        cases "ValidatePath (cn_Path command)"; cases "valid_uuid (cn_OwnerPublisherID command)";
        cases "is_ok (ValidateOwnership (ident_PrincipalID actor) createNamespaceAction key)")
      (simp_all add: NamespaceService_Create_command,
       auto simp: NamespaceService_Create_def Let_def intro: io_laws)
qed

text \<open>The tenant's namespaces as a map.\<close>

definition namespace_store :: "DB \<Rightarrow> UUID \<Rightarrow> UUID \<Rightarrow> Namespace option" where
  "namespace_store db t u =
    (case filter (\<lambda>r. nrow_tenant r = t \<and> nrow_id r = u) (db_namespaces db) of
       [] \<Rightarrow> None
     | r # _ \<Rightarrow> (case namespace_scan r of Inl _ \<Rightarrow> None | Inr n \<Rightarrow> Some n))"

lemma NamespaceRepository_Get_Inr:
  assumes "NamespaceRepository_Get env ctx t u w = (Inr n, w')"
  shows "namespace_store (w_db w) t u = Some n"
proof -
  from assms obtain w1 w2 where "w_db w1 = w_db w"
    and q: "query_one env namespace_not_found namespace_unavailable namespace_scan
      (\<lambda>db. filter (\<lambda>r. nrow_tenant r = t \<and> nrow_id r = u) (db_namespaces db)) w1 = (Inr n, w2)"
    by (auto simp: NamespaceRepository_Get_def namespace_get_def io_fail_def split: if_splits
        dest!: repository_tx_Inr [OF reads_balanced [OF reads_query_one]])
  with query_one_Inr [OF q] show ?thesis by (auto simp: namespace_store_def)
qed

lemma NamespaceRepository_Create_Inr:
  assumes "NamespaceRepository_Create env ctx n w = (Inr u, w')"
  shows "\<exists>fact. insert_namespace (namespace_row env n) (w_db w) =
      Inr ((), (w_db w)\<lparr>db_namespaces := db_namespaces (w_db w) @ [namespace_row env n]\<rparr>) \<and>
    w_db w' = (w_db w)\<lparr>db_namespaces := db_namespaces (w_db w) @ [namespace_row env n],
      db_audit := db_audit (w_db w) @ [fact]\<rparr>"
proof -
  from repository_tx_Inr [OF balanced_namespace_create assms [unfolded NamespaceRepository_Create_def]]
  obtain w1 w2 w3 where w1: "w_db w1 = w_db w" and w': "w_db w' = w_db w2"
    and i: "io_exec env namespace_create_error (insert_namespace (namespace_row env n)) w1 = (Inr (), w3)"
    and a: "Audit_Record env ctx
         (resource_params (ns_tenantID n) ActionNamespaceCreated ''namespace'' (UUID_String (ns_id n))) w3 = (Inr u, w2)"
    by (auto simp: io_bind_Inr)
  from io_exec_Inr [OF i] w1 have ins: "insert_namespace (namespace_row env n) (w_db w) = Inr ((), w_db w3)" by simp
  then have "w_db w3 = (w_db w)\<lparr>db_namespaces := db_namespaces (w_db w) @ [namespace_row env n]\<rparr>"
    by (auto simp: insert_namespace_def split: if_splits)
  with ins Audit_Record_Inr [OF a] w' show ?thesis by auto
qed

lemma NamespaceService_Create_replayed:
  assumes run: "NamespaceService_Create env authorizer ctx0 actor key command w = (Inr n, w')"
    and bound: "idem_bound (w_db w) actor createNamespaceAction key = Some rc"
  shows "w_db w' = w_db w \<and> idem_digest rc = create_namespace_digest command \<and>
    (\<exists>u. establishes StatusCreated namespaceResourceType u rc \<and>
      namespace_store (w_db w) (ident_TenantID actor) u = Some n)"
proof -
  from run obtain ctx where cmd: "create_namespace_command env ctx actor key command w = (Inr n, w')"
    by (rule NamespaceService_Create_Inr)
  from command_replayed [OF _ _ cmd bound] obtain u w1 w2 where same: "w_db w' = w_db w"
    "idem_digest rc = create_namespace_digest command" "establishes StatusCreated namespaceResourceType u rc"
    "w_db w1 = w_db w"
    and get: "NamespaceRepository_Get env (within ctx actor) (ident_TenantID actor) u w1 = (Inr n, w2)"
    by (auto simp: io_laws)
  from NamespaceRepository_Get_Inr [OF get] same show ?thesis by auto
qed

lemma NamespaceService_Create_first:
  assumes run: "NamespaceService_Create env authorizer ctx0 actor key command w = (Inr n, w')"
    and free: "idem_bound (w_db w) actor createNamespaceAction key = None"
    and inv: "idempotency_inv (w_db w)"
  obtains now uid rc ctx w1 w2 where
    "Namespace_New (ident_TenantID actor) uid (cn_Path command) (cn_OwnerPublisherID command) now = Inr n"
    "NamespaceRepository_Create env ctx n w1 = (Inr (), w2)"
    "actor_principalID (the (ctx_actor ctx)) = ident_PrincipalID actor"
    "other_tables (w_db w1) = other_tables (w_db w)" "other_tables (w_db w') = other_tables (w_db w2)"
    "idem_bound (w_db w') actor createNamespaceAction key = Some rc" "idem_digest rc = create_namespace_digest command"
    "establishes StatusCreated namespaceResourceType (ns_id n) rc" "idempotency_inv (w_db w')"
proof -
  from run obtain ctx where ctx: "authenticatedAuditContext ctx0 actor = Inr ctx"
    and cmd: "create_namespace_command env ctx actor key command w = (Inr n, w')"
    by (rule NamespaceService_Create_Inr)
  show thesis
  proof (rule resource_command_first [OF _ _ cmd free inv])
    fix now uid rc w1 w2
    assume a: "Namespace_New (ident_TenantID actor) uid (cn_Path command) (cn_OwnerPublisherID command) now = Inr n"
      "NamespaceRepository_Create env (within ctx actor) n w1 = (Inr (), w2)"
      "other_tables (w_db w1) = other_tables (w_db w)" "other_tables (w_db w') = other_tables (w_db w2)"
      "idem_bound (w_db w') actor createNamespaceAction key = Some rc" "idem_digest rc = create_namespace_digest command"
      "establishes StatusCreated namespaceResourceType (ns_id n) rc" "idempotency_inv (w_db w')"
    show thesis by (rule that [OF a(1,2) _ a(3-)]) (use authenticatedAuditContext_Inr [OF ctx] in auto)
  next
    show "db_idempotency (w_db wb) = db_idempotency (w_db wa)"
      if "NamespaceRepository_Create env (within ctx actor) n wa = (Inr (), wb)" for wa wb
      using NamespaceRepository_Create_Inr [OF that] by auto
    show "valid_uuid (ns_id n)"
      if "Namespace_New (ident_TenantID actor) u (cn_Path command) (cn_OwnerPublisherID command) now = Inr n" for u now
      using that by (auto simp: Namespace_New_def split: if_splits)
    show "namespaceResourceType \<noteq> ReasonCode []" by (simp add: namespaceResourceType_def)
  qed (auto intro!: reads_balanced io_laws)
qed

end
