(* ===== verification/Go_Time.thy ===== *)
theory Go_Time
  imports Shared Go_Json
begin

text \<open>
  The part of package \<open>time\<close> the outbox events use: the proleptic Gregorian calendar, the RFC 3339
  text an instant is marshalled to in JSON, and the parser \<open>Time.UnmarshalJSON\<close> applies.
\<close>

subsection \<open>Calendar\<close>

definition leap_year :: "int \<Rightarrow> bool" where
  "leap_year y \<longleftrightarrow> y mod 4 = 0 \<and> (y mod 100 \<noteq> 0 \<or> y mod 400 = 0)"

text \<open>The days from January 1, year 1, to January 1 of a year.\<close>

definition days_before_year :: "int \<Rightarrow> int" where
  "days_before_year y = 365 * (y - 1) + (y - 1) div 4 - (y - 1) div 100 + (y - 1) div 400"

definition days_in_year :: "int \<Rightarrow> int" where
  "days_in_year y = (if leap_year y then 366 else 365)"

definition days_in_month :: "int \<Rightarrow> nat \<Rightarrow> int" where
  "days_in_month y m =
    (if m = 2 then (if leap_year y then 29 else 28) else if m \<in> {4, 6, 9, 11} then 30 else 31)"

definition days_before_month :: "int \<Rightarrow> nat \<Rightarrow> int" where
  "days_before_month y m = sum_list (map (days_in_month y) [1..<m])"

definition civil_days :: "int \<Rightarrow> nat \<Rightarrow> int \<Rightarrow> int" where
  "civil_days y m d = days_before_year y + days_before_month y m + (d - 1)"

lemma div_Suc_int:
  fixes x k :: int
  assumes "0 < k"
  shows "(x + 1) div k = x div k + (if (x + 1) mod k = 0 then 1 else 0)"
proof -
  have x: "x = k * (x div k) + x mod k" and r: "0 \<le> x mod k" "x mod k < k" using assms by simp_all
  show ?thesis
  proof (cases "x mod k + 1 < k")
    case True
    then have "(x + 1) div k = x div k" "(x + 1) mod k = x mod k + 1"
      using r x by (simp_all add: int_div_pos_eq [of "x + 1" k _ "x mod k + 1"] int_mod_pos_eq [of "x + 1" k "x div k"])
    with r show ?thesis by simp
  next
    case False
    with r have "k = x mod k + 1" by simp
    with x have "x + 1 = k * (x div k + 1)" by (metis add.assoc distrib_left mult.right_neutral)
    with assms show ?thesis by simp
  qed
qed

lemma days_in_year_dvd:
  "days_in_year (x + 1) = 365 + (if 4 dvd x + 1 then 1 else 0) - (if 100 dvd x + 1 then 1 else 0) +
    (if 400 dvd x + 1 then 1 else 0)"
proof -
  have "4 dvd x + 1" if "100 dvd x + 1" using that by (rule dvd_trans [rotated]) simp
  moreover have "100 dvd x + 1" if "400 dvd x + 1" using that by (rule dvd_trans [rotated]) simp
  ultimately show ?thesis unfolding days_in_year_def leap_year_def mod_eq_0_iff_dvd
    by (cases "4 dvd x + 1"; cases "100 dvd x + 1"; cases "400 dvd x + 1") simp_all
qed

lemma days_before_year_Suc: "days_before_year (y + 1) = days_before_year y + days_in_year y"
proof -
  obtain x where x: "y = x + 1" using that [of "y - 1"] by simp
  have div: "(x + 1) div k = x div k + (if k dvd x + 1 then 1 else 0)" if "0 < k" for k :: int
    unfolding mod_eq_0_iff_dvd [symmetric] using that by (rule div_Suc_int)
  have before: "days_before_year (x + 1) = 365 * x + x div 4 - x div 100 + x div 400" for x
    by (simp add: days_before_year_def)
  show ?thesis
    unfolding x before days_in_year_dvd div [of 4, OF zero_less_numeral] div [of 100, OF zero_less_numeral]
      div [of 400, OF zero_less_numeral] distrib_left by linarith
qed

lemma days_before_year_less: "days_before_year y < days_before_year (y + 1)"
  by (simp add: days_before_year_Suc days_in_year_def)

lemma div_le_self_int:
  fixes x k :: int
  assumes "0 \<le> x"
  shows "0 < k \<Longrightarrow> x div k \<le> x"
  using assms int_div_less_self [of x k] by (cases "x = 0 \<or> k = 1") (auto simp: le_less)

lemma int_div_le_neg:
  fixes x k :: int
  assumes "0 < k" "x < 0"
  shows "x \<le> x div k"
proof -
  have "x * k \<le> x" using assms by (simp add: mult_le_cancel_left1)
  then have "x * k div k \<le> x div k" using assms by (intro zdiv_mono1)
  with assms show ?thesis by simp
qed

text \<open>The last year not after a day, from a year that is not after it.\<close>

function (sequential) find_year :: "int \<Rightarrow> int \<Rightarrow> int" where
  "find_year d y = (if days_before_year (y + 1) \<le> d then find_year d (y + 1) else y)"
  by pat_completeness auto
termination
  by (relation "measure (\<lambda>(d, y). nat (d - days_before_year y))")
    (auto simp: days_before_year_less [THEN order.strict_trans2])

declare find_year.simps [simp del]

definition year_of :: "int \<Rightarrow> int" where
  "year_of d = find_year d (if d < 0 then d div 365 else d div 366 + 1)"

lemma find_year_spec:
  "days_before_year y \<le> d \<Longrightarrow>
    days_before_year (find_year d y) \<le> d \<and> d < days_before_year (find_year d y + 1)"
proof (induction d y rule: find_year.induct)
  case (1 d y)
  then show ?case by (subst (1 2) find_year.simps) auto
qed

lemma year_of_spec: "days_before_year (year_of d) \<le> d \<and> d < days_before_year (year_of d + 1)"
  unfolding year_of_def
proof (rule find_year_spec)
  show "days_before_year (if d < 0 then d div 365 else d div 366 + 1) \<le> d"
  proof (cases "d < 0")
    case True
    define a where "a = d div 365 - 1"
    have a: "a < 0" "365 * (a + 1) \<le> d" using True by (auto simp: a_def)
    have "a div 4 \<le> a div 4 div 25" using a int_div_le_neg [of 25 "a div 4"] by linarith
    then have "a div 4 \<le> a div 100" by (simp add: zdiv_zmult2_eq [symmetric])
    moreover have "a div 400 < 0" using a by simp
    ultimately show ?thesis using a True by (simp add: days_before_year_def a_def)
  next
    case False
    define a where "a = d div 366"
    have a: "0 \<le> a" "366 * a \<le> d" using False by (auto simp: a_def)
    have "a div 100 div 4 \<le> a div 100" using a by (intro div_le_self_int) simp_all
    then have "a div 400 \<le> a div 100" by (simp add: zdiv_zmult2_eq [symmetric])
    moreover have "a div 4 \<le> a" using a by (intro div_le_self_int) simp_all
    ultimately show ?thesis using a False by (simp add: days_before_year_def a_def)
  qed
qed

text \<open>The month and day of a day of the year, counted from 0.\<close>

definition month_of :: "int \<Rightarrow> int \<Rightarrow> nat" where
  "month_of y yday = (if \<exists>m \<in> {1..<12}. yday < days_before_month y (Suc m)
     then hd (filter (\<lambda>m. yday < days_before_month y (Suc m)) [1..<12]) else 12)"

lemma days_before_month_simps:
  "days_before_month y 1 = 0"
  "1 \<le> m \<Longrightarrow> days_before_month y (Suc m) = days_before_month y m + days_in_month y m"
  by (simp_all add: days_before_month_def)

lemma days_before_year_months: "days_before_month y 12 + 31 = days_in_year y"
  by (simp add: days_before_month_def days_in_month_def days_in_year_def upt_rec numeral_eq_Suc)

lemma month_of_spec:
  assumes "0 \<le> yday" and "yday < days_in_year y"
  shows "1 \<le> month_of y yday \<and> month_of y yday \<le> 12 \<and>
    days_before_month y (month_of y yday) \<le> yday \<and>
    yday < days_before_month y (month_of y yday) + days_in_month y (month_of y yday)"
proof -
  let ?P = "\<lambda>m. yday < days_before_month y (Suc m)"
  have first: "\<exists>m \<in> {1..12}. month_of y yday = m \<and> (m < 12 \<longrightarrow> ?P m) \<and> (\<forall>k \<in> {1..<m}. \<not> ?P k)"
  proof (cases "\<exists>m \<in> {1..<12}. ?P m")
    case True
    then obtain m ms where f: "filter ?P [1..<12] = m # ms"
      by (metis atLeastLessThan_iff atLeastLessThan_upt filter_empty_conv neq_Nil_conv)
    then obtain us vs where u: "[1..<12] = us @ m # vs" "\<forall>k \<in> set us. \<not> ?P k" "?P m"
      by (auto simp: filter_eq_Cons_iff)
    have "sorted_wrt (<) (us @ m # vs)" unfolding u(1) [symmetric] by (rule sorted_wrt_upt)
    then have "\<forall>k \<in> set us. k < m" "\<forall>k \<in> set vs. m < k" by (simp_all add: sorted_wrt_append)
    moreover have "set us \<union> {m} \<union> set vs = {1..<12}" using arg_cong [OF u(1), of set] by auto
    ultimately have "{1..<m} \<subseteq> set us" "m \<in> {1..<12}" by auto (metis Un_iff atLeastLessThan_iff insert_iff not_less_iff_gr_or_eq less_trans singletonD)
    with u f True show ?thesis by (auto simp: month_of_def)
  next
    case False
    then show ?thesis by (auto simp: month_of_def)
  qed
  then obtain m where m: "month_of y yday = m" "1 \<le> m" "m \<le> 12" "m < 12 \<longrightarrow> ?P m" "\<forall>k \<in> {1..<m}. \<not> ?P k" by auto
  have "days_before_month y m \<le> yday"
  proof (cases "m = 1")
    case True
    with assms show ?thesis by (simp add: days_before_month_def)
  next
    case False
    with m(2) obtain k where "m = Suc k" "k \<in> {1..<m}" by (cases m) auto
    with m(5) show ?thesis by fastforce
  qed
  moreover have "yday < days_before_month y m + days_in_month y m"
  proof (cases "m < 12")
    case True
    with m show ?thesis by (simp add: days_before_month_simps)
  next
    case False
    with m(3) have "m = 12" by simp
    with days_before_year_months [of y] assms show ?thesis by (simp add: days_in_month_def)
  qed
  ultimately show ?thesis using m by simp
qed

definition civil_of :: "int \<Rightarrow> int \<times> nat \<times> int" where
  "civil_of days =
    (let y = year_of days; yday = days - days_before_year y; m = month_of y yday in
     (y, m, yday - days_before_month y m + 1))"

lemma civil_of_spec:
  assumes "civil_of days = (y, m, d)"
  shows "civil_days y m d = days \<and> y = year_of days \<and> 1 \<le> m \<and> m \<le> 12 \<and> 1 \<le> d \<and> d \<le> days_in_month y m"
proof -
  have "0 \<le> days - days_before_year (year_of days)"
    "days - days_before_year (year_of days) < days_in_year (year_of days)"
    using year_of_spec [of days] by (simp_all add: days_before_year_Suc)
  from month_of_spec [OF this] assms show ?thesis by (auto simp: civil_of_def civil_days_def Let_def)
qed

subsection \<open>Formatting\<close>

definition dig :: "nat \<Rightarrow> char" where
  "dig n = char_of (48 + n)"

definition pad2 :: "nat \<Rightarrow> string" where
  "pad2 n = [dig (n div 10), dig (n mod 10)]"

definition pad4 :: "nat \<Rightarrow> string" where
  "pad4 n = [dig (n div 1000), dig (n div 100 mod 10), dig (n div 10 mod 10), dig (n mod 10)]"

definition pad9 :: "nat \<Rightarrow> string" where
  "pad9 n = map (\<lambda>i. dig (n div 10 ^ (8 - i) mod 10)) [0..<9]"

text \<open>The fraction of the layout \<open>.999999999\<close>: no trailing zeros, nothing for whole seconds.\<close>

definition trim_zeros :: "string \<Rightarrow> string" where
  "trim_zeros s = rev (dropWhile (\<lambda>c. c = CHR ''0'') (rev s))"

definition show_fraction :: "nat \<Rightarrow> string" where
  "show_fraction ns = (if ns = 0 then [] else CHR ''.'' # trim_zeros (pad9 ns))"

definition show_clock :: "nat \<Rightarrow> string" where
  "show_clock secs = pad2 (secs div 3600) @ '':'' @ pad2 (secs div 60 mod 60) @ '':'' @ pad2 (secs mod 60)"

text \<open>
  \<open>Time.MarshalJSON\<close> of an instant in UTC without the quotes: \<open>RFC3339Nano\<close>, an error when the year
  does not have four digits.
\<close>

definition time_marshal :: "Time \<Rightarrow> string option" where
  "time_marshal t =
    (let secs = t div nanosecond_second; ns = nat (t mod nanosecond_second);
         (y, m, d) = civil_of (secs div 86400) in
     if y < 0 \<or> y > 9999 then None
     else Some (pad4 (nat y) @ ''-'' @ pad2 m @ ''-'' @ pad2 (nat d) @ ''T'' @
       show_clock (nat (secs mod 86400)) @ show_fraction ns @ ''Z''))"

subsection \<open>Parsing\<close>

text \<open>\<open>getnum(s, fixed)\<close>: two digits, or one when another does not follow and \<open>fixed\<close> is off.\<close>

definition getnum :: "bool \<Rightarrow> string \<Rightarrow> (nat \<times> string) option" where
  "getnum fixed s =
    (case s of
       [] \<Rightarrow> None
     | a # rest \<Rightarrow>
       (if \<not> is_digit a then None
        else if rest \<noteq> [] \<and> is_digit (hd rest) then Some (10 * (code a - 48) + (code (hd rest) - 48), tl rest)
        else if fixed then None else Some (code a - 48, rest)))"

definition expect :: "char \<Rightarrow> string \<Rightarrow> string option" where
  "expect c s = (if s \<noteq> [] \<and> hd s = c then Some (tl s) else None)"

definition read_year :: "string \<Rightarrow> (nat \<times> string) option" where
  "read_year s =
    (if length s < 4 \<or> \<not> list_all is_digit (take 4 s) then None else Some (digits_value (take 4 s), drop 4 s))"

text \<open>The fraction after the seconds, which the layout does not name: a comma or period and digits.\<close>

definition read_fraction :: "string \<Rightarrow> nat \<times> string" where
  "read_fraction s =
    (if length s \<ge> 2 \<and> (hd s = CHR ''.'' \<or> hd s = CHR '','') \<and> is_digit (hd (tl s)) then
       (digits_value (take 9 (takeWhile is_digit (tl s) @ ''000000000'')), dropWhile is_digit (tl s))
     else (0, s))"

text \<open>The offset from UTC in seconds: \<open>Z\<close>, or a sign with two-digit hours and minutes.\<close>

definition read_zone :: "string \<Rightarrow> (int \<times> string) option" where
  "read_zone s =
    (if s \<noteq> [] \<and> hd s = CHR ''Z'' then Some (0, tl s)
     else if length s < 6 \<or> s ! 3 \<noteq> CHR '':'' then None
     else case (getnum True (take 2 (tl s)), getnum True (take 2 (drop 4 s))) of
       (Some (hr, _), Some (mm, _)) \<Rightarrow>
         (if hr > 24 \<or> mm > 60 then None
          else if hd s = CHR ''+'' then Some (int ((hr * 60 + mm) * 60), drop 6 s)
          else if hd s = CHR ''-'' then Some (- int ((hr * 60 + mm) * 60), drop 6 s)
          else None)
     | _ \<Rightarrow> None)"

definition civil_time :: "int \<Rightarrow> nat \<Rightarrow> int \<Rightarrow> nat \<Rightarrow> nat \<Rightarrow> nat \<Rightarrow> nat \<Rightarrow> Time" where
  "civil_time y m d hh mm ss ns =
    (civil_days y m d * 86400 + int (hh * 3600 + mm * 60 + ss)) * nanosecond_second + int ns"

definition bind_opt :: "'a option \<Rightarrow> ('a \<Rightarrow> 'b option) \<Rightarrow> 'b option" where
  "bind_opt v k = (case v of None \<Rightarrow> None | Some x \<Rightarrow> k x)"

text \<open>
  \<open>time.Parse(time.RFC3339, s)\<close>. The fast path of \<open>Time.UnmarshalJSON\<close> accepts a part of this
  language with the same instants.
\<close>

definition parse_rfc3339 :: "string \<Rightarrow> Time option" where
  "parse_rfc3339 s =
    bind_opt (read_year s) (\<lambda>(y, s).
    bind_opt (expect (CHR ''-'') s) (\<lambda>s.
    bind_opt (getnum True s) (\<lambda>(m, s).
    if m < 1 \<or> m > 12 then None else
    bind_opt (expect (CHR ''-'') s) (\<lambda>s.
    bind_opt (getnum True s) (\<lambda>(d, s).
    bind_opt (expect (CHR ''T'') s) (\<lambda>s.
    bind_opt (getnum False s) (\<lambda>(hh, s).
    if hh \<ge> 24 then None else
    bind_opt (expect (CHR '':'') s) (\<lambda>s.
    bind_opt (getnum True s) (\<lambda>(mm, s).
    if mm \<ge> 60 then None else
    bind_opt (expect (CHR '':'') s) (\<lambda>s.
    bind_opt (getnum True s) (\<lambda>(ss, s).
    if ss \<ge> 60 then None else
    (case read_fraction s of (ns, s) \<Rightarrow>
    bind_opt (read_zone s) (\<lambda>(offset, s).
    if s \<noteq> [] \<or> d < 1 \<or> int d > days_in_month (int y) m then None
    else Some (civil_time (int y) m (int d) hh mm ss ns - offset * nanosecond_second))))))))))))))"

subsection \<open>Round trip\<close>

lemma dig_simps:
  "n < 10 \<Longrightarrow> is_digit (dig n)" "n < 10 \<Longrightarrow> code (dig n) = 48 + n"
  by (simp_all add: dig_def is_digit_def of_char_of)

lemma getnum_pad2: "n < 100 \<Longrightarrow> getnum fixed (pad2 n @ s) = Some (n, s)"
  by (simp add: getnum_def pad2_def dig_simps)

lemma digits_value_Cons_aux: "foldl (\<lambda>acc c. acc * 10 + (code c - 48)) a s = a * 10 ^ length s + digits_value s"
proof (induction s arbitrary: a)
  case (Cons c s)
  show ?case using Cons [of "a * 10 + (code c - 48)"] Cons [of "code c - 48"]
    by (simp add: digits_value_def algebra_simps)
qed (simp add: digits_value_def)

lemma digits_value_Cons: "digits_value (c # s) = (code c - 48) * 10 ^ length s + digits_value s"
  using digits_value_Cons_aux [of "code c - 48" s] by (simp add: digits_value_def)

lemma read_year_pad4: "n \<le> 9999 \<Longrightarrow> read_year (pad4 n @ s) = Some (n, s)"
proof -
  assume "n \<le> 9999"
  then have "n div 1000 < 10" by simp
  moreover have "n div 10 div 10 = n div 100" "n div 100 div 10 = n div 1000"
    by (simp_all add: div_mult2_eq [symmetric])
  then have "n div 1000 * 1000 + n div 100 mod 10 * 100 + n div 10 mod 10 * 10 + n mod 10 = n"
    using div_mult_mod_eq [of n 10] div_mult_mod_eq [of "n div 10" 10] div_mult_mod_eq [of "n div 100" 10]
    by linarith
  ultimately show ?thesis
    by (simp add: read_year_def pad4_def dig_simps digits_value_Cons) (simp add: digits_value_def)
qed

lemma pad_value: "digits_value (map (\<lambda>i. dig (n div 10 ^ (k - Suc i) mod 10)) [0..<k]) = n mod 10 ^ k"
proof (induction k)
  case (Suc k)
  have cons: "map (\<lambda>i. dig (n div 10 ^ (Suc k - Suc i) mod 10)) [0..<Suc k] =
      dig (n div 10 ^ k mod 10) # map (\<lambda>i. dig (n div 10 ^ (k - Suc i) mod 10)) [0..<k]"
    by (subst upt_conv_Cons) (simp_all add: map_Suc_upt [symmetric] del: upt_Suc map_Suc_upt)
  have "n mod 10 ^ Suc k = (n div 10 ^ k mod 10) * 10 ^ k + n mod 10 ^ k"
    using mod_mult2_eq [of n "10 ^ k" 10] by (simp only: power_Suc2 mult.commute)
  then show ?case unfolding cons by (simp add: digits_value_Cons dig_simps Suc)
qed (simp add: digits_value_def)

lemma pad9_value: "n < 1000000000 \<Longrightarrow> digits_value (pad9 n) = n"
  using pad_value [of n 9] by (simp add: pad9_def)

lemma trim_zeros_append: "\<exists>k. s = trim_zeros s @ replicate k (CHR ''0'')"
proof -
  let ?z = "takeWhile (\<lambda>c. c = CHR ''0'') (rev s)"
  have "replicate (length ?z) (CHR ''0'') = ?z" by (rule replicate_length_same) (auto dest: set_takeWhileD)
  then have "rev s = replicate (length ?z) (CHR ''0'') @ dropWhile (\<lambda>c. c = CHR ''0'') (rev s)" by simp
  from arg_cong [OF this, of rev] show ?thesis unfolding trim_zeros_def by (auto intro: exI [of _ "length ?z"])
qed

lemma pad9_digits: "list_all is_digit (pad9 n)" and length_pad9: "length (pad9 n) = 9"
  by (simp_all add: pad9_def list_all_iff dig_simps)

lemma read_fraction_show:
  assumes "n < 1000000000"
  shows "read_fraction (show_fraction n @ ''Z'') = (n, ''Z'')"
proof (cases "n = 0")
  case True
  then show ?thesis by (simp add: read_fraction_def show_fraction_def)
next
  case False
  obtain k where k: "pad9 n = trim_zeros (pad9 n) @ replicate k (CHR ''0'')" using trim_zeros_append by blast
  let ?f = "trim_zeros (pad9 n)"
  have len: "length ?f + k = 9" using arg_cong [OF k, of length] length_pad9 by simp
  have digits: "list_all is_digit ?f" using pad9_digits [of n] by (subst (asm) k) simp
  have nonempty: "?f \<noteq> []"
  proof
    assume "?f = []"
    with k have "pad9 n = replicate k (CHR ''0'')" by simp
    moreover have "digits_value (replicate k (CHR ''0'')) = 0" by (induction k) (simp_all add: digits_value_Cons, simp add: digits_value_def)
    ultimately show False using pad9_value [OF assms] False by simp
  qed
  have "takeWhile is_digit (?f @ ''Z'') = ?f" "dropWhile is_digit (?f @ ''Z'') = ''Z''"
    using digits by (simp_all add: list_all_iff takeWhile_append2 dropWhile_append2 is_digit_def)
  moreover have "take 9 (?f @ ''000000000'') = pad9 n"
  proof -
    have "''000000000'' = replicate 9 (CHR ''0'')" by (simp add: numeral_eq_Suc)
    moreover have "9 - length ?f = k" using len by simp
    ultimately show ?thesis using len by (subst k) simp
  qed
  moreover obtain a as where "?f = a # as" "is_digit a" using nonempty digits by (cases ?f) auto
  ultimately show ?thesis using False pad9_value [OF assms] by (simp add: read_fraction_def show_fraction_def)
qed

lemma parse_rfc3339_parts:
  assumes "y \<le> 9999" "1 \<le> m" "m \<le> 12" "1 \<le> d" "d < 100" "int d \<le> days_in_month (int y) m"
    and "hh < 24" "mm < 60" "ss < 60" "ns < 1000000000"
  shows "parse_rfc3339 (pad4 y @ ''-'' @ pad2 m @ ''-'' @ pad2 d @ ''T'' @ (pad2 hh @ '':'' @ pad2 mm @ '':'' @ pad2 ss) @
      show_fraction ns @ ''Z'') = Some (civil_time (int y) m (int d) hh mm ss ns)"
proof -
  have e: "expect c ([c] @ s) = Some s" for c s by (simp add: expect_def)
  have z: "read_zone ''Z'' = Some (0, [])" by (simp add: read_zone_def)
  from assms have two: "m < 100" "hh < 100" "mm < 100" "ss < 100" by simp_all
  show ?thesis
    unfolding parse_rfc3339_def append_assoc read_year_pad4 [OF assms(1)] bind_opt_def option.case prod.case e
      getnum_pad2 [OF two(1)] getnum_pad2 [OF two(2)] getnum_pad2 [OF two(3)] getnum_pad2 [OF two(4)]
      getnum_pad2 [OF assms(5)] read_fraction_show [OF assms(10)] z
    using assms by simp
qed

text \<open>Marshalling and parsing are inverse on the instants that can be marshalled.\<close>

lemma clock_parts:
  fixes n :: nat
  assumes "n < 86400"
  shows "n div 3600 < 24" "n div 60 mod 60 < 60" "n mod 60 < 60"
    "n div 3600 * 3600 + n div 60 mod 60 * 60 + n mod 60 = n"
proof -
  have "n div 60 div 60 = n div 3600" by (simp add: div_mult2_eq [symmetric])
  then show "n div 3600 * 3600 + n div 60 mod 60 * 60 + n mod 60 = n"
    using div_mult_mod_eq [of n 60] div_mult_mod_eq [of "n div 60" 60] by linarith
qed (use assms in simp_all)

text \<open>The fields a rendered instant is made of.\<close>

lemma time_marshal_parts:
  assumes "time_marshal t = Some s"
  obtains y m d rest ns where "y \<le> 9999" "1 \<le> m" "m \<le> 12" "1 \<le> d" "d < 100" "int d \<le> days_in_month (int y) m"
    "rest < 86400" "ns < 1000000000"
    "civil_time (int y) m (int d) (rest div 3600) (rest div 60 mod 60) (rest mod 60) ns = t"
    "s = pad4 y @ ''-'' @ pad2 m @ ''-'' @ pad2 d @ ''T'' @ show_clock rest @ show_fraction ns @ ''Z''"
proof -
  define secs where "secs = t div nanosecond_second"
  define ns where "ns = nat (t mod nanosecond_second)"
  define rest where "rest = nat (secs mod 86400)"
  obtain y m d where c: "civil_of (secs div 86400) = (y, m, d)" by (metis prod_cases3)
  from assms c have range: "0 \<le> y" "y \<le> 9999"
    and s: "s = pad4 (nat y) @ ''-'' @ pad2 m @ ''-'' @ pad2 (nat d) @ ''T'' @ show_clock rest @ show_fraction ns @ ''Z''"
    by (auto simp: time_marshal_def Let_def secs_def ns_def rest_def split: if_splits)
  from civil_of_spec [OF c] have civil: "civil_days y m d = secs div 86400" "1 \<le> m" "m \<le> 12" "1 \<le> d"
    "d \<le> days_in_month y m" by blast+
  then have d: "nat d < 100" "1 \<le> nat d" "int (nat d) = d" by (auto simp: days_in_month_def split: if_splits)
  have rest: "rest < 86400" by (simp add: rest_def nat_less_iff)
  have ns: "ns < 1000000000" by (simp add: ns_def nanosecond_second_def nat_less_iff)
  have y: "int (nat y) = y" using range by simp
  have "civil_time y m d (rest div 3600) (rest div 60 mod 60) (rest mod 60) ns = t"
  proof -
    have "secs div 86400 * 86400 + int rest = secs" by (simp add: rest_def)
    moreover have "secs * nanosecond_second + int ns = t" by (simp add: secs_def ns_def nanosecond_second_def)
    ultimately show ?thesis unfolding civil_time_def civil(1) clock_parts(4) [OF rest] by simp
  qed
  with s range civil(2-) d y rest ns show thesis
    by (intro that [of "nat y" m "nat d" rest ns]) simp_all
qed

lemma parse_time_marshal:
  assumes "time_marshal t = Some s"
  shows "parse_rfc3339 s = Some t"
  by (rule time_marshal_parts [OF assms], simp only: show_clock_def, subst parse_rfc3339_parts)
    (use clock_parts in simp_all)

end
