(* ===== verification/Outbox.thy ===== *)
theory Outbox
  imports Go_Time Go_URL
begin

text \<open>
  Package \<open>internal/domain/outbox\<close>: immutable marketplace events (CloudEvents whose serialized bytes
  are kept) and the bounded state of their delivery.
\<close>

subsection \<open>Constants\<close>

definition DataContentType :: string where
  "DataContentType = ''application/vnd.thinkpixel.marketplace-event.v1+json''"

definition MaxPayloadBytes :: nat where "MaxPayloadBytes = 256 * 1024"
definition MaxClaimBatch :: int where "MaxClaimBatch = 100"
definition MaxAttempts :: nat where "MaxAttempts = 1000"
definition MaxLease :: Duration where "MaxLease = 15 * duration_minute"
definition MaxRetryDelay :: Duration where "MaxRetryDelay = 24 * duration_hour"
definition DeliveredRetention :: Duration where "DeliveredRetention = 30 * 24 * duration_hour"
definition DeadLetterRetention :: Duration where "DeadLetterRetention = 90 * 24 * duration_hour"
definition maxSourceBytes :: int where "maxSourceBytes = 1024"
definition maxSubjectBytes :: int where "maxSubjectBytes = 512"
definition maxWorkerBytes :: int where "maxWorkerBytes = 255"

type_synonym OutboxState = string

abbreviation OutboxPending :: OutboxState where "OutboxPending \<equiv> ''pending''"
abbreviation OutboxClaimed :: OutboxState where "OutboxClaimed \<equiv> ''claimed''"
abbreviation OutboxRetry :: OutboxState where "OutboxRetry \<equiv> ''retry''"
abbreviation OutboxDelivered :: OutboxState where "OutboxDelivered \<equiv> ''delivered''"
abbreviation OutboxDeadLetter :: OutboxState where "OutboxDeadLetter \<equiv> ''dead_letter''"

subsection \<open>Data\<close>

record Message =
  msg_tenantID :: UUID
  msg_id :: UUID
  msg_sequence :: nat
  msg_source :: string
  msg_eventType :: ReasonCode
  msg_subject :: string
  msg_payload :: string
  msg_payloadDigest :: Digest
  msg_state :: OutboxState
  msg_attempts :: nat
  msg_availableAt :: Time
  msg_claimToken :: "UUID option"
  msg_claimedBy :: string
  msg_claimedAt :: "Time option"
  msg_leaseExpiresAt :: "Time option"
  msg_lastError :: "ReasonCode option"
  msg_deliveredAt :: "Time option"
  msg_deadLetteredAt :: "Time option"
  msg_retainUntil :: "Time option"
  msg_createdAt :: Time

record envelope =
  evl_SpecVersion :: string
  evl_ID :: string
  evl_Source :: string
  evl_Type :: string
  evl_Subject :: string
  evl_Time :: Time
  evl_DataContentType :: string
  evl_Sequence :: int
  evl_Data :: "(string \<times> json) list"

datatype event_error = EventUnsupported | EventUnknownField | EventMissingField | EventNotString | EventInvalidField

datatype outbox_error =
    OutboxIdentifier | OutboxInvalidSequence | OutboxSourceText | OutboxInvalidSource | OutboxInvalidType
  | OutboxSubjectText | OutboxInvalidPayload | OutboxDigestMismatch | OutboxEnvelopeMismatch
  | OutboxTenantMismatch | OutboxCursorRequired | OutboxEventData event_error | OutboxInvalidAvailability
  | OutboxTooManyAttempts | OutboxInvalidQueued | OutboxInvalidClaim | OutboxInvalidToken
  | OutboxInvalidDelivery | OutboxInvalidDeadLetter | OutboxInvalidState

subsection \<open>Decoding the envelope\<close>

text \<open>
  \<open>Time.UnmarshalJSON\<close> reads the literal between the quotes as it is written, without undoing JSON
  escapes. \<open>raw_strings\<close> doubles the backslashes of a document, so that decoding it gives the literals.
\<close>

fun raw_strings :: "string \<Rightarrow> string" where
  "raw_strings [] = []"
| "raw_strings (c # s) =
    (if code c = 0x5C then
       (case s of
          [] \<Rightarrow> [c]
        | d # rest \<Rightarrow>
          [CHR 0x5C, CHR 0x5C] @ (if code d = 0x22 \<or> code d = 0x5C then [CHR 0x5C, d] else [d]) @ raw_strings rest)
     else c # raw_strings s)"

definition raw_members :: "string \<Rightarrow> json list" where
  "raw_members payload =
    (case json_decode_first (raw_strings payload) of
       Some (JObject ms, _) \<Rightarrow> map snd ms
     | _ \<Rightarrow> [])"

definition decode_uint64 :: "int \<Rightarrow> json \<Rightarrow> int option" where
  "decode_uint64 old v =
    (case v of
       JNumber literal \<Rightarrow> (if literal \<noteq> [] \<and> hd literal = CHR ''-'' then None
         else parse_int_range 0 (2 ^ 64 - 1) literal)
     | JNull \<Rightarrow> Some old
     | _ \<Rightarrow> None)"

definition decode_time :: "Time \<Rightarrow> json \<Rightarrow> Time option" where
  "decode_time old v = (case v of JString literal \<Rightarrow> parse_rfc3339 literal | JNull \<Rightarrow> Some old | _ \<Rightarrow> None)"

text \<open>A \<open>map[string]json.RawMessage\<close>: later members replace earlier ones, \<open>null\<close> clears the map.\<close>

definition put_member :: "string \<times> json \<Rightarrow> (string \<times> json) list \<Rightarrow> (string \<times> json) list" where
  "put_member m ms = filter (\<lambda>n. fst n \<noteq> fst m) ms @ [m]"

definition decode_map :: "(string \<times> json) list \<Rightarrow> json \<Rightarrow> (string \<times> json) list option" where
  "decode_map old v =
    (case v of JObject ms \<Rightarrow> Some (fold put_member ms old) | JNull \<Rightarrow> Some [] | _ \<Rightarrow> None)"

definition envelope_fields :: "string list" where
  "envelope_fields = [''specversion'', ''id'', ''source'', ''type'', ''subject'', ''time'',
     ''datacontenttype'', ''sequence'', ''data'']"

definition store_envelope :: "(string \<times> json) \<times> json \<Rightarrow> envelope \<Rightarrow> envelope option" where
  "store_envelope m e =
    (case m of ((key, v), raw) \<Rightarrow>
     (case select_field envelope_fields key of
        None \<Rightarrow> None
      | Some name \<Rightarrow>
        (if name = ''specversion'' then map_option (\<lambda>s. e\<lparr>evl_SpecVersion := s\<rparr>) (decode_string (evl_SpecVersion e) v)
         else if name = ''id'' then map_option (\<lambda>s. e\<lparr>evl_ID := s\<rparr>) (decode_string (evl_ID e) v)
         else if name = ''source'' then map_option (\<lambda>s. e\<lparr>evl_Source := s\<rparr>) (decode_string (evl_Source e) v)
         else if name = ''type'' then map_option (\<lambda>s. e\<lparr>evl_Type := s\<rparr>) (decode_string (evl_Type e) v)
         else if name = ''subject'' then map_option (\<lambda>s. e\<lparr>evl_Subject := s\<rparr>) (decode_string (evl_Subject e) v)
         else if name = ''time'' then map_option (\<lambda>t. e\<lparr>evl_Time := t\<rparr>) (decode_time (evl_Time e) raw)
         else if name = ''datacontenttype'' then map_option (\<lambda>s. e\<lparr>evl_DataContentType := s\<rparr>) (decode_string (evl_DataContentType e) v)
         else if name = ''sequence'' then map_option (\<lambda>i. e\<lparr>evl_Sequence := i\<rparr>) (decode_uint64 (evl_Sequence e) v)
         else map_option (\<lambda>d. e\<lparr>evl_Data := d\<rparr>) (decode_map (evl_Data e) v))))"

fun store_envelopes :: "((string \<times> json) \<times> json) list \<Rightarrow> envelope \<Rightarrow> envelope option" where
  "store_envelopes [] e = Some e"
| "store_envelopes (m # ms) e = (case store_envelope m e of None \<Rightarrow> None | Some e' \<Rightarrow> store_envelopes ms e')"

definition zero_envelope :: envelope where
  "zero_envelope = \<lparr>evl_SpecVersion = [], evl_ID = [], evl_Source = [], evl_Type = [], evl_Subject = [], evl_Time = 0,
     evl_DataContentType = [], evl_Sequence = 0, evl_Data = []\<rparr>"

definition decode_envelope :: "string \<Rightarrow> envelope option" where
  "decode_envelope payload =
    (case json_decode_first payload of
       Some (JObject ms, _) \<Rightarrow> store_envelopes (zip ms (raw_members payload)) zero_envelope
     | Some (JNull, _) \<Rightarrow> Some zero_envelope
     | _ \<Rightarrow> None)"

subsection \<open>Event data\<close>

record dataSpec =
  spec_required :: "string list"
  spec_optional :: "string list"
  spec_uuids :: "string list"
  spec_digests :: "string list"
  spec_reasons :: "string list"
  spec_enums :: "(string \<times> string list) list"

definition artifactLifecycleSpec :: "string \<Rightarrow> dataSpec" where
  "artifactLifecycleSpec current =
    \<lparr>spec_required = [''tenant_id'', ''transaction_cursor'', ''artifact_version_id'', ''artifact_digest'',
       ''previous_state'', ''current_state'', ''reason_code''],
     spec_optional = [], spec_uuids = [''tenant_id'', ''artifact_version_id''], spec_digests = [''artifact_digest''],
     spec_reasons = [''reason_code''],
     spec_enums = [(''previous_state'', [''active'', ''deprecated'', ''quarantined'']), (''current_state'', [current])]\<rparr>"

definition importFinishedSpec :: "string \<Rightarrow> dataSpec" where
  "importFinishedSpec outcome =
    \<lparr>spec_required = [''tenant_id'', ''transaction_cursor'', ''import_source_id'', ''import_run_id'', ''outcome''],
     spec_optional = [''reason_code''], spec_uuids = [''tenant_id'', ''import_source_id'', ''import_run_id''],
     spec_digests = [], spec_reasons = [''reason_code''], spec_enums = [(''outcome'', [outcome])]\<rparr>"

definition eventDataSpecs :: "(string \<times> dataSpec) list" where
  "eventDataSpecs =
    [(''io.thinkpixel.mp.namespace.delegated.v1'',
      \<lparr>spec_required = [''tenant_id'', ''transaction_cursor'', ''namespace_id'', ''delegation_id'', ''publisher_id'', ''current_state''],
       spec_optional = [], spec_uuids = [''tenant_id'', ''namespace_id'', ''delegation_id'', ''publisher_id''],
       spec_digests = [], spec_reasons = [], spec_enums = [(''current_state'', [''active''])]\<rparr>),
     (''io.thinkpixel.mp.namespace.delegation-revoked.v1'',
      \<lparr>spec_required = [''tenant_id'', ''transaction_cursor'', ''namespace_id'', ''delegation_id'', ''publisher_id'',
         ''previous_state'', ''current_state'', ''reason_code''],
       spec_optional = [], spec_uuids = [''tenant_id'', ''namespace_id'', ''delegation_id'', ''publisher_id''],
       spec_digests = [], spec_reasons = [''reason_code''],
       spec_enums = [(''previous_state'', [''active'']), (''current_state'', [''revoked''])]\<rparr>),
     (''io.thinkpixel.mp.artifact.registered.v1'',
      \<lparr>spec_required = [''tenant_id'', ''transaction_cursor'', ''artifact_version_id'', ''artifact_digest'', ''descriptor_digest''],
       spec_optional = [], spec_uuids = [''tenant_id'', ''artifact_version_id''],
       spec_digests = [''artifact_digest'', ''descriptor_digest''], spec_reasons = [], spec_enums = []\<rparr>),
     (''io.thinkpixel.mp.artifact.deprecated.v1'', artifactLifecycleSpec ''deprecated''),
     (''io.thinkpixel.mp.artifact.quarantined.v1'', artifactLifecycleSpec ''quarantined''),
     (''io.thinkpixel.mp.artifact.quarantine-released.v1'', artifactLifecycleSpec ''active''),
     (''io.thinkpixel.mp.artifact.revoked.v1'', artifactLifecycleSpec ''revoked''),
     (''io.thinkpixel.mp.evidence.accepted.v1'',
      \<lparr>spec_required = [''tenant_id'', ''transaction_cursor'', ''evidence_record_id'', ''artifact_digest'', ''category'',
         ''conclusion'', ''report_digest''],
       spec_optional = [], spec_uuids = [''tenant_id'', ''evidence_record_id''],
       spec_digests = [''artifact_digest'', ''report_digest''], spec_reasons = [''category''],
       spec_enums = [(''conclusion'', [''pass'', ''fail'', ''warning'', ''unknown'', ''not-applicable''])]\<rparr>),
     (''io.thinkpixel.mp.policy.activated.v1'',
      \<lparr>spec_required = [''tenant_id'', ''transaction_cursor'', ''catalog_id'', ''policy_digest'', ''activation_digest''],
       spec_optional = [], spec_uuids = [''tenant_id'', ''catalog_id''],
       spec_digests = [''policy_digest'', ''activation_digest''], spec_reasons = [], spec_enums = []\<rparr>),
     (''io.thinkpixel.mp.promotion.decided.v1'',
      \<lparr>spec_required = [''tenant_id'', ''transaction_cursor'', ''promotion_request_id'', ''promotion_decision_id'',
         ''artifact_digest'', ''catalog_id'', ''decision''],
       spec_optional = [], spec_uuids = [''tenant_id'', ''promotion_request_id'', ''promotion_decision_id'', ''catalog_id''],
       spec_digests = [''artifact_digest''], spec_reasons = [],
       spec_enums = [(''decision'', [''approved'', ''denied'', ''expired'', ''cancelled''])]\<rparr>),
     (''io.thinkpixel.mp.catalog-entry.changed.v1'',
      \<lparr>spec_required = [''tenant_id'', ''transaction_cursor'', ''catalog_id'', ''catalog_entry_id'', ''artifact_digest'',
         ''previous_state'', ''current_state''],
       spec_optional = [], spec_uuids = [''tenant_id'', ''catalog_id'', ''catalog_entry_id''],
       spec_digests = [''artifact_digest''], spec_reasons = [],
       spec_enums = [(''previous_state'', [''absent'', ''active'', ''removed'']), (''current_state'', [''active'', ''removed''])]\<rparr>),
     (''io.thinkpixel.mp.resolution.created.v1'',
      \<lparr>spec_required = [''tenant_id'', ''transaction_cursor'', ''resolution_id'', ''resolution_digest'', ''root_digest'', ''lock_digest''],
       spec_optional = [], spec_uuids = [''tenant_id'', ''resolution_id''],
       spec_digests = [''resolution_digest'', ''root_digest'', ''lock_digest''], spec_reasons = [], spec_enums = []\<rparr>),
     (''io.thinkpixel.mp.import.completed.v1'', importFinishedSpec ''completed''),
     (''io.thinkpixel.mp.import.failed.v1'', importFinishedSpec ''failed''),
     (''io.thinkpixel.mp.import.conflicted.v1'', importFinishedSpec ''conflicted'')]"

definition rawString :: "json \<Rightarrow> (event_error, string) result" where
  "rawString raw = (case decode_string [] raw of None \<Rightarrow> Inl EventNotString | Some s \<Rightarrow> Inr s)"

text \<open>The first error of a loop over fields.\<close>

fun each_field :: "('a \<Rightarrow> ('e, unit) result) \<Rightarrow> 'a list \<Rightarrow> ('e, unit) result" where
  "each_field check [] = Inr ()"
| "each_field check (x # xs) = (case check x of Inl e \<Rightarrow> Inl e | Inr _ \<Rightarrow> each_field check xs)"

definition check_text :: "(string \<Rightarrow> bool) \<Rightarrow> json \<Rightarrow> (event_error, unit) result" where
  "check_text valid raw =
    (case rawString raw of Inl e \<Rightarrow> Inl e | Inr s \<Rightarrow> if valid s then Inr () else Inl EventInvalidField)"

text \<open>A field that may be absent, and one whose absence reads as no text at all.\<close>

definition check_if_present ::
  "(string \<times> json) list \<Rightarrow> (string \<Rightarrow> bool) \<Rightarrow> string \<Rightarrow> (event_error, unit) result" where
  "check_if_present data valid key =
    (case map_of data key of None \<Rightarrow> Inr () | Some raw \<Rightarrow> check_text valid raw)"

definition check_present ::
  "(string \<times> json) list \<Rightarrow> (string \<Rightarrow> bool) \<Rightarrow> string \<Rightarrow> (event_error, unit) result" where
  "check_present data valid key =
    (case map_of data key of None \<Rightarrow> Inl EventNotString | Some raw \<Rightarrow> check_text valid raw)"

definition validateEventData :: "string \<Rightarrow> (string \<times> json) list \<Rightarrow> (event_error, unit) result" where
  "validateEventData eventType data =
    (case map_of eventDataSpecs eventType of
       None \<Rightarrow> Inl EventUnsupported
     | Some spec \<Rightarrow>
       (let allowed = spec_required spec @ spec_optional spec in
        if \<not> list_all (\<lambda>m. fst m \<in> set allowed) data then Inl EventUnknownField
        else if \<not> list_all (\<lambda>key. map_of data key \<noteq> None) (spec_required spec) then Inl EventMissingField
        else bindE (each_field (check_if_present data (\<lambda>s. is_ok (ParseUUID s))) (spec_uuids spec)) (\<lambda>_.
        bindE (each_field (check_present data (\<lambda>s. is_ok (ParseDigest s))) (spec_digests spec)) (\<lambda>_.
        bindE (each_field (check_if_present data (\<lambda>s. is_ok (NewReasonCode s))) (spec_reasons spec)) (\<lambda>_.
        each_field (\<lambda>(key, values). check_present data (\<lambda>s. s \<in> set values) key) (spec_enums spec))))))"

subsection \<open>Validation\<close>

definition validateText :: "string \<Rightarrow> int \<Rightarrow> bool" where
  "validateText text maximum \<longleftrightarrow> is_ok (NewBoundedString text maximum)"

definition validateEnvelope ::
  "string \<Rightarrow> UUID \<Rightarrow> UUID \<Rightarrow> nat \<Rightarrow> string \<Rightarrow> string \<Rightarrow> string \<Rightarrow> Time \<Rightarrow> (outbox_error, unit) result" where
  "validateEnvelope payload tenantID uid sequence source eventType subject createdAt =
    (case decode_envelope payload of
       None \<Rightarrow> Inl OutboxEnvelopeMismatch
     | Some e \<Rightarrow>
       (if evl_SpecVersion e \<noteq> ''1.0'' \<or> evl_ID e \<noteq> UUID_String uid \<or> evl_Source e \<noteq> source \<or>
           evl_Type e \<noteq> eventType \<or> evl_Subject e \<noteq> subject \<or> evl_DataContentType e \<noteq> DataContentType \<or>
           evl_Sequence e \<noteq> int sequence \<or> evl_Time e \<noteq> createdAt then Inl OutboxEnvelopeMismatch
        else if map_option (decode_string []) (map_of (evl_Data e) ''tenant_id'') \<noteq>
            Some (Some (UUID_String tenantID)) then Inl OutboxTenantMismatch
        else case map_option (decode_string []) (map_of (evl_Data e) ''transaction_cursor'') of
          Some (Some cursor) \<Rightarrow>
            (if cursor = [] \<or> length cursor > 1024 then Inl OutboxCursorRequired
             else case validateEventData eventType (evl_Data e) of
               Inl x \<Rightarrow> Inl (OutboxEventData x)
             | Inr _ \<Rightarrow> Inr ())
        | _ \<Rightarrow> Inl OutboxCursorRequired))"

definition validateDelivery ::
  "OutboxState \<Rightarrow> nat \<Rightarrow> Time \<Rightarrow> UUID option \<Rightarrow> string \<Rightarrow> Time option \<Rightarrow> Time option \<Rightarrow> ReasonCode option \<Rightarrow>
   Time option \<Rightarrow> Time option \<Rightarrow> Time option \<Rightarrow> (outbox_error, unit) result" where
  "validateDelivery state attempts availableAt token worker claimedAt leaseUntil lastError deliveredAt deadAt retainUntil =
    (let claimed = (token \<noteq> None \<or> worker \<noteq> [] \<or> claimedAt \<noteq> None \<or> leaseUntil \<noteq> None) in
     if state = OutboxPending \<or> state = OutboxRetry then
       (if claimed \<or> deliveredAt \<noteq> None \<or> deadAt \<noteq> None \<or> retainUntil \<noteq> None \<or>
           state = OutboxPending \<and> (attempts \<noteq> 0 \<or> lastError \<noteq> None) \<or>
           state = OutboxRetry \<and> (attempts = 0 \<or> lastError = None) then Inl OutboxInvalidQueued
        else Inr ())
     else if state = OutboxClaimed then
       (if token = None \<or> attempts = 0 \<or> \<not> validateText worker maxWorkerBytes \<or> claimedAt = None \<or> leaseUntil = None \<or>
           \<not> the leaseUntil > the claimedAt \<or> the leaseUntil > the claimedAt + MaxLease \<or>
           deliveredAt \<noteq> None \<or> deadAt \<noteq> None \<or> retainUntil \<noteq> None then Inl OutboxInvalidClaim
        else if \<not> valid_uuid (the token) then Inl OutboxInvalidToken
        else Inr ())
     else if state = OutboxDelivered then
       (if claimed \<or> deliveredAt = None \<or> deadAt \<noteq> None \<or> retainUntil = None \<or>
           the retainUntil < the deliveredAt + DeliveredRetention then Inl OutboxInvalidDelivery
        else Inr ())
     else if state = OutboxDeadLetter then
       (if claimed \<or> deadAt = None \<or> lastError = None \<or> ReasonCode_String (the lastError) = [] \<or>
           deliveredAt \<noteq> None \<or> retainUntil = None \<or>
           the retainUntil < the deadAt + DeadLetterRetention then Inl OutboxInvalidDeadLetter
        else Inr ())
     else Inl OutboxInvalidState)"

definition valid_source :: "string \<Rightarrow> bool" where
  "valid_source source \<longleftrightarrow>
    (case Parse source of
       None \<Rightarrow> False
     | Some u \<Rightarrow> \<not> (URL_String u \<noteq> source \<or> url_Scheme u \<noteq> ''urn'' \<or> url_RawQuery u \<noteq> [] \<or> url_User u \<noteq> None))"

definition Outbox_Restore ::
  "UUID \<Rightarrow> UUID \<Rightarrow> nat \<Rightarrow> string \<Rightarrow> string \<Rightarrow> string \<Rightarrow> string \<Rightarrow> Digest \<Rightarrow> OutboxState \<Rightarrow> nat \<Rightarrow> Time \<Rightarrow>
   UUID option \<Rightarrow> string \<Rightarrow> Time option \<Rightarrow> Time option \<Rightarrow> ReasonCode option \<Rightarrow> Time option \<Rightarrow> Time option \<Rightarrow>
   Time option \<Rightarrow> Time \<Rightarrow> (outbox_error, Message) result" where
  "Outbox_Restore tenantID uid sequence source eventType subject payload payloadDigest state attempts availableAt
     claimToken claimedBy claimedAt leaseExpiresAt lastError deliveredAt deadLetteredAt retainUntil createdAt =
    (if \<not> valid_uuid tenantID \<or> \<not> valid_uuid uid then Inl OutboxIdentifier
     else if sequence = 0 \<or> sequence > 2 ^ 63 - 1 then Inl OutboxInvalidSequence
     else if \<not> validateText source maxSourceBytes then Inl OutboxSourceText
     else if \<not> valid_source source then Inl OutboxInvalidSource
     else case NewReasonCode eventType of
       Inl _ \<Rightarrow> Inl OutboxInvalidType
     | Inr typeCode \<Rightarrow>
       (if \<not> prefix ''io.thinkpixel.mp.'' eventType \<or> \<not> suffix ''.v1'' eventType then Inl OutboxInvalidType
        else if \<not> validateText subject maxSubjectBytes then Inl OutboxSubjectText
        else if length payload < 2 \<or> length payload > MaxPayloadBytes \<or> json_parse payload = None
          then Inl OutboxInvalidPayload
        else if SHA256Digest payload \<noteq> payloadDigest then Inl OutboxDigestMismatch
        else bindE (validateEnvelope payload tenantID uid sequence source eventType subject createdAt) (\<lambda>_.
          if time_IsZero createdAt \<or> availableAt < createdAt then Inl OutboxInvalidAvailability
          else if attempts > MaxAttempts then Inl OutboxTooManyAttempts
          else bindE (validateDelivery state attempts availableAt claimToken claimedBy claimedAt leaseExpiresAt
              lastError deliveredAt deadLetteredAt retainUntil) (\<lambda>_.
            Inr \<lparr>msg_tenantID = tenantID, msg_id = uid, msg_sequence = sequence, msg_source = source,
              msg_eventType = typeCode, msg_subject = subject, msg_payload = payload,
              msg_payloadDigest = payloadDigest, msg_state = state, msg_attempts = attempts,
              msg_availableAt = availableAt, msg_claimToken = claimToken, msg_claimedBy = claimedBy,
              msg_claimedAt = claimedAt, msg_leaseExpiresAt = leaseExpiresAt, msg_lastError = lastError,
              msg_deliveredAt = deliveredAt, msg_deadLetteredAt = deadLetteredAt,
              msg_retainUntil = retainUntil, msg_createdAt = createdAt\<rparr>))))"

definition Outbox_New ::
  "UUID \<Rightarrow> UUID \<Rightarrow> nat \<Rightarrow> string \<Rightarrow> string \<Rightarrow> string \<Rightarrow> string \<Rightarrow> Time \<Rightarrow> (outbox_error, Message) result" where
  "Outbox_New tenantID uid sequence source eventType subject payload createdAt =
    Outbox_Restore tenantID uid sequence source eventType subject payload (SHA256Digest payload)
      OutboxPending 0 createdAt None [] None None None None None None createdAt"

subsection \<open>Exactness\<close>

text \<open>The part of the restoration that depends only on the immutable event.\<close>

definition event_ok :: "Message \<Rightarrow> bool" where
  "event_ok m \<longleftrightarrow>
    valid_uuid (msg_tenantID m) \<and> valid_uuid (msg_id m) \<and> 0 < msg_sequence m \<and> msg_sequence m < 2 ^ 63 \<and>
    validateText (msg_source m) maxSourceBytes \<and> valid_source (msg_source m) \<and>
    NewReasonCode (ReasonCode_String (msg_eventType m)) = Inr (msg_eventType m) \<and>
    prefix ''io.thinkpixel.mp.'' (ReasonCode_String (msg_eventType m)) \<and>
    suffix ''.v1'' (ReasonCode_String (msg_eventType m)) \<and>
    validateText (msg_subject m) maxSubjectBytes \<and>
    2 \<le> length (msg_payload m) \<and> length (msg_payload m) \<le> MaxPayloadBytes \<and> json_parse (msg_payload m) \<noteq> None \<and>
    msg_payloadDigest m = SHA256Digest (msg_payload m) \<and>
    validateEnvelope (msg_payload m) (msg_tenantID m) (msg_id m) (msg_sequence m) (msg_source m)
      (ReasonCode_String (msg_eventType m)) (msg_subject m) (msg_createdAt m) = Inr () \<and>
    msg_createdAt m \<noteq> 0"

text \<open>The part that depends on the delivery state.\<close>

definition delivery_ok :: "Message \<Rightarrow> bool" where
  "delivery_ok m \<longleftrightarrow>
    msg_createdAt m \<le> msg_availableAt m \<and> msg_attempts m \<le> MaxAttempts \<and>
    validateDelivery (msg_state m) (msg_attempts m) (msg_availableAt m) (msg_claimToken m) (msg_claimedBy m)
      (msg_claimedAt m) (msg_leaseExpiresAt m) (msg_lastError m) (msg_deliveredAt m) (msg_deadLetteredAt m)
      (msg_retainUntil m) = Inr ()"

lemma NewReasonCode_String: "NewReasonCode s = Inr r \<Longrightarrow> ReasonCode_String r = s"
  by (auto simp: NewReasonCode_iff)

lemma Outbox_Restore_Inr:
  "Outbox_Restore tenantID uid sequence source eventType subject payload payloadDigest state attempts availableAt
     claimToken claimedBy claimedAt leaseExpiresAt lastError deliveredAt deadLetteredAt retainUntil createdAt = Inr m \<longleftrightarrow>
    event_ok m \<and> delivery_ok m \<and> ReasonCode_String (msg_eventType m) = eventType \<and>
    m = \<lparr>msg_tenantID = tenantID, msg_id = uid, msg_sequence = sequence, msg_source = source,
      msg_eventType = msg_eventType m, msg_subject = subject, msg_payload = payload,
      msg_payloadDigest = payloadDigest, msg_state = state, msg_attempts = attempts,
      msg_availableAt = availableAt, msg_claimToken = claimToken, msg_claimedBy = claimedBy,
      msg_claimedAt = claimedAt, msg_leaseExpiresAt = leaseExpiresAt, msg_lastError = lastError,
      msg_deliveredAt = deliveredAt, msg_deadLetteredAt = deadLetteredAt,
      msg_retainUntil = retainUntil, msg_createdAt = createdAt\<rparr>"
    (is "?r = Inr m \<longleftrightarrow> ?ok")
proof
  assume "?r = Inr m"
  then show ?ok
    by (auto simp: Outbox_Restore_def event_ok_def delivery_ok_def bindE_Inr_iff NewReasonCode_String
        split: sum.splits if_splits)
next
  assume ok: ?ok
  then show "?r = Inr m"
    by (cases m) (auto simp: Outbox_Restore_def event_ok_def delivery_ok_def not_less)
qed

end
