(* ===== verification/Outbox_Repository.thy ===== *)
theory Outbox_Repository
  imports "HOL-Library.Multiset" Outbox Audit_Repository
begin

text \<open>
  \<open>internal/adapters/postgres/outbox\<close>: the transactional outbox on the tables and triggers of
  \<open>migrations/000013_outbox_messages.sql\<close>. The column checks that \<open>outbox.Restore\<close> implies are not
  repeated; the checks and the trigger on delivery transitions are modelled. Row locks are not: the
  model runs one transaction at a time.
\<close>

subsection \<open>Statements\<close>

definition outbox_unavailable :: go_error where
  "outbox_unavailable = typed_repo ErrorUnavailable ''outbox.persistence_unavailable''"

definition outbox_invalid_tenant :: go_error where
  "outbox_invalid_tenant = typed_repo ErrorInvalid ''outbox.invalid_tenant''"

definition stale_claim :: go_error where
  "stale_claim = typed_repo ErrorConflict ''outbox.stale_claim''"

definition max_sequence :: int where "max_sequence = 9223372036854775807"

text \<open>
  \<open>INSERT \<dots> VALUES (t, 2) ON CONFLICT DO UPDATE SET next_sequence = next_sequence + 1 WHERE \<dots> RETURNING
  next_sequence - 1\<close>; no row when the counter is exhausted.
\<close>

definition allocate_sequence :: "UUID \<Rightarrow> DB \<Rightarrow> (sql_error, int option \<times> DB) result" where
  "allocate_sequence t db =
    (case find (\<lambda>r. srow_tenant r = t) (db_sequences db) of
       None \<Rightarrow>
         (if t \<notin> set (db_tenants db) then Inl (foreign_key_violation ''tenant_event_sequences_tenant_id_fkey'')
          else Inr (Some 1, db\<lparr>db_sequences := db_sequences db @ [\<lparr>srow_tenant = t, srow_next = 2\<rparr>]\<rparr>))
     | Some r \<Rightarrow>
         (if srow_next r < max_sequence then
            Inr (Some (srow_next r), db\<lparr>db_sequences :=
              map (\<lambda>s. if srow_tenant s = t then s\<lparr>srow_next := srow_next s + 1\<rparr> else s) (db_sequences db)\<rparr>)
          else Inr (None, db)))"

definition insert_outbox :: "OutboxRow \<Rightarrow> DB \<Rightarrow> (sql_error, unit \<times> DB) result" where
  "insert_outbox row db =
    (if \<not> (\<exists>s \<in> set (db_sequences db). srow_tenant s = orow_tenant row \<and> srow_next s = orow_sequence row + 1)
       then Inl raise_exception
     else if \<exists>r \<in> set (db_outbox db). orow_tenant r = orow_tenant row \<and> orow_id r = orow_id row
       then Inl (unique_violation ''outbox_messages_pkey'')
     else if \<exists>r \<in> set (db_outbox db). orow_tenant r = orow_tenant row \<and> orow_sequence r = orow_sequence row
       then Inl (unique_violation ''outbox_messages_tenant_id_sequence_key'')
     else if orow_tenant row \<notin> set (db_tenants db)
       then Inl (foreign_key_violation ''outbox_messages_tenant_id_fkey'')
     else Inr ((), db\<lparr>db_outbox := db_outbox db @ [row]\<rparr>))"

text \<open>The table's check on the delivery columns.\<close>

definition unclaimed :: "OutboxRow \<Rightarrow> bool" where
  "unclaimed r \<longleftrightarrow>
    orow_claim_token r = None \<and> orow_claimed_by r = None \<and> orow_claimed_at r = None \<and> orow_lease_expires_at r = None"

definition delivery_check :: "Env \<Rightarrow> OutboxRow \<Rightarrow> bool" where
  "delivery_check env r \<longleftrightarrow>
    orow_created_at r \<le> orow_available_at r \<and> 0 \<le> orow_attempts r \<and> orow_attempts r \<le> 1000 \<and>
    (if orow_state r = OutboxPending then
       orow_attempts r = 0 \<and> orow_last_error r = None \<and> unclaimed r \<and> orow_delivered_at r = None \<and>
       orow_dead_lettered_at r = None \<and> orow_retain_until r = None
     else if orow_state r = OutboxRetry then
       orow_attempts r > 0 \<and> orow_last_error r \<noteq> None \<and> unclaimed r \<and> orow_delivered_at r = None \<and>
       orow_dead_lettered_at r = None \<and> orow_retain_until r = None
     else if orow_state r = OutboxClaimed then
       orow_claim_token r \<noteq> None \<and> orow_claimed_by r \<noteq> None \<and> orow_attempts r > 0 \<and> orow_delivered_at r = None \<and>
       orow_dead_lettered_at r = None \<and> orow_retain_until r = None \<and>
       (case (orow_claimed_at r, orow_lease_expires_at r) of
          (Some c, Some l) \<Rightarrow> c < l \<and> l \<le> c + MaxLease
        | _ \<Rightarrow> False)
     else if orow_state r = OutboxDelivered then
       unclaimed r \<and> orow_dead_lettered_at r = None \<and>
       (case (orow_delivered_at r, orow_retain_until r) of
          (Some d, Some u) \<Rightarrow> env_add_days env 30 d \<le> u
        | _ \<Rightarrow> False)
     else if orow_state r = OutboxDeadLetter then
       unclaimed r \<and> orow_delivered_at r = None \<and> orow_last_error r \<noteq> None \<and>
       (case (orow_dead_lettered_at r, orow_retain_until r) of
          (Some d, Some u) \<Rightarrow> env_add_days env 90 d \<le> u
        | _ \<Rightarrow> False)
     else False)"

text \<open>The columns an update may not touch.\<close>

definition orow_event :: "OutboxRow \<Rightarrow>
    (UUID \<times> UUID \<times> int) \<times> (string \<times> string \<times> string) \<times> (string \<times> string \<times> Time)" where
  "orow_event r =
    ((orow_tenant r, orow_id r, orow_sequence r), (orow_source r, orow_type r, orow_subject r),
     (orow_payload r, orow_digest r, orow_created_at r))"

text \<open>
  The trigger \<open>guard_outbox_message_update\<close>: \<open>True\<close> when it lets the update pass. A comparison with
  a null column is not true in SQL.
\<close>

definition sql_less :: "Time option \<Rightarrow> Time option \<Rightarrow> bool" where
  "sql_less a b = (case (a, b) of (Some x, Some y) \<Rightarrow> x < y | _ \<Rightarrow> False)"

definition guard_outbox_message_update :: "OutboxRow \<Rightarrow> OutboxRow \<Rightarrow> bool" where
  "guard_outbox_message_update old new \<longleftrightarrow>
    \<not> (orow_event old \<noteq> orow_event new \<or>
       orow_attempts new < orow_attempts old \<or> orow_attempts new > orow_attempts old + 1 \<or>
       orow_state new = OutboxClaimed \<and> orow_attempts new \<noteq> orow_attempts old + 1 \<or>
       orow_state new \<noteq> OutboxClaimed \<and> orow_attempts new \<noteq> orow_attempts old \<or>
       orow_state old = OutboxClaimed \<and> orow_state new = OutboxClaimed \<and>
         sql_less (orow_claimed_at new) (orow_lease_expires_at old) \<or>
       orow_state new = OutboxRetry \<and>
         (orow_last_error new = None \<or>
          (case orow_claimed_at old of None \<Rightarrow> False
           | Some c \<Rightarrow> orow_available_at new \<le> c \<or> orow_available_at new > c + MaxRetryDelay)) \<or>
       orow_state new = OutboxDelivered \<and> sql_less (orow_delivered_at new) (orow_claimed_at old) \<or>
       orow_state new = OutboxDeadLetter \<and> sql_less (orow_dead_lettered_at new) (orow_claimed_at old) \<or>
       \<not> ((orow_state old = OutboxPending \<or> orow_state old = OutboxRetry) \<and> orow_state new = OutboxClaimed \<or>
          orow_state old = OutboxClaimed \<and>
            (orow_state new = OutboxClaimed \<or> orow_state new = OutboxRetry \<or> orow_state new = OutboxDelivered \<or>
             orow_state new = OutboxDeadLetter)))"

text \<open>\<open>UPDATE \<dots> WHERE p SET f RETURNING\<close>: the new rows that matched.\<close>

definition update_outbox ::
  "Env \<Rightarrow> (OutboxRow \<Rightarrow> bool) \<Rightarrow> (OutboxRow \<Rightarrow> OutboxRow) \<Rightarrow> DB \<Rightarrow> (sql_error, OutboxRow list \<times> DB) result" where
  "update_outbox env p f db =
    (let matched = filter p (db_outbox db) in
     if \<not> list_all (\<lambda>r. guard_outbox_message_update r (f r)) matched then Inl raise_exception
     else if \<not> list_all (\<lambda>r. delivery_check env (f r)) matched then Inl (check_violation ''outbox_messages_check'')
     else Inr (map f matched, db\<lparr>db_outbox := map (\<lambda>r. if p r then f r else r) (db_outbox db)\<rparr>))"

subsection \<open>Operations\<close>

definition outbox_row :: "Env \<Rightarrow> Message \<Rightarrow> OutboxRow" where
  "outbox_row env m =
    \<lparr>orow_tenant = msg_tenantID m, orow_id = msg_id m, orow_sequence = int (msg_sequence m),
     orow_source = msg_source m, orow_type = ReasonCode_String (msg_eventType m), orow_subject = msg_subject m,
     orow_payload = msg_payload m, orow_digest = Digest_String (msg_payloadDigest m), orow_state = OutboxPending,
     orow_attempts = 0, orow_available_at = env_store_time env (msg_createdAt m), orow_claim_token = None,
     orow_claimed_by = None, orow_claimed_at = None, orow_lease_expires_at = None, orow_last_error = None,
     orow_delivered_at = None, orow_dead_lettered_at = None, orow_retain_until = None,
     orow_created_at = env_store_time env (msg_createdAt m)\<rparr>"

definition outbox_scan :: "OutboxRow \<Rightarrow> (unit, Message) result" where
  "outbox_scan row =
    bindE (scan_uuid (orow_tenant row)) (\<lambda>tenantID.
    bindE (scan_uuid (orow_id row)) (\<lambda>uid.
    bindE (scan_digest (orow_digest row)) (\<lambda>digest.
    bindE (scan_option scan_uuid (orow_claim_token row)) (\<lambda>token.
    bindE (scan_option scan_reason (orow_last_error row)) (\<lambda>reason.
    if orow_sequence row < 1 \<or> orow_attempts row < 0 \<or> orow_attempts row > int MaxAttempts then Inl ()
    else map_error () (Outbox_Restore tenantID uid (nat (orow_sequence row)) (orow_source row) (orow_type row)
      (orow_subject row) (orow_payload row) digest (orow_state row) (nat (orow_attempts row)) (orow_available_at row)
      token (coalesce (orow_claimed_by row)) (orow_claimed_at row) (orow_lease_expires_at row) reason
      (orow_delivered_at row) (orow_dead_lettered_at row) (orow_retain_until row) (orow_created_at row)))))))"

definition NextSequence :: "Env \<Rightarrow> UUID \<Rightarrow> nat io" where
  "NextSequence env tenantID =
    (if \<not> valid_uuid tenantID then io_fail (typed_repo ErrorInvalid ''outbox.invalid_sequence_request'')
     else io_bind (io_exec env (\<lambda>_. outbox_unavailable) (allocate_sequence tenantID)) (\<lambda>sequence.
       case sequence of
         None \<Rightarrow> io_fail outbox_unavailable
       | Some s \<Rightarrow> if s < 1 then io_fail outbox_unavailable else io_return (nat s)))"

definition Outbox_Record :: "Env \<Rightarrow> Message \<Rightarrow> unit io" where
  "Outbox_Record env m =
    (if \<not> valid_uuid (msg_tenantID m) \<or> msg_sequence m = 0 \<or> msg_state m \<noteq> OutboxPending \<or> msg_attempts m \<noteq> 0
       then io_fail (typed_repo ErrorInvalid ''outbox.invalid_message'')
     else io_exec env (\<lambda>_. outbox_unavailable) (insert_outbox (outbox_row env m)))"

definition OutboxRepository_NextSequence :: "Env \<Rightarrow> Ctx \<Rightarrow> UUID \<Rightarrow> nat io" where
  "OutboxRepository_NextSequence env ctx tenantID =
    io_bind (CurrentTransaction ctx tenantID) (\<lambda>_. NextSequence env tenantID)"

definition OutboxRepository_Record :: "Env \<Rightarrow> Ctx \<Rightarrow> Message \<Rightarrow> unit io" where
  "OutboxRepository_Record env ctx m =
    io_bind (CurrentTransaction ctx (msg_tenantID m)) (\<lambda>_. Outbox_Record env m)"

definition outbox_tx :: "Env \<Rightarrow> Ctx \<Rightarrow> UUID \<Rightarrow> 'a io \<Rightarrow> 'a io" where
  "outbox_tx env ctx tenantID statements =
    repository_tx env ctx tenantID outbox_invalid_tenant outbox_unavailable statements"

definition OutboxRepository_Get :: "Env \<Rightarrow> Ctx \<Rightarrow> UUID \<Rightarrow> UUID \<Rightarrow> Message io" where
  "OutboxRepository_Get env ctx tenantID messageID =
    (if \<not> valid_uuid messageID then io_fail (typed_repo ErrorInvalid ''outbox.invalid_id'')
     else outbox_tx env ctx tenantID
       (query_one env (typed_repo ErrorNotFound ''outbox.not_found'') outbox_unavailable outbox_scan
         (\<lambda>db. filter (\<lambda>r. orow_tenant r = tenantID \<and> orow_id r = messageID) (db_outbox db))))"

text \<open>The first statement of \<open>Claim\<close>: exhausted messages whose lease ran out become dead letters.\<close>

definition exhausted :: "UUID \<Rightarrow> Time \<Rightarrow> OutboxRow \<Rightarrow> bool" where
  "exhausted t at r \<longleftrightarrow>
    orow_tenant r = t \<and> orow_state r = OutboxClaimed \<and> (\<exists>l. orow_lease_expires_at r = Some l \<and> l \<le> at) \<and>
    orow_attempts r \<ge> 1000"

definition bury :: "Env \<Rightarrow> Time \<Rightarrow> OutboxRow \<Rightarrow> OutboxRow" where
  "bury env at r = r\<lparr>orow_state := OutboxDeadLetter, orow_claim_token := None, orow_claimed_by := None,
     orow_claimed_at := None, orow_lease_expires_at := None, orow_last_error := Some ''outbox.attempts_exhausted'',
     orow_dead_lettered_at := Some at, orow_retain_until := Some (env_add_days env 90 at)\<rparr>"

text \<open>The second: the due messages in sequence order, at most \<open>limit\<close>, are leased.\<close>

definition due :: "UUID \<Rightarrow> Time \<Rightarrow> OutboxRow \<Rightarrow> bool" where
  "due t at r \<longleftrightarrow>
    orow_tenant r = t \<and> orow_attempts r < 1000 \<and>
    ((orow_state r = OutboxPending \<or> orow_state r = OutboxRetry) \<and> orow_available_at r \<le> at \<or>
     orow_state r = OutboxClaimed \<and> (\<exists>l. orow_lease_expires_at r = Some l \<and> l \<le> at))"

definition claim_candidates :: "UUID \<Rightarrow> Time \<Rightarrow> nat \<Rightarrow> DB \<Rightarrow> UUID list" where
  "claim_candidates t at limit db = map orow_id (take limit (sort_key orow_sequence (filter (due t at) (db_outbox db))))"

definition lease_row :: "string \<Rightarrow> UUID \<Rightarrow> Time \<Rightarrow> Duration \<Rightarrow> OutboxRow \<Rightarrow> OutboxRow" where
  "lease_row worker token at lease r =
    r\<lparr>orow_state := OutboxClaimed, orow_attempts := orow_attempts r + 1, orow_claim_token := Some token,
      orow_claimed_by := Some worker, orow_claimed_at := Some at,
      orow_lease_expires_at := Some (at + lease div 1000 * 1000)\<rparr>"

definition claim_messages ::
  "Env \<Rightarrow> UUID \<Rightarrow> string \<Rightarrow> UUID \<Rightarrow> Time \<Rightarrow> Duration \<Rightarrow> nat \<Rightarrow> DB \<Rightarrow> (sql_error, OutboxRow list \<times> DB) result" where
  "claim_messages env t worker token at lease limit db =
    (let chosen = claim_candidates t at limit db in
     update_outbox env (\<lambda>r. orow_tenant r = t \<and> orow_id r \<in> set chosen) (lease_row worker token at lease) db)"

definition OutboxRepository_Claim ::
  "Env \<Rightarrow> Ctx \<Rightarrow> UUID \<Rightarrow> string \<Rightarrow> UUID \<Rightarrow> Time \<Rightarrow> Duration \<Rightarrow> int \<Rightarrow> Message list io" where
  "OutboxRepository_Claim env ctx tenantID worker claimToken claimedAt lease limit =
    (if \<not> valid_uuid claimToken \<or> time_IsZero claimedAt \<or> lease \<le> 0 \<or> lease > MaxLease \<or> limit < 1 \<or>
        limit > MaxClaimBatch then io_fail (typed_repo ErrorInvalid ''outbox.invalid_claim'')
     else if \<not> is_ok (NewBoundedString worker 255) then io_fail (typed_repo ErrorInvalid ''outbox.invalid_claim'')
     else outbox_tx env ctx tenantID
       (let at = env_store_time env claimedAt in
        io_bind (io_exec env (\<lambda>_. outbox_unavailable) (update_outbox env (exhausted tenantID at) (bury env at))) (\<lambda>_.
        io_bind (io_exec env (\<lambda>_. outbox_unavailable)
          (claim_messages env tenantID worker claimToken at lease (nat limit))) (\<lambda>rows.
        io_bind (io_lift outbox_unavailable (scan_all outbox_scan rows)) (\<lambda>values.
        io_return (sort_key msg_sequence values))))))"

definition outbox_finish ::
  "Env \<Rightarrow> Ctx \<Rightarrow> UUID \<Rightarrow> UUID \<Rightarrow> UUID \<Rightarrow> (OutboxRow \<Rightarrow> OutboxRow) \<Rightarrow> string option \<Rightarrow> Message io" where
  "outbox_finish env ctx tenantID messageID claimToken assignment reason =
    (if \<not> valid_uuid messageID \<or> \<not> valid_uuid claimToken
       then io_fail (typed_repo ErrorInvalid ''outbox.invalid_completion'')
     else outbox_tx env ctx tenantID
       (io_bind (io_exec env (\<lambda>_. outbox_unavailable)
          (update_outbox env
            (\<lambda>r. orow_tenant r = tenantID \<and> orow_id r = messageID \<and> orow_state r = OutboxClaimed \<and>
              orow_claim_token r = Some claimToken)
            (\<lambda>r. (assignment r)\<lparr>orow_last_error :=
              (case reason of None \<Rightarrow> orow_last_error r | Some given \<Rightarrow> Some given)\<rparr>))) (\<lambda>rows.
        case rows of
          [] \<Rightarrow> io_fail stale_claim
        | row # _ \<Rightarrow> io_lift outbox_unavailable (outbox_scan row))))"

definition release :: "OutboxRow \<Rightarrow> OutboxRow" where
  "release r = r\<lparr>orow_claim_token := None, orow_claimed_by := None, orow_claimed_at := None,
     orow_lease_expires_at := None\<rparr>"

definition OutboxRepository_Retry ::
  "Env \<Rightarrow> Ctx \<Rightarrow> UUID \<Rightarrow> UUID \<Rightarrow> UUID \<Rightarrow> ReasonCode \<Rightarrow> Time \<Rightarrow> Message io" where
  "OutboxRepository_Retry env ctx tenantID messageID claimToken reason availableAt =
    (if ReasonCode_String reason = [] \<or> time_IsZero availableAt
       then io_fail (typed_repo ErrorInvalid ''outbox.invalid_retry'')
     else outbox_finish env ctx tenantID messageID claimToken
       (\<lambda>r. (release r)\<lparr>orow_state := OutboxRetry, orow_available_at := env_store_time env availableAt\<rparr>)
       (Some (ReasonCode_String reason)))"

definition OutboxRepository_Deliver ::
  "Env \<Rightarrow> Ctx \<Rightarrow> UUID \<Rightarrow> UUID \<Rightarrow> UUID \<Rightarrow> Time \<Rightarrow> Message io" where
  "OutboxRepository_Deliver env ctx tenantID messageID claimToken deliveredAt =
    (if time_IsZero deliveredAt then io_fail (typed_repo ErrorInvalid ''outbox.invalid_delivery'')
     else outbox_finish env ctx tenantID messageID claimToken
       (\<lambda>r. (release r)\<lparr>orow_state := OutboxDelivered, orow_delivered_at := Some (env_store_time env deliveredAt),
         orow_retain_until := Some (env_add_days env 30 (env_store_time env deliveredAt))\<rparr>) None)"

definition OutboxRepository_DeadLetter ::
  "Env \<Rightarrow> Ctx \<Rightarrow> UUID \<Rightarrow> UUID \<Rightarrow> UUID \<Rightarrow> ReasonCode \<Rightarrow> Time \<Rightarrow> Message io" where
  "OutboxRepository_DeadLetter env ctx tenantID messageID claimToken reason deadLetteredAt =
    (if ReasonCode_String reason = [] \<or> time_IsZero deadLetteredAt
       then io_fail (typed_repo ErrorInvalid ''outbox.invalid_dead_letter'')
     else outbox_finish env ctx tenantID messageID claimToken
       (\<lambda>r. (release r)\<lparr>orow_state := OutboxDeadLetter,
         orow_dead_lettered_at := Some (env_store_time env deadLetteredAt),
         orow_retain_until := Some (env_add_days env 90 (env_store_time env deadLetteredAt))\<rparr>)
       (Some (ReasonCode_String reason)))"

subsection \<open>Atomicity\<close>

lemma atomic_exec [io_laws]: "atomic (io_exec env err st)"
  by (auto simp: atomic_def balanced_exec dest: io_exec_Inl)

lemma reads_CurrentTransaction [io_laws]: "reads (CurrentTransaction ctx t)"
  by (auto simp: CurrentTransaction_def io_laws split: option.splits)

lemma balanced_NextSequence [io_laws]: "balanced (OutboxRepository_NextSequence env ctx t)"
  unfolding OutboxRepository_NextSequence_def NextSequence_def
  by (auto intro!: balanced_bind reads_balanced [OF reads_CurrentTransaction] balanced_exec simp: balanced_fail balanced_return split: option.splits)

lemma atomic_OutboxRepository_Record [io_laws]: "atomic (OutboxRepository_Record env ctx m)"
  unfolding OutboxRepository_Record_def Outbox_Record_def
  by (rule atomic_reads_bind) (auto simp: io_laws reads_atomic)

lemma reads_OutboxRepository_Get [io_laws]: "reads (OutboxRepository_Get env ctx t u)"
  by (simp add: OutboxRepository_Get_def outbox_tx_def repository_tx_reads io_laws)

lemma balanced_finish_body:
  "balanced (io_bind (io_exec env e (update_outbox env p f)) (\<lambda>rows. case rows of [] \<Rightarrow> io_fail x
    | row # _ \<Rightarrow> io_lift y (outbox_scan row)))"
  by (auto intro!: balanced_bind balanced_exec simp: balanced_fail balanced_lift split: list.splits)

lemma atomic_outbox_finish [io_laws]: "atomic (outbox_finish env ctx t u k f r)"
  unfolding outbox_finish_def outbox_tx_def
  by (auto intro!: repository_tx_atomic balanced_finish_body simp: reads_atomic io_laws)

lemma atomic_OutboxRepository_Retry [io_laws]: "atomic (OutboxRepository_Retry env ctx t u k r a)"
  and atomic_OutboxRepository_Deliver [io_laws]: "atomic (OutboxRepository_Deliver env ctx t u k a)"
  and atomic_OutboxRepository_DeadLetter [io_laws]: "atomic (OutboxRepository_DeadLetter env ctx t u k r a)"
  by (simp_all add: OutboxRepository_Retry_def OutboxRepository_Deliver_def OutboxRepository_DeadLetter_def
      io_laws reads_atomic)

lemma balanced_claim_body:
  "balanced (io_bind (io_exec env e (update_outbox env p f)) (\<lambda>_.
    io_bind (io_exec env e' (claim_messages env t w k a l n)) (\<lambda>rows.
    io_bind (io_lift u (scan_all outbox_scan rows)) (\<lambda>values. io_return (sort_key msg_sequence values)))))"
  by (intro balanced_bind balanced_exec balanced_lift balanced_return)

lemma atomic_OutboxRepository_Claim [io_laws]: "atomic (OutboxRepository_Claim env ctx t w k a l n)"
  unfolding OutboxRepository_Claim_def outbox_tx_def Let_def
  by (auto intro!: repository_tx_atomic balanced_claim_body simp: reads_atomic io_laws)

subsection \<open>The delivery state machine\<close>

text \<open>One update of one message that the trigger and the check let pass.\<close>

definition delivery_step :: "Env \<Rightarrow> OutboxRow \<Rightarrow> OutboxRow \<Rightarrow> bool" where
  "delivery_step env r r' \<longleftrightarrow> guard_outbox_message_update r r' \<and> delivery_check env r'"

definition delivery_final :: "OutboxRow \<Rightarrow> bool" where
  "delivery_final r \<longleftrightarrow> orow_state r = OutboxDelivered \<or> orow_state r = OutboxDeadLetter"

lemma delivery_step_facts:
  assumes "delivery_step env r r'"
  shows "orow_event r' = orow_event r" "\<not> delivery_final r"
    "orow_attempts r' = orow_attempts r + (if orow_state r' = OutboxClaimed then 1 else 0)"
    "orow_attempts r' \<le> 1000" "orow_state r' \<noteq> OutboxPending"
    "orow_state r' \<noteq> OutboxClaimed \<Longrightarrow> orow_state r = OutboxClaimed"
proof -
  note guard = assms [unfolded delivery_step_def guard_outbox_message_update_def, THEN conjunct1]
  have "orow_event r = orow_event r'" using guard by blast
  then show "orow_event r' = orow_event r" by simp
  have edge: "(orow_state r = OutboxPending \<or> orow_state r = OutboxRetry) \<and> orow_state r' = OutboxClaimed \<or>
      orow_state r = OutboxClaimed \<and> (orow_state r' = OutboxClaimed \<or> orow_state r' = OutboxRetry \<or>
        orow_state r' = OutboxDelivered \<or> orow_state r' = OutboxDeadLetter)"
    using guard by blast
  show "\<not> delivery_final r" "orow_state r' \<noteq> OutboxPending"
    "orow_state r' \<noteq> OutboxClaimed \<Longrightarrow> orow_state r = OutboxClaimed"
    using edge by (auto simp: delivery_final_def)
  show "orow_attempts r' = orow_attempts r + (if orow_state r' = OutboxClaimed then 1 else 0)"
    using guard by (cases "orow_state r' = OutboxClaimed") simp_all
  show "orow_attempts r' \<le> 1000"
    using assms unfolding delivery_step_def delivery_check_def by blast
qed

text \<open>An update of the table moves each message along the state machine.\<close>

definition outbox_moves :: "Env \<Rightarrow> DB \<Rightarrow> DB \<Rightarrow> bool" where
  "outbox_moves env db db' \<longleftrightarrow>
    list_all2 (delivery_step env)\<^sup>*\<^sup>* (db_outbox db) (db_outbox db') \<and> db_sequences db' = db_sequences db"

lemma update_outbox_Inr:
  "update_outbox env p f db = Inr (rows, db') \<longleftrightarrow>
    (\<forall>r \<in> set (db_outbox db). p r \<longrightarrow> delivery_step env r (f r)) \<and>
    rows = map f (filter p (db_outbox db)) \<and>
    db' = db\<lparr>db_outbox := map (\<lambda>r. if p r then f r else r) (db_outbox db)\<rparr>"
  by (auto simp: update_outbox_def Let_def delivery_step_def list_all_iff)

lemma update_outbox_moves: "update_outbox env p f db = Inr (rows, db') \<Longrightarrow> outbox_moves env db db'"
  by (auto simp: update_outbox_Inr outbox_moves_def list_all2_conv_all_nth)

lemma outbox_moves_refl: "outbox_moves env db db"
  by (simp add: outbox_moves_def list_all2_refl)

lemma outbox_moves_trans: "outbox_moves env a b \<Longrightarrow> outbox_moves env b c \<Longrightarrow> outbox_moves env a c"
  unfolding outbox_moves_def by (auto elim: list_all2_trans [rotated] intro: rtranclp_trans)

lemma delivery_steps_event: "(delivery_step env)\<^sup>*\<^sup>* r r' \<Longrightarrow> orow_event r' = orow_event r"
  by (induction rule: rtranclp_induct) (simp_all add: delivery_step_facts(1))

lemma delivery_steps_final: "(delivery_step env)\<^sup>*\<^sup>* r r' \<Longrightarrow> delivery_final r \<Longrightarrow> r' = r"
  by (induction rule: converse_rtranclp_induct) (auto dest: delivery_step_facts(2))

lemma delivery_steps_attempts: "(delivery_step env)\<^sup>*\<^sup>* r r' \<Longrightarrow> orow_attempts r \<le> orow_attempts r'"
  by (induction rule: rtranclp_induct) (auto dest: delivery_step_facts(3))

text \<open>What the updates keep: the events and their order.\<close>

lemma outbox_moves_events: "outbox_moves env db db' \<Longrightarrow> map orow_event (db_outbox db') = map orow_event (db_outbox db)"
  unfolding outbox_moves_def
  by (auto simp: list_all2_conv_all_nth delivery_steps_event intro!: nth_equalityI)

text \<open>What a successful completion did.\<close>

lemma outbox_finish_Inr:
  assumes "outbox_finish env ctx t u token assignment reason w = (Inr m, w')"
  obtains row where "row \<in> set (db_outbox (w_db w))" "orow_tenant row = t" "orow_id row = u"
    "orow_state row = OutboxClaimed" "orow_claim_token row = Some token"
    "outbox_scan ((assignment row)\<lparr>orow_last_error :=
      (case reason of None \<Rightarrow> orow_last_error row | Some given \<Rightarrow> Some given)\<rparr>) = Inr m"
    "outbox_moves env (w_db w) (w_db w')"
    "w_db w' = (w_db w)\<lparr>db_outbox := map (\<lambda>r. if orow_tenant r = t \<and> orow_id r = u \<and> orow_state r = OutboxClaimed \<and>
        orow_claim_token r = Some token
      then (assignment r)\<lparr>orow_last_error := (case reason of None \<Rightarrow> orow_last_error r | Some given \<Rightarrow> Some given)\<rparr>
      else r) (db_outbox (w_db w))\<rparr>"
proof -
  let ?p = "\<lambda>r. orow_tenant r = t \<and> orow_id r = u \<and> orow_state r = OutboxClaimed \<and> orow_claim_token r = Some token"
  let ?f = "\<lambda>r. (assignment r)\<lparr>orow_last_error := (case reason of None \<Rightarrow> orow_last_error r | Some given \<Rightarrow> Some given)\<rparr>"
  let ?body = "io_bind (io_exec env (\<lambda>_. outbox_unavailable) (update_outbox env ?p ?f)) (\<lambda>rows. case rows of
      [] \<Rightarrow> io_fail stale_claim | row # _ \<Rightarrow> io_lift outbox_unavailable (outbox_scan row))"
  from assms have "repository_tx env ctx t outbox_invalid_tenant outbox_unavailable ?body w = (Inr m, w')"
    unfolding outbox_finish_def io_guard_Inr outbox_tx_def by blast
  from repository_tx_Inr [OF balanced_finish_body this] obtain w1 w2
    where w1: "w_db w1 = w_db w" and w': "w_db w' = w_db w2" and run: "?body w1 = (Inr m, w2)" by blast
  from run obtain rows w3 where ex: "io_exec env (\<lambda>_. outbox_unavailable) (update_outbox env ?p ?f) w1 = (Inr rows, w3)"
    and cont: "(case rows of [] \<Rightarrow> io_fail stale_claim | row # _ \<Rightarrow> io_lift outbox_unavailable (outbox_scan row)) w3 = (Inr m, w2)"
    unfolding io_bind_Inr by blast
  from io_exec_Inr [OF ex] w1 have up: "update_outbox env ?p ?f (w_db w) = Inr (rows, w_db w3)" by simp
  from cont obtain row rest where rows: "rows = row # rest" "outbox_scan row = Inr m" "w_db w2 = w_db w3"
    by (auto simp: io_fail_def io_lift_Inr split: list.splits)
  from up have shape: "rows = map ?f (filter ?p (db_outbox (w_db w)))"
    "w_db w3 = (w_db w)\<lparr>db_outbox := map (\<lambda>r. if ?p r then ?f r else r) (db_outbox (w_db w))\<rparr>"
    unfolding update_outbox_Inr by blast+
  from rows(1) shape(1) have "row \<in> set (map ?f (filter ?p (db_outbox (w_db w))))" by (metis list.set_intros(1))
  then obtain old where old: "old \<in> set (db_outbox (w_db w))" "?p old" "row = ?f old" by auto
  have same: "w_db w' = w_db w3" using w' rows(3) by simp
  show thesis
  proof (rule that)
    show "old \<in> set (db_outbox (w_db w))" by (rule old(1))
    show "orow_tenant old = t" "orow_id old = u" "orow_state old = OutboxClaimed" "orow_claim_token old = Some token"
      using old(2) by blast+
    show "outbox_scan (?f old) = Inr m" using rows(2) unfolding old(3) .
    show "outbox_moves env (w_db w) (w_db w')" unfolding same by (rule update_outbox_moves [OF up])
    show "w_db w' = (w_db w)\<lparr>db_outbox := map (\<lambda>r. if ?p r then ?f r else r) (db_outbox (w_db w))\<rparr>"
      unfolding same by (rule shape(2))
  qed
qed

subsection \<open>Sequences\<close>

abbreviation orow_key :: "OutboxRow \<Rightarrow> UUID \<times> UUID" where
  "orow_key r \<equiv> (orow_tenant r, orow_id r)"

abbreviation orow_place :: "OutboxRow \<Rightarrow> UUID \<times> int" where
  "orow_place r \<equiv> (orow_tenant r, orow_sequence r)"

text \<open>
  The next sequence of a tenant. Messages have distinct identifiers and distinct sequences, each
  below the tenant's next one, and are stored in the order of their sequences.
\<close>

definition next_of :: "DB \<Rightarrow> UUID \<Rightarrow> int" where
  "next_of db t = (case find (\<lambda>s. srow_tenant s = t) (db_sequences db) of None \<Rightarrow> 1 | Some s \<Rightarrow> srow_next s)"

definition outbox_inv :: "DB \<Rightarrow> bool" where
  "outbox_inv db \<longleftrightarrow>
    distinct (map srow_tenant (db_sequences db)) \<and> (\<forall>s \<in> set (db_sequences db). 1 < srow_next s) \<and>
    distinct (map orow_key (db_outbox db)) \<and>
    sorted_wrt (\<lambda>r r'. orow_tenant r = orow_tenant r' \<longrightarrow> orow_sequence r < orow_sequence r') (db_outbox db) \<and>
    (\<forall>r \<in> set (db_outbox db). 0 < orow_sequence r \<and> orow_sequence r < next_of db (orow_tenant r))"

lemma outbox_inv_empty: "outbox_inv empty_DB"
  by (simp add: outbox_inv_def empty_DB_def)

lemma outbox_inv_cong:
  assumes "map orow_event (db_outbox db') = map orow_event (db_outbox db)" and "db_sequences db' = db_sequences db"
  shows "outbox_inv db' = outbox_inv db"
proof -
  have via: "map g (db_outbox db') = map g (db_outbox db)" if "\<And>r. g r = h (orow_event r)" for g :: "OutboxRow \<Rightarrow> 'x" and h
  proof -
    have "g = h \<circ> orow_event" using that by (simp add: fun_eq_iff)
    with arg_cong [OF assms(1), of "map h"] show ?thesis by simp
  qed
  have k: "map orow_key (db_outbox db') = map orow_key (db_outbox db)"
    by (rule via [of _ "\<lambda>((a, b, c), _). (a, b)"]) (simp add: orow_event_def)
  have p: "map orow_place (db_outbox db') = map orow_place (db_outbox db)"
    by (rule via [of _ "\<lambda>((a, b, c), _). (a, c)"]) (simp add: orow_event_def)
  have sorted: "sorted_wrt (\<lambda>r r'. orow_tenant r = orow_tenant r' \<longrightarrow> orow_sequence r < orow_sequence r') rs \<longleftrightarrow>
      sorted_wrt (\<lambda>a b. fst a = fst b \<longrightarrow> snd a < snd b) (map orow_place rs)" for rs
    by (simp add: sorted_wrt_map)
  have all: "(\<forall>r \<in> set rs. 0 < orow_sequence r \<and> orow_sequence r < next_of d (orow_tenant r)) \<longleftrightarrow>
      (\<forall>a \<in> set (map orow_place rs). 0 < snd a \<and> snd a < next_of d (fst a))" for rs d
    by simp
  have n: "next_of db' = next_of db" by (simp add: fun_eq_iff next_of_def assms(2))
  show ?thesis unfolding outbox_inv_def sorted all k p n assms(2) ..
qed

lemma outbox_inv_moves: "outbox_moves env db db' \<Longrightarrow> outbox_inv db' = outbox_inv db"
  by (rule outbox_inv_cong) (simp_all add: outbox_moves_events, simp add: outbox_moves_def)

lemma find_snoc: "find P (xs @ [x]) = (case find P xs of None \<Rightarrow> if P x then Some x else None | Some y \<Rightarrow> Some y)"
  by (induction xs) auto

lemma find_eq_Some: "distinct (map k xs) \<Longrightarrow> x \<in> set xs \<Longrightarrow> find (\<lambda>y. k y = k x) xs = Some x"
  by (induction xs) auto

text \<open>Allocation returns the next sequence and advances the counter of that tenant alone.\<close>

definition bump :: "UUID \<Rightarrow> SequenceRow \<Rightarrow> SequenceRow" where
  "bump t s = (if srow_tenant s = t then s\<lparr>srow_next := srow_next s + 1\<rparr> else s)"

lemma bump_simps [simp]: "srow_tenant (bump t s) = srow_tenant s"
  "srow_next (bump t s) = (if srow_tenant s = t then srow_next s + 1 else srow_next s)"
  by (simp_all add: bump_def)

lemma next_of_new:
  assumes "find (\<lambda>s. srow_tenant s = t) (db_sequences db) = None"
  shows "next_of (db\<lparr>db_sequences := db_sequences db @ [\<lparr>srow_tenant = t, srow_next = 2\<rparr>]\<rparr>) t' =
    (if t' = t then 2 else next_of db t')"
  using assms by (cases "t' = t") (simp_all add: next_of_def find_snoc split: option.splits)

lemma find_bump: "find (\<lambda>s. srow_tenant s = t') (map (bump t) rs) = map_option (bump t) (find (\<lambda>s. srow_tenant s = t') rs)"
  by (induction rs) auto

lemma next_of_bump:
  assumes "find (\<lambda>s. srow_tenant s = t) (db_sequences db) = Some s"
  shows "next_of (db\<lparr>db_sequences := map (bump t) (db_sequences db)\<rparr>) t' =
    (if t' = t then srow_next s + 1 else next_of db t')"
proof (cases "find (\<lambda>s. srow_tenant s = t') (db_sequences db)")
  case None
  with assms show ?thesis by (auto simp: next_of_def find_bump)
next
  case (Some r)
  then have "srow_tenant r = t'" by (auto simp: find_Some_iff)
  with assms Some show ?thesis by (auto simp: next_of_def find_bump)
qed

lemma allocate_sequence_cases:
  assumes inv: "outbox_inv db" and run: "allocate_sequence t db = Inr (Some n, db')"
  shows "n = next_of db t \<and> 0 < n \<and> n \<le> max_sequence \<and> (\<exists>seqs. db' = db\<lparr>db_sequences := seqs\<rparr> \<and>
    distinct (map srow_tenant seqs) \<and> (\<forall>s \<in> set seqs. 1 < srow_next s)) \<and>
    (\<forall>t'. next_of db' t' = (if t' = t then n + 1 else next_of db t'))"
proof (cases "find (\<lambda>s. srow_tenant s = t) (db_sequences db)")
  case None
  then have "t \<notin> srow_tenant ` set (db_sequences db)" by (auto simp: find_None_iff)
  with inv have "distinct (map srow_tenant (db_sequences db @ [\<lparr>srow_tenant = t, srow_next = 2\<rparr>]))"
    "\<forall>s \<in> set (db_sequences db @ [\<lparr>srow_tenant = t, srow_next = 2\<rparr>]). 1 < srow_next s"
    by (simp_all add: outbox_inv_def)
  moreover from None run have "n = 1" "db' = db\<lparr>db_sequences := db_sequences db @ [\<lparr>srow_tenant = t, srow_next = 2\<rparr>]\<rparr>"
    by (auto simp: allocate_sequence_def split: if_splits)
  moreover have "next_of db t = 1" using None by (simp add: next_of_def)
  ultimately show ?thesis using next_of_new [OF None]
    by (intro conjI exI [of _ "db_sequences db @ [\<lparr>srow_tenant = t, srow_next = 2\<rparr>]"]) (simp_all add: max_sequence_def)
next
  case (Some s)
  have "(\<lambda>s. if srow_tenant s = t then s\<lparr>srow_next := srow_next s + 1\<rparr> else s) = bump t"
    by (simp add: fun_eq_iff bump_def)
  with Some run have n: "n = srow_next s" "srow_next s < max_sequence"
    and db': "db' = db\<lparr>db_sequences := map (bump t) (db_sequences db)\<rparr>"
    by (auto simp: allocate_sequence_def split: if_splits)
  from Some have "s \<in> set (db_sequences db)" by (auto simp: find_Some_iff)
  with inv have "1 < srow_next s" by (simp add: outbox_inv_def)
  moreover have "next_of db t = srow_next s" using Some by (simp add: next_of_def)
  moreover have "distinct (map srow_tenant (map (bump t) (db_sequences db)))"
    using inv by (simp add: outbox_inv_def comp_def)
  moreover have "\<forall>s \<in> set (map (bump t) (db_sequences db)). 1 < srow_next s"
    using inv by (auto simp: outbox_inv_def)
  ultimately show ?thesis using n db' next_of_bump [OF Some]
    by (intro conjI exI [of _ "map (bump t) (db_sequences db)"]) simp_all
qed

lemma allocate_sequence_Inr:
  assumes inv: "outbox_inv db" and run: "allocate_sequence t db = Inr (Some n, db')"
  shows "n = next_of db t \<and> 0 < n \<and> n \<le> max_sequence \<and> outbox_inv db' \<and> (\<exists>seqs. db' = db\<lparr>db_sequences := seqs\<rparr>) \<and>
    (\<forall>t'. next_of db' t' = (if t' = t then n + 1 else next_of db t'))"
proof -
  from allocate_sequence_cases [OF assms] obtain seqs where n: "n = next_of db t" "0 < n" "n \<le> max_sequence"
    and db': "db' = db\<lparr>db_sequences := seqs\<rparr>" "distinct (map srow_tenant seqs)" "\<forall>s \<in> set seqs. 1 < srow_next s"
    and nx: "\<And>t'. next_of db' t' = (if t' = t then n + 1 else next_of db t')" by blast
  have "0 < orow_sequence r \<and> orow_sequence r < next_of db' (orow_tenant r)" if "r \<in> set (db_outbox db)" for r
  proof -
    from inv that have "0 < orow_sequence r \<and> orow_sequence r < next_of db (orow_tenant r)" by (simp add: outbox_inv_def)
    with n nx show ?thesis by auto
  qed
  with inv db' have "outbox_inv db'" by (simp add: outbox_inv_def)
  with n db'(1) nx show ?thesis by blast
qed

text \<open>Recording appends the message with the sequence allocated last.\<close>

lemma insert_outbox_Inr:
  assumes inv: "outbox_inv db" and run: "insert_outbox row db = Inr (u, db')" and pos: "0 < orow_sequence row"
  shows "orow_sequence row + 1 = next_of db (orow_tenant row) \<and> db' = db\<lparr>db_outbox := db_outbox db @ [row]\<rparr> \<and> outbox_inv db'"
proof -
  from run obtain s where s: "s \<in> set (db_sequences db)" "srow_tenant s = orow_tenant row" "srow_next s = orow_sequence row + 1"
    and key: "\<forall>r \<in> set (db_outbox db). orow_key r \<noteq> orow_key row"
    and place: "\<forall>r \<in> set (db_outbox db). orow_place r \<noteq> orow_place row"
    and db': "db' = db\<lparr>db_outbox := db_outbox db @ [row]\<rparr>"
    by (auto simp: insert_outbox_def split: if_splits)
  have d: "distinct (map srow_tenant (db_sequences db))" using inv unfolding outbox_inv_def by blast
  have nx: "next_of db (orow_tenant row) = orow_sequence row + 1"
    using find_eq_Some [OF d s(1)] s by (simp add: next_of_def)
  have below: "orow_sequence r < orow_sequence row" if "r \<in> set (db_outbox db)" "orow_tenant r = orow_tenant row" for r
  proof -
    from inv that(1) have "orow_sequence r < next_of db (orow_tenant r)" unfolding outbox_inv_def by blast
    with place that nx show ?thesis by fastforce
  qed
  have nx': "next_of db' = next_of db" by (simp add: fun_eq_iff next_of_def db')
  have "distinct (map orow_key (db_outbox db @ [row]))" using inv key unfolding outbox_inv_def by force
  moreover have "sorted_wrt (\<lambda>r r'. orow_tenant r = orow_tenant r' \<longrightarrow> orow_sequence r < orow_sequence r') (db_outbox db @ [row])"
    using inv below unfolding outbox_inv_def by (simp add: sorted_wrt_append)
  ultimately have "outbox_inv db'" using inv nx pos unfolding outbox_inv_def nx' by (simp add: db')
  with nx db' show ?thesis by simp
qed

subsection \<open>Claims\<close>

lemma bury_simps [simp]: "orow_event (bury env at r) = orow_event r" "orow_state (bury env at r) = OutboxDeadLetter"
  by (simp_all add: bury_def orow_event_def)

lemma exhausted_not_due: "exhausted t at r \<Longrightarrow> \<not> due t at r"
  by (simp add: exhausted_def due_def)

lemma due_after_bury:
  "filter (due t at) (map (\<lambda>r. if exhausted t at r then bury env at r else r) rs) = filter (due t at) rs"
  by (induction rs) (auto simp: exhausted_not_due, simp_all add: due_def)

lemma claim_candidates_bury:
  "claim_candidates t at n (db\<lparr>db_outbox := map (\<lambda>r. if exhausted t at r then bury env at r else r) (db_outbox db)\<rparr>) =
    claim_candidates t at n db"
  by (simp add: claim_candidates_def due_after_bury)

text \<open>The messages a claim leases: the first due ones of the tenant.\<close>

definition first_due :: "UUID \<Rightarrow> Time \<Rightarrow> nat \<Rightarrow> DB \<Rightarrow> OutboxRow list" where
  "first_due t at n db = take n (sort_key orow_sequence (filter (due t at) (db_outbox db)))"

lemma claim_candidates_first_due: "claim_candidates t at n db = map orow_id (first_due t at n db)"
  by (simp add: claim_candidates_def first_due_def)

lemma set_first_due: "r \<in> set (first_due t at n db) \<Longrightarrow> r \<in> set (db_outbox db) \<and> due t at r"
  by (auto simp: first_due_def dest!: in_set_takeD)

lemma chosen_are_due:
  assumes inv: "distinct (map orow_key (db_outbox db))"
  shows "set (filter (\<lambda>r. orow_tenant r = t \<and> orow_id r \<in> set (claim_candidates t at n db)) (db_outbox db)) =
    set (first_due t at n db)" (is "set ?chosen = _")
proof (intro equalityI subsetI)
  fix r assume "r \<in> set ?chosen"
  then obtain q where r: "r \<in> set (db_outbox db)" "orow_tenant r = t" and q: "q \<in> set (first_due t at n db)"
    "orow_id q = orow_id r"
    by (auto simp: claim_candidates_first_due)
  from set_first_due [OF q(1)] have "q \<in> set (db_outbox db)" "orow_tenant q = t" by (auto simp: due_def)
  with r q(2) inv have "q = r" by (auto simp: distinct_map inj_on_def)
  with q show "r \<in> set (first_due t at n db)" by simp
next
  fix r assume r: "r \<in> set (first_due t at n db)"
  with set_first_due [OF r] show "r \<in> set ?chosen" by (auto simp: claim_candidates_first_due due_def)
qed

text \<open>A scanned row and its message.\<close>

lemma scan_option_Inr: "scan_option parse v = Inr x \<longleftrightarrow> (case v of None \<Rightarrow> x = None | Some c \<Rightarrow> \<exists>y. parse c = Inr y \<and> x = Some y)"
  by (auto simp: scan_option_def split: option.splits sum.splits)

lemma outbox_scan_Inr:
  assumes "outbox_scan r = Inr m"
  shows "msg_tenantID m = orow_tenant r" "msg_id m = orow_id r" "int (msg_sequence m) = orow_sequence r"
    "msg_payload m = orow_payload r" "Digest_String (msg_payloadDigest m) = orow_digest r"
    "msg_state m = orow_state r" "int (msg_attempts m) = orow_attempts r" "msg_availableAt m = orow_available_at r"
    "msg_claimToken m = orow_claim_token r" "msg_claimedBy m = coalesce (orow_claimed_by r)"
    "msg_claimedAt m = orow_claimed_at r" "msg_leaseExpiresAt m = orow_lease_expires_at r"
    "msg_deliveredAt m = orow_delivered_at r" "msg_retainUntil m = orow_retain_until r"
    "msg_createdAt m = orow_created_at r" "msg_source m = orow_source r" "msg_subject m = orow_subject r"
    "ReasonCode_String (msg_eventType m) = orow_type r" "event_ok m" "delivery_ok m"
    "map_option ReasonCode_String (msg_lastError m) = orow_last_error r"
proof -
  from assms obtain d tok reason where d: "scan_digest (orow_digest r) = Inr d"
    and tok: "scan_option scan_uuid (orow_claim_token r) = Inr tok"
    and reason: "scan_option scan_reason (orow_last_error r) = Inr reason"
    and u: "scan_uuid (orow_tenant r) = Inr (orow_tenant r)" "scan_uuid (orow_id r) = Inr (orow_id r)"
    and range: "1 \<le> orow_sequence r" "0 \<le> orow_attempts r"
    and res: "Outbox_Restore (orow_tenant r) (orow_id r) (nat (orow_sequence r)) (orow_source r) (orow_type r)
      (orow_subject r) (orow_payload r) d (orow_state r) (nat (orow_attempts r)) (orow_available_at r)
      tok (coalesce (orow_claimed_by r)) (orow_claimed_at r) (orow_lease_expires_at r) reason
      (orow_delivered_at r) (orow_dead_lettered_at r) (orow_retain_until r) (orow_created_at r) = Inr m"
    by (auto simp: outbox_scan_def bindE_Inr_iff scan_uuid_valid split: if_splits)
  from tok have t: "tok = orow_claim_token r" by (auto simp: scan_option_Inr scan_uuid_valid split: option.splits)
  from d have dg: "Digest_String d = orow_digest r" by (simp add: scan_digest_Inr)
  from reason have rs: "map_option ReasonCode_String reason = orow_last_error r"
    by (auto simp: scan_option_Inr scan_reason_Inr NewReasonCode_String split: option.splits)
  from res [unfolded Outbox_Restore_Inr] have ok: "event_ok m" "delivery_ok m" "ReasonCode_String (msg_eventType m) = orow_type r"
    and m: "m = \<lparr>msg_tenantID = orow_tenant r, msg_id = orow_id r, msg_sequence = nat (orow_sequence r), msg_source = orow_source r,
      msg_eventType = msg_eventType m, msg_subject = orow_subject r, msg_payload = orow_payload r,
      msg_payloadDigest = d, msg_state = orow_state r, msg_attempts = nat (orow_attempts r),
      msg_availableAt = orow_available_at r, msg_claimToken = tok, msg_claimedBy = coalesce (orow_claimed_by r),
      msg_claimedAt = orow_claimed_at r, msg_leaseExpiresAt = orow_lease_expires_at r, msg_lastError = reason,
      msg_deliveredAt = orow_delivered_at r, msg_deadLetteredAt = orow_dead_lettered_at r,
      msg_retainUntil = orow_retain_until r, msg_createdAt = orow_created_at r\<rparr>" (is "m = ?m") by blast+
  show "event_ok m" "delivery_ok m" "ReasonCode_String (msg_eventType m) = orow_type r" by (rule ok)+
  show "msg_tenantID m = orow_tenant r" "msg_id m = orow_id r" "int (msg_sequence m) = orow_sequence r"
    "msg_payload m = orow_payload r" "Digest_String (msg_payloadDigest m) = orow_digest r"
    "msg_state m = orow_state r" "int (msg_attempts m) = orow_attempts r" "msg_availableAt m = orow_available_at r"
    "msg_claimToken m = orow_claim_token r" "msg_claimedBy m = coalesce (orow_claimed_by r)"
    "msg_claimedAt m = orow_claimed_at r" "msg_leaseExpiresAt m = orow_lease_expires_at r"
    "msg_deliveredAt m = orow_delivered_at r" "msg_retainUntil m = orow_retain_until r"
    "msg_createdAt m = orow_created_at r" "msg_source m = orow_source r" "msg_subject m = orow_subject r"
    "map_option ReasonCode_String (msg_lastError m) = orow_last_error r"
    using range dg t rs by (subst m, simp)+
qed

lemma OutboxRepository_Claim_Inr:
  assumes run: "OutboxRepository_Claim env ctx t worker token at lease limit w = (Inr ms, w')"
  obtains vs where
    "0 < lease" "lease \<le> MaxLease" "1 \<le> limit" "limit \<le> MaxClaimBatch"
    "outbox_moves env (w_db w) (w_db w')"
    "scan_all outbox_scan (map (lease_row worker token (env_store_time env at) lease)
      (filter (\<lambda>r. orow_tenant r = t \<and> orow_id r \<in> set (claim_candidates t (env_store_time env at) (nat limit) (w_db w)))
        (map (\<lambda>r. if exhausted t (env_store_time env at) r then bury env (env_store_time env at) r else r)
          (db_outbox (w_db w))))) = Inr vs"
    "ms = sort_key msg_sequence vs"
proof -
  let ?at = "env_store_time env at"
  let ?body = "io_bind (io_exec env (\<lambda>_. outbox_unavailable) (update_outbox env (exhausted t ?at) (bury env ?at))) (\<lambda>_.
        io_bind (io_exec env (\<lambda>_. outbox_unavailable) (claim_messages env t worker token ?at lease (nat limit))) (\<lambda>rows.
        io_bind (io_lift outbox_unavailable (scan_all outbox_scan rows)) (\<lambda>values.
        io_return (sort_key msg_sequence values))))"
  from run have guards: "0 < lease" "lease \<le> MaxLease" "1 \<le> limit" "limit \<le> MaxClaimBatch"
    and tx: "repository_tx env ctx t outbox_invalid_tenant outbox_unavailable ?body w = (Inr ms, w')"
    unfolding OutboxRepository_Claim_def io_guard_Inr outbox_tx_def Let_def by auto
  from repository_tx_Inr [OF balanced_claim_body tx] obtain w1 w2
    where w1: "w_db w1 = w_db w" and w': "w_db w' = w_db w2" and body: "?body w1 = (Inr ms, w2)" by blast
  from body obtain x w3 rows w4 vs where
    e1: "io_exec env (\<lambda>_. outbox_unavailable) (update_outbox env (exhausted t ?at) (bury env ?at)) w1 = (Inr x, w3)"
    and e2: "io_exec env (\<lambda>_. outbox_unavailable) (claim_messages env t worker token ?at lease (nat limit)) w3 = (Inr rows, w4)"
    and sc: "scan_all outbox_scan rows = Inr vs" and ms: "ms = sort_key msg_sequence vs" and w2: "w_db w2 = w_db w4"
    unfolding io_bind_Inr io_lift_Inr io_return_def by blast
  from io_exec_Inr [OF e1] w1 have u1: "update_outbox env (exhausted t ?at) (bury env ?at) (w_db w) = Inr (x, w_db w3)" by simp
  then have mid: "w_db w3 = (w_db w)\<lparr>db_outbox := map (\<lambda>r. if exhausted t ?at r then bury env ?at r else r) (db_outbox (w_db w))\<rparr>"
    unfolding update_outbox_Inr by blast
  from io_exec_Inr [OF e2] have u2: "update_outbox env (\<lambda>r. orow_tenant r = t \<and>
      orow_id r \<in> set (claim_candidates t ?at (nat limit) (w_db w3))) (lease_row worker token ?at lease) (w_db w3) = Inr (rows, w_db w4)"
    unfolding claim_messages_def Let_def .
  have cand: "claim_candidates t ?at (nat limit) (w_db w3) = claim_candidates t ?at (nat limit) (w_db w)"
    unfolding mid by (rule claim_candidates_bury)
  from u2 have rows: "rows = map (lease_row worker token ?at lease)
      (filter (\<lambda>r. orow_tenant r = t \<and> orow_id r \<in> set (claim_candidates t ?at (nat limit) (w_db w)))
        (map (\<lambda>r. if exhausted t ?at r then bury env ?at r else r) (db_outbox (w_db w))))"
    unfolding update_outbox_Inr cand by (simp add: mid)
  from outbox_moves_trans [OF update_outbox_moves [OF u1] update_outbox_moves [OF u2]]
  have "outbox_moves env (w_db w) (w_db w')" unfolding w' w2 .
  with guards sc ms show thesis unfolding rows by (intro that) assumption+
qed

text \<open>A message as its lease leaves it.\<close>

definition leased_to :: "string \<Rightarrow> UUID \<Rightarrow> Time \<Rightarrow> Duration \<Rightarrow> Message \<Rightarrow> bool" where
  "leased_to worker token at lease m \<longleftrightarrow>
    msg_state m = OutboxClaimed \<and> msg_claimToken m = Some token \<and> msg_claimedBy m = worker \<and>
    msg_claimedAt m = Some at \<and> msg_leaseExpiresAt m = Some (at + lease div 1000 * 1000)"

lemma lease_row_simps [simp]:
  "orow_id (lease_row w k at l r) = orow_id r" "orow_state (lease_row w k at l r) = OutboxClaimed"
  "orow_claim_token (lease_row w k at l r) = Some k" "orow_claimed_by (lease_row w k at l r) = Some w"
  "orow_claimed_at (lease_row w k at l r) = Some at"
  "orow_lease_expires_at (lease_row w k at l r) = Some (at + l div 1000 * 1000)"
  by (simp_all add: lease_row_def)

lemma filter_chosen_bury:
  assumes inv: "distinct (map orow_key rs)" and "rs = db_outbox db"
  shows "filter (\<lambda>r. orow_tenant r = t \<and> orow_id r \<in> set (claim_candidates t at n db))
      (map (\<lambda>r. if exhausted t at r then bury env at r else r) rs) =
    filter (\<lambda>r. orow_tenant r = t \<and> orow_id r \<in> set (claim_candidates t at n db)) rs"
    (is "filter ?P (map ?g rs) = filter ?P rs")
proof -
  have same: "?g r = r" if "r \<in> set rs" "?P r" for r
  proof -
    have "r \<in> set (first_due t at n db)"
      using chosen_are_due [of db t at n] inv assms(2) that by auto
    with set_first_due show ?thesis using exhausted_not_due by fastforce
  qed
  have key: "?P (?g r) = ?P r" for r by (simp add: bury_def)
  from same show ?thesis
  proof (induction rs)
    case (Cons r rs)
    then have "filter ?P (map ?g rs) = filter ?P rs" by simp
    moreover have "?P r \<Longrightarrow> ?g r = r" using Cons.prems by simp
    ultimately show ?case using key [of r] by (cases "?P r") simp_all
  qed simp
qed

lemma claim_exact:
  assumes inv: "outbox_inv (w_db w)"
    and run: "OutboxRepository_Claim env ctx t worker token at lease limit w = (Inr ms, w')"
  shows "mset (map msg_id ms) = mset (map orow_id (first_due t (env_store_time env at) (nat limit) (w_db w))) \<and>
    sorted (map msg_sequence ms) \<and>
    list_all (leased_to worker token (env_store_time env at) lease) ms \<and>
    outbox_moves env (w_db w) (w_db w')"
proof -
  let ?at = "env_store_time env at" and ?D = "db_outbox (w_db w)"
  let ?P = "\<lambda>r. orow_tenant r = t \<and> orow_id r \<in> set (claim_candidates t ?at (nat limit) (w_db w))"
  have keys: "distinct (map orow_key ?D)" using inv by (simp add: outbox_inv_def)
  from OutboxRepository_Claim_Inr [OF run] obtain vs where moves: "outbox_moves env (w_db w) (w_db w')"
    and sc: "scan_all outbox_scan (map (lease_row worker token ?at lease) (filter ?P ?D)) = Inr vs"
    and ms: "ms = sort_key msg_sequence vs"
    unfolding filter_chosen_bury [OF keys refl] by blast
  from sc have l2: "list_all2 (\<lambda>r v. outbox_scan (lease_row worker token ?at lease r) = Inr v) (filter ?P ?D) vs"
    by (simp add: scan_all_Inr list_all2_map1)
  have ids: "map msg_id vs = map orow_id (filter ?P ?D)"
    using l2 by (induction rule: list_all2_induct) (simp_all add: outbox_scan_Inr(2))
  have leased: "list_all (leased_to worker token ?at lease) vs"
    using l2 by (induction rule: list_all2_induct) (simp_all add: leased_to_def outbox_scan_Inr coalesce_def)
  have "distinct ?D" using keys by (simp add: distinct_map)
  then have d: "distinct (filter ?P ?D)" "distinct (first_due t ?at (nat limit) (w_db w))"
    by (simp_all add: first_due_def distinct_filter)
  from chosen_are_due [OF keys] have "mset (filter ?P ?D) = mset (first_due t ?at (nat limit) (w_db w))"
    by (rule iffD1 [OF set_eq_iff_mset_eq_distinct [OF d]])
  then have due: "mset (map orow_id (filter ?P ?D)) = mset (map orow_id (first_due t ?at (nat limit) (w_db w)))"
    by simp
  show ?thesis
  proof (intro conjI)
    show "mset (map msg_id ms) = mset (map orow_id (first_due t ?at (nat limit) (w_db w)))"
      unfolding due [symmetric] ids [symmetric] ms by simp
    show "sorted (map msg_sequence ms)" by (simp add: ms)
    show "list_all (leased_to worker token ?at lease) ms" using leased by (simp add: ms list_all_iff)
    show "outbox_moves env (w_db w) (w_db w')" by (rule moves)
  qed
qed

end
