(* ===== verification/Delegation_Events.thy ===== *)
theory Delegation_Events
  imports Outbox Json_Roundtrip Namespaces
begin

text \<open>
  The events \<open>DelegationService.recordEvent\<close> composes, and what \<open>outbox.New\<close> reads in them: every
  payload the service writes is accepted.
\<close>

subsection \<open>The event of a delegation\<close>

text \<open>\<open>json.Marshal\<close> writes the members of a map in the byte order of their keys.\<close>

definition json_map :: "(string \<times> json) list \<Rightarrow> json" where
  "json_map ms = JObject (sort_key fst ms)"

definition delegation_event_type :: "string \<Rightarrow> string" where
  "delegation_event_type previousState =
    (if previousState \<noteq> [] then ''io.thinkpixel.mp.namespace.delegation-revoked.v1''
     else ''io.thinkpixel.mp.namespace.delegated.v1'')"

definition delegation_event_data :: "Delegation \<Rightarrow> nat \<Rightarrow> string \<Rightarrow> string \<Rightarrow> string \<Rightarrow> json" where
  "delegation_event_data d sequence previousState currentState reason = json_map
    ([(''tenant_id'', JString (UUID_String (del_tenantID d))),
      (''transaction_cursor'', JString (show_int (int sequence))),
      (''namespace_id'', JString (UUID_String (del_namespaceID d))),
      (''delegation_id'', JString (UUID_String (del_id d))),
      (''publisher_id'', JString (UUID_String (del_publisherID d))),
      (''current_state'', JString currentState)] @
     (if previousState \<noteq> [] then [(''previous_state'', JString previousState), (''reason_code'', JString reason)]
      else []))"

definition delegation_event ::
  "string \<Rightarrow> UUID \<Rightarrow> string \<Rightarrow> Delegation \<Rightarrow> nat \<Rightarrow> string \<Rightarrow> string \<Rightarrow> string \<Rightarrow> json" where
  "delegation_event source eventID stamp d sequence previousState currentState reason = json_map
    [(''specversion'', JString ''1.0''), (''id'', JString (UUID_String eventID)), (''source'', JString source),
     (''type'', JString (delegation_event_type previousState)), (''subject'', JString (UUID_String (del_id d))),
     (''time'', JString stamp), (''datacontenttype'', JString DataContentType),
     (''sequence'', JNumber (show_int (int sequence))),
     (''data'', delegation_event_data d sequence previousState currentState reason)]"

text \<open>The only failure of the encoder is a year \<open>time.Time\<close> does not write.\<close>

definition delegation_payload ::
  "string \<Rightarrow> UUID \<Rightarrow> Time \<Rightarrow> Delegation \<Rightarrow> nat \<Rightarrow> string \<Rightarrow> string \<Rightarrow> string \<Rightarrow> string option" where
  "delegation_payload source eventID now d sequence previousState currentState reason =
    map_option (\<lambda>stamp. json_encode (delegation_event source eventID stamp d sequence previousState currentState reason))
      (time_marshal now)"


subsection \<open>Plain documents\<close>

text \<open>Characters \<open>json.Marshal\<close> writes as they are.\<close>

definition plain_char :: "char \<Rightarrow> bool" where
  "plain_char c \<longleftrightarrow> 0x20 \<le> code c \<and> code c < 0x7F \<and> code c \<notin> {0x22, 0x5C, 0x3C, 0x3E, 0x26}"

abbreviation plain :: "string \<Rightarrow> bool" where
  "plain s \<equiv> list_all plain_char s"

lemma decode_rune_plain: "plain_char c \<Longrightarrow> decode_rune (c # s) = Some (code c, 1)"
  by (simp add: plain_char_def decode_rune_def)

lemma json_escape_plain: "plain s \<Longrightarrow> json_escape s = s"
proof (induction s)
  case Nil
  then show ?case by (simp add: json_escape.simps)
next
  case (Cons c s)
  then show ?case
    by (subst json_escape.simps) (auto simp: decode_rune_plain escape_ascii_def plain_char_def)
qed

lemma utf8_valid_plain: "plain s \<Longrightarrow> utf8_valid s"
  by (induction s) (auto simp: plain_char_def)

text \<open>A document whose keys and strings are plain.\<close>

fun plain_json :: "json \<Rightarrow> bool" where
  "plain_json JNull = True"
| "plain_json (JBool b) = True"
| "plain_json (JNumber literal) = (\<exists>i. literal = show_int i)"
| "plain_json (JString s) = plain s"
| "plain_json (JArray vs) = list_all plain_json vs"
| "plain_json (JObject ms) = list_all (\<lambda>m. plain (fst m) \<and> plain_json (snd m)) ms"

lemma plain_json_ok: "plain_json v \<Longrightarrow> json_ok v"
  by (induction v) (auto simp: list_all_iff utf8_valid_plain)

definition unescaped :: "string \<Rightarrow> bool" where
  "unescaped s \<longleftrightarrow> list_all (\<lambda>c. code c \<noteq> 0x5C) s"

lemma raw_strings_unescaped: "unescaped s \<Longrightarrow> raw_strings s = s"
  by (induction s) (auto simp: unescaped_def)

lemma unescaped_simps [simp]:
  "unescaped []" "unescaped (c # s) \<longleftrightarrow> code c \<noteq> 0x5C \<and> unescaped s" "unescaped (s @ s') \<longleftrightarrow> unescaped s \<and> unescaped s'"
  by (simp_all add: unescaped_def)

lemma unescaped_join: "code c \<noteq> 0x5C \<Longrightarrow> list_all unescaped ss \<Longrightarrow> unescaped (join_with c ss)"
  by (induction c ss rule: join_with.induct) auto

lemma unescaped_plain: "plain s \<Longrightarrow> unescaped s"
  by (auto simp: unescaped_def list_all_iff plain_char_def)

lemma plain_digits: "list_all is_digit s \<Longrightarrow> plain s"
  by (auto simp: list_all_iff plain_char_def is_digit_def less_eq_char_def)

lemma plain_show_int: "plain (show_int i)"
  using dec_digits_spec [of "nat i"] dec_digits_spec [of "nat (- i)"]
  by (auto simp: show_int_def plain_digits plain_char_def)

lemma plain_json_unescaped: "plain_json v \<Longrightarrow> unescaped (json_encode v)"
proof (induction v)
  case (JArray vs)
  then show ?case by (auto simp: list_all_iff intro!: unescaped_join)
next
  case (JObject ms)
  then show ?case
    by (fastforce simp: list_all_iff json_quote_def json_escape_plain unescaped_plain intro!: unescaped_join)
next
  case (JNumber literal)
  then show ?case by (auto simp: unescaped_plain plain_show_int)
qed (auto simp: json_quote_def json_escape_plain unescaped_plain)

subsection \<open>The members in their order\<close>

lemma delegation_event_data_created:
  "delegation_event_data d sequence [] currentState reason = JObject
    [(''current_state'', JString currentState), (''delegation_id'', JString (UUID_String (del_id d))),
     (''namespace_id'', JString (UUID_String (del_namespaceID d))),
     (''publisher_id'', JString (UUID_String (del_publisherID d))),
     (''tenant_id'', JString (UUID_String (del_tenantID d))),
     (''transaction_cursor'', JString (show_int (int sequence)))]"
  by (simp add: delegation_event_data_def json_map_def less_char_def)

lemma delegation_event_data_revoked:
  "previousState \<noteq> [] \<Longrightarrow> delegation_event_data d sequence previousState currentState reason = JObject
    [(''current_state'', JString currentState), (''delegation_id'', JString (UUID_String (del_id d))),
     (''namespace_id'', JString (UUID_String (del_namespaceID d))), (''previous_state'', JString previousState),
     (''publisher_id'', JString (UUID_String (del_publisherID d))), (''reason_code'', JString reason),
     (''tenant_id'', JString (UUID_String (del_tenantID d))),
     (''transaction_cursor'', JString (show_int (int sequence)))]"
  by (simp add: delegation_event_data_def json_map_def less_char_def)

lemma delegation_event_members:
  "delegation_event source eventID stamp d sequence previousState currentState reason = JObject
    [(''data'', delegation_event_data d sequence previousState currentState reason),
     (''datacontenttype'', JString DataContentType), (''id'', JString (UUID_String eventID)),
     (''sequence'', JNumber (show_int (int sequence))), (''source'', JString source),
     (''specversion'', JString ''1.0''), (''subject'', JString (UUID_String (del_id d))),
     (''time'', JString stamp), (''type'', JString (delegation_event_type previousState))]"
  by (simp add: delegation_event_def json_map_def less_char_def)

subsection \<open>Plain fields\<close>

lemma plain_hex: "plain (hex_encode bs)"
proof (induction bs)
  case (Cons c bs)
  have "code c div 16 < 16" using code_less_256 [of c] by (simp add: less_mult_imp_div_less)
  moreover have "plain_char (hex_digit n)" if "n < 16" for n using that by (auto simp: plain_char_def code_hex_digit)
  ultimately show ?case using Cons by simp
qed simp

lemma plain_UUID_String: "plain (UUID_String u)"
  by (rule UUID_String_parts [of u]) (simp add: plain_hex, simp add: plain_char_def)

lemma plain_reason:
  assumes "NewReasonCode s = Inr r"
  shows "plain s \<and> length s \<le> 128"
proof -
  have "plain_char c" if "is_lower_alnum c \<or> c = CHR ''.'' \<or> c = CHR ''_'' \<or> c = CHR ''-''" for c
    using that by (auto simp: plain_char_def char_class_defs)
  then show ?thesis using assms by (auto simp: NewReasonCode_iff rx_reason_code_def matches_token list_all_iff)
qed

lemma plain_dig: "n < 10 \<Longrightarrow> plain_char (dig n)"
  by (simp add: plain_char_def dig_simps)

lemma plain_pads: "n < 100 \<Longrightarrow> plain (pad2 n)" "n \<le> 9999 \<Longrightarrow> plain (pad4 n)"
  by (simp_all add: pad2_def pad4_def plain_dig)

lemma plain_fraction: "plain (show_fraction ns) \<and> length (show_fraction ns) \<le> 10"
proof -
  obtain k where k: "pad9 ns = trim_zeros (pad9 ns) @ replicate k (CHR ''0'')" using trim_zeros_append by blast
  have "plain (pad9 ns)" by (rule plain_digits [OF pad9_digits])
  with k have "plain (trim_zeros (pad9 ns))" by (metis list_all_append)
  moreover have "length (trim_zeros (pad9 ns)) \<le> 9" using arg_cong [OF k, of length] by (simp add: length_pad9)
  ultimately show ?thesis by (simp add: show_fraction_def plain_char_def)
qed

lemma plain_stamp:
  assumes "time_marshal t = Some s"
  shows "plain s \<and> length s \<le> 30"
  by (rule time_marshal_parts [OF assms])
    (use clock_parts plain_fraction in \<open>simp add: show_clock_def plain_pads plain_char_def, simp add: pad2_def pad4_def\<close>)

lemma length_dec_digits: "0 < k \<Longrightarrow> n < 10 ^ k \<Longrightarrow> length (dec_digits n) \<le> k"
proof (induction k arbitrary: n)
  case (Suc k)
  show ?case
  proof (cases "n < 10")
    case False
    with Suc.prems have "0 < k" "n div 10 < 10 ^ k" by (cases k; simp)+
    with Suc.IH have "length (dec_digits (n div 10)) \<le> k" by blast
    with False show ?thesis by (subst dec_digits.simps) simp
  qed (subst dec_digits.simps, simp)
qed simp

lemma length_show_sequence: "n < 2 ^ 63 \<Longrightarrow> show_int (int n) \<noteq> [] \<and> length (show_int (int n)) \<le> 19"
  using length_dec_digits [of 19 n] dec_digits_spec [of n] by (simp add: show_int_def)

lemma has_control_plain: "plain s \<Longrightarrow> \<not> has_control s"
  by (induction s) (auto simp: has_control_def plain_char_def is_control_def)

lemma validateText_plain: "plain s \<Longrightarrow> s \<noteq> [] \<Longrightarrow> int (length s) \<le> n \<Longrightarrow> n \<le> 4096 \<Longrightarrow> validateText s n"
proof -
  assume "plain s" "s \<noteq> []" "int (length s) \<le> n" "n \<le> 4096"
  then have "NewBoundedString s n = Inr (BoundedString s)"
    by (cases s) (auto simp: NewBoundedString_iff text_ok_def utf8_valid_plain has_control_plain)
  then show ?thesis by (simp add: validateText_def)
qed

subsection \<open>Acceptance\<close>

lemma decode_envelope_plain:
  assumes "plain_json (JObject ms)" "nesting (JObject ms) \<le> max_nesting"
  shows "json_parse (json_encode (JObject ms)) = Some (JObject ms)"
    "decode_envelope (json_encode (JObject ms)) = store_envelopes (zip ms (map snd ms)) zero_envelope"
proof -
  have ok: "json_ok (JObject ms)" by (rule plain_json_ok [OF assms(1)])
  then show "json_parse (json_encode (JObject ms)) = Some (JObject ms)" by (rule json_parse_encode [OF _ assms(2)])
  have first: "json_decode_first (json_encode (JObject ms)) = Some (JObject ms, [])"
    using json_decode_encode [OF ok assms(2), of "[]"] by simp
  have "raw_strings (json_encode (JObject ms)) = json_encode (JObject ms)"
    by (rule raw_strings_unescaped [OF plain_json_unescaped [OF assms(1)]])
  with first show "decode_envelope (json_encode (JObject ms)) = store_envelopes (zip ms (map snd ms)) zero_envelope"
    unfolding decode_envelope_def raw_members_def by simp
qed

text \<open>The transitions a delegation event announces.\<close>

definition announces :: "string \<Rightarrow> string \<Rightarrow> string \<Rightarrow> bool" where
  "announces previousState currentState reason \<longleftrightarrow>
    previousState = [] \<and> currentState = ''active'' \<or>
    previousState = ''active'' \<and> currentState = ''revoked'' \<and> is_ok (NewReasonCode reason)"

definition delegation_data_members :: "Delegation \<Rightarrow> nat \<Rightarrow> string \<Rightarrow> string \<Rightarrow> string \<Rightarrow> (string \<times> json) list" where
  "delegation_data_members d sequence previousState currentState reason =
    (case delegation_event_data d sequence previousState currentState reason of JObject ms \<Rightarrow> ms | _ \<Rightarrow> [])"

lemma delegation_data_object:
  "delegation_event_data d sequence previousState currentState reason =
    JObject (delegation_data_members d sequence previousState currentState reason)"
  by (simp add: delegation_data_members_def delegation_event_data_def json_map_def)

lemma plain_delegation_data:
  assumes "announces previousState currentState reason"
  shows "plain_json (delegation_event_data d sequence previousState currentState reason)"
    and "nesting (delegation_event_data d sequence previousState currentState reason) = 1"
  using assms by (auto simp: announces_def delegation_event_data_created delegation_event_data_revoked plain_UUID_String
      plain_show_int plain_char_def is_ok_def dest: plain_reason split: sum.splits)

lemma validate_delegation_data:
  assumes "announces previousState currentState reason"
    and "valid_uuid (del_tenantID d)" "valid_uuid (del_namespaceID d)" "valid_uuid (del_id d)" "valid_uuid (del_publisherID d)"
  shows "validateEventData (delegation_event_type previousState)
    (delegation_data_members d sequence previousState currentState reason) = Inr ()"
proof (cases "previousState = []")
  case True
  with assms show ?thesis
    by (simp add: announces_def delegation_data_members_def delegation_event_data_created delegation_event_type_def
        validateEventData_def eventDataSpecs_def bindE_def check_if_present_def check_present_def check_text_def
        rawString_def decode_string_def ParseUUID_String)
next
  case False
  with assms show ?thesis
    by (simp add: announces_def delegation_data_members_def delegation_event_data_revoked delegation_event_type_def
        validateEventData_def eventDataSpecs_def bindE_def check_if_present_def check_present_def check_text_def
        rawString_def decode_string_def ParseUUID_String)
qed

text \<open>What the envelope decoder stores, member by member.\<close>

lemma store_delegation_envelope:
  assumes ev: "delegation_event source eventID stamp d sequence previousState currentState reason = JObject ms"
    and stamp: "parse_rfc3339 stamp = Some now" and "sequence < 2 ^ 63"
    and "announces previousState currentState reason"
  shows "store_envelopes (zip ms (map snd ms)) zero_envelope = Some
    \<lparr>evl_SpecVersion = ''1.0'', evl_ID = UUID_String eventID, evl_Source = source,
     evl_Type = delegation_event_type previousState, evl_Subject = UUID_String (del_id d), evl_Time = now,
     evl_DataContentType = DataContentType, evl_Sequence = int sequence,
     evl_Data = delegation_data_members d sequence previousState currentState reason\<rparr>"
proof -
  let ?data = "delegation_data_members d sequence previousState currentState reason"
  have keys: "fold put_member ?data [] = ?data"
    using assms(4) by (auto simp: announces_def delegation_data_members_def delegation_event_data_created
        delegation_event_data_revoked put_member_def)
  have seq: "decode_uint64 old (JNumber (show_int (int sequence))) = Some (int sequence)" for old
    using parse_int_show_int [of 0 "int sequence" "2 ^ 64 - 1"] dec_digits_not_minus [of sequence] assms(3)
    by (simp add: decode_uint64_def show_int_def)
  from ev have ms: "ms = [(''data'', JObject ?data), (''datacontenttype'', JString DataContentType),
      (''id'', JString (UUID_String eventID)), (''sequence'', JNumber (show_int (int sequence))),
      (''source'', JString source), (''specversion'', JString ''1.0''), (''subject'', JString (UUID_String (del_id d))),
      (''time'', JString stamp), (''type'', JString (delegation_event_type previousState))]"
    by (simp add: delegation_event_members delegation_data_object)
  show ?thesis
    unfolding ms
    by (simp add: store_envelope_def select_field_def envelope_fields_def zero_envelope_def decode_map_def keys
        decode_string_def decode_time_def stamp seq)
qed

text \<open>The identifiers a delegation event carries.\<close>

definition wf_event_ids :: "UUID \<Rightarrow> Delegation \<Rightarrow> bool" where
  "wf_event_ids eventID d \<longleftrightarrow> valid_uuid eventID \<and> valid_uuid (del_tenantID d) \<and> valid_uuid (del_namespaceID d) \<and>
    valid_uuid (del_id d) \<and> valid_uuid (del_publisherID d)"

lemma validate_delegation_envelope:
  assumes ids: "wf_event_ids eventID d" and ann: "announces previousState currentState reason"
    and seq: "sequence < 2 ^ 63" and stamp: "time_marshal now = Some stamp"
    and payload: "delegation_event source eventID stamp d sequence previousState currentState reason = JObject ms"
      "plain_json (JObject ms)" "nesting (JObject ms) \<le> max_nesting"
  shows "validateEnvelope (json_encode (JObject ms)) (del_tenantID d) eventID sequence source
    (delegation_event_type previousState) (UUID_String (del_id d)) now = Inr ()"
proof -
  let ?data = "delegation_data_members d sequence previousState currentState reason"
  have cursor: "map_of ?data ''transaction_cursor'' = Some (JString (show_int (int sequence)))"
    "map_of ?data ''tenant_id'' = Some (JString (UUID_String (del_tenantID d)))"
    using ann by (auto simp: announces_def delegation_data_members_def delegation_event_data_created
        delegation_event_data_revoked)
  have valid: "validateEventData (delegation_event_type previousState) ?data = Inr ()"
    using ids by (intro validate_delegation_data [OF ann]) (simp_all add: wf_event_ids_def)
  show ?thesis
    unfolding validateEnvelope_def decode_envelope_plain(2) [OF payload(2,3)]
      store_delegation_envelope [OF payload(1) parse_time_marshal [OF stamp] seq ann]
    using length_show_sequence [OF seq] by (simp add: cursor valid decode_string_def)
qed

lemma length_quote: "plain s \<Longrightarrow> length (json_quote s) = length s + 2"
  by (simp add: json_quote_def json_escape_plain)

lemma length_delegation_data:
  assumes "announces previousState currentState reason" and "sequence < 2 ^ 63"
  shows "length (json_encode (delegation_event_data d sequence previousState currentState reason)) \<le> 1000"
  using assms plain_reason [of reason] length_show_sequence [of sequence] plain_UUID_String plain_show_int
  by (auto simp: announces_def delegation_event_data_created delegation_event_data_revoked length_quote
      plain_char_def is_ok_def split: sum.splits)

lemma length_delegation_event:
  assumes ann: "announces previousState currentState reason" and seq: "sequence < 2 ^ 63"
    and src: "plain source" "length source \<le> 1024" and stamp: "plain stamp" "length stamp \<le> 30"
  shows "length (json_encode (delegation_event source eventID stamp d sequence previousState currentState reason)) \<le> 4096"
  using length_delegation_data [OF ann seq, of d] length_show_sequence [OF seq] src stamp plain_UUID_String
  by (cases "previousState = []") (simp_all add: delegation_event_members length_quote plain_char_def DataContentType_def delegation_event_type_def)

text \<open>Every payload the service composes is accepted by \<open>outbox.New\<close>.\<close>

lemma delegation_event_accepted:
  assumes ids: "wf_event_ids eventID d" and ann: "announces previousState currentState reason"
    and seq: "0 < sequence" "sequence < 2 ^ 63" and stamp: "time_marshal now = Some stamp" and now: "now \<noteq> 0"
    and src: "plain source" "validateText source maxSourceBytes" "valid_source source"
  obtains payload m where "delegation_payload source eventID now d sequence previousState currentState reason = Some payload"
    "Outbox_New (del_tenantID d) eventID sequence source (delegation_event_type previousState) (UUID_String (del_id d))
      payload now = Inr m"
    "msg_payload m = payload" "msg_sequence m = sequence" "msg_state m = OutboxPending"
proof -
  let ?ev = "delegation_event source eventID stamp d sequence previousState currentState reason"
  obtain ms where ms: "?ev = JObject ms" by (simp add: delegation_event_members)
  note st = plain_stamp [OF stamp]
  have plain: "plain_json (JObject ms)" and nest: "nesting (JObject ms) \<le> max_nesting"
    using plain_delegation_data [OF ann, of d sequence] src st unfolding ms [symmetric]
    by (auto simp: delegation_event_members plain_UUID_String plain_char_def DataContentType_def
        delegation_event_type_def max_nesting_def)
  define payload where "payload = json_encode (JObject ms)"
  have "length source \<le> 1024"
    using src(2) by (auto simp: validateText_def is_ok_def NewBoundedString_iff text_ok_def maxSourceBytes_def split: sum.splits)
  with length_delegation_event [OF ann seq(2) src(1)] st have "length payload \<le> 4096"
    unfolding payload_def ms [symmetric] by simp
  moreover have "2 \<le> length payload" by (simp add: payload_def)
  moreover have "validateText (UUID_String (del_id d)) maxSubjectBytes"
  proof (rule validateText_plain [OF plain_UUID_String])
    show "UUID_String (del_id d) \<noteq> []" by (metis length_UUID_String list.size(3) zero_neq_numeral)
  qed (simp_all add: maxSubjectBytes_def)
  moreover have "NewReasonCode (delegation_event_type previousState) = Inr (ReasonCode (delegation_event_type previousState))"
    by (simp add: delegation_event_type_def NewReasonCode_literal reason_literal_simps)
  moreover have "prefix ''io.thinkpixel.mp.'' (delegation_event_type previousState)"
    "suffix ''.v1'' (delegation_event_type previousState)"
    by (simp_all add: delegation_event_type_def suffix_def)
  moreover note validate_delegation_envelope [OF ids ann seq(2) stamp ms plain nest, folded payload_def]
    decode_envelope_plain(1) [OF plain nest, folded payload_def]
  ultimately have "\<exists>m. Outbox_New (del_tenantID d) eventID sequence source (delegation_event_type previousState)
      (UUID_String (del_id d)) payload now = Inr m \<and> msg_payload m = payload \<and> msg_sequence m = sequence \<and>
      msg_state m = OutboxPending"
    using ids seq now src
    by (simp add: Outbox_New_def Outbox_Restore_def wf_event_ids_def MaxPayloadBytes_def MaxAttempts_def bindE_def
        validateDelivery_def)
  moreover have "delegation_payload source eventID now d sequence previousState currentState reason = Some payload"
    by (simp add: delegation_payload_def stamp ms payload_def)
  ultimately show thesis using that by blast
qed

end
