(* ===== verification/Delegation_Service.thy ===== *)
theory Delegation_Service
  imports Namespace_Service Outbox_Repository Delegation_Events
begin

text \<open>
  \<open>internal/app/publication/delegation.go\<close>: the commands that create and revoke a namespace
  delegation. Each writes the delegation, its audit fact, the event that announces it and the result
  of its idempotency key in one transaction; \<open>AuthorizePublication\<close> asks who controls a path.
\<close>

subsection \<open>Constants\<close>

definition createDelegationAction :: ReasonCode where
  "createDelegationAction = ReasonCode ''namespace.delegate''"

definition revokeDelegationAction :: ReasonCode where
  "revokeDelegationAction = ReasonCode ''namespace.delegation_revoke''"

definition delegationResourceType :: ReasonCode where
  "delegationResourceType = ReasonCode ''namespace_delegation''"

lemma delegation_literals:
  "mustReasonCode ''namespace.delegate'' = Some createDelegationAction"
  "mustReasonCode ''namespace.delegation_revoke'' = Some revokeDelegationAction"
  "mustReasonCode ''namespace_delegation'' = Some delegationResourceType"
  by (simp_all add: mustReasonCode_def NewReasonCode_literal reason_literal_simps createDelegationAction_def
      revokeDelegationAction_def delegationResourceType_def)

subsection \<open>Commands\<close>

record CreateDelegation =
  cd_NamespaceID :: UUID
  cd_ChildPrefix :: string
  cd_PublisherID :: UUID

definition create_delegation_json :: "CreateDelegation \<Rightarrow> json" where
  "create_delegation_json c = JObject
    [(''namespace_id'', JString (UUID_String (cd_NamespaceID c))),
     (''child_prefix'', JString (cd_ChildPrefix c)),
     (''publisher_id'', JString (UUID_String (cd_PublisherID c)))]"

definition create_delegation_digest :: "CreateDelegation \<Rightarrow> Digest" where
  "create_delegation_digest c = SHA256Digest (json_encode (create_delegation_json c))"

record RevokeDelegation =
  rd_DelegationID :: UUID
  rd_ExpectedVersion :: int
  rd_ReasonCode :: string
  rd_Explanation :: string

text \<open>\<open>omitempty\<close> leaves an empty explanation out.\<close>

definition revoke_delegation_json :: "RevokeDelegation \<Rightarrow> json" where
  "revoke_delegation_json c = JObject
    ([(''delegation_id'', JString (UUID_String (rd_DelegationID c))),
      (''expected_version'', JNumber (show_int (rd_ExpectedVersion c))),
      (''reason_code'', JString (rd_ReasonCode c))] @
     (if rd_Explanation c = [] then [] else [(''explanation'', JString (rd_Explanation c))]))"

definition revoke_delegation_digest :: "RevokeDelegation \<Rightarrow> Digest" where
  "revoke_delegation_digest c = SHA256Digest (json_encode (revoke_delegation_json c))"

subsection \<open>Recording the event\<close>

definition recordEvent ::
  "Env \<Rightarrow> string \<Rightarrow> Ctx \<Rightarrow> Delegation \<Rightarrow> string \<Rightarrow> string \<Rightarrow> string \<Rightarrow> Time \<Rightarrow> unit io" where
  "recordEvent env source ctx d previousState currentState reason now =
    io_bind (OutboxRepository_NextSequence env ctx (del_tenantID d)) (\<lambda>sequence.
    io_bind (ids_New env (typed_service ErrorInternal ''namespace.identifier_unavailable'')) (\<lambda>eventID.
    case delegation_payload source eventID now d sequence previousState currentState reason of
      None \<Rightarrow> io_fail (typed_service ErrorInternal ''namespace.event_unavailable'')
    | Some payload \<Rightarrow>
      (case Outbox_New (del_tenantID d) eventID sequence source (delegation_event_type previousState)
          (UUID_String (del_id d)) payload now of
         Inl _ \<Rightarrow> io_fail (typed_service ErrorInternal ''namespace.event_unavailable'')
       | Inr message \<Rightarrow> OutboxRepository_Record env ctx message)))"

subsection \<open>Idempotency\<close>

definition delegation_newRecord ::
  "Env \<Rightarrow> Identity \<Rightarrow> ReasonCode \<Rightarrow> string \<Rightarrow> Digest \<Rightarrow> Time \<Rightarrow> IdemRecord io" where
  "delegation_newRecord env actor action key digest now =
    io_bind (ids_New env (typed_service ErrorInternal ''namespace.identifier_unavailable'')) (\<lambda>identifier.
    case Idempotency_New (ident_TenantID actor) identifier (ident_PrincipalID actor) action key digest
        now (now + MinimumRetention) of
      Inl _ \<Rightarrow> io_fail (typed_service ErrorInvalid ''namespace.invalid_delegation_request'')
    | Inr rc \<Rightarrow> io_return rc)"

definition delegation_complete ::
  "Env \<Rightarrow> Ctx \<Rightarrow> Identity \<Rightarrow> ReasonCode \<Rightarrow> string \<Rightarrow> Digest \<Rightarrow> UUID \<Rightarrow> nat \<Rightarrow> Time \<Rightarrow> unit io" where
  "delegation_complete env ctx actor action key digest uid status now =
    (case NewResult status (ReasonCode_String delegationResourceType) (UUID_String uid) of
       Inl _ \<Rightarrow> io_fail (typed_service ErrorInternal ''namespace.result_unavailable'')
     | Inr result \<Rightarrow>
       io_bind (IdempotencyRepository_Complete env ctx (ident_TenantID actor) (ident_PrincipalID actor)
         action key digest result now) (\<lambda>_. io_return ()))"

definition delegation_replay :: "Env \<Rightarrow> Ctx \<Rightarrow> UUID \<Rightarrow> IdemRecord \<Rightarrow> nat \<Rightarrow> Delegation io" where
  "delegation_replay env ctx tenantID rc status =
    (case established_resource (typed_service ErrorInternal ''namespace.result_unavailable'')
        status delegationResourceType rc of
       Inl e \<Rightarrow> io_fail e
     | Inr uid \<Rightarrow> DelegationRepository_Get env ctx tenantID uid)"

subsection \<open>Use cases\<close>

definition DelegationService_Create ::
  "Env \<Rightarrow> Authorizer \<Rightarrow> string \<Rightarrow> Ctx \<Rightarrow> Identity \<Rightarrow> string \<Rightarrow> CreateDelegation \<Rightarrow> Delegation io" where
  "DelegationService_Create env authorizer source ctx0 actor key command =
    (case Authorize authorizer actor ActionManageNamespaces of
       Some e \<Rightarrow> io_fail e
     | None \<Rightarrow>
     (case authenticatedAuditContext ctx0 actor of
        Inl e \<Rightarrow> io_fail e
      | Inr ctx \<Rightarrow>
      (if \<not> valid_uuid (cd_NamespaceID command) \<or> \<not> ValidatePath (cd_ChildPrefix command)
         then io_fail (typed_service ErrorInvalid ''namespace.invalid_delegation_request'')
       else if \<not> valid_uuid (cd_PublisherID command)
         then io_fail (typed_service ErrorInvalid ''namespace.invalid_delegation_request'')
       else
       (let digest = create_delegation_digest command in
       if \<not> is_ok (ValidateOwnership (ident_PrincipalID actor) createDelegationAction key)
         then io_fail (typed_service ErrorInvalid ''namespace.invalid_idempotency_key'')
       else WithinTransaction env ctx (ident_TenantID actor) (\<lambda>tx.
         io_bind (clock_Now env) (\<lambda>now.
         io_bind (delegation_newRecord env actor createDelegationAction key digest now) (\<lambda>rc.
         io_bind (IdempotencyRepository_Acquire env tx rc) (\<lambda>(stored, created).
         if \<not> created then delegation_replay env tx (ident_TenantID actor) stored StatusCreated
         else
           io_bind (NamespaceRepository_Get env tx (ident_TenantID actor) (cd_NamespaceID command)) (\<lambda>root.
           io_bind (ids_New env (typed_service ErrorInternal ''namespace.identifier_unavailable'')) (\<lambda>identifier.
           case NewDelegation (ident_TenantID actor) identifier (ns_id root) (ns_path root)
               (cd_PublisherID command) (cd_ChildPrefix command) now of
             Inl _ \<Rightarrow> io_fail (typed_service ErrorInvalid ''namespace.invalid_delegation_request'')
           | Inr result \<Rightarrow>
             io_bind (DelegationRepository_Create env tx result) (\<lambda>_.
             io_bind (recordEvent env source tx result [] ''active'' [] now) (\<lambda>_.
             io_bind (delegation_complete env tx actor createDelegationAction key digest (del_id result)
               StatusCreated now) (\<lambda>_.
             io_return result)))))))))))))"

definition DelegationService_Revoke ::
  "Env \<Rightarrow> Authorizer \<Rightarrow> string \<Rightarrow> Ctx \<Rightarrow> Identity \<Rightarrow> string \<Rightarrow> RevokeDelegation \<Rightarrow> Delegation io" where
  "DelegationService_Revoke env authorizer source ctx0 actor key command =
    (case Authorize authorizer actor ActionManageNamespaces of
       Some e \<Rightarrow> io_fail e
     | None \<Rightarrow>
     (case authenticatedAuditContext ctx0 actor of
        Inl e \<Rightarrow> io_fail e
      | Inr ctx \<Rightarrow>
      (case NewReasonCode (rd_ReasonCode command) of
         Inl _ \<Rightarrow> io_fail (typed_service ErrorInvalid ''namespace.invalid_delegation_revocation'')
       | Inr reason \<Rightarrow>
       (if \<not> valid_uuid (rd_DelegationID command) \<or> rd_ExpectedVersion command < 1
          then io_fail (typed_service ErrorInvalid ''namespace.invalid_delegation_revocation'')
        else
        (let digest = revoke_delegation_digest command in
        if \<not> is_ok (ValidateOwnership (ident_PrincipalID actor) revokeDelegationAction key)
          then io_fail (typed_service ErrorInvalid ''namespace.invalid_idempotency_key'')
        else WithinTransaction env ctx (ident_TenantID actor) (\<lambda>tx.
          io_bind (clock_Now env) (\<lambda>now.
          io_bind (delegation_newRecord env actor revokeDelegationAction key digest now) (\<lambda>rc.
          io_bind (IdempotencyRepository_Acquire env tx rc) (\<lambda>(stored, created).
          if \<not> created then delegation_replay env tx (ident_TenantID actor) stored StatusOK
          else
            io_bind (DelegationRepository_Revoke env tx (ident_TenantID actor) (rd_DelegationID command)
              (rd_ExpectedVersion command) reason (rd_Explanation command) now) (\<lambda>result.
            io_bind (recordEvent env source tx result ''active'' ''revoked'' (ReasonCode_String reason) now) (\<lambda>_.
            io_bind (delegation_complete env tx actor revokeDelegationAction key digest (del_id result)
              StatusOK now) (\<lambda>_.
            io_return result))))))))))))"

definition AuthorizePublication ::
  "Env \<Rightarrow> Authorizer \<Rightarrow> Ctx \<Rightarrow> Identity \<Rightarrow> UUID \<Rightarrow> string \<Rightarrow> unit io" where
  "AuthorizePublication env authorizer ctx actor publisherID path =
    (case Authorize authorizer actor ActionPublish of
       Some e \<Rightarrow> io_fail e
     | None \<Rightarrow>
       (if \<not> valid_uuid publisherID \<or> \<not> ValidatePath path
          then io_fail (typed_service ErrorInvalid ''namespace.invalid_publication_request'')
        else io_bind (DelegationRepository_ResolveOwner env ctx (ident_TenantID actor) path) (\<lambda>owner.
          if owner \<noteq> publisherID
            then io_fail (typed_service ErrorForbidden ''namespace.publication_not_authorized'')
          else io_return ())))"

subsection \<open>The commands as idempotent commands\<close>

text \<open>The event of a delegation and the result its key is bound to.\<close>

definition announced ::
  "Env \<Rightarrow> string \<Rightarrow> Ctx \<Rightarrow> string \<Rightarrow> string \<Rightarrow> string \<Rightarrow> nat \<Rightarrow> Time \<Rightarrow> Delegation \<Rightarrow> (Delegation \<times> IdemResult) io" where
  "announced env source tx previousState currentState reason status now d =
    io_bind (recordEvent env source tx d previousState currentState reason now) (\<lambda>_.
    case NewResult status (ReasonCode_String delegationResourceType) (UUID_String (del_id d)) of
      Inl _ \<Rightarrow> io_fail (typed_service ErrorInternal ''namespace.result_unavailable'')
    | Inr established \<Rightarrow> io_return (d, established))"

definition create_delegation_body ::
  "Env \<Rightarrow> string \<Rightarrow> Identity \<Rightarrow> CreateDelegation \<Rightarrow> Ctx \<Rightarrow> Time \<Rightarrow> (Delegation \<times> IdemResult) io" where
  "create_delegation_body env source actor command tx now =
    io_bind (NamespaceRepository_Get env tx (ident_TenantID actor) (cd_NamespaceID command)) (\<lambda>root.
    io_bind (ids_New env (typed_service ErrorInternal ''namespace.identifier_unavailable'')) (\<lambda>identifier.
    case NewDelegation (ident_TenantID actor) identifier (ns_id root) (ns_path root)
        (cd_PublisherID command) (cd_ChildPrefix command) now of
      Inl _ \<Rightarrow> io_fail (typed_service ErrorInvalid ''namespace.invalid_delegation_request'')
    | Inr d \<Rightarrow>
      io_bind (DelegationRepository_Create env tx d) (\<lambda>_.
      announced env source tx [] ''active'' [] StatusCreated now d)))"

definition revoke_delegation_body ::
  "Env \<Rightarrow> string \<Rightarrow> Identity \<Rightarrow> RevokeDelegation \<Rightarrow> ReasonCode \<Rightarrow> Ctx \<Rightarrow> Time \<Rightarrow> (Delegation \<times> IdemResult) io" where
  "revoke_delegation_body env source actor command reason tx now =
    io_bind (DelegationRepository_Revoke env tx (ident_TenantID actor) (rd_DelegationID command)
      (rd_ExpectedVersion command) reason (rd_Explanation command) now) (\<lambda>d.
    announced env source tx ''active'' ''revoked'' (ReasonCode_String reason) StatusOK now d)"

abbreviation delegation_command ::
  "Env \<Rightarrow> Ctx \<Rightarrow> Identity \<Rightarrow> ReasonCode \<Rightarrow> string \<Rightarrow> Digest \<Rightarrow> nat \<Rightarrow>
   (Ctx \<Rightarrow> Time \<Rightarrow> (Delegation \<times> IdemResult) io) \<Rightarrow> Delegation io" where
  "delegation_command env ctx actor action key digest status body \<equiv>
    idem_command env ctx actor action key digest
      (typed_service ErrorInternal ''namespace.identifier_unavailable'')
      (typed_service ErrorInvalid ''namespace.invalid_delegation_request'')
      (\<lambda>tx. replay_resource (typed_service ErrorInternal ''namespace.result_unavailable'') status
        delegationResourceType (DelegationRepository_Get env tx (ident_TenantID actor)))
      body"

lemma DelegationService_Create_command:
  assumes "Authorize authorizer actor ActionManageNamespaces = None"
    and "authenticatedAuditContext ctx0 actor = Inr ctx"
    and "valid_uuid (cd_NamespaceID command)" "ValidatePath (cd_ChildPrefix command)" "valid_uuid (cd_PublisherID command)"
    and "is_ok (ValidateOwnership (ident_PrincipalID actor) createDelegationAction key)"
  shows "DelegationService_Create env authorizer source ctx0 actor key command =
    delegation_command env ctx actor createDelegationAction key (create_delegation_digest command) StatusCreated
      (create_delegation_body env source actor command)"
  using assms
  by (simp add: DelegationService_Create_def delegation_newRecord_def delegation_replay_def delegation_complete_def
      replay_resource_def idempotent_command_def create_delegation_body_def announced_def io_bind_assoc io_bind_sum
      io_lift_bind Let_def cong: sum.case_cong if_cong)

lemma DelegationService_Revoke_command:
  assumes "Authorize authorizer actor ActionManageNamespaces = None"
    and "authenticatedAuditContext ctx0 actor = Inr ctx"
    and "NewReasonCode (rd_ReasonCode command) = Inr reason"
    and "valid_uuid (rd_DelegationID command)" "1 \<le> rd_ExpectedVersion command"
    and "is_ok (ValidateOwnership (ident_PrincipalID actor) revokeDelegationAction key)"
  shows "DelegationService_Revoke env authorizer source ctx0 actor key command =
    delegation_command env ctx actor revokeDelegationAction key (revoke_delegation_digest command) StatusOK
      (revoke_delegation_body env source actor command reason)"
  using assms
  by (simp add: DelegationService_Revoke_def delegation_newRecord_def delegation_replay_def delegation_complete_def
      replay_resource_def idempotent_command_def revoke_delegation_body_def announced_def io_bind_assoc io_bind_sum
      io_lift_bind Let_def cong: sum.case_cong if_cong)

subsection \<open>Atomicity\<close>

lemma balanced_recordEvent [io_laws]: "balanced (recordEvent env source ctx d p c r now)"
  unfolding recordEvent_def
  by (intro balanced_bind balanced_NextSequence balanced_ids)
    (auto simp: balanced_fail atomic_balanced [OF atomic_OutboxRepository_Record] split: option.splits sum.splits)

lemma balanced_announced [io_laws]: "balanced (announced env source tx p c r status now d)"
  unfolding announced_def
  by (intro balanced_bind balanced_recordEvent) (auto simp: balanced_fail balanced_return split: sum.splits)

lemma balanced_create_delegation_body [io_laws]: "balanced (create_delegation_body env source actor command tx now)"
  unfolding create_delegation_body_def
  by (auto intro!: balanced_bind balanced_ids balanced_announced balanced_fail
      reads_balanced [OF reads_NamespaceRepository_Get] atomic_balanced [OF atomic_DelegationRepository_Create]
      split: sum.splits)

lemma balanced_revoke_delegation_body [io_laws]: "balanced (revoke_delegation_body env source actor command reason tx now)"
  unfolding revoke_delegation_body_def
  by (intro balanced_bind balanced_announced atomic_balanced [OF atomic_DelegationRepository_Revoke])

lemma atomic_DelegationService_Create [io_laws]:
  "atomic (DelegationService_Create env authorizer source ctx0 actor key command)"
proof -
  have "atomic (delegation_command env ctx actor action key digest status (create_delegation_body env source actor command))"
    for ctx action digest status
    by (intro idem.command_atomic reads_balanced reads_replay_resource io_laws)
  then show ?thesis
    by (cases "Authorize authorizer actor ActionManageNamespaces"; cases "authenticatedAuditContext ctx0 actor";
        cases "valid_uuid (cd_NamespaceID command)"; cases "ValidatePath (cd_ChildPrefix command)";
        cases "valid_uuid (cd_PublisherID command)";
        cases "is_ok (ValidateOwnership (ident_PrincipalID actor) createDelegationAction key)")
      (simp_all add: DelegationService_Create_command,
       auto simp: DelegationService_Create_def Let_def intro: io_laws)
qed

lemma atomic_DelegationService_Revoke [io_laws]:
  "atomic (DelegationService_Revoke env authorizer source ctx0 actor key command)"
proof -
  have "atomic (delegation_command env ctx actor action key digest status (revoke_delegation_body env source actor command reason))"
    for ctx action digest status reason
    by (intro idem.command_atomic reads_balanced reads_replay_resource io_laws)
  then show ?thesis
    by (cases "Authorize authorizer actor ActionManageNamespaces"; cases "authenticatedAuditContext ctx0 actor";
        cases "NewReasonCode (rd_ReasonCode command)";
        cases "valid_uuid (rd_DelegationID command)"; cases "1 \<le> rd_ExpectedVersion command";
        cases "is_ok (ValidateOwnership (ident_PrincipalID actor) revokeDelegationAction key)")
      (simp_all add: DelegationService_Revoke_command,
       auto simp: DelegationService_Revoke_def Let_def intro: io_laws)
qed

lemma reads_AuthorizePublication: "reads (AuthorizePublication env authorizer ctx actor u path)"
  unfolding AuthorizePublication_def
  by (auto intro!: io_laws split: option.splits)

subsection \<open>What a command recorded\<close>

lemma Outbox_New_facts:
  "Outbox_New t u n source ty subject payload at = Inr m \<Longrightarrow>
    msg_tenantID m = t \<and> msg_id m = u \<and> msg_sequence m = n \<and> msg_source m = source \<and>
    ReasonCode_String (msg_eventType m) = ty \<and> msg_subject m = subject \<and> msg_payload m = payload \<and>
    msg_payloadDigest m = SHA256Digest payload \<and> msg_state m = OutboxPending \<and> msg_attempts m = 0 \<and>
    msg_createdAt m = at \<and> event_ok m"
  unfolding Outbox_New_def Outbox_Restore_Inr by (cases m) simp

lemma NextSequence_Inr:
  assumes inv: "outbox_inv (w_db w)" and run: "OutboxRepository_NextSequence env ctx t w = (Inr n, w')"
  shows "int n = next_of (w_db w) t \<and> 0 < n \<and> outbox_inv (w_db w') \<and> next_of (w_db w') t = int n + 1 \<and>
    (\<exists>seqs. w_db w' = (w_db w)\<lparr>db_sequences := seqs\<rparr>)"
proof -
  from run obtain x w1 where c: "CurrentTransaction ctx t w = (Inr x, w1)" and nx: "NextSequence env t w1 = (Inr n, w')"
    unfolding OutboxRepository_NextSequence_def io_bind_Inr by blast
  from readsD [OF reads_CurrentTransaction c] have w1: "w_db w1 = w_db w" by simp
  from nx obtain s w2 where e: "io_exec env (\<lambda>_. outbox_unavailable) (allocate_sequence t) w1 = (Inr (Some s), w2)"
    and s: "\<not> s < 1" "n = nat s" "w' = w2"
    unfolding NextSequence_def io_guard_Inr io_bind_Inr
    by (auto simp: io_fail_def io_return_def split: option.splits if_splits)
  from io_exec_Inr [OF e] w1 have "allocate_sequence t (w_db w) = Inr (Some s, w_db w')" by (simp add: s(3))
  from allocate_sequence_Inr [OF inv this] s show ?thesis by auto
qed

lemma OutboxRepository_Record_Inr:
  assumes inv: "outbox_inv (w_db w)" and run: "OutboxRepository_Record env ctx m w = (Inr u, w')"
  shows "0 < msg_sequence m \<and> int (msg_sequence m) + 1 = next_of (w_db w) (msg_tenantID m) \<and>
    w_db w' = (w_db w)\<lparr>db_outbox := db_outbox (w_db w) @ [outbox_row env m]\<rparr> \<and> outbox_inv (w_db w')"
proof -
  from run obtain x w1 where c: "CurrentTransaction ctx (msg_tenantID m) w = (Inr x, w1)"
    and r: "Outbox_Record env m w1 = (Inr u, w')"
    unfolding OutboxRepository_Record_def io_bind_Inr by blast
  from readsD [OF reads_CurrentTransaction c] have w1: "w_db w1 = w_db w" by simp
  from r have pos: "0 < msg_sequence m"
    and e: "io_exec env (\<lambda>_. outbox_unavailable) (insert_outbox (outbox_row env m)) w1 = (Inr u, w')"
    unfolding Outbox_Record_def io_guard_Inr by auto
  have row: "orow_sequence (outbox_row env m) = int (msg_sequence m)" "orow_tenant (outbox_row env m) = msg_tenantID m"
    by (simp_all add: outbox_row_def)
  from io_exec_Inr [OF e] w1 have "insert_outbox (outbox_row env m) (w_db w) = Inr (u, w_db w')" by simp
  from insert_outbox_Inr [OF inv this, unfolded row of_nat_0_less_iff] pos show ?thesis by blast
qed

text \<open>The event \<open>m\<close> that announces \<open>d\<close>.\<close>

definition announces_delegation ::
  "string \<Rightarrow> Delegation \<Rightarrow> string \<Rightarrow> string \<Rightarrow> string \<Rightarrow> Time \<Rightarrow> Message \<Rightarrow> bool" where
  "announces_delegation source d previousState currentState reason now m \<longleftrightarrow>
    delegation_payload source (msg_id m) now d (msg_sequence m) previousState currentState reason = Some (msg_payload m) \<and>
    Outbox_New (del_tenantID d) (msg_id m) (msg_sequence m) source (delegation_event_type previousState)
      (UUID_String (del_id d)) (msg_payload m) now = Inr m"

lemma recordEvent_Inr:
  assumes inv: "outbox_inv (w_db w)" and run: "recordEvent env source ctx d p c r now w = (Inr u, w')"
  obtains m seqs where "announces_delegation source d p c r now m"
    "int (msg_sequence m) = next_of (w_db w) (del_tenantID d)"
    "w_db w' = (w_db w)\<lparr>db_sequences := seqs, db_outbox := db_outbox (w_db w) @ [outbox_row env m]\<rparr>"
    "outbox_inv (w_db w')"
proof -
  from run obtain n w1 eventID w2
    where nx: "OutboxRepository_NextSequence env ctx (del_tenantID d) w = (Inr n, w1)"
      and ids: "ids_New env (typed_service ErrorInternal ''namespace.identifier_unavailable'') w1 = (Inr eventID, w2)"
      and rest: "(case delegation_payload source eventID now d n p c r of
        None \<Rightarrow> io_fail (typed_service ErrorInternal ''namespace.event_unavailable'')
      | Some payload \<Rightarrow>
        (case Outbox_New (del_tenantID d) eventID n source (delegation_event_type p) (UUID_String (del_id d)) payload now of
           Inl _ \<Rightarrow> io_fail (typed_service ErrorInternal ''namespace.event_unavailable'')
         | Inr message \<Rightarrow> OutboxRepository_Record env ctx message)) w2 = (Inr u, w')"
    unfolding recordEvent_def io_bind_Inr by blast
  from rest obtain payload where payload: "delegation_payload source eventID now d n p c r = Some payload"
    by (cases "delegation_payload source eventID now d n p c r") (simp_all add: io_fail_def)
  from rest [unfolded payload] obtain m
    where new: "Outbox_New (del_tenantID d) eventID n source (delegation_event_type p) (UUID_String (del_id d)) payload now = Inr m"
      and rec: "OutboxRepository_Record env ctx m w2 = (Inr u, w')"
    by (cases "Outbox_New (del_tenantID d) eventID n source (delegation_event_type p) (UUID_String (del_id d)) payload now")
      (simp_all add: io_fail_def)
  note f = Outbox_New_facts [OF new]
  from NextSequence_Inr [OF inv nx] obtain seqs where n: "int n = next_of (w_db w) (del_tenantID d)"
    and w1: "w_db w1 = (w_db w)\<lparr>db_sequences := seqs\<rparr>" "outbox_inv (w_db w1)" by blast
  from readsD [OF reads_ids ids] have w2: "w_db w2 = w_db w1" by simp
  note stored = OutboxRepository_Record_Inr [OF w1(2) [folded w2] rec]
  then have db: "w_db w' = (w_db w)\<lparr>db_sequences := seqs, db_outbox := db_outbox (w_db w) @ [outbox_row env m]\<rparr>"
    by (simp add: w2 w1(1))
  have "announces_delegation source d p c r now m" using payload new f by (simp add: announces_delegation_def)
  moreover have "int (msg_sequence m) = next_of (w_db w) (del_tenantID d)" using n f by simp
  ultimately show thesis using db stored that by blast
qed

lemma announced_Inr:
  assumes inv: "outbox_inv (w_db w)"
    and run: "announced env source tx p c r status now d w = (Inr (d', established), w')"
  obtains m seqs where "d' = d" "announces_delegation source d p c r now m"
    "int (msg_sequence m) = next_of (w_db w) (del_tenantID d)"
    "w_db w' = (w_db w)\<lparr>db_sequences := seqs, db_outbox := db_outbox (w_db w) @ [outbox_row env m]\<rparr>"
    "outbox_inv (w_db w')"
    "wf_result established" "result_status established = status"
    "Result_ResourceType established = Some delegationResourceType"
    "Result_ResourceID established = Some (UUID_String (del_id d))"
proof -
  from run obtain u w1 where e: "recordEvent env source tx d p c r now w = (Inr u, w1)"
    and rest: "(case NewResult status (ReasonCode_String delegationResourceType) (UUID_String (del_id d)) of
      Inl _ \<Rightarrow> io_fail (typed_service ErrorInternal ''namespace.result_unavailable'')
    | Inr established \<Rightarrow> io_return (d, established)) w1 = (Inr (d', established), w')"
    unfolding announced_def io_bind_Inr by blast
  from rest have res: "NewResult status (ReasonCode_String delegationResourceType) (UUID_String (del_id d)) = Inr established"
    and w': "w' = w1" "d' = d"
    by (cases "NewResult status (ReasonCode_String delegationResourceType) (UUID_String (del_id d))";
        simp add: io_fail_def io_return_def)+
  have "delegationResourceType \<noteq> ReasonCode []" by (simp add: delegationResourceType_def)
  from NewResult_establishes [OF res this] have est: "wf_result established" "result_status established = status"
    "Result_ResourceType established = Some delegationResourceType"
    "Result_ResourceID established = Some (UUID_String (del_id d))" by blast+
  show thesis
    by (rule recordEvent_Inr [OF inv e], rule that) (use est w' in simp_all)
qed

lemma DelegationRepository_Create_Inr:
  assumes "DelegationRepository_Create env ctx d w = (Inr u, w')"
  obtains fact where "insert_delegation (delegation_row env d) (w_db w) =
      Inr ((), (w_db w)\<lparr>db_delegations := db_delegations (w_db w) @ [delegation_row env d]\<rparr>)"
    "w_db w' = (w_db w)\<lparr>db_delegations := db_delegations (w_db w) @ [delegation_row env d],
      db_delegation_states := db_delegation_states (w_db w) @ [active_state_row env d],
      db_audit := db_audit (w_db w) @ [fact]\<rparr>"
proof -
  from repository_tx_Inr [OF balanced_publisher_create assms [unfolded DelegationRepository_Create_def]]
  obtain w1 w2 w3 w4 where w1: "w_db w1 = w_db w" and w': "w_db w' = w_db w2"
    and i: "io_exec env delegationWriteError (insert_delegation (delegation_row env d)) w1 = (Inr (), w3)"
    and s: "io_exec env (\<lambda>_. namespace_unavailable) (insert_delegation_state (active_state_row env d)) w3 = (Inr (), w4)"
    and a: "Audit_Record env ctx
         (resource_params (del_tenantID d) ActionNamespaceDelegated ''namespace_delegation''
           (UUID_String (del_id d))) w4 = (Inr u, w2)"
    by (auto simp: io_bind_Inr)
  from io_exec_Inr [OF i] w1 have ins: "insert_delegation (delegation_row env d) (w_db w) = Inr ((), w_db w3)" by simp
  then have w3: "w_db w3 = (w_db w)\<lparr>db_delegations := db_delegations (w_db w) @ [delegation_row env d]\<rparr>"
    by (auto simp: insert_delegation_def split: option.splits if_splits)
  from io_exec_Inr [OF s]
  have "w_db w4 = (w_db w3)\<lparr>db_delegation_states := db_delegation_states (w_db w3) @ [active_state_row env d]\<rparr>"
    by (auto simp: insert_delegation_state_def split: if_splits)
  with Audit_Record_Inr [OF a] w' w3 ins that show thesis by auto
qed

subsection \<open>Commands that ran\<close>

lemma next_of_cong: "db_sequences db = db_sequences db' \<Longrightarrow> next_of db = next_of db'"
  by (simp add: fun_eq_iff next_of_def)

lemma namespace_store_cong: "db_namespaces db = db_namespaces db' \<Longrightarrow> namespace_store db = namespace_store db'"
  by (simp add: fun_eq_iff namespace_store_def)

lemma NewDelegation_facts:
  "NewDelegation t u ns parent pub child at = Inr d \<Longrightarrow>
    del_tenantID d = t \<and> del_id d = u \<and> del_namespaceID d = ns \<and> del_publisherID d = pub \<and> del_childPrefix d = child \<and>
    del_state d = DelegationActive \<and> del_version d = 1 \<and> del_createdAt d = at \<and> at \<noteq> 0 \<and>
    valid_uuid t \<and> valid_uuid u \<and> valid_uuid ns \<and> valid_uuid pub"
  by (auto simp: NewDelegation_def restoreDelegation_def split: if_splits)

lemma create_delegation_body_Inr:
  assumes inv: "outbox_inv (w_db w)"
    and run: "create_delegation_body env source actor command tx now w = (Inr (d, established), w')"
  obtains root uid m seqs fact where
    "namespace_store (w_db w) (ident_TenantID actor) (cd_NamespaceID command) = Some root"
    "NewDelegation (ident_TenantID actor) uid (ns_id root) (ns_path root) (cd_PublisherID command) (cd_ChildPrefix command) now = Inr d"
    "insert_delegation (delegation_row env d) (w_db w) =
      Inr ((), (w_db w)\<lparr>db_delegations := db_delegations (w_db w) @ [delegation_row env d]\<rparr>)"
    "announces_delegation source d [] ''active'' [] now m"
    "int (msg_sequence m) = next_of (w_db w) (del_tenantID d)"
    "w_db w' = (w_db w)\<lparr>db_delegations := db_delegations (w_db w) @ [delegation_row env d],
      db_delegation_states := db_delegation_states (w_db w) @ [active_state_row env d],
      db_audit := db_audit (w_db w) @ [fact], db_sequences := seqs, db_outbox := db_outbox (w_db w) @ [outbox_row env m]\<rparr>"
    "outbox_inv (w_db w')" "wf_result established" "result_status established = StatusCreated"
    "Result_ResourceType established = Some delegationResourceType"
    "Result_ResourceID established = Some (UUID_String (del_id d))"
proof -
  from run obtain root w1 uid w2
    where get: "NamespaceRepository_Get env tx (ident_TenantID actor) (cd_NamespaceID command) w = (Inr root, w1)"
      and ids: "ids_New env (typed_service ErrorInternal ''namespace.identifier_unavailable'') w1 = (Inr uid, w2)"
      and rest: "(case NewDelegation (ident_TenantID actor) uid (ns_id root) (ns_path root)
          (cd_PublisherID command) (cd_ChildPrefix command) now of
        Inl _ \<Rightarrow> io_fail (typed_service ErrorInvalid ''namespace.invalid_delegation_request'')
      | Inr d \<Rightarrow>
        io_bind (DelegationRepository_Create env tx d) (\<lambda>_.
        announced env source tx [] ''active'' [] StatusCreated now d)) w2 = (Inr (d, established), w')"
    unfolding create_delegation_body_def io_bind_Inr by blast
  from rest obtain e where new: "NewDelegation (ident_TenantID actor) uid (ns_id root) (ns_path root)
          (cd_PublisherID command) (cd_ChildPrefix command) now = Inr e"
    by (cases "NewDelegation (ident_TenantID actor) uid (ns_id root) (ns_path root)
          (cd_PublisherID command) (cd_ChildPrefix command) now") (simp_all add: io_fail_def)
  from rest [unfolded new] obtain u w3 where st: "DelegationRepository_Create env tx e w2 = (Inr u, w3)"
    and ann: "announced env source tx [] ''active'' [] StatusCreated now e w3 = (Inr (d, established), w')"
    by (auto simp: io_bind_Inr)
  have same: "w_db w2 = w_db w" using readsD [OF reads_NamespaceRepository_Get get] readsD [OF reads_ids ids] by simp
  obtain fact where ins: "insert_delegation (delegation_row env e) (w_db w) =
      Inr ((), (w_db w)\<lparr>db_delegations := db_delegations (w_db w) @ [delegation_row env e]\<rparr>)"
    and w3: "w_db w3 = (w_db w)\<lparr>db_delegations := db_delegations (w_db w) @ [delegation_row env e],
      db_delegation_states := db_delegation_states (w_db w) @ [active_state_row env e],
      db_audit := db_audit (w_db w) @ [fact]\<rparr>"
    by (rule DelegationRepository_Create_Inr [OF st, unfolded same])
  have inv3: "outbox_inv (w_db w3)" using inv outbox_inv_cong [of "w_db w3" "w_db w"] by (simp add: w3)
  show thesis
  proof (rule announced_Inr [OF inv3 ann])
    fix m seqs
    assume d: "d = e" and m: "announces_delegation source e [] ''active'' [] now m"
      and sq: "int (msg_sequence m) = next_of (w_db w3) (del_tenantID e)"
      and w': "w_db w' = (w_db w3)\<lparr>db_sequences := seqs, db_outbox := db_outbox (w_db w3) @ [outbox_row env m]\<rparr>"
      and inv': "outbox_inv (w_db w')"
      and est: "wf_result established" "result_status established = StatusCreated"
        "Result_ResourceType established = Some delegationResourceType"
        "Result_ResourceID established = Some (UUID_String (del_id e))"
    have db: "w_db w' = (w_db w)\<lparr>db_delegations := db_delegations (w_db w) @ [delegation_row env e],
      db_delegation_states := db_delegation_states (w_db w) @ [active_state_row env e],
      db_audit := db_audit (w_db w) @ [fact], db_sequences := seqs, db_outbox := db_outbox (w_db w) @ [outbox_row env m]\<rparr>"
      by (simp add: w' w3)
    have sq': "int (msg_sequence m) = next_of (w_db w) (del_tenantID e)"
      using sq next_of_cong [of "w_db w3" "w_db w"] by (simp add: w3)
    show thesis
      by (rule that [OF NamespaceRepository_Get_Inr [OF get]]) (use new ins m sq' db inv' est in \<open>simp_all only: d\<close>)
  qed
qed

text \<open>Inserting an active delegation gives its Publisher control of exactly that path.\<close>

lemma insert_delegation_controls:
  assumes inv: "publisher_tables_inv db" "ownership_inv db"
    and ins: "insert_delegation row db = Inr ((), db')" and active: "active_delegation row"
  shows "controls db' (drow_tenant row) (drow_prefix row) (drow_prefix row) (drow_publisher row) ''verified''"
proof -
  from ins have db': "db' = db\<lparr>db_delegations := db_delegations db @ [row]\<rparr>"
    and "verified_publisher (drow_tenant row) (drow_publisher row) db"
    by (auto simp: insert_delegation_def enforce_namespace_delegation_def split: option.splits if_splits)
  then have state: "''verified'' \<in> set (current_states (drow_tenant row) (drow_publisher row) db')"
    by (auto simp: verified_publisher_def list_ex_iff mem_current_states)
  have inv': "publisher_tables_inv db'" "ownership_inv db'"
    using publisher_tables_inv_cong [of db' db] inv ownership_inv_insert_delegation [OF inv(2) ins active]
    by (simp_all add: db')
  show ?thesis
  proof (rule longest_controls [OF inv'])
    show "(drow_prefix row, drow_publisher row, ''verified'') \<in> set (candidates (drow_tenant row) (drow_prefix row) db')"
      using state active by (auto simp: mem_candidates covers_def db' drow_place_def)
    show "length (fst c) \<le> length (drow_prefix row)"
      if "c \<in> set (candidates (drow_tenant row) (drow_prefix row) db')" for c
    proof (cases c)
      case (fields q u s)
      with that have "covers q (drow_prefix row)" by (simp add: mem_candidates)
      then show ?thesis using fields covers_prefix prefix_length_le by fastforce
    qed
  qed
qed

lemma establishesI:
  "idem_result rc = Some res \<Longrightarrow> result_status res = status \<Longrightarrow> Result_ResourceType res = Some rt \<Longrightarrow>
    Result_ResourceID res = Some (UUID_String u) \<Longrightarrow> valid_uuid u \<Longrightarrow> establishes status rt u rc"
  by (simp add: establishes_def)

lemma DelegationService_Create_Inr:
  assumes "DelegationService_Create env authorizer source ctx0 actor key command w = (Inr d, w')"
  obtains ctx where "Authorize authorizer actor ActionManageNamespaces = None"
    "authenticatedAuditContext ctx0 actor = Inr ctx"
    "delegation_command env ctx actor createDelegationAction key (create_delegation_digest command) StatusCreated
      (create_delegation_body env source actor command) w = (Inr d, w')"
proof -
  from assms obtain ctx where a: "Authorize authorizer actor ActionManageNamespaces = None"
    and c: "authenticatedAuditContext ctx0 actor = Inr ctx"
    and p: "valid_uuid (cd_NamespaceID command)" "ValidatePath (cd_ChildPrefix command)" "valid_uuid (cd_PublisherID command)"
    and o: "is_ok (ValidateOwnership (ident_PrincipalID actor) createDelegationAction key)"
    by (auto simp: DelegationService_Create_def Let_def io_fail_def split: option.splits sum.splits if_splits)
  with assms that show ?thesis unfolding DelegationService_Create_command [OF a c p o] by blast
qed

lemma DelegationService_Revoke_Inr:
  assumes "DelegationService_Revoke env authorizer source ctx0 actor key command w = (Inr d, w')"
  obtains ctx reason where "Authorize authorizer actor ActionManageNamespaces = None"
    "authenticatedAuditContext ctx0 actor = Inr ctx" "NewReasonCode (rd_ReasonCode command) = Inr reason"
    "delegation_command env ctx actor revokeDelegationAction key (revoke_delegation_digest command) StatusOK
      (revoke_delegation_body env source actor command reason) w = (Inr d, w')"
proof -
  from assms obtain ctx reason where a: "Authorize authorizer actor ActionManageNamespaces = None"
    and c: "authenticatedAuditContext ctx0 actor = Inr ctx"
    and r: "NewReasonCode (rd_ReasonCode command) = Inr reason"
    and p: "valid_uuid (rd_DelegationID command)" "1 \<le> rd_ExpectedVersion command"
    and o: "is_ok (ValidateOwnership (ident_PrincipalID actor) revokeDelegationAction key)"
    by (auto simp: DelegationService_Revoke_def Let_def io_fail_def split: option.splits sum.splits if_splits)
  with assms that show ?thesis unfolding DelegationService_Revoke_command [OF a c r p o] by blast
qed

lemma other_tables_outbox: "other_tables db = other_tables db' \<Longrightarrow> outbox_inv db = outbox_inv db'"
  by (rule outbox_inv_cong) (simp_all add: other_tables_fields)

lemma DelegationService_Create_first:
  assumes run: "DelegationService_Create env authorizer source ctx0 actor key command w = (Inr d, w')"
    and free: "idem_bound (w_db w) actor createDelegationAction key = None"
    and inv: "idempotency_inv (w_db w)" "outbox_inv (w_db w)"
  obtains root uid now m rc db where
    "namespace_store (w_db w) (ident_TenantID actor) (cd_NamespaceID command) = Some root"
    "NewDelegation (ident_TenantID actor) uid (ns_id root) (ns_path root) (cd_PublisherID command) (cd_ChildPrefix command) now = Inr d"
    "announces_delegation source d [] ''active'' [] now m" "int (msg_sequence m) = next_of (w_db w) (del_tenantID d)"
    "other_tables db = other_tables (w_db w)"
    "insert_delegation (delegation_row env d) db = Inr ((), db\<lparr>db_delegations := db_delegations db @ [delegation_row env d]\<rparr>)"
    "db_delegations (w_db w') = db_delegations (w_db w) @ [delegation_row env d]"
    "db_outbox (w_db w') = db_outbox (w_db w) @ [outbox_row env m]"
    "db_namespaces (w_db w') = db_namespaces (w_db w)" "db_publishers (w_db w') = db_publishers (w_db w)"
    "db_publisher_states (w_db w') = db_publisher_states (w_db w)"
    "idem_bound (w_db w') actor createDelegationAction key = Some rc" "idem_digest rc = create_delegation_digest command"
    "establishes StatusCreated delegationResourceType (del_id d) rc" "idempotency_inv (w_db w')" "outbox_inv (w_db w')"
proof -
  from run obtain ctx where cmd: "delegation_command env ctx actor createDelegationAction key
      (create_delegation_digest command) StatusCreated (create_delegation_body env source actor command) w = (Inr d, w')"
    by (rule DelegationService_Create_Inr)
  show thesis
  proof (rule command_first [OF _ _ cmd free inv(1)])
    fix now established wa wb
    assume o: "other_tables (w_db wa) = other_tables (w_db w)"
      and b: "create_delegation_body env source actor command (within ctx actor) now wa = (Inr (d, established), wb)"
    from other_tables_outbox [OF o] inv have "outbox_inv (w_db wa)" by simp
    then show "db_idempotency (w_db wb) = db_idempotency (w_db wa) \<and> wf_result established"
      by (rule create_delegation_body_Inr [OF _ b]) simp
  next
    fix now established rc w1 w2
    assume o: "other_tables (w_db w1) = other_tables (w_db w)" "other_tables (w_db w') = other_tables (w_db w2)"
      and b: "create_delegation_body env source actor command (within ctx actor) now w1 = (Inr (d, established), w2)"
      and rc: "idem_bound (w_db w') actor createDelegationAction key = Some rc"
        "idem_digest rc = create_delegation_digest command" "idem_result rc = Some established" "idempotency_inv (w_db w')"
    from other_tables_outbox [OF o(1)] inv have inv1: "outbox_inv (w_db w1)" by simp
    show thesis
    proof (rule create_delegation_body_Inr [OF inv1 b])
      fix root uid m seqs fact
      assume root: "namespace_store (w_db w1) (ident_TenantID actor) (cd_NamespaceID command) = Some root"
        and new: "NewDelegation (ident_TenantID actor) uid (ns_id root) (ns_path root) (cd_PublisherID command) (cd_ChildPrefix command) now = Inr d"
        and ins: "insert_delegation (delegation_row env d) (w_db w1) =
          Inr ((), (w_db w1)\<lparr>db_delegations := db_delegations (w_db w1) @ [delegation_row env d]\<rparr>)"
        and m: "announces_delegation source d [] ''active'' [] now m" "int (msg_sequence m) = next_of (w_db w1) (del_tenantID d)"
        and w2: "w_db w2 = (w_db w1)\<lparr>db_delegations := db_delegations (w_db w1) @ [delegation_row env d],
          db_delegation_states := db_delegation_states (w_db w1) @ [active_state_row env d],
          db_audit := db_audit (w_db w1) @ [fact], db_sequences := seqs, db_outbox := db_outbox (w_db w1) @ [outbox_row env m]\<rparr>"
        and inv2: "outbox_inv (w_db w2)"
        and est: "result_status established = StatusCreated" "Result_ResourceType established = Some delegationResourceType"
          "Result_ResourceID established = Some (UUID_String (del_id d))"
      note t = o [unfolded other_tables_fields w2, simplified]
      have e: "establishes StatusCreated delegationResourceType (del_id d) rc"
        using rc(3) est NewDelegation_facts [OF new] by (intro establishesI) simp_all
      have root': "namespace_store (w_db w) (ident_TenantID actor) (cd_NamespaceID command) = Some root"
        using root namespace_store_cong [of "w_db w1" "w_db w"] t by simp
      have sq: "int (msg_sequence m) = next_of (w_db w) (del_tenantID d)"
        using m(2) next_of_cong [of "w_db w1" "w_db w"] t by simp
      have inv': "outbox_inv (w_db w')" using other_tables_outbox [OF o(2)] inv2 by simp
      show thesis by (rule that [OF root' new m(1) sq o(1) ins]) (use t rc(1,2,4) e inv' in simp_all)
    qed
  qed (auto intro!: io_laws)
qed

text \<open>The tenant's delegations as a map.\<close>

definition delegation_store :: "DB \<Rightarrow> UUID \<Rightarrow> UUID \<Rightarrow> Delegation option" where
  "delegation_store db t u =
    (case delegationSelect t u db of
       [] \<Rightarrow> None
     | row # _ \<Rightarrow> (case scanDelegation row of Inl _ \<Rightarrow> None | Inr d \<Rightarrow> Some d))"

lemma delegation_store_cong:
  "db_delegations db = db_delegations db' \<Longrightarrow> db_delegation_states db = db_delegation_states db' \<Longrightarrow>
    delegation_store db = delegation_store db'"
  by (simp add: fun_eq_iff delegation_store_def delegationSelect_def)

lemma DelegationRepository_Get_Inr:
  assumes "DelegationRepository_Get env ctx t u w = (Inr d, w')"
  shows "delegation_store (w_db w) t u = Some d"
proof -
  from assms obtain w1 w2 where "w_db w1 = w_db w"
    and q: "query_one env delegation_not_found namespace_unavailable scanDelegation (delegationSelect t u) w1 = (Inr d, w2)"
    by (auto simp: DelegationRepository_Get_def io_fail_def split: if_splits
        dest!: repository_tx_Inr [OF reads_balanced [OF reads_query_one]])
  with query_one_Inr [OF q] show ?thesis by (auto simp: delegation_store_def)
qed

lemma delegation_store_wf: "delegation_store db t u = Some d \<Longrightarrow> wf_delegation d \<and> del_tenantID d = t \<and> del_id d = u"
proof -
  assume "delegation_store db t u = Some d"
  then obtain r rs where sel: "delegationSelect t u db = r # rs" and sc: "scanDelegation r = Inr d"
    by (auto simp: delegation_store_def split: list.splits sum.splits)
  then have "r \<in> set (delegationSelect t u db)" by simp
  then have "drow_tenant (fst r) = t \<and> drow_id (fst r) = u" by (auto simp: delegationSelect_def)
  with sc show ?thesis
    by (cases r) (auto simp: scanDelegation_def bindE_Inr_iff scan_uuid_valid RestoreDelegation_Inr)
qed

lemma revoke_delegation_body_Inr:
  assumes inv: "outbox_inv (w_db w)"
    and run: "revoke_delegation_body env source actor command reason tx now w = (Inr (d, established), w')"
  obtains current m seqs states fact where
    "delegation_store (w_db w) (ident_TenantID actor) (rd_DelegationID command) = Some current"
    "del_version current = rd_ExpectedVersion command"
    "Delegation_Revoke current reason (rd_Explanation command) now = Inr d"
    "announces_delegation source d ''active'' ''revoked'' (ReasonCode_String reason) now m"
    "int (msg_sequence m) = next_of (w_db w) (del_tenantID d)"
    "w_db w' = (w_db w)\<lparr>db_delegation_states := states,
      db_delegations := map (revoke_row (ident_TenantID actor) (rd_DelegationID command) (del_version d)
        (rd_ExpectedVersion command) (env_store_time env now)) (db_delegations (w_db w)),
      db_audit := db_audit (w_db w) @ [fact], db_sequences := seqs, db_outbox := db_outbox (w_db w) @ [outbox_row env m]\<rparr>"
    "outbox_inv (w_db w')" "wf_result established" "result_status established = StatusOK"
    "Result_ResourceType established = Some delegationResourceType"
    "Result_ResourceID established = Some (UUID_String (del_id d))"
proof -
  let ?t = "ident_TenantID actor" and ?u = "rd_DelegationID command" and ?v = "rd_ExpectedVersion command"
  from run obtain e w1 where rv: "DelegationRepository_Revoke env tx ?t ?u ?v reason (rd_Explanation command) now w = (Inr e, w1)"
    and ann: "announced env source tx ''active'' ''revoked'' (ReasonCode_String reason) StatusOK now e w1 = (Inr (d, established), w')"
    unfolding revoke_delegation_body_def io_bind_Inr by blast
  from DelegationRepository_Revoke_Inr [OF rv] obtain current row rs db1 db2 fact where
    sel: "delegationSelect ?t ?u (w_db w) = row # rs" "scanDelegation row = Inr current" "del_version current = ?v"
    and tr: "Delegation_Revoke current reason (rd_Explanation command) now = Inr e"
    and st: "insert_delegation_state (revoked_state_row env ?t ?u (del_childPrefix current) (del_version e) reason
      (rd_Explanation command) now) (w_db w) = Inr ((), db1)"
    and up: "update_delegation ?t ?u (del_version e) ?v (env_store_time env now) db1 = Inr (1, db2)"
    and w1: "w_db w1 = db2\<lparr>db_audit := db_audit db2 @ [fact]\<rparr>" by blast
  from st obtain states where db1: "db1 = (w_db w)\<lparr>db_delegation_states := states\<rparr>"
    by (auto simp: insert_delegation_state_def split: if_splits)
  from up have db2: "db2 = db1\<lparr>db_delegations := map (revoke_row ?t ?u (del_version e) ?v (env_store_time env now)) (db_delegations db1)\<rparr>"
    by (auto simp: update_delegation_def Let_def split: if_splits)
  have store: "delegation_store (w_db w) ?t ?u = Some current" using sel by (simp add: delegation_store_def)
  have inv1: "outbox_inv (w_db w1)" using inv outbox_inv_cong [of "w_db w1" "w_db w"] by (simp add: w1 db2 db1)
  show thesis
  proof (rule announced_Inr [OF inv1 ann])
    fix m seqs
    assume d: "d = e" and m: "announces_delegation source e ''active'' ''revoked'' (ReasonCode_String reason) now m"
      and sq: "int (msg_sequence m) = next_of (w_db w1) (del_tenantID e)"
      and w': "w_db w' = (w_db w1)\<lparr>db_sequences := seqs, db_outbox := db_outbox (w_db w1) @ [outbox_row env m]\<rparr>"
      and rest: "outbox_inv (w_db w')" "wf_result established" "result_status established = StatusOK"
        "Result_ResourceType established = Some delegationResourceType"
        "Result_ResourceID established = Some (UUID_String (del_id e))"
    have sq': "int (msg_sequence m) = next_of (w_db w) (del_tenantID e)"
      using sq next_of_cong [of "w_db w1" "w_db w"] by (simp add: w1 db2 db1)
    show thesis
      by (rule that [OF store sel(3)]) (use tr m sq' w' w1 db2 db1 rest in \<open>simp_all add: d\<close>)
  qed
qed

lemma DelegationService_Revoke_first:
  assumes run: "DelegationService_Revoke env authorizer source ctx0 actor key command w = (Inr d, w')"
    and free: "idem_bound (w_db w) actor revokeDelegationAction key = None"
    and inv: "idempotency_inv (w_db w)" "outbox_inv (w_db w)"
  obtains current reason now m rc where
    "NewReasonCode (rd_ReasonCode command) = Inr reason"
    "delegation_store (w_db w) (ident_TenantID actor) (rd_DelegationID command) = Some current"
    "del_version current = rd_ExpectedVersion command"
    "Delegation_Revoke current reason (rd_Explanation command) now = Inr d"
    "announces_delegation source d ''active'' ''revoked'' (rd_ReasonCode command) now m"
    "int (msg_sequence m) = next_of (w_db w) (del_tenantID d)"
    "db_delegations (w_db w') = map (revoke_row (ident_TenantID actor) (rd_DelegationID command) (del_version d)
        (rd_ExpectedVersion command) (env_store_time env now)) (db_delegations (w_db w))"
    "db_outbox (w_db w') = db_outbox (w_db w) @ [outbox_row env m]"
    "idem_bound (w_db w') actor revokeDelegationAction key = Some rc" "idem_digest rc = revoke_delegation_digest command"
    "establishes StatusOK delegationResourceType (del_id d) rc" "idempotency_inv (w_db w')" "outbox_inv (w_db w')"
proof -
  from run obtain ctx reason where reason: "NewReasonCode (rd_ReasonCode command) = Inr reason"
    and cmd: "delegation_command env ctx actor revokeDelegationAction key (revoke_delegation_digest command) StatusOK
      (revoke_delegation_body env source actor command reason) w = (Inr d, w')"
    by (rule DelegationService_Revoke_Inr)
  show thesis
  proof (rule command_first [OF _ _ cmd free inv(1)])
    fix now established wa wb
    assume o: "other_tables (w_db wa) = other_tables (w_db w)"
      and b: "revoke_delegation_body env source actor command reason (within ctx actor) now wa = (Inr (d, established), wb)"
    from other_tables_outbox [OF o] inv have "outbox_inv (w_db wa)" by simp
    then show "db_idempotency (w_db wb) = db_idempotency (w_db wa) \<and> wf_result established"
      by (rule revoke_delegation_body_Inr [OF _ b]) simp
  next
    fix now established rc w1 w2
    assume o: "other_tables (w_db w1) = other_tables (w_db w)" "other_tables (w_db w') = other_tables (w_db w2)"
      and b: "revoke_delegation_body env source actor command reason (within ctx actor) now w1 = (Inr (d, established), w2)"
      and rc: "idem_bound (w_db w') actor revokeDelegationAction key = Some rc"
        "idem_digest rc = revoke_delegation_digest command" "idem_result rc = Some established" "idempotency_inv (w_db w')"
    from other_tables_outbox [OF o(1)] inv have inv1: "outbox_inv (w_db w1)" by simp
    show thesis
    proof (rule revoke_delegation_body_Inr [OF inv1 b])
      fix current m seqs states fact
      assume cur: "delegation_store (w_db w1) (ident_TenantID actor) (rd_DelegationID command) = Some current"
          "del_version current = rd_ExpectedVersion command"
        and tr: "Delegation_Revoke current reason (rd_Explanation command) now = Inr d"
        and m: "announces_delegation source d ''active'' ''revoked'' (ReasonCode_String reason) now m"
          "int (msg_sequence m) = next_of (w_db w1) (del_tenantID d)"
        and w2: "w_db w2 = (w_db w1)\<lparr>db_delegation_states := states,
          db_delegations := map (revoke_row (ident_TenantID actor) (rd_DelegationID command) (del_version d)
            (rd_ExpectedVersion command) (env_store_time env now)) (db_delegations (w_db w1)),
          db_audit := db_audit (w_db w1) @ [fact], db_sequences := seqs, db_outbox := db_outbox (w_db w1) @ [outbox_row env m]\<rparr>"
        and inv2: "outbox_inv (w_db w2)"
        and est: "result_status established = StatusOK" "Result_ResourceType established = Some delegationResourceType"
          "Result_ResourceID established = Some (UUID_String (del_id d))"
      note t = o [unfolded other_tables_fields w2, simplified]
      from delegation_store_wf [OF cur(1)] tr have "valid_uuid (del_id d)"
        by (auto simp: Delegation_Revoke_Inr wf_delegation_def)
      with rc(3) est have e: "establishes StatusOK delegationResourceType (del_id d) rc" by (intro establishesI)
      have cur': "delegation_store (w_db w) (ident_TenantID actor) (rd_DelegationID command) = Some current"
        using cur(1) delegation_store_cong [of "w_db w1" "w_db w"] t by simp
      have sq: "int (msg_sequence m) = next_of (w_db w) (del_tenantID d)"
        using m(2) next_of_cong [of "w_db w1" "w_db w"] t by simp
      have inv': "outbox_inv (w_db w')" using other_tables_outbox [OF o(2)] inv2 by simp
      have m': "announces_delegation source d ''active'' ''revoked'' (rd_ReasonCode command) now m"
        using m(1) by (simp only: NewReasonCode_String [OF reason])
      show thesis by (rule that [OF reason cur' cur(2) tr m' sq]) (use t rc(1,2,4) e inv' in simp_all)
    qed
  qed (auto intro!: io_laws)
qed

lemma delegation_command_replayed:
  assumes run: "delegation_command env ctx actor action key digest status body w = (Inr d, w')"
    and bal: "\<And>tx now. balanced (body tx now)"
    and bound: "idem_bound (w_db w) actor action key = Some rc"
  shows "w_db w' = w_db w \<and> idem_digest rc = digest \<and> establishes status delegationResourceType (del_id d) rc \<and>
    delegation_store (w_db w) (ident_TenantID actor) (del_id d) = Some d"
proof -
  from command_replayed [OF reads_DelegationRepository_Get bal run bound] obtain u w1 w2
    where same: "w_db w' = w_db w" "idem_digest rc = digest" "establishes status delegationResourceType u rc" "w_db w1 = w_db w"
      and get: "DelegationRepository_Get env (within ctx actor) (ident_TenantID actor) u w1 = (Inr d, w2)" by auto
  from DelegationRepository_Get_Inr [OF get] same(4)
  have store: "delegation_store (w_db w) (ident_TenantID actor) u = Some d" by simp
  from delegation_store_wf [OF store] have "del_id d = u" by blast
  with same store show ?thesis by simp
qed

lemma AuthorizePublication_Inr:
  assumes inv: "publisher_tables_inv (w_db w)" "ownership_inv (w_db w)"
    and run: "AuthorizePublication env authorizer ctx actor u path w = (Inr x, w')"
  shows "Authorize authorizer actor ActionPublish = None \<and> ValidatePath path \<and> valid_uuid u \<and>
    (\<exists>q. controls (w_db w) (ident_TenantID actor) path q u ''verified'')"
proof -
  from run have a: "Authorize authorizer actor ActionPublish = None"
    and v: "valid_uuid u" "ValidatePath path"
    and "io_bind (DelegationRepository_ResolveOwner env ctx (ident_TenantID actor) path) (\<lambda>owner.
          if owner \<noteq> u then io_fail (typed_service ErrorForbidden ''namespace.publication_not_authorized'')
          else io_return ()) w = (Inr x, w')"
    by (cases "Authorize authorizer actor ActionPublish"; cases "valid_uuid u"; cases "ValidatePath path";
        simp add: AuthorizePublication_def io_fail_def)+
  then obtain owner w1 where own: "DelegationRepository_ResolveOwner env ctx (ident_TenantID actor) path w = (Inr owner, w1)"
    and "owner = u"
    by (auto simp: io_bind_Inr io_fail_def split: if_splits)
  with ResolveOwner_Inr [OF inv own] a v show ?thesis by blast
qed

end
