(* ===== verification/Artifact_Service.thy ===== *)
theory Artifact_Service
  imports Artifact_Repository Delegation_Service
begin

text \<open>
  \<open>internal/app/publication/artifact.go\<close> and \<open>artifact_version.go\<close>: the logical artifact use cases, and
  the registration of a resolved version together with its source.
\<close>

subsection \<open>Artifacts\<close>

definition DefaultArtifactPageSize :: int where "DefaultArtifactPageSize = 50"
definition MaxArtifactPageSize :: int where "MaxArtifactPageSize = 200"
definition MaxArtifactQueryBytes :: nat where "MaxArtifactQueryBytes = 512"
definition artifactCursorLifetime :: Duration where "artifactCursorLifetime = 15 * duration_minute"

definition createArtifactAction :: ReasonCode where
  "createArtifactAction = ReasonCode ''artifact.create''"

definition artifactResourceType :: ReasonCode where
  "artifactResourceType = ReasonCode ''artifact''"

record CreateArtifact =
  ca_NamespaceID :: UUID
  ca_Name :: string
  ca_Kind :: ArtifactKind
  ca_DisplayName :: string
  ca_Description :: string
  ca_Homepage :: string
  ca_Repository :: string
  ca_Labels :: Labels

definition create_artifact_json :: "CreateArtifact \<Rightarrow> json" where
  "create_artifact_json c = JObject
    ([(''namespace_id'', JString (UUID_String (ca_NamespaceID c))), (''name'', JString (ca_Name c)),
      (''kind'', JString (ca_Kind c))] @
     omitempty ''display_name'' (ca_DisplayName c) @ omitempty ''description'' (ca_Description c) @
     omitempty ''homepage'' (ca_Homepage c) @ omitempty ''repository'' (ca_Repository c) @
     (if ca_Labels c = [] then []
      else [(''labels'', json_map (map (\<lambda>label. (fst label, JString (snd label))) (ca_Labels c)))]))"

definition create_artifact_digest :: "CreateArtifact \<Rightarrow> Digest" where
  "create_artifact_digest c = SHA256Digest (json_encode (create_artifact_json c))"

definition artifact_replay :: "Env \<Rightarrow> Ctx \<Rightarrow> UUID \<Rightarrow> IdemRecord \<Rightarrow> Artifact io" where
  "artifact_replay env ctx tenantID rc =
    (case established_resource (typed_service ErrorInternal ''artifact.result_unavailable'')
        StatusCreated artifactResourceType rc of
       Inl e \<Rightarrow> io_fail e
     | Inr uid \<Rightarrow> ArtifactRepository_Get env ctx tenantID uid)"

definition ArtifactService_Create ::
  "Env \<Rightarrow> Authorizer \<Rightarrow> Ctx \<Rightarrow> Identity \<Rightarrow> string \<Rightarrow> CreateArtifact \<Rightarrow> Artifact io" where
  "ArtifactService_Create env authorizer ctx0 actor key command =
    (case Authorize authorizer actor ActionPublish of
       Some e \<Rightarrow> io_fail e
     | None \<Rightarrow>
     (case authenticatedAuditContext ctx0 actor of
        Inl e \<Rightarrow> io_fail e
      | Inr ctx \<Rightarrow>
      (if \<not> valid_uuid (ca_NamespaceID command)
         then io_fail (typed_service ErrorInvalid ''artifact.invalid_request'')
       else
       (let digest = create_artifact_digest command in
       if \<not> is_ok (ValidateOwnership (ident_PrincipalID actor) createArtifactAction key)
         then io_fail (typed_service ErrorInvalid ''artifact.invalid_idempotency_key'')
       else WithinTransaction env ctx (ident_TenantID actor) (\<lambda>tx.
         io_bind (clock_Now env) (\<lambda>now.
         io_bind (ids_New env (typed_service ErrorInternal ''artifact.identifier_unavailable'')) (\<lambda>recordID.
         case Idempotency_New (ident_TenantID actor) recordID (ident_PrincipalID actor) createArtifactAction
             key digest now (now + MinimumRetention) of
           Inl _ \<Rightarrow> io_fail (typed_service ErrorInvalid ''artifact.invalid_request'')
         | Inr rc \<Rightarrow>
           io_bind (IdempotencyRepository_Acquire env tx rc) (\<lambda>(stored, created).
           if \<not> created then artifact_replay env tx (ident_TenantID actor) stored
           else
             io_bind (NamespaceRepository_Get env tx (ident_TenantID actor) (ca_NamespaceID command)) (\<lambda>root.
             io_bind (DelegationRepository_ResolveOwner env tx (ident_TenantID actor) (ns_path root)) (\<lambda>owner.
             if owner \<noteq> ns_ownerPublisherID root
               then io_fail (typed_service ErrorForbidden ''namespace.publication_not_authorized'')
             else
               io_bind (ids_New env (typed_service ErrorInternal ''artifact.identifier_unavailable'')) (\<lambda>artifactID.
               case Artifact_New (ident_TenantID actor) artifactID (ns_id root) (ns_path root) (ca_Name command)
                   (ca_Kind command) (ca_DisplayName command) (ca_Description command) (ca_Homepage command)
                   (ca_Repository command) (ca_Labels command) now of
                 Inl _ \<Rightarrow> io_fail (typed_service ErrorInvalid ''artifact.invalid_request'')
               | Inr result \<Rightarrow>
                 io_bind (ArtifactRepository_Create env tx result) (\<lambda>_.
                 case NewResult StatusCreated (ReasonCode_String artifactResourceType) (UUID_String (art_id result)) of
                   Inl _ \<Rightarrow> io_fail (typed_service ErrorInternal ''artifact.result_unavailable'')
                 | Inr established \<Rightarrow>
                   io_bind (IdempotencyRepository_Complete env tx (ident_TenantID actor) (ident_PrincipalID actor)
                       createArtifactAction key digest established now) (\<lambda>_.
                   io_return result)))))))))))))"

definition ArtifactService_Get :: "Env \<Rightarrow> Ctx \<Rightarrow> Identity \<Rightarrow> UUID \<Rightarrow> Artifact io" where
  "ArtifactService_Get env ctx actor artifactID =
    (case validateIdentity actor of
       Inl e \<Rightarrow> io_fail e
     | Inr _ \<Rightarrow> ArtifactRepository_Get env ctx (ident_TenantID actor) artifactID)"

record ArtifactPage =
  ap_Items :: "Artifact list"
  ap_NextCursor :: string

definition validArtifactQuery :: "string \<Rightarrow> bool" where
  "validArtifactQuery query \<longleftrightarrow>
    \<not> (length query > MaxArtifactQueryBytes \<or> \<not> utf8_valid query) \<and> \<not> has_control query"

definition artifact_query_digest :: "string \<Rightarrow> Digest" where
  "artifact_query_digest query = SHA256Digest
    (CHR 0x7B # json_quote ''query'' @ '':'' @ json_quote query @ '','' @ json_quote ''sort'' @ '':'' @
     json_quote ''artifact_id'' @ [CHR 0x7D])"

definition ArtifactService_List ::
  "Env \<Rightarrow> CursorCodec \<Rightarrow> Ctx \<Rightarrow> Identity \<Rightarrow> string \<Rightarrow> int \<Rightarrow> string \<Rightarrow> ArtifactPage io" where
  "ArtifactService_List env codec ctx actor query pageSize encodedCursor =
    (case validateIdentity actor of
       Inl e \<Rightarrow> io_fail e
     | Inr _ \<Rightarrow>
     (if \<not> validArtifactQuery query
        then io_fail (typed_service ErrorInvalid ''artifact.invalid_query'')
      else let trimmed = trim_space query in
      if pageSize < 1 \<or> pageSize > MaxArtifactPageSize
        then io_fail (typed_service ErrorInvalid ''artifact.invalid_page_size'')
      else
        let scope = \<lparr>scope_TenantID = ident_TenantID actor, scope_Endpoint = ''/v1/artifacts'',
              scope_QueryDigest = artifact_query_digest trimmed, scope_PageSize = pageSize\<rparr> in
        io_bind (decode_position env codec (typed_service ErrorInvalid ''artifact.invalid_cursor'') scope encodedCursor) (\<lambda>after.
        io_bind (ArtifactRepository_List env ctx (ident_TenantID actor) trimmed after (pageSize + 1)) (\<lambda>values.
        if int (length values) > pageSize then
          (let items = take (nat pageSize) values in
           io_bind (clock_Now env) (\<lambda>issued.
           io_bind (clock_Now env) (\<lambda>now.
           io_bind (io_lift (typed_service ErrorInternal ''artifact.cursor_unavailable'')
             (Cursor_Encode codec now scope
               \<lparr>cur_Position = UUID_String (art_id (last items)), cur_ExpiresAt = issued + artifactCursorLifetime\<rparr>)) (\<lambda>next_cursor.
           io_return \<lparr>ap_Items = items, ap_NextCursor = next_cursor\<rparr>))))
        else io_return \<lparr>ap_Items = values, ap_NextCursor = []\<rparr>))))"

subsection \<open>Versions\<close>

definition registerArtifactVersionAction :: ReasonCode where
  "registerArtifactVersionAction = ReasonCode ''artifact_version.register''"

definition artifactVersionResourceType :: ReasonCode where
  "artifactVersionResourceType = ReasonCode ''artifact_version''"

record RegisteredArtifactVersion =
  reg_Version :: ArtifactVersion
  reg_Source :: ArtifactSource

record ResolvedArtifactSource =
  ras_Kind :: SourceKind
  ras_SubmittedReference :: string
  ras_ResolvedReference :: string
  ras_ResolvedDigest :: Digest
  ras_Endpoint :: string
  ras_ImportRecordID :: "UUID option"

record RegisterResolvedArtifactVersion =
  rrv_ArtifactID :: UUID
  rrv_PublisherID :: UUID
  rrv_Version :: SemanticVersion
  rrv_Digest :: Digest
  rrv_Class :: ArtifactClass
  rrv_DeliveryModel :: DeliveryModel
  rrv_ResolvedSource :: ResolvedArtifactSource

text \<open>\<open>json.Marshal\<close> fails on the text of an invalid identifier or digest.\<close>

definition resolved_source_json :: "ResolvedArtifactSource \<Rightarrow> json option" where
  "resolved_source_json s =
    (if \<not> is_ok (Digest_MarshalText (ras_ResolvedDigest s)) \<or>
        (case ras_ImportRecordID s of None \<Rightarrow> False | Some uid \<Rightarrow> \<not> valid_uuid uid) then None
     else Some (JObject
      ([(''kind'', JString (ras_Kind s))] @ omitempty ''submitted_reference'' (ras_SubmittedReference s) @
       [(''resolved_reference'', JString (ras_ResolvedReference s)),
        (''resolved_digest'', JString (Digest_String (ras_ResolvedDigest s)))] @
       omitempty ''endpoint'' (ras_Endpoint s) @
       (case ras_ImportRecordID s of None \<Rightarrow> [] | Some uid \<Rightarrow> [(''import_record_id'', JString (UUID_String uid))]))))"

definition register_version_json :: "RegisterResolvedArtifactVersion \<Rightarrow> json option" where
  "register_version_json c =
    (if \<not> valid_uuid (rrv_ArtifactID c) \<or> \<not> valid_uuid (rrv_PublisherID c) \<or>
        \<not> is_ok (Digest_MarshalText (rrv_Digest c)) then None
     else map_option (\<lambda>source. JObject
      [(''artifact_id'', JString (UUID_String (rrv_ArtifactID c))),
       (''publisher_id'', JString (UUID_String (rrv_PublisherID c))), (''version'', JString (rrv_Version c)),
       (''resolved_digest'', JString (Digest_String (rrv_Digest c))), (''artifact_class'', JString (rrv_Class c)),
       (''delivery_model'', JString (rrv_DeliveryModel c)), (''resolved_source'', source)])
      (resolved_source_json (rrv_ResolvedSource c)))"

definition sourceMatchesDelivery :: "SourceKind \<Rightarrow> DeliveryModel \<Rightarrow> bool" where
  "sourceMatchesDelivery kind delivery \<longleftrightarrow>
    kind = SourceOCI \<and> delivery = DeliveryOCI \<or> kind = SourceRemote \<and> delivery = DeliveryRemote \<or>
    kind = SourceImportRecord \<and> delivery = DeliveryImportedSource"

definition validateResolvedRegistration :: "RegisterResolvedArtifactVersion \<Rightarrow> go_error option" where
  "validateResolvedRegistration command =
    (if \<not> valid_uuid (rrv_ArtifactID command) then Some (typed_service ErrorInvalid ''artifact_version.invalid_request'')
     else if \<not> valid_uuid (rrv_PublisherID command)
       then Some (typed_service ErrorInvalid ''artifact_version.invalid_request'')
     else if ParseSemanticVersion (rrv_Version command) = None
       then Some (typed_service ErrorInvalid ''artifact_version.invalid_request'')
     else if \<not> is_ok (Digest_MarshalText (rrv_Digest command)) \<or>
         ras_ResolvedDigest (rrv_ResolvedSource command) \<noteq> rrv_Digest command
       then Some (typed_service ErrorInvalid ''artifact_version.digest_mismatch'')
     else if \<not> sourceMatchesDelivery (ras_Kind (rrv_ResolvedSource command)) (rrv_DeliveryModel command)
       then Some (typed_service ErrorInvalid ''artifact_version.invalid_source'')
     else None)"

definition resolvedSource :: "UUID \<Rightarrow> UUID \<Rightarrow> ResolvedArtifactSource \<Rightarrow> (source_error, ArtifactSource) result" where
  "resolvedSource tenantID versionID s =
    Source_Restore tenantID versionID (ras_Kind s) (ras_SubmittedReference s) (ras_ResolvedReference s)
      (ras_ResolvedDigest s) (ras_Endpoint s) (ras_ImportRecordID s)"

definition read_registered :: "Env \<Rightarrow> Ctx \<Rightarrow> UUID \<Rightarrow> UUID \<Rightarrow> RegisteredArtifactVersion io" where
  "read_registered env ctx tenantID uid =
    io_bind (VersionRepository_Get env ctx tenantID uid) (\<lambda>version.
    io_bind (SourceRepository_Get env ctx tenantID uid) (\<lambda>source.
    io_return \<lparr>reg_Version = version, reg_Source = source\<rparr>))"

definition replayArtifactVersion :: "Env \<Rightarrow> Ctx \<Rightarrow> UUID \<Rightarrow> IdemRecord \<Rightarrow> RegisteredArtifactVersion io" where
  "replayArtifactVersion env ctx tenantID rc =
    (case established_resource (typed_service ErrorInternal ''artifact_version.result_unavailable'')
        StatusCreated artifactVersionResourceType rc of
       Inl e \<Rightarrow> io_fail e
     | Inr uid \<Rightarrow> read_registered env ctx tenantID uid)"

definition RegisterResolved ::
  "Env \<Rightarrow> Authorizer \<Rightarrow> Ctx \<Rightarrow> Identity \<Rightarrow> string \<Rightarrow> RegisterResolvedArtifactVersion \<Rightarrow> RegisteredArtifactVersion io" where
  "RegisterResolved env authorizer ctx0 actor key command =
    (case Authorize authorizer actor ActionPublish of
       Some e \<Rightarrow> io_fail e
     | None \<Rightarrow>
     (case authenticatedAuditContext ctx0 actor of
        Inl e \<Rightarrow> io_fail e
      | Inr ctx \<Rightarrow>
     (case validateResolvedRegistration command of
        Some e \<Rightarrow> io_fail e
      | None \<Rightarrow>
     (case register_version_json command of
        None \<Rightarrow> io_fail (typed_service ErrorInvalid ''artifact_version.invalid_request'')
      | Some canonical \<Rightarrow>
       (let requestDigest = SHA256Digest (json_encode canonical) in
       if \<not> is_ok (ValidateOwnership (ident_PrincipalID actor) registerArtifactVersionAction key)
         then io_fail (typed_service ErrorInvalid ''artifact_version.invalid_idempotency_key'')
       else WithinTransaction env ctx (ident_TenantID actor) (\<lambda>tx.
         io_bind (clock_Now env) (\<lambda>now.
         io_bind (ids_New env (typed_service ErrorInternal ''artifact_version.identifier_unavailable'')) (\<lambda>recordID.
         case Idempotency_New (ident_TenantID actor) recordID (ident_PrincipalID actor) registerArtifactVersionAction
             key requestDigest now (now + MinimumRetention) of
           Inl _ \<Rightarrow> io_fail (typed_service ErrorInvalid ''artifact_version.invalid_request'')
         | Inr rc \<Rightarrow>
           io_bind (IdempotencyRepository_Acquire env tx rc) (\<lambda>(stored, created).
           if \<not> created then replayArtifactVersion env tx (ident_TenantID actor) stored
           else
             io_bind (ArtifactRepository_Get env tx (ident_TenantID actor) (rrv_ArtifactID command)) (\<lambda>logicalArtifact.
             io_bind (DelegationRepository_ResolveOwner env tx (ident_TenantID actor)
               (ref_namespace (art_identity logicalArtifact))) (\<lambda>owner.
             if owner \<noteq> rrv_PublisherID command
               then io_fail (typed_service ErrorForbidden ''namespace.publication_not_authorized'')
             else
               io_bind (ids_New env (typed_service ErrorInternal ''artifact_version.identifier_unavailable'')) (\<lambda>versionID.
               case Version_New (ident_TenantID actor) versionID (art_id logicalArtifact) (rrv_PublisherID command)
                   (rrv_Version command) (rrv_Digest command) (art_kind logicalArtifact) (rrv_Class command)
                   (rrv_DeliveryModel command) now of
                 Inl _ \<Rightarrow> io_fail (typed_service ErrorInvalid ''artifact_version.invalid_request'')
               | Inr registered \<Rightarrow>
               (case resolvedSource (ident_TenantID actor) versionID (rrv_ResolvedSource command) of
                  Inl _ \<Rightarrow> io_fail (typed_service ErrorInvalid ''artifact_version.invalid_source'')
                | Inr source \<Rightarrow>
                 io_bind (VersionRepository_Create env tx registered) (\<lambda>_.
                 io_bind (SourceRepository_Create env tx source) (\<lambda>_.
                 case NewResult StatusCreated (ReasonCode_String artifactVersionResourceType) (UUID_String versionID) of
                   Inl _ \<Rightarrow> io_fail (typed_service ErrorInternal ''artifact_version.result_unavailable'')
                 | Inr established \<Rightarrow>
                   io_bind (IdempotencyRepository_Complete env tx (ident_TenantID actor) (ident_PrincipalID actor)
                       registerArtifactVersionAction key requestDigest established now) (\<lambda>_.
                   io_return \<lparr>reg_Version = registered, reg_Source = source\<rparr>))))))))))))))))"

subsection \<open>The commands as idempotent commands\<close>

definition create_artifact_body ::
  "Env \<Rightarrow> Identity \<Rightarrow> CreateArtifact \<Rightarrow> Ctx \<Rightarrow> Time \<Rightarrow> (Artifact \<times> IdemResult) io" where
  "create_artifact_body env actor command tx now =
    io_bind (NamespaceRepository_Get env tx (ident_TenantID actor) (ca_NamespaceID command)) (\<lambda>root.
    io_bind (DelegationRepository_ResolveOwner env tx (ident_TenantID actor) (ns_path root)) (\<lambda>owner.
    if owner \<noteq> ns_ownerPublisherID root
      then io_fail (typed_service ErrorForbidden ''namespace.publication_not_authorized'')
    else resource_body env (typed_service ErrorInternal ''artifact.identifier_unavailable'')
      (typed_service ErrorInvalid ''artifact.invalid_request'')
      (typed_service ErrorInternal ''artifact.result_unavailable'') artifactResourceType
      (\<lambda>artifactID. Artifact_New (ident_TenantID actor) artifactID (ns_id root) (ns_path root) (ca_Name command)
         (ca_Kind command) (ca_DisplayName command) (ca_Description command) (ca_Homepage command)
         (ca_Repository command) (ca_Labels command) now)
      art_id (ArtifactRepository_Create env tx)))"

lemma io_bind_if: "io_bind (if c then m else n) k = (if c then io_bind m k else io_bind n k)"
  by simp

abbreviation create_artifact_command ::
  "Env \<Rightarrow> Ctx \<Rightarrow> Identity \<Rightarrow> string \<Rightarrow> CreateArtifact \<Rightarrow> Artifact io" where
  "create_artifact_command env ctx actor key command \<equiv>
    idem_command env ctx actor createArtifactAction key (create_artifact_digest command)
      (typed_service ErrorInternal ''artifact.identifier_unavailable'')
      (typed_service ErrorInvalid ''artifact.invalid_request'')
      (\<lambda>tx. replay_resource (typed_service ErrorInternal ''artifact.result_unavailable'') StatusCreated
        artifactResourceType (ArtifactRepository_Get env tx (ident_TenantID actor)))
      (create_artifact_body env actor command)"

lemma ArtifactService_Create_command:
  assumes "Authorize authorizer actor ActionPublish = None"
    and "authenticatedAuditContext ctx0 actor = Inr ctx" and "valid_uuid (ca_NamespaceID command)"
    and "is_ok (ValidateOwnership (ident_PrincipalID actor) createArtifactAction key)"
  shows "ArtifactService_Create env authorizer ctx0 actor key command =
    create_artifact_command env ctx actor key command"
  using assms
  by (simp add: ArtifactService_Create_def artifact_replay_def replay_resource_def create_artifact_body_def
      idempotent_command_def resource_body_def io_bind_assoc io_bind_sum io_bind_if io_lift_bind Let_def
      cong: sum.case_cong if_cong)

lemma ArtifactService_Create_Inr:
  assumes "ArtifactService_Create env authorizer ctx0 actor key command w = (Inr a, w')"
  obtains ctx where "Authorize authorizer actor ActionPublish = None"
    "authenticatedAuditContext ctx0 actor = Inr ctx"
    "create_artifact_command env ctx actor key command w = (Inr a, w')"
proof -
  from assms obtain ctx where a: "Authorize authorizer actor ActionPublish = None"
    and c: "authenticatedAuditContext ctx0 actor = Inr ctx" and n: "valid_uuid (ca_NamespaceID command)"
    and o: "is_ok (ValidateOwnership (ident_PrincipalID actor) createArtifactAction key)"
    by (auto simp: ArtifactService_Create_def Let_def io_fail_def split: option.splits sum.splits if_splits)
  with assms that show ?thesis unfolding ArtifactService_Create_command [OF a c n o] by blast
qed

definition register_version_body ::
  "Env \<Rightarrow> Identity \<Rightarrow> RegisterResolvedArtifactVersion \<Rightarrow> Ctx \<Rightarrow> Time \<Rightarrow> (RegisteredArtifactVersion \<times> IdemResult) io" where
  "register_version_body env actor command tx now =
    io_bind (ArtifactRepository_Get env tx (ident_TenantID actor) (rrv_ArtifactID command)) (\<lambda>logicalArtifact.
    io_bind (DelegationRepository_ResolveOwner env tx (ident_TenantID actor)
      (ref_namespace (art_identity logicalArtifact))) (\<lambda>owner.
    if owner \<noteq> rrv_PublisherID command
      then io_fail (typed_service ErrorForbidden ''namespace.publication_not_authorized'')
    else
      io_bind (ids_New env (typed_service ErrorInternal ''artifact_version.identifier_unavailable'')) (\<lambda>versionID.
      case Version_New (ident_TenantID actor) versionID (art_id logicalArtifact) (rrv_PublisherID command)
          (rrv_Version command) (rrv_Digest command) (art_kind logicalArtifact) (rrv_Class command)
          (rrv_DeliveryModel command) now of
        Inl _ \<Rightarrow> io_fail (typed_service ErrorInvalid ''artifact_version.invalid_request'')
      | Inr registered \<Rightarrow>
      (case resolvedSource (ident_TenantID actor) versionID (rrv_ResolvedSource command) of
         Inl _ \<Rightarrow> io_fail (typed_service ErrorInvalid ''artifact_version.invalid_source'')
       | Inr source \<Rightarrow>
        io_bind (VersionRepository_Create env tx registered) (\<lambda>_.
        io_bind (SourceRepository_Create env tx source) (\<lambda>_.
        case NewResult StatusCreated (ReasonCode_String artifactVersionResourceType) (UUID_String versionID) of
          Inl _ \<Rightarrow> io_fail (typed_service ErrorInternal ''artifact_version.result_unavailable'')
        | Inr established \<Rightarrow> io_return (\<lparr>reg_Version = registered, reg_Source = source\<rparr>, established)))))))"

abbreviation register_version_command ::
  "Env \<Rightarrow> Ctx \<Rightarrow> Identity \<Rightarrow> string \<Rightarrow> RegisterResolvedArtifactVersion \<Rightarrow> json \<Rightarrow> RegisteredArtifactVersion io" where
  "register_version_command env ctx actor key command canonical \<equiv>
    idem_command env ctx actor registerArtifactVersionAction key (SHA256Digest (json_encode canonical))
      (typed_service ErrorInternal ''artifact_version.identifier_unavailable'')
      (typed_service ErrorInvalid ''artifact_version.invalid_request'')
      (\<lambda>tx. replay_resource (typed_service ErrorInternal ''artifact_version.result_unavailable'') StatusCreated
        artifactVersionResourceType (read_registered env tx (ident_TenantID actor)))
      (register_version_body env actor command)"

lemma RegisterResolved_command:
  assumes "Authorize authorizer actor ActionPublish = None"
    and "authenticatedAuditContext ctx0 actor = Inr ctx" and "validateResolvedRegistration command = None"
    and "register_version_json command = Some canonical"
    and "is_ok (ValidateOwnership (ident_PrincipalID actor) registerArtifactVersionAction key)"
  shows "RegisterResolved env authorizer ctx0 actor key command =
    register_version_command env ctx actor key command canonical"
  using assms
  by (simp add: RegisterResolved_def replayArtifactVersion_def replay_resource_def register_version_body_def
      idempotent_command_def io_bind_assoc io_bind_sum io_bind_if io_lift_bind Let_def
      cong: sum.case_cong if_cong)

lemma RegisterResolved_Inr:
  assumes "RegisterResolved env authorizer ctx0 actor key command w = (Inr r, w')"
  obtains ctx canonical where "Authorize authorizer actor ActionPublish = None"
    "authenticatedAuditContext ctx0 actor = Inr ctx" "validateResolvedRegistration command = None"
    "register_version_json command = Some canonical"
    "register_version_command env ctx actor key command canonical w = (Inr r, w')"
proof -
  from assms obtain ctx canonical where a: "Authorize authorizer actor ActionPublish = None"
    and c: "authenticatedAuditContext ctx0 actor = Inr ctx" and v: "validateResolvedRegistration command = None"
    and j: "register_version_json command = Some canonical"
    and o: "is_ok (ValidateOwnership (ident_PrincipalID actor) registerArtifactVersionAction key)"
    by (auto simp: RegisterResolved_def Let_def io_fail_def split: option.splits sum.splits if_splits)
  with assms that show ?thesis unfolding RegisterResolved_command [OF a c v j o] by blast
qed

subsection \<open>Atomicity\<close>

lemma balanced_create_artifact_body [io_laws]: "balanced (create_artifact_body env actor command tx now)"
  unfolding create_artifact_body_def
  by (auto intro!: balanced_bind balanced_resource_body balanced_fail reads_balanced [OF reads_NamespaceRepository_Get]
      reads_balanced [OF reads_DelegationRepository_ResolveOwner] atomic_balanced [OF atomic_ArtifactRepository_Create])

lemma balanced_register_version_body [io_laws]: "balanced (register_version_body env actor command tx now)"
  unfolding register_version_body_def
  by (auto intro!: balanced_bind balanced_ids balanced_return balanced_fail
      reads_balanced [OF reads_ArtifactRepository(1)] reads_balanced [OF reads_DelegationRepository_ResolveOwner]
      atomic_balanced [OF atomic_VersionRepository_Create] atomic_balanced [OF atomic_SourceRepository_Create]
      split: sum.splits)

lemma reads_read_registered [io_laws]: "reads (read_registered env ctx t u)"
  unfolding read_registered_def by (intro io_laws)

lemma atomic_ArtifactService_Create [io_laws]: "atomic (ArtifactService_Create env authorizer ctx0 actor key command)"
proof -
  have "atomic (create_artifact_command env ctx actor key command)" for ctx
    by (intro idem.command_atomic reads_balanced reads_replay_resource io_laws)
  then show ?thesis
    by (cases "Authorize authorizer actor ActionPublish"; cases "authenticatedAuditContext ctx0 actor";
        cases "valid_uuid (ca_NamespaceID command)";
        cases "is_ok (ValidateOwnership (ident_PrincipalID actor) createArtifactAction key)")
      (simp_all add: ArtifactService_Create_command,
       auto simp: ArtifactService_Create_def Let_def intro: io_laws)
qed

lemma atomic_RegisterResolved [io_laws]: "atomic (RegisterResolved env authorizer ctx0 actor key command)"
proof -
  have "atomic (register_version_command env ctx actor key command canonical)" for ctx canonical
    by (intro idem.command_atomic reads_balanced reads_replay_resource io_laws)
  then show ?thesis
    by (cases "Authorize authorizer actor ActionPublish"; cases "authenticatedAuditContext ctx0 actor";
        cases "validateResolvedRegistration command"; cases "register_version_json command";
        cases "is_ok (ValidateOwnership (ident_PrincipalID actor) registerArtifactVersionAction key)")
      (simp_all add: RegisterResolved_command,
       auto simp: RegisterResolved_def Let_def intro: io_laws)
qed

subsection \<open>Commands that ran\<close>

lemma controls_cong:
  "other_tables db = other_tables db' \<Longrightarrow> controls db t path q u s = controls db' t path q u s"
  by (simp add: controls_def candidates_def current_states_def publisher_rows_def publisherSelect_def other_tables_fields)

lemma other_tables_invs:
  assumes "other_tables db = other_tables db'"
  shows "publisher_tables_inv db = publisher_tables_inv db'" "ownership_inv db = ownership_inv db'"
    "catalog_inv db = catalog_inv db'"
  using assms publisher_tables_inv_cong [of db db'] ownership_inv_cong [of db db'] catalog_inv_cong [of db db']
  by (simp_all add: other_tables_fields)

lemma Artifact_New_facts:
  "Artifact_New t u ns path name kind dn descr home repo labels at = Inr a \<Longrightarrow>
    wf_artifact a \<and> art_tenantID a = t \<and> art_id a = u \<and> art_namespaceID a = ns \<and>
    ref_namespace (art_identity a) = path \<and> Artifact_Name a = name \<and> art_kind a = kind \<and> art_createdAt a = at"
  by (auto simp: Artifact_New_def artifact_restore_Inr Artifact_Name_def)

lemma create_artifact_body_Inr:
  assumes inv: "publisher_tables_inv (w_db w)" "ownership_inv (w_db w)"
    and run: "create_artifact_body env actor command tx now w = (Inr (a, established), w')"
  obtains root q uid db fact where
    "namespace_store (w_db w) (ident_TenantID actor) (ca_NamespaceID command) = Some root"
    "controls (w_db w) (ident_TenantID actor) (ns_path root) q (ns_ownerPublisherID root) ''verified''"
    "Artifact_New (ident_TenantID actor) uid (ns_id root) (ns_path root) (ca_Name command) (ca_Kind command)
      (ca_DisplayName command) (ca_Description command) (ca_Homepage command) (ca_Repository command)
      (ca_Labels command) now = Inr a"
    "insert_artifact env (ns_path root) (artifact_row env a) (w_db w) = Inr (1, db)"
    "w_db w' = db\<lparr>db_audit := db_audit db @ [fact]\<rparr>"
    "wf_result established" "result_status established = StatusCreated"
    "Result_ResourceType established = Some artifactResourceType"
    "Result_ResourceID established = Some (UUID_String (art_id a))"
proof -
  from run obtain root w1 owner w2
    where get: "NamespaceRepository_Get env tx (ident_TenantID actor) (ca_NamespaceID command) w = (Inr root, w1)"
      and own: "DelegationRepository_ResolveOwner env tx (ident_TenantID actor) (ns_path root) w1 = (Inr owner, w2)"
      and rest: "(if owner \<noteq> ns_ownerPublisherID root
        then io_fail (typed_service ErrorForbidden ''namespace.publication_not_authorized'')
        else resource_body env (typed_service ErrorInternal ''artifact.identifier_unavailable'')
          (typed_service ErrorInvalid ''artifact.invalid_request'')
          (typed_service ErrorInternal ''artifact.result_unavailable'') artifactResourceType
          (\<lambda>artifactID. Artifact_New (ident_TenantID actor) artifactID (ns_id root) (ns_path root) (ca_Name command)
             (ca_Kind command) (ca_DisplayName command) (ca_Description command) (ca_Homepage command)
             (ca_Repository command) (ca_Labels command) now)
          art_id (ArtifactRepository_Create env tx)) w2 = (Inr (a, established), w')"
    unfolding create_artifact_body_def io_bind_Inr by blast
  have same: "w_db w1 = w_db w" "w_db w2 = w_db w"
    using readsD [OF reads_NamespaceRepository_Get get] readsD [OF reads_DelegationRepository_ResolveOwner own] by simp_all
  from ResolveOwner_Inr [OF _ _ own] inv same rest [unfolded io_guard_Inr]
  obtain q where q: "controls (w_db w) (ident_TenantID actor) (ns_path root) q (ns_ownerPublisherID root) ''verified''"
    by auto
  from rest [unfolded io_guard_Inr, THEN conjunct2] show thesis
  proof (rule resource_body_Inr)
    fix uid wa wb
    assume new: "Artifact_New (ident_TenantID actor) uid (ns_id root) (ns_path root) (ca_Name command) (ca_Kind command)
        (ca_DisplayName command) (ca_Description command) (ca_Homepage command) (ca_Repository command)
        (ca_Labels command) now = Inr a"
      and wa: "w_db wa = w_db w2" and st: "ArtifactRepository_Create env tx a wa = (Inr (), wb)"
      and wb: "w_db wb = w_db w'"
      and est: "NewResult StatusCreated (ReasonCode_String artifactResourceType) (UUID_String (art_id a)) = Inr established"
    from Artifact_New_facts [OF new] have path: "ref_namespace (art_identity a) = ns_path root" by simp
    from st obtain db fact where ins: "insert_artifact env (ns_path root) (artifact_row env a) (w_db w) = Inr (1, db)"
      and db: "w_db w' = db\<lparr>db_audit := db_audit db @ [fact]\<rparr>"
      by (rule ArtifactRepository_Create_Inr) (simp only: wa wb same path)
    have "artifactResourceType \<noteq> ReasonCode []" by (simp add: artifactResourceType_def)
    from NewResult_establishes [OF est this] show thesis
      by (intro that [OF NamespaceRepository_Get_Inr [OF get] q new ins db]) blast+
  qed
qed

lemma ArtifactService_Create_first:
  assumes run: "ArtifactService_Create env authorizer ctx0 actor key command w = (Inr a, w')"
    and free: "idem_bound (w_db w) actor createArtifactAction key = None"
    and inv: "idempotency_inv (w_db w)" "publisher_tables_inv (w_db w)" "ownership_inv (w_db w)" "catalog_inv (w_db w)"
  obtains root q uid now rc where
    "namespace_store (w_db w) (ident_TenantID actor) (ca_NamespaceID command) = Some root"
    "controls (w_db w) (ident_TenantID actor) (ns_path root) q (ns_ownerPublisherID root) ''verified''"
    "Artifact_New (ident_TenantID actor) uid (ns_id root) (ns_path root) (ca_Name command) (ca_Kind command)
      (ca_DisplayName command) (ca_Description command) (ca_Homepage command) (ca_Repository command)
      (ca_Labels command) now = Inr a"
    "db_artifacts (w_db w') = db_artifacts (w_db w) @ [artifact_row env a]"
    "db_versions (w_db w') = db_versions (w_db w)" "catalog_inv (w_db w')"
    "env_store_time env now \<noteq> 0 \<longrightarrow> artifact_store (w_db w') (art_tenantID a) (art_id a) =
      Some (a\<lparr>art_createdAt := env_store_time env now\<rparr>)"
    "idem_bound (w_db w') actor createArtifactAction key = Some rc" "idem_digest rc = create_artifact_digest command"
    "establishes StatusCreated artifactResourceType (art_id a) rc" "idempotency_inv (w_db w')"
proof -
  from run obtain ctx where cmd: "create_artifact_command env ctx actor key command w = (Inr a, w')"
    by (rule ArtifactService_Create_Inr)
  show thesis
  proof (rule command_first [OF _ _ cmd free inv(1)])
    fix now established wa wb
    assume o: "other_tables (w_db wa) = other_tables (w_db w)"
      and b: "create_artifact_body env actor command (within ctx actor) now wa = (Inr (a, established), wb)"
    from inv other_tables_invs [OF o] have i: "publisher_tables_inv (w_db wa)" "ownership_inv (w_db wa)" by simp_all
    show "db_idempotency (w_db wb) = db_idempotency (w_db wa) \<and> wf_result established"
      by (rule create_artifact_body_Inr [OF i b]) (auto simp del: One_nat_def dest: insert_artifact_Inr)
  next
    fix now established rc w1 w2
    assume o: "other_tables (w_db w1) = other_tables (w_db w)" "other_tables (w_db w') = other_tables (w_db w2)"
      and b: "create_artifact_body env actor command (within ctx actor) now w1 = (Inr (a, established), w2)"
      and rc: "idem_bound (w_db w') actor createArtifactAction key = Some rc" "idem_digest rc = create_artifact_digest command"
        "idem_result rc = Some established" "idempotency_inv (w_db w')"
    from inv other_tables_invs [OF o(1)] have i: "publisher_tables_inv (w_db w1)" "ownership_inv (w_db w1)" "catalog_inv (w_db w1)"
      by simp_all
    show thesis
    proof (rule create_artifact_body_Inr [OF i(1,2) b])
      fix root q uid db fact
      assume root: "namespace_store (w_db w1) (ident_TenantID actor) (ca_NamespaceID command) = Some root"
        and q: "controls (w_db w1) (ident_TenantID actor) (ns_path root) q (ns_ownerPublisherID root) ''verified''"
        and new: "Artifact_New (ident_TenantID actor) uid (ns_id root) (ns_path root) (ca_Name command) (ca_Kind command)
          (ca_DisplayName command) (ca_Description command) (ca_Homepage command) (ca_Repository command)
          (ca_Labels command) now = Inr a"
        and ins: "insert_artifact env (ns_path root) (artifact_row env a) (w_db w1) = Inr (1, db)"
        and w2: "w_db w2 = db\<lparr>db_audit := db_audit db @ [fact]\<rparr>"
        and est: "wf_result established" "result_status established = StatusCreated"
          "Result_ResourceType established = Some artifactResourceType"
          "Result_ResourceID established = Some (UUID_String (art_id a))"
      note facts = Artifact_New_facts [OF new]
      note db = insert_artifact_Inr [OF ins, THEN conjunct1]
      note t = o [unfolded other_tables_fields w2 db, simplified]
      have root': "namespace_store (w_db w) (ident_TenantID actor) (ca_NamespaceID command) = Some root"
        using root namespace_store_cong [of "w_db w1" "w_db w"] t by simp
      have q': "controls (w_db w) (ident_TenantID actor) (ns_path root) q (ns_ownerPublisherID root) ''verified''"
        using q controls_cong [OF o(1)] by simp
      have cat: "catalog_inv (w_db w')"
        using catalog_inv_insert_artifact [OF i(3) ins] other_tables_invs(3) [OF o(2)] by (simp add: w2 catalog_inv_audit)
      have "distinct (map nrow_key (db_namespaces (w_db w1)))" using i(2) by (simp add: ownership_inv_def)
      with artifact_stored [of env a "w_db w1" db] ins facts
      have "env_store_time env now \<noteq> 0 \<longrightarrow> artifact_store db (art_tenantID a) (art_id a) =
          Some (a\<lparr>art_createdAt := env_store_time env now\<rparr>)" by simp
      moreover have "artifact_store (w_db w') = artifact_store db"
        using o(2) by (simp add: fun_eq_iff artifact_store_def artifactSelect_def other_tables_fields w2)
      ultimately have st: "env_store_time env now \<noteq> 0 \<longrightarrow> artifact_store (w_db w') (art_tenantID a) (art_id a) =
          Some (a\<lparr>art_createdAt := env_store_time env now\<rparr>)" by simp
      have e: "establishes StatusCreated artifactResourceType (art_id a) rc"
        by (rule establishesI [OF rc(3) est(2-4)]) (use facts in \<open>unfold wf_artifact_def, blast\<close>)
      show thesis by (rule that [OF root' q' new _ _ cat st rc(1,2) e rc(4)]) (use t in simp_all)
    qed
  qed (auto intro!: io_laws)
qed

lemma ArtifactService_Create_replayed:
  assumes run: "ArtifactService_Create env authorizer ctx0 actor key command w = (Inr a, w')"
    and bound: "idem_bound (w_db w) actor createArtifactAction key = Some rc"
  shows "w_db w' = w_db w \<and> idem_digest rc = create_artifact_digest command \<and>
    establishes StatusCreated artifactResourceType (art_id a) rc \<and>
    artifact_store (w_db w) (ident_TenantID actor) (art_id a) = Some a"
proof -
  from run obtain ctx where cmd: "create_artifact_command env ctx actor key command w = (Inr a, w')"
    by (rule ArtifactService_Create_Inr)
  from command_replayed [OF reads_ArtifactRepository(1) balanced_create_artifact_body cmd bound] obtain u w1 w2
    where "w_db w' = w_db w" "idem_digest rc = create_artifact_digest command" "w_db w1 = w_db w"
      "establishes StatusCreated artifactResourceType u rc"
      and get: "ArtifactRepository_Get env (within ctx actor) (ident_TenantID actor) u w1 = (Inr a, w2)" by auto
  with ArtifactRepository_Get_Inr [OF get] show ?thesis by auto
qed

text \<open>Registration: the version and its source.\<close>

lemma Version_New_facts:
  "Version_New t u art pub sv digest kind cls delivery at = Inr v \<Longrightarrow>
    wf_version v \<and> ver_tenantID v = t \<and> ver_id v = u \<and> ver_artifactID v = art \<and> ver_publisherID v = pub \<and>
    ver_version v = sv \<and> ver_digest v = digest \<and> ver_kind v = kind \<and> ver_lifecycle v = LifecycleActive \<and>
    ver_delivery v = delivery \<and> ver_registeredAt v = at"
  unfolding Version_New_def version_restore_Inr by (cases v) simp

lemma resolvedSource_facts:
  "resolvedSource t u rs = Inr s \<Longrightarrow>
    wf_source s \<and> src_tenantID s = t \<and> src_artifactVersionID s = u \<and> src_resolvedDigest s = ras_ResolvedDigest rs \<and>
    src_kind s = ras_Kind rs"
  unfolding resolvedSource_def Source_Restore_def source_restore_Inr by (cases s) simp

lemma validated_digest:
  "validateResolvedRegistration command = None \<Longrightarrow>
    ras_ResolvedDigest (rrv_ResolvedSource command) = rrv_Digest command \<and>
    sourceMatchesDelivery (ras_Kind (rrv_ResolvedSource command)) (rrv_DeliveryModel command)"
  by (simp add: validateResolvedRegistration_def split: if_splits)

lemma register_version_body_Inr:
  assumes inv: "publisher_tables_inv (w_db w)" "ownership_inv (w_db w)"
    and run: "register_version_body env actor command tx now w = (Inr (r, established), w')"
  obtains a q uid db1 f1 db2 f2 where
    "artifact_store (w_db w) (ident_TenantID actor) (rrv_ArtifactID command) = Some a"
    "art_id a = rrv_ArtifactID command"
    "controls (w_db w) (ident_TenantID actor) (ref_namespace (art_identity a)) q (rrv_PublisherID command) ''verified''"
    "Version_New (ident_TenantID actor) uid (art_id a) (rrv_PublisherID command) (rrv_Version command)
      (rrv_Digest command) (art_kind a) (rrv_Class command) (rrv_DeliveryModel command) now = Inr (reg_Version r)"
    "resolvedSource (ident_TenantID actor) uid (rrv_ResolvedSource command) = Inr (reg_Source r)"
    "insert_version (version_row env (reg_Version r)) (w_db w) = Inr (1, db1)"
    "insert_source env (reg_Source r) (db1\<lparr>db_audit := db_audit db1 @ [f1]\<rparr>) = Inr (1, db2)"
    "w_db w' = db2\<lparr>db_audit := db_audit db2 @ [f2]\<rparr>"
    "wf_result established" "result_status established = StatusCreated"
    "Result_ResourceType established = Some artifactVersionResourceType"
    "Result_ResourceID established = Some (UUID_String uid)"
proof -
  define finish where "finish uid registered source wx =
      (io_bind (VersionRepository_Create env tx registered) (\<lambda>_.
        io_bind (SourceRepository_Create env tx source) (\<lambda>_.
        case NewResult StatusCreated (ReasonCode_String artifactVersionResourceType) (UUID_String uid) of
          Inl _ \<Rightarrow> io_fail (typed_service ErrorInternal ''artifact_version.result_unavailable'')
        | Inr established \<Rightarrow> io_return (\<lparr>reg_Version = registered, reg_Source = source\<rparr>, established)))) wx"
    for uid registered source wx
  from run obtain a w1 owner w2
    where get: "ArtifactRepository_Get env tx (ident_TenantID actor) (rrv_ArtifactID command) w = (Inr a, w1)"
      and own: "DelegationRepository_ResolveOwner env tx (ident_TenantID actor) (ref_namespace (art_identity a)) w1 = (Inr owner, w2)"
      and rest: "(if owner \<noteq> rrv_PublisherID command
        then io_fail (typed_service ErrorForbidden ''namespace.publication_not_authorized'')
        else io_bind (ids_New env (typed_service ErrorInternal ''artifact_version.identifier_unavailable'')) (\<lambda>versionID.
          case Version_New (ident_TenantID actor) versionID (art_id a) (rrv_PublisherID command)
              (rrv_Version command) (rrv_Digest command) (art_kind a) (rrv_Class command)
              (rrv_DeliveryModel command) now of
            Inl _ \<Rightarrow> io_fail (typed_service ErrorInvalid ''artifact_version.invalid_request'')
          | Inr registered \<Rightarrow>
          (case resolvedSource (ident_TenantID actor) versionID (rrv_ResolvedSource command) of
             Inl _ \<Rightarrow> io_fail (typed_service ErrorInvalid ''artifact_version.invalid_source'')
           | Inr source \<Rightarrow> finish versionID registered source))) w2 = (Inr (r, established), w')"
    unfolding register_version_body_def io_bind_Inr finish_def by blast
  have same: "w_db w1 = w_db w" "w_db w2 = w_db w"
    using readsD [OF reads_ArtifactRepository(1) get] readsD [OF reads_DelegationRepository_ResolveOwner own] by simp_all
  from ResolveOwner_Inr [OF _ _ own] inv same rest [unfolded io_guard_Inr]
  obtain q where q: "controls (w_db w) (ident_TenantID actor) (ref_namespace (art_identity a)) q (rrv_PublisherID command) ''verified''"
    by auto
  from rest [unfolded io_guard_Inr, THEN conjunct2] obtain uid w3 where
    ids: "ids_New env (typed_service ErrorInternal ''artifact_version.identifier_unavailable'') w2 = (Inr uid, w3)"
    and rest3: "(case Version_New (ident_TenantID actor) uid (art_id a) (rrv_PublisherID command)
              (rrv_Version command) (rrv_Digest command) (art_kind a) (rrv_Class command)
              (rrv_DeliveryModel command) now of
            Inl _ \<Rightarrow> io_fail (typed_service ErrorInvalid ''artifact_version.invalid_request'')
          | Inr registered \<Rightarrow>
          (case resolvedSource (ident_TenantID actor) uid (rrv_ResolvedSource command) of
             Inl _ \<Rightarrow> io_fail (typed_service ErrorInvalid ''artifact_version.invalid_source'')
           | Inr source \<Rightarrow> finish uid registered source)) w3 = (Inr (r, established), w')"
    unfolding io_bind_Inr by blast
  from rest3 obtain v s where v: "Version_New (ident_TenantID actor) uid (art_id a) (rrv_PublisherID command)
      (rrv_Version command) (rrv_Digest command) (art_kind a) (rrv_Class command) (rrv_DeliveryModel command) now = Inr v"
    and s: "resolvedSource (ident_TenantID actor) uid (rrv_ResolvedSource command) = Inr s"
    and fin: "finish uid v s w3 = (Inr (r, established), w')"
    by (simp add: io_fail_def split: sum.splits)
  from fin obtain u1 w4 u2 w5 where vc: "VersionRepository_Create env tx v w3 = (Inr u1, w4)"
    and sc: "SourceRepository_Create env tx s w4 = (Inr u2, w5)"
    and res: "(case NewResult StatusCreated (ReasonCode_String artifactVersionResourceType) (UUID_String uid) of
          Inl _ \<Rightarrow> io_fail (typed_service ErrorInternal ''artifact_version.result_unavailable'')
        | Inr established \<Rightarrow> io_return (\<lparr>reg_Version = v, reg_Source = s\<rparr>, established)) w5 = (Inr (r, established), w')"
    unfolding finish_def io_bind_Inr by blast
  from res have est: "NewResult StatusCreated (ReasonCode_String artifactVersionResourceType) (UUID_String uid) = Inr established"
    and r: "reg_Version r = v" "reg_Source r = s" and w': "w' = w5"
    by (auto simp: io_fail_def io_return_def split: sum.splits)
  have w3: "w_db w3 = w_db w" using readsD [OF reads_ids ids] same by simp
  from vc obtain db1 f1 where i1: "insert_version (version_row env v) (w_db w) = Inr (1, db1)"
    and db1: "w_db w4 = db1\<lparr>db_audit := db_audit db1 @ [f1]\<rparr>"
    by (rule VersionRepository_Create_Inr) (simp only: w3)
  from sc obtain db2 f2 where i2: "insert_source env s (db1\<lparr>db_audit := db_audit db1 @ [f1]\<rparr>) = Inr (1, db2)"
    and db2: "w_db w' = db2\<lparr>db_audit := db_audit db2 @ [f2]\<rparr>"
    by (rule SourceRepository_Create_Inr) (simp only: db1 w')
  have "artifactVersionResourceType \<noteq> ReasonCode []" by (simp add: artifactVersionResourceType_def)
  note est = NewResult_establishes [OF est this]
  note a = ArtifactRepository_Get_Inr [OF get]
  show thesis
    by (rule that [OF _ _ q _ _ _ i2 [folded r(2)] db2]) (use a v s i1 est r in simp_all)
qed

text \<open>What the two inserts did to the tables.\<close>

lemma registered_tables:
  assumes i1: "insert_version (version_row env v) db = Inr (1, db1)"
    and i2: "insert_source env s (db1\<lparr>db_audit := facts\<rparr>) = Inr (1, db2)"
    and wf: "wf_version v" "wf_source s"
  shows "db_idempotency db2 = db_idempotency db" "db_artifacts db2 = db_artifacts db"
    "db_versions db2 = db_versions db @ [version_row env v]"
    "source_store db2 (src_tenantID s) (src_artifactVersionID s) = Some s"
    "env_store_time env (ver_registeredAt v) \<noteq> 0 \<longrightarrow> version_store db2 (ver_tenantID v) (ver_id v) =
      Some (v\<lparr>ver_registeredAt := env_store_time env (ver_registeredAt v)\<rparr>)"
    "catalog_inv db \<Longrightarrow> catalog_inv db2"
proof -
  note db1 = insert_version_Inr [OF i1, THEN conjunct1]
  from i2 obtain row where db2: "db2 = db1\<lparr>db_audit := facts, db_sources := db_sources db1 @ [row]\<rparr>"
    by (rule insert_source_Inr) simp
  show "db_idempotency db2 = db_idempotency db" "db_artifacts db2 = db_artifacts db"
    "db_versions db2 = db_versions db @ [version_row env v]" by (simp_all add: db2 db1)
  show "source_store db2 (src_tenantID s) (src_artifactVersionID s) = Some s"
    by (rule source_stored [OF i2 wf(2)])
  have "version_store db2 = version_store db1" by (simp add: fun_eq_iff version_store_def db2)
  with version_stored [OF i1 wf(1)]
  show "env_store_time env (ver_registeredAt v) \<noteq> 0 \<longrightarrow> version_store db2 (ver_tenantID v) (ver_id v) =
      Some (v\<lparr>ver_registeredAt := env_store_time env (ver_registeredAt v)\<rparr>)" by simp
  show "catalog_inv db2" if "catalog_inv db"
    using catalog_inv_insert_source [OF _ i2] catalog_inv_insert_version [OF that i1] by (simp add: catalog_inv_audit)
qed

lemma RegisterResolved_first:
  assumes run: "RegisterResolved env authorizer ctx0 actor key command w = (Inr r, w')"
    and free: "idem_bound (w_db w) actor registerArtifactVersionAction key = None"
    and inv: "idempotency_inv (w_db w)" "publisher_tables_inv (w_db w)" "ownership_inv (w_db w)" "catalog_inv (w_db w)"
  obtains a q uid now rc where
    "artifact_store (w_db w) (ident_TenantID actor) (rrv_ArtifactID command) = Some a"
    "controls (w_db w) (ident_TenantID actor) (ref_namespace (art_identity a)) q (rrv_PublisherID command) ''verified''"
    "Version_New (ident_TenantID actor) uid (rrv_ArtifactID command) (rrv_PublisherID command) (rrv_Version command)
      (rrv_Digest command) (art_kind a) (rrv_Class command) (rrv_DeliveryModel command) now = Inr (reg_Version r)"
    "resolvedSource (ident_TenantID actor) uid (rrv_ResolvedSource command) = Inr (reg_Source r)"
    "ras_ResolvedDigest (rrv_ResolvedSource command) = rrv_Digest command"
    "source_store (w_db w') (ident_TenantID actor) uid = Some (reg_Source r)"
    "env_store_time env now \<noteq> 0 \<longrightarrow> version_store (w_db w') (ident_TenantID actor) uid =
      Some ((reg_Version r)\<lparr>ver_registeredAt := env_store_time env now\<rparr>)"
    "catalog_inv (w_db w')" "idem_bound (w_db w') actor registerArtifactVersionAction key = Some rc"
    "establishes StatusCreated artifactVersionResourceType uid rc" "idempotency_inv (w_db w')"
proof -
  from run obtain ctx canonical where val: "validateResolvedRegistration command = None"
    and cmd: "register_version_command env ctx actor key command canonical w = (Inr r, w')"
    by (rule RegisterResolved_Inr)
  show thesis
  proof (rule command_first [OF _ _ cmd free inv(1)])
    fix now established wa wb
    assume o: "other_tables (w_db wa) = other_tables (w_db w)"
      and b: "register_version_body env actor command (within ctx actor) now wa = (Inr (r, established), wb)"
    from inv other_tables_invs [OF o] have i: "publisher_tables_inv (w_db wa)" "ownership_inv (w_db wa)" by simp_all
    show "db_idempotency (w_db wb) = db_idempotency (w_db wa) \<and> wf_result established"
    proof (rule register_version_body_Inr [OF i b])
      fix uid a db1 f1 db2 f2
      assume v: "Version_New (ident_TenantID actor) uid (art_id a) (rrv_PublisherID command) (rrv_Version command)
          (rrv_Digest command) (art_kind a) (rrv_Class command) (rrv_DeliveryModel command) now = Inr (reg_Version r)"
        and s: "resolvedSource (ident_TenantID actor) uid (rrv_ResolvedSource command) = Inr (reg_Source r)"
        and i1: "insert_version (version_row env (reg_Version r)) (w_db wa) = Inr (1, db1)"
        and i2: "insert_source env (reg_Source r) (db1\<lparr>db_audit := db_audit db1 @ [f1]\<rparr>) = Inr (1, db2)"
        and w2: "w_db wb = db2\<lparr>db_audit := db_audit db2 @ [f2]\<rparr>" and e: "wf_result established"
      from registered_tables(1) [OF i1 i2] Version_New_facts [OF v] resolvedSource_facts [OF s] w2 e
      show ?thesis by simp
    qed
  next
    fix now established rc w1 w2
    assume o: "other_tables (w_db w1) = other_tables (w_db w)" "other_tables (w_db w') = other_tables (w_db w2)"
      and b: "register_version_body env actor command (within ctx actor) now w1 = (Inr (r, established), w2)"
      and rc: "idem_bound (w_db w') actor registerArtifactVersionAction key = Some rc"
        "idem_result rc = Some established" "idempotency_inv (w_db w')"
    from inv other_tables_invs [OF o(1)] have i: "publisher_tables_inv (w_db w1)" "ownership_inv (w_db w1)" "catalog_inv (w_db w1)"
      by simp_all
    show thesis
    proof (rule register_version_body_Inr [OF i(1,2) b])
      fix a q uid db1 f1 db2 f2
      assume a: "artifact_store (w_db w1) (ident_TenantID actor) (rrv_ArtifactID command) = Some a" "art_id a = rrv_ArtifactID command"
        and q: "controls (w_db w1) (ident_TenantID actor) (ref_namespace (art_identity a)) q (rrv_PublisherID command) ''verified''"
        and v: "Version_New (ident_TenantID actor) uid (art_id a) (rrv_PublisherID command) (rrv_Version command)
          (rrv_Digest command) (art_kind a) (rrv_Class command) (rrv_DeliveryModel command) now = Inr (reg_Version r)"
        and s: "resolvedSource (ident_TenantID actor) uid (rrv_ResolvedSource command) = Inr (reg_Source r)"
        and i1: "insert_version (version_row env (reg_Version r)) (w_db w1) = Inr (1, db1)"
        and i2: "insert_source env (reg_Source r) (db1\<lparr>db_audit := db_audit db1 @ [f1]\<rparr>) = Inr (1, db2)"
        and w2: "w_db w2 = db2\<lparr>db_audit := db_audit db2 @ [f2]\<rparr>"
        and est: "result_status established = StatusCreated" "Result_ResourceType established = Some artifactVersionResourceType"
          "Result_ResourceID established = Some (UUID_String uid)"
      note vf = Version_New_facts [OF v] and sf = resolvedSource_facts [OF s]
      note tables = registered_tables [OF i1 i2 vf [THEN conjunct1] sf [THEN conjunct1]]
      note t = o(2) [unfolded other_tables_fields w2, simplified]
      have a': "artifact_store (w_db w) (ident_TenantID actor) (rrv_ArtifactID command) = Some a"
        using a(1) o(1) by (simp add: artifact_store_def artifactSelect_def other_tables_fields)
      have q': "controls (w_db w) (ident_TenantID actor) (ref_namespace (art_identity a)) q (rrv_PublisherID command) ''verified''"
        using q controls_cong [OF o(1)] by simp
      have src: "source_store (w_db w') (ident_TenantID actor) uid = Some (reg_Source r)"
        using tables(4) sf t by (simp add: source_store_def)
      have ver: "env_store_time env now \<noteq> 0 \<longrightarrow> version_store (w_db w') (ident_TenantID actor) uid =
          Some ((reg_Version r)\<lparr>ver_registeredAt := env_store_time env now\<rparr>)"
        using tables(5) vf t by (simp add: version_store_def)
      have cat: "catalog_inv (w_db w')"
        using tables(6) i(3) other_tables_invs(3) [OF o(2)] by (simp add: w2 catalog_inv_audit)
      have e: "establishes StatusCreated artifactVersionResourceType uid rc"
        by (rule establishesI [OF rc(2) est]) (use vf in \<open>unfold wf_version_def, blast\<close>)
      show thesis
        by (rule that [OF a' q' v [unfolded a(2)] s validated_digest [OF val, THEN conjunct1] src ver cat rc(1) e rc(3)])
    qed
  qed (auto intro!: io_laws)
qed

lemma RegisterResolved_replayed:
  assumes run: "RegisterResolved env authorizer ctx0 actor key command w = (Inr r, w')"
    and bound: "idem_bound (w_db w) actor registerArtifactVersionAction key = Some rc"
  shows "w_db w' = w_db w \<and>
    (\<exists>u. establishes StatusCreated artifactVersionResourceType u rc \<and>
      version_store (w_db w) (ident_TenantID actor) u = Some (reg_Version r) \<and>
      source_store (w_db w) (ident_TenantID actor) u = Some (reg_Source r))"
proof -
  from run obtain ctx canonical where cmd: "register_version_command env ctx actor key command canonical w = (Inr r, w')"
    by (rule RegisterResolved_Inr)
  from command_replayed [OF reads_read_registered balanced_register_version_body cmd bound] obtain u w1 w2
    where e: "w_db w' = w_db w" "w_db w1 = w_db w" "establishes StatusCreated artifactVersionResourceType u rc"
      and get: "read_registered env (within ctx actor) (ident_TenantID actor) u w1 = (Inr r, w2)" by auto
  from get obtain v w3 s w4 where v: "VersionRepository_Get env (within ctx actor) (ident_TenantID actor) u w1 = (Inr v, w3)"
    and s: "SourceRepository_Get env (within ctx actor) (ident_TenantID actor) u w3 = (Inr s, w4)"
    and r: "r = \<lparr>reg_Version = v, reg_Source = s\<rparr>"
    by (auto simp: read_registered_def io_bind_Inr io_return_def)
  from VersionRepository_Get_Inr [OF v] SourceRepository_Get_Inr [OF s] readsD [OF reads_VersionRepository(1) v] e r
  show ?thesis by auto
qed

end
