(* ===== verification/Store_Invariant.thy ===== *)
theory Store_Invariant
  imports Artifact_Service
begin

text \<open>
  The invariants of all tables together, and that every operation of the repositories and the
  services keeps them: a property of computations that composes along \<open>io_bind\<close> and transactions,
  proved once per statement.
\<close>

subsection \<open>Computations that keep a property of the database\<close>

definition keeps :: "(DB \<Rightarrow> bool) \<Rightarrow> 'a io \<Rightarrow> bool" where
  "keeps I m \<longleftrightarrow> (\<forall>w v w'. m w = (Inr v, w') \<longrightarrow> I (w_db w) \<longrightarrow> I (w_db w'))"

definition statement_keeps :: "(DB \<Rightarrow> bool) \<Rightarrow> (DB \<Rightarrow> (sql_error, 'a \<times> DB) result) \<Rightarrow> bool" where
  "statement_keeps I st \<longleftrightarrow> (\<forall>db v db'. st db = Inr (v, db') \<longrightarrow> I db \<longrightarrow> I db')"

named_theorems keeps_laws \<open>computations that keep the invariants\<close>

lemma keepsI: "(\<And>w v w'. m w = (Inr v, w') \<Longrightarrow> I (w_db w) \<Longrightarrow> I (w_db w')) \<Longrightarrow> keeps I m"
  by (simp add: keeps_def)

lemma keepsD: "keeps I m \<Longrightarrow> m w = (Inr v, w') \<Longrightarrow> I (w_db w) \<Longrightarrow> I (w_db w')"
  unfolding keeps_def by blast

lemma keeps_conj: "keeps I m \<Longrightarrow> keeps J m \<Longrightarrow> keeps (\<lambda>db. I db \<and> J db) m"
  unfolding keeps_def by blast

lemma keeps_reads: "reads m \<Longrightarrow> keeps I m"
  by (auto simp: keeps_def dest: readsD)

lemma keeps_return [keeps_laws]: "keeps I (io_return v)"
  and keeps_fail [keeps_laws]: "keeps I (io_fail e)"
  and keeps_lift [keeps_laws]: "keeps I (io_lift e r)"
  and keeps_clock [keeps_laws]: "keeps I (clock_Now env)"
  and keeps_ids [keeps_laws]: "keeps I (ids_New env e)"
  and keeps_query_one [keeps_laws]: "keeps I (query_one env nf e scan q)"
  by (intro keeps_reads io_laws)+

lemma keeps_bind [keeps_laws]: "keeps I m \<Longrightarrow> (\<And>v. keeps I (k v)) \<Longrightarrow> keeps I (io_bind m k)"
  by (fastforce simp: keeps_def io_bind_Inr)

lemma keeps_exec [keeps_laws]: "statement_keeps I st \<Longrightarrow> keeps I (io_exec env err st)"
  by (auto simp: keeps_def statement_keeps_def dest: io_exec_Inr)

lemma keeps_commit: "keeps I m \<Longrightarrow> keeps I (commit_or_rollback env u m)"
  by (auto simp: keeps_def commit_or_rollback_Inr dest!: tx_commit_cases)

lemma keeps_repository_tx [keeps_laws]: "keeps I m \<Longrightarrow> keeps I (repository_tx env ctx t e u m)"
proof -
  assume m: "keeps I m"
  have "keeps I (BeginRepositoryTransaction env ctx t)" by (auto simp: keeps_def dest!: begin_repository_cases)
  with m show ?thesis unfolding repository_tx_def by (auto intro!: keeps_bind keeps_commit keeps_fail)
qed

lemma keeps_WithinTransaction [keeps_laws]:
  "(\<And>c. keeps I (operation c)) \<Longrightarrow> keeps I (WithinTransaction env ctx t operation)"
proof -
  assume op: "\<And>c. keeps I (operation c)"
  have "keeps I (tx_begin env u)" for u by (auto simp: keeps_def dest!: tx_begin_cases)
  then show ?thesis unfolding WithinTransaction_def withinNested_def
    by (auto intro!: keeps_bind keeps_commit keeps_fail keeps_reads [OF reads_set_tenant] op split: option.splits)
qed

lemma keeps_sum [keeps_laws]:
  "(\<And>e. keeps I (f e)) \<Longrightarrow> (\<And>v. keeps I (g v)) \<Longrightarrow> keeps I (case r of Inl e \<Rightarrow> f e | Inr v \<Rightarrow> g v)"
  by (cases r) simp_all

lemma keeps_option [keeps_laws]:
  "keeps I f \<Longrightarrow> (\<And>v. keeps I (g v)) \<Longrightarrow> keeps I (case r of None \<Rightarrow> f | Some v \<Rightarrow> g v)"
  by (cases r) simp_all

lemma keeps_list [keeps_laws]:
  "keeps I f \<Longrightarrow> (\<And>v vs. keeps I (g v vs)) \<Longrightarrow> keeps I (case r of [] \<Rightarrow> f | v # vs \<Rightarrow> g v vs)"
  by (cases r) simp_all

lemma keeps_prod [keeps_laws]: "(\<And>a b. keeps I (f a b)) \<Longrightarrow> keeps I (case r of (a, b) \<Rightarrow> f a b)"
  by (cases r) simp_all

lemma keeps_if [keeps_laws]: "keeps I f \<Longrightarrow> keeps I g \<Longrightarrow> keeps I (if c then f else g)"
  by simp

subsection \<open>The invariants\<close>

text \<open>Each invariant constrains its own tables only.\<close>

lemma publisher_tables_inv_frame [simp]:
  "publisher_tables_inv (db\<lparr>db_namespaces := x2\<rparr>) = publisher_tables_inv db" "publisher_tables_inv (db\<lparr>db_delegations := x3\<rparr>) = publisher_tables_inv db"
  "publisher_tables_inv (db\<lparr>db_delegation_states := x4\<rparr>) = publisher_tables_inv db" "publisher_tables_inv (db\<lparr>db_idempotency := x5\<rparr>) = publisher_tables_inv db"
  "publisher_tables_inv (db\<lparr>db_audit := x6\<rparr>) = publisher_tables_inv db" "publisher_tables_inv (db\<lparr>db_sequences := x7\<rparr>) = publisher_tables_inv db"
  "publisher_tables_inv (db\<lparr>db_outbox := x8\<rparr>) = publisher_tables_inv db" "publisher_tables_inv (db\<lparr>db_artifacts := x9\<rparr>) = publisher_tables_inv db"
  "publisher_tables_inv (db\<lparr>db_versions := x10\<rparr>) = publisher_tables_inv db" "publisher_tables_inv (db\<lparr>db_sources := x11\<rparr>) = publisher_tables_inv db"
  by (simp_all add: publisher_tables_inv_def)

lemma idempotency_inv_frame [simp]:
  "idempotency_inv (db\<lparr>db_publishers := x0\<rparr>) = idempotency_inv db" "idempotency_inv (db\<lparr>db_publisher_states := x1\<rparr>) = idempotency_inv db"
  "idempotency_inv (db\<lparr>db_namespaces := x2\<rparr>) = idempotency_inv db" "idempotency_inv (db\<lparr>db_delegations := x3\<rparr>) = idempotency_inv db"
  "idempotency_inv (db\<lparr>db_delegation_states := x4\<rparr>) = idempotency_inv db" "idempotency_inv (db\<lparr>db_audit := x6\<rparr>) = idempotency_inv db"
  "idempotency_inv (db\<lparr>db_sequences := x7\<rparr>) = idempotency_inv db" "idempotency_inv (db\<lparr>db_outbox := x8\<rparr>) = idempotency_inv db"
  "idempotency_inv (db\<lparr>db_artifacts := x9\<rparr>) = idempotency_inv db" "idempotency_inv (db\<lparr>db_versions := x10\<rparr>) = idempotency_inv db"
  "idempotency_inv (db\<lparr>db_sources := x11\<rparr>) = idempotency_inv db"
  by (simp_all add: idempotency_inv_def)

lemma ownership_inv_frame [simp]:
  "ownership_inv (db\<lparr>db_publishers := x0\<rparr>) = ownership_inv db" "ownership_inv (db\<lparr>db_publisher_states := x1\<rparr>) = ownership_inv db"
  "ownership_inv (db\<lparr>db_delegation_states := x4\<rparr>) = ownership_inv db" "ownership_inv (db\<lparr>db_idempotency := x5\<rparr>) = ownership_inv db"
  "ownership_inv (db\<lparr>db_audit := x6\<rparr>) = ownership_inv db" "ownership_inv (db\<lparr>db_sequences := x7\<rparr>) = ownership_inv db"
  "ownership_inv (db\<lparr>db_outbox := x8\<rparr>) = ownership_inv db" "ownership_inv (db\<lparr>db_artifacts := x9\<rparr>) = ownership_inv db"
  "ownership_inv (db\<lparr>db_versions := x10\<rparr>) = ownership_inv db" "ownership_inv (db\<lparr>db_sources := x11\<rparr>) = ownership_inv db"
  by (simp_all add: ownership_inv_def)

lemma outbox_inv_frame [simp]:
  "outbox_inv (db\<lparr>db_publishers := x0\<rparr>) = outbox_inv db" "outbox_inv (db\<lparr>db_publisher_states := x1\<rparr>) = outbox_inv db"
  "outbox_inv (db\<lparr>db_namespaces := x2\<rparr>) = outbox_inv db" "outbox_inv (db\<lparr>db_delegations := x3\<rparr>) = outbox_inv db"
  "outbox_inv (db\<lparr>db_delegation_states := x4\<rparr>) = outbox_inv db" "outbox_inv (db\<lparr>db_idempotency := x5\<rparr>) = outbox_inv db"
  "outbox_inv (db\<lparr>db_audit := x6\<rparr>) = outbox_inv db" "outbox_inv (db\<lparr>db_artifacts := x9\<rparr>) = outbox_inv db"
  "outbox_inv (db\<lparr>db_versions := x10\<rparr>) = outbox_inv db" "outbox_inv (db\<lparr>db_sources := x11\<rparr>) = outbox_inv db"
  by (simp_all add: outbox_inv_def next_of_def)

lemma catalog_inv_frame [simp]:
  "catalog_inv (db\<lparr>db_publishers := x0\<rparr>) = catalog_inv db" "catalog_inv (db\<lparr>db_publisher_states := x1\<rparr>) = catalog_inv db"
  "catalog_inv (db\<lparr>db_namespaces := x2\<rparr>) = catalog_inv db" "catalog_inv (db\<lparr>db_delegations := x3\<rparr>) = catalog_inv db"
  "catalog_inv (db\<lparr>db_delegation_states := x4\<rparr>) = catalog_inv db" "catalog_inv (db\<lparr>db_idempotency := x5\<rparr>) = catalog_inv db"
  "catalog_inv (db\<lparr>db_audit := x6\<rparr>) = catalog_inv db" "catalog_inv (db\<lparr>db_sequences := x7\<rparr>) = catalog_inv db"
  "catalog_inv (db\<lparr>db_outbox := x8\<rparr>) = catalog_inv db"
  by (simp_all add: catalog_inv_def)

definition record_inv :: "DB \<Rightarrow> bool" where
  "record_inv db \<longleftrightarrow> idempotency_inv db \<and> ownership_inv db \<and> outbox_inv db \<and> catalog_inv db"

definition store_inv :: "DB \<Rightarrow> bool" where
  "store_inv db \<longleftrightarrow> publisher_tables_inv db \<and> record_inv db"

lemma record_inv_frame [simp]:
  "record_inv (db\<lparr>db_publishers := a\<rparr>) = record_inv db" "record_inv (db\<lparr>db_publisher_states := b\<rparr>) = record_inv db"
  "record_inv (db\<lparr>db_audit := c\<rparr>) = record_inv db" "record_inv (db\<lparr>db_delegation_states := d\<rparr>) = record_inv db"
  by (simp_all add: record_inv_def)

lemma store_inv_empty: "store_inv (empty_DB\<lparr>db_tenants := tenants\<rparr>)"
  by (simp add: store_inv_def record_inv_def publisher_tables_inv_def idempotency_inv_def ownership_inv_def
      outbox_inv_def catalog_inv_def empty_DB_def)

subsection \<open>Statements\<close>

named_theorems statement_laws \<open>statements that keep the invariants\<close>

lemma statement_keepsI:
  "(\<And>db v db'. st db = Inr (v, db') \<Longrightarrow> I db \<Longrightarrow> I db') \<Longrightarrow> statement_keeps I st"
  by (simp add: statement_keeps_def)

lemma record_publisher_statements [statement_laws]:
  "statement_keeps record_inv (insert_publisher prow)"
  "statement_keeps record_inv (insert_publisher_state psrow)"
  "statement_keeps record_inv (update_publisher_version t u v e)"
  by (auto intro!: statement_keepsI simp: insert_publisher_def insert_publisher_state_def update_publisher_version_def
      Let_def split: if_splits)

lemma audit_statement [statement_laws]:
  "statement_keeps record_inv (insert_audit uid now actor params)"
  "statement_keeps publisher_tables_inv (insert_audit uid now actor params)"
  by (auto intro!: statement_keepsI simp: insert_audit_def insert_audit_row_def Let_def
      split: if_splits option.splits sum.splits)

lemma record_statement:
  "statement_keeps idempotency_inv st \<Longrightarrow> statement_keeps ownership_inv st \<Longrightarrow> statement_keeps outbox_inv st \<Longrightarrow>
    statement_keeps catalog_inv st \<Longrightarrow> statement_keeps record_inv st"
  unfolding statement_keeps_def record_inv_def by blast

text \<open>A statement on one table keeps the invariants of the others.\<close>

definition writes_table :: "(DB \<Rightarrow> (sql_error, 'a \<times> DB) result) \<Rightarrow> ('t \<Rightarrow> DB \<Rightarrow> DB) \<Rightarrow> bool" where
  "writes_table st write \<longleftrightarrow> (\<forall>db v db'. st db = Inr (v, db') \<longrightarrow> db' = db \<or> (\<exists>rows. db' = write rows db))"

lemma writes_table_keeps: "writes_table st write \<Longrightarrow> (\<And>rows db. I (write rows db) = I db) \<Longrightarrow> statement_keeps I st"
  by (fastforce simp: writes_table_def intro!: statement_keepsI)

lemma table_writes:
  "writes_table (insert_namespace nrow) (\<lambda>rows. db_namespaces_update (\<lambda>_. rows))"
  "writes_table (insert_delegation drow) (\<lambda>rows. db_delegations_update (\<lambda>_. rows))"
  "writes_table (insert_delegation_state dsrow) (\<lambda>rows. db_delegation_states_update (\<lambda>_. rows))"
  "writes_table (update_delegation t u v e a) (\<lambda>rows. db_delegations_update (\<lambda>_. rows))"
  "writes_table (insert_idempotency irow) (\<lambda>rows. db_idempotency_update (\<lambda>_. rows))"
  "writes_table (update_idempotency m (complete_row status rt rid at)) (\<lambda>rows. db_idempotency_update (\<lambda>_. rows))"
  "writes_table (allocate_sequence t) (\<lambda>rows. db_sequences_update (\<lambda>_. rows))"
  "writes_table (insert_outbox orow) (\<lambda>rows. db_outbox_update (\<lambda>_. rows))"
  "writes_table (update_outbox env p f) (\<lambda>rows. db_outbox_update (\<lambda>_. rows))"
  "writes_table (insert_artifact env path atrow) (\<lambda>rows. db_artifacts_update (\<lambda>_. rows))"
  "writes_table (insert_version vrow) (\<lambda>rows. db_versions_update (\<lambda>_. rows))"
  "writes_table (insert_source env source) (\<lambda>rows. db_sources_update (\<lambda>_. rows))"
  by (auto simp: writes_table_def insert_namespace_def insert_delegation_def insert_delegation_state_def update_delegation_def
      insert_idempotency_def update_idempotency_def allocate_sequence_def insert_outbox_def update_outbox_def
      insert_artifact_def insert_version_def insert_source_def Let_def
      split: if_splits option.splits list.splits)

lemmas table_keeps = table_writes [THEN writes_table_keeps]

lemma ownership_statement [statement_laws]:
  "statement_keeps ownership_inv (insert_namespace nrow)"
  "active_delegation drow \<Longrightarrow> statement_keeps ownership_inv (insert_delegation drow)"
  "statement_keeps ownership_inv (update_delegation t u v e a)"
  by (rule statement_keepsI, rule ownership_inv_insert_namespace; assumption)
    ((rule statement_keepsI, rule ownership_inv_insert_delegation; assumption),
     (rule statement_keepsI, rule ownership_inv_revoke; assumption))

lemma namespace_statement [statement_laws]:
  "statement_keeps record_inv (insert_namespace nrow)" "statement_keeps publisher_tables_inv (insert_namespace nrow)"
  by (rule record_statement [OF table_keeps(1) ownership_statement(1) table_keeps(1) table_keeps(1)]; simp)
    (rule table_keeps(1); simp)

lemma delegation_statement [statement_laws]:
  "active_delegation drow \<Longrightarrow> statement_keeps record_inv (insert_delegation drow)" "statement_keeps publisher_tables_inv (insert_delegation drow)"
  by (rule record_statement [OF table_keeps(2) ownership_statement(2) table_keeps(2) table_keeps(2)]; simp)
    (rule table_keeps(2); simp)

lemma delegation_state_statement [statement_laws]:
  "statement_keeps record_inv (insert_delegation_state dsrow)" "statement_keeps publisher_tables_inv (insert_delegation_state dsrow)"
  by (rule record_statement [OF table_keeps(3) table_keeps(3) table_keeps(3) table_keeps(3)]; simp)
    (rule table_keeps(3); simp)

lemma revoke_statement [statement_laws]:
  "statement_keeps record_inv (update_delegation t u v e a)" "statement_keeps publisher_tables_inv (update_delegation t u v e a)"
  by (rule record_statement [OF table_keeps(4) ownership_statement(3) table_keeps(4) table_keeps(4)]; simp)
    (rule table_keeps(4); simp)

lemma idempotency_statement:
  "statement_keeps idempotency_inv (insert_idempotency irow)"
  "statement_keeps idempotency_inv (update_idempotency m (complete_row status rt rid at))"
proof -
  show "statement_keeps idempotency_inv (insert_idempotency irow)"
    by (rule statement_keepsI) (auto simp: insert_idempotency_def idempotency_inv_def owned_def split: if_splits)
  have "map (\<lambda>r. (irow_tenant r, irow_principal r, irow_action r, irow_key r))
      (map (\<lambda>r. if m r then complete_row status rt rid at r else r) rows) =
    map (\<lambda>r. (irow_tenant r, irow_principal r, irow_action r, irow_key r)) rows" for rows
    by (simp add: complete_row_def)
  then show "statement_keeps idempotency_inv (update_idempotency m (complete_row status rt rid at))"
    by (intro statement_keepsI) (auto simp: update_idempotency_def idempotency_inv_def Let_def simp del: map_map split: if_splits)
qed

lemma request_statement [statement_laws]:
  "statement_keeps record_inv (insert_idempotency irow)" "statement_keeps publisher_tables_inv (insert_idempotency irow)"
  by (rule record_statement [OF idempotency_statement(1) table_keeps(5) table_keeps(5) table_keeps(5)]; simp)
    (rule table_keeps(5); simp)

lemma completion_statement [statement_laws]:
  "statement_keeps record_inv (update_idempotency m (complete_row status rt rid at))" "statement_keeps publisher_tables_inv (update_idempotency m (complete_row status rt rid at))"
  by (rule record_statement [OF idempotency_statement(2) table_keeps(6) table_keeps(6) table_keeps(6)]; simp)
    (rule table_keeps(6); simp)

lemma outbox_statement:
  "statement_keeps outbox_inv (allocate_sequence t)"
  "0 < orow_sequence orow \<Longrightarrow> statement_keeps outbox_inv (insert_outbox orow)"
  "statement_keeps outbox_inv (update_outbox env p f)"
proof -
  show "statement_keeps outbox_inv (allocate_sequence t)"
  proof (rule statement_keepsI)
    fix db x db' assume run: "allocate_sequence t db = Inr (x, db')" and inv: "outbox_inv db"
    show "outbox_inv db'"
    proof (cases x)
      case None
      with run have "db' = db" by (auto simp: allocate_sequence_def split: option.splits if_splits)
      with inv show ?thesis by simp
    qed (use allocate_sequence_Inr [OF inv] run in blast)
  qed
  show "statement_keeps outbox_inv (insert_outbox orow)" if "0 < orow_sequence orow"
    by (rule statement_keepsI) (use insert_outbox_Inr that in blast)
  show "statement_keeps outbox_inv (update_outbox env p f)"
    by (rule statement_keepsI) (use update_outbox_moves outbox_inv_moves in blast)
qed

lemma sequence_statement [statement_laws]:
  "statement_keeps record_inv (allocate_sequence t)" "statement_keeps publisher_tables_inv (allocate_sequence t)"
  by (rule record_statement [OF table_keeps(7) table_keeps(7) outbox_statement(1) table_keeps(7)]; simp)
    (rule table_keeps(7); simp)

lemma message_statement [statement_laws]:
  "0 < orow_sequence orow \<Longrightarrow> statement_keeps record_inv (insert_outbox orow)" "statement_keeps publisher_tables_inv (insert_outbox orow)"
  by (rule record_statement [OF table_keeps(8) table_keeps(8) outbox_statement(2) table_keeps(8)]; simp)
    (rule table_keeps(8); simp)

lemma delivery_statement [statement_laws]:
  "statement_keeps record_inv (update_outbox env p f)" "statement_keeps publisher_tables_inv (update_outbox env p f)"
  by (rule record_statement [OF table_keeps(9) table_keeps(9) outbox_statement(3) table_keeps(9)]; simp)
    (rule table_keeps(9); simp)

lemma claim_statement [statement_laws]:
  "statement_keeps record_inv (claim_messages env t worker token at lease limit)"
  "statement_keeps publisher_tables_inv (claim_messages env t worker token at lease limit)"
  using delivery_statement unfolding statement_keeps_def claim_messages_def Let_def by blast+

lemma catalog_statement:
  "statement_keeps catalog_inv (insert_artifact env path atrow)"
  "statement_keeps catalog_inv (insert_version vrow)"
  "statement_keeps catalog_inv (insert_source env source)"
proof -
  have none: "x \<noteq> 1 \<Longrightarrow> db' = db"
    if "insert_artifact env path atrow db = Inr (x, db') \<or> insert_version vrow db = Inr (x, db') \<or>
      insert_source env source db = Inr (x, db')" for db x db'
    using that by (auto simp: insert_artifact_def insert_version_def insert_source_def split: if_splits list.splits)
  show "statement_keeps catalog_inv (insert_artifact env path atrow)"
    by (rule statement_keepsI) (use none catalog_inv_insert_artifact in metis)
  show "statement_keeps catalog_inv (insert_version vrow)"
    by (rule statement_keepsI) (use none catalog_inv_insert_version in metis)
  show "statement_keeps catalog_inv (insert_source env source)"
    by (rule statement_keepsI) (use none catalog_inv_insert_source in metis)
qed

lemma artifact_statement [statement_laws]:
  "statement_keeps record_inv (insert_artifact env path atrow)" "statement_keeps publisher_tables_inv (insert_artifact env path atrow)"
  by (rule record_statement [OF table_keeps(10) table_keeps(10) table_keeps(10) catalog_statement(1)]; simp)
    (rule table_keeps(10); simp)

lemma version_statement [statement_laws]:
  "statement_keeps record_inv (insert_version vrow)" "statement_keeps publisher_tables_inv (insert_version vrow)"
  by (rule record_statement [OF table_keeps(11) table_keeps(11) table_keeps(11) catalog_statement(2)]; simp)
    (rule table_keeps(11); simp)

lemma source_statement [statement_laws]:
  "statement_keeps record_inv (insert_source env source)" "statement_keeps publisher_tables_inv (insert_source env source)"
  by (rule record_statement [OF table_keeps(12) table_keeps(12) table_keeps(12) catalog_statement(3)]; simp)
    (rule table_keeps(12); simp)

subsection \<open>Operations\<close>

lemma keeps_Audit_Record [keeps_laws]:
  "keeps record_inv (Audit_Record env ctx params)" "keeps publisher_tables_inv (Audit_Record env ctx params)"
  by (auto simp: keeps_def dest!: Audit_Record_Inr)

lemma active_delegation_row: "active_delegation (delegation_row env d)"
  by (simp add: delegation_row_def)

text \<open>The repositories: every statement they send keeps the records' invariants.\<close>

lemma keeps_records:
  "keeps record_inv (PublisherRepository_Create env ctx p)"
  "keeps record_inv (PublisherRepository_ChangeState env ctx t u v state reason explanation at)"
  "keeps record_inv (NamespaceRepository_Create env ctx n)"
  "keeps record_inv (DelegationRepository_Create env ctx d)"
  "keeps record_inv (DelegationRepository_Revoke env ctx t u v reason explanation at)"
  "keeps record_inv (IdempotencyRepository_Acquire env ctx rc)"
  "keeps record_inv (IdempotencyRepository_Complete env ctx t principalID action key digest res at)"
  "keeps record_inv (ArtifactRepository_Create env ctx a)"
  "keeps record_inv (VersionRepository_Create env ctx version)"
  "keeps record_inv (SourceRepository_Create env ctx source)"
  unfolding PublisherRepository_Create_def PublisherRepository_ChangeState_def NamespaceRepository_Create_def
    DelegationRepository_Create_def DelegationRepository_Revoke_def IdempotencyRepository_Acquire_def
    IdempotencyRepository_Complete_def ArtifactRepository_Create_def VersionRepository_Create_def
    SourceRepository_Create_def idempotency_get_def
  by (intro keeps_laws statement_laws active_delegation_row)+

lemma keeps_publisher_tables:
  "keeps publisher_tables_inv (PublisherRepository_Create env ctx p)"
  "keeps publisher_tables_inv (PublisherRepository_ChangeState env ctx t u v state reason explanation at)"
  "keeps publisher_tables_inv (NamespaceRepository_Create env ctx n)"
  "keeps publisher_tables_inv (DelegationRepository_Create env ctx d)"
  "keeps publisher_tables_inv (DelegationRepository_Revoke env ctx t u v reason explanation at)"
  "keeps publisher_tables_inv (IdempotencyRepository_Acquire env ctx rc)"
  "keeps publisher_tables_inv (IdempotencyRepository_Complete env ctx t principalID action key digest res at)"
  "keeps publisher_tables_inv (ArtifactRepository_Create env ctx a)"
  "keeps publisher_tables_inv (VersionRepository_Create env ctx version)"
  "keeps publisher_tables_inv (SourceRepository_Create env ctx source)"
proof -
  show "keeps publisher_tables_inv (PublisherRepository_Create env ctx p)"
    by (rule keepsI) (rule publisher_tables_inv_Create)
  show "keeps publisher_tables_inv (PublisherRepository_ChangeState env ctx t u v state reason explanation at)"
    by (rule keepsI) (rule publisher_tables_inv_ChangeState)
qed (unfold NamespaceRepository_Create_def DelegationRepository_Create_def DelegationRepository_Revoke_def
    IdempotencyRepository_Acquire_def IdempotencyRepository_Complete_def ArtifactRepository_Create_def
    VersionRepository_Create_def SourceRepository_Create_def idempotency_get_def,
  (intro keeps_laws statement_laws)+)

text \<open>The outbox.\<close>

lemma keeps_CurrentTransaction [keeps_laws]: "keeps I (CurrentTransaction ctx t)"
  by (intro keeps_reads io_laws)

lemma keeps_Outbox_Record: "keeps record_inv (Outbox_Record env m)" "keeps publisher_tables_inv (Outbox_Record env m)"
proof -
  have "0 < orow_sequence (outbox_row env m)" if "msg_sequence m \<noteq> 0" using that by (simp add: outbox_row_def)
  then show "keeps record_inv (Outbox_Record env m)"
    by (cases "msg_sequence m = 0") (simp_all add: Outbox_Record_def keeps_laws statement_laws)
  show "keeps publisher_tables_inv (Outbox_Record env m)"
    unfolding Outbox_Record_def by (intro keeps_laws statement_laws)
qed

lemma keeps_outbox:
  "keeps record_inv (OutboxRepository_NextSequence env ctx t)" "keeps publisher_tables_inv (OutboxRepository_NextSequence env ctx t)"
  "keeps record_inv (OutboxRepository_Record env ctx m)" "keeps publisher_tables_inv (OutboxRepository_Record env ctx m)"
  "keeps record_inv (OutboxRepository_Claim env ctx t worker token at lease limit)"
  "keeps publisher_tables_inv (OutboxRepository_Claim env ctx t worker token at lease limit)"
  "keeps record_inv (OutboxRepository_Retry env ctx t u token reason at)"
  "keeps publisher_tables_inv (OutboxRepository_Retry env ctx t u token reason at)"
  "keeps record_inv (OutboxRepository_Deliver env ctx t u token at)"
  "keeps publisher_tables_inv (OutboxRepository_Deliver env ctx t u token at)"
  "keeps record_inv (OutboxRepository_DeadLetter env ctx t u token reason at)"
  "keeps publisher_tables_inv (OutboxRepository_DeadLetter env ctx t u token reason at)"
  unfolding OutboxRepository_NextSequence_def NextSequence_def OutboxRepository_Record_def OutboxRepository_Claim_def
    OutboxRepository_Retry_def OutboxRepository_Deliver_def OutboxRepository_DeadLetter_def outbox_finish_def
    outbox_tx_def Let_def
  by (intro keeps_laws statement_laws keeps_Outbox_Record)+

subsection \<open>Services\<close>

lemma keeps_store: "keeps record_inv m \<Longrightarrow> keeps publisher_tables_inv m \<Longrightarrow> keeps store_inv m"
  unfolding keeps_def store_inv_def by blast

lemma keeps_repositories [keeps_laws]:
  "keeps store_inv (PublisherRepository_Create env ctx p)"
  "keeps store_inv (PublisherRepository_ChangeState env ctx t u v state reason explanation at)"
  "keeps store_inv (NamespaceRepository_Create env ctx n)"
  "keeps store_inv (DelegationRepository_Create env ctx d)"
  "keeps store_inv (DelegationRepository_Revoke env ctx t u v reason explanation at)"
  "keeps store_inv (IdempotencyRepository_Acquire env ctx rc)"
  "keeps store_inv (IdempotencyRepository_Complete env ctx t principalID action key digest res at)"
  "keeps store_inv (ArtifactRepository_Create env ctx a)"
  "keeps store_inv (VersionRepository_Create env ctx version)"
  "keeps store_inv (SourceRepository_Create env ctx source)"
  "keeps store_inv (OutboxRepository_NextSequence env ctx t)"
  "keeps store_inv (OutboxRepository_Record env ctx m)"
  "keeps store_inv (OutboxRepository_Claim env ctx t worker token at lease limit)"
  "keeps store_inv (OutboxRepository_Retry env ctx t u token reason at)"
  "keeps store_inv (OutboxRepository_Deliver env ctx t u token at)"
  "keeps store_inv (OutboxRepository_DeadLetter env ctx t u token reason at)"
  by (rule keeps_store, rule keeps_records keeps_outbox, rule keeps_publisher_tables keeps_outbox)+

lemma keeps_queries [keeps_laws]:
  "keeps I (PublisherRepository_Get env ctx t u)" "keeps I (NamespaceRepository_Get env ctx t u)"
  "keeps I (DelegationRepository_Get env ctx t u)" "keeps I (DelegationRepository_ResolveOwner env ctx t path)"
  "keeps I (ArtifactRepository_Get env ctx t u)" "keeps I (read_registered env ctx t u)"
  by (intro keeps_reads io_laws)+

lemma keeps_services:
  "keeps store_inv (PublisherService_Create env authorizer ctx actor key create_publisher)"
  "keeps store_inv (NamespaceService_Create env authorizer ctx actor key create_namespace)"
  "keeps store_inv (DelegationService_Create env authorizer origin ctx actor key create_delegation)"
  "keeps store_inv (DelegationService_Revoke env authorizer origin ctx actor key revoke_delegation)"
  "keeps store_inv (ArtifactService_Create env authorizer ctx actor key create_artifact)"
  "keeps store_inv (RegisterResolved env authorizer ctx actor key register_version)"
  unfolding PublisherService_Create_def PublisherService_replay_def NamespaceService_Create_def replayNamespace_def
    DelegationService_Create_def DelegationService_Revoke_def recordEvent_def delegation_newRecord_def
    delegation_complete_def delegation_replay_def ArtifactService_Create_def artifact_replay_def
    RegisterResolved_def replayArtifactVersion_def Let_def
  by (intro keeps_laws)+

subsection \<open>Reachable stores\<close>

text \<open>
  One call by a client or a delivery worker, in any environment and context, whatever it answers:
  the use cases that write, the change of a Publisher's state and the operations on the outbox.
\<close>

inductive store_step :: "DB \<Rightarrow> DB \<Rightarrow> bool" where
  create_publisher: "PublisherService_Create env authorizer ctx actor key cp w = (rp, w') \<Longrightarrow> store_step (w_db w) (w_db w')"
| change_publisher: "PublisherRepository_ChangeState env ctx t u v state reason explanation at w = (rp, w') \<Longrightarrow>
    store_step (w_db w) (w_db w')"
| create_namespace: "NamespaceService_Create env authorizer ctx actor key cn w = (rn, w') \<Longrightarrow> store_step (w_db w) (w_db w')"
| create_delegation: "DelegationService_Create env authorizer origin ctx actor key cd w = (rd, w') \<Longrightarrow>
    store_step (w_db w) (w_db w')"
| revoke_delegation: "DelegationService_Revoke env authorizer origin ctx actor key rvd w = (rd, w') \<Longrightarrow>
    store_step (w_db w) (w_db w')"
| create_artifact: "ArtifactService_Create env authorizer ctx actor key ca w = (ra, w') \<Longrightarrow> store_step (w_db w) (w_db w')"
| register_version: "RegisterResolved env authorizer ctx actor key rv w = (rr, w') \<Longrightarrow> store_step (w_db w) (w_db w')"
| claim_messages: "OutboxRepository_Claim env ctx t worker token at lease limit w = (rms, w') \<Longrightarrow>
    store_step (w_db w) (w_db w')"
| retry_message: "OutboxRepository_Retry env ctx t u token reason at w = (rm, w') \<Longrightarrow> store_step (w_db w) (w_db w')"
| deliver_message: "OutboxRepository_Deliver env ctx t u token at w = (rm, w') \<Longrightarrow> store_step (w_db w) (w_db w')"
| bury_message: "OutboxRepository_DeadLetter env ctx t u token reason at w = (rm, w') \<Longrightarrow> store_step (w_db w) (w_db w')"

lemma atomic_keeps: "atomic m \<Longrightarrow> keeps I m \<Longrightarrow> m w = (r, w') \<Longrightarrow> I (w_db w) \<Longrightarrow> I (w_db w')"
proof (cases r)
  case (Inl e)
  assume "atomic m" "m w = (r, w')" "I (w_db w)"
  with atomicD [of m w e w'] Inl show ?thesis by simp
next
  case (Inr v)
  assume "keeps I m" "m w = (r, w')" "I (w_db w)"
  with keepsD [of I m w v w'] Inr show ?thesis by simp
qed

lemma store_step_inv: "store_step db db' \<Longrightarrow> store_inv db \<Longrightarrow> store_inv db'"
  by (induction rule: store_step.induct; erule (1) atomic_keeps [rotated 2];
      intro io_laws keeps_services keeps_repositories)

lemma reachable_store_inv: "store_step\<^sup>*\<^sup>* db db' \<Longrightarrow> store_inv db \<Longrightarrow> store_inv db'"
  by (induction rule: rtranclp_induct) (auto intro: store_step_inv)

subsection \<open>The first use of a key\<close>

text \<open>A Publisher that is created first is stored, with its stored creation time, and the key is bound to it.\<close>

lemma publisher_first_stored:
  assumes inv: "store_inv (w_db w)" and free: "idem_bound (w_db w) actor createPublisherAction key = None"
    and run: "PublisherService_Create env authorizer ctx actor key command w = (Inr p, w1)"
    and stored: "env_store_time env (pub_createdAt p) \<noteq> 0"
  obtains rc where "publisher_store (w_db w1) (ident_TenantID actor) (pub_id p) =
      Some (p\<lparr>pub_createdAt := env_store_time env (pub_createdAt p)\<rparr>)"
    "idem_bound (w_db w1) actor createPublisherAction key = Some rc" "idem_digest rc = create_publisher_digest command"
    "establishes StatusCreated publisherResourceType (pub_id p) rc" "wf_publisher p" "pub_tenantID p = ident_TenantID actor"
proof -
  have invs: "idempotency_inv (w_db w)" "publisher_tables_inv (w_db w)"
    using inv by (simp_all add: store_inv_def record_inv_def)
  obtain now uid rc ctx0 wa wb where
    new: "Publisher_New (ident_TenantID actor) uid (cp_Slug command) (cp_DisplayName command) (cp_Description command) now = Inr p"
    and create: "PublisherRepository_Create env ctx0 p wa = (Inr (), wb)"
    and o: "other_tables (w_db wa) = other_tables (w_db w)" "other_tables (w_db w1) = other_tables (w_db wb)"
    and bound: "idem_bound (w_db w1) actor createPublisherAction key = Some rc"
      "idem_digest rc = create_publisher_digest command" "establishes StatusCreated publisherResourceType (pub_id p) rc"
    by (rule PublisherService_Create_first [OF run free invs(1)])
  have tenant: "pub_tenantID p = ident_TenantID actor"
    using new by (auto simp: Publisher_New_def publisher_restore_Inr)
  have wf: "wf_publisher p" using Publisher_New_wf [OF new] by blast
  have "publisher_tables_inv (w_db wa)" using other_tables_invs(1) [OF o(1)] invs(2) by simp
  from publisher_store_Create [OF this _ _ _ stored create] Publisher_New_wf [OF new]
  have "publisher_store (w_db wb) (ident_TenantID actor) (pub_id p) =
      Some (p\<lparr>pub_createdAt := env_store_time env (pub_createdAt p)\<rparr>)" by (simp add: tenant)
  then have "publisher_store (w_db w1) (ident_TenantID actor) (pub_id p) =
      Some (p\<lparr>pub_createdAt := env_store_time env (pub_createdAt p)\<rparr>)"
    using publisher_store_cong [of "w_db w1" "w_db wb"] o(2) by (simp add: other_tables_fields)
  from that [OF this bound wf tenant] show thesis .
qed

end
