(* ===== verification/Sample_Services.thy ===== *)
theory Sample_Services
  imports Progress Store_Invariant
begin

text \<open>
  Concrete commands that are carried out: an administrator, an environment whose generators repeat
  themselves, stores with namespaces, delegations and artifacts, and one successful run of each use case.
\<close>

subsection \<open>A concrete service\<close>

text \<open>An administrator of Publishers, an environment whose generators repeat themselves, and a command.\<close>

definition sample_identity :: Identity where
  "sample_identity = \<lparr>ident_TenantID = sample_uuid 9, ident_PrincipalID = ''alice''\<rparr>"

lemma sample_identity_simps [simp]:
  "ident_TenantID sample_identity = sample_uuid 9" "ident_PrincipalID sample_identity = ''alice''"
  by (simp_all add: sample_identity_def)

definition admin_authorizer :: Authorizer where
  "admin_authorizer = \<lparr>rolesByPrincipal =
     [(UUID_String (sample_uuid 9), ''alice'') \<mapsto> {RolePublisherAdmin, RoleNamespaceAdmin, RolePublicationAdmin}]\<rparr>"

lemma sample_permitted:
  "Authorize admin_authorizer sample_identity ActionManagePublishers = None"
  "Authorize admin_authorizer sample_identity ActionManageNamespaces = None"
  "Authorize admin_authorizer sample_identity ActionPublish = None"
  by (simp_all add: Authorize_granted granted_roles_def admin_authorizer_def actionsByRole_def text_ok_ascii)

definition steady_env :: Env where
  "steady_env = sample_env\<lparr>env_identifier := \<lambda>_. Some (sample_uuid 200)\<rparr>"

lemma steady_env_simps [simp]:
  "env_fault steady_env n = None" "env_store_time steady_env t = t - t mod 1000"
  "env_uuidv7 steady_env n = sample_uuid (100 + n)" "env_clock steady_env n = sample_time"
  "env_identifier steady_env n = Some (sample_uuid 200)"
  by (simp_all add: steady_env_def)

lemma sample_store_inv: "store_inv sample_db"
  using sample_db_publisher_inv sample_db_ownership_inv sample_db_idempotency_inv
  by (simp add: store_inv_def record_inv_def outbox_inv_def catalog_inv_def)

lemma sample_serves: "serves steady_env (sample_uuid 9) sample_db"
  by (simp add: serves_def faultless_def sample_prow_def MinimumRetention_def sample_time_def time_defs)

definition sample_command :: CreatePublisher where
  "sample_command = \<lparr>cp_Slug = ''newco'', cp_DisplayName = ''New'', cp_Description = []\<rparr>"

lemma sample_command_accepted:
  "ValidateSlug (cp_Slug sample_command)" "text_ok (cp_DisplayName sample_command) 256"
  "text_ok (cp_Description sample_command) 4096" "cp_Slug sample_command = ''newco''"
  "is_ok (ValidateOwnership ''alice'' createPublisherAction ''k1'')"
  by (simp_all add: sample_command_def ValidateSlug_def slugPattern_def rx_dns_token_def rx_token_def rx_opt_def
      char_class_defs publisher_limits text_ok_ascii is_ok_iff ValidateOwnership_ok createPublisherAction_def)

lemma sample_context: "is_ok (authenticatedAuditContext sample_ctx sample_identity)"
proof -
  have "NewActor ''alice'' None [] = Inr sample_actor" using wf_sample_actor by (simp add: NewActor_Inr) (simp add: sample_actor_def)
  moreover have "actor_requestID sample_actor = None" "actor_traceID sample_actor = []" by (simp_all add: sample_actor_def)
  ultimately show ?thesis by (simp add: authenticatedAuditContext_def is_ok_iff)
qed

subsection \<open>Reading and writing that succeeds\<close>

lemma completes_NamespaceRepository_Get:
  assumes "faultless env" "valid_uuid t" "valid_uuid u" "ctx_tx ctx = Some t"
    and "namespace_store (w_db w) t u = Some n" "Q n (w_db w)"
  shows "completes (NamespaceRepository_Get env ctx t u) w Q"
proof -
  from assms(5) obtain r rs where "filter (\<lambda>r. nrow_tenant r = t \<and> nrow_id r = u) (db_namespaces (w_db w)) = r # rs"
    "namespace_scan r = Inr n" by (auto simp: namespace_store_def split: list.splits sum.splits)
  with assms show ?thesis
    by (auto simp: NamespaceRepository_Get_def namespace_get_def intro!: completes_repository_tx completes_query_one)
qed

lemma completes_ResolveOwner:
  assumes "faultless env" "valid_uuid t" "ValidatePath path" "ctx_tx ctx = Some t"
    and "resolve_query t path (w_db w) = [owner]" "valid_uuid owner" "Q owner (w_db w)"
  shows "completes (DelegationRepository_ResolveOwner env ctx t path) w Q"
  using assms unfolding DelegationRepository_ResolveOwner_def
  by (auto intro!: completes_bind completes_repository_tx completes_query_one completes_lift simp: ParseUUID_String)

lemma completes_ArtifactRepository_Create:
  assumes env: "faultless env" "valid_uuid (art_tenantID a)" "art_tenantID a \<in> set (db_tenants db)" "db_audit db = []"
    and tx: "ctx_tx ctx = Some (art_tenantID a)" and actor: "ActorFromContext (ctx_actor ctx) = Some x"
    and ins: "insert_artifact env (ref_namespace (art_identity a)) (artifact_row env a) (w_db w) = Inr (1, db)"
    and Q: "\<And>db'. db_idempotency db' = db_idempotency db \<Longrightarrow> Q () db'"
  shows "completes (ArtifactRepository_Create env ctx a) w Q"
  unfolding ArtifactRepository_Create_def
  by (rule completes_repository_tx [OF env(1,2)])
    (use assms in \<open>auto intro!: completes_bind completes_exec completes_Audit_Record\<close>)

subsection \<open>An artifact\<close>

definition sample_artifact_command :: CreateArtifact where
  "sample_artifact_command = \<lparr>ca_NamespaceID = sample_uuid 10, ca_Name = ''hammer'', ca_Kind = KindSkill,
     ca_DisplayName = [], ca_Description = [], ca_Homepage = [], ca_Repository = [], ca_Labels = []\<rparr>"

lemma acme_path: "ValidatePath ''acme''"
  by (rule ValidatePath_literal) (simp_all add: char_class_defs)

abbreviation sample_root :: Namespace where
  "sample_root \<equiv> \<lparr>ns_tenantID = sample_uuid 9, ns_id = sample_uuid 10, ns_path = ''acme'',
     ns_ownerPublisherID = sample_uuid 2, ns_createdAt = sample_time\<rparr>"

lemma sample_namespace_stored: "namespace_store sample_db (sample_uuid 9) (sample_uuid 10) = Some sample_root"
proof -
  have "Namespace_New (sample_uuid 9) (sample_uuid 10) ''acme'' (sample_uuid 2) sample_time =
      Inr sample_root"
    using acme_path by (simp add: Namespace_New_Inr wf_namespace_def)
  then show ?thesis
    by (simp add: namespace_store_def sample_db_def namespace_scan_def scan_uuid_def ParseUUID_String Namespace_Restore_def)
qed

lemma sample_acme_owner: "resolve_query (sample_uuid 9) ''acme'' sample_db = [sample_uuid 2]"
  by (simp add: resolve_query_def controlling_def candidates_def covers_def like_child_def
      current_states_def publisher_rows_def publisherSelect_def state_of_publisher_def sample_db_simps)

abbreviation sample_artifact :: "UUID \<Rightarrow> Artifact" where
  "sample_artifact u \<equiv> \<lparr>art_tenantID = sample_uuid 9, art_id = u, art_namespaceID = sample_uuid 10,
     art_identity = \<lparr>ref_namespace = ''acme'', ref_name = ''hammer''\<rparr>, art_kind = KindSkill, art_displayName = [],
     art_description = [], art_homepage = [], art_repository = [], art_labels = [], art_createdAt = sample_time\<rparr>"

lemma sample_reference: "ParseArtifactReference ''acme/hammer'' = Inr \<lparr>ref_namespace = ''acme'', ref_name = ''hammer''\<rparr>"
  using ParseArtifactReference_join [of "''hammer''" "''acme''"]
  by (simp add: validNameToken_regexp rx_dns_token_def rx_token_def rx_opt_def char_class_defs)

lemma wf_sample_artifact: "valid_uuid u \<Longrightarrow> wf_artifact (sample_artifact u)"
  using sample_reference by (simp add: wf_artifact_def Artifact_Name_def validKind_def uri_ok_def optionalURI_def)

lemma artifactResourceType_reason:
  "NewReasonCode (ReasonCode_String artifactResourceType) = Inr artifactResourceType"
  unfolding artifactResourceType_def ReasonCode.sel by (rule NewReasonCode_literal) (simp add: reason_literal_simps)

lemma sample_artifact_created:
  "\<exists>a w'. ArtifactService_Create steady_env admin_authorizer sample_ctx sample_identity ''k1'' sample_artifact_command
    (fresh_world sample_db) = (Inr a, w') \<and> art_createdAt a = sample_time"
proof -
  obtain ctx where ctx: "authenticatedAuditContext sample_ctx sample_identity = Inr ctx"
    using sample_context by (auto simp: is_ok_iff)
  obtain a where a: "ctx_tx ctx = None" "ActorFromContext (ctx_actor (within ctx sample_identity)) = Some a"
    using authenticatedAuditContext_Inr [OF ctx] by (auto simp: ActorFromContext_def wf_actor_def)
  have key: "is_ok (ValidateOwnership (ident_PrincipalID sample_identity) createArtifactAction ''k1'')"
    by (simp add: is_ok_iff ValidateOwnership_ok text_ok_ascii createArtifactAction_def)
  have action: "NewReasonCode (ReasonCode_String createArtifactAction) = Inr createArtifactAction"
    unfolding createArtifactAction_def ReasonCode.sel by (rule NewReasonCode_literal) (simp add: reason_literal_simps)
  have valid: "valid_uuid (ca_NamespaceID sample_artifact_command)" by (simp add: sample_artifact_command_def)
  have serves: "serves steady_env (ident_TenantID sample_identity) (w_db (fresh_world sample_db))" by (simp add: sample_serves)
  have "completes (ArtifactService_Create steady_env admin_authorizer sample_ctx sample_identity ''k1'' sample_artifact_command)
      (fresh_world sample_db) (\<lambda>a _. art_createdAt a = sample_time)"
    unfolding ArtifactService_Create_command [OF sample_permitted(3) ctx valid key]
  proof (rule completes_command [OF serves _ action _ key])
    fix n now and w1 :: World
    assume now: "now = env_clock steady_env n" and w1: "other_tables (w_db w1) = other_tables (w_db (fresh_world sample_db))"
    let ?tx = "ctx\<lparr>ctx_tx := Some (sample_uuid 9)\<rparr>" and ?a = "sample_artifact (sample_uuid 200)"
    note t = w1 [unfolded other_tables_fields, simplified]
    have new: "Artifact_New (sample_uuid 9) (sample_uuid 200) (sample_uuid 10) ''acme'' (ca_Name sample_artifact_command)
        (ca_Kind sample_artifact_command) (ca_DisplayName sample_artifact_command) (ca_Description sample_artifact_command)
        (ca_Homepage sample_artifact_command) (ca_Repository sample_artifact_command) (ca_Labels sample_artifact_command)
        now = Inr ?a"
      using wf_sample_artifact [of "sample_uuid 200"] now
      by (simp add: Artifact_New_def artifact_restore_Inr sample_artifact_command_def)
    have ns: "namespace_store (w_db w2) (sample_uuid 9) (sample_uuid 10) = namespace_store sample_db (sample_uuid 9) (sample_uuid 10)"
      "resolve_query (sample_uuid 9) ''acme'' (w_db w2) = resolve_query (sample_uuid 9) ''acme'' sample_db"
      if "w_db w2 = w_db w1" for w2
      using t that by (simp_all add: namespace_store_def resolve_query_def controlling_def candidates_def current_states_def
          publisher_rows_def publisherSelect_def)
    obtain res where res: "NewResult StatusCreated (ReasonCode_String artifactResourceType) (UUID_String (sample_uuid 200)) = Inr res"
      "wf_result res"
      by (rule resource_result [OF artifactResourceType_reason, of StatusCreated "sample_uuid 200"]) (simp_all add: StatusCreated_def)
    have create: "completes (ArtifactRepository_Create steady_env ?tx ?a) w2
        (\<lambda>_ db. \<forall>w'. w_db w' = db \<longrightarrow> completes (io_return (?a, res)) w'
          (\<lambda>v db. db_idempotency db = db_idempotency (w_db w1) \<and> wf_result (snd v) \<and> art_createdAt (fst v) = sample_time))"
      if w2: "w_db w2 = w_db w1" for w2
    proof (rule completes_ArtifactRepository_Create)
      have "db_artifacts (w_db w2) = []" "list_ex (\<lambda>n. nrow_tenant n = sample_uuid 9 \<and> nrow_id n = sample_uuid 10 \<and> nrow_path n = ''acme'')
          (db_namespaces (w_db w2))" using t w2 by (simp_all add: sample_db_def)
      then show "insert_artifact steady_env (ref_namespace (art_identity ?a)) (artifact_row steady_env ?a) (w_db w2) =
          Inr (1, (w_db w2)\<lparr>db_artifacts := [artifact_row steady_env ?a]\<rparr>)"
        by (simp add: insert_artifact_def artifact_row_def unspaced_def nullif_def del: One_nat_def)
    qed (use a t w2 res(2) in \<open>auto simp: faultless_def intro: completes_return\<close>)
    show "completes (create_artifact_body steady_env sample_identity sample_artifact_command (within ctx sample_identity) now) w1
        (\<lambda>v db. db_idempotency db = db_idempotency (w_db w1) \<and> wf_result (snd v) \<and> art_createdAt (fst v) = sample_time)"
      unfolding create_artifact_body_def resource_body_def sample_identity_simps
    proof (rule completes_bind, rule completes_NamespaceRepository_Get [where n = sample_root], goal_cases)
      case 5
      then show ?case using ns(1) [OF refl] sample_namespace_stored by (simp add: sample_artifact_command_def)
    next
      case 6
      have owner: "completes (DelegationRepository_ResolveOwner steady_env ?tx (sample_uuid 9) ''acme'') w' Q"
        if "w_db w' = w_db w1" "Q (sample_uuid 2) (w_db w')" for w' Q
        by (rule completes_ResolveOwner) (use ns(2) [OF that(1)] that(2) acme_path sample_acme_owner in \<open>simp_all add: faultless_def\<close>)
      show ?case using new res(1) by (auto intro!: completes_bind completes_ids owner create)
    qed (simp_all add: faultless_def valid)
  qed (use a in \<open>simp_all add: create_artifact_digest_def owned_rows_def\<close>)
  then show ?thesis by (auto simp: completes_def)
qed

definition sample_registration :: RegisterResolvedArtifactVersion where
  "sample_registration = \<lparr>rrv_ArtifactID = sample_uuid 30, rrv_PublisherID = sample_uuid 2, rrv_Version = ''1.0.0'',
     rrv_Digest = SHA256Digest ''hammer'', rrv_Class = ClassInstructional, rrv_DeliveryModel = DeliveryOCI,
     rrv_ResolvedSource = \<lparr>ras_Kind = SourceOCI, ras_SubmittedReference = [],
       ras_ResolvedReference = ''registry.example/acme/hammer'', ras_ResolvedDigest = SHA256Digest ''hammer'',
       ras_Endpoint = [], ras_ImportRecordID = None\<rparr>\<rparr>"

subsection \<open>A delegation\<close>

definition sample_origin :: string where "sample_origin = ''urn:thinkpixelmp''"

lemma sample_origin_ok: "valid_source sample_origin" "validateText sample_origin maxSourceBytes" "plain sample_origin"
proof -
  show "valid_source sample_origin" unfolding sample_origin_def by code_simp
  show "validateText sample_origin maxSourceBytes" "plain sample_origin"
    by (simp_all add: sample_origin_def validateText_def NewBoundedString_iff is_ok_iff text_ok_ascii maxSourceBytes_def
        plain_char_def)
qed

lemma sample_stamp: "\<exists>stamp. time_marshal sample_time = Some stamp"
  by (simp add: time_marshal_def sample_time_def time_defs Let_def split: prod.splits)
    (simp add: civil_of_def year_of_def find_year.simps days_before_year_def Let_def)

lemma completes_CurrentTransaction:
  "valid_uuid t \<Longrightarrow> ctx_tx ctx = Some t \<Longrightarrow> Q () (w_db w) \<Longrightarrow> completes (CurrentTransaction ctx t) w Q"
  by (simp add: CurrentTransaction_def completes_return)

text \<open>The event of a first delegation: sequence 1, recorded in the transaction of the change.\<close>

lemma completes_announced:
  assumes env: "faultless env" "\<And>n. \<exists>u. env_identifier env n = Some u \<and> valid_uuid u"
    and d: "\<And>u. valid_uuid u \<Longrightarrow> wf_event_ids u d" and ann: "announces previousState currentState reason"
    and now: "now = sample_time" and tx: "ctx_tx tx = Some (del_tenantID d)"
    and db: "db_sequences (w_db w) = []" "db_outbox (w_db w) = []" "del_tenantID d \<in> set (db_tenants (w_db w))"
    and res: "NewResult status (ReasonCode_String delegationResourceType) (UUID_String (del_id d)) = Inr res"
    and Q: "\<And>db'. db_idempotency db' = db_idempotency (w_db w) \<Longrightarrow> Q (d, res) db'"
  shows "completes (announced env sample_origin tx previousState currentState reason status now d) w Q"
proof -
  let ?t = "del_tenantID d" and ?row = "\<lparr>srow_tenant = del_tenantID d, srow_next = 2\<rparr>"
  let ?db1 = "(w_db w)\<lparr>db_sequences := [?row]\<rparr>"
  have t: "valid_uuid ?t" using d [of ?t] env(2) [of 0] d by (auto simp: wf_event_ids_def)
  obtain stamp where stamp: "time_marshal now = Some stamp" using sample_stamp now by blast
  have "now \<noteq> 0" using now by simp
  have sequence: "completes (OutboxRepository_NextSequence env tx ?t) w' P" if "w_db w' = w_db w" "P 1 ?db1" for w' P
    unfolding OutboxRepository_NextSequence_def NextSequence_def using that db t tx
    by (auto intro!: completes_bind completes_CurrentTransaction completes_exec [OF env(1)] completes_return
        simp: allocate_sequence_def)
  have event: "\<exists>payload m. delegation_payload sample_origin u now d 1 previousState currentState reason = Some payload \<and>
      Outbox_New ?t u 1 sample_origin (delegation_event_type previousState) (UUID_String (del_id d)) payload now = Inr m"
    if "valid_uuid u" for u
    by (rule delegation_event_accepted [OF d [OF that] ann _ _ stamp \<open>now \<noteq> 0\<close> sample_origin_ok(3,2,1), of 1]) auto
  have store: "completes (OutboxRepository_Record env tx m) w' P"
    if m: "Outbox_New ?t u 1 sample_origin ty subject payload now = Inr m" and "w_db w' = ?db1"
      "P () (?db1\<lparr>db_outbox := [outbox_row env m]\<rparr>)" for m u ty subject payload w' P
  proof -
    note f = Outbox_New_facts [OF m]
    have "insert_outbox (outbox_row env m) ?db1 = Inr ((), ?db1\<lparr>db_outbox := [outbox_row env m]\<rparr>)"
      using f db by (simp add: insert_outbox_def) (simp add: outbox_row_def)
    then show ?thesis unfolding OutboxRepository_Record_def Outbox_Record_def using f t tx that
      by (auto intro!: completes_bind completes_CurrentTransaction completes_exec [OF env(1)])
  qed
  have recorded: "completes (recordEvent env sample_origin tx d previousState currentState reason now) w
      (\<lambda>_ db. db_idempotency db = db_idempotency (w_db w))"
    unfolding recordEvent_def
  proof (rule completes_bind, rule sequence [OF refl], intro allI impI, rule completes_bind, rule completes_ids)
    fix n and w1 :: World assume w1: "w_db w1 = ?db1"
    obtain u where u: "env_identifier env n = Some u" "valid_uuid u" using env(2) by blast
    from event [OF u(2)] obtain payload m
      where "delegation_payload sample_origin u now d 1 previousState currentState reason = Some payload"
        and m: "Outbox_New ?t u 1 sample_origin (delegation_event_type previousState) (UUID_String (del_id d)) payload now = Inr m"
      by blast
    with u w1 show "\<exists>u. env_identifier env n = Some u \<and> (\<forall>w'. w_db w' = w_db w1 \<longrightarrow> completes
        (case delegation_payload sample_origin u now d 1 previousState currentState reason of
          None \<Rightarrow> io_fail (typed_service ErrorInternal ''namespace.event_unavailable'')
        | Some payload \<Rightarrow>
          (case Outbox_New ?t u 1 sample_origin (delegation_event_type previousState) (UUID_String (del_id d)) payload now of
             Inl _ \<Rightarrow> io_fail (typed_service ErrorInternal ''namespace.event_unavailable'')
           | Inr message \<Rightarrow> OutboxRepository_Record env tx message)) w' (\<lambda>_ db. db_idempotency db = db_idempotency (w_db w)))"
      by (auto intro!: store [OF m])
  qed
  show ?thesis unfolding announced_def
    by (rule completes_bind, rule completes_weaken [OF recorded]) (use Q in \<open>auto simp: res intro: completes_return\<close>)
qed

lemma serves_identifiers: "\<exists>u. env_identifier steady_env n = Some u \<and> valid_uuid u"
  by simp

lemma steady_faultless: "faultless steady_env"
  by (simp add: faultless_def)

lemma delegationResourceType_reason:
  "NewReasonCode (ReasonCode_String delegationResourceType) = Inr delegationResourceType"
  unfolding delegationResourceType_def ReasonCode.sel by (rule NewReasonCode_literal) (simp add: reason_literal_simps)

definition sample_delegation_command :: CreateDelegation where
  "sample_delegation_command = \<lparr>cd_NamespaceID = sample_uuid 10, cd_ChildPrefix = ''acme/tools/saw'',
     cd_PublisherID = sample_uuid 2\<rparr>"

abbreviation sample_delegation :: Delegation where
  "sample_delegation \<equiv> \<lparr>del_tenantID = sample_uuid 9, del_id = sample_uuid 200, del_namespaceID = sample_uuid 10,
     del_publisherID = sample_uuid 2, del_childPrefix = ''acme/tools/saw'', del_state = DelegationActive,
     del_version = 1, del_createdAt = sample_time\<rparr>"

lemma sample_prefix: "ValidatePath ''acme/tools/saw''"
  by (rule ValidatePath_literal) (simp_all add: char_class_defs)

lemma completes_sample_delegation:
  assumes db: "other_tables (w_db w) = other_tables sample_db" and tx: "ctx_tx tx = Some (sample_uuid 9)"
    and actor: "ActorFromContext (ctx_actor tx) = Some a"
    and Q: "\<And>db. db_idempotency db = db_idempotency (w_db w) \<Longrightarrow> db_sequences db = [] \<Longrightarrow> db_outbox db = [] \<Longrightarrow>
      db_tenants db = [sample_uuid 9] \<Longrightarrow> Q () db"
  shows "completes (DelegationRepository_Create steady_env tx sample_delegation) w Q"
proof -
  note t = db [unfolded other_tables_fields, simplified]
  let ?row = "delegation_row steady_env sample_delegation"
  let ?db1 = "(w_db w)\<lparr>db_delegations := db_delegations (w_db w) @ [?row]\<rparr>"
  let ?db2 = "?db1\<lparr>db_delegation_states := [active_state_row steady_env sample_delegation]\<rparr>"
  have verified: "verified_publisher (sample_uuid 9) (sample_uuid 2) (w_db w)"
    using t by (simp add: verified_publisher_def current_states_def publisher_rows_def publisherSelect_def
        state_of_publisher_def sample_prow_def sample_psrow_def)
  have tables: "db_namespaces (w_db w) = db_namespaces sample_db" "db_delegations (w_db w) = db_delegations sample_db"
    using t by simp_all
  have "enforce_namespace_delegation ?row (w_db w) = None"
    using verified unfolding enforce_namespace_delegation_def tables
    by (simp add: sample_db_def delegation_row_def like_child_def)
  then have insert: "insert_delegation ?row (w_db w) = Inr ((), ?db1)"
    unfolding insert_delegation_def tables by (simp add: sample_db_def delegation_row_def)
  have states: "insert_delegation_state (active_state_row steady_env sample_delegation) ?db1 = Inr ((), ?db2)"
    using t by (simp add: insert_delegation_state_def active_state_row_def delegation_row_def)
  show ?thesis
    unfolding DelegationRepository_Create_def
    by (rule completes_repository_tx)
      (use insert states tx actor t Q in
        \<open>auto intro!: completes_bind completes_exec [OF steady_faultless] completes_Audit_Record [OF steady_faultless]
          simp: steady_faultless\<close>)
qed

lemma sample_delegation_created:
  "\<exists>d w'. DelegationService_Create steady_env admin_authorizer sample_origin sample_ctx sample_identity ''k1''
    sample_delegation_command (fresh_world sample_db) = (Inr d, w')"
proof -
  obtain ctx where ctx: "authenticatedAuditContext sample_ctx sample_identity = Inr ctx"
    using sample_context by (auto simp: is_ok_iff)
  obtain a where a: "ctx_tx ctx = None" "ActorFromContext (ctx_actor (within ctx sample_identity)) = Some a"
    using authenticatedAuditContext_Inr [OF ctx] by (auto simp: ActorFromContext_def wf_actor_def)
  have key: "is_ok (ValidateOwnership (ident_PrincipalID sample_identity) createDelegationAction ''k1'')"
    by (simp add: is_ok_iff ValidateOwnership_ok text_ok_ascii createDelegationAction_def)
  have action: "NewReasonCode (ReasonCode_String createDelegationAction) = Inr createDelegationAction"
    unfolding createDelegationAction_def ReasonCode.sel by (rule NewReasonCode_literal) (simp add: reason_literal_simps)
  have valid: "valid_uuid (cd_NamespaceID sample_delegation_command)" "ValidatePath (cd_ChildPrefix sample_delegation_command)"
    "valid_uuid (cd_PublisherID sample_delegation_command)"
    using sample_prefix by (simp_all add: sample_delegation_command_def)
  have serves: "serves steady_env (ident_TenantID sample_identity) (w_db (fresh_world sample_db))" by (simp add: sample_serves)
  obtain res where res: "NewResult StatusCreated (ReasonCode_String delegationResourceType) (UUID_String (sample_uuid 200)) = Inr res"
    "wf_result res"
    by (rule resource_result [OF delegationResourceType_reason, of StatusCreated "sample_uuid 200"]) (simp_all add: StatusCreated_def)
  have "completes (DelegationService_Create steady_env admin_authorizer sample_origin sample_ctx sample_identity ''k1''
      sample_delegation_command) (fresh_world sample_db) (\<lambda>_ _. True)"
    unfolding DelegationService_Create_command [OF sample_permitted(2) ctx valid key]
  proof (rule completes_command [OF serves _ action _ key])
    fix n now and w1 :: World
    assume now: "now = env_clock steady_env n" and w1: "other_tables (w_db w1) = other_tables (w_db (fresh_world sample_db))"
    let ?tx = "ctx\<lparr>ctx_tx := Some (sample_uuid 9)\<rparr>"
    have ns: "namespace_store (w_db w1) (sample_uuid 9) (sample_uuid 10) = Some sample_root"
      using w1 sample_namespace_stored by (simp add: namespace_store_def other_tables_fields)
    have new: "NewDelegation (sample_uuid 9) (sample_uuid 200) (sample_uuid 10) ''acme'' (sample_uuid 2) ''acme/tools/saw'' now =
        Inr sample_delegation"
      using sample_prefix acme_path now by (simp add: NewDelegation_def restoreDelegation_def IsStrictDescendant_def)
    have announce: "completes (announced steady_env sample_origin ?tx [] ''active'' [] StatusCreated now sample_delegation) w2
        (\<lambda>v db. db_idempotency db = db_idempotency (w_db w1) \<and> wf_result (snd v) \<and> True)"
      if "db_idempotency (w_db w2) = db_idempotency (w_db w1)" "db_sequences (w_db w2) = []" "db_outbox (w_db w2) = []"
        "db_tenants (w_db w2) = [sample_uuid 9]" for w2
      by (rule completes_announced [OF steady_faultless serves_identifiers])
        (use that res now in \<open>auto simp: wf_event_ids_def announces_def\<close>)
    have create: "completes (DelegationRepository_Create steady_env ?tx sample_delegation) w2
        (\<lambda>_ db. \<forall>w'. w_db w' = db \<longrightarrow> completes (announced steady_env sample_origin ?tx [] ''active'' [] StatusCreated now
          sample_delegation) w' (\<lambda>v db. db_idempotency db = db_idempotency (w_db w1) \<and> wf_result (snd v) \<and> True))"
      if "w_db w2 = w_db w1" for w2
      by (rule completes_sample_delegation) (use that w1 a announce in auto)
    show "completes (create_delegation_body steady_env sample_origin sample_identity sample_delegation_command
        (within ctx sample_identity) now) w1
        (\<lambda>v db. db_idempotency db = db_idempotency (w_db w1) \<and> wf_result (snd v) \<and> True)"
      unfolding create_delegation_body_def sample_identity_simps
      by (rule completes_bind, rule completes_NamespaceRepository_Get [where n = sample_root])
        (use ns new create valid in \<open>auto simp: steady_faultless sample_delegation_command_def intro!: completes_bind completes_ids\<close>)
  qed (use a in \<open>simp_all add: create_delegation_digest_def owned_rows_def\<close>)
  then show ?thesis by (auto simp: completes_def)
qed

subsection \<open>A revocation\<close>

text \<open>The store with the record of the delegation's state.\<close>

definition sample_drow :: DelegationRow where
  "sample_drow = \<lparr>drow_tenant = sample_uuid 9, drow_id = sample_uuid 20, drow_namespace = sample_uuid 10,
     drow_prefix = ''acme/tools'', drow_publisher = sample_uuid 3, drow_current_version = 1, drow_revoked_at = None,
     drow_created_at = sample_time - 789\<rparr>"

definition sample_dsrow :: DelegationStateRow where
  "sample_dsrow = \<lparr>dsrow_tenant = sample_uuid 9, dsrow_delegation = sample_uuid 20, dsrow_prefix = ''acme/tools'',
     dsrow_version = 1, dsrow_state = ''active'', dsrow_reason = None, dsrow_explanation = [],
     dsrow_recorded_at = sample_time - 789\<rparr>"

definition delegated_db :: DB where
  "delegated_db = sample_db\<lparr>db_delegations := [sample_drow], db_delegation_states := [sample_dsrow]\<rparr>"

lemma sample_micros: "sample_time - sample_time mod 1000 = sample_time - 789" "sample_time \<noteq> 789" "0 < sample_time - 789"
  by (simp_all add: sample_time_def time_defs)

lemma delegated_store_inv: "store_inv delegated_db"
proof -
  have "ownership_inv delegated_db"
    by (simp add: ownership_inv_def delegated_db_def sample_drow_def sample_db_def nrow_key_def nrow_place_def
        drow_key_def drow_place_def like_child_def)
  then show ?thesis
    using sample_store_inv by (simp add: store_inv_def record_inv_def delegated_db_def)
qed

abbreviation stored_delegation :: Delegation where
  "stored_delegation \<equiv> \<lparr>del_tenantID = sample_uuid 9, del_id = sample_uuid 20, del_namespaceID = sample_uuid 10,
     del_publisherID = sample_uuid 3, del_childPrefix = ''acme/tools'', del_state = DelegationActive,
     del_version = 1, del_createdAt = sample_time - 789\<rparr>"

lemma sample_delegation_scan: "scanDelegation (sample_drow, sample_dsrow) = Inr stored_delegation"
proof -
  have "ValidatePath ''acme/tools''" by (rule ValidatePath_literal) (simp_all add: char_class_defs)
  then have "wf_delegation stored_delegation" using sample_micros(2) by (simp add: wf_delegation_def)
  then show ?thesis
    by (simp add: scanDelegation_def bindE_Inr_iff scan_uuid_valid RestoreDelegation_Inr) (simp add: sample_drow_def sample_dsrow_def)
qed

definition sample_revocation :: RevokeDelegation where
  "sample_revocation = \<lparr>rd_DelegationID = sample_uuid 20, rd_ExpectedVersion = 1, rd_ReasonCode = ''namespace.closed'',
     rd_Explanation = []\<rparr>"

lemma sample_reason: "NewReasonCode ''namespace.closed'' = Inr (ReasonCode ''namespace.closed'')"
  by (rule NewReasonCode_literal) (simp add: reason_literal_simps)

lemma completes_sample_revocation:
  assumes db: "other_tables (w_db w) = other_tables delegated_db" and tx: "ctx_tx tx = Some (sample_uuid 9)"
    and actor: "ActorFromContext (ctx_actor tx) = Some a" and now: "now = sample_time"
    and Q: "\<And>db. db_idempotency db = db_idempotency (w_db w) \<Longrightarrow> db_sequences db = [] \<Longrightarrow> db_outbox db = [] \<Longrightarrow>
      db_tenants db = [sample_uuid 9] \<Longrightarrow> Q (stored_delegation\<lparr>del_state := DelegationRevoked, del_version := 2\<rparr>) db"
  shows "completes (DelegationRepository_Revoke steady_env tx (sample_uuid 9) (sample_uuid 20) 1
    (ReasonCode ''namespace.closed'') [] now) w Q"
proof -
  let ?row = "revoked_state_row steady_env (sample_uuid 9) (sample_uuid 20) ''acme/tools'' 2 (ReasonCode ''namespace.closed'') [] now"
  let ?at = "env_store_time steady_env now"
  let ?db1 = "(w_db w)\<lparr>db_delegation_states := [sample_dsrow, ?row]\<rparr>"
  let ?db2 = "?db1\<lparr>db_delegations := [revoke_row (sample_uuid 9) (sample_uuid 20) 2 1 ?at sample_drow]\<rparr>"
  have t: "db_delegations (w_db w) = [sample_drow]" "db_delegation_states (w_db w) = [sample_dsrow]"
    "db_tenants (w_db w) = [sample_uuid 9]" "db_audit (w_db w) = []" "db_sequences (w_db w) = []" "db_outbox (w_db w) = []"
    using db unfolding other_tables_fields by (simp_all add: delegated_db_def)
  have select: "delegationSelect (sample_uuid 9) (sample_uuid 20) (w_db w) = [(sample_drow, sample_dsrow)]"
    unfolding delegationSelect_def t by (simp add: state_of_delegation_def sample_drow_def sample_dsrow_def)
  have revoke: "Delegation_Revoke stored_delegation (ReasonCode ''namespace.closed'') [] now =
      Inr (stored_delegation\<lparr>del_state := DelegationRevoked, del_version := 2\<rparr>)"
    using now by (simp add: Delegation_Revoke_Inr int64_add_def)
  have states: "insert_delegation_state ?row (w_db w) = Inr ((), ?db1)"
    unfolding insert_delegation_state_def t by (simp add: revoked_state_row_def sample_drow_def sample_dsrow_def)
  have matched: "delegation_matches (sample_uuid 9) (sample_uuid 20) 1 sample_drow"
    by (simp add: delegation_matches_def sample_drow_def)
  have update: "update_delegation (sample_uuid 9) (sample_uuid 20) 2 1 ?at ?db1 = Inr (1, ?db2)"
    using matched t(1) now sample_micros(1) by (simp add: update_delegation_def Let_def) (simp add: sample_drow_def)
  have audited: "completes (Audit_Record steady_env tx (decision_params (sample_uuid 9) ActionNamespaceDelegationRevoked
      ''namespace_delegation'' (UUID_String (sample_uuid 20)) (decision_code ''revoked'') [ReasonCode ''namespace.closed'']))
      w' (\<lambda>_. Q (stored_delegation\<lparr>del_state := DelegationRevoked, del_version := 2\<rparr>))" if "w_db w' = ?db2" for w'
    by (rule completes_Audit_Record [OF steady_faultless actor]) (use that t Q in \<open>auto simp: decision_params_def\<close>)
  have stated: "completes (io_exec steady_env err (insert_delegation_state ?row)) w' Q'"
    if "w_db w' = w_db w" "Q' () ?db1" for w' err Q'
    by (rule completes_exec [OF steady_faultless, where v = "()" and db = ?db1]) (simp only: that(1) states, rule that(2))
  have updated: "completes (io_exec steady_env err (update_delegation (sample_uuid 9) (sample_uuid 20) 2 1 ?at)) w' Q'"
    if "w_db w' = ?db1" "Q' 1 ?db2" for w' err Q'
    by (rule completes_exec [OF steady_faultless, where v = 1 and db = ?db2]) (simp only: that(1) update, rule that(2))
  have selected: "completes (query_one steady_env e u scanDelegation (delegationSelect (sample_uuid 9) (sample_uuid 20))) w' Q'"
    if "w_db w' = w_db w" "Q' stored_delegation (w_db w)" for w' e u Q'
    by (rule completes_query_one [OF steady_faultless]) (use that select sample_delegation_scan in simp_all)
  have fields: "del_version stored_delegation = 1" "del_childPrefix stored_delegation = ''acme/tools''"
    "del_version (stored_delegation\<lparr>del_state := DelegationRevoked, del_version := 2\<rparr>) = 2" by simp_all
  have guard: "\<not> (\<not> valid_uuid (sample_uuid 20) \<or> (1::int) < 1 \<or> ReasonCode_String (ReasonCode ''namespace.closed'') = [] \<or> time_IsZero now)"
    using now by simp
  show ?thesis
    unfolding DelegationRepository_Revoke_def if_not_P [OF guard]
  proof (rule completes_repository_tx [OF steady_faultless _ disjI2 [OF tx]], simp, rule completes_bind, rule selected, assumption,
      intro allI impI, unfold revoke fields, simp only: not_True_eq_False if_False sum.case fields simp_thms, 
      rule completes_bind, rule stated, assumption, intro allI impI, rule completes_bind, rule updated, assumption, intro allI impI,
      simp only: simp_thms if_False, rule completes_bind, rule completes_weaken, rule audited, assumption)
  qed (simp add: completes_return)
qed

lemma sample_delegation_revoked:
  "\<exists>d w'. DelegationService_Revoke steady_env admin_authorizer sample_origin sample_ctx sample_identity ''k1''
    sample_revocation (fresh_world delegated_db) = (Inr d, w')"
proof -
  obtain ctx where ctx: "authenticatedAuditContext sample_ctx sample_identity = Inr ctx"
    using sample_context by (auto simp: is_ok_iff)
  obtain a where a: "ctx_tx ctx = None" "ActorFromContext (ctx_actor (within ctx sample_identity)) = Some a"
    using authenticatedAuditContext_Inr [OF ctx] by (auto simp: ActorFromContext_def wf_actor_def)
  have key: "is_ok (ValidateOwnership (ident_PrincipalID sample_identity) revokeDelegationAction ''k1'')"
    by (simp add: is_ok_iff ValidateOwnership_ok text_ok_ascii revokeDelegationAction_def)
  have action: "NewReasonCode (ReasonCode_String revokeDelegationAction) = Inr revokeDelegationAction"
    unfolding revokeDelegationAction_def ReasonCode.sel by (rule NewReasonCode_literal) (simp add: reason_literal_simps)
  have valid: "NewReasonCode (rd_ReasonCode sample_revocation) = Inr (ReasonCode ''namespace.closed'')"
    "valid_uuid (rd_DelegationID sample_revocation)" "1 \<le> rd_ExpectedVersion sample_revocation"
    using sample_reason by (simp_all add: sample_revocation_def)
  have serves: "serves steady_env (ident_TenantID sample_identity) (w_db (fresh_world delegated_db))"
    using sample_serves by (simp add: serves_def delegated_db_def)
  obtain res where res: "NewResult StatusOK (ReasonCode_String delegationResourceType) (UUID_String (sample_uuid 20)) = Inr res"
    "wf_result res"
    by (rule resource_result [OF delegationResourceType_reason, of StatusOK "sample_uuid 20"]) (simp_all add: StatusOK_def)
  have "completes (DelegationService_Revoke steady_env admin_authorizer sample_origin sample_ctx sample_identity ''k1''
      sample_revocation) (fresh_world delegated_db) (\<lambda>_ _. True)"
    unfolding DelegationService_Revoke_command [OF sample_permitted(2) ctx valid key]
  proof (rule completes_command [OF serves _ action _ key])
    fix n now and w1 :: World
    assume now: "now = env_clock steady_env n" and w1: "other_tables (w_db w1) = other_tables (w_db (fresh_world delegated_db))"
    let ?tx = "ctx\<lparr>ctx_tx := Some (sample_uuid 9)\<rparr>" and ?d = "stored_delegation\<lparr>del_state := DelegationRevoked, del_version := 2\<rparr>"
    have announce: "completes (announced steady_env sample_origin ?tx ''active'' ''revoked'' ''namespace.closed'' StatusOK now ?d) w2
        (\<lambda>v db. db_idempotency db = db_idempotency (w_db w1) \<and> wf_result (snd v) \<and> True)"
      if "db_idempotency (w_db w2) = db_idempotency (w_db w1)" "db_sequences (w_db w2) = []" "db_outbox (w_db w2) = []"
        "db_tenants (w_db w2) = [sample_uuid 9]" for w2
      by (rule completes_announced [OF steady_faultless serves_identifiers])
        (use that res now sample_reason in \<open>auto simp: wf_event_ids_def announces_def\<close>)
    show "completes (revoke_delegation_body steady_env sample_origin sample_identity sample_revocation
        (ReasonCode ''namespace.closed'') (within ctx sample_identity) now) w1
        (\<lambda>v db. db_idempotency db = db_idempotency (w_db w1) \<and> wf_result (snd v) \<and> True)"
      unfolding revoke_delegation_body_def sample_identity_simps sample_revocation_def RevokeDelegation.select_convs ReasonCode.sel
      by (rule completes_bind, rule completes_sample_revocation) (use w1 a now announce in auto)
  qed (use a in \<open>simp_all add: revoke_delegation_digest_def owned_rows_def delegated_db_def\<close>)
  then show ?thesis by (auto simp: completes_def)
qed

end
