(* ===== verification/Service_Properties.thy ===== *)
theory Service_Properties
  imports Sample_Services
begin

text \<open>
  Properties of the use cases of \<open>internal/app/publication\<close> over the repositories: that well-formed
  commands are carried out, what each did to the store when it was, that a repeated request repeats
  the answer, and that nothing else changes.
\<close>

subsection \<open>Publishers\<close>



text \<open>
  C2: a request creates its Publisher once: repeating it with the same key, whatever the environment,
  either fails or answers with the stored Publisher, for the same command only, and changes nothing.
\<close>

theorem publisher_created_once:
  assumes "store_inv (w_db w)" and "idem_bound (w_db w) actor createPublisherAction key = None"
    and "PublisherService_Create env authorizer ctx actor key command w = (Inr p, w1)"
    and "env_store_time env (pub_createdAt p) \<noteq> 0" and "w_db w2 = w_db w1"
  shows "publisher_store (w_db w1) (ident_TenantID actor) (pub_id p) =
      Some (p\<lparr>pub_createdAt := env_store_time env (pub_createdAt p)\<rparr>) \<and>
    (case PublisherService_Create env' authorizer' ctx' actor key command' w2 of
       (Inl _, w3) \<Rightarrow> w_db w3 = w_db w1
     | (Inr q, w3) \<Rightarrow> w_db w3 = w_db w1 \<and> q = p\<lparr>pub_createdAt := env_store_time env (pub_createdAt p)\<rparr> \<and>
         create_publisher_digest command' = create_publisher_digest command)"
proof -
  obtain rc where store: "publisher_store (w_db w1) (ident_TenantID actor) (pub_id p) =
      Some (p\<lparr>pub_createdAt := env_store_time env (pub_createdAt p)\<rparr>)"
    and bound: "idem_bound (w_db w1) actor createPublisherAction key = Some rc"
    and digest: "idem_digest rc = create_publisher_digest command"
    and est: "establishes StatusCreated publisherResourceType (pub_id p) rc"
    by (rule publisher_first_stored [OF assms(1-4)])
  obtain r w3 where again: "PublisherService_Create env' authorizer' ctx' actor key command' w2 = (r, w3)" by force
  show ?thesis
  proof (cases r)
    case (Inl e)
    with again atomicD [OF atomic_PublisherService_Create] assms(5) store show ?thesis by simp
  next
    case (Inr q)
    with again have "PublisherService_Create env' authorizer' ctx' actor key command' w2 = (Inr q, w3)" by simp
    from PublisherService_Create_replayed [OF this, of rc] bound assms(5) obtain u
      where "w_db w3 = w_db w1" "idem_digest rc = create_publisher_digest command'"
        "establishes StatusCreated publisherResourceType u rc" "publisher_store (w_db w1) (ident_TenantID actor) u = Some q"
      by auto
    with establishes_unique [OF est] store digest again Inr show ?thesis by auto
  qed
qed

theorem publisher_created_once_witness:
  "\<exists>p w1. PublisherService_Create steady_env admin_authorizer sample_ctx sample_identity ''k1'' sample_command
      (fresh_world sample_db) = (Inr p, w1) \<and>
    publisher_store (w_db w1) (sample_uuid 9) (pub_id p) = Some (p\<lparr>pub_createdAt := sample_time - 789\<rparr>)"
proof -
  let ?run = "PublisherService_Create steady_env admin_authorizer sample_ctx sample_identity ''k1'' sample_command (fresh_world sample_db)"
  obtain ctx where ctx: "authenticatedAuditContext sample_ctx sample_identity = Inr ctx"
    using sample_context by (auto simp: is_ok_iff)
  have bound: "owned_rows (sample_uuid 9) ''alice'' createPublisherAction ''k1'' sample_db = []" by (simp add: owned_rows_def)
  have "completes (PublisherService_Create steady_env admin_authorizer sample_ctx sample_identity ''k1'' sample_command)
      (fresh_world sample_db) (\<lambda>p _. pub_slug p = ''newco'' \<and> pub_createdAt p = sample_time)"
    using PublisherService_Create_completes [of steady_env sample_identity "fresh_world sample_db" admin_authorizer sample_ctx
        ctx "''k1''" sample_command] sample_serves sample_db_publisher_inv sample_permitted(1) ctx bound sample_command_accepted
    by (simp add: sample_prow_def)
  then obtain p w1 where run: "?run = (Inr p, w1)" and at: "pub_createdAt p = sample_time" by (auto simp: completes_def)
  have free: "idem_bound (w_db (fresh_world sample_db)) sample_identity createPublisherAction ''k1'' = None"
    by (simp add: idem_store_def bound)
  have inv: "store_inv (w_db (fresh_world sample_db))" by (simp add: sample_store_inv)
  have micros: "sample_time - sample_time mod 1000 = sample_time - 789" "sample_time \<noteq> 789"
    by (simp_all add: sample_time_def time_defs)
  show ?thesis using publisher_created_once [OF inv free run _ refl] run at micros by auto
qed

subsection \<open>Artifacts and versions\<close>





subsection \<open>Delegations\<close>

lemma controls_tables_cong:
  "db_publishers db = db_publishers db' \<Longrightarrow> db_publisher_states db = db_publisher_states db' \<Longrightarrow>
    db_namespaces db = db_namespaces db' \<Longrightarrow> db_delegations db = db_delegations db' \<Longrightarrow>
    controls db t path q u s = controls db' t path q u s"
  by (simp add: controls_def candidates_def current_states_def publisher_rows_def publisherSelect_def)

lemma namespace_store_path: "namespace_store db t u = Some root \<Longrightarrow> ns_path root \<noteq> []"
  by (auto simp: namespace_store_def namespace_scan_def bindE_Inr_iff Namespace_Restore_def Namespace_New_Inr
      wf_namespace_def split: list.splits sum.splits dest: ValidatePath_nonempty)

text \<open>
  C10: a delegation that is created for the first time hands its prefix, below the stored namespace, to
  its Publisher at once, and in the same transaction the event that announces it is recorded with the
  tenant's next sequence number.
\<close>

theorem delegation_created:
  assumes "store_inv (w_db w)" and "idem_bound (w_db w) actor createDelegationAction key = None"
  shows "case DelegationService_Create env authorizer origin ctx actor key command w of
      (Inl _, w') \<Rightarrow> w_db w' = w_db w
    | (Inr d, w') \<Rightarrow> \<exists>root m now.
        namespace_store (w_db w) (ident_TenantID actor) (cd_NamespaceID command) = Some root \<and>
        IsStrictDescendant (ns_path root) (cd_ChildPrefix command) \<and>
        controls (w_db w') (ident_TenantID actor) (cd_ChildPrefix command) (cd_ChildPrefix command)
          (cd_PublisherID command) ''verified'' \<and>
        announces_delegation origin d [] ''active'' [] now m \<and>
        int (msg_sequence m) = next_of (w_db w) (ident_TenantID actor) \<and>
        db_outbox (w_db w') = db_outbox (w_db w) @ [outbox_row env m]"
proof (cases "DelegationService_Create env authorizer origin ctx actor key command w")
  case (Pair x w')
  show ?thesis
  proof (cases x)
    case (Inl e)
    with Pair atomicD [OF atomic_DelegationService_Create] show ?thesis by simp
  next
    case (Inr d)
    with Pair have run: "DelegationService_Create env authorizer origin ctx actor key command w = (Inr d, w')" by simp
    note inv = assms(1) [unfolded store_inv_def record_inv_def]
    show ?thesis
    proof (rule DelegationService_Create_first [OF run assms(2)])
      fix root uid now m rc db
      assume root: "namespace_store (w_db w) (ident_TenantID actor) (cd_NamespaceID command) = Some root"
        and new: "NewDelegation (ident_TenantID actor) uid (ns_id root) (ns_path root) (cd_PublisherID command)
          (cd_ChildPrefix command) now = Inr d"
        and m: "announces_delegation origin d [] ''active'' [] now m" "int (msg_sequence m) = next_of (w_db w) (del_tenantID d)"
        and o: "other_tables db = other_tables (w_db w)"
        and ins: "insert_delegation (delegation_row env d) db =
          Inr ((), db\<lparr>db_delegations := db_delegations db @ [delegation_row env d]\<rparr>)"
        and tables: "db_delegations (w_db w') = db_delegations (w_db w) @ [delegation_row env d]"
          "db_outbox (w_db w') = db_outbox (w_db w) @ [outbox_row env m]"
          "db_namespaces (w_db w') = db_namespaces (w_db w)" "db_publishers (w_db w') = db_publishers (w_db w)"
          "db_publisher_states (w_db w') = db_publisher_states (w_db w)"
      have inv': "publisher_tables_inv db" "ownership_inv db" using inv other_tables_invs [OF o] by simp_all
      note d = NewDelegation_facts [OF new]
      from insert_delegation_controls [OF inv' ins active_delegation_row]
      have "controls (db\<lparr>db_delegations := db_delegations db @ [delegation_row env d]\<rparr>) (ident_TenantID actor)
          (cd_ChildPrefix command) (cd_ChildPrefix command) (cd_PublisherID command) ''verified''"
        using d by (simp add: delegation_row_def)
      then have "controls (w_db w') (ident_TenantID actor) (cd_ChildPrefix command) (cd_ChildPrefix command)
          (cd_PublisherID command) ''verified''"
        using o tables by (subst controls_tables_cong) (simp_all add: other_tables_fields)
      moreover have "IsStrictDescendant (ns_path root) (cd_ChildPrefix command)"
        using new namespace_store_path [OF root] by (auto simp: NewDelegation_def restoreDelegation_def split: if_splits)
      ultimately show ?thesis using root m tables d unfolding run prod.case sum.case by auto
    qed (use inv in simp_all)
  qed
qed

theorem delegation_created_witness:
  "\<exists>d w' m now. DelegationService_Create steady_env admin_authorizer sample_origin sample_ctx sample_identity ''k1''
      sample_delegation_command (fresh_world sample_db) = (Inr d, w') \<and>
    controls (w_db w') (sample_uuid 9) ''acme/tools/saw'' ''acme/tools/saw'' (sample_uuid 2) ''verified'' \<and>
    announces_delegation sample_origin d [] ''active'' [] now m \<and> db_outbox (w_db w') = [outbox_row steady_env m]"
proof -
  have free: "idem_bound (w_db (fresh_world sample_db)) sample_identity createDelegationAction ''k1'' = None"
    by (simp add: idem_store_def owned_rows_def)
  have inv: "store_inv (w_db (fresh_world sample_db))" by (simp add: sample_store_inv)
  obtain d w' where "DelegationService_Create steady_env admin_authorizer sample_origin sample_ctx sample_identity ''k1''
      sample_delegation_command (fresh_world sample_db) = (Inr d, w')"
    using sample_delegation_created by blast
  with delegation_created [OF inv free, where env = steady_env and authorizer = admin_authorizer and ctx = sample_ctx and command = sample_delegation_command and origin = sample_origin]
  show ?thesis by (auto simp: sample_delegation_command_def)
qed

lemma revoked_rows:
  assumes inv: "ownership_inv db" and current: "delegation_store db t u = Some current" "del_version current = v"
    and r: "r \<in> set (map (revoke_row t u v' v at) (db_delegations db))" "drow_tenant r = t" "drow_id r = u"
  shows "\<not> active_delegation r"
proof -
  from current obtain p s rest where sel: "delegationSelect t u db = (p, s) # rest" and sc: "scanDelegation (p, s) = Inr current"
    by (auto simp: delegation_store_def split: list.splits sum.splits)
  then have "(p, s) \<in> set (delegationSelect t u db)" by simp
  then have p: "p \<in> set (db_delegations db)" "drow_tenant p = t" "drow_id p = u" by (auto simp: delegationSelect_def)
  have "drow_current_version p = v"
    using sc current(2) by (auto simp: scanDelegation_def bindE_Inr_iff RestoreDelegation_Inr)
  moreover obtain q where q: "q \<in> set (db_delegations db)" "r = revoke_row t u v' v at q" using r(1) by auto
  then have "drow_key q = drow_key p" using r p by (simp add: drow_key_def revoke_row_def split: if_splits)
  then have "q = p" using inv q(1) p(1) by (auto simp: ownership_inv_def distinct_map dest: inj_onD)
  ultimately show ?thesis using q(2) p by (simp add: revoke_row_def delegation_matches_def)
qed

text \<open>
  C11: a delegation that is revoked for the first time was stored, active and of the version the caller
  expected; afterwards no active grant has its identifier, and the event that announces the revocation
  is recorded in the same transaction.
\<close>

theorem delegation_revoked:
  assumes "store_inv (w_db w)" and "idem_bound (w_db w) actor revokeDelegationAction key = None"
  shows "case DelegationService_Revoke env authorizer origin ctx actor key command w of
      (Inl _, w') \<Rightarrow> w_db w' = w_db w
    | (Inr d, w') \<Rightarrow> \<exists>current m now.
        delegation_store (w_db w) (ident_TenantID actor) (rd_DelegationID command) = Some current \<and>
        del_state current = DelegationActive \<and> del_version current = rd_ExpectedVersion command \<and>
        d = current\<lparr>del_state := DelegationRevoked, del_version := int64_add (del_version current) 1\<rparr> \<and>
        list_all (\<lambda>r. (drow_tenant r, drow_id r) = (ident_TenantID actor, rd_DelegationID command) \<longrightarrow>
          drow_revoked_at r \<noteq> None) (db_delegations (w_db w')) \<and>
        announces_delegation origin d ''active'' ''revoked'' (rd_ReasonCode command) now m \<and>
        int (msg_sequence m) = next_of (w_db w) (ident_TenantID actor) \<and>
        db_outbox (w_db w') = db_outbox (w_db w) @ [outbox_row env m]"
proof (cases "DelegationService_Revoke env authorizer origin ctx actor key command w")
  case (Pair x w')
  show ?thesis
  proof (cases x)
    case (Inl e)
    with Pair atomicD [OF atomic_DelegationService_Revoke] show ?thesis by simp
  next
    case (Inr d)
    with Pair have run: "DelegationService_Revoke env authorizer origin ctx actor key command w = (Inr d, w')" by simp
    note inv = assms(1) [unfolded store_inv_def record_inv_def]
    show ?thesis
    proof (rule DelegationService_Revoke_first [OF run assms(2)])
      fix current reason now m rc
      assume cur: "delegation_store (w_db w) (ident_TenantID actor) (rd_DelegationID command) = Some current"
          "del_version current = rd_ExpectedVersion command"
        and d: "Delegation_Revoke current reason (rd_Explanation command) now = Inr d"
        and m: "announces_delegation origin d ''active'' ''revoked'' (rd_ReasonCode command) now m"
          "int (msg_sequence m) = next_of (w_db w) (del_tenantID d)"
        and rows: "db_delegations (w_db w') = map (revoke_row (ident_TenantID actor) (rd_DelegationID command) (del_version d)
            (rd_ExpectedVersion command) (env_store_time env now)) (db_delegations (w_db w))"
        and out: "db_outbox (w_db w') = db_outbox (w_db w) @ [outbox_row env m]"
      have "list_all (\<lambda>r. (drow_tenant r, drow_id r) = (ident_TenantID actor, rd_DelegationID command) \<longrightarrow>
          drow_revoked_at r \<noteq> None) (db_delegations (w_db w'))"
        using revoked_rows [OF _ cur] inv unfolding rows list_all_iff by blast
      moreover have "del_tenantID d = ident_TenantID actor"
        using d delegation_store_wf [OF cur(1)] by (auto simp: Delegation_Revoke_Inr)
      ultimately show ?thesis using cur d m out unfolding run prod.case sum.case Delegation_Revoke_Inr by auto
    qed (use inv in simp_all)
  qed
qed

theorem delegation_revoked_witness:
  "\<exists>d w' m now. DelegationService_Revoke steady_env admin_authorizer sample_origin sample_ctx sample_identity ''k1''
      sample_revocation (fresh_world delegated_db) = (Inr d, w') \<and> del_state d = DelegationRevoked \<and>
    announces_delegation sample_origin d ''active'' ''revoked'' ''namespace.closed'' now m \<and>
    db_outbox (w_db w') = [outbox_row steady_env m]"
proof -
  have free: "idem_bound (w_db (fresh_world delegated_db)) sample_identity revokeDelegationAction ''k1'' = None"
    by (simp add: idem_store_def owned_rows_def delegated_db_def)
  have inv: "store_inv (w_db (fresh_world delegated_db))" by (simp add: delegated_store_inv)
  obtain d w' where "DelegationService_Revoke steady_env admin_authorizer sample_origin sample_ctx sample_identity ''k1''
      sample_revocation (fresh_world delegated_db) = (Inr d, w')"
    using sample_delegation_revoked by blast
  with delegation_revoked [OF inv free, where env = steady_env and authorizer = admin_authorizer and ctx = sample_ctx and command = sample_revocation and origin = sample_origin]
  show ?thesis by (auto simp: sample_revocation_def delegated_db_def)
qed

subsection \<open>The store\<close>

text \<open>
  C1: every store reachable from a fresh one by any sequence of commands, state changes and deliveries,
  in any environment and whatever fails, has consistent Publishers, ownership, requests, catalog and outbox.
\<close>

theorem reachable_stores_consistent:
  assumes "store_step\<^sup>*\<^sup>* (empty_DB\<lparr>db_tenants := tenants\<rparr>) db"
  shows "publisher_tables_inv db \<and> ownership_inv db \<and> idempotency_inv db \<and> catalog_inv db \<and> outbox_inv db"
  using reachable_store_inv [OF assms store_inv_empty] by (simp add: store_inv_def record_inv_def)

theorem reachable_stores_consistent_witness:
  "\<exists>p w'. PublisherService_Create steady_env admin_authorizer sample_ctx sample_identity ''k1'' sample_command
      (fresh_world tenant_db) = (Inr p, w') \<and> publisher_tables_inv (w_db w') \<and> idempotency_inv (w_db w')"
proof -
  obtain ctx where ctx: "authenticatedAuditContext sample_ctx sample_identity = Inr ctx"
    using sample_context by (auto simp: is_ok_iff)
  have "serves steady_env (sample_uuid 9) tenant_db"
    by (simp add: serves_def faultless_def MinimumRetention_def sample_time_def time_defs)
  then have "completes (PublisherService_Create steady_env admin_authorizer sample_ctx sample_identity ''k1'' sample_command)
      (fresh_world tenant_db) (\<lambda>p _. True)"
    using PublisherService_Create_completes [of steady_env sample_identity "fresh_world tenant_db" admin_authorizer sample_ctx
        ctx "''k1''" sample_command] sample_permitted(1) ctx sample_command_accepted
    by (simp add: completes_def owned_rows_def publisher_tables_inv_def) blast
  then obtain p w' where run: "PublisherService_Create steady_env admin_authorizer sample_ctx sample_identity ''k1''
      sample_command (fresh_world tenant_db) = (Inr p, w')" by (auto simp: completes_def)
  from store_step.create_publisher [OF run]
  have "store_step\<^sup>*\<^sup>* (empty_DB\<lparr>db_tenants := [sample_uuid 9]\<rparr>) (w_db w')" by (simp add: tenant_db_def)
  from reachable_stores_consistent [OF this] run show ?thesis by blast
qed

lemma unchanged:
  assumes "atomic m" and "\<And>v w'. m w = (Inr v, w') \<Longrightarrow> w_db w' = w_db w"
  shows "w_db (snd (m w)) = w_db w"
proof (cases "m w")
  case (Pair r w')
  show ?thesis
  proof (cases r)
    case (Inl e)
    with Pair atomicD [OF assms(1), of w e w'] show ?thesis by simp
  next
    case (Inr v)
    with Pair assms(2) [of v w'] show ?thesis by simp
  qed
qed

text \<open>
  C13: a command under a key that is bound changes nothing, whatever it answers; it repeats the
  established resource or fails.
\<close>

theorem replays_change_nothing:
  "(idem_bound (w_db w) actor createPublisherAction key = None \<or>
      w_db (snd (PublisherService_Create env authorizer ctx actor key cp w)) = w_db w) \<and>
   (idem_bound (w_db w) actor createNamespaceAction key = None \<or>
      w_db (snd (NamespaceService_Create env authorizer ctx actor key cn w)) = w_db w) \<and>
   (idem_bound (w_db w) actor createDelegationAction key = None \<or>
      w_db (snd (DelegationService_Create env authorizer origin ctx actor key cd w)) = w_db w) \<and>
   (idem_bound (w_db w) actor revokeDelegationAction key = None \<or>
      w_db (snd (DelegationService_Revoke env authorizer origin ctx actor key rvd w)) = w_db w) \<and>
   (idem_bound (w_db w) actor createArtifactAction key = None \<or>
      w_db (snd (ArtifactService_Create env authorizer ctx actor key ca w)) = w_db w) \<and>
   (idem_bound (w_db w) actor registerArtifactVersionAction key = None \<or>
      w_db (snd (RegisterResolved env authorizer ctx actor key rv w)) = w_db w)"
unfolding disj_imp
proof (intro conjI impI)
  assume "idem_bound (w_db w) actor createPublisherAction key \<noteq> None"
  then show "w_db (snd (PublisherService_Create env authorizer ctx actor key cp w)) = w_db w"
    by (intro unchanged io_laws) (auto dest: PublisherService_Create_replayed)
next
  assume "idem_bound (w_db w) actor createNamespaceAction key \<noteq> None"
  then show "w_db (snd (NamespaceService_Create env authorizer ctx actor key cn w)) = w_db w"
    by (intro unchanged io_laws) (auto dest: NamespaceService_Create_replayed)
next
  assume "idem_bound (w_db w) actor createDelegationAction key \<noteq> None"
  then show "w_db (snd (DelegationService_Create env authorizer origin ctx actor key cd w)) = w_db w"
    by (intro unchanged io_laws)
      (auto elim!: DelegationService_Create_Inr dest!: delegation_command_replayed [OF _ balanced_create_delegation_body])
next
  assume "idem_bound (w_db w) actor revokeDelegationAction key \<noteq> None"
  then show "w_db (snd (DelegationService_Revoke env authorizer origin ctx actor key rvd w)) = w_db w"
    by (intro unchanged io_laws)
      (auto elim!: DelegationService_Revoke_Inr dest!: delegation_command_replayed [OF _ balanced_revoke_delegation_body])
next
  assume "idem_bound (w_db w) actor createArtifactAction key \<noteq> None"
  then show "w_db (snd (ArtifactService_Create env authorizer ctx actor key ca w)) = w_db w"
    by (intro unchanged io_laws) (auto dest: ArtifactService_Create_replayed)
next
  assume "idem_bound (w_db w) actor registerArtifactVersionAction key \<noteq> None"
  then show "w_db (snd (RegisterResolved env authorizer ctx actor key rv w)) = w_db w"
    by (intro unchanged io_laws) (auto dest: RegisterResolved_replayed)
qed

text \<open>The key of the sample request, bound by its acquisition.\<close>

lemma sample_bound: "idem_bound requested_db sample_identity createPublisherAction ''k1'' \<noteq> None"
proof -
  have "owned (sample_uuid 9) ''alice'' ''publisher.create'' ''k1'' (idempotency_row sample_env sample_request)"
    by (simp add: owned_def idempotency_row_def sample_request_def)
  then have "owned_rows (sample_uuid 9) ''alice'' createPublisherAction ''k1'' requested_db =
      [idempotency_row sample_env sample_request]"
    by (simp add: owned_rows_def requested_db_def createPublisherAction_def)
  then show ?thesis by (simp add: idem_store_def sample_request_scan)
qed

theorem replays_change_nothing_witness:
  "w_db (snd (PublisherService_Create steady_env admin_authorizer sample_ctx sample_identity ''k1'' sample_command
    (fresh_world requested_db))) = requested_db"
  using replays_change_nothing [of "fresh_world requested_db" sample_identity "''k1''" steady_env admin_authorizer sample_ctx
      sample_command, THEN conjunct1] sample_bound by auto


lemma reads_unchanged: "reads m \<Longrightarrow> w_db (snd (m w)) = w_db w"
  by (simp add: reads_def)


lemma reads_decode_position: "reads (decode_position env codec invalid scope encoded)"
  unfolding decode_position_def by (auto intro!: io_laws)

text \<open>The queries of the services never change the store.\<close>

theorem queries_only_read:
  "w_db (snd (PublisherService_Get env ctx actor u w)) = w_db w \<and>
   w_db (snd (PublisherService_List env codec ctx actor pageSize cursor w)) = w_db w \<and>
   w_db (snd (NamespaceService_Get env ctx actor u w)) = w_db w \<and>
   w_db (snd (NamespaceService_List env codec ctx actor pageSize cursor w)) = w_db w \<and>
   w_db (snd (AuthorizePublication env authorizer ctx actor u path w)) = w_db w \<and>
   w_db (snd (ArtifactService_Get env ctx actor u w)) = w_db w \<and>
   w_db (snd (ArtifactService_List env codec ctx actor query pageSize cursor w)) = w_db w"
proof -
  have "reads (PublisherService_Get env ctx actor u)" "reads (NamespaceService_Get env ctx actor u)"
    "reads (ArtifactService_Get env ctx actor u)"
    by (auto simp: PublisherService_Get_def NamespaceService_Get_def ArtifactService_Get_def intro!: io_laws split: sum.splits)
  moreover have "reads (PublisherService_List env codec ctx actor pageSize cursor)"
    "reads (NamespaceService_List env codec ctx actor pageSize cursor)"
    "reads (ArtifactService_List env codec ctx actor query pageSize cursor)"
    by (auto simp: PublisherService_List_def NamespaceService_List_def ArtifactService_List_def Let_def
        intro!: io_laws reads_decode_position split: sum.splits)
  ultimately show ?thesis by (intro conjI reads_unchanged reads_AuthorizePublication)
qed

subsection \<open>Authorization of a publication\<close>

text \<open>
  C9: a Publisher is authorised to publish at a path only if the caller may publish, the path is valid
  and the longest grant that covers it is the Publisher's, who is verified; asking changes nothing.
\<close>

theorem publication_authorized:
  assumes "store_inv (w_db w)" and "AuthorizePublication env authorizer ctx actor u path w = (Inr x, w')"
  shows "Authorize authorizer actor ActionPublish = None \<and> ValidatePath path \<and> valid_uuid u \<and> w_db w' = w_db w \<and>
    (\<exists>q. controls (w_db w) (ident_TenantID actor) path q u ''verified'')"
  using AuthorizePublication_Inr [OF _ _ assms(2)] readsD [OF reads_AuthorizePublication assms(2)] assms(1)
  by (auto simp: store_inv_def record_inv_def)

theorem publication_authorized_witness:
  "\<exists>w'. AuthorizePublication steady_env admin_authorizer sample_ctx sample_identity (sample_uuid 3) ''acme/tools/hammer''
      (fresh_world sample_db) = (Inr (), w') \<and>
    (\<exists>q. controls sample_db (sample_uuid 9) ''acme/tools/hammer'' q (sample_uuid 3) ''verified'')"
proof -
  have path: "ValidatePath ''acme/tools/hammer''" by (rule ValidatePath_literal) (simp_all add: char_class_defs)
  then obtain w1 where "DelegationRepository_ResolveOwner steady_env sample_ctx (sample_uuid 9) ''acme/tools/hammer''
      (fresh_world sample_db) = (Inr (sample_uuid 3), w1)"
    by (simp add: DelegationRepository_ResolveOwner_def run_simps query_one_def first_row_def
        sample_resolve_query ParseUUID_String)
  then have run: "AuthorizePublication steady_env admin_authorizer sample_ctx sample_identity (sample_uuid 3)
      ''acme/tools/hammer'' (fresh_world sample_db) = (Inr (), w1)"
    by (simp add: AuthorizePublication_def sample_permitted path io_bind_def io_return_def)
  have "store_inv (w_db (fresh_world sample_db))" by (simp add: sample_store_inv)
  from publication_authorized [OF this run] run show ?thesis by auto
qed

end
