(* ===== verification/Sample_Messages.thy ===== *)
theory Sample_Messages
  imports Sample_Services
begin

text \<open>
  A message of the outbox on concrete data: the event of a delegation whose time the database keeps
  exactly, its lease, and the same event at a time the database rounds.
\<close>

text \<open>The recorded event of a new message, as a claim leaves it.\<close>

definition leased_message :: "Env \<Rightarrow> string \<Rightarrow> UUID \<Rightarrow> Time \<Rightarrow> Duration \<Rightarrow> Message \<Rightarrow> Message" where
  "leased_message env worker token at lease m = m\<lparr>msg_state := OutboxClaimed, msg_attempts := 1,
     msg_claimToken := Some token, msg_claimedBy := worker, msg_claimedAt := Some at,
     msg_leaseExpiresAt := Some (at + lease div 1000 * 1000)\<rparr>"

lemma Outbox_New_fields:
  assumes "Outbox_New t u n source ty subject payload at = Inr m"
  shows "msg_availableAt m = at" "msg_createdAt m = at" "msg_lastError m = None" "msg_deliveredAt m = None"
    "msg_deadLetteredAt m = None" "msg_retainUntil m = None"
  using assms unfolding Outbox_New_def Outbox_Restore_Inr by (cases m, simp)+

lemma event_ok_leased: "event_ok (leased_message env worker token claimed lease m) = event_ok m"
  by (simp add: event_ok_def leased_message_def)

lemma leased_delivery:
  "valid_uuid token \<Longrightarrow> validateText worker maxWorkerBytes \<Longrightarrow> claimed < l \<Longrightarrow> l \<le> claimed + MaxLease \<Longrightarrow>
    validateDelivery OutboxClaimed 1 available (Some token) worker (Some claimed) (Some l) None None None None = Inr ()"
  unfolding validateDelivery_def by (simp del: One_nat_def)

lemma leased_message_scan:
  assumes new: "Outbox_New t u n source ty subject payload at = Inr m" and exact: "env_store_time env at = at"
    and worker: "validateText worker maxWorkerBytes" and token: "valid_uuid token"
    and lease: "0 < lease div 1000" "lease \<le> MaxLease"
  shows "outbox_scan (lease_row worker token claimed lease (outbox_row env m)) =
    Inr (leased_message env worker token claimed lease m)"
proof -
  note f = Outbox_New_facts [OF new] and g = Outbox_New_fields [OF new]
  let ?m = "leased_message env worker token claimed lease m"
  have event: "event_ok ?m" using f by (simp add: event_ok_leased)
  have "claimed < claimed + lease div 1000 * 1000" "claimed + lease div 1000 * 1000 \<le> claimed + MaxLease"
    using lease minus_mod_eq_div_mult [of lease 1000] pos_mod_sign [of 1000 lease] by linarith+
  note delivery = leased_delivery [OF token worker this]
  have "delivery_ok ?m"
    unfolding delivery_ok_def leased_message_def 
by (simp add: g MaxAttempts_def delivery [simplified])
  with event have restore: "Outbox_Restore t u n source ty subject payload (SHA256Digest payload) OutboxClaimed 1 at (Some token) worker
      (Some claimed) (Some (claimed + lease div 1000 * 1000)) None None None None at = Inr ?m"
    unfolding Outbox_Restore_Inr using f g by (cases m) (simp add: leased_message_def)
  have valid: "valid_uuid t" "valid_uuid u" "0 < n" using f unfolding event_ok_def by auto
  have digest: "scan_digest (Digest_String (SHA256Digest payload)) = Inr (SHA256Digest payload)"
    by (simp add: scan_digest_Inr wf_SHA256Digest)
  show ?thesis
    using f g valid token digest restore [unfolded One_nat_def] exact
    by (simp add: outbox_scan_def lease_row_def outbox_row_def scan_uuid_valid scan_uuid_def ParseUUID_String scan_option_def MaxAttempts_def
        bindE_def coalesce_def map_error_def del: One_nat_def)
qed

text \<open>
  The event of the sample delegation, at a time of whole microseconds and at one the database rounds.
\<close>

definition clear_time :: Time where "clear_time = sample_time - 789"

definition announced_at :: "Time \<Rightarrow> Message \<Rightarrow> bool" where
  "announced_at now m \<longleftrightarrow> announces_delegation sample_origin sample_delegation [] ''active'' [] now m \<and>
    msg_id m = sample_uuid 200 \<and> msg_sequence m = 1"

lemma announced_at_exists:
  assumes stamp: "time_marshal now = Some stamp" and now: "now \<noteq> 0"
  shows "\<exists>m. announced_at now m"
proof -
  have ids: "wf_event_ids (sample_uuid 200) sample_delegation" by (simp add: wf_event_ids_def)
  have ann: "announces [] ''active'' []" by (simp add: announces_def)
  obtain payload m where "delegation_payload sample_origin (sample_uuid 200) now sample_delegation 1 [] ''active'' [] = Some payload"
    and new: "Outbox_New (sample_uuid 9) (sample_uuid 200) 1 sample_origin (delegation_event_type []) (UUID_String (sample_uuid 200))
      payload now = Inr m"
    by (rule delegation_event_accepted [OF ids ann _ _ stamp now sample_origin_ok(3,2,1), of 1]) auto
  with Outbox_New_facts [OF new] have "announced_at now m" by (simp add: announced_at_def announces_delegation_def)
  then show ?thesis ..
qed

lemma clear_stamp: "\<exists>stamp. time_marshal clear_time = Some stamp"
  by (simp add: time_marshal_def clear_time_def sample_time_def time_defs Let_def split: prod.splits)
    (simp add: civil_of_def year_of_def find_year.simps days_before_year_def Let_def)

lemma clear_message: "\<exists>m. announced_at clear_time m" and rounded_message: "\<exists>m. announced_at sample_time m"
proof -
  have "clear_time \<noteq> 0" by (simp add: clear_time_def sample_time_def time_defs)
  then show "\<exists>m. announced_at clear_time m" using clear_stamp announced_at_exists by blast
  show "\<exists>m. announced_at sample_time m" using sample_stamp announced_at_exists by auto
qed

definition queued_db :: "Message \<Rightarrow> DB" where
  "queued_db m = sample_db\<lparr>db_outbox := [outbox_row steady_env m], db_sequences := [\<lparr>srow_tenant = sample_uuid 9, srow_next = 2\<rparr>]\<rparr>"

lemma announced_row:
  assumes "announced_at now m"
  shows "orow_tenant (outbox_row env m) = sample_uuid 9" "orow_id (outbox_row env m) = sample_uuid 200"
    "orow_sequence (outbox_row env m) = 1" "msg_createdAt m = now" "msg_tenantID m = sample_uuid 9"
proof -
  have new: "Outbox_New (sample_uuid 9) (sample_uuid 200) 1 sample_origin (delegation_event_type [])
      (UUID_String (sample_uuid 200)) (msg_payload m) now = Inr m"
    using assms by (auto simp: announced_at_def announces_delegation_def simp del: One_nat_def)
  note f = Outbox_New_facts [OF new]
  show "orow_tenant (outbox_row env m) = sample_uuid 9" "orow_id (outbox_row env m) = sample_uuid 200"
    "orow_sequence (outbox_row env m) = 1" "msg_createdAt m = now" "msg_tenantID m = sample_uuid 9"
    using f by (simp_all add: outbox_row_def)
qed

lemma queued_inv: "announced_at now m \<Longrightarrow> outbox_inv (queued_db m)"
  by (simp add: outbox_inv_def queued_db_def announced_row next_of_def)

text \<open>A worker leases the message for a minute.\<close>

lemma sample_claim:
  assumes "announced_at clear_time m"
  shows "\<exists>w'. OutboxRepository_Claim steady_env sample_ctx (sample_uuid 9) ''worker'' (sample_uuid 77) sample_time
    duration_minute 10 (fresh_world (queued_db m)) =
    (Inr [leased_message steady_env ''worker'' (sample_uuid 77) clear_time duration_minute m], w')"
proof -
  define lease where "lease = duration_minute"
  have lease: "0 < lease" "0 < lease div 1000" "lease \<le> MaxLease" "lease div 1000 * 1000 \<le> MaxLease"
    by (simp_all add: lease_def MaxLease_def time_defs)
  let ?r = "outbox_row steady_env m" and ?at = "env_store_time steady_env sample_time"
  let ?l = "lease_row ''worker'' (sample_uuid 77) clear_time lease ?r"
  let ?m = "leased_message steady_env ''worker'' (sample_uuid 77) clear_time lease m"
  obtain payload where new: "Outbox_New (sample_uuid 9) (sample_uuid 200) 1 sample_origin (delegation_event_type [])
      (UUID_String (sample_uuid 200)) payload clear_time = Inr m"
    using assms by (auto simp: announced_at_def announces_delegation_def)
  note f = Outbox_New_facts [OF new]
  have at: "?at = clear_time" "env_store_time steady_env clear_time = clear_time"
    by (simp_all add: clear_time_def sample_time_def time_defs)
  have scan: "outbox_scan ?l = Inr ?m"
    by (rule leased_message_scan [OF new at(2)])
      (simp_all add: validateText_def is_ok_iff NewBoundedString_iff text_ok_ascii maxWorkerBytes_def lease)
  have row: "orow_tenant ?r = sample_uuid 9" "orow_id ?r = sample_uuid 200" "orow_state ?r = OutboxPending"
    "orow_attempts ?r = 0" "orow_available_at ?r = clear_time" "orow_created_at ?r = clear_time"
    "orow_delivered_at ?r = None" "orow_dead_lettered_at ?r = None" "orow_retain_until ?r = None"
    using f at(2) by (simp_all add: outbox_row_def)
  have none: "update_outbox steady_env (exhausted (sample_uuid 9) clear_time) (bury steady_env clear_time) (queued_db m) =
      Inr ([], queued_db m)"
    using row by (simp add: update_outbox_def exhausted_def queued_db_def)
  have cand: "claim_candidates (sample_uuid 9) clear_time 10 (queued_db m) = [sample_uuid 200]"
    using row by (simp add: claim_candidates_def due_def queued_db_def)
  have guard: "guard_outbox_message_update ?r ?l" "delivery_check steady_env ?l"
    using row by (simp_all add: guard_outbox_message_update_def delivery_check_def lease_row_def orow_event_def lease)
  have claim: "claim_messages steady_env (sample_uuid 9) ''worker'' (sample_uuid 77) clear_time lease 10 (queued_db m) =
      Inr ([?l], (queued_db m)\<lparr>db_outbox := [?l]\<rparr>)"
    using row guard unfolding claim_messages_def cand Let_def by (simp add: update_outbox_def) (simp add: queued_db_def row)
  have exhausted: "completes (io_exec steady_env err (update_outbox steady_env (exhausted (sample_uuid 9) clear_time)
      (bury steady_env clear_time))) w Q" if "w_db w = queued_db m" "Q [] (queued_db m)" for w :: World and err Q
    by (rule completes_exec [OF steady_faultless, where v = "[]" and db = "queued_db m"]) (simp only: that(1) none, rule that(2))
  have claimed: "completes (io_exec steady_env err (claim_messages steady_env (sample_uuid 9) ''worker'' (sample_uuid 77)
      clear_time lease 10)) w Q" if "w_db w = queued_db m" "Q [?l] ((queued_db m)\<lparr>db_outbox := [?l]\<rparr>)"
    for w :: World and err Q
    by (rule completes_exec [OF steady_faultless, where v = "[?l]" and db = "(queued_db m)\<lparr>db_outbox := [?l]\<rparr>"])
      (simp only: that(1) claim, rule that(2))
  have worker: "is_ok (NewBoundedString ''worker'' 255)" by (simp add: is_ok_iff NewBoundedString_iff text_ok_ascii)
  have "completes (outbox_tx steady_env sample_ctx (sample_uuid 9)
      (io_bind (io_exec steady_env e1 (update_outbox steady_env (exhausted (sample_uuid 9) clear_time) (bury steady_env clear_time))) (\<lambda>_.
       io_bind (io_exec steady_env e2 (claim_messages steady_env (sample_uuid 9) ''worker'' (sample_uuid 77) clear_time
         lease 10)) (\<lambda>rows.
       io_bind (io_lift e3 (scan_all outbox_scan rows)) (\<lambda>ms. io_return (sort_key msg_sequence ms))))))
    (fresh_world (queued_db m)) (\<lambda>ms _. ms = [?m])" for e1 e2 e3
    unfolding outbox_tx_def
    by (rule completes_repository_tx [OF steady_faultless])
      (auto intro!: completes_bind exhausted claimed completes_lift completes_return simp: scan)
  then have "completes (OutboxRepository_Claim steady_env sample_ctx (sample_uuid 9) ''worker'' (sample_uuid 77) sample_time
      lease 10) (fresh_world (queued_db m)) (\<lambda>ms _. ms = [?m])"
    using worker at lease unfolding OutboxRepository_Claim_def by (simp add: MaxClaimBatch_def not_le)
  then show ?thesis by (auto simp: completes_def lease_def)
qed

subsection \<open>A cursor\<close>

text \<open>The texts of a cursor are short: what JSON and Base64 add is bounded by the text.\<close>

lemma length_hex4 [simp]: "length (hex4 n) = 4"
  by (simp add: hex4_def)

lemma length_escape_ascii: "length (escape_ascii b) \<le> 6"
  by (simp add: escape_ascii_def)

lemma length_json_escape: "length (json_escape s) \<le> 6 * length s"
proof (induction s rule: json_escape.induct)
  case (1 s)
  show ?case
  proof (cases "s = []")
    case False
    show ?thesis
    proof (cases "decode_rune s")
      case None
      with 1(1) [OF False] False show ?thesis by (subst json_escape.simps) (cases s, auto simp: None)
    next
      case (Some rw)
      obtain r w where rw: "rw = (r, w)" by (cases rw)
      with Some have w: "0 < w" "w \<le> length s" by (auto dest: decode_rune_width)
      have "length (json_escape (drop w s)) \<le> 6 * (length s - w)" using 1(2) [OF False Some [unfolded rw] refl] by simp
      with w length_escape_ascii [of r] show ?thesis using Some rw False
        by (subst json_escape.simps) (simp, linarith)
    qed
  qed (simp add: json_escape.simps)
qed

lemma length_b64_encode: "length (b64_encode s) \<le> 2 * length s"
  by (induction s rule: b64_encode.induct) (simp_all add: Let_def)

lemma length_json_quote: "length (json_quote s) \<le> 6 * length s + 2"
  using length_json_escape [of s] by (simp add: json_quote_def)

text \<open>The lease is one step of the delivery of the message.\<close>

lemma sample_lease_step:
  assumes "announced_at clear_time m"
  defines "r \<equiv> outbox_row steady_env m"
  shows "delivery_check steady_env r"
    "delivery_step steady_env r (lease_row ''worker'' (sample_uuid 77) clear_time duration_minute r)"
proof -
  have "env_store_time steady_env clear_time = clear_time" by (simp add: clear_time_def sample_time_def time_defs)
  with announced_row(4) [OF assms(1)] show "delivery_check steady_env r"
    "delivery_step steady_env r (lease_row ''worker'' (sample_uuid 77) clear_time duration_minute r)"
    by (simp_all add: r_def delivery_step_def guard_outbox_message_update_def delivery_check_def lease_row_def
        orow_event_def outbox_row_def unclaimed_def MaxLease_def time_defs)
qed

definition sample_codec :: CursorCodec where "sample_codec = \<lparr>codec_key = replicate 32 (CHR ''k'')\<rparr>"

definition sample_scope :: CursorScope where
  "sample_scope = \<lparr>scope_TenantID = sample_uuid 9, scope_Endpoint = ''/v1/artifacts'',
     scope_QueryDigest = SHA256Digest ''hammer'', scope_PageSize = 10\<rparr>"

definition sample_cursor :: Cursor where
  "sample_cursor = \<lparr>cur_Position = UUID_String (sample_uuid 200), cur_ExpiresAt = sample_time\<rparr>"

lemma length_payload_json:
  assumes "0 \<le> pay_Version p" "pay_Version p < 2 ^ 63" "0 \<le> pay_PageSize p" "pay_PageSize p < 2 ^ 63"
    "0 \<le> pay_Expires p" "pay_Expires p < 2 ^ 63"
  shows "length (json_encode (payload_json p)) \<le>
    200 + 6 * (length (pay_Tenant p) + length (pay_Endpoint p) + length (pay_Query p) + length (pay_Position p))"
proof -
  have number: "length (show_int i) \<le> 19" if "0 \<le> i" "i < 2 ^ 63" for i
    using length_show_sequence [of "nat i"] that by simp
  have key: "length (json_quote [c]) \<le> 8" for c using length_json_quote [of "[c]"] by simp
  show ?thesis
    using number [OF assms(1,2)] number [OF assms(3,4)] number [OF assms(5,6)]
      length_json_quote [of "pay_Tenant p"] length_json_quote [of "pay_Endpoint p"] length_json_quote [of "pay_Query p"]
      length_json_quote [of "pay_Position p"] key [of "CHR ''v''"] key [of "CHR ''t''"] key [of "CHR ''e''"]
      key [of "CHR ''q''"] key [of "CHR ''s''"] key [of "CHR ''p''"] key [of "CHR ''x''"]
    by (simp add: payload_json_def join_with_Cons)
qed

lemma sample_cursor_encodes: "\<exists>t. Cursor_Encode sample_codec (sample_time - 1) sample_scope sample_cursor = Inr t"
proof -
  let ?p = "cursor_payload sample_codec sample_scope sample_cursor"
  have q: "length (pay_Query ?p) \<le> 64"
    using length_b64_encode [of "hmac_sha256 (codec_key sample_codec) s" for s]
    by (simp add: cursor_payload_def queryBinding_def)
  have range: "0 \<le> time_Unix sample_time" "time_Unix sample_time < 2 ^ 63"
    by (simp_all add: sample_time_def time_defs)
  have "length (json_encode (payload_json ?p)) \<le>
    200 + 6 * (length (pay_Tenant ?p) + length (pay_Endpoint ?p) + length (pay_Query ?p) + length (pay_Position ?p))"
    by (rule length_payload_json) (use range in \<open>simp_all add: cursor_payload_def sample_scope_def sample_cursor_def\<close>)
  also have "\<dots> \<le> 2000"
    using q by (simp add: cursor_payload_def sample_scope_def sample_cursor_def)
  finally have "length (cursor_text sample_codec ?p) \<le> MaxCursorBytes"
    using length_b64_encode [of "json_encode (payload_json ?p)"] length_b64_encode [of "sign sample_codec (json_encode (payload_json ?p))"]
    by (simp add: cursor_text_def MaxCursorBytes_def sign_def)
  moreover have "is_ok (NewBoundedString (UUID_String (sample_uuid 200)) 1024)"
  proof -
    have "UUID_String (sample_uuid 200) \<noteq> []" by (metis length_UUID_String list.size(3) zero_neq_numeral)
    with validateText_plain [OF plain_UUID_String, of "sample_uuid 200" 1024] show ?thesis by (simp add: validateText_def)
  qed
  moreover have "validateCursorScope sample_scope = Inr ()"
    by (simp add: validateCursorScope_def sample_scope_def SHA256Digest_def)
  ultimately show ?thesis by (simp add: Cursor_Encode_Inr) (simp add: sample_cursor_def)
qed

end
