(* ===== verification/Metadata_Json.thy ===== *)
theory Metadata_Json
  imports Outbox Artifact_Versions
begin

text \<open>
  What the packages \<open>internal/domain/artifactdescriptor\<close>, \<open>artifactrequirement\<close> and
  \<open>artifactdependency\<close> share: the bounds of normalized metadata, the test for duplicate keys and
  trailing content, and objects read as maps of raw values. A \<open>json.RawMessage\<close> is the value it is the
  text of.
\<close>

subsection \<open>Duplicate keys\<close>

text \<open>
  \<open>duplicateJSONValue\<close> reads one value as tokens: a key repeated in one object, at any depth. The
  tokens of a key are compared decoded.
\<close>

fun duplicateJSONValue :: "json \<Rightarrow> bool" where
  "duplicateJSONValue (JObject ms) =
    (\<not> distinct (map fst ms) \<or> list_ex (\<lambda>m. duplicateJSONValue (snd m)) ms)"
| "duplicateJSONValue (JArray vs) = list_ex duplicateJSONValue vs"
| "duplicateJSONValue (JNumber _) = False"
| "duplicateJSONValue (JString _) = False"
| "duplicateJSONValue (JBool _) = False"
| "duplicateJSONValue JNull = False"

definition hasDuplicateKeyOrTrailingContent :: "string \<Rightarrow> bool" where
  "hasDuplicateKeyOrTrailingContent text =
    (case json_decode_first text of
       None \<Rightarrow> True
     | Some (v, rest) \<Rightarrow> duplicateJSONValue v \<or> skip_space rest \<noteq> [])"

definition MaxNormalizedMetadataBytes :: nat where
  "MaxNormalizedMetadataBytes = 2 ^ 20"

text \<open>\<open>utf8.Valid\<close>, \<open>json.Valid\<close> and no duplicate key, as the three packages test them together.\<close>

definition normalized_json :: "string \<Rightarrow> bool" where
  "normalized_json text \<longleftrightarrow>
    \<not> (\<not> utf8_valid text \<or> json_parse text = None \<or> hasDuplicateKeyOrTrailingContent text)"

lemma normalized_json_iff:
  "normalized_json text \<longleftrightarrow> utf8_valid text \<and> (\<exists>v. json_parse text = Some v \<and> \<not> duplicateJSONValue v)"
  by (auto simp: normalized_json_def hasDuplicateKeyOrTrailingContent_def json_parse_def split: option.splits if_splits)

subsection \<open>Raw values\<close>

definition has_value :: "(string \<times> json) list \<Rightarrow> string \<Rightarrow> (json \<Rightarrow> bool) \<Rightarrow> bool" where
  "has_value data key valid \<longleftrightarrow> (case map_of data key of None \<Rightarrow> False | Some raw \<Rightarrow> valid raw)"

definition valid_if_present :: "(string \<times> json) list \<Rightarrow> string \<Rightarrow> (json \<Rightarrow> bool) \<Rightarrow> bool" where
  "valid_if_present data key valid \<longleftrightarrow> (case map_of data key of None \<Rightarrow> True | Some raw \<Rightarrow> valid raw)"

definition decodeObject :: "json \<Rightarrow> string list \<Rightarrow> string list \<Rightarrow> (string \<times> json) list option" where
  "decodeObject raw allowed required =
    (case raw of
       JObject ms \<Rightarrow>
         (let members = fold put_member ms [] in
          if list_ex (\<lambda>m. fst m \<notin> set allowed) members then None
          else if list_ex (\<lambda>field. map_of members field = None) required then None
          else Some members)
     | _ \<Rightarrow> None)"

definition rawArray :: "json \<Rightarrow> nat \<Rightarrow> nat \<Rightarrow> json list option" where
  "rawArray raw minimum maximum =
    (case raw of
       JArray vs \<Rightarrow> if length vs < minimum \<or> length vs > maximum then None else Some vs
     | _ \<Rightarrow> None)"

definition jsonString :: "json \<Rightarrow> string option" where
  "jsonString raw = (case raw of JString s \<Rightarrow> Some s | _ \<Rightarrow> None)"

fun valid_items :: "(string \<Rightarrow> bool) \<Rightarrow> json list \<Rightarrow> string list option" where
  "valid_items valid [] = Some []"
| "valid_items valid (item # items) =
    (case jsonString item of
       None \<Rightarrow> None
     | Some s \<Rightarrow> if \<not> valid s then None else map_option (Cons s) (valid_items valid items))"

definition stringSet :: "json \<Rightarrow> nat \<Rightarrow> nat \<Rightarrow> (string \<Rightarrow> bool) \<Rightarrow> string list option" where
  "stringSet raw minimum maximum valid =
    (case rawArray raw minimum maximum of
       None \<Rightarrow> None
     | Some items \<Rightarrow>
       (case valid_items valid items of
          None \<Rightarrow> None
        | Some texts \<Rightarrow>
          (if \<not> sorted texts then None
           else if \<not> successively (\<noteq>) texts then None
           else Some texts)))"

definition exactInteger :: "json \<Rightarrow> int \<Rightarrow> bool" where
  "exactInteger raw expected \<longleftrightarrow> raw = JNumber (show_int expected)"

definition validBoolean :: "json \<Rightarrow> bool" where
  "validBoolean raw \<longleftrightarrow> raw = JBool True \<or> raw = JBool False"

definition stringEnum :: "json \<Rightarrow> string list \<Rightarrow> bool" where
  "stringEnum raw allowed \<longleftrightarrow> (case jsonString raw of None \<Rightarrow> False | Some s \<Rightarrow> s \<in> set allowed)"

definition validJSONString :: "json \<Rightarrow> nat \<Rightarrow> nat \<Rightarrow> (string \<Rightarrow> bool) \<Rightarrow> bool" where
  "validJSONString raw minimum maximum valid \<longleftrightarrow>
    (case jsonString raw of
       None \<Rightarrow> False
     | Some s \<Rightarrow> minimum \<le> rune_count s \<and> rune_count s \<le> maximum \<and> valid s)"

subsection \<open>Structs\<close>

text \<open>Storing the members of an object one after the other.\<close>

fun store_members :: "('m \<Rightarrow> 's \<Rightarrow> 's option) \<Rightarrow> 'm list \<Rightarrow> 's \<Rightarrow> 's option" where
  "store_members store [] s = Some s"
| "store_members store (m # ms) s = (case store m s of None \<Rightarrow> None | Some s' \<Rightarrow> store_members store ms s')"

subsection \<open>String sets\<close>

text \<open>A string set is the increasing enumeration of a set of valid strings.\<close>

lemma sorted_successively: "sorted xs \<and> successively (\<noteq>) xs \<longleftrightarrow> sorted_wrt (<) (xs :: 'a :: linorder list)"
proof (induction xs rule: induct_list012)
  case (3 x y zs)
  then show ?case by (auto simp: le_less)
qed auto

lemma valid_items_Some:
  "valid_items valid items = Some texts \<longleftrightarrow> items = map JString texts \<and> list_all valid texts"
proof (induction items arbitrary: texts)
  case (Cons i items)
  then show ?case by (cases i; cases texts) (auto simp: jsonString_def)
qed auto

lemma stringSet_Some:
  "stringSet raw minimum maximum valid = Some texts \<longleftrightarrow>
    raw = JArray (map JString texts) \<and> minimum \<le> length texts \<and> length texts \<le> maximum \<and>
    list_all valid texts \<and> sorted_wrt (<) texts"
proof (cases raw)
  case (JArray items)
  have same: "map JString a = map JString b \<longleftrightarrow> a = b" for a b
    by (simp add: inj_map_eq_map inj_def)
  show ?thesis
  proof (cases "valid_items valid items")
    case None
    then have "\<not> (items = map JString texts \<and> list_all valid texts)" by (simp add: valid_items_Some [symmetric])
    with None JArray show ?thesis by (auto simp: stringSet_def rawArray_def)
  next
    case (Some ts)
    then have "items = map JString ts" "list_all valid ts" by (simp_all add: valid_items_Some)
    with Some JArray show ?thesis
      unfolding sorted_successively [symmetric] by (auto simp: stringSet_def rawArray_def same not_less)
  qed
qed (auto simp: stringSet_def rawArray_def)

end
