(* ===== verification/Artifact_Requirements.thy ===== *)
theory Artifact_Requirements
  imports Metadata_Json
begin

text \<open>
  \<open>internal/domain/artifactrequirement\<close>: the closed V1 vocabulary of runtime requirements, bound to the
  digest of its exact bytes. An error of \<open>validateDocument\<close> is its message.
\<close>

subsection \<open>Patterns\<close>

definition requirement_SchemaVersion :: int where "requirement_SchemaVersion = 1"

definition dnsTokenPattern :: rx where
  "dnsTokenPattern = rx_dns_token"

definition rx_capability_part :: rx where
  "rx_capability_part = rx_token is_lower_alnum (\<lambda>c. is_lower_alnum c \<or> c = CHR ''_'' \<or> c = CHR ''-'')"

definition capabilityPattern :: rx where
  "capabilityPattern = Seq rx_capability_part (rx_plus (Seq (rx_char (CHR ''.'')) rx_capability_part))"

definition positiveInteger :: rx where
  "positiveInteger = Seq (Cls (\<lambda>c. is_digit c \<and> c \<noteq> CHR ''0'')) (Star (Cls is_digit))"

definition validQuantity :: "json \<Rightarrow> bool" where
  "validQuantity raw \<longleftrightarrow> (case raw of JNumber literal \<Rightarrow> matches positiveInteger literal | _ \<Rightarrow> False)"

subsection \<open>The document\<close>

definition validCapabilityList :: "(string \<times> json) list \<Rightarrow> string \<Rightarrow> (string, unit) result" where
  "validCapabilityList data field =
    (if \<not> valid_if_present data field (\<lambda>list. stringSet list 0 256 (matches capabilityPattern) \<noteq> None)
     then Inl (''capabilities '' @ field) else Inr ())"

definition validateCapabilities :: "json \<Rightarrow> (string, unit) result" where
  "validateCapabilities raw =
    (case decodeObject raw [''required'', ''optional''] [] of
       None \<Rightarrow> Inl ''capabilities''
     | Some data \<Rightarrow> each_field (validCapabilityList data) [''required'', ''optional''])"

definition runtime_fields :: "string list" where
  "runtime_fields = [''profile'', ''minimum_isolation_class'', ''os'', ''architectures'', ''minimum_cpu_millicores'',
     ''minimum_memory_bytes'', ''minimum_ephemeral_storage_bytes'', ''minimum_workspace_storage_bytes'',
     ''durable_workspace_required'', ''gpu_required'', ''gpu_classes'', ''adapter'']"

definition quantity_fields :: "string list" where
  "quantity_fields = [''minimum_cpu_millicores'', ''minimum_memory_bytes'', ''minimum_ephemeral_storage_bytes'',
     ''minimum_workspace_storage_bytes'']"

definition validAdapter :: "json \<Rightarrow> bool" where
  "validAdapter raw \<longleftrightarrow>
    (case decodeObject raw [''kind'', ''compatibility''] [''kind'', ''compatibility''] of
       None \<Rightarrow> False
     | Some adapter \<Rightarrow>
       has_value adapter ''kind'' (\<lambda>v. validJSONString v 1 63 (matches dnsTokenPattern)) \<and>
       has_value adapter ''compatibility'' (\<lambda>v. validJSONString v 1 128 (\<lambda>_. True)))"

definition validateRuntime :: "json \<Rightarrow> (string, unit) result" where
  "validateRuntime raw =
    (case decodeObject raw runtime_fields [] of
       None \<Rightarrow> Inl ''runtime''
     | Some data \<Rightarrow>
       (if \<not> valid_if_present data ''profile'' (\<lambda>v. validJSONString v 1 63 (matches dnsTokenPattern))
          then Inl ''runtime profile''
        else if \<not> valid_if_present data ''minimum_isolation_class''
            (\<lambda>v. stringEnum v [''container-standard'', ''microvm-strong'', ''confidential-strong''])
          then Inl ''runtime isolation''
        else if \<not> valid_if_present data ''os'' (\<lambda>v. stringEnum v [''linux'']) then Inl ''runtime os''
        else if \<not> valid_if_present data ''architectures''
            (\<lambda>v. stringSet v 1 4 (\<lambda>item. item = ''amd64'' \<or> item = ''arm64'') \<noteq> None)
          then Inl ''runtime architectures''
        else if \<not> list_all (\<lambda>field. valid_if_present data field validQuantity) quantity_fields
          then Inl ''runtime quantity''
        else if \<not> list_all (\<lambda>field. valid_if_present data field validBoolean)
            [''durable_workspace_required'', ''gpu_required'']
          then Inl ''runtime boolean''
        else if \<not> valid_if_present data ''gpu_classes''
            (\<lambda>v. stringSet v 0 8 (matches dnsTokenPattern) \<noteq> None)
          then Inl ''runtime gpu classes''
        else if \<not> valid_if_present data ''adapter'' validAdapter then Inl ''runtime adapter''
        else Inr ()))"

definition network_profiles :: "string list" where
  "network_profiles = [''none'', ''thinkpixel-only'', ''package-mirrors'', ''restricted-external'', ''unrestricted-standalone'']"

definition validateNetwork :: "json \<Rightarrow> (string, unit) result" where
  "validateNetwork raw =
    (case decodeObject raw [''profile'', ''endpoint_classes''] [''profile''] of
       None \<Rightarrow> Inl ''network profile''
     | Some data \<Rightarrow>
       (if \<not> has_value data ''profile'' (\<lambda>v. stringEnum v network_profiles) then Inl ''network profile''
        else if has_value data ''profile'' (\<lambda>v. jsonString v = Some ''restricted-external'')
          then (if has_value data ''endpoint_classes'' (\<lambda>v. stringSet v 1 32 (matches dnsTokenPattern) \<noteq> None)
                then Inr () else Inl ''network endpoint classes'')
        else if valid_if_present data ''endpoint_classes'' (\<lambda>v. stringSet v 0 0 (matches dnsTokenPattern) = Some [])
          then Inr ()
        else Inl ''network endpoint classes''))"

definition validIntegration :: "json \<Rightarrow> bool" where
  "validIntegration raw \<longleftrightarrow>
    (case decodeObject raw [''kind'', ''identifier'', ''required''] [''kind'', ''identifier'', ''required''] of
       None \<Rightarrow> False
     | Some item \<Rightarrow>
       has_value item ''kind''
         (\<lambda>v. stringEnum v [''mcp-server'', ''a2a-peer'', ''model-feature'', ''model-family'', ''artifact-store'']) \<and>
       has_value item ''identifier'' (\<lambda>v. validJSONString v 1 255 (\<lambda>_. True)) \<and>
       has_value item ''required'' validBoolean)"

definition validateIntegrations :: "json \<Rightarrow> (string, unit) result" where
  "validateIntegrations raw =
    (case rawArray raw 0 64 of
       None \<Rightarrow> Inl ''integrations''
     | Some items \<Rightarrow> if \<not> list_all validIntegration items then Inl ''integration'' else Inr ())"

definition check_section :: "(string \<times> json) list \<Rightarrow> (json \<Rightarrow> (string, unit) result) \<times> string \<Rightarrow> (string, unit) result" where
  "check_section document section =
    (case map_of document (snd section) of None \<Rightarrow> Inr () | Some raw \<Rightarrow> fst section raw)"

definition validateDocument :: "json \<Rightarrow> (string, unit) result" where
  "validateDocument raw =
    (case decodeObject raw [''schema_version'', ''capabilities'', ''runtime'', ''network'', ''integrations'']
        [''schema_version''] of
       None \<Rightarrow> Inl ''schema version''
     | Some document \<Rightarrow>
       (if \<not> has_value document ''schema_version'' (\<lambda>v. exactInteger v requirement_SchemaVersion)
          then Inl ''schema version''
        else each_field (check_section document)
          [(validateCapabilities, ''capabilities''), (validateRuntime, ''runtime''), (validateNetwork, ''network''),
           (validateIntegrations, ''integrations'')]))"

subsection \<open>Construction\<close>

record ArtifactRequirement =
  req_tenantID :: UUID
  req_artifactVersionID :: UUID
  req_requirementDigest :: Digest
  req_normalizedRequirement :: string

datatype requirement_error =
    RequirementIdentifier | RequirementDigest | RequirementBounds | RequirementMetadata
  | RequirementDigestMismatch | RequirementDocument string

definition requirement_restore ::
  "UUID \<Rightarrow> UUID \<Rightarrow> Digest \<Rightarrow> string \<Rightarrow> (requirement_error, ArtifactRequirement) result" where
  "requirement_restore tenantID versionID digest text =
    (if \<not> valid_uuid tenantID \<or> \<not> valid_uuid versionID then Inl RequirementIdentifier
     else if \<not> is_ok (Digest_MarshalText digest) then Inl RequirementDigest
     else if length text < 2 \<or> length text > MaxNormalizedMetadataBytes then Inl RequirementBounds
     else if \<not> normalized_json text then Inl RequirementMetadata
     else if SHA256Digest text \<noteq> digest then Inl RequirementDigestMismatch
     else case validateDocument (the (json_parse text)) of
       Inl message \<Rightarrow> Inl (RequirementDocument message)
     | Inr _ \<Rightarrow> Inr \<lparr>req_tenantID = tenantID, req_artifactVersionID = versionID, req_requirementDigest = digest,
         req_normalizedRequirement = text\<rparr>)"

definition Requirement_New ::
  "UUID \<Rightarrow> UUID \<Rightarrow> Digest \<Rightarrow> string \<Rightarrow> (requirement_error, ArtifactRequirement) result" where
  "Requirement_New = requirement_restore"

definition Requirement_Restore ::
  "UUID \<Rightarrow> UUID \<Rightarrow> Digest \<Rightarrow> string \<Rightarrow> (requirement_error, ArtifactRequirement) result" where
  "Requirement_Restore = requirement_restore"

subsection \<open>Exactness\<close>

definition wf_requirement :: "ArtifactRequirement \<Rightarrow> bool" where
  "wf_requirement r \<longleftrightarrow>
    valid_uuid (req_tenantID r) \<and> valid_uuid (req_artifactVersionID r) \<and>
    req_requirementDigest r = SHA256Digest (req_normalizedRequirement r) \<and>
    length (req_normalizedRequirement r) \<le> MaxNormalizedMetadataBytes \<and> utf8_valid (req_normalizedRequirement r) \<and>
    (\<exists>v. json_parse (req_normalizedRequirement r) = Some v \<and> \<not> duplicateJSONValue v \<and> is_ok (validateDocument v))"

lemma json_parse_object_length: "json_parse s = Some v \<Longrightarrow> is_ok (validateDocument v) \<Longrightarrow> 2 \<le> length s"
proof (rule ccontr)
  assume p: "json_parse s = Some v" and v: "is_ok (validateDocument v)" and "\<not> 2 \<le> length s"
  then have "s = [] \<or> (\<exists>c. s = [c])" by (cases s; cases "tl s") auto
  moreover from v obtain ms where "v = JObject ms"
    by (cases v) (simp_all add: validateDocument_def decodeObject_def)
  ultimately show False
    using p by (auto simp: json_parse_def json_decode_first_def skip_space_def numeral_2_eq_2 split: option.splits if_splits)
qed

lemma requirement_restore_Inr:
  "requirement_restore t u d s = Inr r \<longleftrightarrow>
    wf_requirement r \<and>
    r = \<lparr>req_tenantID = t, req_artifactVersionID = u, req_requirementDigest = d, req_normalizedRequirement = s\<rparr>"
proof -
  define ok where "ok v \<longleftrightarrow> is_ok (validateDocument v)" for v
  have doc: "(case validateDocument v of Inl message \<Rightarrow> Inl (RequirementDocument message) | Inr _ \<Rightarrow> Inr x) = Inr r \<longleftrightarrow> ok v \<and> r = x"
    for v and x :: ArtifactRequirement
    by (cases "validateDocument v") (auto simp: ok_def)
  have long: "json_parse s = Some v \<Longrightarrow> ok v \<Longrightarrow> \<not> length s < 2" for v
    using json_parse_object_length [of s v] by (simp add: ok_def)
  show ?thesis
    unfolding requirement_restore_def guard_Inr doc normalized_json_iff wf_requirement_def ok_def [symmetric]
    using long by (auto simp: wf_digest_MarshalText wf_SHA256Digest)
qed

end
