(* ===== verification/Catalog_Properties.thy ===== *)
theory Catalog_Properties
  imports Sample_Messages Artifact_Requirements
begin

text \<open>
  Properties of the event delivery (\<open>internal/domain/outbox\<close>, \<open>internal/adapters/postgres/outbox\<close>), of the
  cursors of \<open>internal/domain/shared\<close>, and of the texts the catalog accepts.
\<close>

subsection \<open>Delivery of events\<close>

text \<open>
  C16: a claim leases exactly the first due messages of the tenant in sequence order, to the worker that
  asks, for the lease it asks; every other message is left as it was or became a dead letter.
\<close>

theorem claimed_messages_exact:
  assumes "outbox_inv (w_db w)"
    and "OutboxRepository_Claim env ctx t worker token at lease limit w = (Inr ms, w')"
  shows "mset (map msg_id ms) = mset (map orow_id (first_due t (env_store_time env at) (nat limit) (w_db w))) \<and>
    sorted (map msg_sequence ms) \<and> list_all (leased_to worker token (env_store_time env at) lease) ms \<and>
    length ms \<le> nat limit \<and> outbox_moves env (w_db w) (w_db w')"
proof -
  note exact = claim_exact [OF assms]
  then have "length (map msg_id ms) = length (map orow_id (first_due t (env_store_time env at) (nat limit) (w_db w)))"
    by (metis size_mset)
  then have "length ms \<le> nat limit" by (simp add: first_due_def)
  with exact show ?thesis by blast
qed

theorem claimed_messages_exact_witness:
  "\<exists>m ms w'. OutboxRepository_Claim steady_env sample_ctx (sample_uuid 9) ''worker'' (sample_uuid 77) sample_time
      duration_minute 10 (fresh_world (queued_db m)) = (Inr ms, w') \<and> ms \<noteq> [] \<and>
    list_all (leased_to ''worker'' (sample_uuid 77) clear_time duration_minute) ms \<and>
    outbox_moves steady_env (queued_db m) (w_db w')"
proof -
  obtain m where m: "announced_at clear_time m" using clear_message by blast
  have inv: "outbox_inv (w_db (fresh_world (queued_db m)))" using queued_inv [OF m] by simp
  have at: "env_store_time steady_env sample_time = clear_time" by (simp add: clear_time_def sample_time_def time_defs)
  obtain w' where run: "OutboxRepository_Claim steady_env sample_ctx (sample_uuid 9) ''worker'' (sample_uuid 77) sample_time
      duration_minute 10 (fresh_world (queued_db m)) =
      (Inr [leased_message steady_env ''worker'' (sample_uuid 77) clear_time duration_minute m], w')"
    using sample_claim [OF m] by blast
  from claimed_messages_exact [OF inv run] run show ?thesis unfolding at by fastforce
qed

text \<open>
  The progress of a delivery: two per attempt, less one while the last attempt is under way. Every
  update the trigger lets pass increases it.
\<close>

definition delivery_progress :: "OutboxRow \<Rightarrow> int" where
  "delivery_progress r = 2 * orow_attempts r - (if orow_state r = OutboxClaimed then 1 else 0)"

lemma delivery_step_progress: "delivery_step env r r' \<Longrightarrow> delivery_progress r < delivery_progress r' \<and> delivery_progress r' \<le> 2000"
  using delivery_step_facts(3,4,6) [of env r r'] by (auto simp: delivery_progress_def)

lemma delivery_steps_progress: "(delivery_step env ^^ n) r r' \<Longrightarrow> delivery_progress r + int n \<le> delivery_progress r'"
proof (induction n arbitrary: r')
  case (Suc n)
  then obtain q where "(delivery_step env ^^ n) r q" "delivery_step env q r'" by auto
  with Suc.IH [of q] delivery_step_progress [of env q r'] show ?case by simp
qed simp

text \<open>
  C17: a message is updated at most 2000 times, whatever the workers do: the attempts are counted and
  bounded, the event itself never changes, and a delivered or dead message is never updated again.
\<close>

theorem delivery_bounded:
  assumes "delivery_check env r" and "(delivery_step env ^^ n) r r'"
  shows "n \<le> 2000 \<and> orow_event r' = orow_event r \<and> orow_attempts r \<le> orow_attempts r' \<and>
    orow_attempts r' \<le> 1000 \<and> (n = 0 \<or> \<not> delivery_final r)"
proof -
  have steps: "(delivery_step env)\<^sup>*\<^sup>* r r'" using assms(2) by (simp add: relpowp_imp_rtranclp)
  have start: "0 \<le> delivery_progress r" "orow_attempts r \<le> 1000"
    using assms(1) by (auto simp: delivery_check_def delivery_progress_def)
  show ?thesis
  proof (cases n)
    case 0
    with assms(2) start show ?thesis by simp
  next
    case (Suc k)
    with assms(2) obtain q where q: "(delivery_step env ^^ k) r q" "delivery_step env q r'" by auto
    from Suc assms(2) obtain p where "delivery_step env r p" by (metis relpowp_Suc_D2)
    with delivery_steps_progress [OF assms(2)] delivery_step_progress [OF q(2)] delivery_step_facts(2,4) q(2) start
    have "n \<le> 2000" "orow_attempts r' \<le> 1000" "\<not> delivery_final r" by fastforce+
    with delivery_steps_event [OF steps] delivery_steps_attempts [OF steps] show ?thesis by blast
  qed
qed

theorem delivery_bounded_witness:
  "\<exists>m. announced_at clear_time m \<and>
    orow_event (lease_row ''worker'' (sample_uuid 77) clear_time duration_minute (outbox_row steady_env m)) =
      orow_event (outbox_row steady_env m) \<and> \<not> delivery_final (outbox_row steady_env m)"
proof -
  obtain m where m: "announced_at clear_time m" using clear_message by blast
  let ?r = "outbox_row steady_env m" and ?l = "lease_row ''worker'' (sample_uuid 77) clear_time duration_minute (outbox_row steady_env m)"
  have "(delivery_step steady_env ^^ 1) ?r ?l" unfolding relpowp_1 by (rule sample_lease_step(2) [OF m])
  from delivery_bounded [OF sample_lease_step(1) [OF m] this] m show ?thesis by auto
qed

lemma scan_other_time:
  assumes "Outbox_New t u n source ty subject payload now = Inr m" and "env_store_time env now \<noteq> now"
    and "orow_event r = orow_event (outbox_row env m)"
  shows "outbox_scan r = Inl ()"
proof (cases "outbox_scan r")
  case (Inr m')
  note f = Outbox_New_facts [OF assms(1)] and g = outbox_scan_Inr [OF Inr]
  have "decode_envelope payload = Some e \<Longrightarrow> evl_Time e = now" for e
    using f by (auto simp: event_ok_def validateEnvelope_def split: if_splits)
  moreover have "decode_envelope (msg_payload m') = Some e \<Longrightarrow> evl_Time e = msg_createdAt m'" for e
    using g(19) by (auto simp: event_ok_def validateEnvelope_def split: if_splits)
  moreover have "decode_envelope payload \<noteq> None"
    using f by (auto simp: event_ok_def validateEnvelope_def split: option.splits)
  moreover have "msg_payload m' = payload" "msg_createdAt m' = env_store_time env now"
    using g(4,15) assms(3) f by (auto simp: orow_event_def outbox_row_def)
  ultimately show ?thesis using assms(2) by auto
qed simp

text \<open>
  C29: an event whose time is not a whole number of microseconds is recorded but cannot be read back:
  the database rounds the column, the envelope keeps the nanoseconds, and the two no longer agree.
\<close>

theorem event_precision_lost:
  assumes "announces_delegation origin d previousState currentState reason now m" and "env_store_time env now \<noteq> now"
  shows "outbox_scan (outbox_row env m) = Inl () \<and>
    outbox_scan (lease_row worker token at lease (outbox_row env m)) = Inl ()"
  using assms by (auto simp: announces_delegation_def orow_event_def lease_row_def intro!: scan_other_time)

theorem event_precision_lost_witness:
  "\<exists>m. announced_at sample_time m \<and> outbox_scan (outbox_row steady_env m) = Inl ()"
proof -
  obtain m where m: "announced_at sample_time m" using rounded_message by blast
  have "env_store_time steady_env sample_time \<noteq> sample_time" by (simp add: sample_time_def time_defs)
  with m event_precision_lost [of sample_origin sample_delegation "[]" "''active''" "[]" sample_time m steady_env]
  show ?thesis by (auto simp: announced_at_def)
qed

text \<open>The restoration accepts a stored message exactly when its event and its delivery are valid, and changes no field.\<close>

theorem outbox_restore_exact:
  "Outbox_Restore tenantID uid sequence source eventType subject payload payloadDigest state attempts availableAt
     claimToken claimedBy claimedAt leaseExpiresAt lastError deliveredAt deadLetteredAt retainUntil createdAt = Inr m \<longleftrightarrow>
    event_ok m \<and> delivery_ok m \<and> ReasonCode_String (msg_eventType m) = eventType \<and>
    m = \<lparr>msg_tenantID = tenantID, msg_id = uid, msg_sequence = sequence, msg_source = source,
      msg_eventType = msg_eventType m, msg_subject = subject, msg_payload = payload,
      msg_payloadDigest = payloadDigest, msg_state = state, msg_attempts = attempts,
      msg_availableAt = availableAt, msg_claimToken = claimToken, msg_claimedBy = claimedBy,
      msg_claimedAt = claimedAt, msg_leaseExpiresAt = leaseExpiresAt, msg_lastError = lastError,
      msg_deliveredAt = deliveredAt, msg_deadLetteredAt = deadLetteredAt,
      msg_retainUntil = retainUntil, msg_createdAt = createdAt\<rparr>"
  by (rule Outbox_Restore_Inr)

subsection \<open>Cursors\<close>

text \<open>
  C25: a cursor decodes, until it expires, to the position it was issued for, with its expiry in whole
  seconds, for the scope it was issued for.
\<close>

theorem cursor_roundtrip:
  assumes "Cursor_Encode codec now scope cursor = Inr t" and "utf8_valid (scope_Endpoint scope)"
    and "- (2 ^ 63) \<le> time_Unix (cur_ExpiresAt cursor)" and "time_Unix (cur_ExpiresAt cursor) + unix_epoch_seconds < 2 ^ 63"
    and "later < from_Unix (time_Unix (cur_ExpiresAt cursor))"
  shows "Cursor_Decode codec later t scope =
    Inr (cursor\<lparr>cur_ExpiresAt := from_Unix (time_Unix (cur_ExpiresAt cursor))\<rparr>)"
  by (rule Cursor_Decode_Encode [OF assms])

lemma sample_cursor_range:
  "utf8_valid (scope_Endpoint sample_scope)" "- (2 ^ 63) \<le> time_Unix (cur_ExpiresAt sample_cursor)"
  "time_Unix (cur_ExpiresAt sample_cursor) < 2 ^ 63"
  "time_Unix (cur_ExpiresAt sample_cursor) + unix_epoch_seconds < 2 ^ 63"
  "0 < from_Unix (time_Unix (cur_ExpiresAt sample_cursor))"
  by (simp_all add: sample_scope_def sample_cursor_def sample_time_def time_defs unix_epoch_seconds_def from_Unix_def utf8_valid_ascii)

theorem cursor_roundtrip_witness:
  "\<exists>t. Cursor_Encode sample_codec (sample_time - 1) sample_scope sample_cursor = Inr t \<and>
    map_error () (Cursor_Decode sample_codec 0 t sample_scope) =
      Inr (sample_cursor\<lparr>cur_ExpiresAt := from_Unix (time_Unix sample_time)\<rparr>)"
proof -
  obtain t where t: "Cursor_Encode sample_codec (sample_time - 1) sample_scope sample_cursor = Inr t"
    using sample_cursor_encodes by blast
  from cursor_roundtrip [OF t sample_cursor_range(1,2,4,5)] t show ?thesis
    by (auto simp: map_error_def) (simp add: sample_cursor_def)
qed



subsection \<open>Texts of the catalog\<close>

text \<open>A semantic version is accepted exactly when it is the printed form of three numbers, pre-release
  identifiers and build identifiers, within the bounds, and it is kept as it was given.\<close>

theorem semantic_version_language:
  "ParseSemanticVersion s = Some v \<longleftrightarrow>
    v = s \<and> 5 \<le> length s \<and> length s \<le> MaxSemanticVersionBytes \<and> (\<exists>x. wf_semver x \<and> s = semver_text x)"
  by (auto simp: ParseSemanticVersion_def semanticVersionPattern_language [symmetric])

text \<open>Normalized requirements are accepted exactly when the text has the digest, is one JSON document
  without duplicate members, of at most the allowed size, and satisfies the schema; they are kept as given.\<close>

theorem requirement_exact:
  "Requirement_New tenantID versionID digest content = Inr r \<longleftrightarrow>
    wf_requirement r \<and> r = \<lparr>req_tenantID = tenantID, req_artifactVersionID = versionID,
      req_requirementDigest = digest, req_normalizedRequirement = content\<rparr>"
  unfolding Requirement_New_def by (rule requirement_restore_Inr)

lemma artifact_list_too_long:
  "limit > ArtifactMaxListSize \<Longrightarrow>
    ArtifactRepository_List env ctx t query after limit w = (Inl (typed_repo ErrorInvalid ''artifact.invalid_page_size''), w)"
  by (simp add: ArtifactRepository_List_def io_fail_def)

lemma bind_fails:
  "(\<And>v w. \<exists>e w'. io_bind (n v) (k v) w = (Inl e, w')) \<Longrightarrow> \<exists>e w'. io_bind m (\<lambda>v. io_bind (n v) (k v)) w = (Inl e, w')"
  by (auto simp: io_bind_def split: prod.splits sum.splits)

text \<open>
  C34: a list of artifacts of the largest page size the service accepts never succeeds: the service asks
  the repository for one item more than the page, which is more than the repository's limit.
\<close>

theorem artifact_full_page_fails:
  "\<exists>e w'. ArtifactService_List env codec ctx actor query MaxArtifactPageSize cursor w = (Inl e, w')"
proof -
  have long: "MaxArtifactPageSize + 1 > ArtifactMaxListSize" by (simp add: MaxArtifactPageSize_def ArtifactMaxListSize_def)
  have fails: "\<exists>e w'. io_bind (ArtifactRepository_List env ctx t q after (MaxArtifactPageSize + 1)) k w = (Inl e, w')"
    for t q after w and k :: "Artifact list \<Rightarrow> ArtifactPage io"
    unfolding io_bind_def artifact_list_too_long [OF long] by simp
  show ?thesis unfolding ArtifactService_List_def Let_def
    by (auto simp: io_fail_def split: sum.splits intro!: bind_fails fails)
qed

end
