(* ===== verification/Artifact_Dependencies.thy ===== *)
theory Artifact_Dependencies
  imports Metadata_Json
begin

text \<open>
  \<open>internal/domain/artifactdependency\<close>: one ordered dependency declaration, decoded into the Go struct
  \<open>document\<close> and bound to the digest of its exact bytes.
\<close>

subsection \<open>Data\<close>

definition dependency_SchemaVersion :: int where "dependency_SchemaVersion = 1"
definition MaxDependencies :: nat where "MaxDependencies = 256"

type_synonym SelectorKind = string

abbreviation SelectorDigest :: SelectorKind where "SelectorDigest \<equiv> ''digest''"
abbreviation SelectorVersion :: SelectorKind where "SelectorVersion \<equiv> ''version''"
abbreviation SelectorRange :: SelectorKind where "SelectorRange \<equiv> ''range''"

record ArtifactDependency =
  dep_tenantID :: UUID
  dep_artifactVersionID :: UUID
  dep_index :: nat
  dep_name :: string
  dep_artifact :: ArtifactReference
  dep_required :: bool
  dep_catalog :: string
  dep_source :: string
  dep_selectorKind :: SelectorKind
  dep_selectorValue :: string
  dep_dependencyDigest :: Digest
  dep_normalizedValue :: string

definition dependency_Catalog :: "ArtifactDependency \<Rightarrow> string option" where
  "dependency_Catalog d = (if dep_catalog d = [] then None else Some (dep_catalog d))"

definition dependency_Source :: "ArtifactDependency \<Rightarrow> string option" where
  "dependency_Source d = (if dep_source d = [] then None else Some (dep_source d))"

subsection \<open>Decoding\<close>

text \<open>The struct \<open>document\<close>; a \<open>json.RawMessage\<close> or a pointer that was not set is \<open>None\<close>.\<close>

record document =
  doc_SchemaVersion :: int
  doc_Name :: string
  doc_Artifact :: string
  doc_Required :: "bool option"
  doc_Catalog :: "json option"
  doc_Source :: "json option"
  doc_Selector :: "(string \<times> json) list"

definition zero_document :: document where
  "zero_document = \<lparr>doc_SchemaVersion = 0, doc_Name = [], doc_Artifact = [], doc_Required = None,
     doc_Catalog = None, doc_Source = None, doc_Selector = []\<rparr>"

definition document_fields :: "string list" where
  "document_fields = [''schema_version'', ''name'', ''artifact'', ''required'', ''catalog'', ''source'', ''selector'']"

definition decode_go_int :: "int \<Rightarrow> json \<Rightarrow> int option" where
  "decode_go_int = decode_int (- (2 ^ 63)) (2 ^ 63 - 1)"

definition decode_bool_pointer :: "json \<Rightarrow> bool option option" where
  "decode_bool_pointer v = (case v of JBool b \<Rightarrow> Some (Some b) | JNull \<Rightarrow> Some None | _ \<Rightarrow> None)"

text \<open>\<open>DisallowUnknownFields\<close>: a key that selects no field is an error.\<close>

definition store_document :: "string \<times> json \<Rightarrow> document \<Rightarrow> document option" where
  "store_document m d =
    (case select_field document_fields (fst m) of
       None \<Rightarrow> None
     | Some name \<Rightarrow>
       (if name = ''schema_version'' then
          map_option (\<lambda>i. d\<lparr>doc_SchemaVersion := i\<rparr>) (decode_go_int (doc_SchemaVersion d) (snd m))
        else if name = ''name'' then map_option (\<lambda>s. d\<lparr>doc_Name := s\<rparr>) (decode_string (doc_Name d) (snd m))
        else if name = ''artifact'' then map_option (\<lambda>s. d\<lparr>doc_Artifact := s\<rparr>) (decode_string (doc_Artifact d) (snd m))
        else if name = ''required'' then map_option (\<lambda>b. d\<lparr>doc_Required := b\<rparr>) (decode_bool_pointer (snd m))
        else if name = ''catalog'' then Some (d\<lparr>doc_Catalog := Some (snd m)\<rparr>)
        else if name = ''source'' then Some (d\<lparr>doc_Source := Some (snd m)\<rparr>)
        else map_option (\<lambda>s. d\<lparr>doc_Selector := s\<rparr>) (decode_map (doc_Selector d) (snd m))))"

definition decode_document :: "string \<Rightarrow> document option" where
  "decode_document text =
    (case json_decode_first text of
       Some (JObject ms, _) \<Rightarrow> store_members store_document ms zero_document
     | Some (JNull, _) \<Rightarrow> Some zero_document
     | _ \<Rightarrow> None)"

subsection \<open>Validation\<close>

definition validDNSToken :: "string \<Rightarrow> bool" where
  "validDNSToken token =
    (if token = [] \<or> length token > 63 then False
     else list_all
       (\<lambda>(index, character).
          lower_alnum_rune character \<or> index > 0 \<and> index < length token - 1 \<and> character = code (CHR ''-''))
       (index_runes 0 token))"

datatype dependency_error =
    DependencyIndex | DependencyIdentifier | DependencyDigest | DependencyMetadata | DependencyDigestMismatch
  | DependencyDocument | DependencyName | DependencyArtifact | DependencyCatalog | DependencySource
  | DependencySourceOrSelector | DependencySelector | DependencyDigestSelector | DependencyVersionSelector
  | DependencyRangeSelector

text \<open>An optional member: what it decodes to, the empty string when it is absent.\<close>

definition optional_text :: "json option \<Rightarrow> string option" where
  "optional_text raw = (case raw of None \<Rightarrow> Some [] | Some v \<Rightarrow> decode_string [] v)"

definition validate_selector :: "SelectorKind \<Rightarrow> string \<Rightarrow> (dependency_error, unit) result" where
  "validate_selector kind selected =
    (if kind = SelectorDigest then
       (if is_ok (ParseDigest selected) then Inr () else Inl DependencyDigestSelector)
     else if kind = SelectorVersion then
       (if ParseSemanticVersion selected \<noteq> None then Inr () else Inl DependencyVersionSelector)
     else if kind = SelectorRange then
       (if rune_count selected < 1 \<or> rune_count selected > 255 \<or> selected = ''latest'' \<or> selected = ''*''
        then Inl DependencyRangeSelector else Inr ())
     else Inl DependencySelector)"

definition dependency_restore ::
  "UUID \<Rightarrow> UUID \<Rightarrow> nat \<Rightarrow> Digest \<Rightarrow> string \<Rightarrow> (dependency_error, ArtifactDependency) result" where
  "dependency_restore tenantID versionID index digest text =
    (if index \<ge> MaxDependencies then Inl DependencyIndex
     else if \<not> valid_uuid tenantID \<or> \<not> valid_uuid versionID then Inl DependencyIdentifier
     else if \<not> is_ok (Digest_MarshalText digest) then Inl DependencyDigest
     else if length text < 2 \<or> length text > MaxNormalizedMetadataBytes \<or> \<not> normalized_json text
       then Inl DependencyMetadata
     else if SHA256Digest text \<noteq> digest then Inl DependencyDigestMismatch
     else (case decode_document text of
       None \<Rightarrow> Inl DependencyDocument
     | Some value \<Rightarrow>
     (case doc_Required value of
       None \<Rightarrow> Inl DependencyDocument
     | Some required \<Rightarrow>
     (if doc_SchemaVersion value \<noteq> dependency_SchemaVersion then Inl DependencyDocument
      else if \<not> validDNSToken (doc_Name value) then Inl DependencyName
      else (case ParseArtifactReference (doc_Artifact value) of
        Inl _ \<Rightarrow> Inl DependencyArtifact
      | Inr artifact \<Rightarrow>
      (case optional_text (doc_Catalog value) of
        None \<Rightarrow> Inl DependencyCatalog
      | Some catalog \<Rightarrow>
      (if doc_Catalog value \<noteq> None \<and> \<not> validDNSToken catalog then Inl DependencyCatalog
       else (case optional_text (doc_Source value) of
         None \<Rightarrow> Inl DependencySource
       | Some source \<Rightarrow>
       (if doc_Source value \<noteq> None \<and> (rune_count source < 1 \<or> rune_count source > 255) then Inl DependencySourceOrSelector
        else (case doc_Selector value of
          [(kind, raw)] \<Rightarrow>
          (case decode_string [] raw of
             None \<Rightarrow> Inl DependencySelector
           | Some selected \<Rightarrow>
           (case validate_selector kind selected of
              Inl e \<Rightarrow> Inl e
            | Inr _ \<Rightarrow> Inr \<lparr>dep_tenantID = tenantID, dep_artifactVersionID = versionID, dep_index = index,
                dep_name = doc_Name value, dep_artifact = artifact, dep_required = required, dep_catalog = catalog,
                dep_source = source, dep_selectorKind = kind, dep_selectorValue = selected,
                dep_dependencyDigest = digest, dep_normalizedValue = text\<rparr>))
        | _ \<Rightarrow> Inl DependencySourceOrSelector))))))))))"

definition Dependency_New ::
  "UUID \<Rightarrow> UUID \<Rightarrow> nat \<Rightarrow> Digest \<Rightarrow> string \<Rightarrow> (dependency_error, ArtifactDependency) result" where
  "Dependency_New = dependency_restore"

definition Dependency_Restore ::
  "UUID \<Rightarrow> UUID \<Rightarrow> nat \<Rightarrow> Digest \<Rightarrow> string \<Rightarrow> (dependency_error, ArtifactDependency) result" where
  "Dependency_Restore = dependency_restore"

subsection \<open>Exactness\<close>

lemma validDNSToken_regexp: "validDNSToken token \<longleftrightarrow> length token \<le> 63 \<and> matches rx_dns_token token"
  unfolding validNameToken_regexp [symmetric] by (simp add: validDNSToken_def validNameToken_def conj_assoc)

definition wf_dependency :: "ArtifactDependency \<Rightarrow> bool" where
  "wf_dependency d \<longleftrightarrow>
    dep_index d < 256 \<and> valid_uuid (dep_tenantID d) \<and> valid_uuid (dep_artifactVersionID d) \<and>
    dep_dependencyDigest d = SHA256Digest (dep_normalizedValue d) \<and>
    length (dep_normalizedValue d) \<le> MaxNormalizedMetadataBytes \<and> normalized_json (dep_normalizedValue d) \<and>
    length (dep_name d) \<le> 63 \<and> matches rx_dns_token (dep_name d) \<and>
    ParseArtifactReference (ArtifactReference_String (dep_artifact d)) = Inr (dep_artifact d) \<and>
    pred_option (\<lambda>c. length c \<le> 63 \<and> matches rx_dns_token c) (dependency_Catalog d) \<and>
    pred_option (\<lambda>s. rune_count s \<le> 255) (dependency_Source d) \<and>
    validate_selector (dep_selectorKind d) (dep_selectorValue d) = Inr ()"

lemma rune_count_Nil [simp]: "rune_count [] = 0"
  by (simp add: rune_count_def)

lemma optional_text_None: "optional_text raw = Some [] \<or> raw \<noteq> None"
  by (cases raw) (simp_all add: optional_text_def)

lemma ParseArtifactReference_again:
  "ParseArtifactReference s = Inr r \<Longrightarrow> ParseArtifactReference (ArtifactReference_String r) = Inr r"
  by (simp add: ParseArtifactReference_iff)

lemma case_option_Inr: "(case x of None \<Rightarrow> Inl e | Some a \<Rightarrow> f a) = Inr r \<longleftrightarrow> (\<exists>a. x = Some a \<and> f a = Inr r)"
  by (cases x) simp_all

lemma case_single_Inr:
  "(case xs of [(k, v)] \<Rightarrow> f k v | _ \<Rightarrow> Inl e) = Inr r \<longleftrightarrow> (\<exists>k v. xs = [(k, v)] \<and> f k v = Inr r)"
  by (cases xs; cases "tl xs") (auto split: list.splits)

lemma dependency_restore_Inr:
  assumes "dependency_restore t u i d s = Inr r"
  shows "wf_dependency r \<and> dep_tenantID r = t \<and> dep_artifactVersionID r = u \<and> dep_index r = i \<and>
    dep_dependencyDigest r = d \<and> dep_normalizedValue r = s"
proof -
  from assms obtain v required a catalog source kind raw selected x where
    bounds: "\<not> MaxDependencies \<le> i" "\<not> (\<not> valid_uuid t \<or> \<not> valid_uuid u)"
      "\<not> (length s < 2 \<or> MaxNormalizedMetadataBytes < length s \<or> \<not> normalized_json s)" "\<not> SHA256Digest s \<noteq> d"
    and v: "decode_document s = Some v" "\<not> \<not> validDNSToken (doc_Name v)"
      "ParseArtifactReference (doc_Artifact v) = Inr a"
    and c: "optional_text (doc_Catalog v) = Some catalog" "\<not> (doc_Catalog v \<noteq> None \<and> \<not> validDNSToken catalog)"
    and so: "optional_text (doc_Source v) = Some source"
      "\<not> (doc_Source v \<noteq> None \<and> (rune_count source < 1 \<or> 255 < rune_count source))"
    and sel: "doc_Selector v = [(kind, raw)]" "validate_selector kind selected = Inr x"
    and r: "\<lparr>dep_tenantID = t, dep_artifactVersionID = u, dep_index = i,
        dep_name = doc_Name v, dep_artifact = a, dep_required = required, dep_catalog = catalog,
        dep_source = source, dep_selectorKind = kind, dep_selectorValue = selected,
        dep_dependencyDigest = d, dep_normalizedValue = s\<rparr> = r"
    unfolding dependency_restore_def guard_Inr case_option_Inr case_Inl_Inr case_single_Inr sum.inject
    by (elim conjE exE) (rule that; assumption)
  from c have catalog: "catalog = [] \<or> validDNSToken catalog" using optional_text_None [of "doc_Catalog v"] by auto
  from so have source: "source = [] \<or> \<not> rune_count source > 255" using optional_text_None [of "doc_Source v"] by auto
  from bounds v catalog source sel ParseArtifactReference_again [OF v(3)] show ?thesis
    by (auto simp: wf_dependency_def r [symmetric] MaxDependencies_def validDNSToken_regexp dependency_Catalog_def dependency_Source_def)
qed

lemma dependency_restored: "dependency_restore t u i d s = Inr r \<Longrightarrow>
    dependency_restore (dep_tenantID r) (dep_artifactVersionID r) (dep_index r) (dep_dependencyDigest r) (dep_normalizedValue r) = Inr r"
  using dependency_restore_Inr [of t u i d s r] by simp

end
