(* ===== verification/Artifact_Descriptors.thy ===== *)
theory Artifact_Descriptors
  imports Artifact_Dependencies
begin

text \<open>
  \<open>internal/domain/artifactdescriptor\<close>: the common V1 envelope of a descriptor, bound to the digest of its
  exact bytes. \<open>jsonType\<close> decodes into \<open>any\<close>, which turns numbers into \<open>float64\<close> and fails on the ones
  that overflow it.
\<close>

subsection \<open>Numbers as float64\<close>

text \<open>
  \<open>strconv.ParseFloat\<close> on a JSON number: the digits without leading zeros, the position of the decimal
  point and the exponent, which \<open>readFloat\<close> stops reading once it has reached 10000.
\<close>

definition capped_exponent :: "string \<Rightarrow> int" where
  "capped_exponent ds = foldl (\<lambda>e c. if e < 10000 then e * 10 + int (code c - 48) else e) 0 ds"

definition number_parts :: "string \<Rightarrow> nat \<times> int" where
  "number_parts literal =
    (let unsigned = (if literal \<noteq> [] \<and> hd literal = CHR ''-'' then tl literal else literal);
         (whole, s1) = scan_digits unsigned;
         (frac, s2) = (if s1 \<noteq> [] \<and> hd s1 = CHR ''.'' then scan_digits (tl s1) else ([], s1));
         power = (if s2 = [] then 0
           else let s3 = tl s2 in
             if s3 \<noteq> [] \<and> hd s3 = CHR ''-'' then - capped_exponent (tl s3)
             else if s3 \<noteq> [] \<and> hd s3 = CHR ''+'' then capped_exponent (tl s3)
             else capped_exponent s3) in
     (digits_value (whole @ frac), power - int (length frac)))"

text \<open>The value rounds to infinity when it reaches the middle between the largest float and \<open>2^1024\<close>.\<close>

definition float64_overflow :: nat where
  "float64_overflow = 2 ^ 1024 - 2 ^ 970"

definition number_overflows :: "string \<Rightarrow> bool" where
  "number_overflows literal \<longleftrightarrow>
    (case number_parts literal of (m, e) \<Rightarrow>
       m \<noteq> 0 \<and> (if 0 \<le> e then float64_overflow \<le> m * 10 ^ nat e else float64_overflow * 10 ^ nat (- e) \<le> m))"

fun decodes_into_any :: "json \<Rightarrow> bool" where
  "decodes_into_any (JNumber literal) = (\<not> number_overflows literal)"
| "decodes_into_any (JArray vs) = list_all decodes_into_any vs"
| "decodes_into_any (JObject ms) = list_all (\<lambda>m. decodes_into_any (snd m)) ms"
| "decodes_into_any (JString _) = True"
| "decodes_into_any (JBool _) = True"
| "decodes_into_any JNull = True"

text \<open>An absent \<open>json.RawMessage\<close> does not decode.\<close>

definition jsonType :: "json option \<Rightarrow> string" where
  "jsonType raw =
    (case raw of
       None \<Rightarrow> []
     | Some v \<Rightarrow>
       (if \<not> decodes_into_any v then []
        else case v of JObject _ \<Rightarrow> ''object'' | JArray _ \<Rightarrow> ''array'' | _ \<Rightarrow> []))"

subsection \<open>The envelope\<close>

definition descriptor_SchemaVersion :: int where "descriptor_SchemaVersion = 1"

record coordinates =
  coo_Namespace :: string
  coo_Name :: string
  coo_Version :: string

record descriptor_envelope =
  env_SchemaVersion :: int
  env_Kind :: ArtifactKind
  env_Artifact :: coordinates
  env_Requirements :: "json option"
  env_Dependencies :: "json option"
  env_Spec :: "json option"

definition coordinates_fields :: "string list" where
  "coordinates_fields = [''namespace'', ''name'', ''version'']"

definition store_coordinate :: "string \<times> json \<Rightarrow> coordinates \<Rightarrow> coordinates option" where
  "store_coordinate m c =
    (case select_field coordinates_fields (fst m) of
       None \<Rightarrow> None
     | Some name \<Rightarrow>
       (if name = ''namespace'' then map_option (\<lambda>s. c\<lparr>coo_Namespace := s\<rparr>) (decode_string (coo_Namespace c) (snd m))
        else if name = ''name'' then map_option (\<lambda>s. c\<lparr>coo_Name := s\<rparr>) (decode_string (coo_Name c) (snd m))
        else map_option (\<lambda>s. c\<lparr>coo_Version := s\<rparr>) (decode_string (coo_Version c) (snd m))))"

definition decode_coordinates :: "coordinates \<Rightarrow> json \<Rightarrow> coordinates option" where
  "decode_coordinates old v =
    (case v of JObject ms \<Rightarrow> store_members store_coordinate ms old | JNull \<Rightarrow> Some old | _ \<Rightarrow> None)"

definition descriptor_fields :: "string list" where
  "descriptor_fields = [''schema_version'', ''kind'', ''artifact'', ''requirements'', ''dependencies'', ''spec'']"

definition store_descriptor :: "string \<times> json \<Rightarrow> descriptor_envelope \<Rightarrow> descriptor_envelope option" where
  "store_descriptor m e =
    (case select_field descriptor_fields (fst m) of
       None \<Rightarrow> None
     | Some name \<Rightarrow>
       (if name = ''schema_version'' then
          map_option (\<lambda>i. e\<lparr>env_SchemaVersion := i\<rparr>) (decode_go_int (env_SchemaVersion e) (snd m))
        else if name = ''kind'' then map_option (\<lambda>s. e\<lparr>env_Kind := s\<rparr>) (decode_string (env_Kind e) (snd m))
        else if name = ''artifact'' then
          map_option (\<lambda>c. e\<lparr>env_Artifact := c\<rparr>) (decode_coordinates (env_Artifact e) (snd m))
        else if name = ''requirements'' then Some (e\<lparr>env_Requirements := Some (snd m)\<rparr>)
        else if name = ''dependencies'' then Some (e\<lparr>env_Dependencies := Some (snd m)\<rparr>)
        else Some (e\<lparr>env_Spec := Some (snd m)\<rparr>)))"

definition zero_descriptor :: descriptor_envelope where
  "zero_descriptor = \<lparr>env_SchemaVersion = 0, env_Kind = [],
     env_Artifact = \<lparr>coo_Namespace = [], coo_Name = [], coo_Version = []\<rparr>,
     env_Requirements = None, env_Dependencies = None, env_Spec = None\<rparr>"

definition decode_descriptor :: "string \<Rightarrow> descriptor_envelope option" where
  "decode_descriptor text =
    (case json_decode_first text of
       Some (JObject ms, _) \<Rightarrow> store_members store_descriptor ms zero_descriptor
     | Some (JNull, _) \<Rightarrow> Some zero_descriptor
     | _ \<Rightarrow> None)"

definition mediaTypeFor :: "ArtifactKind \<Rightarrow> string" where
  "mediaTypeFor kind =
    (if kind = KindSkill then ''application/vnd.thinkpixel.skill.manifest.v1+json''
     else if kind = KindAgentRuntime then ''application/vnd.thinkpixel.agent-runtime.manifest.v1+json''
     else if kind = KindMCPServer then ''application/vnd.thinkpixel.mcp-server.manifest.v1+json''
     else if kind = KindRemoteAgent then ''application/vnd.thinkpixel.remote-agent.manifest.v1+json''
     else if kind = KindBundle then ''application/vnd.thinkpixel.bundle.manifest.v1+json''
     else [])"

definition descriptor_validKind :: "ArtifactKind \<Rightarrow> bool" where
  "descriptor_validKind kind \<longleftrightarrow> mediaTypeFor kind \<noteq> []"

subsection \<open>Construction\<close>

record ArtifactDescriptor =
  desc_tenantID :: UUID
  desc_artifactVersionID :: UUID
  desc_descriptorDigest :: Digest
  desc_mediaType :: string
  desc_kind :: ArtifactKind
  desc_identity :: ArtifactReference
  desc_semanticVersion :: SemanticVersion
  desc_normalizedMetadata :: string

datatype descriptor_error =
    DescriptorIdentifier | DescriptorDigest | DescriptorBounds | DescriptorMetadata | DescriptorDigestMismatch
  | DescriptorEnvelope | DescriptorSchemaKindOrMediaType | DescriptorCoordinates | DescriptorCommonMetadata
  | DescriptorDependencies

definition descriptor_restore ::
  "UUID \<Rightarrow> UUID \<Rightarrow> Digest \<Rightarrow> string \<Rightarrow> string \<Rightarrow> (descriptor_error, ArtifactDescriptor) result" where
  "descriptor_restore tenantID versionID digest mediaType text =
    (if \<not> valid_uuid tenantID \<or> \<not> valid_uuid versionID then Inl DescriptorIdentifier
     else if \<not> is_ok (Digest_MarshalText digest) then Inl DescriptorDigest
     else if length text < 2 \<or> length text > MaxNormalizedMetadataBytes then Inl DescriptorBounds
     else if \<not> normalized_json text then Inl DescriptorMetadata
     else if SHA256Digest text \<noteq> digest then Inl DescriptorDigestMismatch
     else (case decode_descriptor text of
       None \<Rightarrow> Inl DescriptorEnvelope
     | Some value \<Rightarrow>
     (if env_SchemaVersion value \<noteq> descriptor_SchemaVersion \<or> \<not> descriptor_validKind (env_Kind value) \<or>
         mediaType \<noteq> mediaTypeFor (env_Kind value) then Inl DescriptorSchemaKindOrMediaType
      else (case ParseArtifactReference (coo_Namespace (env_Artifact value) @ ''/'' @ coo_Name (env_Artifact value)) of
        Inl _ \<Rightarrow> Inl DescriptorCoordinates
      | Inr artifact_identity \<Rightarrow>
      (if ref_namespace artifact_identity \<noteq> coo_Namespace (env_Artifact value) then Inl DescriptorCoordinates
       else (case ParseSemanticVersion (coo_Version (env_Artifact value)) of
         None \<Rightarrow> Inl DescriptorCoordinates
       | Some semanticVersion \<Rightarrow>
       (if jsonType (env_Requirements value) \<noteq> ''object'' \<or> jsonType (env_Dependencies value) \<noteq> ''array'' \<or>
           jsonType (env_Spec value) \<noteq> ''object'' then Inl DescriptorCommonMetadata
        else (case env_Dependencies value of
          Some (JArray dependencies) \<Rightarrow>
            (if length dependencies > 256 then Inl DescriptorDependencies
             else Inr \<lparr>desc_tenantID = tenantID, desc_artifactVersionID = versionID, desc_descriptorDigest = digest,
               desc_mediaType = mediaType, desc_kind = env_Kind value, desc_identity = artifact_identity,
               desc_semanticVersion = semanticVersion, desc_normalizedMetadata = text\<rparr>)
        | _ \<Rightarrow> Inl DescriptorDependencies))))))))"

definition Descriptor_New ::
  "UUID \<Rightarrow> UUID \<Rightarrow> Digest \<Rightarrow> string \<Rightarrow> string \<Rightarrow> (descriptor_error, ArtifactDescriptor) result" where
  "Descriptor_New = descriptor_restore"

definition Descriptor_Restore ::
  "UUID \<Rightarrow> UUID \<Rightarrow> Digest \<Rightarrow> string \<Rightarrow> string \<Rightarrow> (descriptor_error, ArtifactDescriptor) result" where
  "Descriptor_Restore = descriptor_restore"

subsection \<open>Facts\<close>

lemma descriptor_validKind_iff: "descriptor_validKind kind \<longleftrightarrow> validKind kind"
  by (auto simp: descriptor_validKind_def mediaTypeFor_def validKind_def)

definition wf_descriptor :: "ArtifactDescriptor \<Rightarrow> bool" where
  "wf_descriptor d \<longleftrightarrow>
    valid_uuid (desc_tenantID d) \<and> valid_uuid (desc_artifactVersionID d) \<and>
    desc_descriptorDigest d = SHA256Digest (desc_normalizedMetadata d) \<and>
    length (desc_normalizedMetadata d) \<le> MaxNormalizedMetadataBytes \<and> normalized_json (desc_normalizedMetadata d) \<and>
    validKind (desc_kind d) \<and> desc_mediaType d = mediaTypeFor (desc_kind d) \<and>
    ParseArtifactReference (ArtifactReference_String (desc_identity d)) = Inr (desc_identity d) \<and>
    ParseSemanticVersion (desc_semanticVersion d) = Some (desc_semanticVersion d)"

lemma case_array_Inr:
  "(case v of JArray vs \<Rightarrow> f vs | _ \<Rightarrow> Inl e) = Inr r \<longleftrightarrow> (\<exists>vs. v = JArray vs \<and> f vs = Inr r)"
  by (cases v) simp_all

lemma descriptor_restore_Inr:
  assumes "descriptor_restore t u d media s = Inr r"
  shows "wf_descriptor r \<and> desc_tenantID r = t \<and> desc_artifactVersionID r = u \<and> desc_descriptorDigest r = d \<and>
    desc_mediaType r = media \<and> desc_normalizedMetadata r = s"
proof -
  from assms obtain v a sv where
    bounds: "\<not> (\<not> valid_uuid t \<or> \<not> valid_uuid u)" "\<not> (length s < 2 \<or> MaxNormalizedMetadataBytes < length s)"
      "\<not> \<not> normalized_json s" "\<not> SHA256Digest s \<noteq> d"
    and v: "decode_descriptor s = Some v"
      "\<not> (env_SchemaVersion v \<noteq> descriptor_SchemaVersion \<or> \<not> descriptor_validKind (env_Kind v) \<or> media \<noteq> mediaTypeFor (env_Kind v))"
      "ParseArtifactReference (coo_Namespace (env_Artifact v) @ ''/'' @ coo_Name (env_Artifact v)) = Inr a"
      "ParseSemanticVersion (coo_Version (env_Artifact v)) = Some sv"
    and r: "\<lparr>desc_tenantID = t, desc_artifactVersionID = u, desc_descriptorDigest = d,
        desc_mediaType = media, desc_kind = env_Kind v, desc_identity = a,
        desc_semanticVersion = sv, desc_normalizedMetadata = s\<rparr> = r"
    unfolding descriptor_restore_def guard_Inr case_option_Inr case_Inl_Inr case_array_Inr sum.inject
    by (elim conjE exE) (rule that; assumption)
  from v ParseSemanticVersion_Some [OF v(4)] ParseArtifactReference_again [OF v(3)] bounds show ?thesis
    by (auto simp: wf_descriptor_def r [symmetric] descriptor_validKind_iff)
qed

lemma descriptor_restored: "descriptor_restore t u d media s = Inr r \<Longrightarrow>
    descriptor_restore (desc_tenantID r) (desc_artifactVersionID r) (desc_descriptorDigest r) (desc_mediaType r)
      (desc_normalizedMetadata r) = Inr r"
  using descriptor_restore_Inr [of t u d media s r] by simp

end
