(* ===== verification/Go_Float.thy ===== *)
theory Go_Float
  imports Complex_Main "HOL-Library.Log_Nat" Go_Json
begin

text \<open>
  IEEE 754 double precision as Go's \<open>float64\<close>: the finite numbers as rationals with their sign, rounding to
  the nearest with ties to even, the products and quotients \<open>time.ParseDuration\<close> needs, and
  \<open>strconv.ParseFloat\<close>.
\<close>

subsection \<open>Rounding\<close>

datatype float64 = NaN | Infinite bool | Finite (negative: bool) (magnitude: rat)

text \<open>The exponent of a positive rational: the greatest power of two that is not above it.\<close>

definition floor_log2 :: "rat \<Rightarrow> int" where
  "floor_log2 x =
    (let (p, q) = quotient_of x; k = int (floorlog 2 (nat p)) - int (floorlog 2 (nat q)) in
     if 2 powi k \<le> x then k else k - 1)"

definition round_half_even :: "rat \<Rightarrow> int" where
  "round_half_even x =
    (let n = \<lfloor>x\<rfloor>; r = x - of_int n in
     if r < 1 / 2 \<or> r = 1 / 2 \<and> even n then n else n + 1)"

definition max_float_bound :: rat where "max_float_bound = 2 ^ 1024"

text \<open>The double nearest to a number that is not negative: 53 bits, the exponent at least \<open>- 1022\<close>.\<close>

definition float_round :: "bool \<Rightarrow> rat \<Rightarrow> float64" where
  "float_round neg x =
    (if x = 0 then Finite neg 0
     else
       let u = 2 powi (max (floor_log2 x) (- 1022) - 52);
           y = of_int (round_half_even (x / u)) * u in
       if y \<ge> max_float_bound then Infinite neg else Finite neg y)"

definition float_mul :: "float64 \<Rightarrow> float64 \<Rightarrow> float64" where
  "float_mul a b =
    (case (a, b) of
       (Finite m x, Finite n y) \<Rightarrow> float_round (m \<noteq> n) (x * y)
     | (Infinite m, Finite n y) \<Rightarrow> if y = 0 then NaN else Infinite (m \<noteq> n)
     | (Finite m x, Infinite n) \<Rightarrow> if x = 0 then NaN else Infinite (m \<noteq> n)
     | (Infinite m, Infinite n) \<Rightarrow> Infinite (m \<noteq> n)
     | _ \<Rightarrow> NaN)"

definition float_div :: "float64 \<Rightarrow> float64 \<Rightarrow> float64" where
  "float_div a b =
    (case (a, b) of
       (Finite m x, Finite n y) \<Rightarrow>
         (if y = 0 then (if x = 0 then NaN else Infinite (m \<noteq> n)) else float_round (m \<noteq> n) (x / y))
     | (Infinite m, Finite n y) \<Rightarrow> Infinite (m \<noteq> n)
     | (Finite m x, Infinite n) \<Rightarrow> Finite (m \<noteq> n) 0
     | _ \<Rightarrow> NaN)"

definition float_of_nat :: "nat \<Rightarrow> float64" where
  "float_of_nat n = float_round False (of_nat n)"

text \<open>\<open>uint64(f)\<close> of a finite number that is in range.\<close>

definition float_trunc :: "float64 \<Rightarrow> nat" where
  "float_trunc f = (case f of Finite _ x \<Rightarrow> nat \<lfloor>x\<rfloor> | _ \<Rightarrow> 0)"

text \<open>\<open>f < i\<close> and \<open>f > i\<close> against an integer constant: never for \<open>NaN\<close>.\<close>

definition float_value :: "bool \<Rightarrow> rat \<Rightarrow> rat" where
  "float_value neg x = (if neg then - x else x)"

definition float_less :: "float64 \<Rightarrow> int \<Rightarrow> bool" where
  "float_less f i = (case f of NaN \<Rightarrow> False | Infinite neg \<Rightarrow> neg | Finite neg x \<Rightarrow> float_value neg x < of_int i)"

definition float_greater :: "float64 \<Rightarrow> int \<Rightarrow> bool" where
  "float_greater f i = (case f of NaN \<Rightarrow> False | Infinite neg \<Rightarrow> \<not> neg | Finite neg x \<Rightarrow> float_value neg x > of_int i)"

subsection \<open>strconv.ParseFloat\<close>

text \<open>\<open>special\<close>: infinities with an optional sign, and \<open>NaN\<close> without.\<close>

definition special_float :: "string \<Rightarrow> float64 option" where
  "special_float s =
    (let (neg, body, signed) =
       (if s \<noteq> [] \<and> hd s = CHR ''-'' then (True, tl s, True)
        else if s \<noteq> [] \<and> hd s = CHR ''+'' then (False, tl s, True) else (False, s, False));
       lowered = map to_lower_char body in
     if lowered = ''inf'' \<or> lowered = ''infinity'' then Some (Infinite neg)
     else if lowered = ''nan'' \<and> \<not> signed then Some NaN
     else None)"

text \<open>
  \<open>underscoreOK\<close>: underscores separate digits, counting a base prefix as a digit. The last argument is
  what was seen last: \<open>Digit\<close>, \<open>Underscore\<close> or something else.
\<close>

datatype seen = SeenDigit | SeenUnderscore | SeenOther

fun underscores_ok :: "bool \<Rightarrow> seen \<Rightarrow> string \<Rightarrow> bool" where
  "underscores_ok hex saw [] \<longleftrightarrow> saw \<noteq> SeenUnderscore"
| "underscores_ok hex saw (c # s) \<longleftrightarrow>
    (if is_digit c \<or> hex \<and> hex_value (to_lower_char c) \<noteq> None then underscores_ok hex SeenDigit s
     else if c = CHR ''_'' then saw = SeenDigit \<and> underscores_ok hex SeenUnderscore s
     else saw \<noteq> SeenUnderscore \<and> underscores_ok hex SeenOther s)"

definition strip_sign :: "string \<Rightarrow> string" where
  "strip_sign s = (if s \<noteq> [] \<and> (hd s = CHR ''-'' \<or> hd s = CHR ''+'') then tl s else s)"

definition underscoreOK :: "string \<Rightarrow> bool" where
  "underscoreOK s =
    (case strip_sign s of
       a # b # rest \<Rightarrow>
         (if a = CHR ''0'' \<and> to_lower_char b \<in> {CHR ''b'', CHR ''o'', CHR ''x''}
          then underscores_ok (to_lower_char b = CHR ''x'') SeenDigit rest
          else underscores_ok False SeenOther (a # b # rest))
     | t \<Rightarrow> underscores_ok False SeenOther t)"

text \<open>
  The digits of the mantissa in the base: the number they spell, how many follow the point, whether a
  point and a digit were seen, and the rest. Underscores are skipped.
\<close>

fun read_mantissa :: "nat \<Rightarrow> bool \<Rightarrow> nat \<Rightarrow> nat \<Rightarrow> bool \<Rightarrow> string \<Rightarrow> nat \<times> nat \<times> bool \<times> string" where
  "read_mantissa base dot n places digits [] = (n, places, digits, [])"
| "read_mantissa base dot n places digits (c # s) =
    (if c = CHR ''_'' then read_mantissa base dot n places digits s
     else if c = CHR ''.'' \<and> \<not> dot then read_mantissa base True n places digits s
     else case (if is_digit c \<or> base = 16 then hex_value (to_lower_char c) else None) of
       Some d \<Rightarrow> read_mantissa base dot (n * base + d) (if dot then places + 1 else places) True s
     | None \<Rightarrow> (n, places, digits, c # s))"

text \<open>The digits of the exponent, which stops growing at 10000, and the rest.\<close>

fun read_exponent :: "nat \<Rightarrow> string \<Rightarrow> nat \<times> string" where
  "read_exponent e [] = (e, [])"
| "read_exponent e (c # s) =
    (if c = CHR ''_'' then read_exponent e s
     else if is_digit c then read_exponent (if e < 10000 then e * 10 + (code c - 48) else e) s
     else (e, c # s))"

definition ParseFloat :: "string \<Rightarrow> float64 option" where
  "ParseFloat s =
    (case special_float s of
       Some f \<Rightarrow> Some f
     | None \<Rightarrow>
       (let neg = (s \<noteq> [] \<and> hd s = CHR ''-''); t = strip_sign s;
            hex = (length t > 2 \<and> hd t = CHR ''0'' \<and> to_lower_char (t ! 1) = CHR ''x'');
            base = (if hex then 16 else 10); mark = (if hex then CHR ''p'' else CHR ''e'');
            (n, places, digits, rest) = read_mantissa base False 0 0 False (if hex then drop 2 t else t);
            marked = (rest \<noteq> [] \<and> to_lower_char (hd rest) = mark);
            exponent = (if marked then strip_sign (tl rest) else []);
            below = (marked \<and> tl rest \<noteq> [] \<and> hd (tl rest) = CHR ''-'');
            (e, remaining) = read_exponent 0 exponent;
            scale = (if below then - int e else int e) in
        if \<not> digits then None
        else if marked \<and> (exponent = [] \<or> \<not> is_digit (hd exponent)) then None
        else if \<not> marked \<and> (hex \<or> rest \<noteq> []) then None
        else if remaining \<noteq> [] then None
        else if CHR ''_'' \<in> set s \<and> \<not> underscoreOK s then None
        else
          let x = (if hex then of_nat n * 2 powi (scale - 4 * int places)
                   else of_nat n * 10 powi (scale - int places)) in
          (case float_round neg x of Infinite _ \<Rightarrow> None | f \<Rightarrow> Some f)))"

end
