(* ===== verification/Go_Process.thy ===== *)
theory Go_Process
  imports Go_Float Shared
begin

text \<open>
  The parts of the standard library the process configuration reads text with: \<open>strconv.ParseInt\<close>,
  \<open>time.ParseDuration\<close>, \<open>net.SplitHostPort\<close>, \<open>filepath.Clean\<close> on absolute paths and \<open>flag.FlagSet.Parse\<close>.
\<close>

subsection \<open>Integers and durations\<close>

text \<open>\<open>strconv.ParseInt(s, 10, bits)\<close>: an optional sign and decimal digits, in range.\<close>

definition ParseInt :: "nat \<Rightarrow> string \<Rightarrow> int option" where
  "ParseInt bits s =
    (let digits = strip_sign s; v = int (digits_value digits); n = (if s \<noteq> [] \<and> hd s = CHR ''-'' then - v else v) in
     if digits = [] \<or> \<not> list_all is_digit digits then None
     else if n < - (2 ^ (bits - 1)) \<or> n \<ge> 2 ^ (bits - 1) then None
     else Some n)"

fun leading_int :: "nat \<Rightarrow> string \<Rightarrow> (nat \<times> string) option" where
  "leading_int x [] = Some (x, [])"
| "leading_int x (c # s) =
    (if \<not> is_digit c then Some (x, c # s)
     else if x > 2 ^ 63 div 10 then None
     else let y = x * 10 + (code c - 48) in if y > 2 ^ 63 then None else leading_int y s)"

text \<open>The digits after the point as a number and its scale; digits that no longer fit are dropped.\<close>

fun leading_fraction :: "nat \<Rightarrow> float64 \<Rightarrow> bool \<Rightarrow> string \<Rightarrow> nat \<times> float64 \<times> string" where
  "leading_fraction x scale over [] = (x, scale, [])"
| "leading_fraction x scale over (c # s) =
    (if \<not> is_digit c then (x, scale, c # s)
     else if over \<or> x > (2 ^ 63 - 1) div 10 then leading_fraction x scale True s
     else let y = x * 10 + (code c - 48) in
       if y > 2 ^ 63 then leading_fraction x scale True s
       else leading_fraction y (float_mul scale (float_of_nat 10)) False s)"

definition duration_units :: "(string \<times> nat) list" where
  "duration_units =
    [(''ns'', 1), (''us'', 1000), ([CHR 0xC2, CHR 0xB5, CHR ''s''], 1000), ([CHR 0xCE, CHR 0xBC, CHR ''s''], 1000),
     (''ms'', 1000000), (''s'', 1000000000), (''m'', 60000000000), (''h'', 3600000000000)]"

definition number_start :: "char \<Rightarrow> bool" where
  "number_start c \<longleftrightarrow> c = CHR ''.'' \<or> is_digit c"

text \<open>The number at the start: the digits before the point, those after it with their scale, and the rest.\<close>

definition duration_number :: "string \<Rightarrow> (nat \<times> nat \<times> float64 \<times> string) option" where
  "duration_number s =
    (case leading_int 0 s of
       None \<Rightarrow> None
     | Some (v, s1) \<Rightarrow>
       (let pre = (length s1 \<noteq> length s);
            (f, scale, s2) = (if s1 \<noteq> [] \<and> hd s1 = CHR ''.''
              then leading_fraction 0 (float_of_nat 1) False (tl s1) else (0, float_of_nat 1, s1));
            post = (s1 \<noteq> [] \<and> hd s1 = CHR ''.'' \<and> length s2 \<noteq> length (tl s1)) in
        if \<not> pre \<and> \<not> post then None else Some (v, f, scale, s2)))"

text \<open>One number in its unit, in nanoseconds.\<close>

definition duration_part :: "nat \<Rightarrow> nat \<Rightarrow> float64 \<Rightarrow> nat \<Rightarrow> nat option" where
  "duration_part v f scale unit =
    (if v > 2 ^ 63 div unit then None
     else
       let w = v * unit + (if f > 0 then float_trunc (float_mul (float_of_nat f) (float_div (float_of_nat unit) scale)) else 0) in
       if w > 2 ^ 63 then None else Some w)"

lemma leading_int_length: "leading_int x s = Some (v, s') \<Longrightarrow> length s' \<le> length s"
  by (induction x s rule: leading_int.induct) (auto simp: Let_def split: if_splits)

lemma leading_fraction_length: "leading_fraction x sc b s = (f, sc', s') \<Longrightarrow> length s' \<le> length s"
proof (induction x sc b s rule: leading_fraction.induct)
  case (2 x scale over c s)
  then show ?case by (fastforce simp: Let_def split: if_splits)
qed simp

lemma duration_number_length: "duration_number s = Some (v, f, sc, s') \<Longrightarrow> length s' \<le> length s"
proof -
  assume "duration_number s = Some (v, f, sc, s')"
  then obtain s1 where a: "leading_int 0 s = Some (v, s1)"
    and b: "s' = s1 \<or> s1 \<noteq> [] \<and> leading_fraction 0 (float_of_nat 1) False (tl s1) = (f, sc, s')"
    by (auto simp: duration_number_def Let_def split: option.splits if_splits prod.splits)
  from leading_int_length [OF a] b leading_fraction_length [of 0 "float_of_nat 1" False "tl s1" f sc s']
  show ?thesis by auto
qed

function duration_loop :: "nat \<Rightarrow> string \<Rightarrow> nat option" where
  "duration_loop d s =
    (if s = [] then Some d
     else if \<not> number_start (hd s) then None
     else case duration_number s of
       None \<Rightarrow> None
     | Some (v, f, scale, s2) \<Rightarrow>
       (if takeWhile (\<lambda>c. \<not> number_start c) s2 = [] then None
        else case map_of duration_units (takeWhile (\<lambda>c. \<not> number_start c) s2) of
          None \<Rightarrow> None
        | Some unit \<Rightarrow>
          (case duration_part v f scale unit of
             None \<Rightarrow> None
           | Some w \<Rightarrow>
             (if (d + w) mod 2 ^ 64 > 2 ^ 63 then None
              else duration_loop ((d + w) mod 2 ^ 64) (dropWhile (\<lambda>c. \<not> number_start c) s2)))))"
  by pat_completeness auto
termination
proof (relation "measure (length \<circ> snd)")
  fix d s x v y f z scale s2 u w
  assume n: "duration_number s = Some x" "(v, y) = x" "(f, z) = y" "(scale, s2) = z"
    and u: "takeWhile (\<lambda>c. \<not> number_start c) s2 \<noteq> []"
  have "length s2 = length (takeWhile (\<lambda>c. \<not> number_start c) s2) + length (dropWhile (\<lambda>c. \<not> number_start c) s2)"
    by (metis length_append takeWhile_dropWhile_id)
  with u duration_number_length [of s v f scale s2] n
  show "((d', dropWhile (\<lambda>c. \<not> number_start c) s2), d, s) \<in> measure (length \<circ> snd)" for d'
    by (cases "takeWhile (\<lambda>c. \<not> number_start c) s2") auto
qed simp

declare duration_loop.simps [simp del]

definition ParseDuration :: "string \<Rightarrow> Duration option" where
  "ParseDuration text =
    (let neg = (text \<noteq> [] \<and> hd text = CHR ''-''); s = strip_sign text in
     if s = ''0'' then Some 0
     else if s = [] then None
     else case duration_loop 0 s of
       None \<Rightarrow> None
     | Some d \<Rightarrow> if neg then Some (- int d) else if d > 2 ^ 63 - 1 then None else Some (int d))"

subsection \<open>Addresses and paths\<close>

definition last_colon :: "string \<Rightarrow> (string \<times> string) option" where
  "last_colon s =
    (if CHR '':'' \<in> set s then
       Some (rev (tl (dropWhile (\<lambda>c. c \<noteq> CHR '':'') (rev s))), rev (takeWhile (\<lambda>c. c \<noteq> CHR '':'') (rev s)))
     else None)"

definition SplitHostPort :: "string \<Rightarrow> (string \<times> string) option" where
  "SplitHostPort s =
    (case last_colon s of
       None \<Rightarrow> None
     | Some (before, port) \<Rightarrow>
       (if hd s = CHR ''['' then
          (if CHR '']'' \<notin> set s then None
           else
             let host = takeWhile (\<lambda>c. c \<noteq> CHR '']'') s; after = tl (dropWhile (\<lambda>c. c \<noteq> CHR '']'') s) in
             if length before \<noteq> length host + 1 then None
             else if CHR ''['' \<in> set (tl s) \<or> CHR '']'' \<in> set after then None
             else Some (tl host, port))
        else if CHR '':'' \<in> set before then None
        else if CHR ''['' \<in> set s \<or> CHR '']'' \<in> set s then None
        else Some (before, port)))"

text \<open>
  \<open>filepath.Clean(p) = p\<close> for a path that starts with a slash: no empty, \<open>.\<close> or \<open>..\<close> element and no
  slash at the end of anything but the root.
\<close>

definition clean_absolute :: "string \<Rightarrow> bool" where
  "clean_absolute p \<longleftrightarrow>
    p = ''/'' \<or> p \<noteq> [] \<and> hd p = CHR ''/'' \<and>
      list_all (\<lambda>e. e \<noteq> [] \<and> e \<noteq> ''.'' \<and> e \<noteq> ''..'') (split_on (CHR ''/'') (tl p))"

subsection \<open>Command-line flags\<close>

text \<open>
  \<open>parseOne\<close> until it stops: every flag takes a value, after \<open>=\<close> or as the next argument; what is
  left are the positional arguments. The first argument gives the flags and what setting them does.
\<close>

definition flag_name :: "string \<Rightarrow> string" where
  "flag_name s = (if length s \<ge> 2 \<and> s ! 1 = CHR ''-'' then drop 2 s else drop 1 s)"

definition flag_syntax :: "string \<Rightarrow> bool" where
  "flag_syntax name \<longleftrightarrow> name \<noteq> [] \<and> hd name \<noteq> CHR ''-'' \<and> hd name \<noteq> CHR ''=''"

fun flag_parse ::
  "(string \<Rightarrow> (string \<Rightarrow> 's \<Rightarrow> 's option) option) \<Rightarrow> string list \<Rightarrow> 's \<Rightarrow> ('s \<times> string list) option" where
  "flag_parse formal [] st = Some (st, [])"
| "flag_parse formal (s # args) st =
    (if length s < 2 \<or> hd s \<noteq> CHR ''-'' then Some (st, s # args)
     else if s = ''--'' then Some (st, args)
     else if \<not> flag_syntax (flag_name s) then None
     else case cut_on (CHR ''='') (flag_name s) of
       (name, given, True) \<Rightarrow>
         (case formal name of
            None \<Rightarrow> None
          | Some set_flag \<Rightarrow>
            (case set_flag given st of None \<Rightarrow> None | Some st' \<Rightarrow> flag_parse formal args st'))
     | (name, _, False) \<Rightarrow>
         (case formal name of
            None \<Rightarrow> None
          | Some set_flag \<Rightarrow>
            (case args of
               [] \<Rightarrow> None
             | given # rest \<Rightarrow>
               (case set_flag given st of None \<Rightarrow> None | Some st' \<Rightarrow> flag_parse formal rest st'))))"

subsection \<open>Bounds\<close>

lemma duration_loop_bound: "duration_loop d s = Some r \<Longrightarrow> d \<le> 2 ^ 63 \<Longrightarrow> r \<le> 2 ^ 63"
proof (induction d s rule: duration_loop.induct)
  case (1 d s)
  show ?case
  proof (cases "s = []")
    case False
    with 1(2) obtain v f scale s2 unit w where step: "number_start (hd s)" "duration_number s = Some (v, f, scale, s2)"
        "takeWhile (\<lambda>c. \<not> number_start c) s2 \<noteq> []" "map_of duration_units (takeWhile (\<lambda>c. \<not> number_start c) s2) = Some unit"
        "duration_part v f scale unit = Some w" "\<not> (d + w) mod 2 ^ 64 > 2 ^ 63"
      and rest: "duration_loop ((d + w) mod 2 ^ 64) (dropWhile (\<lambda>c. \<not> number_start c) s2) = Some r"
      by (subst (asm) duration_loop.simps) (auto split: if_splits option.splits simp del: power_numeral)
    show ?thesis
      by (rule 1(1) [OF False _ step(2) refl refl refl step(3-6) rest]) (use step in \<open>simp_all add: not_less\<close>)
  qed (use 1(2,3) in \<open>simp add: duration_loop.simps\<close>)
qed

text \<open>Every duration that is read fits an \<open>int64\<close>.\<close>

lemma ParseDuration_bound: "ParseDuration s = Some d \<Longrightarrow> - (2 ^ 63) \<le> d \<and> d < 2 ^ 63"
  using duration_loop_bound [of 0 "strip_sign s"] by (auto simp: ParseDuration_def Let_def split: if_splits option.splits)

lemma ParseInt_bound: "ParseInt bits s = Some n \<Longrightarrow> - (2 ^ (bits - 1)) \<le> n \<and> n < 2 ^ (bits - 1)"
  by (auto simp: ParseInt_def Let_def split: if_splits)

end
