(* ===== verification/Configuration.thy ===== *)
theory Configuration
  imports Go_Process Go_URL Go_Regexp
begin

text \<open>
  \<open>internal/config/config.go\<close> and \<open>secret.go\<close>: the configuration of the process, its defaults, its
  validation, what of it may be printed, and references to secrets.
\<close>

subsection \<open>Secrets\<close>

datatype SecretSource = SecretSourceNone | SecretSourceEnvironment | SecretSourceFile

record SecretRef =
  ref_source :: SecretSource
  ref_target :: string

definition zero_SecretRef :: SecretRef where
  "zero_SecretRef = \<lparr>ref_source = SecretSourceNone, ref_target = []\<rparr>"

definition environmentName :: rx where
  "environmentName = rx_token (\<lambda>c. is_upper c \<or> is_lower c \<or> c = CHR ''_'')
     (\<lambda>c. is_upper c \<or> is_lower c \<or> is_digit c \<or> c = CHR ''_'')"

datatype secret_error =
    SecretSchemeRequired | SecretEnvironmentName | SecretFilePath | SecretUnsupportedScheme
  | SecretNotConfigured | SecretUnavailable | SecretNotRegular | SecretTooLarge | SecretUnreadable | SecretEmpty

definition ParseSecretRef :: "string \<Rightarrow> (secret_error, SecretRef) result" where
  "ParseSecretRef text =
    (case cut_on (CHR '':'') text of
       (scheme, target, found) \<Rightarrow>
         (if \<not> found \<or> target = [] then Inl SecretSchemeRequired
          else if scheme = ''env'' then
            (if \<not> matches environmentName target then Inl SecretEnvironmentName
             else Inr \<lparr>ref_source = SecretSourceEnvironment, ref_target = target\<rparr>)
          else if scheme = ''file'' then
            (if \<not> clean_absolute target then Inl SecretFilePath
             else Inr \<lparr>ref_source = SecretSourceFile, ref_target = target\<rparr>)
          else Inl SecretUnsupportedScheme))"

definition SecretRef_IsSet :: "SecretRef \<Rightarrow> bool" where
  "SecretRef_IsSet r \<longleftrightarrow> ref_source r \<noteq> SecretSourceNone"

definition maximumSecretSize :: int where "maximumSecretSize = 2 ^ 20"

text \<open>
  The operating system's answer when a path is opened: whether the file is regular, its size, and its
  content if it can be read to the end.
\<close>

record OSFile =
  file_regular :: bool
  file_size :: int
  file_content :: "string option"

definition read_limited :: "int \<Rightarrow> OSFile \<Rightarrow> string option" where
  "read_limited maximum f =
    (case file_content f of
       None \<Rightarrow> None
     | Some content \<Rightarrow> if int (length (take (nat (maximum + 1)) content)) > maximum then None else Some (take (nat (maximum + 1)) content))"

definition SecretRef_Resolve ::
  "(string \<Rightarrow> string option) \<Rightarrow> (string \<Rightarrow> OSFile option) \<Rightarrow> SecretRef \<Rightarrow> (secret_error, string) result" where
  "SecretRef_Resolve lookup files r =
    (case ref_source r of
       SecretSourceNone \<Rightarrow> Inl SecretNotConfigured
     | SecretSourceEnvironment \<Rightarrow>
         (case lookup (ref_target r) of
            None \<Rightarrow> Inl SecretUnavailable
          | Some v \<Rightarrow> if v = [] then Inl SecretUnavailable else Inr v)
     | SecretSourceFile \<Rightarrow>
         (case files (ref_target r) of
            None \<Rightarrow> Inl SecretUnavailable
          | Some f \<Rightarrow>
            (if \<not> file_regular f then Inl SecretNotRegular
             else if file_size f > maximumSecretSize then Inl SecretTooLarge
             else case read_limited maximumSecretSize f of
               None \<Rightarrow> Inl SecretUnreadable
             | Some v \<Rightarrow> if v = [] then Inl SecretEmpty else Inr v)))"

subsection \<open>The configuration\<close>

type_synonym Mode = string

abbreviation ModeDevelopment :: Mode where "ModeDevelopment \<equiv> ''development''"
abbreviation ModeTest :: Mode where "ModeTest \<equiv> ''test''"
abbreviation ModeProduction :: Mode where "ModeProduction \<equiv> ''production''"

type_synonym AuthenticationMode = string

abbreviation AuthenticationModeOIDC :: AuthenticationMode where "AuthenticationModeOIDC \<equiv> ''oidc''"
abbreviation AuthenticationModeLocalDevelopment :: AuthenticationMode where
  "AuthenticationModeLocalDevelopment \<equiv> ''local-development''"

record LocalDevelopmentAuthConfig =
  local_TenantID :: string
  local_Principal :: string

record AuthenticationConfig =
  auth_Mode :: AuthenticationMode
  auth_LocalDevelopment :: LocalDevelopmentAuthConfig

record OIDCTenantMappingConfig =
  mapping_ClaimValue :: string
  mapping_TenantID :: string

record OIDCConfig =
  oidc_Issuer :: string
  oidc_Audience :: string
  oidc_AllowedAlgorithms :: "string list"
  oidc_ClockSkew :: Duration
  oidc_DiscoveryTimeout :: Duration
  oidc_TenantClaim :: string
  oidc_PrincipalClaim :: string
  oidc_TenantMappings :: "OIDCTenantMappingConfig list"

record HTTPConfig =
  http_Address :: string
  http_ReadHeaderTimeout :: Duration
  http_ReadTimeout :: Duration
  http_WriteTimeout :: Duration
  http_IdleTimeout :: Duration
  http_ShutdownTimeout :: Duration
  http_MaxHeaderBytes :: int
  http_MaxBodyBytes :: int

record DatabaseConfig =
  database_URL :: SecretRef
  database_ConnectTimeout :: Duration
  database_HealthTimeout :: Duration
  database_StatementTimeout :: Duration
  database_LockTimeout :: Duration
  database_MaxConnectionLifetime :: Duration
  database_MaxConnectionIdleTime :: Duration
  database_MinConnections :: int
  database_MaxConnections :: int

record TelemetryConfig =
  telemetry_Mode :: string
  telemetry_Endpoint :: string
  telemetry_ServiceName :: string
  telemetry_SampleRatio :: float64

record Config =
  config_Mode :: Mode
  config_HTTP :: HTTPConfig
  config_Database :: DatabaseConfig
  config_Authentication :: AuthenticationConfig
  config_OIDC :: OIDCConfig
  config_LogLevel :: string
  config_Telemetry :: TelemetryConfig
  config_ConfigFile :: string

definition duration_second :: Duration where "duration_second = 1000000000"

definition Defaults :: Config where
  "Defaults = \<lparr>config_Mode = ModeDevelopment,
     config_HTTP = \<lparr>http_Address = ''127.0.0.1:8080'', http_ReadHeaderTimeout = 5 * duration_second,
       http_ReadTimeout = 15 * duration_second, http_WriteTimeout = 30 * duration_second,
       http_IdleTimeout = 60 * duration_second, http_ShutdownTimeout = 20 * duration_second,
       http_MaxHeaderBytes = 2 ^ 20, http_MaxBodyBytes = 2 ^ 20\<rparr>,
     config_Database = \<lparr>database_URL = zero_SecretRef, database_ConnectTimeout = 5 * duration_second,
       database_HealthTimeout = 2 * duration_second, database_StatementTimeout = 10 * duration_second,
       database_LockTimeout = 2 * duration_second, database_MaxConnectionLifetime = 30 * duration_minute,
       database_MaxConnectionIdleTime = 5 * duration_minute, database_MinConnections = 0, database_MaxConnections = 20\<rparr>,
     config_Authentication = \<lparr>auth_Mode = AuthenticationModeOIDC,
       auth_LocalDevelopment = \<lparr>local_TenantID = [], local_Principal = []\<rparr>\<rparr>,
     config_OIDC = \<lparr>oidc_Issuer = [], oidc_Audience = [], oidc_AllowedAlgorithms = [],
       oidc_ClockSkew = 30 * duration_second, oidc_DiscoveryTimeout = 5 * duration_second, oidc_TenantClaim = [],
       oidc_PrincipalClaim = [], oidc_TenantMappings = []\<rparr>,
     config_LogLevel = ''info'',
     config_Telemetry = \<lparr>telemetry_Mode = ''noop'', telemetry_Endpoint = [], telemetry_ServiceName = ''thinkpixelmp'',
       telemetry_SampleRatio = Finite False 0\<rparr>,
     config_ConfigFile = []\<rparr>"

subsection \<open>Validation\<close>

text \<open>
  The timeouts are checked in the order of a Go map, so which of several bad ones is reported is not
  determined: \<open>ConfigDuration\<close> does not say.
\<close>

datatype config_error =
    ConfigMode | ConfigAddress | ConfigDuration | ConfigHeaderBytes | ConfigBodyBytes | ConfigConnections
  | ConfigDatabaseURL | ConfigLocalDevelopmentSet | ConfigLocalDevelopmentMode | ConfigLocalDevelopmentOIDC
  | ConfigLocalTenant shared_error | ConfigLocalPrincipal | ConfigAuthenticationMode
  | ConfigClockSkew | ConfigDiscoveryTimeout | ConfigIssuer | ConfigAudience | ConfigAlgorithmsRequired
  | ConfigUnsupportedAlgorithm string | ConfigDuplicateAlgorithm string | ConfigTenantClaim | ConfigPrincipalClaim
  | ConfigMappingCount | ConfigMappingClaim nat | ConfigMappingDuplicate nat | ConfigMappingTenant nat shared_error
  | ConfigLogLevel | ConfigTelemetryMode | ConfigServiceName | ConfigSampleRatio | ConfigTelemetryEndpoint
  | ConfigTelemetryEndpointSet

text \<open>A text of at most so many bytes of valid UTF-8 without ASCII control characters.\<close>

definition validateOIDCClaimText :: "string \<Rightarrow> nat \<Rightarrow> bool" where
  "validateOIDCClaimText text maximum \<longleftrightarrow>
    \<not> (length text = 0 \<or> length text > maximum \<or> \<not> utf8_valid text \<or> list_ex (\<lambda>r. r < 0x20 \<or> r = 0x7F) (runes text))"

definition OIDC_configured :: "OIDCConfig \<Rightarrow> bool" where
  "OIDC_configured c \<longleftrightarrow>
    oidc_Issuer c \<noteq> [] \<or> oidc_Audience c \<noteq> [] \<or> length (oidc_AllowedAlgorithms c) \<noteq> 0 \<or>
    oidc_TenantClaim c \<noteq> [] \<or> oidc_PrincipalClaim c \<noteq> [] \<or> length (oidc_TenantMappings c) \<noteq> 0"

definition https_origin :: "string \<Rightarrow> bool" where
  "https_origin text \<longleftrightarrow>
    (case Parse text of
       None \<Rightarrow> False
     | Some u \<Rightarrow> \<not> (url_Scheme u \<noteq> ''https'' \<or> url_Host u = [] \<or> url_User u \<noteq> None \<or> url_RawQuery u \<noteq> [] \<or>
         url_Fragment u \<noteq> []))"

definition supported_algorithms :: "string list" where
  "supported_algorithms = [''RS256'', ''RS384'', ''RS512'', ''PS256'', ''PS384'', ''PS512'', ''ES256'', ''ES384'', ''ES512'', ''EdDSA'']"

text \<open>The loop over the algorithms with the set of those seen.\<close>

fun check_algorithms :: "string set \<Rightarrow> string list \<Rightarrow> config_error option" where
  "check_algorithms seen [] = None"
| "check_algorithms seen (a # rest) =
    (if a \<notin> set supported_algorithms then Some (ConfigUnsupportedAlgorithm a)
     else if a \<in> seen then Some (ConfigDuplicateAlgorithm a)
     else check_algorithms (insert a seen) rest)"

fun check_mappings :: "nat \<Rightarrow> string set \<Rightarrow> OIDCTenantMappingConfig list \<Rightarrow> config_error option" where
  "check_mappings index seen [] = None"
| "check_mappings index seen (m # rest) =
    (if \<not> validateOIDCClaimText (mapping_ClaimValue m) 1024 then Some (ConfigMappingClaim index)
     else if mapping_ClaimValue m \<in> seen then Some (ConfigMappingDuplicate index)
     else case ParseUUID (mapping_TenantID m) of
       Inl e \<Rightarrow> Some (ConfigMappingTenant index e)
     | Inr _ \<Rightarrow> check_mappings (index + 1) (insert (mapping_ClaimValue m) seen) rest)"

definition OIDC_validate :: "OIDCConfig \<Rightarrow> config_error option" where
  "OIDC_validate c =
    (if oidc_ClockSkew c < 0 \<or> oidc_ClockSkew c > 5 * duration_minute then Some ConfigClockSkew
     else if oidc_DiscoveryTimeout c \<le> 0 \<or> oidc_DiscoveryTimeout c > duration_minute then Some ConfigDiscoveryTimeout
     else if \<not> OIDC_configured c then None
     else if \<not> https_origin (oidc_Issuer c) then Some ConfigIssuer
     else if oidc_Audience c = [] \<or> length (oidc_Audience c) > 512 then Some ConfigAudience
     else if length (oidc_AllowedAlgorithms c) = 0 then Some ConfigAlgorithmsRequired
     else case check_algorithms {} (oidc_AllowedAlgorithms c) of
       Some e \<Rightarrow> Some e
     | None \<Rightarrow>
       (if \<not> validateOIDCClaimText (oidc_TenantClaim c) 128 then Some ConfigTenantClaim
        else if \<not> validateOIDCClaimText (oidc_PrincipalClaim c) 128 then Some ConfigPrincipalClaim
        else if length (oidc_TenantMappings c) = 0 \<or> length (oidc_TenantMappings c) > 10000 then Some ConfigMappingCount
        else check_mappings 0 {} (oidc_TenantMappings c)))"

definition Authentication_validate :: "AuthenticationConfig \<Rightarrow> Mode \<Rightarrow> OIDCConfig \<Rightarrow> config_error option" where
  "Authentication_validate c mode oidc =
    (let local = auth_LocalDevelopment c in
     if auth_Mode c = AuthenticationModeOIDC then
       (if local_TenantID local \<noteq> [] \<or> local_Principal local \<noteq> [] then Some ConfigLocalDevelopmentSet else None)
     else if auth_Mode c = AuthenticationModeLocalDevelopment then
       (if mode \<noteq> ModeDevelopment then Some ConfigLocalDevelopmentMode
        else if OIDC_configured oidc then Some ConfigLocalDevelopmentOIDC
        else case ParseUUID (local_TenantID local) of
          Inl e \<Rightarrow> Some (ConfigLocalTenant e)
        | Inr _ \<Rightarrow>
          (if \<not> validateOIDCClaimText (local_Principal local) 237 then Some ConfigLocalPrincipal else None))
     else Some ConfigAuthenticationMode)"

definition config_timeouts :: "Config \<Rightarrow> Duration list" where
  "config_timeouts c =
    (let h = config_HTTP c; d = config_Database c in
     [http_ReadHeaderTimeout h, http_ReadTimeout h, http_WriteTimeout h, http_IdleTimeout h, http_ShutdownTimeout h,
      database_ConnectTimeout d, database_HealthTimeout d, database_StatementTimeout d, database_LockTimeout d,
      database_MaxConnectionLifetime d, database_MaxConnectionIdleTime d])"

definition Telemetry_validate :: "TelemetryConfig \<Rightarrow> config_error option" where
  "Telemetry_validate t =
    (if telemetry_Mode t \<noteq> ''noop'' \<and> telemetry_Mode t \<noteq> ''otlp'' then Some ConfigTelemetryMode
     else if telemetry_ServiceName t = [] \<or> length (telemetry_ServiceName t) > 128 then Some ConfigServiceName
     else if float_less (telemetry_SampleRatio t) 0 \<or> float_greater (telemetry_SampleRatio t) 1 then Some ConfigSampleRatio
     else if telemetry_Mode t = ''otlp'' then
       (case Parse (telemetry_Endpoint t) of
          None \<Rightarrow> Some ConfigTelemetryEndpoint
        | Some u \<Rightarrow>
          (if url_Scheme u \<noteq> ''http'' \<and> url_Scheme u \<noteq> ''https'' \<or> url_Host u = [] \<or> url_User u \<noteq> None \<or>
              url_RawQuery u \<noteq> [] \<or> url_Fragment u \<noteq> [] then Some ConfigTelemetryEndpoint else None))
     else if telemetry_Endpoint t \<noteq> [] then Some ConfigTelemetryEndpointSet
     else None)"

definition Config_Validate :: "Config \<Rightarrow> config_error option" where
  "Config_Validate c =
    (let h = config_HTTP c; d = config_Database c in
     if config_Mode c \<noteq> ModeDevelopment \<and> config_Mode c \<noteq> ModeTest \<and> config_Mode c \<noteq> ModeProduction then Some ConfigMode
     else if SplitHostPort (http_Address h) = None then Some ConfigAddress
     else if list_ex (\<lambda>t. t \<le> 0 \<or> t > 24 * duration_hour) (config_timeouts c) then Some ConfigDuration
     else if http_MaxHeaderBytes h < 1024 \<or> http_MaxHeaderBytes h > 16 * 2 ^ 20 then Some ConfigHeaderBytes
     else if http_MaxBodyBytes h < 1024 \<or> http_MaxBodyBytes h > 16 * 2 ^ 20 then Some ConfigBodyBytes
     else if database_MinConnections d < 0 \<or> database_MaxConnections d < 1 \<or>
         database_MinConnections d > database_MaxConnections d \<or> database_MaxConnections d > 1000 then Some ConfigConnections
     else if config_Mode c = ModeProduction \<and> \<not> SecretRef_IsSet (database_URL d) then Some ConfigDatabaseURL
     else case Authentication_validate (config_Authentication c) (config_Mode c) (config_OIDC c) of
       Some e \<Rightarrow> Some e
     | None \<Rightarrow>
       (case OIDC_validate (config_OIDC c) of
          Some e \<Rightarrow> Some e
        | None \<Rightarrow>
          (if config_LogLevel c \<noteq> ''debug'' \<and> config_LogLevel c \<noteq> ''info'' \<and> config_LogLevel c \<noteq> ''warn'' \<and>
              config_LogLevel c \<noteq> ''error'' then Some ConfigLogLevel
           else Telemetry_validate (config_Telemetry c))))"

subsection \<open>What may be printed\<close>

record safeSecretReference =
  safe_Configured :: bool
  safe_Source :: SecretSource

record safeOIDCConfig =
  safe_Issuer :: string
  safe_Audience :: string
  safe_AllowedAlgorithms :: "string list"
  safe_ClockSkew :: Duration
  safe_DiscoveryTimeout :: Duration
  safe_TenantClaim :: string
  safe_PrincipalClaim :: string
  safe_TenantMappingCount :: nat

record safeDatabase =
  safe_URL :: safeSecretReference
  safe_Timeouts :: "Duration list"
  safe_MinConnections :: int
  safe_MaxConnections :: int

record safeConfig =
  safe_Mode :: Mode
  safe_Authentication :: AuthenticationConfig
  safe_HTTP :: HTTPConfig
  safe_Database :: safeDatabase
  safe_LogLevel :: string
  safe_OIDC :: safeOIDCConfig
  safe_Telemetry :: TelemetryConfig
  safe_ConfigFileConfigured :: bool

definition Config_safe :: "Config \<Rightarrow> safeConfig" where
  "Config_safe c =
    (let d = config_Database c; o' = config_OIDC c in
     \<lparr>safe_Mode = config_Mode c, safe_Authentication = config_Authentication c, safe_HTTP = config_HTTP c,
      safe_Database = \<lparr>safe_URL = \<lparr>safe_Configured = SecretRef_IsSet (database_URL d), safe_Source = ref_source (database_URL d)\<rparr>,
        safe_Timeouts = [database_ConnectTimeout d, database_HealthTimeout d, database_StatementTimeout d,
          database_LockTimeout d, database_MaxConnectionLifetime d, database_MaxConnectionIdleTime d],
        safe_MinConnections = database_MinConnections d, safe_MaxConnections = database_MaxConnections d\<rparr>,
      safe_LogLevel = config_LogLevel c,
      safe_OIDC = \<lparr>safe_Issuer = oidc_Issuer o', safe_Audience = oidc_Audience o',
        safe_AllowedAlgorithms = oidc_AllowedAlgorithms o', safe_ClockSkew = oidc_ClockSkew o',
        safe_DiscoveryTimeout = oidc_DiscoveryTimeout o', safe_TenantClaim = oidc_TenantClaim o',
        safe_PrincipalClaim = oidc_PrincipalClaim o', safe_TenantMappingCount = length (oidc_TenantMappings o')\<rparr>,
      safe_Telemetry = config_Telemetry c, safe_ConfigFileConfigured = (config_ConfigFile c \<noteq> [])\<rparr>)"

text \<open>
  \<open>MarshalJSON\<close>, \<open>String\<close> and \<open>GoString\<close> print the safe form and nothing else; the encoder is
  a parameter, and fails on numbers JSON has no text for.
\<close>

definition Config_String :: "(safeConfig \<Rightarrow> string option) \<Rightarrow> Config \<Rightarrow> string" where
  "Config_String marshal c =
    (case marshal (Config_safe c) of
       None \<Rightarrow> [CHR 0x7B, CHR 0x22] @ ''configuration'' @ [CHR 0x22, CHR '':'', CHR 0x22] @ ''unavailable'' @ [CHR 0x22, CHR 0x7D]
     | Some text \<Rightarrow> text)"

end
