(* ===== verification/Identity_Providers.thy ===== *)
theory Identity_Providers
  imports Configuration Publication Cursors
begin

text \<open>
  \<open>internal/adapters/oidc\<close>, \<open>internal/adapters/localauth\<close> and \<open>internal/ports/identity\<close>: from a bearer
  credential to the tenant and principal that act. The verification of signatures by \<open>go-oidc\<close> is a
  parameter. The locale states what the services rely on in an authenticator; it is interpreted for both.
\<close>

subsection \<open>Verified tokens\<close>

record VerifiedToken =
  token_Issuer :: string
  token_Subject :: string
  token_Audiences :: "string list"
  token_ExpiresAt :: Time
  token_NotBefore :: "Time option"
  token_Claims :: string

text \<open>
  What \<open>go-oidc\<close> returns for a raw token: its issuer, its audiences, and the raw message \<open>Claims\<close> decodes to,
  if it does.
\<close>

record upstreamToken =
  upstream_Issuer :: string
  upstream_Audience :: "string list"
  upstream_Claims :: "string option"

record upstreamConfig =
  upstream_ClientID :: string
  upstream_SupportedSigningAlgs :: "string list"
  upstream_SkipExpiryCheck :: bool

record VerifierConfig =
  verifier_Issuer :: string
  verifier_Audience :: string
  verifier_AllowedAlgorithms :: "string list"
  verifier_ClockSkew :: Duration
  verifier_DiscoveryTimeout :: Duration

record Verifier =
  v_upstream :: "string \<Rightarrow> upstreamToken option"
  v_skew :: Duration
  v_audience :: string
  v_issuer :: string

definition maximumTokenBytes :: nat where "maximumTokenBytes = 64 * 2 ^ 10"

definition mustTypedError :: "ErrorClass \<Rightarrow> string \<Rightarrow> go_error" where
  "mustTypedError cls text = typed_service cls text"

definition errInvalidToken :: go_error where
  "errInvalidToken = mustTypedError ErrorUnauthorized ''identity.invalid_token''"

datatype verifier_error =
    VerifierIssuer | VerifierAudience | VerifierAlgorithmsRequired | VerifierUnsupportedAlgorithm string
  | VerifierDuplicateAlgorithm string | VerifierClockSkew | VerifierDiscoveryTimeout | VerifierDiscovery

fun validate_algorithms :: "string set \<Rightarrow> string list \<Rightarrow> verifier_error option" where
  "validate_algorithms seen [] = None"
| "validate_algorithms seen (a # rest) =
    (if a \<notin> set supported_algorithms then Some (VerifierUnsupportedAlgorithm a)
     else if a \<in> seen then Some (VerifierDuplicateAlgorithm a)
     else validate_algorithms (insert a seen) rest)"

definition validateConfig :: "VerifierConfig \<Rightarrow> verifier_error option" where
  "validateConfig configured =
    (if \<not> https_origin (verifier_Issuer configured) then Some VerifierIssuer
     else if verifier_Audience configured = [] then Some VerifierAudience
     else if length (verifier_AllowedAlgorithms configured) = 0 then Some VerifierAlgorithmsRequired
     else case validate_algorithms {} (verifier_AllowedAlgorithms configured) of
       Some e \<Rightarrow> Some e
     | None \<Rightarrow>
       (if verifier_ClockSkew configured < 0 \<or> verifier_ClockSkew configured > 5 * duration_minute then Some VerifierClockSkew
        else if verifier_DiscoveryTimeout configured \<le> 0 \<or> verifier_DiscoveryTimeout configured > duration_minute
          then Some VerifierDiscoveryTimeout
        else None))"

definition verifierConfig :: "VerifierConfig \<Rightarrow> upstreamConfig" where
  "verifierConfig configured =
    \<lparr>upstream_ClientID = verifier_Audience configured,
     upstream_SupportedSigningAlgs = verifier_AllowedAlgorithms configured, upstream_SkipExpiryCheck = True\<rparr>"

definition newVerifier :: "VerifierConfig \<Rightarrow> (string \<Rightarrow> upstreamToken option) \<Rightarrow> Verifier" where
  "newVerifier configured up =
    \<lparr>v_upstream = up, v_skew = verifier_ClockSkew configured, v_audience = verifier_Audience configured,
     v_issuer = verifier_Issuer configured\<rparr>"

text \<open>\<open>build\<close> is \<open>NewVerifier\<close> of the library with the key set; \<open>provide\<close> is the discovery of a provider.\<close>

definition Verifier_New ::
  "(string \<Rightarrow> upstreamConfig \<Rightarrow> string \<Rightarrow> upstreamToken option) \<Rightarrow> VerifierConfig \<Rightarrow> (verifier_error, Verifier) result" where
  "Verifier_New build configured =
    (case validateConfig configured of
       Some e \<Rightarrow> Inl e
     | None \<Rightarrow> Inr (newVerifier configured (build (verifier_Issuer configured) (verifierConfig configured))))"

definition Discover ::
  "(Duration \<Rightarrow> string \<Rightarrow> (upstreamConfig \<Rightarrow> string \<Rightarrow> upstreamToken option) option) \<Rightarrow> VerifierConfig \<Rightarrow>
   (verifier_error, Verifier) result" where
  "Discover provide configured =
    (case validateConfig configured of
       Some e \<Rightarrow> Inl e
     | None \<Rightarrow>
       (case provide (verifier_DiscoveryTimeout configured) (verifier_Issuer configured) of
          None \<Rightarrow> Inl VerifierDiscovery
        | Some provider \<Rightarrow> Inr (newVerifier configured (provider (verifierConfig configured)))))"

text \<open>
  A \<open>json.Number\<close> holds the text of a number, given as a number or as a string; \<open>null\<close> keeps the old one.
\<close>

definition decode_number :: "string \<Rightarrow> json \<Rightarrow> string option" where
  "decode_number old v =
    (case v of
       JNumber literal \<Rightarrow> Some literal
     | JString s \<Rightarrow> (case parse_number s of Some (_, []) \<Rightarrow> Some s | _ \<Rightarrow> None)
     | JNull \<Rightarrow> Some old
     | _ \<Rightarrow> None)"

record registeredClaims =
  claim_Subject :: string
  claim_Expiry :: string
  claim_NotBefore :: string
  claim_AuthorizedParty :: string

definition zero_claims :: registeredClaims where
  "zero_claims = \<lparr>claim_Subject = [], claim_Expiry = [], claim_NotBefore = [], claim_AuthorizedParty = []\<rparr>"

text \<open>Members that are no fields are skipped.\<close>

fun store_claims :: "(string \<times> json) list \<Rightarrow> registeredClaims \<Rightarrow> registeredClaims option" where
  "store_claims [] c = Some c"
| "store_claims ((key, v) # ms) c =
    (case (case select_field [''sub'', ''exp'', ''nbf'', ''azp''] key of
        None \<Rightarrow> Some c
      | Some name \<Rightarrow>
        (if name = ''sub'' then map_option (\<lambda>s. c\<lparr>claim_Subject := s\<rparr>) (decode_string (claim_Subject c) v)
         else if name = ''exp'' then map_option (\<lambda>s. c\<lparr>claim_Expiry := s\<rparr>) (decode_number (claim_Expiry c) v)
         else if name = ''nbf'' then map_option (\<lambda>s. c\<lparr>claim_NotBefore := s\<rparr>) (decode_number (claim_NotBefore c) v)
         else map_option (\<lambda>s. c\<lparr>claim_AuthorizedParty := s\<rparr>) (decode_string (claim_AuthorizedParty c) v))) of
       None \<Rightarrow> None
     | Some c' \<Rightarrow> store_claims ms c')"

definition decode_claims :: "string \<Rightarrow> registeredClaims option" where
  "decode_claims raw =
    (case json_decode_first raw of
       Some (JObject ms, _) \<Rightarrow> store_claims ms zero_claims
     | Some (JNull, _) \<Rightarrow> Some zero_claims
     | _ \<Rightarrow> None)"

definition numericDate :: "string \<Rightarrow> Time option" where
  "numericDate number = map_option time_from_unix (ParseInt 64 number)"

text \<open>\<open>Time.Add\<close>: the seconds saturate.\<close>

definition time_Add :: "Time \<Rightarrow> Duration \<Rightarrow> Time" where
  "time_Add t d =
    (let s = (t + d) div nanosecond_second; n = (t + d) mod nanosecond_second in
     (if s > 2 ^ 63 - 1 then 2 ^ 63 - 1 else if s < - (2 ^ 63) then - (2 ^ 63 - 1) else s) * nanosecond_second + n)"

definition Verifier_Verify :: "Verifier \<Rightarrow> Time \<Rightarrow> string \<Rightarrow> (go_error, VerifiedToken) result" where
  "Verifier_Verify v now raw =
    (if length raw = 0 \<or> length raw > maximumTokenBytes \<or> length (filter (\<lambda>c. c = CHR ''.'') raw) \<noteq> 2
       then Inl errInvalidToken
     else case v_upstream v raw of
       None \<Rightarrow> Inl errInvalidToken
     | Some token \<Rightarrow>
       (if upstream_Issuer token \<noteq> v_issuer v then Inl errInvalidToken
        else case upstream_Claims token of
          None \<Rightarrow> Inl errInvalidToken
        | Some rawClaims \<Rightarrow>
          (if length rawClaims = 0 then Inl errInvalidToken
           else case decode_claims rawClaims of
             None \<Rightarrow> Inl errInvalidToken
           | Some claims \<Rightarrow>
             (if claim_Subject claims = [] \<or> claim_Expiry claims = [] then Inl errInvalidToken
              else if (length (upstream_Audience token) > 1 \<or> claim_AuthorizedParty claims \<noteq> []) \<and>
                  claim_AuthorizedParty claims \<noteq> v_audience v then Inl errInvalidToken
              else case numericDate (claim_Expiry claims) of
                None \<Rightarrow> Inl errInvalidToken
              | Some expiresAt \<Rightarrow>
                (if \<not> now < time_Add expiresAt (v_skew v) then Inl errInvalidToken
                 else
                   let token' = (\<lambda>notBefore. \<lparr>token_Issuer = upstream_Issuer token, token_Subject = claim_Subject claims,
                     token_Audiences = upstream_Audience token, token_ExpiresAt = expiresAt,
                     token_NotBefore = notBefore, token_Claims = rawClaims\<rparr>)
                   in if claim_NotBefore claims \<noteq> [] then
                     (case numericDate (claim_NotBefore claims) of
                        None \<Rightarrow> Inl errInvalidToken
                      | Some parsed \<Rightarrow>
                        (if time_Add now (v_skew v) < parsed then Inl errInvalidToken else Inr (token' (Some parsed))))
                   else Inr (token' None))))))"

subsection \<open>Mapping\<close>

definition maximumClaimNameBytes :: nat where "maximumClaimNameBytes = 128"
definition maximumClaimValueBytes :: nat where "maximumClaimValueBytes = 1024"
definition maximumTenantMappings :: nat where "maximumTenantMappings = 10000"

definition errUnmappedIdentity :: go_error where
  "errUnmappedIdentity = mustTypedError ErrorUnauthorized ''identity.unmapped''"

record TenantMapping =
  tenant_ClaimValue :: string
  tenant_TenantID :: string

record MappingConfig =
  mapconf_Issuer :: string
  mapconf_TenantClaim :: string
  mapconf_PrincipalClaim :: string
  mapconf_TenantMappings :: "TenantMapping list"

record Mapper =
  mapper_issuer :: string
  mapper_tenantClaim :: string
  mapper_principalClaim :: string
  mapper_tenantByValue :: "string \<Rightarrow> UUID option"

definition validateClaimName :: "string \<Rightarrow> bool" where
  "validateClaimName text \<longleftrightarrow>
    \<not> (length text = 0 \<or> length text > maximumClaimNameBytes \<or> \<not> utf8_valid text \<or>
       list_ex (\<lambda>r. r < 0x20 \<or> r = 0x7F) (runes text))"

definition validateClaimValue :: "string \<Rightarrow> bool" where
  "validateClaimValue text \<longleftrightarrow>
    \<not> (length text = 0 \<or> length text > maximumClaimValueBytes \<or> \<not> utf8_valid text \<or>
       list_ex (\<lambda>r. r < 0x20 \<or> r = 0x7F) (runes text))"

datatype mapper_error =
    MapperIssuer | MapperTenantClaim | MapperPrincipalClaim | MapperMappingCount | MapperClaimValue nat
  | MapperDuplicateClaimValue nat | MapperTenantID nat shared_error

fun add_mappings :: "nat \<Rightarrow> TenantMapping list \<Rightarrow> (string \<Rightarrow> UUID option) \<Rightarrow> (mapper_error, string \<Rightarrow> UUID option) result" where
  "add_mappings index [] mappings = Inr mappings"
| "add_mappings index (m # rest) mappings =
    (if \<not> validateClaimValue (tenant_ClaimValue m) then Inl (MapperClaimValue index)
     else if mappings (tenant_ClaimValue m) \<noteq> None then Inl (MapperDuplicateClaimValue index)
     else case ParseUUID (tenant_TenantID m) of
       Inl e \<Rightarrow> Inl (MapperTenantID index e)
     | Inr tenantID \<Rightarrow> add_mappings (index + 1) rest (mappings(tenant_ClaimValue m \<mapsto> tenantID)))"

definition NewMapper :: "MappingConfig \<Rightarrow> (mapper_error, Mapper) result" where
  "NewMapper configured =
    (if \<not> https_origin (mapconf_Issuer configured) then Inl MapperIssuer
     else if \<not> validateClaimName (mapconf_TenantClaim configured) then Inl MapperTenantClaim
     else if \<not> validateClaimName (mapconf_PrincipalClaim configured) then Inl MapperPrincipalClaim
     else if length (mapconf_TenantMappings configured) = 0 \<or>
         length (mapconf_TenantMappings configured) > maximumTenantMappings then Inl MapperMappingCount
     else case add_mappings 0 (mapconf_TenantMappings configured) Map.empty of
       Inl e \<Rightarrow> Inl e
     | Inr mappings \<Rightarrow>
       Inr \<lparr>mapper_issuer = mapconf_Issuer configured, mapper_tenantClaim = mapconf_TenantClaim configured,
         mapper_principalClaim = mapconf_PrincipalClaim configured, mapper_tenantByValue = mappings\<rparr>)"

text \<open>
  The claims read token by token: the values are decoded one by one, so that each may be nested as deep as a
  document.
\<close>

definition decodeUniqueClaims :: "string \<Rightarrow> (string \<times> json) list option" where
  "decodeUniqueClaims raw =
    (case skip_space raw of
       [] \<Rightarrow> None
     | c # cs \<Rightarrow>
       (if code c \<noteq> 0x7B then None
        else case (case skip_space cs of
            [] \<Rightarrow> None
          | d # ds \<Rightarrow> if code d = 0x7D then Some ([], ds) else parse_members (2 * length raw + 2) 0 cs) of
          None \<Rightarrow> None
        | Some (claims, rest) \<Rightarrow>
          (if \<not> distinct (map fst claims) \<or> skip_space rest \<noteq> [] then None else Some claims)))"

text \<open>The items of an array decoded into a \<open>[]string\<close>: \<open>null\<close> leaves an empty text.\<close>

fun string_items :: "json list \<Rightarrow> string list option" where
  "string_items [] = Some []"
| "string_items (v # vs) =
    (case decode_string [] v of None \<Rightarrow> None | Some s \<Rightarrow> map_option (Cons s) (string_items vs))"

definition stringClaimValues :: "json option \<Rightarrow> bool \<Rightarrow> string list option" where
  "stringClaimValues raw allowArray =
    (case raw of
       None \<Rightarrow> None
     | Some v \<Rightarrow>
       (case decode_string [] v of
          Some scalar \<Rightarrow> if \<not> validateClaimValue scalar then None else Some [scalar]
        | None \<Rightarrow>
          (if \<not> allowArray then None
           else case v of
             JArray vs \<Rightarrow>
               (case string_items vs of
                  None \<Rightarrow> None
                | Some texts \<Rightarrow>
                  (if length texts = 0 then None
                   else if \<not> list_all validateClaimValue texts then None
                   else Some texts))
           | _ \<Rightarrow> None)))"

text \<open>The loop over the values: the tenant matched last, if any, and the number of matches.\<close>

fun match_tenants ::
  "(string \<Rightarrow> UUID option) \<Rightarrow> string set \<Rightarrow> string list \<Rightarrow> UUID option \<times> nat \<Rightarrow> UUID option \<times> nat" where
  "match_tenants mappings seen [] found = found"
| "match_tenants mappings seen (v # vs) found =
    (if v \<in> seen then match_tenants mappings seen vs found
     else match_tenants mappings (insert v seen) vs
       (case mappings v of None \<Rightarrow> found | Some mapped \<Rightarrow> (Some mapped, snd found + 1)))"

definition opaquePrincipalID :: "string \<Rightarrow> string \<Rightarrow> string" where
  "opaquePrincipalID issuer claimValue =
    ''oidc:'' @ b64_encode (sha256_sum (''thinkpixelmp:oidc-principal:v1'' @ [CHR 0x00] @ issuer @ [CHR 0x00] @ claimValue))"

definition Mapper_Map :: "Mapper \<Rightarrow> VerifiedToken \<Rightarrow> (go_error, Identity) result" where
  "Mapper_Map mapper token =
    (if token_Issuer token \<noteq> mapper_issuer mapper \<or> length (token_Claims token) = 0 then Inl errUnmappedIdentity
     else case decodeUniqueClaims (token_Claims token) of
       None \<Rightarrow> Inl errUnmappedIdentity
     | Some claims \<Rightarrow>
       (case stringClaimValues (map_of claims (mapper_tenantClaim mapper)) True of
          None \<Rightarrow> Inl errUnmappedIdentity
        | Some tenantValues \<Rightarrow>
          (case match_tenants (mapper_tenantByValue mapper) {} tenantValues (None, 0) of
             (None, _) \<Rightarrow> Inl errUnmappedIdentity
           | (Some tenantID, found) \<Rightarrow>
             (if found \<noteq> 1 then Inl errUnmappedIdentity
              else case stringClaimValues (map_of claims (mapper_principalClaim mapper)) False of
                None \<Rightarrow> Inl errUnmappedIdentity
              | Some principalValues \<Rightarrow>
                (if length principalValues \<noteq> 1 \<or> \<not> validateClaimValue (principalValues ! 0) then Inl errUnmappedIdentity
                 else if mapper_principalClaim mapper = ''sub'' \<and> principalValues ! 0 \<noteq> token_Subject token
                   then Inl errUnmappedIdentity
                 else Inr \<lparr>ident_TenantID = tenantID,
                   ident_PrincipalID = opaquePrincipalID (mapper_issuer mapper) (principalValues ! 0)\<rparr>)))))"

subsection \<open>Authenticators\<close>

definition OIDC_Authenticate ::
  "(string \<Rightarrow> (go_error, VerifiedToken) result) \<Rightarrow> (VerifiedToken \<Rightarrow> (go_error, Identity) result) \<Rightarrow>
   string \<Rightarrow> (go_error, Identity) result" where
  "OIDC_Authenticate verify mapper credential =
    (case verify credential of Inl e \<Rightarrow> Inl e | Inr verified \<Rightarrow> mapper verified)"

definition principalPrefix :: string where "principalPrefix = ''local-development:''"

definition errUnexpectedCredential :: go_error where
  "errUnexpectedCredential = mustTypedError ErrorUnauthorized ''identity.local_credential_forbidden''"

datatype local_error = LocalMode | LocalTenantID | LocalPrincipal

definition LocalAuth_New :: "Mode \<Rightarrow> AuthenticationConfig \<Rightarrow> (local_error, Identity) result" where
  "LocalAuth_New processMode configured =
    (if processMode \<noteq> ModeDevelopment \<or> auth_Mode configured \<noteq> AuthenticationModeLocalDevelopment then Inl LocalMode
     else case ParseUUID (local_TenantID (auth_LocalDevelopment configured)) of
       Inl _ \<Rightarrow> Inl LocalTenantID
     | Inr tenantID \<Rightarrow>
       (let principal = local_Principal (auth_LocalDevelopment configured) in
        if length principal = 0 \<or> length principal > 237 \<or> \<not> utf8_valid principal \<or>
          list_ex (\<lambda>r. r < 0x20 \<or> r = 0x7F) (runes principal) then Inl LocalPrincipal
        else Inr \<lparr>ident_TenantID = tenantID, ident_PrincipalID = principalPrefix @ principal\<rparr>))"

definition Local_Authenticate :: "Identity \<Rightarrow> string \<Rightarrow> (go_error, Identity) result" where
  "Local_Authenticate configured credential = (if credential \<noteq> [] then Inl errUnexpectedCredential else Inr configured)"

text \<open>
  The authenticators of the process, as it is put together: one that could not be made lets nobody in.
\<close>

definition oidc_authenticator ::
  "MappingConfig \<Rightarrow> (string \<Rightarrow> (go_error, VerifiedToken) result) \<Rightarrow> string \<Rightarrow> (go_error, Identity) result" where
  "oidc_authenticator configured verify credential =
    (case NewMapper configured of
       Inl _ \<Rightarrow> Inl errUnmappedIdentity
     | Inr mapper \<Rightarrow> OIDC_Authenticate verify (Mapper_Map mapper) credential)"

definition local_authenticator :: "Mode \<Rightarrow> AuthenticationConfig \<Rightarrow> string \<Rightarrow> (go_error, Identity) result" where
  "local_authenticator mode configured credential =
    (case LocalAuth_New mode configured of
       Inl _ \<Rightarrow> Inl errUnexpectedCredential
     | Inr established \<Rightarrow> Local_Authenticate established credential)"

text \<open>What the services rely on: an identity has a version-7 tenant and names a principal.\<close>

locale authenticator =
  fixes authenticate :: "string \<Rightarrow> (go_error, Identity) result"
  assumes tenant_valid: "authenticate credential = Inr actor \<Longrightarrow> valid_uuid (ident_TenantID actor)"
    and principal_named: "authenticate credential = Inr actor \<Longrightarrow> ident_PrincipalID actor \<noteq> []"
begin

lemma identity_accepted: "authenticate credential = Inr actor \<Longrightarrow> validateIdentity actor = Inr ()"
  by (simp add: validateIdentity_def tenant_valid principal_named)

end

subsection \<open>Facts\<close>

lemma add_mappings_Inr:
  "add_mappings index ms mappings = Inr mappings' \<Longrightarrow>
    distinct (map tenant_ClaimValue ms) \<and> (\<forall>m \<in> set ms. mappings (tenant_ClaimValue m) = None) \<and>
    (\<forall>v u. mappings' v = Some u \<longleftrightarrow>
      mappings v = Some u \<or> (\<exists>m \<in> set ms. tenant_ClaimValue m = v \<and> ParseUUID (tenant_TenantID m) = Inr u))"
proof (induction index ms mappings rule: add_mappings.induct)
  case (2 index m ms mappings)
  from "2.prems" obtain t where ok: "validateClaimValue (tenant_ClaimValue m)" "mappings (tenant_ClaimValue m) = None"
    "ParseUUID (tenant_TenantID m) = Inr t" "add_mappings (index + 1) ms (mappings(tenant_ClaimValue m \<mapsto> t)) = Inr mappings'"
    by (auto split: if_splits sum.splits)
  from 2(1) [OF _ _ ok(3) ok(4)] ok(1,2)
  have IH: "distinct (map tenant_ClaimValue ms)"
    "\<forall>m' \<in> set ms. (mappings(tenant_ClaimValue m \<mapsto> t)) (tenant_ClaimValue m') = None"
    "\<forall>v u. mappings' v = Some u \<longleftrightarrow> (mappings(tenant_ClaimValue m \<mapsto> t)) v = Some u \<or>
      (\<exists>m \<in> set ms. tenant_ClaimValue m = v \<and> ParseUUID (tenant_TenantID m) = Inr u)" by blast+
  from IH(2) have fresh: "\<forall>m' \<in> set ms. tenant_ClaimValue m' \<noteq> tenant_ClaimValue m \<and> mappings (tenant_ClaimValue m') = None"
    by (auto split: if_splits)
  show ?case using IH(1) fresh ok(2,3) unfolding IH(3) [rule_format] by (auto split: if_splits)
qed simp

lemma add_mappings_parse:
  "add_mappings index ms mappings = Inr mappings' \<Longrightarrow> \<forall>m \<in> set ms. \<exists>u. ParseUUID (tenant_TenantID m) = Inr u"
  by (induction index ms mappings rule: add_mappings.induct) (auto split: if_splits sum.splits)

lemma mapped_uuid:
  "NewMapper conf = Inr mapper \<Longrightarrow> m \<in> set (mapconf_TenantMappings conf) \<Longrightarrow> \<exists>u. ParseUUID (tenant_TenantID m) = Inr u"
  by (auto simp: NewMapper_def split: if_splits sum.splits dest: add_mappings_parse)

lemma NewMapper_Inr:
  assumes "NewMapper conf = Inr m"
  shows "mapper_issuer m = mapconf_Issuer conf" "mapper_tenantClaim m = mapconf_TenantClaim conf"
    "mapper_principalClaim m = mapconf_PrincipalClaim conf"
    "distinct (map tenant_ClaimValue (mapconf_TenantMappings conf))"
    "mapper_tenantByValue m v = Some u \<longleftrightarrow>
      (\<exists>t \<in> set (mapconf_TenantMappings conf). tenant_ClaimValue t = v \<and> ParseUUID (tenant_TenantID t) = Inr u)"
proof -
  from assms obtain mappings where add: "add_mappings 0 (mapconf_TenantMappings conf) Map.empty = Inr mappings"
    and m: "m = \<lparr>mapper_issuer = mapconf_Issuer conf, mapper_tenantClaim = mapconf_TenantClaim conf,
      mapper_principalClaim = mapconf_PrincipalClaim conf, mapper_tenantByValue = mappings\<rparr>"
    by (auto simp: NewMapper_def split: if_splits sum.splits)
  show "mapper_issuer m = mapconf_Issuer conf" "mapper_tenantClaim m = mapconf_TenantClaim conf"
    "mapper_principalClaim m = mapconf_PrincipalClaim conf" by (simp_all add: m)
  from add_mappings_Inr [OF add]
  show "distinct (map tenant_ClaimValue (mapconf_TenantMappings conf))"
    "mapper_tenantByValue m v = Some u \<longleftrightarrow>
      (\<exists>t \<in> set (mapconf_TenantMappings conf). tenant_ClaimValue t = v \<and> ParseUUID (tenant_TenantID t) = Inr u)"
    by (simp_all add: m)
qed

lemma match_tenants_Some:
  "match_tenants mappings seen vs (found, n) = (Some t, k) \<Longrightarrow>
    k = n + card {v \<in> set vs. v \<notin> seen \<and> mappings v \<noteq> None} \<and>
    ({v \<in> set vs. v \<notin> seen \<and> mappings v \<noteq> None} = {} \<and> found = Some t \<or>
     (\<exists>v \<in> set vs. v \<notin> seen \<and> mappings v = Some t))"
proof (induction vs arbitrary: seen found n)
  case (Cons v vs)
  show ?case
  proof (cases "v \<in> seen")
    case True
    then have "{w \<in> set (v # vs). w \<notin> seen \<and> mappings w \<noteq> None} = {w \<in> set vs. w \<notin> seen \<and> mappings w \<noteq> None}" by auto
    with True Cons.IH [of seen found n] Cons.prems show ?thesis by auto
  next
    case False
    note step = Cons.IH [of "insert v seen"]
    have S: "{w \<in> set (v # vs). w \<notin> seen \<and> mappings w \<noteq> None} =
        (if mappings v = None then id else insert v) {w \<in> set vs. w \<notin> insert v seen \<and> mappings w \<noteq> None}"
      using False by auto
    show ?thesis
    proof (cases "mappings v")
      case None
      with False Cons.prems step [of found n] S show ?thesis by (simp del: Collect_empty_eq) blast
    next
      case (Some mapped)
      with False Cons.prems have "match_tenants mappings (insert v seen) vs (Some mapped, n + 1) = (Some t, k)" by simp
      from step [OF this] have "k = n + 1 + card {w \<in> set vs. w \<notin> insert v seen \<and> mappings w \<noteq> None}"
        "mapped = t \<or> (\<exists>w \<in> set vs. w \<notin> insert v seen \<and> mappings w = Some t)" by auto
      with Some False S show ?thesis by auto
    qed
  qed
qed simp

text \<open>The texts a claim makes.\<close>

definition claimed_texts :: "json \<Rightarrow> string set" where
  "claimed_texts v = (case v of JString s \<Rightarrow> {s} | JArray vs \<Rightarrow> {s. JString s \<in> set vs} | _ \<Rightarrow> {})"

lemma string_items_Some:
  "string_items vs = Some texts \<Longrightarrow> [] \<notin> set texts \<Longrightarrow> vs = map JString texts"
  by (induction vs arbitrary: texts) (auto simp: decode_string_def split: option.splits json.splits)

lemma stringClaimValues_Some:
  assumes "stringClaimValues raw allowArray = Some texts"
  shows "\<exists>v. raw = Some v \<and> set texts = claimed_texts v \<and> list_all validateClaimValue texts \<and>
    (allowArray \<or> (\<exists>s. v = JString s \<and> texts = [s]))"
proof -
  have no: "\<not> validateClaimValue []" by (simp add: validateClaimValue_def)
  from assms no show ?thesis
    by (auto simp: stringClaimValues_def claimed_texts_def decode_string_def list_all_iff
        split: option.splits json.splits if_splits dest!: string_items_Some)
qed

lemma decodeUniqueClaims_distinct: "decodeUniqueClaims raw = Some claims \<Longrightarrow> distinct (map fst claims)"
  by (auto simp: decodeUniqueClaims_def split: list.splits if_splits option.splits prod.splits)

lemma Mapper_Map_Inr:
  assumes "NewMapper conf = Inr mapper" and "Mapper_Map mapper token = Inr actor"
  obtains claims tenant principal m where
    "token_Issuer token = mapconf_Issuer conf" "decodeUniqueClaims (token_Claims token) = Some claims"
    "(mapconf_TenantClaim conf, tenant) \<in> set claims" "(mapconf_PrincipalClaim conf, JString principal) \<in> set claims"
    "{m \<in> set (mapconf_TenantMappings conf). tenant_ClaimValue m \<in> claimed_texts tenant} = {m}"
    "ParseUUID (tenant_TenantID m) = Inr (ident_TenantID actor)"
    "ident_PrincipalID actor = opaquePrincipalID (mapconf_Issuer conf) principal"
    "validateClaimValue principal" "mapconf_PrincipalClaim conf = ''sub'' \<longrightarrow> principal = token_Subject token"
proof -
  note conf = NewMapper_Inr [OF assms(1)]
  from assms(2) obtain claims texts t names where
    claims: "decodeUniqueClaims (token_Claims token) = Some claims" and iss: "token_Issuer token = mapper_issuer mapper"
    and texts: "stringClaimValues (map_of claims (mapper_tenantClaim mapper)) True = Some texts"
    and found: "match_tenants (mapper_tenantByValue mapper) {} texts (None, 0) = (Some t, 1)"
    and names: "stringClaimValues (map_of claims (mapper_principalClaim mapper)) False = Some names"
    and sub: "mapper_principalClaim mapper = ''sub'' \<longrightarrow> names ! 0 = token_Subject token"
    and actor: "actor = \<lparr>ident_TenantID = t, ident_PrincipalID = opaquePrincipalID (mapper_issuer mapper) (names ! 0)\<rparr>"
    by (auto simp: Mapper_Map_def split: if_splits option.splits prod.splits)
  from stringClaimValues_Some [OF texts] obtain tenant where tenant: "map_of claims (mapper_tenantClaim mapper) = Some tenant"
    "set texts = claimed_texts tenant" by blast
  from stringClaimValues_Some [OF names] obtain principal where principal:
    "map_of claims (mapper_principalClaim mapper) = Some (JString principal)" "names = [principal]" "validateClaimValue principal"
    by auto
  let ?M = "mapper_tenantByValue mapper"
  from match_tenants_Some [OF found] have one: "card {v \<in> set texts. ?M v \<noteq> None} = 1" and "\<exists>v \<in> set texts. ?M v = Some t"
    by auto
  then obtain v where v: "v \<in> set texts" "?M v = Some t" by blast
  from one obtain w where w: "{v \<in> set texts. ?M v \<noteq> None} = {w}" by (rule card_1_singletonE)
  have "v \<in> {v \<in> set texts. ?M v \<noteq> None}" using v by simp
  then have only: "{v \<in> set texts. ?M v \<noteq> None} = {v}" unfolding w by simp
  from v(2) obtain m where m: "m \<in> set (mapconf_TenantMappings conf)" "tenant_ClaimValue m = v"
    "ParseUUID (tenant_TenantID m) = Inr t" unfolding conf(5) by blast
  have "m' = m" if m': "m' \<in> set (mapconf_TenantMappings conf)" "tenant_ClaimValue m' \<in> set texts" for m'
  proof -
    from m'(1) conf(5) [of "tenant_ClaimValue m'"] have "?M (tenant_ClaimValue m') \<noteq> None"
      using mapped_uuid [OF assms(1) m'(1)] by auto
    with m'(2) only have "tenant_ClaimValue m' = v" by blast
    with m(2) conf(4) m(1) m'(1) show ?thesis by (auto simp: distinct_map inj_on_def)
  qed
  then have "{m \<in> set (mapconf_TenantMappings conf). tenant_ClaimValue m \<in> claimed_texts tenant} = {m}"
    using m(1,2) v(1) unfolding tenant(2) [symmetric] by blast
  then show thesis
    using that [of claims tenant principal m] claims iss tenant principal m(3) actor sub conf(1-3) by (auto dest!: map_of_SomeD)
qed

subsection \<open>The two authenticators\<close>

lemma opaquePrincipalID_named [simp]: "opaquePrincipalID i v \<noteq> []"
  by (simp add: opaquePrincipalID_def)

interpretation oidc_identity: authenticator "oidc_authenticator conf verify" for conf verify
proof
  fix credential actor assume "oidc_authenticator conf verify credential = Inr actor"
  then obtain mapper token where "NewMapper conf = Inr mapper" "Mapper_Map mapper token = Inr actor"
    by (auto simp: oidc_authenticator_def OIDC_Authenticate_def split: sum.splits)
  then show "valid_uuid (ident_TenantID actor)" "ident_PrincipalID actor \<noteq> []"
    by (auto elim!: Mapper_Map_Inr simp: ParseUUID_iff)
qed

lemma LocalAuth_New_Inr:
  "LocalAuth_New mode conf = Inr actor \<longleftrightarrow>
    mode = ModeDevelopment \<and> auth_Mode conf = AuthenticationModeLocalDevelopment \<and>
    ParseUUID (local_TenantID (auth_LocalDevelopment conf)) = Inr (ident_TenantID actor) \<and>
    validateOIDCClaimText (local_Principal (auth_LocalDevelopment conf)) 237 \<and>
    ident_PrincipalID actor = principalPrefix @ local_Principal (auth_LocalDevelopment conf)"
proof (cases "mode = ModeDevelopment \<and> auth_Mode conf = AuthenticationModeLocalDevelopment")
  case True
  then show ?thesis
    by (cases actor; cases "ParseUUID (local_TenantID (auth_LocalDevelopment conf))")
      (auto simp: LocalAuth_New_def validateOIDCClaimText_def Let_def)
next
  case False
  then have "mode \<noteq> ModeDevelopment \<or> auth_Mode conf \<noteq> AuthenticationModeLocalDevelopment" by blast
  then have "LocalAuth_New mode conf = Inl LocalMode" unfolding LocalAuth_New_def by (rule if_P)
  then have "LocalAuth_New mode conf \<noteq> Inr actor" by simp
  with False show ?thesis by blast
qed

interpretation local_identity: authenticator "local_authenticator mode conf" for mode conf
proof
  fix credential actor assume "local_authenticator mode conf credential = Inr actor"
  then have "LocalAuth_New mode conf = Inr actor"
    by (auto simp: local_authenticator_def Local_Authenticate_def split: sum.splits if_splits)
  then show "valid_uuid (ident_TenantID actor)" "ident_PrincipalID actor \<noteq> []"
    by (auto simp: LocalAuth_New_Inr ParseUUID_iff principalPrefix_def)
qed

end
