(* ===== verification/Config_Load.thy ===== *)
theory Config_Load
  imports Configuration
begin

text \<open>
  \<open>internal/config/load.go\<close>: the configuration from its defaults, an optional JSON file, the
  environment and the command line, each overriding the one before.
\<close>

subsection \<open>Decoding into pointers\<close>

text \<open>A \<open>null\<close> clears a pointer; other values are stored in what it points to, which is made if need be.\<close>

definition ptr_string :: "json \<Rightarrow> string option option" where
  "ptr_string v = (case v of JNull \<Rightarrow> Some None | JString s \<Rightarrow> Some (Some s) | _ \<Rightarrow> None)"

definition ptr_int :: "nat \<Rightarrow> json \<Rightarrow> int option option" where
  "ptr_int bits v =
    (case v of
       JNull \<Rightarrow> Some None
     | JNumber literal \<Rightarrow> map_option Some (parse_int_range (- (2 ^ (bits - 1))) (2 ^ (bits - 1) - 1) literal)
     | _ \<Rightarrow> None)"

definition ptr_float :: "json \<Rightarrow> float64 option option" where
  "ptr_float v =
    (case v of JNull \<Rightarrow> Some None | JNumber literal \<Rightarrow> map_option Some (ParseFloat literal) | _ \<Rightarrow> None)"

text \<open>A struct whose unknown members are errors: the table gives the fields and how they are stored.\<close>

type_synonym 's fields = "(string \<times> (json \<Rightarrow> 's \<Rightarrow> 's option)) list"

fun decode_fields :: "'s fields \<Rightarrow> (string \<times> json) list \<Rightarrow> 's \<Rightarrow> 's option" where
  "decode_fields table [] s = Some s"
| "decode_fields table ((key, v) # ms) s =
    (case select_field (map fst table) key of
       None \<Rightarrow> None
     | Some name \<Rightarrow>
       (case map_of table name of
          None \<Rightarrow> None
        | Some store \<Rightarrow> (case store v s of None \<Rightarrow> None | Some s' \<Rightarrow> decode_fields table ms s')))"

definition decode_struct :: "'s fields \<Rightarrow> json \<Rightarrow> 's \<Rightarrow> 's option" where
  "decode_struct table v s = (case v of JNull \<Rightarrow> Some s | JObject ms \<Rightarrow> decode_fields table ms s | _ \<Rightarrow> None)"

definition ptr_struct :: "'s fields \<Rightarrow> 's \<Rightarrow> json \<Rightarrow> 's option \<Rightarrow> 's option option" where
  "ptr_struct table zero v old =
    (case v of
       JNull \<Rightarrow> Some None
     | _ \<Rightarrow> map_option Some (decode_struct table v (case old of None \<Rightarrow> zero | Some s \<Rightarrow> s)))"

text \<open>
  A slice with what its array still holds behind its end: decoding an array again reuses the elements.
\<close>

type_synonym 'a slice = "'a list \<times> 'a list"

fun decode_cells :: "(json \<Rightarrow> 'a \<Rightarrow> 'a option) \<Rightarrow> 'a \<Rightarrow> 'a list \<Rightarrow> json list \<Rightarrow> 'a list option" where
  "decode_cells dec zero cells [] = Some []"
| "decode_cells dec zero cells (v # vs) =
    (case dec v (case cells of [] \<Rightarrow> zero | c # _ \<Rightarrow> c) of
       None \<Rightarrow> None
     | Some x \<Rightarrow> map_option (Cons x) (decode_cells dec zero (tl cells) vs))"

definition decode_slice :: "(json \<Rightarrow> 'a \<Rightarrow> 'a option) \<Rightarrow> 'a \<Rightarrow> json list \<Rightarrow> 'a slice \<Rightarrow> 'a slice option" where
  "decode_slice dec zero vs old =
    (let cells = fst old @ snd old in
     if vs = [] then Some ([], [])
     else map_option (\<lambda>xs. (xs, drop (length vs) cells)) (decode_cells dec zero cells vs))"

definition ptr_slice :: "(json \<Rightarrow> 'a \<Rightarrow> 'a option) \<Rightarrow> 'a \<Rightarrow> json \<Rightarrow> 'a slice option \<Rightarrow> 'a slice option option" where
  "ptr_slice dec zero v old =
    (case v of
       JNull \<Rightarrow> Some None
     | JArray vs \<Rightarrow> map_option Some (decode_slice dec zero vs (case old of None \<Rightarrow> ([], []) | Some s \<Rightarrow> s))
     | _ \<Rightarrow> None)"

definition mapping_fields :: "OIDCTenantMappingConfig fields" where
  "mapping_fields =
    [(''claim_value'', \<lambda>v m. map_option (\<lambda>s. m\<lparr>mapping_ClaimValue := s\<rparr>) (decode_string (mapping_ClaimValue m) v)),
     (''tenant_id'', \<lambda>v m. map_option (\<lambda>s. m\<lparr>mapping_TenantID := s\<rparr>) (decode_string (mapping_TenantID m) v))]"

definition zero_mapping :: OIDCTenantMappingConfig where
  "zero_mapping = \<lparr>mapping_ClaimValue = [], mapping_TenantID = []\<rparr>"

subsection \<open>The file\<close>

record rawLocal =
  rlocal_TenantID :: "string option"
  rlocal_Principal :: "string option"

record rawAuthentication =
  rauth_Mode :: "string option"
  rauth_LocalDevelopment :: "rawLocal option"

record rawOIDC =
  roidc_Issuer :: "string option"
  roidc_Audience :: "string option"
  roidc_AllowedAlgorithms :: "string slice option"
  roidc_ClockSkew :: "string option"
  roidc_DiscoveryTimeout :: "string option"
  roidc_TenantClaim :: "string option"
  roidc_PrincipalClaim :: "string option"
  roidc_TenantMappings :: "OIDCTenantMappingConfig slice option"

record rawHTTP =
  rhttp_Address :: "string option"
  rhttp_ReadHeaderTimeout :: "string option"
  rhttp_ReadTimeout :: "string option"
  rhttp_WriteTimeout :: "string option"
  rhttp_IdleTimeout :: "string option"
  rhttp_ShutdownTimeout :: "string option"
  rhttp_MaxHeaderBytes :: "int option"
  rhttp_MaxBodyBytes :: "int option"

record rawDatabase =
  rdb_URL :: "string option"
  rdb_ConnectTimeout :: "string option"
  rdb_HealthTimeout :: "string option"
  rdb_StatementTimeout :: "string option"
  rdb_LockTimeout :: "string option"
  rdb_MaxConnectionLifetime :: "string option"
  rdb_MaxConnectionIdleTime :: "string option"
  rdb_MinConnections :: "int option"
  rdb_MaxConnections :: "int option"

record rawLog =
  rlog_Level :: "string option"

record rawTelemetry =
  rtel_Mode :: "string option"
  rtel_Endpoint :: "string option"
  rtel_ServiceName :: "string option"
  rtel_SampleRatio :: "float64 option"

record rawConfig =
  raw_Mode :: "string option"
  raw_Authentication :: "rawAuthentication option"
  raw_HTTP :: "rawHTTP option"
  raw_Database :: "rawDatabase option"
  raw_OIDC :: "rawOIDC option"
  raw_Log :: "rawLog option"
  raw_Telemetry :: "rawTelemetry option"

definition local_fields :: "rawLocal fields" where
  "local_fields =
    [(''tenant_id'', \<lambda>v r. map_option (\<lambda>p. r\<lparr>rlocal_TenantID := p\<rparr>) (ptr_string v)),
     (''principal'', \<lambda>v r. map_option (\<lambda>p. r\<lparr>rlocal_Principal := p\<rparr>) (ptr_string v))]"

definition authentication_fields :: "rawAuthentication fields" where
  "authentication_fields =
    [(''mode'', \<lambda>v r. map_option (\<lambda>p. r\<lparr>rauth_Mode := p\<rparr>) (ptr_string v)),
     (''local_development'', \<lambda>v r. map_option (\<lambda>p. r\<lparr>rauth_LocalDevelopment := p\<rparr>)
        (ptr_struct local_fields \<lparr>rlocal_TenantID = None, rlocal_Principal = None\<rparr> v (rauth_LocalDevelopment r)))]"

definition oidc_fields :: "rawOIDC fields" where
  "oidc_fields =
    [(''issuer'', \<lambda>v r. map_option (\<lambda>p. r\<lparr>roidc_Issuer := p\<rparr>) (ptr_string v)),
     (''audience'', \<lambda>v r. map_option (\<lambda>p. r\<lparr>roidc_Audience := p\<rparr>) (ptr_string v)),
     (''allowed_algorithms'', \<lambda>v r. map_option (\<lambda>p. r\<lparr>roidc_AllowedAlgorithms := p\<rparr>)
        (ptr_slice (\<lambda>v s. decode_string s v) [] v (roidc_AllowedAlgorithms r))),
     (''clock_skew'', \<lambda>v r. map_option (\<lambda>p. r\<lparr>roidc_ClockSkew := p\<rparr>) (ptr_string v)),
     (''discovery_timeout'', \<lambda>v r. map_option (\<lambda>p. r\<lparr>roidc_DiscoveryTimeout := p\<rparr>) (ptr_string v)),
     (''tenant_claim'', \<lambda>v r. map_option (\<lambda>p. r\<lparr>roidc_TenantClaim := p\<rparr>) (ptr_string v)),
     (''principal_claim'', \<lambda>v r. map_option (\<lambda>p. r\<lparr>roidc_PrincipalClaim := p\<rparr>) (ptr_string v)),
     (''tenant_mappings'', \<lambda>v r. map_option (\<lambda>p. r\<lparr>roidc_TenantMappings := p\<rparr>)
        (ptr_slice (decode_struct mapping_fields) zero_mapping v (roidc_TenantMappings r)))]"

definition http_fields :: "rawHTTP fields" where
  "http_fields =
    [(''address'', \<lambda>v r. map_option (\<lambda>p. r\<lparr>rhttp_Address := p\<rparr>) (ptr_string v)),
     (''read_header_timeout'', \<lambda>v r. map_option (\<lambda>p. r\<lparr>rhttp_ReadHeaderTimeout := p\<rparr>) (ptr_string v)),
     (''read_timeout'', \<lambda>v r. map_option (\<lambda>p. r\<lparr>rhttp_ReadTimeout := p\<rparr>) (ptr_string v)),
     (''write_timeout'', \<lambda>v r. map_option (\<lambda>p. r\<lparr>rhttp_WriteTimeout := p\<rparr>) (ptr_string v)),
     (''idle_timeout'', \<lambda>v r. map_option (\<lambda>p. r\<lparr>rhttp_IdleTimeout := p\<rparr>) (ptr_string v)),
     (''shutdown_timeout'', \<lambda>v r. map_option (\<lambda>p. r\<lparr>rhttp_ShutdownTimeout := p\<rparr>) (ptr_string v)),
     (''max_header_bytes'', \<lambda>v r. map_option (\<lambda>p. r\<lparr>rhttp_MaxHeaderBytes := p\<rparr>) (ptr_int 64 v)),
     (''max_body_bytes'', \<lambda>v r. map_option (\<lambda>p. r\<lparr>rhttp_MaxBodyBytes := p\<rparr>) (ptr_int 64 v))]"

definition database_fields :: "rawDatabase fields" where
  "database_fields =
    [(''url'', \<lambda>v r. map_option (\<lambda>p. r\<lparr>rdb_URL := p\<rparr>) (ptr_string v)),
     (''connect_timeout'', \<lambda>v r. map_option (\<lambda>p. r\<lparr>rdb_ConnectTimeout := p\<rparr>) (ptr_string v)),
     (''health_timeout'', \<lambda>v r. map_option (\<lambda>p. r\<lparr>rdb_HealthTimeout := p\<rparr>) (ptr_string v)),
     (''statement_timeout'', \<lambda>v r. map_option (\<lambda>p. r\<lparr>rdb_StatementTimeout := p\<rparr>) (ptr_string v)),
     (''lock_timeout'', \<lambda>v r. map_option (\<lambda>p. r\<lparr>rdb_LockTimeout := p\<rparr>) (ptr_string v)),
     (''max_connection_lifetime'', \<lambda>v r. map_option (\<lambda>p. r\<lparr>rdb_MaxConnectionLifetime := p\<rparr>) (ptr_string v)),
     (''max_connection_idle_time'', \<lambda>v r. map_option (\<lambda>p. r\<lparr>rdb_MaxConnectionIdleTime := p\<rparr>) (ptr_string v)),
     (''min_connections'', \<lambda>v r. map_option (\<lambda>p. r\<lparr>rdb_MinConnections := p\<rparr>) (ptr_int 32 v)),
     (''max_connections'', \<lambda>v r. map_option (\<lambda>p. r\<lparr>rdb_MaxConnections := p\<rparr>) (ptr_int 32 v))]"

definition telemetry_fields :: "rawTelemetry fields" where
  "telemetry_fields =
    [(''mode'', \<lambda>v r. map_option (\<lambda>p. r\<lparr>rtel_Mode := p\<rparr>) (ptr_string v)),
     (''endpoint'', \<lambda>v r. map_option (\<lambda>p. r\<lparr>rtel_Endpoint := p\<rparr>) (ptr_string v)),
     (''service_name'', \<lambda>v r. map_option (\<lambda>p. r\<lparr>rtel_ServiceName := p\<rparr>) (ptr_string v)),
     (''sample_ratio'', \<lambda>v r. map_option (\<lambda>p. r\<lparr>rtel_SampleRatio := p\<rparr>) (ptr_float v))]"

definition zero_rawAuthentication :: rawAuthentication where
  "zero_rawAuthentication = \<lparr>rauth_Mode = None, rauth_LocalDevelopment = None\<rparr>"

definition zero_rawOIDC :: rawOIDC where
  "zero_rawOIDC = \<lparr>roidc_Issuer = None, roidc_Audience = None, roidc_AllowedAlgorithms = None, roidc_ClockSkew = None,
     roidc_DiscoveryTimeout = None, roidc_TenantClaim = None, roidc_PrincipalClaim = None, roidc_TenantMappings = None\<rparr>"

definition zero_rawHTTP :: rawHTTP where
  "zero_rawHTTP = \<lparr>rhttp_Address = None, rhttp_ReadHeaderTimeout = None, rhttp_ReadTimeout = None,
     rhttp_WriteTimeout = None, rhttp_IdleTimeout = None, rhttp_ShutdownTimeout = None, rhttp_MaxHeaderBytes = None,
     rhttp_MaxBodyBytes = None\<rparr>"

definition zero_rawDatabase :: rawDatabase where
  "zero_rawDatabase = \<lparr>rdb_URL = None, rdb_ConnectTimeout = None, rdb_HealthTimeout = None, rdb_StatementTimeout = None,
     rdb_LockTimeout = None, rdb_MaxConnectionLifetime = None, rdb_MaxConnectionIdleTime = None, rdb_MinConnections = None,
     rdb_MaxConnections = None\<rparr>"

definition zero_rawTelemetry :: rawTelemetry where
  "zero_rawTelemetry = \<lparr>rtel_Mode = None, rtel_Endpoint = None, rtel_ServiceName = None, rtel_SampleRatio = None\<rparr>"

definition zero_rawConfig :: rawConfig where
  "zero_rawConfig = \<lparr>raw_Mode = None, raw_Authentication = None, raw_HTTP = None, raw_Database = None, raw_OIDC = None,
     raw_Log = None, raw_Telemetry = None\<rparr>"

definition config_fields :: "rawConfig fields" where
  "config_fields =
    [(''mode'', \<lambda>v r. map_option (\<lambda>p. r\<lparr>raw_Mode := p\<rparr>) (ptr_string v)),
     (''authentication'', \<lambda>v r. map_option (\<lambda>p. r\<lparr>raw_Authentication := p\<rparr>)
        (ptr_struct authentication_fields zero_rawAuthentication v (raw_Authentication r))),
     (''http'', \<lambda>v r. map_option (\<lambda>p. r\<lparr>raw_HTTP := p\<rparr>) (ptr_struct http_fields zero_rawHTTP v (raw_HTTP r))),
     (''database'', \<lambda>v r. map_option (\<lambda>p. r\<lparr>raw_Database := p\<rparr>)
        (ptr_struct database_fields zero_rawDatabase v (raw_Database r))),
     (''oidc'', \<lambda>v r. map_option (\<lambda>p. r\<lparr>raw_OIDC := p\<rparr>) (ptr_struct oidc_fields zero_rawOIDC v (raw_OIDC r))),
     (''log'', \<lambda>v r. map_option (\<lambda>p. r\<lparr>raw_Log := p\<rparr>)
        (ptr_struct [(''level'', \<lambda>v r. map_option (\<lambda>p. r\<lparr>rlog_Level := p\<rparr>) (ptr_string v))] \<lparr>rlog_Level = None\<rparr> v (raw_Log r))),
     (''telemetry'', \<lambda>v r. map_option (\<lambda>p. r\<lparr>raw_Telemetry := p\<rparr>)
        (ptr_struct telemetry_fields zero_rawTelemetry v (raw_Telemetry r)))]"

subsection \<open>Applying the file\<close>

definition on_HTTP :: "(HTTPConfig \<Rightarrow> HTTPConfig) \<Rightarrow> Config \<Rightarrow> Config" where
  "on_HTTP f c = c\<lparr>config_HTTP := f (config_HTTP c)\<rparr>"

definition on_Database :: "(DatabaseConfig \<Rightarrow> DatabaseConfig) \<Rightarrow> Config \<Rightarrow> Config" where
  "on_Database f c = c\<lparr>config_Database := f (config_Database c)\<rparr>"

definition on_OIDC :: "(OIDCConfig \<Rightarrow> OIDCConfig) \<Rightarrow> Config \<Rightarrow> Config" where
  "on_OIDC f c = c\<lparr>config_OIDC := f (config_OIDC c)\<rparr>"

definition on_Telemetry :: "(TelemetryConfig \<Rightarrow> TelemetryConfig) \<Rightarrow> Config \<Rightarrow> Config" where
  "on_Telemetry f c = c\<lparr>config_Telemetry := f (config_Telemetry c)\<rparr>"

definition on_Authentication :: "(AuthenticationConfig \<Rightarrow> AuthenticationConfig) \<Rightarrow> Config \<Rightarrow> Config" where
  "on_Authentication f c = c\<lparr>config_Authentication := f (config_Authentication c)\<rparr>"

definition on_Local :: "(LocalDevelopmentAuthConfig \<Rightarrow> LocalDevelopmentAuthConfig) \<Rightarrow> Config \<Rightarrow> Config" where
  "on_Local f = on_Authentication (\<lambda>a. a\<lparr>auth_LocalDevelopment := f (auth_LocalDevelopment a)\<rparr>)"

definition setHTTPDuration :: "string \<Rightarrow> Duration \<Rightarrow> Config \<Rightarrow> Config" where
  "setHTTPDuration name d =
    on_HTTP (\<lambda>h. if name = ''read_header_timeout'' then h\<lparr>http_ReadHeaderTimeout := d\<rparr>
      else if name = ''read_timeout'' then h\<lparr>http_ReadTimeout := d\<rparr>
      else if name = ''write_timeout'' then h\<lparr>http_WriteTimeout := d\<rparr>
      else if name = ''idle_timeout'' then h\<lparr>http_IdleTimeout := d\<rparr>
      else if name = ''shutdown_timeout'' then h\<lparr>http_ShutdownTimeout := d\<rparr> else h)"

definition setDatabaseDuration :: "string \<Rightarrow> Duration \<Rightarrow> Config \<Rightarrow> Config" where
  "setDatabaseDuration name d =
    on_Database (\<lambda>b. if name = ''connect_timeout'' then b\<lparr>database_ConnectTimeout := d\<rparr>
      else if name = ''health_timeout'' then b\<lparr>database_HealthTimeout := d\<rparr>
      else if name = ''statement_timeout'' then b\<lparr>database_StatementTimeout := d\<rparr>
      else if name = ''lock_timeout'' then b\<lparr>database_LockTimeout := d\<rparr>
      else if name = ''max_connection_lifetime'' then b\<lparr>database_MaxConnectionLifetime := d\<rparr>
      else if name = ''max_connection_idle_time'' then b\<lparr>database_MaxConnectionIdleTime := d\<rparr> else b)"

definition setOIDCDuration :: "string \<Rightarrow> Duration \<Rightarrow> Config \<Rightarrow> Config" where
  "setOIDCDuration name d =
    on_OIDC (\<lambda>o'. if name = ''clock_skew'' then o'\<lparr>oidc_ClockSkew := d\<rparr> else o'\<lparr>oidc_DiscoveryTimeout := d\<rparr>)"

text \<open>What is given is set, in the order of the code; of the durations each sets a field of its own.\<close>

definition set_given :: "'a option \<Rightarrow> ('a \<Rightarrow> Config \<Rightarrow> Config) \<Rightarrow> Config \<Rightarrow> Config" where
  "set_given v f c = (case v of None \<Rightarrow> c | Some x \<Rightarrow> f x c)"

fun set_durations :: "(string \<Rightarrow> Duration \<Rightarrow> Config \<Rightarrow> Config) \<Rightarrow> (string \<times> string option) list \<Rightarrow> Config \<Rightarrow> Config option" where
  "set_durations f [] c = Some c"
| "set_durations f ((name, raw) # rest) c =
    (case raw of
       None \<Rightarrow> set_durations f rest c
     | Some text \<Rightarrow>
       (case ParseDuration text of None \<Rightarrow> None | Some d \<Rightarrow> set_durations f rest (f name d c)))"

definition apply_authentication :: "rawAuthentication \<Rightarrow> Config \<Rightarrow> Config" where
  "apply_authentication r c =
    (let c1 = set_given (rauth_Mode r) (\<lambda>m. on_Authentication (\<lambda>a. a\<lparr>auth_Mode := m\<rparr>)) c in
     set_given (rauth_LocalDevelopment r) (\<lambda>l c2.
       set_given (rlocal_Principal l) (\<lambda>p. on_Local (\<lambda>x. x\<lparr>local_Principal := p\<rparr>))
         (set_given (rlocal_TenantID l) (\<lambda>t. on_Local (\<lambda>x. x\<lparr>local_TenantID := t\<rparr>)) c2)) c1)"

definition apply_http :: "rawHTTP \<Rightarrow> Config \<Rightarrow> Config option" where
  "apply_http r c =
    set_durations setHTTPDuration
      [(''read_header_timeout'', rhttp_ReadHeaderTimeout r), (''read_timeout'', rhttp_ReadTimeout r),
       (''write_timeout'', rhttp_WriteTimeout r), (''idle_timeout'', rhttp_IdleTimeout r),
       (''shutdown_timeout'', rhttp_ShutdownTimeout r)]
      (set_given (rhttp_MaxBodyBytes r) (\<lambda>n. on_HTTP (\<lambda>h. h\<lparr>http_MaxBodyBytes := n\<rparr>))
        (set_given (rhttp_MaxHeaderBytes r) (\<lambda>n. on_HTTP (\<lambda>h. h\<lparr>http_MaxHeaderBytes := n\<rparr>))
          (set_given (rhttp_Address r) (\<lambda>a. on_HTTP (\<lambda>h. h\<lparr>http_Address := a\<rparr>)) c)))"

definition apply_database :: "rawDatabase \<Rightarrow> Config \<Rightarrow> Config option" where
  "apply_database r c =
    (case (case rdb_URL r of None \<Rightarrow> Some c
       | Some text \<Rightarrow> (case ParseSecretRef text of
           Inl _ \<Rightarrow> None | Inr ref \<Rightarrow> Some (on_Database (\<lambda>b. b\<lparr>database_URL := ref\<rparr>) c))) of
       None \<Rightarrow> None
     | Some c1 \<Rightarrow>
       set_durations setDatabaseDuration
         [(''connect_timeout'', rdb_ConnectTimeout r), (''health_timeout'', rdb_HealthTimeout r),
          (''statement_timeout'', rdb_StatementTimeout r), (''lock_timeout'', rdb_LockTimeout r),
          (''max_connection_lifetime'', rdb_MaxConnectionLifetime r),
          (''max_connection_idle_time'', rdb_MaxConnectionIdleTime r)]
         (set_given (rdb_MaxConnections r) (\<lambda>n. on_Database (\<lambda>b. b\<lparr>database_MaxConnections := n\<rparr>))
           (set_given (rdb_MinConnections r) (\<lambda>n. on_Database (\<lambda>b. b\<lparr>database_MinConnections := n\<rparr>)) c1)))"

definition apply_oidc :: "rawOIDC \<Rightarrow> Config \<Rightarrow> Config option" where
  "apply_oidc r c =
    set_durations setOIDCDuration [(''clock_skew'', roidc_ClockSkew r), (''discovery_timeout'', roidc_DiscoveryTimeout r)]
      (set_given (roidc_TenantMappings r) (\<lambda>s. on_OIDC (\<lambda>o'. o'\<lparr>oidc_TenantMappings := fst s\<rparr>))
        (set_given (roidc_PrincipalClaim r) (\<lambda>t. on_OIDC (\<lambda>o'. o'\<lparr>oidc_PrincipalClaim := t\<rparr>))
          (set_given (roidc_TenantClaim r) (\<lambda>t. on_OIDC (\<lambda>o'. o'\<lparr>oidc_TenantClaim := t\<rparr>))
            (set_given (roidc_AllowedAlgorithms r) (\<lambda>s. on_OIDC (\<lambda>o'. o'\<lparr>oidc_AllowedAlgorithms := fst s\<rparr>))
              (set_given (roidc_Audience r) (\<lambda>t. on_OIDC (\<lambda>o'. o'\<lparr>oidc_Audience := t\<rparr>))
                (set_given (roidc_Issuer r) (\<lambda>t. on_OIDC (\<lambda>o'. o'\<lparr>oidc_Issuer := t\<rparr>)) c))))))"

definition apply_telemetry :: "rawTelemetry \<Rightarrow> Config \<Rightarrow> Config" where
  "apply_telemetry r c =
    set_given (rtel_SampleRatio r) (\<lambda>x. on_Telemetry (\<lambda>t. t\<lparr>telemetry_SampleRatio := x\<rparr>))
      (set_given (rtel_ServiceName r) (\<lambda>x. on_Telemetry (\<lambda>t. t\<lparr>telemetry_ServiceName := x\<rparr>))
        (set_given (rtel_Endpoint r) (\<lambda>x. on_Telemetry (\<lambda>t. t\<lparr>telemetry_Endpoint := x\<rparr>))
          (set_given (rtel_Mode r) (\<lambda>x. on_Telemetry (\<lambda>t. t\<lparr>telemetry_Mode := x\<rparr>)) c)))"

definition apply_section :: "'a option \<Rightarrow> ('a \<Rightarrow> Config \<Rightarrow> Config option) \<Rightarrow> Config \<Rightarrow> Config option" where
  "apply_section raw f c = (case raw of None \<Rightarrow> Some c | Some r \<Rightarrow> f r c)"

definition rawConfig_apply :: "rawConfig \<Rightarrow> Config \<Rightarrow> Config option" where
  "rawConfig_apply r c =
    Option.bind (apply_section (raw_HTTP r) apply_http
      (set_given (raw_Authentication r) apply_authentication (set_given (raw_Mode r) (\<lambda>m c. c\<lparr>config_Mode := m\<rparr>) c))) (\<lambda>c1.
    Option.bind (apply_section (raw_Database r) apply_database c1) (\<lambda>c2.
    Option.bind (apply_section (raw_OIDC r) apply_oidc c2) (\<lambda>c3.
    Some (set_given (raw_Telemetry r) apply_telemetry
      (set_given (raw_Log r) (\<lambda>l. set_given (rlog_Level l) (\<lambda>x c. c\<lparr>config_LogLevel := x\<rparr>)) c3)))))"

definition maximumConfigFileSize :: int where "maximumConfigFileSize = 2 ^ 20"

definition applyFile :: "(string \<Rightarrow> OSFile option) \<Rightarrow> string \<Rightarrow> Config \<Rightarrow> Config option" where
  "applyFile files name c =
    (case files name of
       None \<Rightarrow> None
     | Some f \<Rightarrow>
       (if \<not> file_regular f then None
        else if file_size f > maximumConfigFileSize then None
        else case read_limited maximumConfigFileSize f of
          None \<Rightarrow> None
        | Some data \<Rightarrow>
          (case json_decode_first data of
             None \<Rightarrow> None
           | Some (v, rest) \<Rightarrow>
             (case decode_struct config_fields v zero_rawConfig of
                None \<Rightarrow> None
              | Some raw \<Rightarrow> if skip_space rest \<noteq> [] then None else rawConfig_apply raw c))))"

subsection \<open>The environment and the command line\<close>

type_synonym setter = "string \<Rightarrow> Config \<Rightarrow> Config option"

definition textSetter :: "(string \<Rightarrow> Config \<Rightarrow> Config) \<Rightarrow> setter" where
  "textSetter f v c = Some (f v c)"

definition durationSetter :: "(Duration \<Rightarrow> Config \<Rightarrow> Config) \<Rightarrow> setter" where
  "durationSetter f v c = map_option (\<lambda>d. f d c) (ParseDuration v)"

definition intSetter :: "nat \<Rightarrow> (int \<Rightarrow> Config \<Rightarrow> Config) \<Rightarrow> setter" where
  "intSetter bits f v c = map_option (\<lambda>n. f n c) (ParseInt (if bits = 0 then 64 else bits) v)"

definition secretSetter :: "(SecretRef \<Rightarrow> Config \<Rightarrow> Config) \<Rightarrow> setter" where
  "secretSetter f v c = (case ParseSecretRef v of Inl _ \<Rightarrow> None | Inr r \<Rightarrow> Some (f r c))"

definition algorithmsSetter :: setter where
  "algorithmsSetter v c =
    Some (on_OIDC (\<lambda>o'. o'\<lparr>oidc_AllowedAlgorithms := (if v = [] then [] else split_on (CHR '','') v)\<rparr>) c)"

definition mappingsSetter :: setter where
  "mappingsSetter v c =
    (case json_decode_first v of
       None \<Rightarrow> None
     | Some (j, rest) \<Rightarrow>
       (case ptr_slice (decode_struct mapping_fields) zero_mapping j None of
          None \<Rightarrow> None
        | Some s \<Rightarrow>
          (if skip_space rest \<noteq> [] then None
           else Some (on_OIDC (\<lambda>o'. o'\<lparr>oidc_TenantMappings := (case s of None \<Rightarrow> [] | Some (ms, _) \<Rightarrow> ms)\<rparr>) c))))"

definition ratioSetter :: setter where
  "ratioSetter v c = map_option (\<lambda>x. on_Telemetry (\<lambda>t. t\<lparr>telemetry_SampleRatio := x\<rparr>) c) (ParseFloat v)"

definition environmentSetters :: "(string \<times> setter) list" where
  "environmentSetters =
    [(''TPMP_MODE'', textSetter (\<lambda>v c. c\<lparr>config_Mode := v\<rparr>)),
     (''TPMP_AUTHENTICATION_MODE'', textSetter (\<lambda>v. on_Authentication (\<lambda>a. a\<lparr>auth_Mode := v\<rparr>))),
     (''TPMP_AUTHENTICATION_LOCAL_DEVELOPMENT_TENANT_ID'', textSetter (\<lambda>v. on_Local (\<lambda>l. l\<lparr>local_TenantID := v\<rparr>))),
     (''TPMP_AUTHENTICATION_LOCAL_DEVELOPMENT_PRINCIPAL'', textSetter (\<lambda>v. on_Local (\<lambda>l. l\<lparr>local_Principal := v\<rparr>))),
     (''TPMP_HTTP_ADDRESS'', textSetter (\<lambda>v. on_HTTP (\<lambda>h. h\<lparr>http_Address := v\<rparr>))),
     (''TPMP_HTTP_READ_HEADER_TIMEOUT'', durationSetter (\<lambda>d. on_HTTP (\<lambda>h. h\<lparr>http_ReadHeaderTimeout := d\<rparr>))),
     (''TPMP_HTTP_READ_TIMEOUT'', durationSetter (\<lambda>d. on_HTTP (\<lambda>h. h\<lparr>http_ReadTimeout := d\<rparr>))),
     (''TPMP_HTTP_WRITE_TIMEOUT'', durationSetter (\<lambda>d. on_HTTP (\<lambda>h. h\<lparr>http_WriteTimeout := d\<rparr>))),
     (''TPMP_HTTP_IDLE_TIMEOUT'', durationSetter (\<lambda>d. on_HTTP (\<lambda>h. h\<lparr>http_IdleTimeout := d\<rparr>))),
     (''TPMP_HTTP_SHUTDOWN_TIMEOUT'', durationSetter (\<lambda>d. on_HTTP (\<lambda>h. h\<lparr>http_ShutdownTimeout := d\<rparr>))),
     (''TPMP_HTTP_MAX_HEADER_BYTES'', intSetter 0 (\<lambda>n. on_HTTP (\<lambda>h. h\<lparr>http_MaxHeaderBytes := n\<rparr>))),
     (''TPMP_HTTP_MAX_BODY_BYTES'', intSetter 64 (\<lambda>n. on_HTTP (\<lambda>h. h\<lparr>http_MaxBodyBytes := n\<rparr>))),
     (''TPMP_DATABASE_URL'', secretSetter (\<lambda>r. on_Database (\<lambda>b. b\<lparr>database_URL := r\<rparr>))),
     (''TPMP_DATABASE_CONNECT_TIMEOUT'', durationSetter (\<lambda>d. on_Database (\<lambda>b. b\<lparr>database_ConnectTimeout := d\<rparr>))),
     (''TPMP_DATABASE_HEALTH_TIMEOUT'', durationSetter (\<lambda>d. on_Database (\<lambda>b. b\<lparr>database_HealthTimeout := d\<rparr>))),
     (''TPMP_DATABASE_STATEMENT_TIMEOUT'', durationSetter (\<lambda>d. on_Database (\<lambda>b. b\<lparr>database_StatementTimeout := d\<rparr>))),
     (''TPMP_DATABASE_LOCK_TIMEOUT'', durationSetter (\<lambda>d. on_Database (\<lambda>b. b\<lparr>database_LockTimeout := d\<rparr>))),
     (''TPMP_DATABASE_MAX_CONNECTION_LIFETIME'', durationSetter (\<lambda>d. on_Database (\<lambda>b. b\<lparr>database_MaxConnectionLifetime := d\<rparr>))),
     (''TPMP_DATABASE_MAX_CONNECTION_IDLE_TIME'', durationSetter (\<lambda>d. on_Database (\<lambda>b. b\<lparr>database_MaxConnectionIdleTime := d\<rparr>))),
     (''TPMP_DATABASE_MIN_CONNECTIONS'', intSetter 32 (\<lambda>n. on_Database (\<lambda>b. b\<lparr>database_MinConnections := n\<rparr>))),
     (''TPMP_DATABASE_MAX_CONNECTIONS'', intSetter 32 (\<lambda>n. on_Database (\<lambda>b. b\<lparr>database_MaxConnections := n\<rparr>))),
     (''TPMP_OIDC_ISSUER'', textSetter (\<lambda>v. on_OIDC (\<lambda>o'. o'\<lparr>oidc_Issuer := v\<rparr>))),
     (''TPMP_OIDC_AUDIENCE'', textSetter (\<lambda>v. on_OIDC (\<lambda>o'. o'\<lparr>oidc_Audience := v\<rparr>))),
     (''TPMP_OIDC_ALLOWED_ALGORITHMS'', algorithmsSetter),
     (''TPMP_OIDC_CLOCK_SKEW'', durationSetter (\<lambda>d. on_OIDC (\<lambda>o'. o'\<lparr>oidc_ClockSkew := d\<rparr>))),
     (''TPMP_OIDC_DISCOVERY_TIMEOUT'', durationSetter (\<lambda>d. on_OIDC (\<lambda>o'. o'\<lparr>oidc_DiscoveryTimeout := d\<rparr>))),
     (''TPMP_OIDC_TENANT_CLAIM'', textSetter (\<lambda>v. on_OIDC (\<lambda>o'. o'\<lparr>oidc_TenantClaim := v\<rparr>))),
     (''TPMP_OIDC_PRINCIPAL_CLAIM'', textSetter (\<lambda>v. on_OIDC (\<lambda>o'. o'\<lparr>oidc_PrincipalClaim := v\<rparr>))),
     (''TPMP_OIDC_TENANT_MAPPINGS'', mappingsSetter),
     (''TPMP_LOG_LEVEL'', textSetter (\<lambda>v c. c\<lparr>config_LogLevel := v\<rparr>)),
     (''TPMP_TELEMETRY_MODE'', textSetter (\<lambda>v. on_Telemetry (\<lambda>t. t\<lparr>telemetry_Mode := v\<rparr>))),
     (''TPMP_TELEMETRY_ENDPOINT'', textSetter (\<lambda>v. on_Telemetry (\<lambda>t. t\<lparr>telemetry_Endpoint := v\<rparr>))),
     (''TPMP_TELEMETRY_SERVICE_NAME'', textSetter (\<lambda>v. on_Telemetry (\<lambda>t. t\<lparr>telemetry_ServiceName := v\<rparr>))),
     (''TPMP_TELEMETRY_SAMPLE_RATIO'', ratioSetter)]"

fun apply_items :: "string set \<Rightarrow> string list \<Rightarrow> Config \<Rightarrow> Config option" where
  "apply_items seen [] c = Some c"
| "apply_items seen (item # rest) c =
    (case cut_on (CHR ''='') item of
       (name, v, found) \<Rightarrow>
         (if \<not> found \<or> \<not> prefix ''TPMP_'' name then apply_items seen rest c
          else case map_of environmentSetters name of
            None \<Rightarrow> None
          | Some set_variable \<Rightarrow>
            (if name \<in> seen then None
             else case set_variable v c of
               None \<Rightarrow> None
             | Some c' \<Rightarrow> apply_items (insert name seen) rest c')))"

definition applyEnvironment :: "string list \<Rightarrow> Config \<Rightarrow> Config option" where
  "applyEnvironment environ c = apply_items {} environ c"

definition flag_of_variable :: "string \<Rightarrow> string" where
  "flag_of_variable name =
    to_lower (map (\<lambda>c. if c = CHR ''_'' then CHR ''-'' else c) (if prefix ''TPMP_'' name then drop 5 name else name))"

definition config_flags :: "string \<Rightarrow> setter option" where
  "config_flags =
    map_of ((''config'', \<lambda>v c. Some c) # map (\<lambda>(name, set_flag). (flag_of_variable name, set_flag)) environmentSetters)"

definition applyFlags :: "string list \<Rightarrow> Config \<Rightarrow> Config option" where
  "applyFlags args c =
    (case flag_parse config_flags args c of
       None \<Rightarrow> None
     | Some (c', positional) \<Rightarrow> if length positional \<noteq> 0 then None else Some c')"

text \<open>The argument of \<open>--config\<close>, found before the flags are parsed; \<open>result\<close> is what was found so far.\<close>

fun config_argument :: "string \<Rightarrow> string list \<Rightarrow> string option" where
  "config_argument result [] = Some result"
| "config_argument result (arg # rest) =
    (if arg = ''--config'' \<or> arg = ''-config'' then
       (case rest of
          [] \<Rightarrow> None
        | given # rest' \<Rightarrow> if result \<noteq> [] then None else config_argument given rest')
     else if prefix ''--config='' arg \<or> prefix ''-config='' arg then
       (if result \<noteq> [] then None
        else config_argument (case cut_on (CHR ''='') arg of (_, given, _) \<Rightarrow> given) rest)
     else config_argument result rest)"

definition configFileArgument :: "string list \<Rightarrow> string option" where
  "configFileArgument args = config_argument [] args"

datatype load_error = LoadConfigArgument | LoadFile | LoadEnvironment | LoadFlags | LoadInvalid config_error

definition Load :: "(string \<Rightarrow> OSFile option) \<Rightarrow> string list \<Rightarrow> string list \<Rightarrow> (load_error, Config) result" where
  "Load files args environ =
    (case configFileArgument args of
       None \<Rightarrow> Inl LoadConfigArgument
     | Some name \<Rightarrow>
       (case (if name \<noteq> [] then map_option (\<lambda>c. c\<lparr>config_ConfigFile := name\<rparr>) (applyFile files name Defaults)
              else Some Defaults) of
          None \<Rightarrow> Inl LoadFile
        | Some c \<Rightarrow>
          (case applyEnvironment environ c of
             None \<Rightarrow> Inl LoadEnvironment
           | Some c1 \<Rightarrow>
             (case applyFlags args c1 of
                None \<Rightarrow> Inl LoadFlags
              | Some c2 \<Rightarrow>
                (case Config_Validate c2 of Some e \<Rightarrow> Inl (LoadInvalid e) | None \<Rightarrow> Inr c2)))))"

end
