(* ===== verification/Config_Sources.thy ===== *)
theory Config_Sources
  imports Config_Load "HOL-Library.Multiset"
begin

text \<open>
  The sources of the configuration: its settings one by one, what a variable of the environment or a
  flag of the command line does to them, and which source decides a setting.
\<close>

subsection \<open>The settings one by one\<close>

text \<open>
  A configuration as the list of its settings, in the order of \<open>environmentSetters\<close>, to treat the
  setters alike.
\<close>

datatype setting =
    SetText string | SetTexts "string list" | SetInt int | SetFloat float64 | SetSecret SecretRef
  | SetMappings "OIDCTenantMappingConfig list"

definition config_settings :: "Config \<Rightarrow> setting list" where
  "config_settings c =
    (let a = config_Authentication c; l = auth_LocalDevelopment a; h = config_HTTP c; d = config_Database c;
         o' = config_OIDC c; t = config_Telemetry c in
     [SetText (config_Mode c), SetText (auth_Mode a), SetText (local_TenantID l), SetText (local_Principal l),
      SetText (http_Address h), SetInt (http_ReadHeaderTimeout h), SetInt (http_ReadTimeout h),
      SetInt (http_WriteTimeout h), SetInt (http_IdleTimeout h), SetInt (http_ShutdownTimeout h),
      SetInt (http_MaxHeaderBytes h), SetInt (http_MaxBodyBytes h), SetSecret (database_URL d),
      SetInt (database_ConnectTimeout d), SetInt (database_HealthTimeout d), SetInt (database_StatementTimeout d),
      SetInt (database_LockTimeout d), SetInt (database_MaxConnectionLifetime d),
      SetInt (database_MaxConnectionIdleTime d), SetInt (database_MinConnections d), SetInt (database_MaxConnections d),
      SetText (oidc_Issuer o'), SetText (oidc_Audience o'), SetTexts (oidc_AllowedAlgorithms o'),
      SetInt (oidc_ClockSkew o'), SetInt (oidc_DiscoveryTimeout o'), SetText (oidc_TenantClaim o'),
      SetText (oidc_PrincipalClaim o'), SetMappings (oidc_TenantMappings o'), SetText (config_LogLevel c),
      SetText (telemetry_Mode t), SetText (telemetry_Endpoint t), SetText (telemetry_ServiceName t),
      SetFloat (telemetry_SampleRatio t)])"

lemma config_settings_inject:
  "config_settings c = config_settings c' \<Longrightarrow> config_ConfigFile c = config_ConfigFile c' \<Longrightarrow> c = c'"
  unfolding config_settings_def Let_def list.inject setting.inject
  by (elim conjE) (intro Config.equality HTTPConfig.equality DatabaseConfig.equality OIDCConfig.equality
      AuthenticationConfig.equality LocalDevelopmentAuthConfig.equality TelemetryConfig.equality; simp)

text \<open>What a text gives for the setting of a variable, whatever the configuration.\<close>

definition parse_setting :: "nat \<Rightarrow> string \<Rightarrow> setting option" where
  "parse_setting i v =
    (case snd (environmentSetters ! i) v Defaults of None \<Rightarrow> None | Some c \<Rightarrow> Some (config_settings c ! i))"

definition is_setter :: "nat \<Rightarrow> setter \<Rightarrow> bool" where
  "is_setter i f \<longleftrightarrow>
    (\<exists>p. \<forall>v c. case p v of None \<Rightarrow> f v c = None
      | Some x \<Rightarrow> \<exists>c'. f v c = Some c' \<and> config_settings c' = (config_settings c)[i := x] \<and>
          config_ConfigFile c' = config_ConfigFile c)"

lemma is_setterI:
  assumes "\<And>v c. f v c = map_option (\<lambda>x. upd x c) (p v)"
    and "\<And>x c. config_settings (upd x c) = (config_settings c)[i := g x]"
    and "\<And>x c. config_ConfigFile (upd x c) = config_ConfigFile c"
  shows "is_setter i f"
  unfolding is_setter_def
  by (rule exI [of _ "\<lambda>v. map_option g (p v)"]) (auto simp: assms split: option.splits)

lemmas update_defs = on_HTTP_def on_Database_def on_OIDC_def on_Telemetry_def on_Local_def on_Authentication_def

lemma text_setter:
  assumes "\<And>x c. config_settings (upd x c) = (config_settings c)[i := SetText x] \<and> config_ConfigFile (upd x c) = config_ConfigFile c"
  shows "is_setter i (textSetter upd)"
  by (rule is_setterI [where p = Some and g = SetText and upd = upd]) (use assms in \<open>simp_all add: textSetter_def\<close>)

lemma duration_setter:
  assumes "\<And>x c. config_settings (upd x c) = (config_settings c)[i := SetInt x] \<and> config_ConfigFile (upd x c) = config_ConfigFile c"
  shows "is_setter i (durationSetter upd)"
  by (rule is_setterI [where p = ParseDuration and g = SetInt and upd = upd]) (use assms in \<open>simp_all add: durationSetter_def\<close>)

lemma int_setter:
  assumes "\<And>x c. config_settings (upd x c) = (config_settings c)[i := SetInt x] \<and> config_ConfigFile (upd x c) = config_ConfigFile c"
  shows "is_setter i (intSetter bits upd)"
  by (rule is_setterI [where g = SetInt and upd = upd]) (use assms in \<open>simp_all add: intSetter_def\<close>)

lemma secret_setter:
  assumes "\<And>x c. config_settings (upd x c) = (config_settings c)[i := SetSecret x] \<and> config_ConfigFile (upd x c) = config_ConfigFile c"
  shows "is_setter i (secretSetter upd)"
  by (rule is_setterI [where p = "\<lambda>v. case ParseSecretRef v of Inl _ \<Rightarrow> None | Inr r \<Rightarrow> Some r" and g = SetSecret and upd = upd])
    (use assms in \<open>simp_all add: secretSetter_def split: sum.splits\<close>)

lemma algorithms_setter:
  assumes "\<And>x c. config_settings (on_OIDC (\<lambda>o'. o'\<lparr>oidc_AllowedAlgorithms := x\<rparr>) c) = (config_settings c)[i := SetTexts x]"
  shows "is_setter i algorithmsSetter"
  by (rule is_setterI [where p = "\<lambda>v. Some (if v = [] then [] else split_on (CHR '','') v)" and g = SetTexts
      and upd = "\<lambda>x. on_OIDC (\<lambda>o'. o'\<lparr>oidc_AllowedAlgorithms := x\<rparr>)"])
    (use assms in \<open>simp_all add: algorithmsSetter_def, simp add: on_OIDC_def\<close>)

lemma mappings_setter:
  assumes "\<And>x c. config_settings (on_OIDC (\<lambda>o'. o'\<lparr>oidc_TenantMappings := x\<rparr>) c) = (config_settings c)[i := SetMappings x]"
  shows "is_setter i mappingsSetter"
  by (rule is_setterI [where g = SetMappings and upd = "\<lambda>x. on_OIDC (\<lambda>o'. o'\<lparr>oidc_TenantMappings := x\<rparr>)"
      and p = "\<lambda>v. case json_decode_first v of None \<Rightarrow> None | Some (j, rest) \<Rightarrow>
        (case ptr_slice (decode_struct mapping_fields) zero_mapping j None of None \<Rightarrow> None
         | Some s \<Rightarrow> if skip_space rest \<noteq> [] then None else Some (case s of None \<Rightarrow> [] | Some (ms, _) \<Rightarrow> ms))"])
    (use assms in \<open>simp_all add: mappingsSetter_def split: option.splits prod.splits, simp add: on_OIDC_def\<close>)

lemma ratio_setter:
  assumes "\<And>x c. config_settings (on_Telemetry (\<lambda>t. t\<lparr>telemetry_SampleRatio := x\<rparr>) c) = (config_settings c)[i := SetFloat x]"
  shows "is_setter i ratioSetter"
  by (rule is_setterI [where p = ParseFloat and g = SetFloat and upd = "\<lambda>x. on_Telemetry (\<lambda>t. t\<lparr>telemetry_SampleRatio := x\<rparr>)"])
    (use assms in \<open>simp_all add: ratioSetter_def, simp add: on_Telemetry_def\<close>)

text \<open>Every variable decides its own setting and no other.\<close>

lemma environment_setters: "list_all2 is_setter [0..<34] (map snd environmentSetters)"
  unfolding environmentSetters_def
  by (simp add: upt_rec)
    (intro conjI text_setter duration_setter int_setter secret_setter algorithms_setter mappings_setter ratio_setter;
      simp add: config_settings_def update_defs Let_def)

lemma length_environmentSetters [simp]: "length environmentSetters = 34"
  by (simp add: environmentSetters_def)

lemma environment_setter: "i < 34 \<Longrightarrow> is_setter i (snd (environmentSetters ! i))"
  using environment_setters by (simp add: list_all2_conv_all_nth)

lemma distinct_variables: "distinct (map fst environmentSetters)"
  by (simp add: environmentSetters_def)

lemma setter_Some:
  assumes "i < 34"
  shows "snd (environmentSetters ! i) v c = Some c' \<longleftrightarrow>
    (\<exists>x. parse_setting i v = Some x \<and> config_settings c' = (config_settings c)[i := x] \<and>
      config_ConfigFile c' = config_ConfigFile c)"
proof -
  let ?f = "snd (environmentSetters ! i)"
  from environment_setter [OF assms] obtain p where p: "\<And>v c. case p v of None \<Rightarrow> ?f v c = None
      | Some x \<Rightarrow> \<exists>c'. ?f v c = Some c' \<and> config_settings c' = (config_settings c)[i := x] \<and>
          config_ConfigFile c' = config_ConfigFile c"
    unfolding is_setter_def by blast
  have len: "length (config_settings c) = 34" for c by (simp add: config_settings_def Let_def)
  show ?thesis
  proof (cases "p v")
    case None
    with p [of v c] p [of v Defaults] show ?thesis by (simp add: parse_setting_def)
  next
    case (Some x)
    with p [of v c] p [of v Defaults] obtain d e where
      "?f v c = Some d" "config_settings d = (config_settings c)[i := x]" "config_ConfigFile d = config_ConfigFile c"
      "?f v Defaults = Some e" "config_settings e = (config_settings Defaults)[i := x]"
      by auto
    with assms show ?thesis
      by (auto simp: parse_setting_def len intro: config_settings_inject)
  qed
qed

lemma setter_total:
  assumes "i < 34" and "parse_setting i v = Some x"
  shows "\<exists>d. snd (environmentSetters ! i) v c = Some d \<and> config_settings d = (config_settings c)[i := x] \<and>
    config_ConfigFile d = config_ConfigFile c"
proof (cases "snd (environmentSetters ! i) v c")
  case None
  from environment_setter [OF assms(1)] obtain p where p: "\<And>v c. case p v of None \<Rightarrow> snd (environmentSetters ! i) v c = None
      | Some x \<Rightarrow> \<exists>c'. snd (environmentSetters ! i) v c = Some c' \<and> config_settings c' = (config_settings c)[i := x] \<and>
          config_ConfigFile c' = config_ConfigFile c"
    unfolding is_setter_def by blast
  have "p v = None" using p [of v c] None by (cases "p v") auto
  with p [of v Defaults] assms(2) show ?thesis by (simp add: parse_setting_def)
next
  case (Some d)
  with setter_Some [OF assms(1), of v c d] assms(2) show ?thesis by auto
qed

subsection \<open>Which source decides a setting\<close>

definition variable :: "nat \<Rightarrow> string" where
  "variable i = fst (environmentSetters ! i)"

text \<open>The settings after texts were given for some of them.\<close>

definition overridden :: "(nat \<Rightarrow> string option) \<Rightarrow> setting list \<Rightarrow> setting list" where
  "overridden given ss =
    map (\<lambda>i. case given i of None \<Rightarrow> ss ! i | Some v \<Rightarrow> the (parse_setting i v)) [0..<34]"

lemma nth_overridden: "i < 34 \<Longrightarrow>
    overridden given ss ! i = (case given i of None \<Rightarrow> ss ! i | Some v \<Rightarrow> the (parse_setting i v))"
  by (simp add: overridden_def split: option.splits)

lemma length_overridden [simp]: "length (overridden given ss) = 34"
  by (simp add: overridden_def)

lemma length_config_settings [simp]: "length (config_settings c) = 34"
  by (simp add: config_settings_def Let_def)

lemma overridden_none: "overridden (\<lambda>_. None) (config_settings c) = config_settings c"
  by (rule nth_equalityI) (simp_all add: overridden_def)

lemma overridden_update:
  assumes "i < 34" and "length ss = 34" and "parse_setting i v = Some x"
  shows "overridden given (ss[i := x]) = overridden (\<lambda>j. case given j of None \<Rightarrow> if j = i then Some v else None | Some w \<Rightarrow> Some w) ss"
  using assms by (intro nth_equalityI) (auto simp: overridden_def nth_list_update split: option.splits)

lemma variable_lookup: "map_of environmentSetters name = Some f \<longleftrightarrow> (\<exists>i < 34. name = variable i \<and> f = snd (environmentSetters ! i))"
  using distinct_variables by (auto simp: map_of_eq_Some_iff in_set_conv_nth variable_def intro: prod_eqI)

lemma variable_inject: "i < 34 \<Longrightarrow> j < 34 \<Longrightarrow> variable i = variable j \<longleftrightarrow> i = j"
  using distinct_variables nth_eq_iff_index_eq [of "map fst environmentSetters" i j] by (simp add: variable_def)

text \<open>The variables of the program in an environment.\<close>

fun variables :: "string list \<Rightarrow> (string \<times> string) list" where
  "variables [] = []"
| "variables (item # rest) =
    (case cut_on (CHR ''='') item of
       (name, v, found) \<Rightarrow> if \<not> found \<or> \<not> prefix ''TPMP_'' name then variables rest else (name, v) # variables rest)"

definition accepted_variables :: "string set \<Rightarrow> (string \<times> string) list \<Rightarrow> bool" where
  "accepted_variables seen vs \<longleftrightarrow>
    distinct (map fst vs) \<and> seen \<inter> fst ` set vs = {} \<and>
    (\<forall>(name, v) \<in> set vs. \<exists>i < 34. name = variable i \<and> parse_setting i v \<noteq> None)"

lemma apply_items_Some:
  "apply_items seen items c = Some c' \<longleftrightarrow>
    accepted_variables seen (variables items) \<and> config_ConfigFile c' = config_ConfigFile c \<and>
    config_settings c' = overridden (\<lambda>i. map_of (variables items) (variable i)) (config_settings c)"
proof (induction seen items c rule: apply_items.induct)
  case (1 seen c)
  show ?case by (auto simp: accepted_variables_def overridden_none intro: config_settings_inject)
next
  case (2 seen item rest c)
  obtain name v found where cut: "cut_on (CHR ''='') item = (name, v, found)" by (metis prod_cases3)
  show ?case
  proof (cases "\<not> found \<or> \<not> prefix ''TPMP_'' name")
    case True
    with 2(1) [OF cut [symmetric] refl] cut show ?thesis by auto
  next
    case relevant: False
    show ?thesis
    proof (cases "map_of environmentSetters name")
      case None
      then have "\<not> (\<exists>i < 34. name = variable i)" using variable_lookup [of name] by force
      with relevant cut None show ?thesis by (auto simp: accepted_variables_def)
    next
      case (Some f)
      then obtain i where i: "i < 34" "name = variable i" "f = snd (environmentSetters ! i)"
        using variable_lookup by blast
      show ?thesis
      proof (cases "name \<in> seen \<or> parse_setting i v = None")
        case True
        then have "apply_items seen (item # rest) c = None"
          using relevant cut Some setter_Some [OF i(1), of v c] i(3) by (auto split: option.splits)
        moreover have "\<not> accepted_variables seen (variables (item # rest))"
          using True relevant cut i variable_inject [OF i(1)] by (auto simp: accepted_variables_def)
        ultimately show ?thesis by simp
      next
        case False
        then obtain x where x: "parse_setting i v = Some x" by auto
        then obtain d where d: "f v c = Some d" "config_settings d = (config_settings c)[i := x]"
            "config_ConfigFile d = config_ConfigFile c"
          using setter_total [OF i(1), of v x c] i(3) by auto
        have "apply_items seen (item # rest) c = apply_items (insert name seen) rest d"
          using relevant cut Some False d(1) by simp
        moreover have "accepted_variables seen (variables (item # rest)) \<longleftrightarrow> accepted_variables (insert name seen) (variables rest)"
          using relevant cut False i x by (auto simp: accepted_variables_def)
        moreover have "overridden (\<lambda>j. map_of (variables rest) (variable j)) (config_settings d) =
            overridden (\<lambda>j. map_of (variables (item # rest)) (variable j)) (config_settings c)"
          if "accepted_variables (insert name seen) (variables rest)"
        proof -
          have free: "map_of (variables rest) (variable i) = None"
            using that i(2) by (auto simp: accepted_variables_def map_of_eq_None_iff)
          show ?thesis
          proof (rule nth_equalityI)
            fix j assume "j < length (overridden (\<lambda>j. map_of (variables rest) (variable j)) (config_settings d))"
            then have j: "j < 34" by simp
            then show "overridden (\<lambda>j. map_of (variables rest) (variable j)) (config_settings d) ! j =
                overridden (\<lambda>j. map_of (variables (item # rest)) (variable j)) (config_settings c) ! j"
              using free x d(2) relevant cut i variable_inject [OF j i(1)] by (cases "j = i") (auto simp: nth_overridden split: option.splits)
          qed simp
        qed
        moreover have "apply_items (insert name seen) rest d = Some c' \<longleftrightarrow>
            accepted_variables (insert name seen) (variables rest) \<and> config_ConfigFile c' = config_ConfigFile d \<and>
            config_settings c' = overridden (\<lambda>i. map_of (variables rest) (variable i)) (config_settings d)"
          by (rule 2(2) [OF cut [symmetric] refl relevant Some _ d(1)]) (use False in simp)
        ultimately show ?thesis using d(3) by auto
      qed
    qed
  qed
qed

text \<open>The order of the environment does not matter.\<close>

lemma mset_variables: "mset items = mset items' \<Longrightarrow> mset (variables items) = mset (variables items')"
proof -
  have "mset (variables items) = image_mset (\<lambda>item. case cut_on (CHR ''='') item of (name, v, _) \<Rightarrow> (name, v))
      (filter_mset (\<lambda>item. case cut_on (CHR ''='') item of (name, _, found) \<Rightarrow> found \<and> prefix ''TPMP_'' name) (mset items))" for items
    by (induction items) (auto split: prod.splits)
  then show "mset items = mset items' \<Longrightarrow> ?thesis" by simp
qed

lemma applyEnvironment_Some:
  "applyEnvironment environ c = Some c' \<longleftrightarrow>
    accepted_variables {} (variables environ) \<and> config_ConfigFile c' = config_ConfigFile c \<and>
    config_settings c' = overridden (\<lambda>i. map_of (variables environ) (variable i)) (config_settings c)"
  unfolding applyEnvironment_def by (rule apply_items_Some)

lemma applyEnvironment_order:
  assumes "mset environ = mset environ'"
  shows "applyEnvironment environ c = applyEnvironment environ' c"
proof -
  let ?vs = "variables environ" and ?ws = "variables environ'"
  have m: "mset ?vs = mset ?ws" by (rule mset_variables [OF assms])
  then have "mset (map fst ?vs) = mset (map fst ?ws)" by (metis mset_map)
  then have d: "distinct (map fst ?vs) \<longleftrightarrow> distinct (map fst ?ws)" by (rule mset_eq_imp_distinct_iff)
  from m have "set ?vs = set ?ws" by (rule mset_eq_setD)
  then have acc: "accepted_variables {} ?vs \<longleftrightarrow> accepted_variables {} ?ws" using d by (simp add: accepted_variables_def)
  have "map_of ?vs = map_of ?ws" if "accepted_variables {} ?vs"
    by (rule map_of_inject_set [THEN iffD2]) (use that d \<open>set ?vs = set ?ws\<close> in \<open>auto simp: accepted_variables_def\<close>)
  then have "applyEnvironment environ c = Some c' \<longleftrightarrow> applyEnvironment environ' c = Some c'" for c'
    unfolding applyEnvironment_Some using acc by auto
  then show ?thesis by (metis not_Some_eq)
qed

subsection \<open>The command line\<close>

text \<open>The flags of a command line with their values, and the positional arguments.\<close>

fun flag_split :: "string list \<Rightarrow> ((string \<times> string) list \<times> string list) option" where
  "flag_split [] = Some ([], [])"
| "flag_split (s # args) =
    (if length s < 2 \<or> hd s \<noteq> CHR ''-'' then Some ([], s # args)
     else if s = ''--'' then Some ([], args)
     else if \<not> flag_syntax (flag_name s) then None
     else case cut_on (CHR ''='') (flag_name s) of
       (name, given, True) \<Rightarrow> map_option (map_prod (Cons (name, given)) id) (flag_split args)
     | (name, _, False) \<Rightarrow>
         (case args of
            [] \<Rightarrow> None
          | given # rest \<Rightarrow> map_option (map_prod (Cons (name, given)) id) (flag_split rest)))"

fun set_flags :: "(string \<Rightarrow> (string \<Rightarrow> 's \<Rightarrow> 's option) option) \<Rightarrow> (string \<times> string) list \<Rightarrow> 's \<Rightarrow> 's option" where
  "set_flags formal [] st = Some st"
| "set_flags formal ((name, given) # fs) st =
    (case formal name of
       None \<Rightarrow> None
     | Some set_flag \<Rightarrow> (case set_flag given st of None \<Rightarrow> None | Some st' \<Rightarrow> set_flags formal fs st'))"

lemma flag_parse_split:
  "flag_parse formal args st = Some (st', rest) \<longleftrightarrow>
    (\<exists>fs. flag_split args = Some (fs, rest) \<and> set_flags formal fs st = Some st')"
proof (induction formal args st rule: flag_parse.induct)
  case (2 formal s args st)
  obtain name given found where cut: "cut_on (CHR ''='') (flag_name s) = (name, given, found)" by (metis prod_cases3)
  show ?case
  proof (cases "length s < 2 \<or> hd s \<noteq> CHR ''-'' \<or> s = ''--'' \<or> \<not> flag_syntax (flag_name s)")
    case False
    then have flag: "\<not> (length s < 2 \<or> hd s \<noteq> CHR ''-'')" "s \<noteq> ''--''" "\<not> \<not> flag_syntax (flag_name s)" by blast+
    show ?thesis
    proof (cases found)
      case True
      with cut have c: "cut_on (CHR ''='') (flag_name s) = (name, given, True)" by simp
      show ?thesis
      proof (cases "formal name")
        case None
        with flag c show ?thesis by (auto simp del: append.simps)
      next
        case (Some f)
        show ?thesis
        proof (cases "f given st")
          case None
          with flag c Some show ?thesis by auto
        next
          case (Some st1)
          with flag c \<open>formal name = Some f\<close> 2(1) [OF flag c [symmetric] refl refl, of f st1] show ?thesis by auto
        qed
      qed
    next
      case False
      with cut have c: "cut_on (CHR ''='') (flag_name s) = (name, given, False)" by simp
      show ?thesis
      proof (cases args)
        case Nil
        with flag c show ?thesis by (auto split: option.splits)
      next
        case (Cons v more)
        show ?thesis
        proof (cases "formal name")
          case None
          with flag c Cons show ?thesis by auto
        next
          case (Some f)
          show ?thesis
          proof (cases "f v st")
            case None
            with flag c Some Cons show ?thesis by auto
          next
            case (Some st1)
            with flag c Cons \<open>formal name = Some f\<close> 2(2) [OF flag c [symmetric] refl refl, of f v more st1] show ?thesis by auto
          qed
        qed
      qed
    qed
  qed auto
qed auto

text \<open>Every variable has a flag of its own.\<close>

lemma variable_names: "map fst environmentSetters =
    [''TPMP_MODE'', ''TPMP_AUTHENTICATION_MODE'', ''TPMP_AUTHENTICATION_LOCAL_DEVELOPMENT_TENANT_ID'',
     ''TPMP_AUTHENTICATION_LOCAL_DEVELOPMENT_PRINCIPAL'', ''TPMP_HTTP_ADDRESS'', ''TPMP_HTTP_READ_HEADER_TIMEOUT'',
     ''TPMP_HTTP_READ_TIMEOUT'', ''TPMP_HTTP_WRITE_TIMEOUT'', ''TPMP_HTTP_IDLE_TIMEOUT'',
     ''TPMP_HTTP_SHUTDOWN_TIMEOUT'', ''TPMP_HTTP_MAX_HEADER_BYTES'', ''TPMP_HTTP_MAX_BODY_BYTES'',
     ''TPMP_DATABASE_URL'', ''TPMP_DATABASE_CONNECT_TIMEOUT'', ''TPMP_DATABASE_HEALTH_TIMEOUT'',
     ''TPMP_DATABASE_STATEMENT_TIMEOUT'', ''TPMP_DATABASE_LOCK_TIMEOUT'',
     ''TPMP_DATABASE_MAX_CONNECTION_LIFETIME'', ''TPMP_DATABASE_MAX_CONNECTION_IDLE_TIME'',
     ''TPMP_DATABASE_MIN_CONNECTIONS'', ''TPMP_DATABASE_MAX_CONNECTIONS'', ''TPMP_OIDC_ISSUER'',
     ''TPMP_OIDC_AUDIENCE'', ''TPMP_OIDC_ALLOWED_ALGORITHMS'', ''TPMP_OIDC_CLOCK_SKEW'',
     ''TPMP_OIDC_DISCOVERY_TIMEOUT'', ''TPMP_OIDC_TENANT_CLAIM'', ''TPMP_OIDC_PRINCIPAL_CLAIM'',
     ''TPMP_OIDC_TENANT_MAPPINGS'', ''TPMP_LOG_LEVEL'', ''TPMP_TELEMETRY_MODE'', ''TPMP_TELEMETRY_ENDPOINT'',
     ''TPMP_TELEMETRY_SERVICE_NAME'', ''TPMP_TELEMETRY_SAMPLE_RATIO'']"
  by (simp add: environmentSetters_def)

text \<open>A variable's name becomes the name of its flag character by character.\<close>

definition flag_char :: "char \<Rightarrow> char" where
  "flag_char c = to_lower_char (if c = CHR ''_'' then CHR ''-'' else c)"

lemma flag_char_table:
  shows
    "flag_char CHR ''A'' = CHR ''a''" "flag_char CHR ''B'' = CHR ''b''" "flag_char CHR ''C'' = CHR ''c''"
    "flag_char CHR ''D'' = CHR ''d''" "flag_char CHR ''E'' = CHR ''e''" "flag_char CHR ''F'' = CHR ''f''"
    "flag_char CHR ''G'' = CHR ''g''" "flag_char CHR ''H'' = CHR ''h''" "flag_char CHR ''I'' = CHR ''i''"
    "flag_char CHR ''J'' = CHR ''j''" "flag_char CHR ''K'' = CHR ''k''" "flag_char CHR ''L'' = CHR ''l''"
    "flag_char CHR ''M'' = CHR ''m''" "flag_char CHR ''N'' = CHR ''n''" "flag_char CHR ''O'' = CHR ''o''"
    "flag_char CHR ''P'' = CHR ''p''" "flag_char CHR ''Q'' = CHR ''q''" "flag_char CHR ''R'' = CHR ''r''"
    "flag_char CHR ''S'' = CHR ''s''" "flag_char CHR ''T'' = CHR ''t''" "flag_char CHR ''U'' = CHR ''u''"
    "flag_char CHR ''V'' = CHR ''v''" "flag_char CHR ''W'' = CHR ''w''" "flag_char CHR ''X'' = CHR ''x''"
    "flag_char CHR ''Y'' = CHR ''y''" "flag_char CHR ''Z'' = CHR ''z''" "flag_char CHR ''_'' = CHR ''-''"
  by code_simp+

lemma flag_of_name: "flag_of_variable (''TPMP_'' @ name) = map flag_char name"
  by (simp add: flag_of_variable_def to_lower_def flag_char_def comp_def)

lemma flag_names: "map (flag_of_variable \<circ> fst) environmentSetters =
    [''mode'', ''authentication-mode'', ''authentication-local-development-tenant-id'',
     ''authentication-local-development-principal'', ''http-address'', ''http-read-header-timeout'',
     ''http-read-timeout'', ''http-write-timeout'', ''http-idle-timeout'', ''http-shutdown-timeout'',
     ''http-max-header-bytes'', ''http-max-body-bytes'', ''database-url'', ''database-connect-timeout'',
     ''database-health-timeout'', ''database-statement-timeout'', ''database-lock-timeout'',
     ''database-max-connection-lifetime'', ''database-max-connection-idle-time'', ''database-min-connections'',
     ''database-max-connections'', ''oidc-issuer'', ''oidc-audience'', ''oidc-allowed-algorithms'',
     ''oidc-clock-skew'', ''oidc-discovery-timeout'', ''oidc-tenant-claim'', ''oidc-principal-claim'',
     ''oidc-tenant-mappings'', ''log-level'', ''telemetry-mode'', ''telemetry-endpoint'',
     ''telemetry-service-name'', ''telemetry-sample-ratio'']"
  unfolding map_map [symmetric] variable_names list.map
  by (simp only: flag_of_name [unfolded append.simps] flag_char_table list.map)

lemma distinct_flags: "distinct (''config'' # map (flag_of_variable \<circ> fst) environmentSetters)"
  unfolding flag_names by code_simp

lemma not_config: "i < 34 \<Longrightarrow> flag_of_variable (variable i) \<noteq> ''config''"
  using distinct_flags nth_mem [of i "map (flag_of_variable \<circ> fst) environmentSetters"]
  by (simp add: variable_def image_iff) (metis nth_mem length_environmentSetters)

lemma config_flag: "config_flags name = Some f \<longleftrightarrow>
    name = ''config'' \<and> f = (\<lambda>v c. Some c) \<or>
    (\<exists>i < 34. name = flag_of_variable (variable i) \<and> f = snd (environmentSetters ! i))"
proof -
  let ?table = "map (\<lambda>(name, set_flag). (flag_of_variable name, set_flag)) environmentSetters"
  have fst: "map fst ?table = map (flag_of_variable \<circ> fst) environmentSetters" by (simp add: comp_def case_prod_unfold)
  have d: "distinct (map fst ?table)"
    unfolding fst using distinct_flags by (simp_all only: distinct.simps simp_thms)
  have "map_of ?table name = Some f \<longleftrightarrow> (name, f) \<in> set ?table" by (rule map_of_eq_Some_iff [OF d(1)])
  also have "\<dots> \<longleftrightarrow> (\<exists>i < 34. name = flag_of_variable (variable i) \<and> f = snd (environmentSetters ! i))"
  proof -
    have "set environmentSetters = (!) environmentSetters ` {..<34}" by (auto simp: set_conv_nth)
    then have "set ?table = (\<lambda>i. (flag_of_variable (variable i), snd (environmentSetters ! i))) ` {..<34}"
      by (simp only: set_map image_image case_prod_unfold variable_def)
    then show ?thesis by (simp only: image_iff prod.inject Bex_def lessThan_iff)
  qed
  finally have table: "map_of ?table name = Some f \<longleftrightarrow> (\<exists>i < 34. name = flag_of_variable (variable i) \<and> f = snd (environmentSetters ! i))" .
  have "config_flags name = (if name = ''config'' then Some (\<lambda>v c. Some c) else map_of ?table name)"
    unfolding config_flags_def by (simp only: map_of.simps fst_conv snd_conv fun_upd_apply)
  with table not_config show ?thesis by (auto split: if_splits)
qed

lemma flag_inject: "i < 34 \<Longrightarrow> j < 34 \<Longrightarrow> flag_of_variable (variable i) = flag_of_variable (variable j) \<longleftrightarrow> i = j"
  using distinct_flags nth_eq_iff_index_eq [of "map (flag_of_variable \<circ> fst) environmentSetters" i j]
  by (simp add: variable_def comp_def)

text \<open>The last flag of a setting decides.\<close>

lemma set_flags_Some:
  "set_flags config_flags fs c = Some c' \<Longrightarrow>
    config_ConfigFile c' = config_ConfigFile c \<and>
    config_settings c' = overridden (\<lambda>i. map_of (rev fs) (flag_of_variable (variable i))) (config_settings c)"
proof (induction fs arbitrary: c)
  case Nil
  then show ?case by (simp add: overridden_none)
next
  case (Cons p fs)
  obtain name v where p: "p = (name, v)" by (cases p)
  with Cons.prems obtain f d where f: "config_flags name = Some f" and d: "f v c = Some d"
    and rest: "set_flags config_flags fs d = Some c'" by (auto split: option.splits)
  note IH = Cons.IH [OF rest]
  from f consider "name = ''config''" "d = c" | i where "i < 34" "name = flag_of_variable (variable i)" "f = snd (environmentSetters ! i)"
    using d by (auto simp: config_flag)
  then show ?case
  proof cases
    case 1
    have "overridden (\<lambda>i. map_of (rev (p # fs)) (flag_of_variable (variable i))) (config_settings c) =
        overridden (\<lambda>i. map_of (rev fs) (flag_of_variable (variable i))) (config_settings c)"
      using 1(1) p not_config by (intro nth_equalityI) (simp_all add: nth_overridden map_add_def option.case_eq_if)
    with IH 1 show ?thesis by simp
  next
    case (2 i)
    from d setter_Some [OF 2(1), of v c d] 2(3) obtain x where x: "parse_setting i v = Some x"
      "config_settings d = (config_settings c)[i := x]" "config_ConfigFile d = config_ConfigFile c" by auto
    have "overridden (\<lambda>i. map_of (rev (p # fs)) (flag_of_variable (variable i))) (config_settings c) =
        overridden (\<lambda>i. map_of (rev fs) (flag_of_variable (variable i))) (config_settings d)"
    proof (rule nth_equalityI)
      fix j assume "j < length (overridden (\<lambda>i. map_of (rev (p # fs)) (flag_of_variable (variable i))) (config_settings c))"
      then have j: "j < 34" by simp
      with 2 x p flag_inject [OF j 2(1)]
      show "overridden (\<lambda>i. map_of (rev (p # fs)) (flag_of_variable (variable i))) (config_settings c) ! j =
          overridden (\<lambda>i. map_of (rev fs) (flag_of_variable (variable i))) (config_settings d) ! j"
        by (cases "j = i") (auto simp: nth_overridden map_add_def split: option.splits)
    qed simp
    with IH x(3) show ?thesis by simp
  qed
qed

end
