(* ===== verification/Config_Properties.thy ===== *)
theory Config_Properties
  imports Config_Sources
begin

text \<open>
  Properties of the process configuration: what its validation accepts, which source decides each
  setting, and what can be printed.
\<close>

subsection \<open>A sound configuration\<close>

definition names_uuid :: "string \<Rightarrow> bool" where
  "names_uuid text \<longleftrightarrow> (\<exists>u. valid_uuid u \<and> text = UUID_String u)"

definition collector_origin :: "string \<Rightarrow> bool" where
  "collector_origin text \<longleftrightarrow>
    (\<exists>u. Parse text = Some u \<and> url_Scheme u \<in> {''http'', ''https''} \<and> url_Host u \<noteq> [] \<and> url_User u = None \<and>
      url_RawQuery u = [] \<and> url_Fragment u = [])"

text \<open>A ratio is a number from 0 to 1, or not a number at all.\<close>

definition accepted_ratio :: "float64 \<Rightarrow> bool" where
  "accepted_ratio x \<longleftrightarrow>
    (case x of NaN \<Rightarrow> True | Infinite _ \<Rightarrow> False | Finite neg m \<Rightarrow> 0 \<le> float_value neg m \<and> float_value neg m \<le> 1)"

definition wf_algorithms :: "string list \<Rightarrow> bool" where
  "wf_algorithms as \<longleftrightarrow> as \<noteq> [] \<and> distinct as \<and> set as \<subseteq> set supported_algorithms"

definition wf_mappings :: "OIDCTenantMappingConfig list \<Rightarrow> bool" where
  "wf_mappings ms \<longleftrightarrow>
    1 \<le> length ms \<and> length ms \<le> 10000 \<and> distinct (map mapping_ClaimValue ms) \<and>
    (\<forall>m \<in> set ms. validateOIDCClaimText (mapping_ClaimValue m) 1024 \<and> names_uuid (mapping_TenantID m))"

definition wf_oidc :: "OIDCConfig \<Rightarrow> bool" where
  "wf_oidc c \<longleftrightarrow>
    0 \<le> oidc_ClockSkew c \<and> oidc_ClockSkew c \<le> 5 * duration_minute \<and>
    0 < oidc_DiscoveryTimeout c \<and> oidc_DiscoveryTimeout c \<le> duration_minute \<and>
    (OIDC_configured c \<longrightarrow>
      https_origin (oidc_Issuer c) \<and> length (oidc_Audience c) \<in> {1..512} \<and> wf_algorithms (oidc_AllowedAlgorithms c) \<and>
      validateOIDCClaimText (oidc_TenantClaim c) 128 \<and> validateOIDCClaimText (oidc_PrincipalClaim c) 128 \<and>
      wf_mappings (oidc_TenantMappings c))"

definition wf_authentication :: "AuthenticationConfig \<Rightarrow> Mode \<Rightarrow> OIDCConfig \<Rightarrow> bool" where
  "wf_authentication a mode oidc \<longleftrightarrow>
    auth_Mode a = AuthenticationModeOIDC \<and> auth_LocalDevelopment a = \<lparr>local_TenantID = [], local_Principal = []\<rparr> \<or>
    auth_Mode a = AuthenticationModeLocalDevelopment \<and> mode = ModeDevelopment \<and> \<not> OIDC_configured oidc \<and>
      names_uuid (local_TenantID (auth_LocalDevelopment a)) \<and>
      validateOIDCClaimText (local_Principal (auth_LocalDevelopment a)) 237"

definition wf_telemetry :: "TelemetryConfig \<Rightarrow> bool" where
  "wf_telemetry t \<longleftrightarrow>
    length (telemetry_ServiceName t) \<in> {1..128} \<and> accepted_ratio (telemetry_SampleRatio t) \<and>
    (telemetry_Mode t = ''noop'' \<and> telemetry_Endpoint t = [] \<or>
     telemetry_Mode t = ''otlp'' \<and> collector_origin (telemetry_Endpoint t))"

definition wf_config :: "Config \<Rightarrow> bool" where
  "wf_config c \<longleftrightarrow>
    (let h = config_HTTP c; d = config_Database c in
     config_Mode c \<in> {ModeDevelopment, ModeTest, ModeProduction} \<and>
     (\<exists>host port. SplitHostPort (http_Address h) = Some (host, port)) \<and>
     (\<forall>t \<in> set (config_timeouts c). 0 < t \<and> t \<le> 24 * duration_hour) \<and>
     http_MaxHeaderBytes h \<in> {2 ^ 10 .. 2 ^ 24} \<and> http_MaxBodyBytes h \<in> {2 ^ 10 .. 2 ^ 24} \<and>
     0 \<le> database_MinConnections d \<and> database_MinConnections d \<le> database_MaxConnections d \<and>
     database_MaxConnections d \<in> {1..1000} \<and>
     (config_Mode c = ModeProduction \<longrightarrow> ref_source (database_URL d) \<noteq> SecretSourceNone) \<and>
     wf_authentication (config_Authentication c) (config_Mode c) (config_OIDC c) \<and> wf_oidc (config_OIDC c) \<and>
     config_LogLevel c \<in> {''debug'', ''info'', ''warn'', ''error''} \<and> wf_telemetry (config_Telemetry c))"

lemma names_uuid_iff: "names_uuid text \<longleftrightarrow> (\<exists>u. ParseUUID text = Inr u)"
  by (simp add: names_uuid_def ParseUUID_iff)

lemma check_algorithms_None:
  "check_algorithms seen as = None \<longleftrightarrow> distinct as \<and> set as \<inter> seen = {} \<and> set as \<subseteq> set supported_algorithms"
  by (induction seen as rule: check_algorithms.induct) auto

lemma check_mappings_None:
  "check_mappings i seen ms = None \<longleftrightarrow>
    distinct (map mapping_ClaimValue ms) \<and> mapping_ClaimValue ` set ms \<inter> seen = {} \<and>
    (\<forall>m \<in> set ms. validateOIDCClaimText (mapping_ClaimValue m) 1024 \<and> names_uuid (mapping_TenantID m))"
  by (induction i seen ms rule: check_mappings.induct) (auto simp: names_uuid_iff split: sum.splits)

lemma accepted_ratio_iff: "accepted_ratio x \<longleftrightarrow> \<not> (float_less x 0 \<or> float_greater x 1)"
  by (auto simp: accepted_ratio_def float_less_def float_greater_def split: float64.splits)

text \<open>A chain of checks finds nothing when each of them finds nothing.\<close>

lemma checks_None:
  shows "(if bad then Some e else rest) = None \<longleftrightarrow> \<not> bad \<and> rest = None"
    and "(case first of None \<Rightarrow> rest | Some e \<Rightarrow> Some e) = None \<longleftrightarrow> first = None \<and> rest = None"
    and "(case parsed of Inl e \<Rightarrow> Some (f e) | Inr y \<Rightarrow> rest) = None \<longleftrightarrow> (\<exists>y. parsed = Inr y) \<and> rest = None"
  by (auto split: option.splits sum.splits)

lemma length_bounds: "s = [] \<or> length s > n \<longleftrightarrow> length s \<notin> {1..n}"
  by (cases s) auto

lemma Telemetry_validate_None: "Telemetry_validate t = None \<longleftrightarrow> wf_telemetry t"
proof -
  have endpoint: "(case Parse s of None \<Rightarrow> Some ConfigTelemetryEndpoint
      | Some u \<Rightarrow>
          (if url_Scheme u \<noteq> ''http'' \<and> url_Scheme u \<noteq> ''https'' \<or> url_Host u = [] \<or> url_User u \<noteq> None \<or>
              url_RawQuery u \<noteq> [] \<or> url_Fragment u \<noteq> [] then Some ConfigTelemetryEndpoint else None)) = None \<longleftrightarrow>
      collector_origin s" for s
    unfolding collector_origin_def by (cases "Parse s") (simp_all add: checks_None del: not_None_eq, blast)
  have mode: "(if telemetry_Mode t = ''otlp'' then r else if telemetry_Endpoint t \<noteq> [] then Some e else None) = None \<longleftrightarrow>
      (if telemetry_Mode t = ''otlp'' then r = None else telemetry_Endpoint t = [])" for r :: "config_error option" and e :: config_error
    by simp
  show ?thesis
    unfolding Telemetry_validate_def wf_telemetry_def length_bounds checks_None mode endpoint accepted_ratio_iff by auto
qed

lemma Authentication_validate_None: "Authentication_validate a mode oidc = None \<longleftrightarrow> wf_authentication a mode oidc"
proof -
  let ?l = "auth_LocalDevelopment a"
  have empty: "?l = \<lparr>local_TenantID = [], local_Principal = []\<rparr> \<longleftrightarrow> \<not> (local_TenantID ?l \<noteq> [] \<or> local_Principal ?l \<noteq> [])"
    by (cases ?l) simp
  consider "auth_Mode a = AuthenticationModeOIDC" | "auth_Mode a = AuthenticationModeLocalDevelopment"
    | "auth_Mode a \<noteq> AuthenticationModeOIDC" "auth_Mode a \<noteq> AuthenticationModeLocalDevelopment" by blast
  then show ?thesis
    unfolding Authentication_validate_def wf_authentication_def Let_def empty
    by cases (simp_all add: checks_None names_uuid_iff)
qed

lemma OIDC_validate_None: "OIDC_validate c = None \<longleftrightarrow> wf_oidc c"
proof -
  have configured: "(if \<not> OIDC_configured c then None else r) = None \<longleftrightarrow> (OIDC_configured c \<longrightarrow> r = None)"
    for r :: "config_error option" by simp
  have count: "length ms = 0 \<or> length ms > 10000 \<longleftrightarrow> \<not> (1 \<le> length ms \<and> length ms \<le> 10000)" for ms :: "OIDCTenantMappingConfig list"
    by (cases ms) auto
  show ?thesis
    unfolding OIDC_validate_def checks_None configured count length_bounds check_algorithms_None check_mappings_None
      wf_oidc_def wf_algorithms_def wf_mappings_def
    by (simp only: not_le not_less de_Morgan_disj not_not length_0_conv Int_empty_right simp_thms conj_assoc)
qed

lemma configuration_validation_iff: "Config_Validate c = None \<longleftrightarrow> wf_config c"
proof -
  have address: "SplitHostPort a = None \<longleftrightarrow> \<not> (\<exists>host port. SplitHostPort a = Some (host, port))" for a
    by (cases "SplitHostPort a") auto
  have timeouts: "list_ex (\<lambda>t. t \<le> 0 \<or> t > 24 * duration_hour) ts \<longleftrightarrow> \<not> (\<forall>t \<in> set ts. 0 < t \<and> t \<le> 24 * duration_hour)" for ts :: "Duration list"
    by (auto simp: list_ex_iff not_le not_less)
  have size: "n < 1024 \<or> n > 16 * 2 ^ 20 \<longleftrightarrow> n \<notin> {2 ^ 10 .. 2 ^ 24}" for n :: int by auto
  have connections: "l < 0 \<or> n < 1 \<or> l > n \<or> n > 1000 \<longleftrightarrow> \<not> (0 \<le> l \<and> l \<le> n \<and> n \<in> {1..1000})" for l n :: int by auto
  show ?thesis
    unfolding Config_Validate_def wf_config_def Let_def checks_None address timeouts size connections
      Authentication_validate_None OIDC_validate_None Telemetry_validate_None SecretRef_IsSet_def
    by (simp only: insert_iff empty_iff de_Morgan_conj de_Morgan_disj not_not not_imp simp_thms conj_assoc) blast
qed


subsection \<open>The sources in their order\<close>

text \<open>
  The reference: a setting is what the last flag of its name says, else what the environment says, else
  what the file or the defaults say.
\<close>

definition layered :: "(string \<times> string) list \<Rightarrow> (string \<times> string) list \<Rightarrow> Config \<Rightarrow> nat \<Rightarrow> setting" where
  "layered flags vars base i =
    (case map_of (rev flags) (flag_of_variable (variable i)) of
       Some v \<Rightarrow> the (parse_setting i v)
     | None \<Rightarrow>
       (case map_of vars (variable i) of
          Some v \<Rightarrow> the (parse_setting i v)
        | None \<Rightarrow> config_settings base ! i))"

definition accepted_flags :: "(string \<times> string) list \<Rightarrow> bool" where
  "accepted_flags fs \<longleftrightarrow>
    (\<forall>(name, v) \<in> set fs. name = ''config'' \<or>
      (\<exists>i < 34. name = flag_of_variable (variable i) \<and> parse_setting i v \<noteq> None))"

definition file_layer :: "(string \<Rightarrow> OSFile option) \<Rightarrow> string \<Rightarrow> Config option" where
  "file_layer files name =
    (if name = [] then Some Defaults else map_option (\<lambda>c. c\<lparr>config_ConfigFile := name\<rparr>) (applyFile files name Defaults))"

lemma overridden_realised:
  assumes "\<And>i v. i < 34 \<Longrightarrow> given i = Some v \<Longrightarrow> parse_setting i v \<noteq> None"
  shows "\<exists>d. config_settings d = overridden given (config_settings c) \<and> config_ConfigFile d = config_ConfigFile c"
proof -
  have "\<exists>d. config_settings d = overridden (\<lambda>i. if i < n then given i else None) (config_settings c) \<and>
      config_ConfigFile d = config_ConfigFile c" if "n \<le> 34" for n
    using that
  proof (induction n)
    case 0
    show ?case by (auto simp: overridden_none)
  next
    case (Suc n)
    then obtain d where d: "config_settings d = overridden (\<lambda>i. if i < n then given i else None) (config_settings c)"
      "config_ConfigFile d = config_ConfigFile c" by auto
    show ?case
    proof (cases "given n")
      case None
      then have "(\<lambda>i. if i < Suc n then given i else None) = (\<lambda>i. if i < n then given i else None)"
        by (auto simp: fun_eq_iff less_Suc_eq)
      with d show ?thesis by auto
    next
      case (Some v)
      with assms [of n v] Suc.prems obtain x where x: "parse_setting n v = Some x" by auto
      then obtain e where e: "config_settings e = (config_settings d)[n := x]" "config_ConfigFile e = config_ConfigFile d"
        using setter_total [of n v x d] Suc.prems by auto
      have "config_settings e = overridden (\<lambda>i. if i < Suc n then given i else None) (config_settings c)"
        using Some x Suc.prems unfolding e(1) d(1)
        by (intro nth_equalityI) (auto simp: nth_list_update nth_overridden less_Suc_eq)
      with e(2) d(2) show ?thesis by auto
    qed
  qed
  from this [of 34] obtain d where "config_settings d = overridden (\<lambda>i. if i < 34 then given i else None) (config_settings c)"
    "config_ConfigFile d = config_ConfigFile c" by auto
  moreover have "overridden (\<lambda>i. if i < 34 then given i else None) (config_settings c) = overridden given (config_settings c)"
    by (rule nth_equalityI) (simp_all add: nth_overridden)
  ultimately show ?thesis by auto
qed

lemma set_flags_accepted: "(\<exists>c'. set_flags config_flags fs c = Some c') \<longleftrightarrow> accepted_flags fs"
proof (induction fs arbitrary: c)
  case Nil
  show ?case by (simp add: accepted_flags_def)
next
  case (Cons p fs)
  obtain name v where p: "p = (name, v)" by (cases p)
  show ?case
  proof (cases "config_flags name")
    case None
    then have "name \<noteq> ''config''" "\<not> (\<exists>i < 34. name = flag_of_variable (variable i))"
      using config_flag [of name] by force+
    with None p show ?thesis by (auto simp: accepted_flags_def)
  next
    case (Some f)
    then consider "name = ''config''" "f = (\<lambda>v c. Some c)"
      | i where "i < 34" "name = flag_of_variable (variable i)" "f = snd (environmentSetters ! i)"
      by (auto simp: config_flag)
    then show ?thesis
    proof cases
      case 1
      with Some p Cons.IH [of c] show ?thesis by (auto simp: accepted_flags_def)
    next
      case (2 i)
      have flag: "(\<exists>j < 34. name = flag_of_variable (variable j) \<and> parse_setting j v \<noteq> None) \<longleftrightarrow> parse_setting i v \<noteq> None"
        using 2(1,2) flag_inject by auto
      have no: "name \<noteq> ''config''" using 2 not_config by simp
      show ?thesis
      proof (cases "parse_setting i v")
        case None
        then have "f v c = None" using setter_Some [OF 2(1), of v c] 2(3) by (cases "f v c") auto
        with Some p None flag no show ?thesis by (auto simp: accepted_flags_def)
      next
        case (Some x)
        then obtain d where "f v c = Some d" using setter_total [OF 2(1), of v x c] 2(3) by auto
        with \<open>config_flags name = Some f\<close> p Some flag no Cons.IH [of d] show ?thesis by (auto simp: accepted_flags_def)
      qed
    qed
  qed
qed

lemma applyFlags_Some:
  "applyFlags args c = Some c' \<longleftrightarrow>
    (\<exists>fs. flag_split args = Some (fs, []) \<and> accepted_flags fs \<and> config_ConfigFile c' = config_ConfigFile c \<and>
      config_settings c' = overridden (\<lambda>i. map_of (rev fs) (flag_of_variable (variable i))) (config_settings c))"
  (is "_ \<longleftrightarrow> ?spec")
proof -
  have "applyFlags args c = Some c' \<longleftrightarrow> flag_parse config_flags args c = Some (c', [])"
    by (auto simp: applyFlags_def split: option.splits)
  also have "\<dots> \<longleftrightarrow> (\<exists>fs. flag_split args = Some (fs, []) \<and> set_flags config_flags fs c = Some c')"
    by (rule flag_parse_split)
  also have "\<dots> \<longleftrightarrow> ?spec"
  proof -
    have "set_flags config_flags fs c = Some c' \<longleftrightarrow> accepted_flags fs \<and> config_ConfigFile c' = config_ConfigFile c \<and>
        config_settings c' = overridden (\<lambda>i. map_of (rev fs) (flag_of_variable (variable i))) (config_settings c)" for fs
      using set_flags_accepted [of fs c] set_flags_Some [of fs c] config_settings_inject [of c']
      by (metis option.inject)
    then show ?thesis by simp
  qed
  finally show ?thesis .
qed

text \<open>
  C18: loading succeeds exactly when every source is acceptable and the layered result is sound, and then
  every setting is decided by its last flag, else by its variable, else by the file, else by the default.
\<close>

theorem load_is_layered:
  "Load files args environ = Inr c \<longleftrightarrow>
    (\<exists>name base flags.
      configFileArgument args = Some name \<and> file_layer files name = Some base \<and>
      flag_split args = Some (flags, []) \<and> accepted_flags flags \<and>
      accepted_variables {} (variables environ) \<and>
      config_settings c = map (layered flags (variables environ) base) [0..<34] \<and>
      config_ConfigFile c = config_ConfigFile base \<and> wf_config c)"
proof -
  have layers: "map (layered flags vars base) [0..<34] =
      overridden (\<lambda>i. map_of (rev flags) (flag_of_variable (variable i))) (config_settings base')"
    if "config_settings base' = overridden (\<lambda>i. map_of vars (variable i)) (config_settings base)" for flags vars base base'
    unfolding that by (rule nth_equalityI) (simp_all add: layered_def nth_overridden split: option.splits)
  have env: "\<exists>c1. applyEnvironment environ base = Some c1" if acc: "accepted_variables {} (variables environ)" for base
  proof -
    have "parse_setting i v \<noteq> None" if "i < 34" "map_of (variables environ) (variable i) = Some v" for i v
    proof -
      from acc map_of_SomeD [OF that(2)] obtain j where j: "j < 34" "variable i = variable j" "parse_setting j v \<noteq> None"
        unfolding accepted_variables_def by blast
      with variable_inject [OF that(1) j(1)] show ?thesis by simp
    qed
    then show ?thesis using acc overridden_realised [of "\<lambda>i. map_of (variables environ) (variable i)" base]
      unfolding applyEnvironment_Some by blast
  qed
  have "Load files args environ = Inr c \<longleftrightarrow> (\<exists>name base c1.
      configFileArgument args = Some name \<and> file_layer files name = Some base \<and>
      applyEnvironment environ base = Some c1 \<and> applyFlags args c1 = Some c \<and> wf_config c)"
    unfolding Load_def file_layer_def configuration_validation_iff [symmetric]
    by (auto split: option.splits)
  also have "\<dots> \<longleftrightarrow> (\<exists>name base flags.
      configFileArgument args = Some name \<and> file_layer files name = Some base \<and>
      flag_split args = Some (flags, []) \<and> accepted_flags flags \<and>
      accepted_variables {} (variables environ) \<and>
      config_settings c = map (layered flags (variables environ) base) [0..<34] \<and>
      config_ConfigFile c = config_ConfigFile base \<and> wf_config c)"
    (is "?l \<longleftrightarrow> ?r")
  proof
    assume ?l
    then show ?r unfolding applyFlags_Some applyEnvironment_Some by (metis layers)
  next
    assume ?r
    then obtain name base flags where r: "configFileArgument args = Some name" "file_layer files name = Some base"
      "flag_split args = Some (flags, [])" "accepted_flags flags" "accepted_variables {} (variables environ)"
      "config_settings c = map (layered flags (variables environ) base) [0..<34]"
      "config_ConfigFile c = config_ConfigFile base" "wf_config c" by blast
    from env [OF r(5)] obtain c1 where c1: "applyEnvironment environ base = Some c1" by blast
    with r layers show ?l unfolding applyFlags_Some applyEnvironment_Some by metis
  qed
  finally show ?thesis .
qed

text \<open>The order in which the environment lists its variables does not matter.\<close>

theorem environment_order_irrelevant:
  assumes "mset environ = mset environ'"
  shows "Load files args environ = Load files args environ'"
  unfolding Load_def using applyEnvironment_order [OF assms] by (simp cong: option.case_cong)

lemma environment_order_irrelevant_witness:
  "Load (\<lambda>_. None) [] [''TPMP_MODE=test'', ''PATH=bin''] =
    Load (\<lambda>_. None) [] [''PATH=bin'', ''TPMP_MODE=test'']"
  by (rule environment_order_irrelevant) (simp add: add_mset_commute)

subsection \<open>Nothing secret is printed\<close>

text \<open>A configuration without its secrets: where the database secret lies, the mapped claims, the file's name.\<close>

definition conceal :: "Config \<Rightarrow> Config" where
  "conceal c = c\<lparr>
     config_Database := (config_Database c)\<lparr>database_URL := (database_URL (config_Database c))\<lparr>ref_target := []\<rparr>\<rparr>,
     config_OIDC := (config_OIDC c)\<lparr>oidc_TenantMappings := replicate (length (oidc_TenantMappings (config_OIDC c))) zero_mapping\<rparr>,
     config_ConfigFile := (if config_ConfigFile c = [] then [] else ''-'')\<rparr>"

text \<open>Whatever the encoder, the printed configuration does not depend on the secrets: a configuration
  prints like the one without them.\<close>

theorem secrets_not_disclosed: "Config_String marshal c = Config_String marshal (conceal c)"
proof -
  have "Config_safe c = Config_safe (conceal c)"
    by (simp add: Config_safe_def conceal_def SecretRef_IsSet_def Let_def)
  then show ?thesis by (simp add: Config_String_def)
qed

subsection \<open>Loading without any source\<close>

lemma Defaults_valid: "Config_Validate Defaults = None"
  by code_simp

lemma Load_defaults: "Load files [] [] = Inr Defaults"
  by (simp add: Load_def configFileArgument_def applyEnvironment_def applyFlags_def Defaults_valid)

text \<open>A sample ratio that is not a number passes the check that it lies between 0 and 1.\<close>

theorem nan_ratio_accepted:
  "\<exists>c. Load files [] [''TPMP_TELEMETRY_SAMPLE_RATIO=NaN''] = Inr c \<and> telemetry_SampleRatio (config_Telemetry c) = NaN"
proof -
  have cut: "cut_on (CHR ''='') ''TPMP_TELEMETRY_SAMPLE_RATIO=NaN'' = (''TPMP_TELEMETRY_SAMPLE_RATIO'', ''NaN'', True)"
    by code_simp
  have nan: "ParseFloat ''NaN'' = Some NaN" by code_simp
  let ?c = "on_Telemetry (\<lambda>t. t\<lparr>telemetry_SampleRatio := NaN\<rparr>) Defaults"
  have lookup: "map_of environmentSetters ''TPMP_TELEMETRY_SAMPLE_RATIO'' = Some ratioSetter"
    by (simp add: environmentSetters_def)
  have "applyEnvironment [''TPMP_TELEMETRY_SAMPLE_RATIO=NaN''] Defaults = Some ?c"
    by (simp add: applyEnvironment_def cut lookup ratioSetter_def nan)
  moreover have "Config_Validate ?c = None" by code_simp
  ultimately have "Load files [] [''TPMP_TELEMETRY_SAMPLE_RATIO=NaN''] = Inr ?c"
    by (simp add: Load_def configFileArgument_def applyFlags_def)
  then show ?thesis by (simp add: on_Telemetry_def)
qed

end
