(* ===== verification/Identity_Properties.thy ===== *)
theory Identity_Properties
  imports Identity_Providers Config_Properties Samples
begin

text \<open>
  Properties of authentication: which tokens are accepted, which tenant and principal they establish, and
  how identities fit what the authorizer and the audit trail accept.
\<close>

subsection \<open>Accepted tokens\<close>

lemma Verifier_Verify_Inr:
  assumes "Verifier_Verify v now raw = Inr t"
  obtains token claims where
    "v_upstream v raw = Some token" "upstream_Issuer token = v_issuer v" "upstream_Claims token = Some (token_Claims t)"
    "decode_claims (token_Claims t) = Some claims" "length raw \<le> 65536"
    "length (filter (\<lambda>c. c = CHR ''.'') raw) = 2"
    "token_Issuer t = v_issuer v" "token_Subject t = claim_Subject claims" "claim_Subject claims \<noteq> []"
    "token_Audiences t = upstream_Audience token"
    "length (upstream_Audience token) > 1 \<or> claim_AuthorizedParty claims \<noteq> [] \<longrightarrow> claim_AuthorizedParty claims = v_audience v"
    "numericDate (claim_Expiry claims) = Some (token_ExpiresAt t)" "now < time_Add (token_ExpiresAt t) (v_skew v)"
    "if claim_NotBefore claims = [] then token_NotBefore t = None
     else \<exists>n. numericDate (claim_NotBefore claims) = Some n \<and> token_NotBefore t = Some n \<and> n \<le> time_Add now (v_skew v)"
proof -
  from assms obtain token rawClaims claims expiry where up: "v_upstream v raw = Some token"
    "upstream_Claims token = Some rawClaims" "decode_claims rawClaims = Some claims"
    "numericDate (claim_Expiry claims) = Some expiry"
    unfolding Verifier_Verify_def Let_def by (auto split: if_splits option.splits)
  from assms have bounds: "length raw \<le> 65536" "length (filter (\<lambda>c. c = CHR ''.'') raw) = 2"
    by (auto simp: Verifier_Verify_def maximumTokenBytes_def split: if_splits)
  from assms up obtain notBefore where t: "t = \<lparr>token_Issuer = upstream_Issuer token, token_Subject = claim_Subject claims,
      token_Audiences = upstream_Audience token, token_ExpiresAt = expiry, token_NotBefore = notBefore, token_Claims = rawClaims\<rparr>"
    and f: "upstream_Issuer token = v_issuer v" "claim_Subject claims \<noteq> []" "now < time_Add expiry (v_skew v)"
    "length (upstream_Audience token) > 1 \<or> claim_AuthorizedParty claims \<noteq> [] \<longrightarrow> claim_AuthorizedParty claims = v_audience v"
    "if claim_NotBefore claims = [] then notBefore = None
      else \<exists>n. numericDate (claim_NotBefore claims) = Some n \<and> notBefore = Some n \<and> n \<le> time_Add now (v_skew v)"
    unfolding Verifier_Verify_def Let_def by (auto split: if_splits option.splits)
  show thesis by (rule that [of token claims]) (unfold t VerifiedToken.simps, (rule up bounds f refl)+)
qed





text \<open>A token issued for one tenant, at a fixed time.\<close>

definition sample_issuer :: string where "sample_issuer = ''https://issuer''"

definition sample_claims :: string where
  "sample_claims = map (\<lambda>c. if c = CHR ''!'' then CHR 0x22 else if c = CHR ''<'' then CHR 0x7B else if c = CHR ''>'' then CHR 0x7D else c)
     ''<!sub!:!p!,!exp!:2000000000,!nbf!:1000000000,!org!:[!acme!,!other!]>''"

definition sample_upstream :: "string \<Rightarrow> upstreamToken option" where
  "sample_upstream raw =
    (if raw = ''a.b.c'' then Some \<lparr>upstream_Issuer = sample_issuer, upstream_Audience = [''mp''], upstream_Claims = Some sample_claims\<rparr>
     else None)"

definition sample_verifier_config :: VerifierConfig where
  "sample_verifier_config = \<lparr>verifier_Issuer = sample_issuer, verifier_Audience = ''mp'', verifier_AllowedAlgorithms = [''ES256''],
     verifier_ClockSkew = duration_minute, verifier_DiscoveryTimeout = duration_second\<rparr>"

definition sample_now :: Time where "sample_now = from_Unix 1500000000"

definition sample_token :: VerifiedToken where
  "sample_token = \<lparr>token_Issuer = sample_issuer, token_Subject = ''p'', token_Audiences = [''mp''],
     token_ExpiresAt = from_Unix 2000000000, token_NotBefore = Some (from_Unix 1000000000), token_Claims = sample_claims\<rparr>"


lemma sample_verified: "Verifier_Verify (newVerifier sample_verifier_config sample_upstream) sample_now ''a.b.c'' = Inr sample_token"
proof -
  have claims: "decode_claims sample_claims =
      Some \<lparr>claim_Subject = ''p'', claim_Expiry = ''2000000000'', claim_NotBefore = ''1000000000'', claim_AuthorizedParty = []\<rparr>"
    by code_simp
  have date: "numericDate ''2000000000'' = Some (from_Unix 2000000000)" "numericDate ''1000000000'' = Some (from_Unix 1000000000)"
    by (simp_all add: numericDate_def ParseInt_def strip_sign_def digits_value_def char_class_defs time_from_unix_id time_defs)
  have time: "sample_now < time_Add (from_Unix 2000000000) duration_minute" "\<not> time_Add sample_now duration_minute < from_Unix 1000000000"
    by (simp_all add: sample_now_def time_Add_def time_defs)
  have some: "sample_claims \<noteq> []" by code_simp
  show ?thesis
    using claims date time some
    by (simp add: Verifier_Verify_def newVerifier_def sample_upstream_def sample_verifier_config_def sample_token_def
        maximumTokenBytes_def Let_def)
qed


subsection \<open>Established identities\<close>

text \<open>
  C19: an identity established from a bearer credential belongs to the tenant of the one configured mapping
  among the values of the tenant claim, for the issuer of the mapping, and its principal is the opaque
  identifier of the principal claim; the services accept it.
\<close>

theorem identity_established_by_mapping:
  assumes "oidc_authenticator conf (Verifier_Verify v now) raw = Inr actor"
  shows "\<exists>token claims tenant principal m.
    v_upstream v raw = Some token \<and> upstream_Issuer token = mapconf_Issuer conf \<and>
    Option.bind (upstream_Claims token) decodeUniqueClaims = Some claims \<and>
    (mapconf_TenantClaim conf, tenant) \<in> set claims \<and> (mapconf_PrincipalClaim conf, JString principal) \<in> set claims \<and>
    {m \<in> set (mapconf_TenantMappings conf). tenant_ClaimValue m \<in> claimed_texts tenant} = {m} \<and>
    tenant_TenantID m = UUID_String (ident_TenantID actor) \<and>
    ident_PrincipalID actor = opaquePrincipalID (mapconf_Issuer conf) principal \<and>
    validateIdentity actor = Inr ()"
proof -
  from assms obtain mapper t where m: "NewMapper conf = Inr mapper" "Verifier_Verify v now raw = Inr t" "Mapper_Map mapper t = Inr actor"
    by (auto simp: oidc_authenticator_def OIDC_Authenticate_def split: sum.splits)
  from m(2) obtain token where token: "v_upstream v raw = Some token" "upstream_Issuer token = v_issuer v"
    "upstream_Claims token = Some (token_Claims t)" "token_Issuer t = v_issuer v" by (rule Verifier_Verify_Inr) blast
  from m(1,3) show ?thesis
  proof (rule Mapper_Map_Inr)
    fix claims tenant principal m
    assume c: "token_Issuer t = mapconf_Issuer conf" "decodeUniqueClaims (token_Claims t) = Some claims"
      "(mapconf_TenantClaim conf, tenant) \<in> set claims" "(mapconf_PrincipalClaim conf, JString principal) \<in> set claims"
      "{m \<in> set (mapconf_TenantMappings conf). tenant_ClaimValue m \<in> claimed_texts tenant} = {m}"
      "ParseUUID (tenant_TenantID m) = Inr (ident_TenantID actor)"
      "ident_PrincipalID actor = opaquePrincipalID (mapconf_Issuer conf) principal"
    show ?thesis
      by (intro exI [of _ token] exI [of _ claims] exI [of _ tenant] exI [of _ principal] exI [of _ m])
        (use c token oidc_identity.identity_accepted [OF assms] in \<open>simp_all add: ParseUUID_iff\<close>)
  qed
qed

definition sample_mapping :: MappingConfig where
  "sample_mapping = \<lparr>mapconf_Issuer = sample_issuer, mapconf_TenantClaim = ''org'', mapconf_PrincipalClaim = ''sub'',
     mapconf_TenantMappings = [\<lparr>tenant_ClaimValue = ''acme'', tenant_TenantID = UUID_String (sample_uuid 9)\<rparr>]\<rparr>"

lemma sample_established:
  "oidc_authenticator sample_mapping (Verifier_Verify (newVerifier sample_verifier_config sample_upstream) sample_now) ''a.b.c'' =
    Inr \<lparr>ident_TenantID = sample_uuid 9, ident_PrincipalID = opaquePrincipalID sample_issuer ''p''\<rparr>"
proof -
  have origin: "https_origin sample_issuer" by code_simp
  have names: "validateClaimName ''org''" "validateClaimName ''sub''" "validateClaimValue ''acme''" "validateClaimValue ''other''"
    "validateClaimValue ''p''"
    by (simp_all add: validateClaimName_def validateClaimValue_def maximumClaimNameBytes_def maximumClaimValueBytes_def)
  have mapper: "NewMapper sample_mapping = Inr \<lparr>mapper_issuer = sample_issuer, mapper_tenantClaim = ''org'',
      mapper_principalClaim = ''sub'', mapper_tenantByValue = [''acme'' \<mapsto> sample_uuid 9]\<rparr>"
    using origin names by (simp add: NewMapper_def sample_mapping_def maximumTenantMappings_def ParseUUID_String)
  have claims: "decodeUniqueClaims sample_claims =
      Some [(''sub'', JString ''p''), (''exp'', JNumber ''2000000000''), (''nbf'', JNumber ''1000000000''),
        (''org'', JArray [JString ''acme'', JString ''other''])]"
    by code_simp
  have some: "sample_claims \<noteq> []" by code_simp
  show ?thesis
    using claims names some
    by (simp add: oidc_authenticator_def mapper OIDC_Authenticate_def sample_verified Mapper_Map_def sample_token_def
        stringClaimValues_def decode_string_def)
qed

lemma identity_established_by_mapping_witness:
  "validateIdentity \<lparr>ident_TenantID = sample_uuid 9, ident_PrincipalID = opaquePrincipalID sample_issuer ''p''\<rparr> = Inr ()"
  using identity_established_by_mapping [OF sample_established] by blast

text \<open>
  The principals of an issuer's users cannot be mixed up: two claims give the same identifier only when
  the hashed texts, which are the same only for the same issuer and claim, have the same digest.
\<close>

definition principal_text :: "string \<Rightarrow> string \<Rightarrow> string" where
  "principal_text i v = ''thinkpixelmp:oidc-principal:v1'' @ [CHR 0x00] @ i @ [CHR 0x00] @ v"

lemma b64_encode_inject: "b64_encode s = b64_encode t \<longleftrightarrow> s = t"
  using b64_decode_encode by (metis option.inject)

lemma split_at_nul: "CHR 0x00 \<notin> set i \<Longrightarrow> CHR 0x00 \<notin> set i' \<Longrightarrow>
    i @ CHR 0x00 # v = i' @ CHR 0x00 # v' \<longleftrightarrow> i = i' \<and> v = v'"
  by (induction i arbitrary: i') (case_tac i'; auto)+

theorem principals_separated:
  assumes "CHR 0x00 \<notin> set i" and "CHR 0x00 \<notin> set i'"
  shows "(opaquePrincipalID i v = opaquePrincipalID i' v' \<longleftrightarrow> sha256_sum (principal_text i v) = sha256_sum (principal_text i' v')) \<and>
    (principal_text i v = principal_text i' v' \<longleftrightarrow> i = i' \<and> v = v')"
  by (simp add: opaquePrincipalID_def principal_text_def b64_encode_inject split_at_nul assms)

lemma principals_separated_witness: "principal_text ''https://a'' ''b'' \<noteq> principal_text ''https://a'' ''c''"
  using principals_separated [of "''https://a''" "''https://a''" "''b''" "''c''"] by simp

text \<open>A token whose start lies at the end of the range of an \<open>int64\<close>.\<close>

definition far_claims :: string where
  "far_claims = map (\<lambda>c. if c = CHR ''!'' then CHR 0x22 else if c = CHR ''<'' then CHR 0x7B else if c = CHR ''>'' then CHR 0x7D else c)
     ''<!sub!:!p!,!exp!:2000000000,!nbf!:9223372036854775807>''"

text \<open>A start time beyond the range of the clock wraps around to the distant past: the token is accepted
  although it must not be used for another 292 billion years.\<close>

theorem far_not_before_accepted:
  "\<exists>token claims.
    upstream_Issuer token = verifier_Issuer sample_verifier_config \<and> Option.bind (upstream_Claims token) decode_claims = Some claims \<and>
    ParseInt 64 (claim_NotBefore claims) = Some (2 ^ 63 - 1) \<and> sample_now < from_Unix (2 ^ 63 - 1) \<and>
    is_ok (Verifier_Verify (newVerifier sample_verifier_config (\<lambda>_. Some token)) sample_now ''a.b.c'')"
proof -
  have claims: "decode_claims far_claims =
      Some \<lparr>claim_Subject = ''p'', claim_Expiry = ''2000000000'', claim_NotBefore = ''9223372036854775807'', claim_AuthorizedParty = []\<rparr>"
    by code_simp
  have nbf: "ParseInt 64 ''9223372036854775807'' = Some (2 ^ 63 - 1)"
    by (simp add: ParseInt_def strip_sign_def digits_value_def char_class_defs)
  have expiry: "numericDate ''2000000000'' = Some (from_Unix 2000000000)"
    by (simp add: numericDate_def ParseInt_def strip_sign_def digits_value_def char_class_defs time_from_unix_id time_defs)
  have past: "time_from_unix (2 ^ 63 - 1) < 0" by (simp add: time_from_unix_def int64_add_def time_defs)
  have times: "sample_now < time_Add (from_Unix 2000000000) duration_minute" "0 < time_Add sample_now duration_minute"
    by (simp_all add: sample_now_def time_Add_def time_defs)
  have some: "far_claims \<noteq> []" by code_simp
  have now: "sample_now < from_Unix (2 ^ 63 - 1)" by (simp add: sample_now_def time_defs)
  let ?t = "\<lparr>upstream_Issuer = sample_issuer, upstream_Audience = [''mp''], upstream_Claims = Some far_claims\<rparr>"
  have "is_ok (Verifier_Verify (newVerifier sample_verifier_config (\<lambda>_. Some ?t)) sample_now ''a.b.c'')"
    using claims expiry past times some
    by (simp add: Verifier_Verify_def newVerifier_def sample_verifier_config_def maximumTokenBytes_def Let_def
        numericDate_def [of "''9223372036854775807''"] nbf is_ok_def)
  with claims nbf now show ?thesis
    by (intro exI [of _ ?t]) (simp add: sample_verifier_config_def)
qed


end
