(* ===== verification/Log_Sanitizer.thy ===== *)
theory Log_Sanitizer
  imports Go_Json
begin

text \<open>
  \<open>internal/telemetry/logging/sanitize.go\<close>: what of a value reaches the log. A value is its shape as
  \<open>reflect\<close> shows it, with the pointers in a heap, so that data may be shared and cyclic. What
  \<open>unicode.ToLower\<close> does beyond ASCII is the parameter \<open>lower\<close>.
\<close>

subsection \<open>Keys\<close>

abbreviation maxDepth :: nat where "maxDepth \<equiv> 8"
abbreviation maxCollectionEntries :: nat where "maxCollectionEntries \<equiv> 64"
abbreviation maxStringBytes :: nat where "maxStringBytes \<equiv> 4096"

definition RedactedMarker :: string where "RedactedMarker = ''[REDACTED]''"
definition TruncatedMarker :: string where "TruncatedMarker = ''[TRUNCATED]''"
definition CycleMarker :: string where "CycleMarker = ''[CYCLE]''"
definition UnsupportedMarker :: string where "UnsupportedMarker = ''[UNSUPPORTED]''"

text \<open>\<open>strings.ToLower\<close>.\<close>

definition ToLower :: "(nat \<Rightarrow> nat) \<Rightarrow> string \<Rightarrow> string" where
  "ToLower lower s =
    (if list_all (\<lambda>c. code c < 0x80) s then to_lower s
     else concat (map (\<lambda>r. utf8_encode (if r < 0x80 then (if 65 \<le> r \<and> r \<le> 90 then r + 32 else r) else lower r)) (runes s)))"

definition normalizeKey :: "(nat \<Rightarrow> nat) \<Rightarrow> string \<Rightarrow> string" where
  "normalizeKey lower key =
    ToLower lower (map (\<lambda>c. if c = CHR ''-'' \<or> c = CHR ''.'' \<or> c = CHR '' '' then CHR ''_'' else c) (trim_space key))"

definition reserved_keys :: "string list" where
  "reserved_keys =
    [''event'', ''time'', ''level'', ''msg'', ''source'', ''tenant'', ''publisher_id'', ''artifact_id'', ''artifact_version_id'',
     ''artifact_digest'', ''catalog_id'', ''promotion_request_id'', ''resolution_id'', ''import_source_id'', ''request_id'',
     ''trace_id'']"

definition reservedCorrelationKey :: "(nat \<Rightarrow> nat) \<Rightarrow> string \<Rightarrow> bool" where
  "reservedCorrelationKey lower key \<longleftrightarrow> normalizeKey lower key \<in> set reserved_keys"

definition sensitive_exact :: "string list" where
  "sensitive_exact =
    [''authorization'', ''proxy_authorization'', ''cookie'', ''set_cookie'', ''password'', ''passwd'', ''secret'', ''credential'',
     ''credentials'', ''token'', ''access_token'', ''refresh_token'', ''id_token'', ''api_key'', ''client_secret'', ''private_key'',
     ''signing_key'', ''signing_material'', ''database_url'', ''database_dsn'', ''dsn'', ''request_body'', ''response_body'',
     ''descriptor'', ''evidence'', ''evidence_payload'', ''policy_input'', ''prompt'', ''source_content'', ''raw_content'', ''query'',
     ''query_string'']"

definition sensitive_fragments :: "string list" where
  "sensitive_fragments =
    [''authorization'', ''password'', ''passwd'', ''secret'', ''token'', ''api_key'', ''cookie'', ''credential'', ''private_key'',
     ''signing_key'', ''descriptor'', ''evidence'', ''policy_input'', ''prompt'', ''source_content'']"

definition sensitive_suffixes :: "string list" where
  "sensitive_suffixes =
    [''_password'', ''_passwd'', ''_secret'', ''_token'', ''_api_key'', ''_credential'', ''_credentials'', ''_private_key'', ''_dsn'',
     ''_body'', ''_payload'']"

definition contains_text :: "string \<Rightarrow> string \<Rightarrow> bool" where
  "contains_text s fragment \<longleftrightarrow> list_ex (prefix fragment) (suffixes s)"

definition sensitiveKey :: "(nat \<Rightarrow> nat) \<Rightarrow> string \<Rightarrow> bool" where
  "sensitiveKey lower key \<longleftrightarrow>
    (let normalized = normalizeKey lower key in
     normalized \<in> set sensitive_exact \<or> list_ex (contains_text normalized) sensitive_fragments \<or>
     list_ex (\<lambda>s. suffix s normalized) sensitive_suffixes)"

text \<open>A text is cut before the character that does not fit.\<close>

fun cut_back :: "string \<Rightarrow> nat \<Rightarrow> nat" where
  "cut_back s 0 = 0"
| "cut_back s (Suc n) = (if 0x80 \<le> code (s ! Suc n) \<and> code (s ! Suc n) < 0xC0 then cut_back s n else Suc n)"

definition boundedString :: "string \<Rightarrow> string" where
  "boundedString s =
    (if length s \<le> maxStringBytes then s
     else take (cut_back s (maxStringBytes - length TruncatedMarker)) s @ TruncatedMarker)"

subsection \<open>Values\<close>

text \<open>
  The kinds of \<open>reflect\<close>: a pointer is an address, nil is address 0; a struct has its fields with name,
  \<open>json\<close> tag and whether they are exported; a map says whether its keys are strings and has its entries in the
  order they are visited; a number has its text.
\<close>

datatype shape =
    RInvalid
  | RInterface "shape option"
  | RPointer nat
  | RString string
  | RBool bool
  | RNumber string
  | RMap bool "(string \<times> shape) list"
  | RStruct "(string \<times> string \<times> bool \<times> shape) list"
  | RSlice bool "shape list"
  | RArray "shape list"
  | ROther

text \<open>What the encoder is given.\<close>

datatype clean =
    CNil
  | CString string
  | CBool bool
  | CNumber string
  | CMap "(string \<times> clean) list"
  | CList "clean list"

definition put :: "string \<Rightarrow> clean \<Rightarrow> (string \<times> clean) list \<Rightarrow> (string \<times> clean) list" where
  "put key v entries = filter (\<lambda>e. fst e \<noteq> key) entries @ [(key, v)]"

definition truncated_key :: string where "truncated_key = ''logging_truncated''"

definition field_tag :: "string \<Rightarrow> string" where
  "field_tag tag = takeWhile (\<lambda>c. c \<noteq> CHR '','') tag"

function sanitizeReflect :: "(nat \<Rightarrow> nat) \<Rightarrow> (nat \<Rightarrow> shape) \<Rightarrow> shape \<Rightarrow> nat \<Rightarrow> nat set \<Rightarrow> clean"
  and sanitize_entries ::
    "(nat \<Rightarrow> nat) \<Rightarrow> (nat \<Rightarrow> shape) \<Rightarrow> (string \<times> shape) list \<Rightarrow> nat \<Rightarrow> nat set \<Rightarrow> nat \<Rightarrow> (string \<times> clean) list \<Rightarrow>
     (string \<times> clean) list"
  and sanitize_fields ::
    "(nat \<Rightarrow> nat) \<Rightarrow> (nat \<Rightarrow> shape) \<Rightarrow> (string \<times> string \<times> bool \<times> shape) list \<Rightarrow> nat \<Rightarrow> nat set \<Rightarrow> nat \<Rightarrow>
     (string \<times> clean) list \<Rightarrow> (string \<times> clean) list"
  and sanitize_items :: "(nat \<Rightarrow> nat) \<Rightarrow> (nat \<Rightarrow> shape) \<Rightarrow> shape list \<Rightarrow> nat \<Rightarrow> nat set \<Rightarrow> nat \<Rightarrow> clean list" where
  "sanitizeReflect lower heap v depth seen =
    (if v = RInvalid then CNil
     else if depth > maxDepth then CString TruncatedMarker
     else case v of
       RInvalid \<Rightarrow> CNil
     | RInterface None \<Rightarrow> CNil
     | RInterface (Some w) \<Rightarrow> sanitizeReflect lower heap w depth seen
     | RPointer a \<Rightarrow>
         (if a = 0 then CNil
          else if a \<in> seen then CString CycleMarker
          else sanitizeReflect lower heap (heap a) (depth + 1) (insert a seen))
     | RString s \<Rightarrow> CString (boundedString s)
     | RBool b \<Rightarrow> CBool b
     | RNumber n \<Rightarrow> CNumber n
     | RMap string_keys entries \<Rightarrow>
         (if \<not> string_keys then CString UnsupportedMarker
          else CMap (sanitize_entries lower heap entries depth seen 0 []))
     | RStruct fields \<Rightarrow> CMap (sanitize_fields lower heap fields depth seen 0 [])
     | RSlice is_nil items \<Rightarrow> if is_nil then CNil else CList (sanitize_items lower heap items depth seen 0)
     | RArray items \<Rightarrow> CList (sanitize_items lower heap items depth seen 0)
     | ROther \<Rightarrow> CString UnsupportedMarker)"
| "sanitize_entries lower heap [] depth seen count clean = clean"
| "sanitize_entries lower heap ((key, v) # rest) depth seen count clean =
    (if count \<ge> maxCollectionEntries then put truncated_key (CString TruncatedMarker) clean
     else if reservedCorrelationKey lower key then sanitize_entries lower heap rest depth seen (count + 1) clean
     else sanitize_entries lower heap rest depth seen (count + 1)
       (put key (if sensitiveKey lower key then CString RedactedMarker else sanitizeReflect lower heap v (depth + 1) seen) clean))"
| "sanitize_fields lower heap [] depth seen count clean = clean"
| "sanitize_fields lower heap ((field, tag, exported, v) # rest) depth seen count clean =
    (if \<not> exported \<or> field_tag tag = ''-'' then sanitize_fields lower heap rest depth seen count clean
     else
       let name = (if field_tag tag \<noteq> [] then field_tag tag else field) in
       if reservedCorrelationKey lower name then sanitize_fields lower heap rest depth seen count clean
       else if count \<ge> maxCollectionEntries then put truncated_key (CString TruncatedMarker) clean
       else sanitize_fields lower heap rest depth seen (count + 1)
         (put name (if sensitiveKey lower name then CString RedactedMarker else sanitizeReflect lower heap v (depth + 1) seen) clean))"
| "sanitize_items lower heap [] depth seen count = []"
| "sanitize_items lower heap (v # rest) depth seen count =
    (if count \<ge> maxCollectionEntries then [CString TruncatedMarker]
     else sanitizeReflect lower heap v (depth + 1) seen # sanitize_items lower heap rest depth seen (count + 1))"
  by pat_completeness auto

text \<open>Every step goes deeper, at most one level beyond the limit, or to a part of the value.\<close>

termination
  by (relation "measures
      [case_sum (case_sum (\<lambda>(_, _, _, d, _). 9 - d) (\<lambda>(_, _, _, d, _). 9 - d)) (case_sum (\<lambda>(_, _, _, d, _). 9 - d) (\<lambda>(_, _, _, d, _). 9 - d)),
       case_sum (case_sum (\<lambda>(_, _, v, _). size v) (\<lambda>(_, _, es, _). size_list (size_prod (\<lambda>_. 0) size) es))
         (case_sum (\<lambda>(_, _, fs, _). size_list (size_prod (\<lambda>_. 0) (size_prod (\<lambda>_. 0) (size_prod (\<lambda>_. 0) size))) fs)
           (\<lambda>(_, _, vs, _). size_list size vs))]") auto

declare sanitizeReflect.simps [simp del]

lemma sanitizeReflect_RInvalid [simp]: "sanitizeReflect lower heap RInvalid depth seen = CNil"
  by (simp add: sanitizeReflect.simps)

text \<open>One equation for each kind of value.\<close>

lemmas reflect_simps =
  sanitizeReflect.simps [of _ _ "RInterface w" for w] sanitizeReflect.simps [of _ _ "RPointer a" for a]
  sanitizeReflect.simps [of _ _ "RString s" for s] sanitizeReflect.simps [of _ _ "RBool b" for b]
  sanitizeReflect.simps [of _ _ "RNumber n" for n] sanitizeReflect.simps [of _ _ "RMap b es" for b es]
  sanitizeReflect.simps [of _ _ "RStruct fs" for fs] sanitizeReflect.simps [of _ _ "RSlice b vs" for b vs]
  sanitizeReflect.simps [of _ _ "RArray vs" for vs] sanitizeReflect.simps [of _ _ ROther]

text \<open>
  A value of any type: nil, marked by \<open>Confidential\<close> or \<open>Restricted\<close>, an \<open>error\<close>, or another of some shape.
\<close>

datatype any_value = AnyNil | AnyClassified | AnyError shape | AnyOther shape

definition Confidential :: "any_value \<Rightarrow> any_value" where "Confidential _ = AnyClassified"
definition Restricted :: "any_value \<Rightarrow> any_value" where "Restricted _ = AnyClassified"

definition sanitizeAny :: "(nat \<Rightarrow> nat) \<Rightarrow> (nat \<Rightarrow> shape) \<Rightarrow> any_value \<Rightarrow> nat \<Rightarrow> clean" where
  "sanitizeAny lower heap input depth =
    (case input of
       AnyNil \<Rightarrow> CNil
     | AnyClassified \<Rightarrow> CString RedactedMarker
     | AnyError _ \<Rightarrow> CString RedactedMarker
     | AnyOther v \<Rightarrow> if depth > maxDepth then CString TruncatedMarker else sanitizeReflect lower heap v depth {})"

subsection \<open>Attributes\<close>

text \<open>
  The values of \<open>slog\<close>: texts, other scalars, groups, any values, and values that compute another; of those
  it matters whether they are errors themselves.
\<close>

datatype log_value =
    LogString string
  | LogScalar string
  | LogGroup "(string \<times> log_value) list"
  | LogAny any_value
  | LogValuer bool log_value

datatype clean_value =
    CleanString string
  | CleanScalar string
  | CleanGroup "(string \<times> clean_value) list"
  | CleanAny clean

text \<open>\<open>Value.Resolve\<close> follows at most 100 values; then the result is an error.\<close>

fun resolve :: "nat \<Rightarrow> log_value \<Rightarrow> log_value" where
  "resolve 0 (LogValuer e v) = LogAny (AnyError RInvalid)"
| "resolve (Suc n) (LogValuer e v) = resolve n v"
| "resolve n v = v"

definition maxLogValues :: nat where "maxLogValues = 100"

definition is_error_value :: "log_value \<Rightarrow> bool" where
  "is_error_value v = (case v of LogAny (AnyError _) \<Rightarrow> True | LogValuer e _ \<Rightarrow> e | _ \<Rightarrow> False)"

lemma resolve_group_size:
  "resolve n v = LogGroup attrs \<Longrightarrow> size_list (size_prod (\<lambda>_. 0) size) attrs < size v"
  by (induction n v rule: resolve.induct) auto

function sanitizeAttr :: "(nat \<Rightarrow> nat) \<Rightarrow> (nat \<Rightarrow> shape) \<Rightarrow> string \<times> log_value \<Rightarrow> nat \<Rightarrow> (string \<times> clean_value) option"
  and sanitizeAttrs ::
    "(nat \<Rightarrow> nat) \<Rightarrow> (nat \<Rightarrow> shape) \<Rightarrow> (string \<times> log_value) list \<Rightarrow> nat \<Rightarrow> nat \<Rightarrow> (string \<times> clean_value) list" where
  "sanitizeAttr lower heap attr depth =
    (case attr of (key, v) \<Rightarrow>
      (if key = [] \<or> reservedCorrelationKey lower key then None
       else if sensitiveKey lower key then Some (key, CleanString RedactedMarker)
       else if depth \<ge> maxDepth then Some (key, CleanString TruncatedMarker)
       else if is_error_value v then Some (key, CleanString RedactedMarker)
       else case resolve maxLogValues v of
         LogGroup attrs \<Rightarrow> Some (key, CleanGroup (sanitizeAttrs lower heap attrs (depth + 1) 0))
       | LogAny a \<Rightarrow> Some (key, CleanAny (sanitizeAny lower heap a (depth + 1)))
       | LogString s \<Rightarrow> Some (key, CleanString (boundedString s))
       | LogScalar s \<Rightarrow> Some (key, CleanScalar s)
       | LogValuer _ _ \<Rightarrow> None))"
| "sanitizeAttrs lower heap [] depth count = []"
| "sanitizeAttrs lower heap (attr # rest) depth count =
    (if count \<ge> maxCollectionEntries then [(truncated_key, CleanString TruncatedMarker)]
     else case sanitizeAttr lower heap attr depth of
       None \<Rightarrow> sanitizeAttrs lower heap rest depth (count + 1)
     | Some c \<Rightarrow> c # sanitizeAttrs lower heap rest depth (count + 1))"
  by pat_completeness auto

termination
  by (relation "measure (case_sum (\<lambda>(_, _, a, _). size_prod (\<lambda>_. 0) size a) (\<lambda>(_, _, as, _). size_list (size_prod (\<lambda>_. 0) size) as))")
    (auto dest!: resolve_group_size)

declare sanitizeAttr.simps [simp del]

end
