(* ===== verification/Event_Log.thy ===== *)
theory Event_Log
  imports Log_Sanitizer Go_Regexp
begin

text \<open>
  \<open>internal/telemetry/logging/logging.go\<close>: events with trusted correlation. The handler of \<open>slog\<close>, which
  turns a record into a line, is not modelled; \<open>printable\<close> is what \<open>unicode.IsPrint\<close> says beyond ASCII.
\<close>

definition maxIdentifierBytes :: nat where "maxIdentifierBytes = 128"

definition eventNamePattern :: rx where
  "eventNamePattern =
    (let part = rx_token is_lower (\<lambda>c. is_lower c \<or> is_digit c \<or> c = CHR ''_'')
     in Seq part (rx_plus (Seq (rx_char (CHR ''.'')) part)))"

record Correlation =
  corr_Tenant :: string
  corr_PublisherID :: string
  corr_ArtifactID :: string
  corr_ArtifactVersionID :: string
  corr_ArtifactDigest :: string
  corr_CatalogID :: string
  corr_PromotionRequestID :: string
  corr_ResolutionID :: string
  corr_ImportSourceID :: string
  corr_RequestID :: string
  corr_TraceID :: string

text \<open>A Go map; the list is in the order of the source.\<close>

definition correlation_fields :: "Correlation \<Rightarrow> (string \<times> string) list" where
  "correlation_fields c =
    [(''tenant'', corr_Tenant c), (''publisher_id'', corr_PublisherID c), (''artifact_id'', corr_ArtifactID c),
     (''artifact_version_id'', corr_ArtifactVersionID c), (''artifact_digest'', corr_ArtifactDigest c),
     (''catalog_id'', corr_CatalogID c), (''promotion_request_id'', corr_PromotionRequestID c),
     (''resolution_id'', corr_ResolutionID c), (''import_source_id'', corr_ImportSourceID c),
     (''request_id'', corr_RequestID c), (''trace_id'', corr_TraceID c)]"

definition zero_Correlation :: Correlation where
  "zero_Correlation = \<lparr>corr_Tenant = [], corr_PublisherID = [], corr_ArtifactID = [], corr_ArtifactVersionID = [],
     corr_ArtifactDigest = [], corr_CatalogID = [], corr_PromotionRequestID = [], corr_ResolutionID = [],
     corr_ImportSourceID = [], corr_RequestID = [], corr_TraceID = []\<rparr>"

definition safeIdentifier :: "(nat \<Rightarrow> bool) \<Rightarrow> string \<Rightarrow> bool" where
  "safeIdentifier printable text \<longleftrightarrow>
    \<not> (text = [] \<or> length text > maxIdentifierBytes \<or> trim_space text \<noteq> text) \<and>
    list_all (\<lambda>r. \<not> (is_control r \<or> is_space r \<or> \<not> (if r < 0x80 then 0x20 \<le> r \<and> r < 0x7F else printable r))) (runes text)"

text \<open>The correlation a context carries, if it carries one; a bad field rejects the whole update.\<close>

definition WithCorrelation ::
  "(nat \<Rightarrow> bool) \<Rightarrow> Correlation option \<Rightarrow> Correlation \<Rightarrow> Correlation option \<times> bool" where
  "WithCorrelation printable ctx c =
    (if list_ex (\<lambda>(name, v). v \<noteq> [] \<and> \<not> safeIdentifier printable v) (correlation_fields c) then (ctx, False)
     else (Some c, True))"

definition CorrelationFromContext :: "Correlation option \<Rightarrow> Correlation" where
  "CorrelationFromContext ctx = (case ctx of None \<Rightarrow> zero_Correlation | Some c \<Rightarrow> c)"

subsection \<open>The logger\<close>

definition LevelDebug :: int where "LevelDebug = -4"
definition LevelInfo :: int where "LevelInfo = 0"
definition LevelWarn :: int where "LevelWarn = 4"
definition LevelError :: int where "LevelError = 8"

definition ParseLevel :: "string \<Rightarrow> int option" where
  "ParseLevel text =
    (if text = ''debug'' then Some LevelDebug
     else if text = ''info'' then Some LevelInfo
     else if text = ''warn'' then Some LevelWarn
     else if text = ''error'' then Some LevelError
     else None)"

record Logger =
  logger_level :: int
  logger_attrs :: "(string \<times> log_value) list"

text \<open>The destination is not nil.\<close>

definition Logger_New :: "string \<Rightarrow> Logger option" where
  "Logger_New level = map_option (\<lambda>l. \<lparr>logger_level = l, logger_attrs = []\<rparr>) (ParseLevel level)"

text \<open>
  A sanitized value is a value again: maps with text keys, slices of interfaces, texts, numbers.
\<close>

fun clean_shape :: "clean \<Rightarrow> shape" where
  "clean_shape CNil = RInterface None"
| "clean_shape (CString s) = RString s"
| "clean_shape (CBool b) = RBool b"
| "clean_shape (CNumber n) = RNumber n"
| "clean_shape (CMap entries) = RMap True (map (\<lambda>(k, v). (k, RInterface (case v of CNil \<Rightarrow> None | _ \<Rightarrow> Some (clean_shape v)))) entries)"
| "clean_shape (CList items) = RSlice False (map (\<lambda>v. RInterface (case v of CNil \<Rightarrow> None | _ \<Rightarrow> Some (clean_shape v))) items)"

fun log_of_clean :: "clean_value \<Rightarrow> log_value" where
  "log_of_clean (CleanString s) = LogString s"
| "log_of_clean (CleanScalar s) = LogScalar s"
| "log_of_clean (CleanGroup attrs) = LogGroup (map (\<lambda>(k, v). (k, log_of_clean v)) attrs)"
| "log_of_clean (CleanAny c) = LogAny (case c of CNil \<Rightarrow> AnyNil | _ \<Rightarrow> AnyOther (clean_shape c))"

definition Logger_With :: "(nat \<Rightarrow> nat) \<Rightarrow> (nat \<Rightarrow> shape) \<Rightarrow> Logger \<Rightarrow> (string \<times> log_value) list \<Rightarrow> Logger" where
  "Logger_With lower heap logger attrs =
    \<lparr>logger_level = logger_level logger,
     logger_attrs = map (\<lambda>(k, v). (k, log_of_clean v)) (sanitizeAttrs lower heap (logger_attrs logger @ attrs) 0 0)\<rparr>"

record log_record =
  record_level :: int
  record_message :: string
  record_attrs :: "(string \<times> clean_value) list"

datatype log_outcome = InvalidEvent | LogDisabled | Logged log_record

definition Logger_Log ::
  "(nat \<Rightarrow> nat) \<Rightarrow> (nat \<Rightarrow> shape) \<Rightarrow> Logger \<Rightarrow> Correlation option \<Rightarrow> int \<Rightarrow> string \<Rightarrow> (string \<times> log_value) list \<Rightarrow> log_outcome" where
  "Logger_Log lower heap logger ctx level event attrs =
    (if \<not> matches eventNamePattern event then InvalidEvent
     else if \<not> level \<ge> logger_level logger then LogDisabled
     else Logged \<lparr>record_level = level, record_message = event,
       record_attrs = (''event'', CleanString event) #
         sanitizeAttrs lower heap (logger_attrs logger @ attrs) 0 0 @
         map (\<lambda>(name, v). (name, CleanString v))
           (filter (\<lambda>(name, v). v \<noteq> []) (correlation_fields (CorrelationFromContext ctx)))\<rparr>)"

definition Logger_Debug where "Logger_Debug lower heap logger ctx = Logger_Log lower heap logger ctx LevelDebug"
definition Logger_Info where "Logger_Info lower heap logger ctx = Logger_Log lower heap logger ctx LevelInfo"
definition Logger_Warn where "Logger_Warn lower heap logger ctx = Logger_Log lower heap logger ctx LevelWarn"
definition Logger_Error where "Logger_Error lower heap logger ctx = Logger_Log lower heap logger ctx LevelError"

end
