(* ===== verification/Log_Properties.thy ===== *)
theory Log_Properties
  imports Event_Log
begin

text \<open>
  Properties of the event log: whatever is logged, the output is bounded and holds nothing under a sensitive
  key, and the correlation cannot be forged.
\<close>

subsection \<open>Bounded and redacted\<close>

text \<open>A value of at most \<open>n\<close> levels, with bounded collections and texts, without forbidden keys.\<close>

fun clean_ok :: "(nat \<Rightarrow> nat) \<Rightarrow> nat \<Rightarrow> clean \<Rightarrow> bool" where
  "clean_ok lower n (CString s) \<longleftrightarrow> length s \<le> maxStringBytes"
| "clean_ok lower 0 (CMap entries) \<longleftrightarrow> False"
| "clean_ok lower (Suc n) (CMap entries) \<longleftrightarrow>
    length entries \<le> maxCollectionEntries + 1 \<and>
    list_all (\<lambda>(k, v). \<not> reservedCorrelationKey lower k \<and> (sensitiveKey lower k \<longrightarrow> v = CString RedactedMarker) \<and>
      clean_ok lower n v) entries"
| "clean_ok lower 0 (CList items) \<longleftrightarrow> False"
| "clean_ok lower (Suc n) (CList items) \<longleftrightarrow>
    length items \<le> maxCollectionEntries + 1 \<and> list_all (clean_ok lower n) items"
| "clean_ok lower n _ \<longleftrightarrow> True"

definition entry_ok :: "(nat \<Rightarrow> nat) \<Rightarrow> nat \<Rightarrow> string \<times> clean \<Rightarrow> bool" where
  "entry_ok lower n = (\<lambda>(k, v). \<not> reservedCorrelationKey lower k \<and>
    (sensitiveKey lower k \<longrightarrow> v = CString RedactedMarker) \<and> clean_ok lower n v)"

lemma cut_back_le: "cut_back s n \<le> n"
  by (induction s n rule: cut_back.induct) auto

lemma boundedString_length: "length (boundedString s) \<le> maxStringBytes"
proof -
  have "cut_back s (maxStringBytes - length TruncatedMarker) \<le> maxStringBytes - length TruncatedMarker" by (rule cut_back_le)
  then show ?thesis by (simp add: boundedString_def TruncatedMarker_def)
qed

lemma marker_length [simp]:
  "length RedactedMarker \<le> maxStringBytes" "length TruncatedMarker \<le> maxStringBytes"
  "length CycleMarker \<le> maxStringBytes" "length UnsupportedMarker \<le> maxStringBytes"
  "length (boundedString s) \<le> maxStringBytes"
  by (simp_all add: RedactedMarker_def TruncatedMarker_def CycleMarker_def UnsupportedMarker_def boundedString_length)

lemma normalize_truncated_key: "normalizeKey lower truncated_key = truncated_key"
proof -
  have "trim_space truncated_key = truncated_key" by code_simp
  then show ?thesis
    by (simp add: normalizeKey_def ToLower_def) (simp add: truncated_key_def to_lower_def to_lower_char_def)
qed

lemma truncated_key_free: "\<not> reservedCorrelationKey lower truncated_key" "\<not> sensitiveKey lower truncated_key"
proof -
  show "\<not> reservedCorrelationKey lower truncated_key"
    unfolding reservedCorrelationKey_def normalize_truncated_key by code_simp
  show "\<not> sensitiveKey lower truncated_key"
    unfolding sensitiveKey_def Let_def normalize_truncated_key by code_simp
qed

lemma put_ok: "list_all (entry_ok lower n) es \<Longrightarrow> entry_ok lower n (k, v) \<Longrightarrow> list_all (entry_ok lower n) (put k v es)"
  by (auto simp: put_def list_all_iff)

lemma length_put: "length (put k v es) \<le> Suc (length es)"
  by (simp add: put_def)

lemma truncated_ok: "entry_ok lower n (truncated_key, CString TruncatedMarker)"
  by (simp add: entry_ok_def truncated_key_free)

lemma clean_ok_map: "clean_ok lower (Suc n) (CMap es) \<longleftrightarrow> length es \<le> maxCollectionEntries + 1 \<and> list_all (entry_ok lower n) es"
  by (simp add: entry_ok_def)

lemma clean_ok_deeper: "clean_ok lower n c \<Longrightarrow> clean_ok lower (Suc n) c"
proof (induction lower n c rule: clean_ok.induct)
  case (3 lower n es)
  then show ?case by (auto simp: list_all_iff split: prod.splits)
next
  case (5 lower n cs)
  then show ?case by (auto simp: list_all_iff)
qed simp_all

lemma sanitize_clean:
  "clean_ok lower (9 - depth) (sanitizeReflect lower heap v depth seen)"
  "depth \<le> 8 \<Longrightarrow> length es \<le> count \<Longrightarrow> count \<le> 64 \<Longrightarrow> list_all (entry_ok lower (8 - depth)) es \<Longrightarrow>
    length (sanitize_entries lower heap entries depth seen count es) \<le> 65 \<and>
    list_all (entry_ok lower (8 - depth)) (sanitize_entries lower heap entries depth seen count es)"
  "depth \<le> 8 \<Longrightarrow> length es \<le> count \<Longrightarrow> count \<le> 64 \<Longrightarrow> list_all (entry_ok lower (8 - depth)) es \<Longrightarrow>
    length (sanitize_fields lower heap fs depth seen count es) \<le> 65 \<and>
    list_all (entry_ok lower (8 - depth)) (sanitize_fields lower heap fs depth seen count es)"
  "depth \<le> 8 \<Longrightarrow> count \<le> 64 \<Longrightarrow>
    length (sanitize_items lower heap items depth seen count) \<le> 65 - count \<and>
    list_all (clean_ok lower (8 - depth)) (sanitize_items lower heap items depth seen count)"
proof (induction lower heap v depth seen and lower heap entries depth seen count es and lower heap fs depth seen count es
    and lower heap items depth seen count rule: sanitizeReflect_sanitize_entries_sanitize_fields_sanitize_items.induct)
  case (1 lower heap v depth seen)
  show ?case
  proof (cases "v = RInvalid \<or> depth > 8")
    case True
    then show ?thesis by (cases v) (auto simp: reflect_simps)
  next
    case False
    then have n: "9 - depth = Suc (8 - depth)" "depth \<le> 8" "9 - Suc depth = 8 - depth" by auto
    show ?thesis
    proof (cases v)
      case (RInterface w)
      with 1 False n show ?thesis by (cases w) (simp_all add: reflect_simps)
    next
      case (RPointer a)
      with 1 False n show ?thesis by (auto simp: reflect_simps clean_ok_deeper)
    next
      case (RMap b es)
      with 1 False n show ?thesis by (simp add: reflect_simps clean_ok_map del: clean_ok.simps(3))
    next
      case (RStruct fs)
      with 1 False n show ?thesis by (simp add: reflect_simps clean_ok_map del: clean_ok.simps(3))
    next
      case (RSlice b vs)
      with 1 False n show ?thesis by (simp add: reflect_simps)
    next
      case (RArray vs)
      with 1 False n show ?thesis by (simp add: reflect_simps)
    qed (use False n in \<open>simp_all add: reflect_simps\<close>)
  qed
next
  case (3 lower heap key v rest depth seen count es)
  show ?case
  proof (cases "count \<ge> 64")
    case True
    with 3 show ?thesis
      using length_put [of truncated_key "CString TruncatedMarker" es] by (simp add: put_ok truncated_ok)
  next
    case False
    let ?w = "if sensitiveKey lower key then CString RedactedMarker else sanitizeReflect lower heap v (depth + 1) seen"
    have n: "9 - Suc depth = 8 - depth" by simp
    show ?thesis
    proof (cases "reservedCorrelationKey lower key")
      case True
      with 3 False show ?thesis by simp
    next
      case fresh: False
      then have "entry_ok lower (8 - depth) (key, ?w)" using 3(2) False n by (simp add: entry_ok_def)
      then show ?thesis
        using 3(3) [OF _ fresh] False fresh 3(4-7) length_put [of key ?w es] by (simp add: put_ok)
    qed
  qed
next
  case (5 lower heap field tag exported v rest depth seen count es)
  let ?name = "if field_tag tag \<noteq> [] then field_tag tag else field"
  let ?w = "if sensitiveKey lower ?name then CString RedactedMarker else sanitizeReflect lower heap v (depth + 1) seen"
  have n: "9 - Suc depth = 8 - depth" by simp
  show ?case
  proof (cases "\<not> exported \<or> field_tag tag = ''-'' \<or> reservedCorrelationKey lower ?name")
    case skipped: True
    show ?thesis
    proof (cases "\<not> exported \<or> field_tag tag = ''-''")
      case True
      then show ?thesis using 5(1) [OF True] 5(5-8) by simp
    next
      case False
      with skipped have r: "reservedCorrelationKey lower ?name" by blast
      show ?thesis using 5(2) [OF False refl r] 5(5-8) False r by (simp add: Let_def)
    qed
  next
    case False
    show ?thesis
    proof (cases "count \<ge> 64")
      case True
      with False 5 show ?thesis
        using length_put [of truncated_key "CString TruncatedMarker" es] by (simp add: put_ok truncated_ok Let_def)
    next
      case room: False
      from False have f: "\<not> (\<not> exported \<or> field_tag tag = ''-'')" "\<not> reservedCorrelationKey lower ?name" by auto
      have "entry_ok lower (8 - depth) (?name, ?w)" using 5(3) [OF f(1) refl f(2) room] f n by (simp add: entry_ok_def)
      then show ?thesis
        using 5(4) [OF f(1) refl f(2) room] f room 5(5-8) length_put [of ?name ?w es] by (simp add: put_ok Let_def)
    qed
  qed
next
  case (7 lower heap v rest depth seen count)
  then show ?case by (cases "count \<ge> 64") auto
qed simp_all

text \<open>The same for the attributes of an event.\<close>

fun value_ok :: "(nat \<Rightarrow> nat) \<Rightarrow> nat \<Rightarrow> clean_value \<Rightarrow> bool" where
  "value_ok lower n (CleanString s) \<longleftrightarrow> length s \<le> maxStringBytes"
| "value_ok lower n (CleanScalar s) \<longleftrightarrow> True"
| "value_ok lower n (CleanAny c) \<longleftrightarrow> clean_ok lower n c"
| "value_ok lower 0 (CleanGroup attrs) \<longleftrightarrow> False"
| "value_ok lower (Suc n) (CleanGroup attrs) \<longleftrightarrow>
    length attrs \<le> maxCollectionEntries + 1 \<and>
    list_all (\<lambda>(k, v). \<not> reservedCorrelationKey lower k \<and> (sensitiveKey lower k \<longrightarrow> v = CleanString RedactedMarker) \<and>
      value_ok lower n v) attrs"

definition attr_ok :: "(nat \<Rightarrow> nat) \<Rightarrow> nat \<Rightarrow> string \<times> clean_value \<Rightarrow> bool" where
  "attr_ok lower n = (\<lambda>(k, v). \<not> reservedCorrelationKey lower k \<and>
    (sensitiveKey lower k \<longrightarrow> v = CleanString RedactedMarker) \<and> value_ok lower n v)"

lemma sanitizeAny_ok: "depth \<le> 8 \<Longrightarrow> clean_ok lower (9 - depth) (sanitizeAny lower heap a depth)"
  by (cases a) (simp_all add: sanitizeAny_def sanitize_clean)

lemma sanitizeAttr_cases:
  assumes "sanitizeAttr lower heap (key, v) depth = Some (k, c)"
  shows "k = key \<and> key \<noteq> [] \<and> \<not> reservedCorrelationKey lower key \<and> (sensitiveKey lower key \<longrightarrow> c = CleanString RedactedMarker) \<and>
    ((\<exists>s. c = CleanString s \<and> length s \<le> maxStringBytes) \<or> (\<exists>s. c = CleanScalar s) \<or>
     depth < 8 \<and> (\<exists>attrs. resolve maxLogValues v = LogGroup attrs \<and> c = CleanGroup (sanitizeAttrs lower heap attrs (depth + 1) 0)) \<or>
     depth < 8 \<and> (\<exists>a. c = CleanAny (sanitizeAny lower heap a (depth + 1))))"
  using assms by (auto simp: sanitizeAttr.simps [of lower heap "(key, v)"] split: if_splits log_value.splits)

lemma sanitize_attrs_ok:
  "sanitizeAttr lower heap attr depth = Some c \<Longrightarrow> depth \<le> 8 \<Longrightarrow> attr_ok lower (8 - depth) c"
  "depth \<le> 8 \<Longrightarrow> count \<le> 64 \<Longrightarrow>
    length (sanitizeAttrs lower heap attrs depth count) \<le> 65 - count \<and>
    list_all (attr_ok lower (8 - depth)) (sanitizeAttrs lower heap attrs depth count)"
proof (induction lower heap attr depth and lower heap attrs depth count arbitrary: c and rule: sanitizeAttr_sanitizeAttrs.induct)
  case (1 lower heap attr depth)
  obtain key v where attr: "attr = (key, v)" by (cases attr)
  obtain k w where c: "c = (k, w)" by (cases c)
  note cases = sanitizeAttr_cases [OF 1(2) [unfolded attr c]]
  from cases consider "\<exists>s. w = CleanString s \<and> length s \<le> maxStringBytes" | "\<exists>s. w = CleanScalar s"
    | attrs where "depth < 8" "resolve maxLogValues v = LogGroup attrs" "w = CleanGroup (sanitizeAttrs lower heap attrs (depth + 1) 0)"
    | a where "depth < 8" "w = CleanAny (sanitizeAny lower heap a (depth + 1))" by blast
  then have "value_ok lower (8 - depth) w"
  proof cases
    case (3 attrs)
    then obtain n where n: "8 - depth = Suc n" "8 - (depth + 1) = n" by (cases "8 - depth") auto
    have "\<not> sensitiveKey lower key" using cases 3(3) by auto
    moreover have "\<not> is_error_value v" using 1(2) 3(3) calculation
      by (auto simp: attr c sanitizeAttr.simps [of lower heap "(key, v)"] split: if_splits)
    ultimately have "length (sanitizeAttrs lower heap attrs (depth + 1) 0) \<le> 65 - 0 \<and>
        list_all (attr_ok lower (8 - (depth + 1))) (sanitizeAttrs lower heap attrs (depth + 1) 0)"
      using 1(1) [OF attr [symmetric] _ _ _ _ 3(2)] cases 3(1) by simp
    with 3(3) n show ?thesis by (simp add: attr_ok_def)
  next
    case (4 a)
    then show ?thesis using sanitizeAny_ok [of "depth + 1" lower heap a] by simp
  qed auto
  with cases show ?case by (simp add: c attr_ok_def)
next
  case (3 lower heap attr rest depth count)
  have truncated: "attr_ok lower n (truncated_key, CleanString TruncatedMarker)" for n
    by (simp add: attr_ok_def truncated_key_free)
  show ?case
  proof (cases "count \<ge> 64")
    case True
    with 3 truncated show ?thesis by simp
  next
    case False
    with 3 show ?thesis by (cases "sanitizeAttr lower heap attr depth") auto
  qed
qed simp_all

lemma normalize_snake:
  assumes "k \<noteq> []" and "list_all (\<lambda>c. is_lower c \<or> c = CHR ''_'') k"
  shows "normalizeKey lower k = k"
proof -
  have c: "code c < 0x80" "\<not> is_upper c" "\<not> is_space (code c)" "c \<noteq> CHR ''-''" "c \<noteq> CHR ''.''" "c \<noteq> CHR '' ''" if "c \<in> set k" for c
    using assms(2) that by (auto simp: list_all_iff is_lower_def is_upper_def is_space_def)
  have "trim_space k = k" by (rule trim_space_id) (use assms(1) c hd_in_set last_in_set in auto)
  moreover have "map (\<lambda>c. if c = CHR ''-'' \<or> c = CHR ''.'' \<or> c = CHR '' '' then CHR ''_'' else c) k = k"
    using c(4-6) by (intro map_idI) auto
  moreover have "to_lower k = k" using c(2) by (simp add: to_lower_fixed_iff)
  ultimately show ?thesis using c(1) by (simp add: normalizeKey_def ToLower_def list_all_iff)
qed

lemma reserved_names: "k \<in> set reserved_keys \<Longrightarrow> reservedCorrelationKey lower k"
proof -
  assume k: "k \<in> set reserved_keys"
  have "list_all (\<lambda>k. k \<noteq> [] \<and> list_all (\<lambda>c. is_lower c \<or> c = CHR ''_'') k) reserved_keys" by code_simp
  with k have "k \<noteq> []" "list_all (\<lambda>c. is_lower c \<or> c = CHR ''_'') k" by (simp_all add: list_all_iff)
  then have "normalizeKey lower k = k" by (rule normalize_snake)
  with k show ?thesis by (simp add: reservedCorrelationKey_def)
qed

lemma correlation_names: "fst ` set (correlation_fields c) \<subseteq> set reserved_keys"
  by (simp add: correlation_fields_def reserved_keys_def)

text \<open>
  C20: of an event that is logged, the attributes are its name, the trusted correlation of the context and
  sanitized attributes that cannot pass for them: every value under a sensitive key is the marker, and the
  values have at most eight levels of at most 65 entries with texts of at most 4096 bytes, also when the data
  is cyclic.
\<close>

theorem logged_event_safe:
  assumes "Logger_Log lower heap logger ctx level event attrs = Logged r"
  shows "matches eventNamePattern event \<and> logger_level logger \<le> level \<and> length (record_attrs r) \<le> 77 \<and>
    (\<forall>(k, v) \<in> set (record_attrs r).
      if reservedCorrelationKey lower k
      then (k, v) = (''event'', CleanString event) \<or>
        (\<exists>t. v = CleanString t \<and> t \<noteq> [] \<and> (k, t) \<in> set (correlation_fields (CorrelationFromContext ctx)))
      else (sensitiveKey lower k \<longrightarrow> v = CleanString RedactedMarker) \<and> value_ok lower 8 v)"
proof -
  let ?corr = "filter (\<lambda>(name, v). v \<noteq> []) (correlation_fields (CorrelationFromContext ctx))"
  let ?clean = "sanitizeAttrs lower heap (logger_attrs logger @ attrs) 0 0"
  from assms have r: "matches eventNamePattern event" "logger_level logger \<le> level"
    "record_attrs r = (''event'', CleanString event) # ?clean @ map (\<lambda>(name, v). (name, CleanString v)) ?corr"
    by (auto simp: Logger_Log_def split: if_splits)
  have clean: "length ?clean \<le> 65" "list_all (attr_ok lower 8) ?clean"
    using sanitize_attrs_ok(2) [of 0 0 lower heap "logger_attrs logger @ attrs"] by simp_all
  have "length ?corr \<le> length (correlation_fields (CorrelationFromContext ctx))" by (rule length_filter_le)
  then have "length (record_attrs r) \<le> 77" using clean(1) by (simp add: r(3) correlation_fields_def)
  moreover have "reservedCorrelationKey lower ''event''" by (rule reserved_names) (simp add: reserved_keys_def)
  moreover have "reservedCorrelationKey lower k" if "(k, t) \<in> set (correlation_fields (CorrelationFromContext ctx))" for k t
    using that correlation_names [of "CorrelationFromContext ctx"] by (intro reserved_names) force
  ultimately show ?thesis
    using clean(2) r by (auto simp: list_all_iff attr_ok_def)
qed

lemma logged_event_safe_witness:
  "\<exists>r. Logger_Log id (\<lambda>_. RInvalid) \<lparr>logger_level = LevelInfo, logger_attrs = []\<rparr> None LevelError ''a.b''
      [(''api-key'', LogString ''x''), (''tenant'', LogString ''y''), (''n'', LogScalar ''1'')] = Logged r \<and>
    (\<forall>(k, v) \<in> set (record_attrs r). sensitiveKey id k \<longrightarrow> v = CleanString RedactedMarker \<or> k = ''event'')"
proof -
  let ?log = "Logger_Log id (\<lambda>_. RInvalid) \<lparr>logger_level = LevelInfo, logger_attrs = []\<rparr> None LevelError ''a.b''
      [(''api-key'', LogString ''x''), (''tenant'', LogString ''y''), (''n'', LogScalar ''1'')]"
  have "matches eventNamePattern ''a.b''" by code_simp
  then have "\<exists>r. ?log = Logged r" by (simp add: Logger_Log_def LevelInfo_def LevelError_def)
  then obtain r where r: "?log = Logged r" by blast
  have none: "\<not> t \<noteq> []" if "(k, t) \<in> set (correlation_fields (CorrelationFromContext None))" for k t
    using that by (auto simp: correlation_fields_def CorrelationFromContext_def zero_Correlation_def)
  from logged_event_safe [OF r] none r show ?thesis by (fastforce split: if_splits)
qed

subsection \<open>Sensitive values have no influence\<close>

text \<open>A value with everything removed that lies under a sensitive key or in a field that is not shown.\<close>

fun masked :: "(nat \<Rightarrow> nat) \<Rightarrow> shape \<Rightarrow> shape" where
  "masked lower (RInterface w) = RInterface (map_option (masked lower) w)"
| "masked lower (RMap b es) = RMap b (map (\<lambda>(k, v). (k, if sensitiveKey lower k then RInvalid else masked lower v)) es)"
| "masked lower (RStruct fs) = RStruct (map (\<lambda>(f, t, e, v). (f, t, e,
     if \<not> e \<or> field_tag t = ''-'' \<or> sensitiveKey lower (if field_tag t \<noteq> [] then field_tag t else f) then RInvalid
     else masked lower v)) fs)"
| "masked lower (RSlice b vs) = RSlice b (map (masked lower) vs)"
| "masked lower (RArray vs) = RArray (map (masked lower) vs)"
| "masked lower v = v"

fun mask_any :: "(nat \<Rightarrow> nat) \<Rightarrow> any_value \<Rightarrow> any_value" where
  "mask_any lower (AnyError v) = AnyError RInvalid"
| "mask_any lower (AnyOther v) = AnyOther (masked lower v)"
| "mask_any lower a = a"

fun mask_value :: "(nat \<Rightarrow> nat) \<Rightarrow> log_value \<Rightarrow> log_value" where
  "mask_value lower (LogAny a) = LogAny (mask_any lower a)"
| "mask_value lower (LogGroup attrs) =
    LogGroup (map (\<lambda>(k, v). (k,
      if sensitiveKey lower k then LogString [] else if is_error_value v then LogAny (AnyError RInvalid) else mask_value lower v)) attrs)"
| "mask_value lower (LogValuer e v) = LogValuer e (mask_value lower v)"
| "mask_value lower v = v"


lemma masked_RInvalid [simp]: "masked lower v = RInvalid \<longleftrightarrow> v = RInvalid"
  by (cases v) auto



lemma is_error_mask [simp]: "is_error_value (mask_value lower v) = is_error_value v"
  by (cases v) (auto simp: is_error_value_def split: any_value.splits elim: mask_any.elims)






end
