(* ===== verification/Go_Http.thy ===== *)
theory Go_Http
  imports Config_Load Event_Log
begin

text \<open>
  What the HTTP adapter uses of the standard library: \<open>json.Decoder\<close> over a body that may end early,
  \<open>url.ParseQuery\<close>, \<open>strings.Fields\<close>, \<open>strings.EqualFold\<close>, and the matching of paths by \<open>http.ServeMux\<close>.
\<close>

subsection \<open>A stream of JSON values\<close>

text \<open>The bytes a reader gives, and what it gives then: the end, \<open>MaxBytesError\<close> or another error.\<close>

datatype stream_end = StreamEOF | StreamTooLarge | StreamBroken

type_synonym stream = "string \<times> stream_end"

text \<open>\<open>http.MaxBytesReader\<close>.\<close>

definition MaxBytesReader :: "int \<Rightarrow> stream \<Rightarrow> stream" where
  "MaxBytesReader limit body =
    (if int (length (fst body)) \<le> limit then body else (take (nat limit) (fst body), StreamTooLarge))"

text \<open>
  The scanner of \<open>encoding/json\<close> says whether bytes that are not a value may become one: its states,
  with the enclosing objects and arrays.
\<close>

datatype frame = ObjectKey | ObjectValue | ArrayValue

datatype scan_state = BeginValue | BeginValueOrEmpty | BeginString | BeginStringOrEmpty | InString | InStringEsc
  | InStringEscU nat | Neg | Zero | Digits | Dot | Dot0 | Exponent | ExponentSign | Exponent0 | Word string | EndValue

datatype scan_result = ScanMore scan_state "frame list" | ScanEnd | ScanError

definition scan_close :: "frame list \<Rightarrow> scan_result" where
  "scan_close frames = (case frames of [] \<Rightarrow> ScanEnd | [f] \<Rightarrow> ScanEnd | f # g # fs \<Rightarrow> ScanMore EndValue (g # fs))"

definition scan_open :: "scan_state \<Rightarrow> frame \<Rightarrow> frame list \<Rightarrow> scan_result" where
  "scan_open state f frames = (if length frames \<ge> max_nesting then ScanError else ScanMore state (f # frames))"

definition scan_begin :: "frame list \<Rightarrow> char \<Rightarrow> scan_result" where
  "scan_begin frames c =
    (if code c = 0x7B then scan_open BeginStringOrEmpty ObjectKey frames
     else if c = CHR ''['' then scan_open BeginValueOrEmpty ArrayValue frames
     else if code c = 0x22 then ScanMore InString frames
     else if c = CHR ''-'' then ScanMore Neg frames
     else if c = CHR ''0'' then ScanMore Zero frames
     else if c = CHR ''t'' then ScanMore (Word ''rue'') frames
     else if c = CHR ''f'' then ScanMore (Word ''alse'') frames
     else if c = CHR ''n'' then ScanMore (Word ''ull'') frames
     else if is_digit c then ScanMore Digits frames
     else ScanError)"

definition scan_after :: "frame list \<Rightarrow> char \<Rightarrow> scan_result" where
  "scan_after frames c =
    (case frames of
       [] \<Rightarrow> ScanEnd
     | f # fs \<Rightarrow>
       (if is_json_space c then ScanMore EndValue frames
        else case f of
          ObjectKey \<Rightarrow> (if c = CHR '':'' then ScanMore BeginValue (ObjectValue # fs) else ScanError)
        | ObjectValue \<Rightarrow>
            (if c = CHR '','' then ScanMore BeginString (ObjectKey # fs)
             else if code c = 0x7D then scan_close frames else ScanError)
        | ArrayValue \<Rightarrow>
            (if c = CHR '','' then ScanMore BeginValue frames
             else if c = CHR '']'' then scan_close frames else ScanError)))"

definition scan_fraction :: "frame list \<Rightarrow> char \<Rightarrow> scan_result" where
  "scan_fraction frames c =
    (if c = CHR ''e'' \<or> c = CHR ''E'' then ScanMore Exponent frames else scan_after frames c)"

fun scan_step :: "scan_state \<Rightarrow> frame list \<Rightarrow> char \<Rightarrow> scan_result" where
  "scan_step BeginValue frames c = (if is_json_space c then ScanMore BeginValue frames else scan_begin frames c)"
| "scan_step BeginValueOrEmpty frames c =
    (if is_json_space c then ScanMore BeginValueOrEmpty frames
     else if c = CHR '']'' then scan_close frames else scan_begin frames c)"
| "scan_step BeginString frames c =
    (if is_json_space c then ScanMore BeginString frames
     else if code c = 0x22 then ScanMore InString frames else ScanError)"
| "scan_step BeginStringOrEmpty frames c =
    (if is_json_space c then ScanMore BeginStringOrEmpty frames
     else if code c = 0x7D then scan_close frames
     else if code c = 0x22 then ScanMore InString frames else ScanError)"
| "scan_step InString frames c =
    (if code c = 0x22 then ScanMore EndValue frames
     else if code c = 0x5C then ScanMore InStringEsc frames
     else if code c < 0x20 then ScanError else ScanMore InString frames)"
| "scan_step InStringEsc frames c =
    (if c = CHR ''u'' then ScanMore (InStringEscU 3) frames
     else if simple_escape c \<noteq> None then ScanMore InString frames else ScanError)"
| "scan_step (InStringEscU n) frames c =
    (if hex_value c = None then ScanError
     else ScanMore (if n = 0 then InString else InStringEscU (n - 1)) frames)"
| "scan_step Neg frames c =
    (if c = CHR ''0'' then ScanMore Zero frames else if is_digit c then ScanMore Digits frames else ScanError)"
| "scan_step Zero frames c = (if c = CHR ''.'' then ScanMore Dot frames else scan_fraction frames c)"
| "scan_step Digits frames c =
    (if is_digit c then ScanMore Digits frames
     else if c = CHR ''.'' then ScanMore Dot frames else scan_fraction frames c)"
| "scan_step Dot frames c = (if is_digit c then ScanMore Dot0 frames else ScanError)"
| "scan_step Dot0 frames c = (if is_digit c then ScanMore Dot0 frames else scan_fraction frames c)"
| "scan_step Exponent frames c =
    (if c = CHR ''+'' \<or> c = CHR ''-'' then ScanMore ExponentSign frames
     else if is_digit c then ScanMore Exponent0 frames else ScanError)"
| "scan_step ExponentSign frames c = (if is_digit c then ScanMore Exponent0 frames else ScanError)"
| "scan_step Exponent0 frames c = (if is_digit c then ScanMore Exponent0 frames else scan_after frames c)"
| "scan_step (Word w) frames c =
    (if w \<noteq> [] \<and> c = hd w then ScanMore (if tl w = [] then EndValue else Word (tl w)) frames else ScanError)"
| "scan_step EndValue frames c = scan_after frames c"

fun scan_incomplete :: "scan_state \<Rightarrow> frame list \<Rightarrow> string \<Rightarrow> bool" where
  "scan_incomplete state frames [] = True"
| "scan_incomplete state frames (c # cs) =
    (case scan_step state frames c of ScanMore state' frames' \<Rightarrow> scan_incomplete state' frames' cs | _ \<Rightarrow> False)"

datatype decode_failure = BodyInvalid | BodyTooLarge

definition stream_failure :: "stream_end \<Rightarrow> decode_failure" where
  "stream_failure e = (if e = StreamTooLarge then BodyTooLarge else BodyInvalid)"

definition delimited :: "json \<Rightarrow> bool" where
  "delimited v = (case v of JObject _ \<Rightarrow> True | JArray _ \<Rightarrow> True | _ \<Rightarrow> False)"

text \<open>
  \<open>Decoder.readValue\<close>: an object or array ends with its bracket, any other value is only known to end
  at the byte after it or at the end of the input.
\<close>

definition Decoder_read :: "stream \<Rightarrow> (decode_failure, json \<times> stream) result" where
  "Decoder_read s =
    (case json_decode_first (fst s) of
       None \<Rightarrow> Inl (if scan_incomplete BeginValue [] (fst s) then stream_failure (snd s) else BodyInvalid)
     | Some (v, rest) \<Rightarrow>
       (if delimited v \<or> rest \<noteq> [] \<or> snd s = StreamEOF then Inr (v, rest, snd s) else Inl (stream_failure (snd s))))"

subsection \<open>Queries\<close>

text \<open>\<open>url.QueryUnescape\<close>; a pair that is malformed is left out of what \<open>URL.Query\<close> answers.\<close>

definition QueryUnescape :: "string \<Rightarrow> string option" where
  "QueryUnescape s = unescape EncodePath (map (\<lambda>c. if c = CHR ''+'' then CHR '' '' else c) s)"

definition query_pair :: "string \<Rightarrow> (string \<times> string) option" where
  "query_pair part =
    (if part = [] \<or> CHR '';'' \<in> set part then None
     else case cut_on (CHR ''='') part of
       (key, v, _) \<Rightarrow>
         (case (QueryUnescape key, QueryUnescape v) of (Some k, Some w) \<Rightarrow> Some (k, w) | _ \<Rightarrow> None))"

definition max_query_parameters :: nat where "max_query_parameters = 10000"

definition URL_Query :: "string \<Rightarrow> (string \<times> string) list" where
  "URL_Query raw =
    (let parts = split_on (CHR ''&'') raw in
     if length parts > max_query_parameters then [] else List.map_filter query_pair parts)"

definition query_all_values :: "(string \<times> string) list \<Rightarrow> string \<Rightarrow> string list" where
  "query_all_values query key = map snd (filter (\<lambda>p. fst p = key) query)"

definition first_value :: "string list \<Rightarrow> string" where
  "first_value vs = (case vs of [] \<Rightarrow> [] | v # _ \<Rightarrow> v)"

definition query_Get :: "(string \<times> string) list \<Rightarrow> string \<Rightarrow> string" where
  "query_Get query key = first_value (query_all_values query key)"

subsection \<open>Text\<close>

definition nonempty_field :: "string \<Rightarrow> string list" where
  "nonempty_field cur = (if cur = [] then [] else [cur])"

text \<open>\<open>strings.Fields\<close>; the first argument is the field read so far.\<close>

function Fields :: "string \<Rightarrow> string \<Rightarrow> string list" where
  "Fields cur s =
    (if s = [] then nonempty_field cur
     else case decode_rune s of
       None \<Rightarrow> Fields (cur @ [hd s]) (tl s)
     | Some (r, w) \<Rightarrow>
       (if is_space r then nonempty_field cur @ Fields [] (drop w s) else Fields (cur @ take w s) (drop w s)))"
  by pat_completeness auto
termination
  by (relation "measure (\<lambda>(cur, s). length s)") (auto dest: decode_rune_width)

declare Fields.simps [simp del]

definition EqualFold :: "string \<Rightarrow> string \<Rightarrow> bool" where
  "EqualFold s t \<longleftrightarrow> map fold_rune (runes s) = map fold_rune (runes t)"

subsection \<open>Paths\<close>

text \<open>\<open>cleanPath\<close> of \<open>net/http\<close>: \<open>path.Clean\<close> of a rooted path, with the slash at its end put back.\<close>

fun clean_segments :: "string list \<Rightarrow> string list \<Rightarrow> string list" where
  "clean_segments acc [] = rev acc"
| "clean_segments acc (e # es) =
    (if e = [] \<or> e = ''.'' then clean_segments acc es
     else if e = ''..'' then clean_segments (tl acc) es
     else clean_segments (e # acc) es)"

definition cleanPath :: "string \<Rightarrow> string" where
  "cleanPath p =
    (let np = CHR ''/'' # join_with (CHR ''/'') (clean_segments [] (split_on (CHR ''/'') p)) in
     if p \<noteq> [] \<and> last p = CHR ''/'' \<and> np \<noteq> ''/'' then np @ ''/'' else np)"

text \<open>The segments a pattern is matched with: each is unescaped by itself.\<close>

definition path_segments :: "string \<Rightarrow> string list" where
  "path_segments p =
    map (\<lambda>seg. case unescape EncodePath seg of None \<Rightarrow> seg | Some s \<Rightarrow> s) (split_on (CHR ''/'') (tl p))"

datatype route = RouteCollection | RouteMember string | RouteMissing | RouteMoved string

definition match_resource :: "string \<Rightarrow> string \<Rightarrow> route" where
  "match_resource collection p =
    (case path_segments p of
       [v1, c] \<Rightarrow> (if v1 = ''v1'' \<and> c = collection then RouteCollection else RouteMissing)
     | [v1, c, m] \<Rightarrow> (if v1 = ''v1'' \<and> c = collection \<and> m \<noteq> [] then RouteMember m else RouteMissing)
     | _ \<Rightarrow> RouteMissing)"

text \<open>
  \<open>mux.Handler\<close> with the patterns \<open>/v1/c\<close> and \<open>/v1/c/{id}\<close>: a path that is not clean is redirected to the
  clean one when that has a pattern, but not for \<open>CONNECT\<close>.
\<close>

definition resource_route :: "string \<Rightarrow> string \<Rightarrow> string \<Rightarrow> route" where
  "resource_route collection method p =
    (if method = ''CONNECT'' then match_resource collection p
     else let q = cleanPath p in
       if match_resource collection q = RouteMissing then RouteMissing
       else if q \<noteq> p then RouteMoved q
       else match_resource collection q)"

end
