(* ===== verification/Http_Adapter.thy ===== *)
theory Http_Adapter
  imports Go_Http Identity_Providers Artifact_Service Namespace_Service Publisher_Service
begin

text \<open>
  \<open>internal/adapters/http\<close>: the transport of the publication use cases. A handler reads a request and
  answers with a response while the use case works on the world. Where the multiplexer redirects, and
  where a use case panics, there is no response of the handler.
\<close>

subsection \<open>Requests and responses\<close>

text \<open>
  The request with the headers the adapter reads, its escaped path (which begins with a slash), and
  what its context carries.
\<close>

record Request =
  req_Method :: string
  req_Path :: string
  req_RawQuery :: string
  req_Authorization :: "string list"
  req_IdempotencyKey :: "string list"
  req_ContentLength :: int
  req_Body :: stream
  req_Ctx :: Ctx
  req_Correlation :: "Correlation option"

record Response =
  resp_Status :: nat
  resp_Headers :: "(string \<times> string) list"
  resp_Body :: string

datatype handled = Responded Response | MovedTo string | HandlerPanic

type_synonym handler = "Request \<Rightarrow> World \<Rightarrow> handled \<times> World"

definition requestID :: "Request \<Rightarrow> string" where
  "requestID request = corr_RequestID (CorrelationFromContext (req_Correlation request))"

subsection \<open>response.go\<close>

definition text_line :: "json \<Rightarrow> string" where
  "text_line v = json_encode v @ [CHR 10]"

definition problem_json :: "string \<Rightarrow> string \<Rightarrow> nat \<Rightarrow> string \<Rightarrow> string \<Rightarrow> json" where
  "problem_json kind title status reason rid =
    JObject ([(''type'', JString kind), (''title'', JString title), (''status'', JNumber (dec_digits status)),
      (''code'', JString reason)] @ omitempty ''request_id'' rid)"

definition writeProblem :: "(string \<times> string) list \<Rightarrow> nat \<Rightarrow> string \<Rightarrow> string \<Rightarrow> string \<Rightarrow> string \<Rightarrow> handled" where
  "writeProblem headers status cls reason title rid = Responded
    \<lparr>resp_Status = status,
     resp_Headers = headers @ [(''Content-Type'', ''application/problem+json''), (''Cache-Control'', ''no-store'')],
     resp_Body = text_line (problem_json (''https://thinkpixel.dev/problems/'' @ cls @ ''/'' @ reason) title status
       reason rid)\<rparr>"

definition status_of_class :: "ErrorClass \<Rightarrow> nat \<times> string" where
  "status_of_class cls =
    (if cls = ErrorInvalid then (400, ''Bad Request'')
     else if cls = ErrorNotFound then (404, ''Not Found'')
     else if cls = ErrorConflict then (409, ''Conflict'')
     else if cls = ErrorUnauthorized then (401, ''Unauthorized'')
     else if cls = ErrorForbidden then (403, ''Forbidden'')
     else if cls = ErrorUnavailable then (503, ''Service Unavailable'')
     else (500, ''Internal Server Error''))"

text \<open>A call that panicked has no error to write.\<close>

definition WriteError :: "(string \<times> string) list \<Rightarrow> Request \<Rightarrow> go_error \<Rightarrow> handled" where
  "WriteError headers request err =
    (case err of
       TypedError cls reason \<Rightarrow>
         (case status_of_class cls of
            (status, title) \<Rightarrow> writeProblem headers status cls (ReasonCode_String reason) title (requestID request))
     | PlainError _ \<Rightarrow>
         writeProblem headers 500 ''internal'' ''internal_error'' ''Internal Server Error'' (requestID request)
     | Panicked \<Rightarrow> HandlerPanic)"

definition writeHealth :: handled where
  "writeHealth = Responded
    \<lparr>resp_Status = 200,
     resp_Headers = [(''Content-Type'', ''application/json''), (''Cache-Control'', ''no-store'')],
     resp_Body = text_line (JObject [(''status'', JString ''ok'')])\<rparr>"

definition method_not_allowed :: "Request \<Rightarrow> handled" where
  "method_not_allowed request =
    writeProblem [] 405 ''invalid'' ''method_not_allowed'' ''Method Not Allowed'' (requestID request)"

definition route_not_found :: "Request \<Rightarrow> handled" where
  "route_not_found request = writeProblem [] 404 ''not_found'' ''route_not_found'' ''Not Found'' (requestID request)"

subsection \<open>Helpers of publisher.go\<close>

definition httpTyped :: "ErrorClass \<Rightarrow> string \<Rightarrow> go_error" where
  "httpTyped cls text =
    NewTypedError cls (case NewReasonCode text of Inl _ \<Rightarrow> ReasonCode [] | Inr reason \<Rightarrow> reason)"

definition writeJSON :: "(string \<times> string) list \<Rightarrow> nat \<Rightarrow> json \<Rightarrow> handled" where
  "writeJSON headers status v = Responded
    \<lparr>resp_Status = status,
     resp_Headers = headers @ [(''Content-Type'', ''application/json''), (''Cache-Control'', ''private, no-store'')],
     resp_Body = text_line v\<rparr>"

definition authenticate ::
  "(string \<Rightarrow> (go_error, Identity) result) \<Rightarrow> Request \<Rightarrow> (go_error, Identity) result" where
  "authenticate auth request =
    (let refused = Inl (httpTyped ErrorUnauthorized ''identity.invalid_authorization'') in
     case req_Authorization request of
       [] \<Rightarrow> auth []
     | [v] \<Rightarrow>
       (case Fields [] v of
          [scheme, credential] \<Rightarrow> (if EqualFold scheme ''Bearer'' then auth credential else refused)
        | _ \<Rightarrow> refused)
     | _ \<Rightarrow> refused)"

definition withAuditIdentity :: "Request \<Rightarrow> Identity \<Rightarrow> (go_error, Request) result" where
  "withAuditIdentity request mapped =
    (let correlation = CorrelationFromContext (req_Correlation request) in
     case (if corr_RequestID correlation = [] then Inr None
           else map_sum id Some (ParseUUID (corr_RequestID correlation))) of
       Inl _ \<Rightarrow> Inl (httpTyped ErrorInternal ''audit.context_unavailable'')
     | Inr requestIdentifier \<Rightarrow>
       (case NewActor (ident_PrincipalID mapped) requestIdentifier (corr_TraceID correlation) of
          Inl _ \<Rightarrow> Inl (httpTyped ErrorUnauthorized ''authorization.identity_required'')
        | Inr actor \<Rightarrow>
            Inr (request\<lparr>req_Ctx := (req_Ctx request)\<lparr>ctx_actor := WithActor (ctx_actor (req_Ctx request)) actor\<rparr>\<rparr>)))"

text \<open>
  \<open>Decode(&command)\<close> with unknown members refused, and \<open>requireEOF\<close>: nothing but space may follow.
\<close>

definition requireEOF :: "stream \<Rightarrow> decode_failure option" where
  "requireEOF s =
    (if skip_space (fst s) = [] then (if snd s = StreamEOF then None else Some (stream_failure (snd s)))
     else (case Decoder_read s of Inl failure \<Rightarrow> Some failure | Inr _ \<Rightarrow> Some BodyInvalid))"

definition decode_command :: "'c fields \<Rightarrow> 'c \<Rightarrow> stream \<Rightarrow> (decode_failure, 'c) result" where
  "decode_command table zero body =
    (case Decoder_read body of
       Inl failure \<Rightarrow> Inl failure
     | Inr (v, rest) \<Rightarrow>
       (case decode_struct table v zero of
          None \<Rightarrow> Inl BodyInvalid
        | Some command \<Rightarrow> (case requireEOF rest of Some failure \<Rightarrow> Inl failure | None \<Rightarrow> Inr command)))"

definition writeDecodeError :: "string \<Rightarrow> Request \<Rightarrow> decode_failure \<Rightarrow> handled" where
  "writeDecodeError kind request failure =
    (if failure = BodyTooLarge
       then writeProblem [] 413 ''invalid'' ''request_body_too_large'' ''Content Too Large'' (requestID request)
     else WriteError [] request (httpTyped ErrorInvalid (kind @ ''.invalid_request'')))"

subsection \<open>The shape of a resource\<close>

text \<open>
  The three resources have the same handlers: the kind begins the reason codes, \<open>fields\<close> decodes the
  command, and the response is written from what the use case answers.
\<close>

definition create_resource ::
  "string \<Rightarrow> string \<Rightarrow> 'c fields \<Rightarrow> 'c \<Rightarrow> (Ctx \<Rightarrow> Identity \<Rightarrow> string \<Rightarrow> 'c \<Rightarrow> 'a io) \<Rightarrow> ('a \<Rightarrow> UUID) \<Rightarrow>
   ((string \<times> string) list \<Rightarrow> nat \<Rightarrow> 'a \<Rightarrow> handled) \<Rightarrow> Identity \<Rightarrow> handler" where
  "create_resource kind collection table zero create uid_of write_resource actor request0 = (\<lambda>w.
    case withAuditIdentity request0 actor of
      Inl err \<Rightarrow> (WriteError [] request0 err, w)
    | Inr request \<Rightarrow>
      (let key = first_value (req_IdempotencyKey request) in
       if length (req_IdempotencyKey request) \<noteq> 1 \<or> key = []
         then (WriteError [] request (httpTyped ErrorInvalid (kind @ ''.idempotency_key_required'')), w)
       else case decode_command table zero (req_Body request) of
         Inl failure \<Rightarrow> (writeDecodeError kind request failure, w)
       | Inr command \<Rightarrow>
         (case create (req_Ctx request) actor key command w of
            (Inl err, w') \<Rightarrow> (WriteError [] request err, w')
          | (Inr v, w') \<Rightarrow>
              (write_resource [(''Location'', ''/v1/'' @ collection @ ''/'' @ UUID_String (uid_of v))] 201 v, w'))))"

definition list_resources ::
  "string \<Rightarrow> string list \<Rightarrow> int \<Rightarrow> (Ctx \<Rightarrow> Identity \<Rightarrow> string \<Rightarrow> int \<Rightarrow> string \<Rightarrow> 'p io) \<Rightarrow> ('p \<Rightarrow> json) \<Rightarrow>
   Identity \<Rightarrow> handler" where
  "list_resources kind allowed default_size list_page page_json actor request = (\<lambda>w.
    let query = URL_Query (req_RawQuery request) in
    if \<not> list_all (\<lambda>(key, _). key \<in> set allowed \<and> length (query_all_values query key) = 1) query
      then (WriteError [] request (httpTyped ErrorInvalid (kind @ ''.invalid_query'')), w)
    else
      let raw = query_Get query ''page_size'' in
      case (if raw = [] then Some default_size else ParseInt 64 raw) of
        None \<Rightarrow> (WriteError [] request (httpTyped ErrorInvalid (kind @ ''.invalid_page_size'')), w)
      | Some pageSize \<Rightarrow>
        (case list_page (req_Ctx request) actor (query_Get query ''query'') pageSize (query_Get query ''cursor'') w of
           (Inl err, w') \<Rightarrow> (WriteError [] request err, w')
         | (Inr page, w') \<Rightarrow> (writeJSON [] 200 (page_json page), w')))"

definition bearer_challenge :: "(string \<times> string) list" where
  "bearer_challenge = [(''WWW-Authenticate'', ''Bearer'')]"

definition collection_handler ::
  "(string \<Rightarrow> (go_error, Identity) result) \<Rightarrow> (Identity \<Rightarrow> handler) \<Rightarrow> (Identity \<Rightarrow> handler) \<Rightarrow> handler" where
  "collection_handler auth create list_all_of request = (\<lambda>w.
    case authenticate auth request of
      Inl err \<Rightarrow> (WriteError bearer_challenge request err, w)
    | Inr actor \<Rightarrow>
      (if req_Method request = ''POST'' then create actor request w
       else if req_Method request = ''GET'' then list_all_of actor request w
       else (method_not_allowed request, w)))"

definition member_handler ::
  "string \<Rightarrow> (string \<Rightarrow> (go_error, Identity) result) \<Rightarrow> (Ctx \<Rightarrow> Identity \<Rightarrow> UUID \<Rightarrow> 'a io) \<Rightarrow>
   ((string \<times> string) list \<Rightarrow> nat \<Rightarrow> 'a \<Rightarrow> handled) \<Rightarrow> string \<Rightarrow> handler" where
  "member_handler kind auth get write_resource pathValue request = (\<lambda>w.
    case authenticate auth request of
      Inl err \<Rightarrow> (WriteError bearer_challenge request err, w)
    | Inr actor \<Rightarrow>
      (if req_Method request \<noteq> ''GET'' then (method_not_allowed request, w)
       else case ParseUUID pathValue of
         Inl _ \<Rightarrow> (WriteError [] request (httpTyped ErrorInvalid (kind @ ''.invalid_id'')), w)
       | Inr uid \<Rightarrow>
         (case get (req_Ctx request) actor uid w of
            (Inl err, w') \<Rightarrow> (WriteError [] request err, w')
          | (Inr v, w') \<Rightarrow> (write_resource [] 200 v, w'))))"

definition routes_ServeHTTP :: "string \<Rightarrow> handler \<Rightarrow> (string \<Rightarrow> handler) \<Rightarrow> handler" where
  "routes_ServeHTTP collection on_collection on_member request = (\<lambda>w.
    case resource_route collection (req_Method request) (req_Path request) of
      RouteMissing \<Rightarrow> (route_not_found request, w)
    | RouteMoved target \<Rightarrow> (MovedTo target, w)
    | RouteCollection \<Rightarrow> on_collection request w
    | RouteMember pathValue \<Rightarrow> on_member pathValue request w)"

end
