(* ===== verification/Http_Resources.thy ===== *)
theory Http_Resources
  imports Http_Adapter
begin

text \<open>
  \<open>publisher.go\<close>, \<open>namespace.go\<close> and \<open>artifact.go\<close> of the HTTP adapter: the commands and representations of
  the three resources and their handlers; \<open>middleware.go\<close> and \<open>server.go\<close>: what wraps them.
\<close>

subsection \<open>Commands\<close>

definition decode_uuid :: "UUID \<Rightarrow> json \<Rightarrow> UUID option" where
  "decode_uuid old v =
    (case v of
       JNull \<Rightarrow> Some old
     | JString s \<Rightarrow> (case UUID_UnmarshalText old s of (None, u) \<Rightarrow> Some u | (Some _, _) \<Rightarrow> None)
     | _ \<Rightarrow> None)"

text \<open>A map keeps the members it had; \<open>null\<close> makes it \<open>nil\<close>, and a \<open>null\<close> member the empty string.\<close>

fun put_label :: "string \<Rightarrow> string \<Rightarrow> Labels \<Rightarrow> Labels" where
  "put_label key v [] = [(key, v)]"
| "put_label key v (l # ls) = (if fst l = key then (key, v) # ls else l # put_label key v ls)"

fun decode_labels :: "(string \<times> json) list \<Rightarrow> Labels \<Rightarrow> Labels option" where
  "decode_labels [] labels = Some labels"
| "decode_labels ((key, v) # ms) labels =
    (case decode_string [] v of None \<Rightarrow> None | Some s \<Rightarrow> decode_labels ms (put_label key s labels))"

definition decode_string_map :: "Labels \<Rightarrow> json \<Rightarrow> Labels option" where
  "decode_string_map old v = (case v of JNull \<Rightarrow> Some [] | JObject ms \<Rightarrow> decode_labels ms old | _ \<Rightarrow> None)"

definition publisher_fields :: "CreatePublisher fields" where
  "publisher_fields =
    [(''slug'', \<lambda>v c. map_option (\<lambda>s. c\<lparr>cp_Slug := s\<rparr>) (decode_string (cp_Slug c) v)),
     (''display_name'', \<lambda>v c. map_option (\<lambda>s. c\<lparr>cp_DisplayName := s\<rparr>) (decode_string (cp_DisplayName c) v)),
     (''description'', \<lambda>v c. map_option (\<lambda>s. c\<lparr>cp_Description := s\<rparr>) (decode_string (cp_Description c) v))]"

definition namespace_fields :: "CreateNamespace fields" where
  "namespace_fields =
    [(''path'', \<lambda>v c. map_option (\<lambda>s. c\<lparr>cn_Path := s\<rparr>) (decode_string (cn_Path c) v)),
     (''owner_publisher_id'', \<lambda>v c. map_option (\<lambda>u. c\<lparr>cn_OwnerPublisherID := u\<rparr>) (decode_uuid (cn_OwnerPublisherID c) v))]"

definition artifact_fields :: "CreateArtifact fields" where
  "artifact_fields =
    [(''namespace_id'', \<lambda>v c. map_option (\<lambda>u. c\<lparr>ca_NamespaceID := u\<rparr>) (decode_uuid (ca_NamespaceID c) v)),
     (''name'', \<lambda>v c. map_option (\<lambda>s. c\<lparr>ca_Name := s\<rparr>) (decode_string (ca_Name c) v)),
     (''kind'', \<lambda>v c. map_option (\<lambda>s. c\<lparr>ca_Kind := s\<rparr>) (decode_string (ca_Kind c) v)),
     (''display_name'', \<lambda>v c. map_option (\<lambda>s. c\<lparr>ca_DisplayName := s\<rparr>) (decode_string (ca_DisplayName c) v)),
     (''description'', \<lambda>v c. map_option (\<lambda>s. c\<lparr>ca_Description := s\<rparr>) (decode_string (ca_Description c) v)),
     (''homepage'', \<lambda>v c. map_option (\<lambda>s. c\<lparr>ca_Homepage := s\<rparr>) (decode_string (ca_Homepage c) v)),
     (''repository'', \<lambda>v c. map_option (\<lambda>s. c\<lparr>ca_Repository := s\<rparr>) (decode_string (ca_Repository c) v)),
     (''labels'', \<lambda>v c. map_option (\<lambda>l. c\<lparr>ca_Labels := l\<rparr>) (decode_string_map (ca_Labels c) v))]"

definition zero_CreatePublisher :: CreatePublisher where
  "zero_CreatePublisher = \<lparr>cp_Slug = [], cp_DisplayName = [], cp_Description = []\<rparr>"

definition zero_CreateNamespace :: CreateNamespace where
  "zero_CreateNamespace = \<lparr>cn_Path = [], cn_OwnerPublisherID = go_array []\<rparr>"

definition zero_CreateArtifact :: CreateArtifact where
  "zero_CreateArtifact =
    \<lparr>ca_NamespaceID = go_array [], ca_Name = [], ca_Kind = [], ca_DisplayName = [], ca_Description = [],
     ca_Homepage = [], ca_Repository = [], ca_Labels = []\<rparr>"

subsection \<open>Representations\<close>

text \<open>The layout \<open>2006-01-02T15:04:05.000000000Z\<close> of an instant in UTC.\<close>

definition pad_year :: "int \<Rightarrow> string" where
  "pad_year y =
    (let ds = dec_digits (nat \<bar>y\<bar>) in (if y < 0 then ''-'' else []) @ replicate (4 - length ds) (CHR ''0'') @ ds)"

definition show_instant :: "Time \<Rightarrow> string" where
  "show_instant t =
    (let secs = t div nanosecond_second; ns = nat (t mod nanosecond_second);
         (y, m, d) = civil_of (secs div 86400) in
     pad_year y @ ''-'' @ pad2 m @ ''-'' @ pad2 (nat d) @ ''T'' @ show_clock (nat (secs mod 86400)) @ ''.'' @
       pad9 ns @ ''Z'')"

definition publisherRepresentation :: "Publisher \<Rightarrow> json" where
  "publisherRepresentation p = JObject
    ([(''id'', JString (UUID_String (pub_id p))), (''tenant_id'', JString (UUID_String (pub_tenantID p))),
      (''slug'', JString (pub_slug p))] @
     omitempty ''display_name'' (pub_displayName p) @ omitempty ''description'' (pub_description p) @
     [(''state'', JString (pub_state p)), (''created_at'', JString (show_instant (pub_createdAt p)))])"

definition namespaceRepresentation :: "Namespace \<Rightarrow> json" where
  "namespaceRepresentation n = JObject
    [(''id'', JString (UUID_String (ns_id n))), (''tenant_id'', JString (UUID_String (ns_tenantID n))),
     (''path'', JString (ns_path n)), (''owner_publisher_id'', JString (UUID_String (ns_ownerPublisherID n))),
     (''created_at'', JString (show_instant (ns_createdAt n)))]"

definition artifactRepresentation :: "Artifact \<Rightarrow> json" where
  "artifactRepresentation a = JObject
    ([(''id'', JString (UUID_String (art_id a))), (''tenant_id'', JString (UUID_String (art_tenantID a))),
      (''namespace_id'', JString (UUID_String (art_namespaceID a))),
      (''identity'', JString (ArtifactReference_String (art_identity a))), (''name'', JString (Artifact_Name a)),
      (''kind'', JString (art_kind a))] @
     omitempty ''display_name'' (art_displayName a) @ omitempty ''description'' (art_description a) @
     omitempty ''homepage'' (art_homepage a) @ omitempty ''repository'' (art_repository a) @
     (if art_labels a = [] then []
      else [(''labels'', json_map (map (\<lambda>label. (fst label, JString (snd label))) (art_labels a)))]) @
     [(''created_at'', JString (show_instant (art_createdAt a)))])"

definition page_response :: "('a \<Rightarrow> json) \<Rightarrow> 'a list \<Rightarrow> string \<Rightarrow> json" where
  "page_response represent items next_cursor =
    JObject ((''items'', JArray (map represent items)) # omitempty ''next_cursor'' next_cursor)"

definition publisher_page_json :: "PublisherPage \<Rightarrow> json" where
  "publisher_page_json page = page_response publisherRepresentation (pp_Items page) (pp_NextCursor page)"

definition namespace_page_json :: "NamespacePage \<Rightarrow> json" where
  "namespace_page_json page = page_response namespaceRepresentation (np_Items page) (np_NextCursor page)"

definition artifact_page_json :: "ArtifactPage \<Rightarrow> json" where
  "artifact_page_json page = page_response artifactRepresentation (ap_Items page) (ap_NextCursor page)"

definition writePublisher :: "(string \<times> string) list \<Rightarrow> nat \<Rightarrow> Publisher \<Rightarrow> handled" where
  "writePublisher headers status p =
    writeJSON (headers @ [(''ETag'', [CHR 0x22] @ show_int (pub_version p) @ [CHR 0x22])]) status (publisherRepresentation p)"

definition writeNamespace :: "(string \<times> string) list \<Rightarrow> nat \<Rightarrow> Namespace \<Rightarrow> handled" where
  "writeNamespace headers status n = writeJSON headers status (namespaceRepresentation n)"

definition writeArtifact :: "(string \<times> string) list \<Rightarrow> nat \<Rightarrow> Artifact \<Rightarrow> handled" where
  "writeArtifact headers status a = writeJSON headers status (artifactRepresentation a)"

subsection \<open>Handlers\<close>

text \<open>What the process puts together: the use cases with their environment, and the authenticator.\<close>

record Api =
  api_env :: Env
  api_authorizer :: Authorizer
  api_codec :: CursorCodec
  api_authenticate :: "string \<Rightarrow> (go_error, Identity) result"

definition publisher_create :: "Api \<Rightarrow> Identity \<Rightarrow> handler" where
  "publisher_create api = create_resource ''publisher'' ''publishers'' publisher_fields zero_CreatePublisher
    (PublisherService_Create (api_env api) (api_authorizer api)) pub_id writePublisher"

definition publisher_list :: "Api \<Rightarrow> Identity \<Rightarrow> handler" where
  "publisher_list api = list_resources ''publisher'' [''cursor'', ''page_size''] DefaultPublisherPageSize
    (\<lambda>ctx actor query. PublisherService_List (api_env api) (api_codec api) ctx actor) publisher_page_json"

definition publisher_collection :: "Api \<Rightarrow> handler" where
  "publisher_collection api = collection_handler (api_authenticate api) (publisher_create api) (publisher_list api)"

definition publisher_member :: "Api \<Rightarrow> string \<Rightarrow> handler" where
  "publisher_member api =
    member_handler ''publisher'' (api_authenticate api) (PublisherService_Get (api_env api)) writePublisher"

definition publisherRoutes :: "Api \<Rightarrow> handler" where
  "publisherRoutes api = routes_ServeHTTP ''publishers'' (publisher_collection api) (publisher_member api)"

definition namespace_create :: "Api \<Rightarrow> Identity \<Rightarrow> handler" where
  "namespace_create api = create_resource ''namespace'' ''namespaces'' namespace_fields zero_CreateNamespace
    (NamespaceService_Create (api_env api) (api_authorizer api)) ns_id writeNamespace"

definition namespace_list :: "Api \<Rightarrow> Identity \<Rightarrow> handler" where
  "namespace_list api = list_resources ''namespace'' [''cursor'', ''page_size''] DefaultNamespacePageSize
    (\<lambda>ctx actor query. NamespaceService_List (api_env api) (api_codec api) ctx actor) namespace_page_json"

definition namespace_collection :: "Api \<Rightarrow> handler" where
  "namespace_collection api = collection_handler (api_authenticate api) (namespace_create api) (namespace_list api)"

definition namespace_member :: "Api \<Rightarrow> string \<Rightarrow> handler" where
  "namespace_member api =
    member_handler ''namespace'' (api_authenticate api) (NamespaceService_Get (api_env api)) writeNamespace"

definition namespaceRoutes :: "Api \<Rightarrow> handler" where
  "namespaceRoutes api = routes_ServeHTTP ''namespaces'' (namespace_collection api) (namespace_member api)"

definition artifact_create :: "Api \<Rightarrow> Identity \<Rightarrow> handler" where
  "artifact_create api = create_resource ''artifact'' ''artifacts'' artifact_fields zero_CreateArtifact
    (ArtifactService_Create (api_env api) (api_authorizer api)) art_id writeArtifact"

definition artifact_list :: "Api \<Rightarrow> Identity \<Rightarrow> handler" where
  "artifact_list api = list_resources ''artifact'' [''cursor'', ''page_size'', ''query''] DefaultArtifactPageSize
    (\<lambda>ctx actor query. ArtifactService_List (api_env api) (api_codec api) ctx actor query) artifact_page_json"

definition artifact_collection :: "Api \<Rightarrow> handler" where
  "artifact_collection api = collection_handler (api_authenticate api) (artifact_create api) (artifact_list api)"

definition artifact_member :: "Api \<Rightarrow> string \<Rightarrow> handler" where
  "artifact_member api =
    member_handler ''artifact'' (api_authenticate api) (ArtifactService_Get (api_env api)) writeArtifact"

definition artifactRoutes :: "Api \<Rightarrow> handler" where
  "artifactRoutes api = routes_ServeHTTP ''artifacts'' (artifact_collection api) (artifact_member api)"

subsection \<open>middleware.go\<close>

text \<open>
  The adapter's options: what \<open>unicode.IsPrint\<close> says, the identifier generator's next answer, the trace of
  the request when its span context is valid, and the readiness check when there is one.
\<close>

record Options =
  opt_printable :: "nat \<Rightarrow> bool"
  opt_ID :: "UUID option"
  opt_TraceID :: "Request \<Rightarrow> string option"
  opt_Readiness :: "bool option"
  opt_maxBodyBytes :: int

text \<open>The exchange: the response, whether a panic was reported, and the outcome and reason recorded.\<close>

record Exchange =
  ex_Handled :: handled
  ex_PanicReported :: bool
  ex_Recorded :: "(string \<times> string) option"

definition operation_outcome :: "nat \<Rightarrow> string \<times> string" where
  "operation_outcome status =
    (if status \<ge> 500 then (''failed'', ''internal'')
     else if status \<ge> 400 then (''failed'', ''invalid'')
     else (''succeeded'', ''none''))"

definition add_header :: "string \<times> string \<Rightarrow> handled \<Rightarrow> handled" where
  "add_header header h =
    (case h of Responded r \<Rightarrow> Responded (r\<lparr>resp_Headers := header # resp_Headers r\<rparr>) | _ \<Rightarrow> h)"

definition handled_status :: "handled \<Rightarrow> nat" where
  "handled_status h = (case h of Responded r \<Rightarrow> resp_Status r | MovedTo _ \<Rightarrow> 301 | HandlerPanic \<Rightarrow> 500)"

definition wrap :: "Options \<Rightarrow> handler \<Rightarrow> Request \<Rightarrow> World \<Rightarrow> Exchange \<times> World" where
  "wrap options next_handler request0 = (\<lambda>w.
    case opt_ID options of
      None \<Rightarrow>
        (\<lparr>ex_Handled = writeProblem [] 500 ''internal'' ''request_id_unavailable'' ''Internal Server Error'' [],
          ex_PanicReported = False, ex_Recorded = None\<rparr>, w)
    | Some uid \<Rightarrow>
      (let rid = UUID_String uid;
           header = (''X-Request-ID'', rid);
           correlation = zero_Correlation\<lparr>corr_RequestID := rid,
             corr_TraceID := (case opt_TraceID options request0 of None \<Rightarrow> [] | Some t \<Rightarrow> t)\<rparr>;
           request = request0\<lparr>req_Correlation :=
             fst (WithCorrelation (opt_printable options) (req_Correlation request0) correlation)\<rparr> in
       if req_ContentLength request > opt_maxBodyBytes options
         then (\<lparr>ex_Handled = add_header header
                 (writeProblem [] 413 ''invalid'' ''request_body_too_large'' ''Content Too Large'' rid),
               ex_PanicReported = False, ex_Recorded = None\<rparr>, w)
       else
         (case next_handler (request\<lparr>req_Body := MaxBytesReader (opt_maxBodyBytes options) (req_Body request)\<rparr>) w of
            (h, w') \<Rightarrow>
              (let h' = (if h = HandlerPanic
                  then writeProblem [] 500 ''internal'' ''handler_panic'' ''Internal Server Error'' rid else h) in
               (\<lparr>ex_Handled = add_header header h', ex_PanicReported = (h = HandlerPanic),
                 ex_Recorded = Some (operation_outcome (handled_status h'))\<rparr>, w')))))"

definition livez :: handler where
  "livez request = (\<lambda>w. (if req_Method request \<noteq> ''GET'' then method_not_allowed request else writeHealth, w))"

definition readyz :: "bool option \<Rightarrow> handler" where
  "readyz ready request = (\<lambda>w.
    (if req_Method request \<noteq> ''GET'' then method_not_allowed request
     else if ready = Some False
       then writeProblem [] 503 ''unavailable'' ''service_not_ready'' ''Service Unavailable'' (requestID request)
     else writeHealth, w))"

subsection \<open>server.go\<close>

definition http_config_accepted :: "HTTPConfig \<Rightarrow> bool" where
  "http_config_accepted configured \<longleftrightarrow>
    \<not> (http_Address configured = [] \<or> http_MaxBodyBytes configured < 1 \<or> http_MaxHeaderBytes configured < 1 \<or>
       http_ReadHeaderTimeout configured \<le> 0 \<or> http_ReadTimeout configured \<le> 0 \<or> http_WriteTimeout configured \<le> 0 \<or>
       http_IdleTimeout configured \<le> 0 \<or> http_ShutdownTimeout configured \<le> 0)"

text \<open>
  The handlers of the server by the path: the redirect is the multiplexer's and is not wrapped;
  \<open>expose\<close> is the handler of the metrics library.
\<close>

definition metrics_handler :: "handler \<Rightarrow> handler" where
  "metrics_handler expose request = (\<lambda>w.
    if req_Method request \<noteq> ''GET'' then (method_not_allowed request, w) else expose request w)"

definition server_target :: "Options \<Rightarrow> handler option \<Rightarrow> handler \<Rightarrow> string \<Rightarrow> handler option" where
  "server_target options api expose p =
    (let missing = Some (\<lambda>request w. (route_not_found request, w)) in
     case path_segments p of
       [seg] \<Rightarrow>
         (if seg = ''livez'' then Some livez
          else if seg = ''readyz'' then Some (readyz (opt_Readiness options))
          else if seg = ''metrics'' then Some (metrics_handler expose)
          else if seg = ''v1'' \<and> api \<noteq> None then None
          else missing)
     | seg # _ \<Rightarrow> (case api of Some h \<Rightarrow> if seg = ''v1'' then Some h else missing | None \<Rightarrow> missing)
     | _ \<Rightarrow> missing)"

definition Server_Handler :: "Options \<Rightarrow> handler option \<Rightarrow> handler \<Rightarrow> Request \<Rightarrow> World \<Rightarrow> Exchange \<times> World" where
  "Server_Handler options api expose request =
    (let q = (if req_Method request = ''CONNECT'' then req_Path request else cleanPath (req_Path request));
         moved = (\<lambda>target w. (\<lparr>ex_Handled = MovedTo target, ex_PanicReported = False, ex_Recorded = None\<rparr>, w)) in
     case server_target options api expose q of
       None \<Rightarrow> moved (q @ ''/'')
     | Some h \<Rightarrow> if q \<noteq> req_Path request then moved q else wrap options h request)"

end
