(* ===== verification/Http_Laws.thy ===== *)
theory Http_Laws
  imports Http_Resources Store_Invariant
begin

text \<open>
  What the handlers make of use cases that keep their contract: a command changes the store only when it
  succeeds, a query never does. The three resources are instances.
\<close>

subsection \<open>Decoding\<close>

lemma Decoder_read_end: "Decoder_read s = Inr (v, s') \<Longrightarrow> snd s' = snd s"
  by (auto simp: Decoder_read_def split: option.splits if_splits)

lemma decode_command_end:
  assumes "decode_command table zero body = Inr command"
  shows "snd body = StreamEOF"
proof -
  from assms obtain v rest where "Decoder_read body = Inr (v, rest)" "requireEOF rest = None"
    by (auto simp: decode_command_def split: sum.splits option.splits)
  then show ?thesis by (auto simp: requireEOF_def dest!: Decoder_read_end split: if_splits sum.splits)
qed

lemma MaxBytesReader_end:
  "snd (MaxBytesReader limit body) = StreamEOF \<Longrightarrow> int (length (fst body)) \<le> limit \<and> MaxBytesReader limit body = body"
  by (auto simp: MaxBytesReader_def split: if_splits)

lemma withAuditIdentity_Inr:
  assumes "withAuditIdentity request actor = Inr request'"
  shows "\<exists>a. request' = request\<lparr>req_Ctx := (req_Ctx request)\<lparr>ctx_actor := Some a\<rparr>\<rparr> \<and> wf_actor a \<and>
    actor_principalID a = ident_PrincipalID actor"
  using assms by (auto simp: withAuditIdentity_def WithActor_def NewActor_Inr Let_def split: sum.splits if_splits)

text \<open>An error never looks like a creation.\<close>

definition answered :: "nat \<Rightarrow> handled \<Rightarrow> bool" where
  "answered status h \<longleftrightarrow> (\<exists>r. h = Responded r \<and> resp_Status r = status)"

definition location :: "Response \<Rightarrow> string option" where
  "location r = map_of (resp_Headers r) ''Location''"

lemma answered_problem [simp]: "answered n (writeProblem headers status cls reason title rid) \<longleftrightarrow> n = status"
  and answered_json [simp]: "answered n (writeJSON headers status v) \<longleftrightarrow> n = status"
  and answered_moved [simp]: "\<not> answered n (MovedTo p)"
  by (auto simp: answered_def writeProblem_def writeJSON_def)

lemma WriteError_status: "answered n (WriteError headers request err) \<Longrightarrow> n \<in> {400, 404, 409, 401, 403, 503, 500}"
  by (cases err) (auto simp: WriteError_def status_of_class_def answered_def writeProblem_def split: if_splits)

lemma not_created:
  "\<not> answered 201 (WriteError headers request err)" "\<not> answered 201 (writeDecodeError kind request failure)"
  "\<not> answered 201 (method_not_allowed request)" "\<not> answered 201 (route_not_found request)"
  by (auto simp: writeDecodeError_def method_not_allowed_def route_not_found_def dest: WriteError_status)

subsection \<open>Use cases\<close>

text \<open>
  What a handler did when the store changed: a \<open>POST\<close> of an authenticated caller with one key and a whole
  body, which the use case carried out and the response locates.
\<close>

definition carried_out ::
  "(string \<Rightarrow> (go_error, Identity) result) \<Rightarrow> 'c fields \<Rightarrow> 'c \<Rightarrow> (Ctx \<Rightarrow> Identity \<Rightarrow> string \<Rightarrow> 'c \<Rightarrow> 'a io) \<Rightarrow>
   ('a \<Rightarrow> UUID) \<Rightarrow> string \<Rightarrow> ((string \<times> string) list \<Rightarrow> nat \<Rightarrow> 'a \<Rightarrow> handled) \<Rightarrow> Request \<Rightarrow> World \<Rightarrow> handled \<Rightarrow>
   World \<Rightarrow> bool" where
  "carried_out auth table zero create uid_of collection write_resource request w h w' \<longleftrightarrow>
    (\<exists>actor key request' command v.
      req_Method request = ''POST'' \<and> authenticate auth request = Inr actor \<and>
      withAuditIdentity request actor = Inr request' \<and>
      req_IdempotencyKey request = [key] \<and> key \<noteq> [] \<and>
      decode_command table zero (req_Body request) = Inr command \<and>
      create (req_Ctx request') actor key command w = (Inr v, w') \<and>
      h = write_resource [(''Location'', ''/v1/'' @ collection @ ''/'' @ UUID_String (uid_of v))] 201 v)"

locale resource_use_cases =
  fixes create :: "Ctx \<Rightarrow> Identity \<Rightarrow> string \<Rightarrow> 'c \<Rightarrow> 'a io"
    and get :: "Ctx \<Rightarrow> Identity \<Rightarrow> UUID \<Rightarrow> 'a io"
    and list_page :: "Ctx \<Rightarrow> Identity \<Rightarrow> string \<Rightarrow> int \<Rightarrow> string \<Rightarrow> 'p io"
    and uid_of :: "'a \<Rightarrow> UUID"
    and write_resource :: "(string \<times> string) list \<Rightarrow> nat \<Rightarrow> 'a \<Rightarrow> handled"
  assumes create_atomic: "atomic (create ctx actor key command)"
    and get_reads: "reads (get ctx actor u)"
    and list_reads: "reads (list_page ctx actor query pageSize cursor)"
    and written: "\<exists>r. write_resource headers status v = Responded r \<and> resp_Status r = status \<and>
      take (length headers) (resp_Headers r) = headers"
begin

lemma created:
  assumes "create_resource kind collection table zero create uid_of write_resource actor request w = (h, w')"
  shows "w_db w' = w_db w \<and> \<not> answered 201 h \<or>
    (\<exists>key request' command v.
      withAuditIdentity request actor = Inr request' \<and>
      req_IdempotencyKey request = [key] \<and> key \<noteq> [] \<and>
      decode_command table zero (req_Body request) = Inr command \<and>
      create (req_Ctx request') actor key command w = (Inr v, w') \<and>
      h = write_resource [(''Location'', ''/v1/'' @ collection @ ''/'' @ UUID_String (uid_of v))] 201 v)"
proof (cases "withAuditIdentity request actor")
  case (Inr request')
  from withAuditIdentity_Inr [OF Inr] have same: "req_IdempotencyKey request' = req_IdempotencyKey request"
    "req_Body request' = req_Body request" by auto
  show ?thesis
  proof (cases "length (req_IdempotencyKey request) = 1 \<and> first_value (req_IdempotencyKey request) \<noteq> []")
    case True
    then obtain key where key: "req_IdempotencyKey request = [key]" "key \<noteq> []"
      by (auto simp: first_value_def length_Suc_conv)
    show ?thesis
    proof (cases "decode_command table zero (req_Body request)")
      case command: (Inr command)
      obtain r w1 where run: "create (req_Ctx request') actor key command w = (r, w1)" by force
      show ?thesis
      proof (cases r)
        case (Inl e)
        with run atomicD [OF create_atomic] have "w_db w1 = w_db w" by blast
        with assms Inr same key command run Inl show ?thesis
          by (auto simp: create_resource_def first_value_def not_created)
      next
        case v: (Inr v)
        with assms Inr same key command run show ?thesis
          by (auto simp: create_resource_def first_value_def)
      qed
    qed (use assms Inr same key in \<open>auto simp: create_resource_def first_value_def not_created\<close>)
  next
    case False
    with assms Inr same show ?thesis by (auto simp: create_resource_def Let_def not_created)
  qed
qed (use assms in \<open>auto simp: create_resource_def not_created\<close>)

lemma listed:
  assumes "list_resources kind allowed n list_page page_json actor request w = (h, w')"
  shows "w_db w' = w_db w \<and> \<not> answered 201 h"
  using assms readsD [OF list_reads]
  by (auto simp: list_resources_def Let_def not_created split: if_splits option.splits sum.splits prod.splits)

lemma not_created_read: "\<not> answered 201 (write_resource [] 200 v)"
  using written [of "[]" 200 v] by (auto simp: answered_def)

lemma member_read:
  assumes "member_handler kind auth get write_resource pathValue request w = (h, w')"
  shows "w_db w' = w_db w \<and> \<not> answered 201 h"
  using assms readsD [OF get_reads]
  by (auto simp: member_handler_def not_created not_created_read split: if_splits option.splits sum.splits prod.splits)

text \<open>A handler with these use cases changes the store by carrying out a command, or not at all.\<close>

lemma routes_change:
  assumes "routes_ServeHTTP collection
      (collection_handler auth (create_resource kind collection table zero create uid_of write_resource)
        (list_resources kind allowed n list_page page_json))
      (member_handler kind auth get write_resource) request w = (h, w')"
  shows "w_db w' = w_db w \<and> \<not> answered 201 h \<or>
    resource_route collection (req_Method request) (req_Path request) = RouteCollection \<and>
    carried_out auth table zero create uid_of collection write_resource request w h w'"
proof (cases "resource_route collection (req_Method request) (req_Path request)")
  case RouteCollection
  note run = assms [unfolded routes_ServeHTTP_def RouteCollection, simplified]
  show ?thesis
  proof (cases "authenticate auth request")
    case (Inr actor)
    show ?thesis
    proof (cases "req_Method request = ''POST''")
      case True
      with run Inr have "create_resource kind collection table zero create uid_of write_resource actor request w = (h, w')"
        by (simp add: collection_handler_def)
      from created [OF this] True Inr RouteCollection show ?thesis by (auto simp: carried_out_def)
    next
      case False
      with run Inr show ?thesis by (auto simp: collection_handler_def listed not_created split: if_splits)
    qed
  qed (use run in \<open>auto simp: collection_handler_def not_created\<close>)
qed (use assms in \<open>auto simp: routes_ServeHTTP_def member_read not_created\<close>)

lemma carried_out_answer:
  assumes "carried_out auth table zero create uid_of collection write_resource request w h w'"
  obtains actor key ctx command v r where "req_Method request = ''POST''" "authenticate auth request = Inr actor"
    "req_IdempotencyKey request = [key]" "snd (req_Body request) = StreamEOF" "create ctx actor key command w = (Inr v, w')"
    "h = Responded r" "resp_Status r = 201" "location r = Some (''/v1/'' @ collection @ ''/'' @ UUID_String (uid_of v))"
proof -
  let ?at = "\<lambda>v. ''/v1/'' @ collection @ ''/'' @ UUID_String (uid_of v)"
  from assms obtain actor key request' command v where a: "req_Method request = ''POST''" "authenticate auth request = Inr actor"
    "req_IdempotencyKey request = [key]" "decode_command table zero (req_Body request) = Inr command"
    "create (req_Ctx (request' :: Request)) actor key command w = (Inr v, w')" "h = write_resource [(''Location'', ?at v)] 201 v"
    unfolding carried_out_def by blast
  from written [of "[(''Location'', ?at v)]" 201 v]
  obtain r where r: "h = Responded r" "resp_Status r = 201" "take (length [(''Location'', ?at v)]) (resp_Headers r) = [(''Location'', ?at v)]"
    unfolding a(6) [symmetric] by blast
  then have "location r = Some (?at v)" unfolding location_def by (cases "resp_Headers r") simp_all
  from that [OF a(1-3) decode_command_end [OF a(4)] a(5) r(1,2) this] show thesis .
qed

end

subsection \<open>The three resources\<close>

lemma reads_queries:
  "reads (PublisherService_Get env ctx actor u)" "reads (NamespaceService_Get env ctx actor u)"
  "reads (ArtifactService_Get env ctx actor u)"
  by (auto simp: PublisherService_Get_def NamespaceService_Get_def ArtifactService_Get_def intro!: io_laws split: sum.splits)

lemma reads_position: "reads (decode_position env codec invalid scope encoded)"
  by (auto simp: decode_position_def intro!: io_laws)

lemma reads_lists:
  "reads (PublisherService_List env codec ctx actor pageSize cursor)"
  "reads (NamespaceService_List env codec ctx actor pageSize cursor)"
  "reads (ArtifactService_List env codec ctx actor query pageSize cursor)"
  by (auto simp: PublisherService_List_def NamespaceService_List_def ArtifactService_List_def Let_def
      intro!: io_laws reads_position split: sum.splits)

lemma written_resources:
  "\<exists>r. writePublisher headers status p = Responded r \<and> resp_Status r = status \<and> take (length headers) (resp_Headers r) = headers"
  "\<exists>r. writeNamespace headers status n = Responded r \<and> resp_Status r = status \<and> take (length headers) (resp_Headers r) = headers"
  "\<exists>r. writeArtifact headers status a = Responded r \<and> resp_Status r = status \<and> take (length headers) (resp_Headers r) = headers"
  by (simp_all add: writePublisher_def writeNamespace_def writeArtifact_def writeJSON_def)

interpretation publisher_api: resource_use_cases
  "PublisherService_Create env authorizer" "PublisherService_Get env"
  "\<lambda>ctx actor query. PublisherService_List env codec ctx actor" pub_id writePublisher for env authorizer codec
  by unfold_locales (rule io_laws reads_queries reads_lists written_resources)+

interpretation namespace_api: resource_use_cases
  "NamespaceService_Create env authorizer" "NamespaceService_Get env"
  "\<lambda>ctx actor query. NamespaceService_List env codec ctx actor" ns_id writeNamespace for env authorizer codec
  by unfold_locales (rule io_laws reads_queries reads_lists written_resources)+

interpretation artifact_api: resource_use_cases
  "ArtifactService_Create env authorizer" "ArtifactService_Get env"
  "\<lambda>ctx actor query. ArtifactService_List env codec ctx actor query" art_id writeArtifact for env authorizer codec
  by unfold_locales (rule io_laws reads_queries reads_lists written_resources)+

lemma publisherRoutes_change:
  "publisherRoutes api request w = (h, w') \<Longrightarrow> w_db w' = w_db w \<and> \<not> answered 201 h \<or>
    resource_route ''publishers'' (req_Method request) (req_Path request) = RouteCollection \<and>
    carried_out (api_authenticate api) publisher_fields zero_CreatePublisher
      (PublisherService_Create (api_env api) (api_authorizer api)) pub_id ''publishers'' writePublisher request w h w'"
  unfolding publisherRoutes_def publisher_collection_def publisher_member_def publisher_create_def publisher_list_def
  by (rule publisher_api.routes_change)

lemma namespaceRoutes_change:
  "namespaceRoutes api request w = (h, w') \<Longrightarrow> w_db w' = w_db w \<and> \<not> answered 201 h \<or>
    resource_route ''namespaces'' (req_Method request) (req_Path request) = RouteCollection \<and>
    carried_out (api_authenticate api) namespace_fields zero_CreateNamespace
      (NamespaceService_Create (api_env api) (api_authorizer api)) ns_id ''namespaces'' writeNamespace request w h w'"
  unfolding namespaceRoutes_def namespace_collection_def namespace_member_def namespace_create_def namespace_list_def
  by (rule namespace_api.routes_change)

lemma artifactRoutes_change:
  "artifactRoutes api request w = (h, w') \<Longrightarrow> w_db w' = w_db w \<and> \<not> answered 201 h \<or>
    resource_route ''artifacts'' (req_Method request) (req_Path request) = RouteCollection \<and>
    carried_out (api_authenticate api) artifact_fields zero_CreateArtifact
      (ArtifactService_Create (api_env api) (api_authorizer api)) art_id ''artifacts'' writeArtifact request w h w'"
  unfolding artifactRoutes_def artifact_collection_def artifact_member_def artifact_create_def artifact_list_def
  by (rule artifact_api.routes_change)

subsection \<open>Keys\<close>

text \<open>
  A command binds its key to the resource it answers with, and a key that is bound answers with that
  resource.
\<close>

definition key_bound :: "ReasonCode \<Rightarrow> ReasonCode \<Rightarrow> DB \<Rightarrow> Identity \<Rightarrow> string \<Rightarrow> UUID \<Rightarrow> bool" where
  "key_bound action resource_type db actor key u \<longleftrightarrow>
    (\<exists>rc. idem_bound db actor action key = Some rc \<and> establishes StatusCreated resource_type u rc)"

locale keyed_use_cases = resource_use_cases +
  fixes action :: ReasonCode and resource_type :: ReasonCode
  assumes binds: "create ctx actor key command w = (Inr v, w') \<Longrightarrow> store_inv (w_db w) \<Longrightarrow>
      \<exists>rc. idem_bound (w_db w') actor action key = Some rc \<and> establishes StatusCreated resource_type (uid_of v) rc"
    and answers: "create ctx actor key command w = (Inr v, w') \<Longrightarrow> idem_bound (w_db w) actor action key = Some rc \<Longrightarrow>
      w_db w' = w_db w \<and> establishes StatusCreated resource_type (uid_of v) rc"
begin

text \<open>The key of a request that was carried out is bound to the resource its response locates.\<close>

lemma carried_out_binds:
  assumes "carried_out auth table zero create uid_of collection write_resource request w h w'" and "store_inv (w_db w)"
  obtains actor key r u where "authenticate auth request = Inr actor" "req_IdempotencyKey request = [key]" "h = Responded r"
    "location r = Some (''/v1/'' @ collection @ ''/'' @ UUID_String u)" "key_bound action resource_type (w_db w') actor key u"
proof -
  obtain actor key ctx command v r where a: "authenticate auth request = Inr actor" "req_IdempotencyKey request = [key]"
    "h = Responded r" "location r = Some (''/v1/'' @ collection @ ''/'' @ UUID_String (uid_of v))"
    and run: "create ctx actor key command w = (Inr v, w')"
    by (rule carried_out_answer [OF assms(1)])
  from binds [OF run assms(2)] have "key_bound action resource_type (w_db w') actor key (uid_of v)"
    by (simp add: key_bound_def)
  with a show thesis by (rule that)
qed

lemma carried_out_again:
  assumes "carried_out auth table zero create uid_of collection write_resource request w h w'"
    and "authenticate auth request = Inr actor" "req_IdempotencyKey request = [key]" "key_bound action resource_type (w_db w) actor key u"
  obtains r where "w_db w' = w_db w" "h = Responded r" "location r = Some (''/v1/'' @ collection @ ''/'' @ UUID_String u)"
proof -
  from assms(4) obtain rc where rc: "idem_bound (w_db w) actor action key = Some rc" "establishes StatusCreated resource_type u rc"
    by (auto simp: key_bound_def)
  obtain ctx command v r where run: "create ctx actor key command w = (Inr v, w')" and r: "h = Responded r"
    "location r = Some (''/v1/'' @ collection @ ''/'' @ UUID_String (uid_of v))"
    by (rule carried_out_answer [OF assms(1)]) (use assms(2,3) in auto)
  from answers [OF run rc(1)] establishes_unique [OF rc(2)] have "w_db w' = w_db w" "uid_of v = u" by auto
  with r that show thesis by simp
qed

end

text \<open>Two requests under one key, the second possibly in another environment.\<close>

lemma carried_out_twice:
  assumes first: "keyed_use_cases create get list_page uid_of write_resource action resource_type"
    and second: "keyed_use_cases create' get' list_page' uid_of write_resource action resource_type"
    and run: "carried_out auth table zero create uid_of collection write_resource request w (Responded r) w1" "store_inv (w_db w)"
    and again: "carried_out auth' table zero create' uid_of collection write_resource request' w2 (Responded r') w3"
    and same: "w_db w2 = w_db w1" "authenticate auth' request' = authenticate auth request"
      "req_IdempotencyKey request' = req_IdempotencyKey request"
  shows "w_db w3 = w_db w1 \<and> location r' = location r"
proof -
  obtain actor key u where b: "authenticate auth request = Inr actor" "req_IdempotencyKey request = [key]"
    "location r = Some (''/v1/'' @ collection @ ''/'' @ UUID_String u)" "key_bound action resource_type (w_db w1) actor key u"
    by (rule keyed_use_cases.carried_out_binds [OF first run]) blast
  have "authenticate auth' request' = Inr actor" "req_IdempotencyKey request' = [key]"
    "key_bound action resource_type (w_db w2) actor key u"
    using b same by simp_all
  then show ?thesis
    by (rule keyed_use_cases.carried_out_again [OF second again]) (use b(3) same(1) in simp)
qed

lemma namespace_store_id: "namespace_store db t u = Some n \<Longrightarrow> ns_id n = u"
  by (auto simp: namespace_store_def namespace_scan_def bindE_Inr_iff Namespace_Restore_def Namespace_New_Inr
      scan_uuid_valid filter_eq_Cons_iff split: list.splits sum.splits)

interpretation publisher_keys: keyed_use_cases
  "PublisherService_Create env authorizer" "PublisherService_Get env"
  "\<lambda>ctx actor query. PublisherService_List env codec ctx actor" pub_id writePublisher
  createPublisherAction publisherResourceType for env authorizer codec
proof unfold_locales
  fix ctx actor key command w v w' rc
  assume run: "PublisherService_Create env authorizer ctx actor key command w = (Inr v, w')"
  show again: "w_db w' = w_db w \<and> establishes StatusCreated publisherResourceType (pub_id v) rc"
    if "idem_bound (w_db w) actor createPublisherAction key = Some rc" for rc
    using PublisherService_Create_replayed [OF run that] by (auto dest: publisher_store_wf)
  show "\<exists>rc. idem_bound (w_db w') actor createPublisherAction key = Some rc \<and>
      establishes StatusCreated publisherResourceType (pub_id v) rc" if "store_inv (w_db w)"
  proof (cases "idem_bound (w_db w) actor createPublisherAction key")
    case None
    from that have "idempotency_inv (w_db w)" by (simp add: store_inv_def record_inv_def)
    then show ?thesis by (rule PublisherService_Create_first [OF run None]) blast
  qed (use again in auto)
qed

interpretation namespace_keys: keyed_use_cases
  "NamespaceService_Create env authorizer" "NamespaceService_Get env"
  "\<lambda>ctx actor query. NamespaceService_List env codec ctx actor" ns_id writeNamespace
  createNamespaceAction namespaceResourceType for env authorizer codec
proof unfold_locales
  fix ctx actor key command w v w' rc
  assume run: "NamespaceService_Create env authorizer ctx actor key command w = (Inr v, w')"
  show again: "w_db w' = w_db w \<and> establishes StatusCreated namespaceResourceType (ns_id v) rc"
    if "idem_bound (w_db w) actor createNamespaceAction key = Some rc" for rc
    using NamespaceService_Create_replayed [OF run that] by (auto dest: namespace_store_id)
  show "\<exists>rc. idem_bound (w_db w') actor createNamespaceAction key = Some rc \<and>
      establishes StatusCreated namespaceResourceType (ns_id v) rc" if "store_inv (w_db w)"
  proof (cases "idem_bound (w_db w) actor createNamespaceAction key")
    case None
    from that have "idempotency_inv (w_db w)" by (simp add: store_inv_def record_inv_def)
    then show ?thesis by (rule NamespaceService_Create_first [OF run None]) blast
  qed (use again in auto)
qed

interpretation artifact_keys: keyed_use_cases
  "ArtifactService_Create env authorizer" "ArtifactService_Get env"
  "\<lambda>ctx actor query. ArtifactService_List env codec ctx actor query" art_id writeArtifact
  createArtifactAction artifactResourceType for env authorizer codec
proof unfold_locales
  fix ctx actor key command w v w' rc
  assume run: "ArtifactService_Create env authorizer ctx actor key command w = (Inr v, w')"
  show again: "w_db w' = w_db w \<and> establishes StatusCreated artifactResourceType (art_id v) rc"
    if "idem_bound (w_db w) actor createArtifactAction key = Some rc" for rc
    using ArtifactService_Create_replayed [OF run that] by blast
  show "\<exists>rc. idem_bound (w_db w') actor createArtifactAction key = Some rc \<and>
      establishes StatusCreated artifactResourceType (art_id v) rc" if "store_inv (w_db w)"
  proof (cases "idem_bound (w_db w) actor createArtifactAction key")
    case None
    from that have inv: "idempotency_inv (w_db w)" "publisher_tables_inv (w_db w)" "ownership_inv (w_db w)" "catalog_inv (w_db w)"
      by (simp_all add: store_inv_def record_inv_def)
    then show ?thesis by (rule ArtifactService_Create_first [OF run None]) blast
  qed (use again in auto)
qed

end
