(* ===== verification/Http_Bodies.thy ===== *)
theory Http_Bodies
  imports Http_Laws Json_Roundtrip
begin

text \<open>The bodies of commands: the encoding of a command is read back by the handler's decoder.\<close>

lemma decode_command_encoded:
  assumes "json_ok v" "nesting v \<le> max_nesting" "delimited v"
  shows "decode_command table zero (json_encode v, StreamEOF) =
    (case decode_struct table v zero of None \<Rightarrow> Inl BodyInvalid | Some c \<Rightarrow> Inr c)"
  using json_decode_encode [OF assms(1,2), of "[]"] assms(3)
  by (simp add: decode_command_def Decoder_read_def requireEOF_def skip_space_def split: option.split)

lemma decode_publisher: "decode_struct publisher_fields (create_publisher_json c) zero_CreatePublisher = Some c"
  by (cases c) (simp add: decode_struct_def create_publisher_json_def publisher_fields_def zero_CreatePublisher_def
      omitempty_def select_field_def decode_string_def)

lemma decode_uuid_String: "valid_uuid u \<Longrightarrow> decode_uuid old (JString (UUID_String u)) = Some u"
  by (simp add: decode_uuid_def UUID_UnmarshalText_def ParseUUID_String)

lemma decode_namespace:
  "valid_uuid (cn_OwnerPublisherID c) \<Longrightarrow>
    decode_struct namespace_fields (create_namespace_json c) zero_CreateNamespace = Some c"
  by (cases c) (simp add: decode_struct_def create_namespace_json_def namespace_fields_def zero_CreateNamespace_def
      select_field_def decode_string_def decode_uuid_String)

lemma put_label_fresh: "key \<notin> fst ` set ls \<Longrightarrow> put_label key v ls = ls @ [(key, v)]"
  by (induction ls) auto

lemma decode_labels_fresh:
  "distinct (map fst (acc @ ls)) \<Longrightarrow> decode_labels (map (\<lambda>l. (fst l, JString (snd l))) ls) acc = Some (acc @ ls)"
proof (induction ls arbitrary: acc)
  case (Cons l ls)
  from Cons.prems have "fst l \<notin> fst ` set acc" by auto
  with Cons.IH [of "acc @ [l]"] Cons.prems show ?case by (simp add: decode_string_def put_label_fresh)
qed simp

lemma insort_key_map: "insort_key fst (g x) (map g xs) = map g (insort_key fst x xs)" if "\<And>x. fst (g x) = fst x"
  by (induction xs) (simp_all add: that)

lemma sort_key_map: "sort_key fst (map g xs) = map g (sort_key fst xs)" if "\<And>x. fst (g x) = fst x"
  by (induction xs) (simp_all add: insort_key_map that)

lemma decode_labels_sorted:
  assumes "distinct (map fst ls)"
  shows "decode_labels (sort_key fst (map (\<lambda>l. (fst l, JString (snd l))) ls)) [] = Some (sort_key fst ls)"
proof -
  have "distinct (map fst (sort_key fst ls))" using assms by (simp add: distinct_map)
  then show ?thesis using decode_labels_fresh [of "[]" "sort_key fst ls"] by (simp add: sort_key_map)
qed

lemma decode_artifact:
  assumes "valid_uuid (ca_NamespaceID c)" "distinct (map fst (ca_Labels c))"
  shows "decode_struct artifact_fields (create_artifact_json c) zero_CreateArtifact =
    Some (c\<lparr>ca_Labels := sort_key fst (ca_Labels c)\<rparr>)"
proof -
  have "decode_string_map [] (json_map (map (\<lambda>label. (fst label, JString (snd label))) (ca_Labels c))) =
      Some (sort_key fst (ca_Labels c))"
    using decode_labels_sorted [OF assms(2)] by (simp add: decode_string_map_def json_map_def)
  then show ?thesis
    using assms(1) by (cases c) (simp add: decode_struct_def create_artifact_json_def artifact_fields_def
        zero_CreateArtifact_def omitempty_def select_field_def decode_string_def decode_uuid_String)
qed

lemma publisher_json_ok:
  "list_all utf8_valid [cp_Slug c, cp_DisplayName c, cp_Description c] \<Longrightarrow> json_ok (create_publisher_json c)"
  "nesting (create_publisher_json c) \<le> max_nesting" "delimited (create_publisher_json c)"
  by (simp_all add: create_publisher_json_def omitempty_def max_nesting_def delimited_def)

lemma namespace_json_ok:
  "utf8_valid (cn_Path c) \<Longrightarrow> json_ok (create_namespace_json c)"
  "nesting (create_namespace_json c) \<le> max_nesting" "delimited (create_namespace_json c)"
  by (simp_all add: create_namespace_json_def max_nesting_def delimited_def)

lemma labels_json:
  "list_all (\<lambda>l. utf8_valid (fst l) \<and> utf8_valid (snd l)) ls \<Longrightarrow> json_ok (json_map (map (\<lambda>l. (fst l, JString (snd l))) ls))"
  "nesting (json_map (map (\<lambda>l. (fst l, JString (snd l))) ls)) = 1"
proof -
  show "json_ok (json_map (map (\<lambda>l. (fst l, JString (snd l))) ls))"
    if "list_all (\<lambda>l. utf8_valid (fst l) \<and> utf8_valid (snd l)) ls"
    using that by (simp add: json_map_def sort_key_map list_all_iff)
  have "foldr (\<lambda>m. max (nesting (snd m))) (map (\<lambda>l. (fst l, JString (snd l))) ks) 0 = 0" for ks :: "(string \<times> string) list"
    by (induction ks) simp_all
  then show "nesting (json_map (map (\<lambda>l. (fst l, JString (snd l))) ls)) = 1" by (simp add: json_map_def sort_key_map)
qed

lemma artifact_json_ok:
  "list_all utf8_valid [ca_Name c, ca_Kind c, ca_DisplayName c, ca_Description c, ca_Homepage c, ca_Repository c] \<Longrightarrow>
    list_all (\<lambda>l. utf8_valid (fst l) \<and> utf8_valid (snd l)) (ca_Labels c) \<Longrightarrow> json_ok (create_artifact_json c)"
  "nesting (create_artifact_json c) \<le> max_nesting" "delimited (create_artifact_json c)"
  using labels_json [of "ca_Labels c"]
  by (simp_all add: create_artifact_json_def omitempty_def max_nesting_def delimited_def)

end
