(* ===== verification/Metrics.thy ===== *)
theory Metrics
  imports Shared Go_Float
begin

text \<open>
  \<open>internal/telemetry/metrics/metrics.go\<close>: the process's collectors with their bounded labels. A
  collector is its series; a histogram keeps what it observed. Registering the collectors, and their
  exposition, is the metrics library's.
\<close>

subsection \<open>Vocabulary\<close>

definition validOperation :: "string \<Rightarrow> bool" where
  "validOperation v \<longleftrightarrow>
    v = ''artifact_registration'' \<or> v = ''evidence_ingestion'' \<or> v = ''promotion'' \<or> v = ''resolution'' \<or>
    v = ''import'' \<or> v = ''remote_verification'' \<or> v = ''api''"

definition OutcomeSucceeded :: string where "OutcomeSucceeded = ''succeeded''"
definition OutcomeFailed :: string where "OutcomeFailed = ''failed''"
definition OutcomeCancelled :: string where "OutcomeCancelled = ''cancelled''"

definition ReasonNone :: string where "ReasonNone = ''none''"
definition ReasonInvalid :: string where "ReasonInvalid = ''invalid''"
definition ReasonInternal :: string where "ReasonInternal = ''internal''"

definition validOutcome :: "string \<Rightarrow> bool" where
  "validOutcome v \<longleftrightarrow> v = OutcomeSucceeded \<or> v = OutcomeFailed \<or> v = OutcomeCancelled"

definition validDependency :: "string \<Rightarrow> bool" where
  "validDependency v \<longleftrightarrow>
    v = ''registry'' \<or> v = ''signature'' \<or> v = ''policy'' \<or> v = ''database'' \<or> v = ''evidence_producer''"

definition validReason :: "string \<Rightarrow> bool" where
  "validReason v \<longleftrightarrow>
    v = ReasonNone \<or> v = ReasonInvalid \<or> v = ''unavailable'' \<or> v = ''unauthorized'' \<or> v = ''conflict'' \<or>
    v = ReasonInternal"

subsection \<open>The registry\<close>

record Registry =
  mreg_operations :: "string \<times> string \<times> string \<Rightarrow> nat"
  mreg_dependencyDuration :: "string \<times> string \<Rightarrow> float64 list"
  mreg_staleEvidence :: float64
  mreg_catalogEntries :: float64
  mreg_outboxLag :: float64
  mreg_databaseSaturation :: float64
  mreg_revocations :: "string \<Rightarrow> nat"

definition NewRegistry :: Registry where
  "NewRegistry =
    \<lparr>mreg_operations = (\<lambda>_. 0), mreg_dependencyDuration = (\<lambda>_. []), mreg_staleEvidence = Finite False 0,
     mreg_catalogEntries = Finite False 0, mreg_outboxLag = Finite False 0, mreg_databaseSaturation = Finite False 0,
     mreg_revocations = (\<lambda>_. 0)\<rparr>"

text \<open>\<open>Duration.Seconds\<close> of a duration that is not negative: whole seconds plus the rest over 1e9.\<close>

definition duration_Seconds :: "Duration \<Rightarrow> float64" where
  "duration_Seconds d =
    float_round False
      (magnitude (float_of_nat (nat (d div nanosecond_second))) +
       magnitude (float_div (float_of_nat (nat (d mod nanosecond_second))) (float_of_nat (nat nanosecond_second))))"

definition RecordOperation :: "string \<Rightarrow> string \<Rightarrow> string \<Rightarrow> Registry \<Rightarrow> Registry option" where
  "RecordOperation operation outcome reason r =
    (if \<not> validOperation operation \<or> \<not> validOutcome outcome \<or> \<not> validReason reason then None
     else if outcome = OutcomeSucceeded \<and> reason \<noteq> ReasonNone then None
     else let series = (operation, outcome, reason) in
       Some (r\<lparr>mreg_operations := (mreg_operations r)(series := mreg_operations r series + 1)\<rparr>))"

definition ObserveDependency :: "string \<Rightarrow> string \<Rightarrow> Duration \<Rightarrow> Registry \<Rightarrow> Registry option" where
  "ObserveDependency dependency outcome duration r =
    (if \<not> validDependency dependency \<or> \<not> validOutcome outcome \<or> duration < 0 then None
     else let series = (dependency, outcome) in
       Some (r\<lparr>mreg_dependencyDuration := (mreg_dependencyDuration r)
         (series := mreg_dependencyDuration r series @ [duration_Seconds duration])\<rparr>))"

definition SetStaleEvidence :: "int \<Rightarrow> Registry \<Rightarrow> Registry option" where
  "SetStaleEvidence count r =
    (if count < 0 then None else Some (r\<lparr>mreg_staleEvidence := float_of_nat (nat count)\<rparr>))"

definition SetCatalogEntries :: "int \<Rightarrow> Registry \<Rightarrow> Registry option" where
  "SetCatalogEntries count r =
    (if count < 0 then None else Some (r\<lparr>mreg_catalogEntries := float_of_nat (nat count)\<rparr>))"

definition SetOutboxLag :: "Duration \<Rightarrow> Registry \<Rightarrow> Registry option" where
  "SetOutboxLag lag r = (if lag < 0 then None else Some (r\<lparr>mreg_outboxLag := duration_Seconds lag\<rparr>))"

definition SetDatabaseSaturation :: "float64 \<Rightarrow> Registry \<Rightarrow> Registry option" where
  "SetDatabaseSaturation ratio r =
    (if float_less ratio 0 \<or> float_greater ratio 1 then None else Some (r\<lparr>mreg_databaseSaturation := ratio\<rparr>))"

definition RecordRevocation :: "string \<Rightarrow> Registry \<Rightarrow> Registry option" where
  "RecordRevocation severity r =
    (if severity \<noteq> ''low'' \<and> severity \<noteq> ''medium'' \<and> severity \<noteq> ''high'' \<and> severity \<noteq> ''critical'' then None
     else Some (r\<lparr>mreg_revocations := (mreg_revocations r)(severity := mreg_revocations r severity + 1)\<rparr>))"

subsection \<open>Every use of a registry\<close>

inductive metrics_step :: "Registry \<Rightarrow> Registry \<Rightarrow> bool" where
  operation: "RecordOperation operation outcome reason r = Some r' \<Longrightarrow> metrics_step r r'"
| dependency: "ObserveDependency dependency outcome duration r = Some r' \<Longrightarrow> metrics_step r r'"
| stale_evidence: "SetStaleEvidence count r = Some r' \<Longrightarrow> metrics_step r r'"
| catalog_entries: "SetCatalogEntries count r = Some r' \<Longrightarrow> metrics_step r r'"
| outbox_lag: "SetOutboxLag lag r = Some r' \<Longrightarrow> metrics_step r r'"
| saturation: "SetDatabaseSaturation ratio r = Some r' \<Longrightarrow> metrics_step r r'"
| revocation: "RecordRevocation severity r = Some r' \<Longrightarrow> metrics_step r r'"

definition operation_series :: "(string \<times> string \<times> string) set" where
  "operation_series =
    {(operation, outcome, reason). validOperation operation \<and> validOutcome outcome \<and> validReason reason \<and>
       (outcome = OutcomeSucceeded \<longrightarrow> reason = ReasonNone)}"

definition dependency_series :: "(string \<times> string) set" where
  "dependency_series = {(dependency, outcome). validDependency dependency \<and> validOutcome outcome}"

definition severities :: "string set" where
  "severities = {''low'', ''medium'', ''high'', ''critical''}"

definition bounded_labels :: "Registry \<Rightarrow> bool" where
  "bounded_labels r \<longleftrightarrow>
    {s. mreg_operations r s \<noteq> 0} \<subseteq> operation_series \<and>
    {s. mreg_dependencyDuration r s \<noteq> []} \<subseteq> dependency_series \<and> {s. mreg_revocations r s \<noteq> 0} \<subseteq> severities"

lemma bounded_labels_New: "bounded_labels NewRegistry"
  by (simp add: bounded_labels_def NewRegistry_def)

lemmas registry_operations = RecordOperation_def ObserveDependency_def SetStaleEvidence_def SetCatalogEntries_def
  SetOutboxLag_def SetDatabaseSaturation_def RecordRevocation_def

lemma bounded_labels_step: "metrics_step r r' \<Longrightarrow> bounded_labels r \<Longrightarrow> bounded_labels r'"
  by (induction rule: metrics_step.induct)
    (auto simp: bounded_labels_def registry_operations operation_series_def dependency_series_def severities_def Let_def
      split: if_splits)

lemma reachable_bounded_labels: "metrics_step\<^sup>*\<^sup>* r r' \<Longrightarrow> bounded_labels r \<Longrightarrow> bounded_labels r'"
  by (induction rule: rtranclp_induct) (auto intro: bounded_labels_step)

text \<open>\<open>NaN\<close> is neither below zero nor above one: it is accepted as a ratio between them.\<close>

lemma nan_saturation_accepted: "SetDatabaseSaturation NaN r = Some (r\<lparr>mreg_databaseSaturation := NaN\<rparr>)"
  by (simp add: SetDatabaseSaturation_def float_less_def float_greater_def)

end
