(* ===== verification/Http_Properties.thy ===== *)
theory Http_Properties
  imports Http_Bodies Sample_Services Sample_Messages Metrics
begin

text \<open>
  What the HTTP adapter guarantees to its callers and to the store, for every request, whatever the use
  cases meet; and the label bounds of the metrics it records.
\<close>

subsection \<open>Samples\<close>

text \<open>An API whose only credential is \<open>token\<close>, and a request that creates a Publisher.\<close>

definition sample_api :: Api where
  "sample_api = \<lparr>api_env = steady_env, api_authorizer = admin_authorizer, api_codec = sample_codec,
     api_authenticate = (\<lambda>credential. if credential = ''token'' then Inr sample_identity else Inl errInvalidToken)\<rparr>"

definition sample_request :: Request where
  "sample_request = \<lparr>req_Method = ''POST'', req_Path = ''/v1/publishers'', req_RawQuery = [],
     req_Authorization = [''Bearer token''], req_IdempotencyKey = [''k1''], req_ContentLength = 0,
     req_Body = (json_encode (create_publisher_json sample_command), StreamEOF), req_Ctx = sample_ctx,
     req_Correlation = None\<rparr>"

lemma Fields_bearer: "Fields [] ''Bearer token'' = [''Bearer'', ''token'']"
  by (simp add: Fields.simps nonempty_field_def decode_rune_ascii is_space_def)

lemma EqualFold_refl [simp]: "EqualFold s s"
  by (simp add: EqualFold_def)

lemma sample_authenticated: "authenticate (api_authenticate sample_api) sample_request = Inr sample_identity"
  by (simp add: authenticate_def sample_request_def sample_api_def Fields_bearer)

lemma route_publishers: "resource_route ''publishers'' ''POST'' ''/v1/publishers'' = RouteCollection"
  by (simp add: resource_route_def cleanPath_def match_resource_def path_segments_def)

lemma sample_audit_identity: "withAuditIdentity sample_request sample_identity = Inr sample_request"
proof -
  have "NewActor ''alice'' None [] = Inr sample_actor" using wf_sample_actor by (simp add: NewActor_Inr) (simp add: sample_actor_def)
  then show ?thesis
    by (simp add: withAuditIdentity_def sample_request_def CorrelationFromContext_def zero_Correlation_def WithActor_def
        sample_ctx_def)
qed

lemma sample_body: "decode_command publisher_fields zero_CreatePublisher (req_Body sample_request) = Inr sample_command"
proof -
  have "json_ok (create_publisher_json sample_command)" "nesting (create_publisher_json sample_command) \<le> max_nesting"
    by (simp_all add: create_publisher_json_def sample_command_def omitempty_def max_nesting_def)
  moreover have "delimited (create_publisher_json sample_command)" by (simp add: delimited_def create_publisher_json_def)
  ultimately have "decode_command publisher_fields zero_CreatePublisher
      (json_encode (create_publisher_json sample_command), StreamEOF) = Inr sample_command"
    by (subst decode_command_encoded) (simp_all add: decode_publisher)
  then show ?thesis by (simp add: sample_request_def del: json_encode.simps)
qed

lemma created_in:
  assumes "serves env (sample_uuid 9) sample_db"
  shows "\<exists>r w'. publisherRoutes (sample_api\<lparr>api_env := env\<rparr>) sample_request (fresh_world sample_db) = (Responded r, w') \<and>
    resp_Status r = 201"
proof -
  obtain ctx where "authenticatedAuditContext sample_ctx sample_identity = Inr ctx"
    using sample_context by (auto simp: is_ok_iff)
  from PublisherService_Create_completes [of env sample_identity "fresh_world sample_db" admin_authorizer sample_ctx
      ctx "''k1''" sample_command] this assms sample_db_publisher_inv sample_permitted(1) sample_command_accepted
  obtain p w' where run: "PublisherService_Create env admin_authorizer sample_ctx sample_identity ''k1''
      sample_command (fresh_world sample_db) = (Inr p, w')"
    by (auto simp: completes_def owned_rows_def sample_prow_def)
  have fields: "req_Method sample_request = ''POST''" "req_Path sample_request = ''/v1/publishers''"
    "req_IdempotencyKey sample_request = [''k1'']" "req_Ctx sample_request = sample_ctx"
    "api_env (sample_api\<lparr>api_env := env\<rparr>) = env" "api_authorizer (sample_api\<lparr>api_env := env\<rparr>) = admin_authorizer"
    "api_authenticate (sample_api\<lparr>api_env := env\<rparr>) = api_authenticate sample_api"
    by (simp_all add: sample_request_def sample_api_def)
  show ?thesis
    unfolding publisherRoutes_def routes_ServeHTTP_def fields route_publishers publisher_collection_def
      collection_handler_def sample_authenticated publisher_create_def create_resource_def
    by (simp add: sample_audit_identity fields sample_body run first_value_def writePublisher_def writeJSON_def)
qed

lemma sample_created:
  "\<exists>r w'. publisherRoutes sample_api sample_request (fresh_world sample_db) = (Responded r, w') \<and> resp_Status r = 201"
  using created_in [OF sample_serves] by (simp add: sample_api_def)

subsection \<open>Changes\<close>

text \<open>The handlers of the three resources.\<close>

definition api_handlers :: "Api \<Rightarrow> (string \<times> handler) list" where
  "api_handlers api = [(''publishers'', publisherRoutes api), (''namespaces'', namespaceRoutes api),
     (''artifacts'', artifactRoutes api)]"

lemma handler_change:
  assumes "(collection, routes) \<in> set (api_handlers api)" and "routes request w = (h, w')"
  shows "w_db w' = w_db w \<and> \<not> answered 201 h \<or>
    req_Method request = ''POST'' \<and> resource_route collection ''POST'' (req_Path request) = RouteCollection \<and>
    snd (req_Body request) = StreamEOF \<and>
    (\<exists>actor key r u. authenticate (api_authenticate api) request = Inr actor \<and> req_IdempotencyKey request = [key] \<and>
      h = Responded r \<and> resp_Status r = 201 \<and> location r = Some (''/v1/'' @ collection @ ''/'' @ UUID_String u))"
proof -
  consider "collection = ''publishers''" "publisherRoutes api request w = (h, w')"
    | "collection = ''namespaces''" "namespaceRoutes api request w = (h, w')"
    | "collection = ''artifacts''" "artifactRoutes api request w = (h, w')"
    using assms by (auto simp: api_handlers_def)
  then show ?thesis
  proof cases
    case 1
    from publisherRoutes_change [OF 1(2)] show ?thesis
    proof (elim disjE conjE)
      assume route: "resource_route ''publishers'' (req_Method request) (req_Path request) = RouteCollection"
        and c: "carried_out (api_authenticate api) publisher_fields zero_CreatePublisher
          (PublisherService_Create (api_env api) (api_authorizer api)) pub_id ''publishers'' writePublisher request w h w'"
      show ?thesis
        by (rule publisher_api.carried_out_answer [OF c]) (use route in \<open>auto simp: 1(1)\<close>)
    qed blast
  next
    case 2
    from namespaceRoutes_change [OF 2(2)] show ?thesis
    proof (elim disjE conjE)
      assume route: "resource_route ''namespaces'' (req_Method request) (req_Path request) = RouteCollection"
        and c: "carried_out (api_authenticate api) namespace_fields zero_CreateNamespace
          (NamespaceService_Create (api_env api) (api_authorizer api)) ns_id ''namespaces'' writeNamespace request w h w'"
      show ?thesis
        by (rule namespace_api.carried_out_answer [OF c]) (use route in \<open>auto simp: 2(1)\<close>)
    qed blast
  next
    case 3
    from artifactRoutes_change [OF 3(2)] show ?thesis
    proof (elim disjE conjE)
      assume route: "resource_route ''artifacts'' (req_Method request) (req_Path request) = RouteCollection"
        and c: "carried_out (api_authenticate api) artifact_fields zero_CreateArtifact
          (ArtifactService_Create (api_env api) (api_authorizer api)) art_id ''artifacts'' writeArtifact request w h w'"
      show ?thesis
        by (rule artifact_api.carried_out_answer [OF c]) (use route in \<open>auto simp: 3(1)\<close>)
    qed blast
  qed
qed



lemma httpTyped_literal:
  "reason_literal text \<Longrightarrow> cls \<in> set error_classes \<Longrightarrow> httpTyped cls text = TypedError cls (ReasonCode text)"
  by (simp add: httpTyped_def NewReasonCode_literal NewTypedError_def)
    (use NewReasonCode_literal NewReasonCode_nonempty in \<open>fastforce\<close>)

text \<open>
  C6: a caller whose credential is refused is told so with 401 and the challenge, unless the path is not
  one of the resource, and nothing is looked at or changed.
\<close>

theorem unauthenticated_refused:
  assumes "(collection, routes) \<in> set (api_handlers api)"
    and "authenticate (api_authenticate api) request = Inl (TypedError ErrorUnauthorized reason)"
    and "routes request w = (h, w')"
  shows "w' = w \<and>
    (case resource_route collection (req_Method request) (req_Path request) of
       RouteMissing \<Rightarrow> answered 404 h
     | RouteMoved target \<Rightarrow> h = MovedTo target
     | _ \<Rightarrow> (\<exists>r. h = Responded r \<and> resp_Status r = 401 \<and> map_of (resp_Headers r) ''WWW-Authenticate'' = Some ''Bearer''))"
proof -
  obtain r where r: "WriteError bearer_challenge request (TypedError ErrorUnauthorized reason) = Responded r"
      "resp_Status r = 401" "map_of (resp_Headers r) ''WWW-Authenticate'' = Some ''Bearer''"
    by (simp add: WriteError_def status_of_class_def writeProblem_def bearer_challenge_def)
  obtain on_member create list_all_of kind get write_resource where
    routes: "routes = routes_ServeHTTP collection (collection_handler (api_authenticate api) create list_all_of) on_member"
    and member: "\<And>m. on_member m request w = (WriteError bearer_challenge request (TypedError ErrorUnauthorized reason), w)"
    using assms(1,2)
    by (auto simp: api_handlers_def publisherRoutes_def publisher_collection_def publisher_member_def namespaceRoutes_def
        namespace_collection_def namespace_member_def artifactRoutes_def artifact_collection_def artifact_member_def
        member_handler_def)
  show ?thesis
    using assms(2,3)
    by (auto simp: r routes routes_ServeHTTP_def member collection_handler_def route_not_found_def split: route.splits)
qed

theorem unauthenticated_refused_witness:
  "\<exists>r w'. publisherRoutes sample_api (sample_request\<lparr>req_Authorization := [''Bearer token'', ''Bearer token'']\<rparr>)
      (fresh_world sample_db) = (Responded r, w') \<and> resp_Status r = 401"
proof -
  let ?request = "sample_request\<lparr>req_Authorization := [''Bearer token'', ''Bearer token'']\<rparr>"
  have bad: "authenticate (api_authenticate sample_api) ?request =
      Inl (TypedError ErrorUnauthorized (ReasonCode ''identity.invalid_authorization''))"
    by (simp add: authenticate_def httpTyped_literal reason_literal_def char_class_defs error_classes_def)
  obtain h w' where run: "publisherRoutes sample_api ?request (fresh_world sample_db) = (h, w')" by force
  have route: "resource_route ''publishers'' (req_Method ?request) (req_Path ?request) = RouteCollection"
    using route_publishers by (simp add: sample_request_def)
  have mem: "(''publishers'', publisherRoutes sample_api) \<in> set (api_handlers sample_api)" by (simp add: api_handlers_def)
  from unauthenticated_refused [OF mem bad run] route run show ?thesis by auto
qed

subsection \<open>Keys\<close>

lemma handler_created:
  assumes "(collection, routes) \<in> set (api_handlers api)" and "routes request w = (h, w')" and "answered 201 h"
  obtains "collection = ''publishers''" "carried_out (api_authenticate api) publisher_fields zero_CreatePublisher
      (PublisherService_Create (api_env api) (api_authorizer api)) pub_id ''publishers'' writePublisher request w h w'"
    | "collection = ''namespaces''" "carried_out (api_authenticate api) namespace_fields zero_CreateNamespace
      (NamespaceService_Create (api_env api) (api_authorizer api)) ns_id ''namespaces'' writeNamespace request w h w'"
    | "collection = ''artifacts''" "carried_out (api_authenticate api) artifact_fields zero_CreateArtifact
      (ArtifactService_Create (api_env api) (api_authorizer api)) art_id ''artifacts'' writeArtifact request w h w'"
proof -
  consider "collection = ''publishers''" "publisherRoutes api request w = (h, w')"
    | "collection = ''namespaces''" "namespaceRoutes api request w = (h, w')"
    | "collection = ''artifacts''" "artifactRoutes api request w = (h, w')"
    using assms(1,2) by (auto simp: api_handlers_def)
  then show thesis
  proof cases
    case 1
    from publisherRoutes_change [OF 1(2)] assms(3) show thesis by (elim disjE conjE) (blast, rule that(1) [OF 1(1)])
  next
    case 2
    from namespaceRoutes_change [OF 2(2)] assms(3) show thesis by (elim disjE conjE) (blast, rule that(2) [OF 2(1)])
  next
    case 3
    from artifactRoutes_change [OF 3(2)] assms(3) show thesis by (elim disjE conjE) (blast, rule that(3) [OF 3(1)])
  qed
qed

lemma created_twice:
  assumes "store_inv (w_db w)" and "(collection, routes) \<in> set (api_handlers api)"
    and "(collection, routes') \<in> set (api_handlers api')"
    and "routes request w = (Responded r, w1)" and "answered 201 (Responded r)"
    and "routes' request' w2 = (Responded r', w3)" and "answered 201 (Responded r')" and "w_db w2 = w_db w1"
    and "authenticate (api_authenticate api') request' = authenticate (api_authenticate api) request"
    and "req_IdempotencyKey request' = req_IdempotencyKey request"
  shows "w_db w3 = w_db w1 \<and> location r' = location r"
proof -
  note created = handler_created [OF assms(2,4,5)] handler_created [OF assms(3,6,7)]
  show ?thesis
  proof (rule created(1))
    assume c: "collection = ''publishers''" and run: "carried_out (api_authenticate api) publisher_fields zero_CreatePublisher
      (PublisherService_Create (api_env api) (api_authorizer api)) pub_id ''publishers'' writePublisher request w (Responded r) w1"
    show ?thesis
      by (rule created(2); (simp add: c)?)
        (rule carried_out_twice [OF publisher_keys.keyed_use_cases_axioms publisher_keys.keyed_use_cases_axioms run assms(1) _ assms(8-10)])
  next
    assume c: "collection = ''namespaces''" and run: "carried_out (api_authenticate api) namespace_fields zero_CreateNamespace
      (NamespaceService_Create (api_env api) (api_authorizer api)) ns_id ''namespaces'' writeNamespace request w (Responded r) w1"
    show ?thesis
      by (rule created(2); (simp add: c)?)
        (rule carried_out_twice [OF namespace_keys.keyed_use_cases_axioms namespace_keys.keyed_use_cases_axioms run assms(1) _ assms(8-10)])
  next
    assume c: "collection = ''artifacts''" and run: "carried_out (api_authenticate api) artifact_fields zero_CreateArtifact
      (ArtifactService_Create (api_env api) (api_authorizer api)) art_id ''artifacts'' writeArtifact request w (Responded r) w1"
    show ?thesis
      by (rule created(2); (simp add: c)?)
        (rule carried_out_twice [OF artifact_keys.keyed_use_cases_axioms artifact_keys.keyed_use_cases_axioms run assms(1) _ assms(8-10)])
  qed
qed

text \<open>
  C3: once a request of a caller to a collection was answered with 201, every request of that caller with
  the same key to the collection, however much later and in whatever environment, changes nothing, and
  it is answered with 201 only for the same location.
\<close>

theorem created_once_per_key:
  assumes "store_inv (w_db w)" and "(collection, routes) \<in> set (api_handlers api)"
    and "(collection, routes') \<in> set (api_handlers api')"
    and "routes request w = (Responded r, w1)" and "resp_Status r = 201"
    and "routes' request' w2 = (h, w3)" and "w_db w2 = w_db w1"
    and "authenticate (api_authenticate api') request' = authenticate (api_authenticate api) request"
    and "req_IdempotencyKey request' = req_IdempotencyKey request"
  shows "w_db w3 = w_db w1 \<and> (\<forall>r'. h = Responded r' \<and> resp_Status r' = 201 \<longrightarrow> location r' = location r)"
proof (cases "answered 201 h")
  case True
  then obtain r' where h: "h = Responded r'" by (auto simp: answered_def)
  have "answered 201 (Responded r)" using assms(5) by (simp add: answered_def)
  from created_twice [OF assms(1-4) this assms(6) [unfolded h] True [unfolded h] assms(7-9)] h show ?thesis by simp
next
  case False
  with handler_change [OF assms(3,6)] assms(7) show ?thesis by (auto simp: answered_def)
qed

theorem created_once_per_key_witness:
  "\<exists>r w1 h w3. publisherRoutes sample_api sample_request (fresh_world sample_db) = (Responded r, w1) \<and>
    resp_Status r = 201 \<and> publisherRoutes sample_api sample_request w1 = (h, w3) \<and> w_db w3 = w_db w1"
proof -
  obtain r w1 where run: "publisherRoutes sample_api sample_request (fresh_world sample_db) = (Responded r, w1)"
    "resp_Status r = 201"
    using sample_created by blast
  obtain h w3 where again: "publisherRoutes sample_api sample_request w1 = (h, w3)" by force
  have mem: "(''publishers'', publisherRoutes sample_api) \<in> set (api_handlers sample_api)" by (simp add: api_handlers_def)
  have inv: "store_inv (w_db (fresh_world sample_db))" by (simp add: sample_store_inv)
  from created_once_per_key [OF inv mem mem run again refl refl refl] run again show ?thesis by blast
qed

subsection \<open>The middleware\<close>

definition sample_options :: Options where
  "sample_options = \<lparr>opt_printable = (\<lambda>_. False), opt_ID = Some (sample_uuid 7), opt_TraceID = (\<lambda>_. None),
     opt_Readiness = None, opt_maxBodyBytes = 10\<rparr>"

lemma wrap_db:
  assumes "wrap options routes request w = (ex, w')" and "w_db w' \<noteq> w_db w"
  obtains request' h where "routes request' w = (h, w')"
    "req_Body request' = MaxBytesReader (opt_maxBodyBytes options) (req_Body request)"
  using assms by (auto simp: wrap_def Let_def split: option.splits if_splits prod.splits)

text \<open>
  C36: a request whose body is longer than the limit changes nothing, whether or not it declares its length,
  and however much of the body is already a command.
\<close>

theorem oversized_body_changes_nothing:
  assumes "(collection, routes) \<in> set (api_handlers api)"
    and "int (length (fst (req_Body request))) > opt_maxBodyBytes options"
  shows "w_db (snd (wrap options routes request w)) = w_db w"
proof (rule ccontr)
  assume changed: "w_db (snd (wrap options routes request w)) \<noteq> w_db w"
  obtain ex w' where run: "wrap options routes request w = (ex, w')" by force
  with changed have "w_db w' \<noteq> w_db w" by simp
  from wrap_db [OF run this] obtain request' h where inner: "routes request' w = (h, w')"
    and body: "req_Body request' = MaxBytesReader (opt_maxBodyBytes options) (req_Body request)" by blast
  from handler_change [OF assms(1) inner] \<open>w_db w' \<noteq> w_db w\<close>
  have "snd (MaxBytesReader (opt_maxBodyBytes options) (req_Body request)) = StreamEOF" unfolding body by blast
  from MaxBytesReader_end [OF this] assms(2) show False by simp
qed

theorem oversized_body_changes_nothing_witness:
  "w_db (snd (wrap sample_options (publisherRoutes sample_api) sample_request (fresh_world sample_db))) = sample_db"
proof -
  have "length (json_encode (create_publisher_json sample_command)) > 10"
    by (simp add: create_publisher_json_def json_quote_def sample_command_def omitempty_def)
  then have "int (length (fst (req_Body sample_request))) > opt_maxBodyBytes sample_options"
    by (simp add: sample_request_def sample_options_def del: json_encode.simps)
  moreover have "(''publishers'', publisherRoutes sample_api) \<in> set (api_handlers sample_api)" by (simp add: api_handlers_def)
  ultimately show ?thesis using oversized_body_changes_nothing by fastforce
qed



subsection \<open>Bodies\<close>

text \<open>
  C38: the canonical encoding of a command, which its digest is taken of, is read back by the handler as the
  command; the labels of an artifact come back in the order of their keys.
\<close>

theorem command_bodies_read_back:
  assumes "list_all utf8_valid [cp_Slug p, cp_DisplayName p, cp_Description p, cn_Path n]"
    and "list_all utf8_valid [ca_Name a, ca_Kind a, ca_DisplayName a, ca_Description a, ca_Homepage a, ca_Repository a]"
    and "list_all (\<lambda>l. utf8_valid (fst l) \<and> utf8_valid (snd l)) (ca_Labels a)" and "distinct (map fst (ca_Labels a))"
    and "valid_uuid (cn_OwnerPublisherID n)" and "valid_uuid (ca_NamespaceID a)"
  shows "decode_command publisher_fields zero_CreatePublisher (json_encode (create_publisher_json p), StreamEOF) = Inr p \<and>
    decode_command namespace_fields zero_CreateNamespace (json_encode (create_namespace_json n), StreamEOF) = Inr n \<and>
    decode_command artifact_fields zero_CreateArtifact (json_encode (create_artifact_json a), StreamEOF) =
      Inr (a\<lparr>ca_Labels := sort_key fst (ca_Labels a)\<rparr>)"
proof (intro conjI)
  show "decode_command publisher_fields zero_CreatePublisher (json_encode (create_publisher_json p), StreamEOF) = Inr p"
    using assms(1) by (subst decode_command_encoded) (simp_all add: publisher_json_ok decode_publisher)
  show "decode_command namespace_fields zero_CreateNamespace (json_encode (create_namespace_json n), StreamEOF) = Inr n"
    using assms(1,5) by (subst decode_command_encoded) (simp_all add: namespace_json_ok decode_namespace)
  show "decode_command artifact_fields zero_CreateArtifact (json_encode (create_artifact_json a), StreamEOF) =
      Inr (a\<lparr>ca_Labels := sort_key fst (ca_Labels a)\<rparr>)"
    using assms by (subst decode_command_encoded) (simp_all add: artifact_json_ok decode_artifact)
qed

theorem command_bodies_read_back_witness:
  "decode_command publisher_fields zero_CreatePublisher (json_encode (create_publisher_json sample_command), StreamEOF) =
      Inr sample_command \<and>
    decode_command artifact_fields zero_CreateArtifact (json_encode (create_artifact_json
      (sample_artifact_command\<lparr>ca_Labels := [(''os'', ''linux''), (''arch'', ''arm'')]\<rparr>)), StreamEOF) =
      Inr (sample_artifact_command\<lparr>ca_Labels := [(''arch'', ''arm''), (''os'', ''linux'')]\<rparr>)"
proof -
  let ?labels = "[(''os'', ''linux''), (''arch'', ''arm'')]" and ?namespace = "\<lparr>cn_Path = ''acme'', cn_OwnerPublisherID = sample_uuid 3\<rparr>"
  have "sort_key fst ?labels = [(''arch'', ''arm''), (''os'', ''linux'')]"
    by simp
  then show ?thesis
    using command_bodies_read_back [of sample_command ?namespace "sample_artifact_command\<lparr>ca_Labels := ?labels\<rparr>"]
    by (simp add: sample_command_def sample_artifact_command_def del: sort_key_simps json_encode.simps)
qed

subsection \<open>Reading what was created\<close>

lemma UUID_String_plain: "c \<in> set (UUID_String u) \<Longrightarrow> lower_hex c \<or> c = CHR ''-''"
  by (auto simp: UUID_String_def Let_def dest: hex_encode_lower)

lemma unescape_plain: "CHR ''%'' \<notin> set s \<Longrightarrow> unescape EncodePath s = Some s"
  by (induction s) auto

lemma split_on_plain: "c \<notin> set s \<Longrightarrow> split_on c s = [s]"
  by (induction s) auto

text \<open>The location of a resource is a path of the resource.\<close>

lemma member_route:
  "resource_route ''publishers'' ''GET'' (''/v1/publishers/'' @ UUID_String u) = RouteMember (UUID_String u)"
proof -
  let ?s = "UUID_String u"
  have plain: "CHR ''/'' \<notin> set ?s" "CHR ''%'' \<notin> set ?s" "CHR ''.'' \<notin> set ?s"
    using UUID_String_plain [of "CHR ''/''" u] UUID_String_plain [of "CHR ''%''" u] UUID_String_plain [of "CHR ''.''" u]
    by (auto simp: lower_hex_def is_digit_def)
  have named: "?s \<noteq> []" by (metis length_UUID_String list.size(3) zero_neq_numeral)
  have segments: "split_on (CHR ''/'') (''/v1/publishers/'' @ ?s) = [[], ''v1'', ''publishers'', ?s]"
    using plain(1) by (simp add: split_on_plain)
  have clean: "cleanPath (''/v1/publishers/'' @ ?s) = ''/v1/publishers/'' @ ?s"
  proof -
    have "?s \<noteq> ''.''" "?s \<noteq> ''..''" using plain(3) by auto
    moreover have "last (''/v1/publishers/'' @ ?s) \<noteq> CHR ''/''" using named plain(1) by (metis last_appendR last_in_set)
    ultimately show ?thesis using named unfolding cleanPath_def segments by (simp add: Let_def)
  qed
  have "path_segments (''/v1/publishers/'' @ ?s) = [''v1'', ''publishers'', ?s]"
    using plain by (simp add: path_segments_def split_on_plain unescape_plain)
  then have "match_resource ''publishers'' (''/v1/publishers/'' @ ?s) = RouteMember ?s"
    using named by (simp add: match_resource_def)
  then show ?thesis unfolding resource_route_def clean by simp
qed

lemma publisher_get_completes:
  assumes "faultless env" "valid_uuid (ident_TenantID actor)" "ident_PrincipalID actor \<noteq> []"
    and "ctx_tx ctx = None \<or> ctx_tx ctx = Some (ident_TenantID actor)"
    and "publisher_store (w_db w) (ident_TenantID actor) u = Some p" "valid_uuid u"
  shows "completes (PublisherService_Get env ctx actor u) w (\<lambda>q db. q = p \<and> db = w_db w)"
proof -
  from assms(5) obtain r rs where "publisherSelect (\<lambda>q. prow_tenant q = ident_TenantID actor \<and> prow_id q = u) (w_db w) = r # rs"
    "publisher_scan r = Inr p"
    by (auto simp: publisher_store_def publisher_rows_def split: list.splits sum.splits)
  with assms show ?thesis
    by (auto simp: PublisherService_Get_def validateIdentity_def PublisherRepository_Get_def publisher_get_def
        intro!: completes_repository_tx completes_query_one)
qed

lemma created_identity:
  assumes "PublisherService_Create env authorizer ctx actor key command w = (Inr p, w')"
  shows "ident_PrincipalID actor \<noteq> []"
  using assms authenticatedAuditContext_Inr
  by (fastforce simp: PublisherService_Create_def io_fail_def wf_actor_def split: option.splits sum.splits)

text \<open>
  C5: a Publisher whose creation was answered with 201 can be read at the location of the answer by its
  creator, through any API over the same store whose database answers: the body is the same but for the
  precision of the creation time in the store, and reading changes nothing.
\<close>

theorem created_publisher_is_served:
  assumes "store_inv (w_db w)" and "idem_bound (w_db w) actor createPublisherAction key = None"
    and "\<And>t. t \<noteq> 0 \<Longrightarrow> env_store_time (api_env api) t \<noteq> 0"
    and "authenticate (api_authenticate api) request = Inr actor" and "req_IdempotencyKey request = [key]"
    and "publisherRoutes api request w = (Responded r, w1)" and "resp_Status r = 201"
    and "authenticate (api_authenticate api') query = Inr actor" and "req_Method query = ''GET''"
    and "location r = Some (req_Path query)" and "ctx_tx (req_Ctx query) = None"
    and "faultless (api_env api')" and "w_db w2 = w_db w1"
  shows "\<exists>p r' w3. publisherRoutes api' query w2 = (Responded r', w3) \<and> w_db w3 = w_db w1 \<and> resp_Status r' = 200 \<and>
    resp_Body r = text_line (publisherRepresentation p) \<and>
    resp_Body r' = text_line (publisherRepresentation
      (p\<lparr>pub_createdAt := env_store_time (api_env api) (pub_createdAt p)\<rparr>))"
proof -
  let ?stored = "\<lambda>p. p\<lparr>pub_createdAt := env_store_time (api_env api) (pub_createdAt p)\<rparr>"
  have "answered 201 (Responded r)" using assms(7) by (simp add: answered_def)
  with publisherRoutes_change [OF assms(6)] have c: "carried_out (api_authenticate api) publisher_fields zero_CreatePublisher
      (PublisherService_Create (api_env api) (api_authorizer api)) pub_id ''publishers'' writePublisher request w (Responded r) w1"
    by blast
  then obtain request' command p where run: "PublisherService_Create (api_env api) (api_authorizer api)
      (req_Ctx (request' :: Request)) actor key command w = (Inr p, w1)"
    and h: "Responded r = writePublisher [(''Location'', ''/v1/'' @ ''publishers'' @ ''/'' @ UUID_String (pub_id p))] 201 p"
    using assms(4,5) unfolding carried_out_def by auto
  obtain now uid where "Publisher_New (ident_TenantID actor) uid (cp_Slug command) (cp_DisplayName command)
      (cp_Description command) now = Inr p"
    by (rule PublisherService_Create_first [OF run assms(2)]) (use assms(1) in \<open>simp add: store_inv_def record_inv_def\<close>)
  then have "pub_createdAt p \<noteq> 0" by (auto dest!: Publisher_New_wf simp: wf_publisher_def)
  obtain rc where store: "publisher_store (w_db w1) (ident_TenantID actor) (pub_id p) = Some (?stored p)"
    and wf: "wf_publisher p" "pub_tenantID p = ident_TenantID actor"
    by (rule publisher_first_stored [OF assms(1,2) run assms(3) [OF \<open>pub_createdAt p \<noteq> 0\<close>]])
  have valid: "valid_uuid (pub_id p)" "valid_uuid (ident_TenantID actor)" using wf by (auto simp: wf_publisher_def)
  from h have body: "resp_Body r = text_line (publisherRepresentation p)"
    and path: "req_Path query = ''/v1/publishers/'' @ UUID_String (pub_id p)"
    using assms(10) by (auto simp: writePublisher_def writeJSON_def location_def)
  have "completes (PublisherService_Get (api_env api') (req_Ctx query) actor (pub_id p)) w2 (\<lambda>q db. q = ?stored p \<and> db = w_db w2)"
    by (rule publisher_get_completes) (use assms(11-) valid store created_identity [OF run] in auto)
  then obtain w3 where get: "PublisherService_Get (api_env api') (req_Ctx query) actor (pub_id p) w2 = (Inr (?stored p), w3)"
    "w_db w3 = w_db w1" using assms(13) by (auto simp: completes_def)
  have "publisherRoutes api' query w2 = (writePublisher [] 200 (?stored p), w3)"
    unfolding publisherRoutes_def routes_ServeHTTP_def assms(9) path member_route publisher_member_def member_handler_def assms(8)
    by (simp add: ParseUUID_String valid get(1))
  moreover obtain r' where "writePublisher [] 200 (?stored p) = Responded r'" "resp_Status r' = 200"
    "resp_Body r' = text_line (publisherRepresentation (?stored p))"
    by (simp add: writePublisher_def writeJSON_def)
  ultimately show ?thesis using body get(2) by metis
qed

text \<open>An API over a store that keeps instants exactly.\<close>

definition exact_api :: Api where
  "exact_api = sample_api\<lparr>api_env := steady_env\<lparr>env_store_time := \<lambda>t. t\<rparr>\<rparr>"

theorem created_publisher_is_served_witness:
  "\<exists>r path w1 r' w3. publisherRoutes exact_api sample_request (fresh_world sample_db) = (Responded r, w1) \<and>
    resp_Status r = 201 \<and> location r = Some path \<and>
    publisherRoutes exact_api (sample_request\<lparr>req_Method := ''GET'', req_Path := path\<rparr>) w1 = (Responded r', w3) \<and>
    resp_Status r' = 200"
proof -
  let ?env = "steady_env\<lparr>env_store_time := \<lambda>t. t\<rparr>" and ?w = "fresh_world sample_db"
  have "serves ?env (sample_uuid 9) sample_db"
    by (simp add: serves_def faultless_def sample_prow_def MinimumRetention_def sample_time_def time_defs)
  from created_in [OF this] obtain r w1 where run: "publisherRoutes exact_api sample_request ?w = (Responded r, w1)"
    "resp_Status r = 201" unfolding exact_api_def by blast
  have mem: "(''publishers'', publisherRoutes exact_api) \<in> set (api_handlers exact_api)" by (simp add: api_handlers_def)
  from handler_change [OF mem run(1)] run(2) obtain path where path: "location r = Some path"
    by (auto simp: answered_def)
  let ?query = "sample_request\<lparr>req_Method := ''GET'', req_Path := path\<rparr>"
  have inv: "store_inv (w_db ?w)" by (simp add: sample_store_inv)
  have free: "idem_bound (w_db ?w) sample_identity createPublisherAction ''k1'' = None"
    by (simp add: idem_store_def owned_rows_def)
  have auth: "authenticate (api_authenticate exact_api) sample_request = Inr sample_identity"
    using sample_authenticated by (simp add: exact_api_def)
  then have auth': "authenticate (api_authenticate exact_api) ?query = Inr sample_identity"
    by (simp add: authenticate_def)
  have env: "env_store_time (api_env exact_api) t = t" "faultless (api_env exact_api)" for t
    by (simp_all add: exact_api_def faultless_def)
  have fields: "req_IdempotencyKey sample_request = [''k1'']" "req_Method ?query = ''GET''" "location r = Some (req_Path ?query)"
    "ctx_tx (req_Ctx ?query) = None" by (simp_all add: path sample_request_def)
  from created_publisher_is_served [OF inv free _ auth fields(1) run auth' fields(2-4) env(2) refl] env(1) run path
  show ?thesis by fastforce
qed

subsection \<open>Problems\<close>

definition known_error :: "go_error \<Rightarrow> bool" where
  "known_error err \<longleftrightarrow>
    (case err of
       TypedError cls reason \<Rightarrow> cls \<in> set error_classes \<and> utf8_valid (ReasonCode_String reason)
     | PlainError _ \<Rightarrow> True
     | Panicked \<Rightarrow> False)"

text \<open>What a client may learn of an error.\<close>

definition public_error :: "go_error \<Rightarrow> ErrorClass \<times> string" where
  "public_error err =
    (case err of TypedError cls reason \<Rightarrow> (cls, ReasonCode_String reason) | _ \<Rightarrow> (ErrorInternal, ''internal_error''))"

text \<open>An object ends with its brace, whatever follows.\<close>

lemma json_decode_object:
  assumes ok: "json_ok (JObject ms)" and "ms \<noteq> []" and nest: "nesting (JObject ms) \<le> max_nesting"
  shows "json_decode_first (json_encode (JObject ms) @ rest) = Some (JObject ms, rest)"
proof -
  let ?fuel = "2 * length (json_encode (JObject ms) @ rest) + 1"
  have members: "parse_members ?fuel 1 (join_with (CHR '','') (map encode_member ms) @ CHR 0x7D # rest) = Some (ms, rest)"
    using ok nest \<open>ms \<noteq> []\<close> need_le_length [OF ok]
    by (intro parse_members_join) (auto simp: list_all_iff intro: json_ok_reads_back simp del: json_encode.simps)
  obtain cs where "join_with (CHR '','') (map encode_member ms) = CHR 0x22 # cs"
    using join_member_first [OF \<open>ms \<noteq> []\<close>] by blast
  moreover have "2 * length (json_encode (JObject ms) @ rest) + 2 = Suc ?fuel" by simp
  ultimately show ?thesis
    using members unfolding json_decode_first_def json_encode_object
    by (simp add: skip_space_first max_nesting_def)
qed

lemma problem_parses:
  assumes "utf8_valid kind" "utf8_valid title" "utf8_valid reason" "utf8_valid rid"
  shows "json_parse (text_line (problem_json kind title status reason rid)) = Some (problem_json kind title status reason rid)"
proof -
  obtain ms where v: "problem_json kind title status reason rid = JObject ms" "ms \<noteq> []" by (simp add: problem_json_def)
  have "\<exists>i. dec_digits status = show_int i" by (rule exI [of _ "int status"]) (simp add: show_int_def)
  then have "json_ok (problem_json kind title status reason rid)" "nesting (problem_json kind title status reason rid) \<le> max_nesting"
    using assms by (simp_all add: problem_json_def omitempty_def max_nesting_def)
  then show ?thesis
    using json_decode_object [of ms "[CHR 10]"] v
    by (simp add: json_parse_def text_line_def skip_space_def is_json_space_def del: json_encode.simps)
qed

lemma utf8_valid_append: "list_all (\<lambda>c. code c < 0x80) s \<Longrightarrow> utf8_valid (s @ t) = utf8_valid t"
  by (induction s) auto

lemma status_internal: "status_of_class ErrorInternal = (500, ''Internal Server Error'')"
  by (simp add: status_of_class_def)

lemma class_ascii:
  "cls \<in> set error_classes \<Longrightarrow> list_all (\<lambda>c. code c < 0x80) (''https://thinkpixel.dev/problems/'' @ cls @ ''/'')"
  unfolding error_classes_def by (elim set_ConsD [THEN disjE] | simp | erule disjE)+

lemma class_status:
  assumes "cls \<in> set error_classes"
  shows "utf8_valid (snd (status_of_class cls))" and "c \<in> set error_classes \<Longrightarrow>
    fst (status_of_class cls) = fst (status_of_class c) \<longleftrightarrow> c = cls"
proof -
  have "map (\<lambda>c. fst (status_of_class c)) error_classes = [400, 404, 409, 401, 403, 503, 500]"
    by (simp add: error_classes_def status_of_class_def)
  then have "distinct (map (\<lambda>c. fst (status_of_class c)) error_classes)" by simp
  then show "fst (status_of_class cls) = fst (status_of_class c) \<longleftrightarrow> c = cls" if "c \<in> set error_classes"
    using assms that by (auto simp: distinct_map inj_on_def)
  have "list_all (\<lambda>c. utf8_valid (snd (status_of_class c))) error_classes"
    by (simp add: error_classes_def status_of_class_def)
  then show "utf8_valid (snd (status_of_class cls))" using assms by (simp add: list_all_iff)
qed

text \<open>
  C39: an error is answered with a problem document that parses: its status decides the class of the error
  and no other, its code is the error's reason code, and of an error without a class nothing is told.
\<close>

theorem problem_documents_faithful:
  assumes "known_error err" and "utf8_valid (requestID request)"
  shows "\<exists>r title. WriteError headers request err = Responded r \<and>
    json_parse (resp_Body r) = Some (problem_json
      (''https://thinkpixel.dev/problems/'' @ fst (public_error err) @ ''/'' @ snd (public_error err)) title
      (resp_Status r) (snd (public_error err)) (requestID request)) \<and>
    (\<forall>cls \<in> set error_classes. resp_Status r = fst (status_of_class cls) \<longleftrightarrow> cls = fst (public_error err))"
proof -
  let ?cls = "fst (public_error err)" and ?code = "snd (public_error err)"
  have cls: "?cls \<in> set error_classes" and code: "utf8_valid ?code"
    using assms(1) by (cases err; simp add: known_error_def public_error_def error_classes_def)+
  have written: "WriteError headers request err =
      writeProblem headers (fst (status_of_class ?cls)) ?cls ?code (snd (status_of_class ?cls)) (requestID request)"
    using assms(1) by (cases err)
      (simp_all add: WriteError_def public_error_def known_error_def split_beta status_internal)
  have "utf8_valid (''https://thinkpixel.dev/problems/'' @ ?cls @ ''/'' @ ?code)"
    using utf8_valid_append [OF class_ascii [OF cls]] code by simp
  from problem_parses [OF this class_status(1) [OF cls] code assms(2)] class_status(2) [OF cls] show ?thesis
    unfolding written writeProblem_def by (intro exI conjI) (rule refl, simp_all)
qed

theorem problem_documents_faithful_witness:
  "\<exists>r title. WriteError [] sample_request (PlainError ''password'') = Responded r \<and> resp_Status r = 500 \<and>
    json_parse (resp_Body r) = Some (problem_json ''https://thinkpixel.dev/problems/internal/internal_error'' title 500
      ''internal_error'' [])"
  using problem_documents_faithful [of "PlainError ''password''" sample_request "[]"]
  by (auto simp: known_error_def public_error_def requestID_def sample_request_def CorrelationFromContext_def
      zero_Correlation_def error_classes_def status_of_class_def)

subsection \<open>Queries\<close>


lemma WriteError_query [simp]: "WriteError headers (request\<lparr>req_RawQuery := raw\<rparr>) err = WriteError headers request err"
  by (cases err) (simp_all add: WriteError_def requestID_def)



subsection \<open>Metrics\<close>

text \<open>
  However a registry is used, its series have labels of the fixed vocabulary only, and a success is
  never recorded with a reason.
\<close>

theorem metric_labels_bounded:
  assumes "metrics_step\<^sup>*\<^sup>* NewRegistry r"
  shows "{s. mreg_operations r s \<noteq> 0} \<subseteq> operation_series \<and>
    {s. mreg_dependencyDuration r s \<noteq> []} \<subseteq> dependency_series \<and> {s. mreg_revocations r s \<noteq> 0} \<subseteq> severities"
  using reachable_bounded_labels [OF assms bounded_labels_New] by (simp add: bounded_labels_def)

theorem metric_labels_bounded_witness:
  "\<exists>r. RecordOperation ''api'' ''failed'' ''invalid'' NewRegistry = Some r \<and>
    {s. mreg_operations r s \<noteq> 0} \<subseteq> operation_series"
proof -
  obtain r where r: "RecordOperation ''api'' ''failed'' ''invalid'' NewRegistry = Some r"
    by (simp add: RecordOperation_def validOperation_def validOutcome_def validReason_def OutcomeSucceeded_def
        OutcomeFailed_def ReasonInvalid_def Let_def)
  then have "metrics_step\<^sup>*\<^sup>* NewRegistry r" by (blast intro: metrics_step.operation)
  from metric_labels_bounded [OF this] r show ?thesis by blast
qed

end
