(* ===== verification/Spec2Isabelle.thy ===== *)
theory Spec2Isabelle
  imports Domain_Properties Store_Properties Service_Properties Catalog_Properties Artifact_Descriptors
    Identity_Properties Log_Properties Http_Properties
begin

text \<open>
  ThinkPixelMP, a trust and catalog service for agent artifacts (Go sources under \<open>src/\<close>).

  \<^bold>\<open>The program.\<close> A request comes in over HTTP (\<open>internal/adapters/http\<close>), is authenticated against an
  OpenID provider or, in development, a fixed identity (\<open>internal/adapters/oidc\<close>, \<open>localauth\<close>), and is handed
  to a use case of \<open>internal/app/publication\<close>. The use case asks the authorizer (\<open>internal/security\<close>), claims
  the caller's idempotency key, builds domain values (\<open>internal/domain\<close>) and stores them with an audit fact,
  and for delegations an event of the outbox, in one PostgreSQL transaction (\<open>internal/adapters/postgres\<close>,
  \<open>migrations\<close>). Lists are paged by authenticated cursors. Around it are the configuration
  (\<open>internal/config\<close>), the event log and the metrics (\<open>internal/telemetry\<close>).

  \<^bold>\<open>The model.\<close> A Go value is a record or datatype with the source's fields, a string is the list of its
  bytes, an instant a number of nanoseconds since year 1, an integer is kept in its range where it can leave
  it, and a function that returns an error has a result \<open>error + value\<close>. Code that reaches the database is a
  function on \<open>World\<close> (\<open>Database\<close>): the tables, the states the open transactions roll back to, and a counter
  of interactions, at each of which the environment \<open>Env\<close> may let the driver fail.

  \<^item> Go's library: \<open>Go_Text\<close> (runes, UTF-8, spaces), \<open>Go_Json\<close> and \<open>Json_Roundtrip\<close> (encoder, decoder, and that
    the second inverts the first), \<open>Go_Regexp\<close> (the patterns, by derivatives), \<open>Sha256\<close>, \<open>Go_Time\<close>, \<open>Go_URL\<close>,
    \<open>Go_Float\<close>, \<open>Go_Process\<close> (numbers, durations, flags), \<open>Go_Http\<close> (streams, queries, paths). \<open>Prelude\<close> has what
    all share.
  \<^item> \<open>internal/domain\<close>: \<open>Shared\<close>, \<open>Cursors\<close>, \<open>Publishers\<close>, \<open>Namespaces\<close>, \<open>Idempotency\<close>, \<open>Audit_Events\<close>, \<open>Outbox\<close>,
    \<open>Artifacts\<close>, \<open>Artifact_Versions\<close>, \<open>Artifact_Sources\<close>; \<open>Metadata_Json\<close> with \<open>Artifact_Descriptors\<close>,
    \<open>Artifact_Requirements\<close> and \<open>Artifact_Dependencies\<close>. \<open>Lifecycle\<close> is the contract of the aggregates with an
    append-only state history.
  \<^item> \<open>internal/security\<close> and the ports: \<open>Authorizer\<close>. \<open>internal/adapters/oidc\<close>, \<open>localauth\<close>: \<open>Identity_Providers\<close>.
  \<^item> \<open>internal/adapters/postgres\<close>: \<open>Database\<close> (tables, statements, transactions and savepoints), \<open>Audit_Repository\<close>,
    \<open>Publisher_Repository\<close>, \<open>Namespace_Repository\<close>, \<open>Idempotency_Repository\<close>, \<open>Outbox_Repository\<close>,
    \<open>Artifact_Repository\<close>, each with the SQL it sends and the constraints and triggers of its tables.
  \<^item> \<open>internal/app/publication\<close>: \<open>Publication\<close> and \<open>Resource_Commands\<close> (what the commands share), \<open>Publisher_Service\<close>,
    \<open>Namespace_Service\<close>, \<open>Delegation_Events\<close>, \<open>Delegation_Service\<close>, \<open>Artifact_Service\<close>.
  \<^item> \<open>internal/adapters/http\<close>: \<open>Http_Adapter\<close> (requests, responses, errors, and the handlers the three resources
    have in common), \<open>Http_Resources\<close> (the resources, the middleware, the routes of the server).
  \<^item> \<open>internal/config\<close>: \<open>Configuration\<close> (settings, validation, secrets), \<open>Config_Load\<close> (file, environment, flags),
    \<open>Config_Sources\<close> (which source decides). \<open>internal/telemetry\<close>: \<open>Log_Sanitizer\<close>, \<open>Event_Log\<close>, \<open>Metrics\<close>.

  \<^bold>\<open>Interfaces.\<close> \<open>versioned_lifecycle\<close> (\<open>Lifecycle\<close>) is interpreted on Publishers and delegations;
  \<open>idempotency_store\<close> (\<open>Publication\<close>) says what claiming and completing a key promise, and every command is
  proved once inside it and rests on its interpretation \<open>idem\<close> on the repository; \<open>authenticator\<close>
  (\<open>Identity_Providers\<close>) is what the use cases need of an identity, with both providers as instances;
  \<open>resource_use_cases\<close> and its extension \<open>keyed_use_cases\<close> (\<open>Http_Laws\<close>) are what a handler needs of its use
  cases (commands are atomic, queries only read, a key is bound to one resource), with the three resources as
  instances.

  \<^bold>\<open>What is shown.\<close> \<open>Domain_Properties\<close>: the languages the parsers accept, the state machines, authorization.
  \<open>Store_Properties\<close>: the repositories refine maps, compare and swap, ownership resolution, keys.
  \<open>Store_Invariant\<close>: one invariant of all tables, kept by every operation whatever fails. \<open>Progress\<close>: weakest
  preconditions for total correctness, by which well-formed commands are shown to be carried out.
  \<open>Service_Properties\<close>: what each command did when it succeeded, that it leaves no trace when it fails, that it
  happens once for its key. \<open>Catalog_Properties\<close>: event delivery, cursors, listing. \<open>Config_Properties\<close>,
  \<open>Identity_Properties\<close>, \<open>Log_Properties\<close>: which source decides a setting, who an accepted token is, what can
  reach a log. \<open>Http_Properties\<close>: which requests change the store, that a key answers with one location, that
  what was created is served, limits on bodies, panics, problem documents. The theories \<open>Samples\<close>,
  \<open>Sample_Store\<close>, \<open>Sample_Services\<close> and \<open>Sample_Messages\<close> hold the concrete stores and requests the witnesses run.

  \<^bold>\<open>Bounds and fuel.\<close> The JSON reader has fuel \<open>2 * length + 2\<close>, which \<open>need_le_length\<close> shows to be enough for
  what the encoder writes and which no run exceeds since each call consumes input; it refuses nesting beyond
  10000 as Go does. The log sanitizer stops at depth 8 and is total. All other recursions terminate by
  structure or by a measure, and no loop of the model is partial.

  \<^bold>\<open>Parameters.\<close> Code outside \<open>src/\<close> is an argument: the driver's faults, PostgreSQL's clock, identifiers,
  rounding of instants, interval arithmetic, spaces above ASCII and \<open>ILIKE\<close> (\<open>Env\<close>); the files of the
  configuration and the encoder of its printed form; the token library of the OpenID verifier; Unicode's lower
  case and printable characters above ASCII; the trace of a request; the metrics exposition handler.

  \<^bold>\<open>Assumptions of the model.\<close> \<open>[[:cntrl:]]\<close> of the server is Go's set of control characters; a float is an IEEE
  754 double rounded to nearest; a request reaches the handler with a path that begins with a slash; when a
  function returns a value next to an error, callers do not use the value, which is not kept.

  \<^bold>\<open>Not modelled.\<close> Constructors that only reject missing dependencies; row-level security policies and deferred
  audit triggers of the schema; locks and the interleaving of concurrent transactions (a transaction runs
  alone); the repositories of descriptors, requirements and dependencies, which rest on PostgreSQL's \<open>jsonb\<close>
  equality and operators; the multiplexer's redirects beyond their target; listening and shutdown of the
  server; tracing, the printing of log records and the exposition of metrics, which are libraries; the runner
  of the migrations, the commands and the scripts that check the source tree; and the wording of errors.
\<close>

end
